(* ===== verification/GoPrelude.thy ===== *)
theory GoPrelude
  imports Main "HOL-Library.AList"
begin

text \<open>
  Shared vocabulary of the development: the outcome of a Go call, the state-and-error monad
  the engine is written in, the strings and decimal numbers of the Go standard library that
  the sources use, and the two families of structural rules (\<open>keeps\<close> and \<open>approx\<close>)
  with which properties of the engine are proved definition by definition.
\<close>

named_theorems approx_intros
  \<open>structural rules: a computation only becomes more defined when its callees do\<close>
named_theorems go_simps
  \<open>evaluation rules of the monad\<close>

section \<open>White space and decimal numbers\<close>

definition is_space :: "char \<Rightarrow> bool" where
  "is_space c \<longleftrightarrow> (let n = (of_char c :: nat) in n = 32 \<or> (9 \<le> n \<and> n \<le> 13))"

definition trim_space :: "string \<Rightarrow> string" where
  "trim_space s = rev (dropWhile is_space (rev (dropWhile is_space s)))"

definition digit_char :: "nat \<Rightarrow> char" where
  "digit_char d = char_of (48 + d)"

fun show_nat :: "nat \<Rightarrow> string" where
  "show_nat n = (if n < 10 then [digit_char n] else show_nat (n div 10) @ [digit_char (n mod 10)])"

declare show_nat.simps [simp del]

text \<open>\<open>strconv.FormatInt(i, 10)\<close> and \<open>fmt.Sprintf("%d", i)\<close>.\<close>

definition show_int :: "int \<Rightarrow> string" where
  "show_int i = (if i < 0 then ''-'' @ show_nat (nat (- i)) else show_nat (nat i))"

section \<open>Errors and outcomes\<close>

text \<open>
  A Go error value. \<open>Wrapf\<close> is \<open>fmt.Errorf("...: %w", err)\<close>, which keeps the cause visible to
  \<open>errors.As\<close>; an error formatted with \<open>%v\<close> is flattened to \<open>Msg\<close>.
\<close>

datatype go_err =
    NotFound                      \<comment> \<open>\<open>gorm.ErrRecordNotFound\<close>\<close>
  | DupKey                        \<comment> \<open>primary key violation\<close>
  | MissingWhere                  \<comment> \<open>\<open>gorm.ErrMissingWhereClause\<close>: update of a row with key 0\<close>
  | DbErr                         \<comment> \<open>the database call failed\<close>
  | PubErr                        \<comment> \<open>the event publisher failed\<close>
  | Msg string
  | Wrapf string go_err
  | BpmnError string string       \<comment> \<open>\<open>BpmnError{ErrorCode, ErrorMessage}\<close>\<close>
  | EvalError string string string \<comment> \<open>\<open>ExpressionEvaluationError{Kind, Code, Cause}\<close>\<close>
  | ZitadelError int string string \<comment> \<open>\<open>ZITADELError{StatusCode, Code, Message}\<close>\<close>

primrec err_string :: "go_err \<Rightarrow> string" where
  "err_string NotFound = ''record not found''"
| "err_string DupKey = ''duplicate key value violates unique constraint''"
| "err_string MissingWhere = ''WHERE conditions required''"
| "err_string DbErr = ''database error''"
| "err_string PubErr = ''publish error''"
| "err_string (Msg m) = m"
| "err_string (Wrapf m e) = m @ '': '' @ err_string e"
| "err_string (BpmnError c m) = ''BPMN Error ['' @ c @ '']: '' @ m"
| "err_string (EvalError k c m) = k @ '' evaluation '' @ c @ '': '' @ m"
| "err_string (ZitadelError n c m) = ''ZITADEL request failed with status '' @ show_int n @
     (if trim_space c = [] then [] else '' ('' @ trim_space c @ '')'')"

text \<open>\<open>errors.As(err, &bpmnErr)\<close>: the first \<open>BpmnError\<close> of the wrap chain.\<close>

fun as_bpmn_error :: "go_err \<Rightarrow> (string \<times> string) option" where
  "as_bpmn_error (BpmnError c m) = Some (c, m)"
| "as_bpmn_error (Wrapf _ e) = as_bpmn_error e"
| "as_bpmn_error _ = None"

fun as_eval_error :: "go_err \<Rightarrow> (string \<times> string) option" where
  "as_eval_error (EvalError k c _) = Some (k, c)"
| "as_eval_error (Wrapf _ e) = as_eval_error e"
| "as_eval_error _ = None"

text \<open>
  What a call can do: return a value, return an error, panic (a runtime panic such as an index
  out of range unwinds the goroutine, no error branch of the source catches it), or not return
  within the fuel of the model.
\<close>

datatype 'a outcome = Ok 'a | Error go_err | Panic string | Diverged

text \<open>Outcomes under the flat order: \<open>Diverged\<close> below everything, all else incomparable.\<close>

instantiation outcome :: (type) order_bot
begin

definition bot_outcome :: "'a outcome" where
  "bot_outcome = Diverged"

definition less_eq_outcome :: "'a outcome \<Rightarrow> 'a outcome \<Rightarrow> bool" where
  "less_eq_outcome x y \<longleftrightarrow> x = Diverged \<or> x = y"

definition less_outcome :: "'a outcome \<Rightarrow> 'a outcome \<Rightarrow> bool" where
  "less_outcome x y \<longleftrightarrow> x = Diverged \<and> y \<noteq> Diverged"

instance
  by standard (auto simp: bot_outcome_def less_eq_outcome_def less_outcome_def)

end

section \<open>The monad\<close>

text \<open>
  A Go function over the engine's state. The state is returned also when the call fails: an
  error of Go undoes nothing, only the transaction around it does.
\<close>

type_synonym ('s, 'a) go = "'s \<Rightarrow> 'a outcome \<times> 's"

definition ret :: "'a \<Rightarrow> ('s, 'a) go" where
  "ret x = (\<lambda>s. (Ok x, s))"

definition throw :: "go_err \<Rightarrow> ('s, 'a) go" where
  "throw e = (\<lambda>s. (Error e, s))"

definition panic :: "string \<Rightarrow> ('s, 'a) go" where
  "panic m = (\<lambda>s. (Panic m, s))"

definition diverge :: "('s, 'a) go" where
  "diverge = (\<lambda>s. (Diverged, s))"

definition bindE :: "('s, 'a) go \<Rightarrow> ('a \<Rightarrow> ('s, 'b) go) \<Rightarrow> ('s, 'b) go" where
  "bindE m f = (\<lambda>s. case m s of (r, s') \<Rightarrow>
     (case r of Ok x \<Rightarrow> f x s' | Error e \<Rightarrow> (Error e, s') | Panic p \<Rightarrow> (Panic p, s')
      | Diverged \<Rightarrow> (Diverged, s')))"

text \<open>\<open>thenE m k\<close> runs \<open>k\<close> after \<open>m\<close> returned: \<open>if err := m; err != nil { return err }; k\<close>.\<close>

definition thenE :: "('s, 'a) go \<Rightarrow> ('s, 'b) go \<Rightarrow> ('s, 'b) go" where
  "thenE m k = bindE m (\<lambda>_. k)"

text \<open>\<open>tryE m\<close> hands the error of \<open>m\<close> to the caller as a value: \<open>x, err := m\<close>.\<close>

definition tryE :: "('s, 'a) go \<Rightarrow> ('s, go_err + 'a) go" where
  "tryE m = (\<lambda>s. case m s of (r, s') \<Rightarrow>
     (case r of Ok x \<Rightarrow> (Ok (Inr x), s') | Error e \<Rightarrow> (Ok (Inl e), s') | Panic p \<Rightarrow> (Panic p, s')
      | Diverged \<Rightarrow> (Diverged, s')))"

text \<open>\<open>ignoreE m\<close> drops value and error: \<open>_ = m\<close>.\<close>

definition ignoreE :: "('s, 'a) go \<Rightarrow> ('s, unit) go" where
  "ignoreE m = bindE (tryE m) (\<lambda>_. ret ())"

text \<open>\<open>mapErr h m\<close> rewrites the error of \<open>m\<close>: \<open>if err != nil { return fmt.Errorf(...) }\<close>.\<close>

definition mapErr :: "(go_err \<Rightarrow> go_err) \<Rightarrow> ('s, 'a) go \<Rightarrow> ('s, 'a) go" where
  "mapErr h m = bindE (tryE m) (\<lambda>r. case r of Inl e \<Rightarrow> throw (h e) | Inr x \<Rightarrow> ret x)"

definition gets :: "('s \<Rightarrow> 'a) \<Rightarrow> ('s, 'a) go" where
  "gets f = (\<lambda>s. (Ok (f s), s))"

definition modifyS :: "('s \<Rightarrow> 's) \<Rightarrow> ('s, unit) go" where
  "modifyS f = (\<lambda>s. (Ok (), f s))"

text \<open>A pure result that may fail.\<close>

definition liftR :: "go_err + 'a \<Rightarrow> ('s, 'a) go" where
  "liftR r = (case r of Inl e \<Rightarrow> throw e | Inr x \<Rightarrow> ret x)"

primrec forE :: "'x list \<Rightarrow> ('x \<Rightarrow> ('s, unit) go) \<Rightarrow> ('s, unit) go" where
  "forE [] f = ret ()"
| "forE (x # xs) f = thenE (f x) (forE xs f)"

primrec foldE :: "('acc \<Rightarrow> 'x \<Rightarrow> ('s, 'acc) go) \<Rightarrow> 'acc \<Rightarrow> 'x list \<Rightarrow> ('s, 'acc) go" where
  "foldE f a [] = ret a"
| "foldE f a (x # xs) = bindE (f a x) (\<lambda>a'. foldE f a' xs)"

text \<open>Slice indexing \<open>xs[i]\<close> panics out of range.\<close>

definition indexE :: "'x list \<Rightarrow> nat \<Rightarrow> ('s, 'x) go" where
  "indexE xs i = (if i < length xs then ret (xs ! i) else panic ''index out of range'')"

lemma ret_apply [go_simps]: "ret x s = (Ok x, s)"
  by (simp add: ret_def)

lemma throw_apply [go_simps]: "throw e s = (Error e, s)"
  by (simp add: throw_def)

lemma panic_apply [go_simps]: "panic m s = (Panic m, s)"
  by (simp add: panic_def)

lemma diverge_apply [go_simps]: "diverge s = (Diverged, s)"
  by (simp add: diverge_def)

lemma bindE_apply [go_simps]:
  "bindE m f s = (case m s of (r, s') \<Rightarrow>
     (case r of Ok x \<Rightarrow> f x s' | Error e \<Rightarrow> (Error e, s') | Panic p \<Rightarrow> (Panic p, s')
      | Diverged \<Rightarrow> (Diverged, s')))"
  by (simp add: bindE_def)

lemma thenE_apply [go_simps]:
  "thenE m k s = (case m s of (r, s') \<Rightarrow>
     (case r of Ok x \<Rightarrow> k s' | Error e \<Rightarrow> (Error e, s') | Panic p \<Rightarrow> (Panic p, s')
      | Diverged \<Rightarrow> (Diverged, s')))"
  by (simp add: thenE_def bindE_def)

lemma tryE_apply [go_simps]:
  "tryE m s = (case m s of (r, s') \<Rightarrow>
     (case r of Ok x \<Rightarrow> (Ok (Inr x), s') | Error e \<Rightarrow> (Ok (Inl e), s') | Panic p \<Rightarrow> (Panic p, s')
      | Diverged \<Rightarrow> (Diverged, s')))"
  by (simp add: tryE_def)

lemma ignoreE_apply [go_simps]:
  "ignoreE m s = (case m s of (r, s') \<Rightarrow>
     (case r of Ok x \<Rightarrow> (Ok (), s') | Error e \<Rightarrow> (Ok (), s') | Panic p \<Rightarrow> (Panic p, s')
      | Diverged \<Rightarrow> (Diverged, s')))"
  by (simp add: ignoreE_def bindE_def tryE_def ret_def split: prod.split outcome.split)

lemma mapErr_apply [go_simps]:
  "mapErr h m s = (case m s of (r, s') \<Rightarrow>
     (case r of Ok x \<Rightarrow> (Ok x, s') | Error e \<Rightarrow> (Error (h e), s') | Panic p \<Rightarrow> (Panic p, s')
      | Diverged \<Rightarrow> (Diverged, s')))"
  by (simp add: mapErr_def bindE_def tryE_def ret_def throw_def split: prod.split outcome.split)

lemma gets_apply [go_simps]: "gets f s = (Ok (f s), s)"
  by (simp add: gets_def)

lemma modifyS_apply [go_simps]: "modifyS f s = (Ok (), f s)"
  by (simp add: modifyS_def)

lemma liftR_Inl [simp]: "liftR (Inl e) = throw e"
  by (simp add: liftR_def)

lemma liftR_Inr [simp]: "liftR (Inr x) = ret x"
  by (simp add: liftR_def)

lemma bindE_ret [simp]: "bindE (ret x) f = f x"
  by (simp add: bindE_def ret_def)

lemma bindE_ret_right [simp]: "bindE m ret = m"
  by (simp add: bindE_def ret_def fun_eq_iff split: prod.split outcome.split)

lemma bindE_assoc: "bindE (bindE m f) g = bindE m (\<lambda>x. bindE (f x) g)"
  by (simp add: bindE_def fun_eq_iff split: prod.split outcome.split)

section \<open>Structural rules\<close>

text \<open>
  \<open>keeps R m\<close>: whatever \<open>m\<close> does (return, fail, panic, run out of fuel), the state it leaves
  is related to the state it started in. The rules below hold for any preorder \<open>R\<close>.
\<close>

definition keeps :: "('s \<Rightarrow> 's \<Rightarrow> bool) \<Rightarrow> ('s, 'a) go \<Rightarrow> bool" where
  "keeps R m \<longleftrightarrow> (\<forall>s. R s (snd (m s)))"

lemma keepsI: "(\<And>s. R s (snd (m s))) \<Longrightarrow> keeps R m"
  by (simp add: keeps_def)

lemma keepsD: "keeps R m \<Longrightarrow> m s = (r, s') \<Longrightarrow> R s s'"
  by (metis keeps_def snd_conv)

lemma snd_tryE: "snd (tryE m s) = snd (m s)"
  by (cases "m s"; cases "fst (m s)") (simp_all add: tryE_def)

locale preorder_on_states =
  fixes R :: "'s \<Rightarrow> 's \<Rightarrow> bool"
  assumes R_refl: "R s s"
    and R_trans: "R s t \<Longrightarrow> R t u \<Longrightarrow> R s u"
begin

lemma keeps_ret: "keeps R (ret x)"
  by (simp add: keeps_def ret_def R_refl)

lemma keeps_throw: "keeps R (throw e)"
  by (simp add: keeps_def throw_def R_refl)

lemma keeps_panic: "keeps R (panic m)"
  by (simp add: keeps_def panic_def R_refl)

lemma keeps_diverge: "keeps R diverge"
  by (simp add: keeps_def diverge_def R_refl)

lemma keeps_gets: "keeps R (gets f)"
  by (simp add: keeps_def gets_def R_refl)

lemma keeps_bindE:
  assumes "keeps R m" and "\<And>x. keeps R (f x)"
  shows "keeps R (bindE m f)"
proof (rule keepsI)
  fix s
  show "R s (snd (bindE m f s))"
  proof (cases "m s")
    case (Pair r s')
    with assms(1) have "R s s'" by (rule keepsD)
    moreover have "R s' (snd (f x s'))" for x
      using assms(2) by (simp add: keeps_def)
    ultimately show ?thesis
      using Pair by (auto simp: bindE_def intro: R_trans split: outcome.split)
  qed
qed

lemma keeps_thenE: "keeps R m \<Longrightarrow> keeps R k \<Longrightarrow> keeps R (thenE m k)"
  by (simp add: thenE_def keeps_bindE)

lemma keeps_tryE: "keeps R m \<Longrightarrow> keeps R (tryE m)"
  by (simp add: keeps_def snd_tryE)

lemma keeps_ignoreE: "keeps R m \<Longrightarrow> keeps R (ignoreE m)"
  by (simp add: ignoreE_def keeps_bindE keeps_tryE keeps_ret)

lemma keeps_mapErr: "keeps R m \<Longrightarrow> keeps R (mapErr h m)"
  by (auto simp: mapErr_def intro!: keeps_bindE keeps_tryE keeps_ret keeps_throw split: sum.split)

lemma keeps_liftR: "keeps R (liftR r)"
  by (cases r) (simp_all add: keeps_ret keeps_throw)

lemma keeps_forE: "(\<And>x. x \<in> set xs \<Longrightarrow> keeps R (f x)) \<Longrightarrow> keeps R (forE xs f)"
  by (induction xs) (auto intro: keeps_ret keeps_thenE)

lemma keeps_foldE: "(\<And>a x. keeps R (f a x)) \<Longrightarrow> keeps R (foldE f a xs)"
  by (induction xs arbitrary: a) (auto intro: keeps_ret keeps_bindE)

lemma keeps_indexE: "keeps R (indexE xs i)"
  by (simp add: indexE_def keeps_ret keeps_panic)

lemmas keeps_rules =
  keeps_ret keeps_throw keeps_panic keeps_diverge keeps_gets keeps_bindE keeps_thenE
  keeps_tryE keeps_ignoreE keeps_mapErr keeps_liftR keeps_forE keeps_foldE keeps_indexE

end

text \<open>Case distinctions of any shape; these need nothing of \<open>R\<close>.\<close>

lemma keeps_if: "keeps R a \<Longrightarrow> keeps R b \<Longrightarrow> keeps R (if c then a else b)"
  by simp

lemma keeps_option: "keeps R a \<Longrightarrow> (\<And>x. keeps R (b x)) \<Longrightarrow> keeps R (case v of None \<Rightarrow> a | Some x \<Rightarrow> b x)"
  by (cases v) simp_all

lemma keeps_sum: "(\<And>x. keeps R (a x)) \<Longrightarrow> (\<And>x. keeps R (b x)) \<Longrightarrow>
  keeps R (case v of Inl x \<Rightarrow> a x | Inr x \<Rightarrow> b x)"
  by (cases v) simp_all

lemma keeps_prod: "(\<And>x y. keeps R (a x y)) \<Longrightarrow> keeps R (case v of (x, y) \<Rightarrow> a x y)"
  by (cases v) simp

lemma keeps_list: "keeps R a \<Longrightarrow> (\<And>x xs. keeps R (b x xs)) \<Longrightarrow>
  keeps R (case v of [] \<Rightarrow> a | x # xs \<Rightarrow> b x xs)"
  by (cases v) simp_all

lemma keeps_Let: "(\<And>x. keeps R (f x)) \<Longrightarrow> keeps R (Let v f)"
  by simp

lemma keeps_bool: "keeps R a \<Longrightarrow> keeps R b \<Longrightarrow> keeps R (case c of True \<Rightarrow> a | False \<Rightarrow> b)"
  by (cases c) simp_all

lemmas keeps_cases = keeps_if keeps_bool keeps_option keeps_sum keeps_prod keeps_list keeps_Let

text \<open>
  \<open>approx m m'\<close>: from every state \<open>m\<close> either runs out of fuel or does exactly what \<open>m'\<close> does.
\<close>

definition approx :: "('s, 'a) go \<Rightarrow> ('s, 'a) go \<Rightarrow> bool" where
  "approx m m' \<longleftrightarrow> (\<forall>s. fst (m s) = Diverged \<or> m s = m' s)"

lemma approxI: "(\<And>s. fst (m s) \<noteq> Diverged \<Longrightarrow> m s = m' s) \<Longrightarrow> approx m m'"
  by (auto simp: approx_def)

lemma approxD: "approx m m' \<Longrightarrow> m s = (r, s') \<Longrightarrow> r \<noteq> Diverged \<Longrightarrow> m' s = (r, s')"
  by (metis approx_def fst_conv)

lemma approx_refl [approx_intros]: "approx m m"
  by (simp add: approx_def)

lemma approx_trans: "approx a b \<Longrightarrow> approx b c \<Longrightarrow> approx a c"
  by (metis approx_def)

lemma approx_diverge: "approx diverge m"
  by (simp add: approx_def diverge_def)

lemma approx_bindE [approx_intros]:
  assumes "approx m m'" and "\<And>x. approx (f x) (f' x)"
  shows "approx (bindE m f) (bindE m' f')"
proof (rule approxI)
  fix s
  assume nd: "fst (bindE m f s) \<noteq> Diverged"
  obtain r s' where ms: "m s = (r, s')" by (cases "m s")
  with nd have "r \<noteq> Diverged" by (auto simp: bindE_def)
  with assms(1) ms have ms': "m' s = (r, s')" by (rule approxD)
  show "bindE m f s = bindE m' f' s"
  proof (cases r)
    case (Ok x)
    with nd ms have "fst (f x s') \<noteq> Diverged" by (simp add: bindE_def)
    with assms(2) have "f x s' = f' x s'" by (metis approx_def)
    with Ok ms ms' show ?thesis by (simp add: bindE_def)
  qed (use ms ms' in \<open>simp_all add: bindE_def\<close>)
qed

lemma approx_thenE [approx_intros]:
  "approx m m' \<Longrightarrow> approx k k' \<Longrightarrow> approx (thenE m k) (thenE m' k')"
  by (simp add: thenE_def approx_bindE)

lemma approx_tryE [approx_intros]: "approx m m' \<Longrightarrow> approx (tryE m) (tryE m')"
proof (rule approxI)
  fix s
  assume "approx m m'" and nd: "fst (tryE m s) \<noteq> Diverged"
  from nd have "fst (m s) \<noteq> Diverged"
    by (cases "m s") (auto simp: tryE_def)
  with \<open>approx m m'\<close> have "m s = m' s" by (auto simp: approx_def)
  then show "tryE m s = tryE m' s" by (simp add: tryE_def)
qed

lemma approx_ignoreE [approx_intros]: "approx m m' \<Longrightarrow> approx (ignoreE m) (ignoreE m')"
  by (simp add: ignoreE_def approx_bindE approx_tryE approx_refl)

lemma approx_mapErr [approx_intros]: "approx m m' \<Longrightarrow> approx (mapErr h m) (mapErr h m')"
  by (simp add: mapErr_def approx_bindE approx_tryE approx_refl)

lemma approx_forE [approx_intros]:
  "(\<And>x. approx (f x) (f' x)) \<Longrightarrow> approx (forE xs f) (forE xs f')"
  by (induction xs) (auto intro: approx_refl approx_thenE)

lemma approx_foldE [approx_intros]:
  "(\<And>a x. approx (f a x) (f' a x)) \<Longrightarrow> approx (foldE f a xs) (foldE f' a xs)"
  by (induction xs arbitrary: a) (auto intro: approx_refl approx_bindE)

lemma approx_if [approx_intros]:
  "approx a a' \<Longrightarrow> approx b b' \<Longrightarrow> approx (if c then a else b) (if c then a' else b')"
  by simp

lemma approx_option [approx_intros]:
  "approx a a' \<Longrightarrow> (\<And>x. approx (b x) (b' x)) \<Longrightarrow>
   approx (case v of None \<Rightarrow> a | Some x \<Rightarrow> b x) (case v of None \<Rightarrow> a' | Some x \<Rightarrow> b' x)"
  by (cases v) simp_all

lemma approx_sum [approx_intros]:
  "(\<And>x. approx (a x) (a' x)) \<Longrightarrow> (\<And>x. approx (b x) (b' x)) \<Longrightarrow>
   approx (case v of Inl x \<Rightarrow> a x | Inr x \<Rightarrow> b x) (case v of Inl x \<Rightarrow> a' x | Inr x \<Rightarrow> b' x)"
  by (cases v) simp_all

lemma approx_prod [approx_intros]:
  "(\<And>x y. approx (a x y) (a' x y)) \<Longrightarrow>
   approx (case v of (x, y) \<Rightarrow> a x y) (case v of (x, y) \<Rightarrow> a' x y)"
  by (cases v) simp

lemma approx_list [approx_intros]:
  "approx a a' \<Longrightarrow> (\<And>x xs. approx (b x xs) (b' x xs)) \<Longrightarrow>
   approx (case v of [] \<Rightarrow> a | x # xs \<Rightarrow> b x xs) (case v of [] \<Rightarrow> a' | x # xs \<Rightarrow> b' x xs)"
  by (cases v) simp_all

lemma approx_Let [approx_intros]:
  "(\<And>x. approx (f x) (f' x)) \<Longrightarrow> approx (Let v f) (Let v f')"
  by simp

end
