(* ===== verification/GoValues.thy ===== *)
theory GoValues
  imports GoPrelude Complex_Main "HOL-Library.Char_ord" "HOL-Library.List_Lexorder"
begin

text \<open>
  Strings, decimal numbers and dynamic values of Go, as far as the sources use them:
  \<open>strings.TrimSpace\<close> and its kin on byte strings, \<open>strconv.ParseInt\<close> and \<open>FormatInt\<close>, the
  interface type \<open>any\<close> as a datatype, what \<open>encoding/json\<close> makes of a value that is stored
  and read back, \<open>reflect.DeepEqual\<close>, and the \<open>%v\<close> verb of \<open>fmt\<close>.

  A Go map is an association list with distinct keys: iteration follows the list, one of the
  orders the Go runtime may choose, and since the lists of a theorem are arbitrary, so is that
  order. A nil map and an empty map are both \<open>[]\<close>; the sources only look keys up and iterate.
  White space and letter case are those of ASCII.
\<close>

section \<open>Strings\<close>

definition lower_char :: "char \<Rightarrow> char" where
  "lower_char c = (let n = (of_char c :: nat) in if 65 \<le> n \<and> n \<le> 90 then char_of (n + 32) else c)"

definition upper_char :: "char \<Rightarrow> char" where
  "upper_char c = (let n = (of_char c :: nat) in if 97 \<le> n \<and> n \<le> 122 then char_of (n - 32) else c)"

definition to_lower :: "string \<Rightarrow> string" where
  "to_lower s = map lower_char s"

definition to_upper :: "string \<Rightarrow> string" where
  "to_upper s = map upper_char s"

definition has_prefix :: "string \<Rightarrow> string \<Rightarrow> bool" where
  "has_prefix s p \<longleftrightarrow> take (length p) s = p"

text \<open>\<open>strings.Contains\<close>.\<close>

fun contains_str :: "string \<Rightarrow> string \<Rightarrow> bool" where
  "contains_str [] p \<longleftrightarrow> p = []"
| "contains_str (c # s) p \<longleftrightarrow> has_prefix (c # s) p \<or> contains_str s p"

definition has_suffix :: "string \<Rightarrow> string \<Rightarrow> bool" where
  "has_suffix s p \<longleftrightarrow> length p \<le> length s \<and> drop (length s - length p) s = p"

lemma dropWhile_idem [simp]: "dropWhile P (dropWhile P xs) = dropWhile P xs"
  by (induction xs) auto

lemma hd_dropWhile_not: "dropWhile P xs \<noteq> [] \<Longrightarrow> \<not> P (hd (dropWhile P xs))"
  by (induction xs) auto

lemma dropWhile_rev_dropWhile:
  assumes "xs = [] \<or> \<not> P (hd xs)"
  shows "let ys = rev (dropWhile P (rev xs)) in ys = [] \<or> \<not> P (hd ys)"
proof (cases "rev (dropWhile P (rev xs)) = []")
  case True
  then show ?thesis by (simp add: Let_def)
next
  case False
  have split: "xs = rev (dropWhile P (rev xs)) @ rev (takeWhile P (rev xs))"
    by (metis rev_append rev_rev_ident takeWhile_dropWhile_id)
  from False have "hd xs = hd (rev (dropWhile P (rev xs)))"
    by (subst split) (rule hd_append2)
  with assms False split show ?thesis
    by (metis append_is_Nil_conv)
qed

text \<open>Trimming twice is trimming once.\<close>

lemma trim_space_idem [simp]: "trim_space (trim_space s) = trim_space s"
proof -
  let ?a = "dropWhile is_space s"
  let ?b = "rev (dropWhile is_space (rev ?a))"
  have "?a = [] \<or> \<not> is_space (hd ?a)" using hd_dropWhile_not by blast
  then have "?b = [] \<or> \<not> is_space (hd ?b)"
    using dropWhile_rev_dropWhile [of ?a is_space] by (simp add: Let_def)
  then have "dropWhile is_space ?b = ?b"
    by (metis dropWhile_eq_self_iff)
  then show ?thesis by (simp add: trim_space_def)
qed

lemma trim_space_Nil [simp]: "trim_space [] = []"
  by (simp add: trim_space_def)

section \<open>Decimal numbers\<close>

definition is_digit :: "char \<Rightarrow> bool" where
  "is_digit c \<longleftrightarrow> (let n = (of_char c :: nat) in 48 \<le> n \<and> n \<le> 57)"

definition digit_val :: "char \<Rightarrow> nat" where
  "digit_val c = of_char c - 48"

fun parse_digits :: "string \<Rightarrow> nat \<Rightarrow> nat option" where
  "parse_digits [] n = Some n"
| "parse_digits (c # cs) n = (if is_digit c then parse_digits cs (10 * n + digit_val c) else None)"

definition split_sign :: "string \<Rightarrow> bool \<times> string" where
  "split_sign s = (case s of [] \<Rightarrow> (False, [])
     | c # r \<Rightarrow> if c = CHR ''-'' then (True, r) else if c = CHR ''+'' then (False, r) else (False, s))"

text \<open>
  \<open>strconv.ParseInt(s, 10, 64)\<close>: the value and the error. On a syntax error the value is 0, out of
  range it is the nearest \<open>int64\<close>; callers of the sources that drop the error use that value.
\<close>

definition ParseInt :: "string \<Rightarrow> int \<times> go_err option" where
  "ParseInt s = (case split_sign s of (neg, body) \<Rightarrow>
     (case (if body = [] then None else parse_digits body 0) of
        None \<Rightarrow> (0, Some (Msg (''parsing '' @ s @ '': invalid syntax'')))
      | Some n \<Rightarrow> (let i = (if neg then - int n else int n) in
          if i < - (2 ^ 63) then (- (2 ^ 63), Some (Msg (''parsing '' @ s @ '': value out of range'')))
          else if i \<ge> 2 ^ 63 then (2 ^ 63 - 1, Some (Msg (''parsing '' @ s @ '': value out of range'')))
          else (i, None))))"

text \<open>The value alone, as in \<open>k, _ := strconv.ParseInt(...)\<close>, and the value or the error.\<close>

definition parse_key :: "string \<Rightarrow> int" where
  "parse_key s = fst (ParseInt s)"

definition parse_int :: "string \<Rightarrow> go_err + int" where
  "parse_int s = (case ParseInt s of (i, None) \<Rightarrow> Inr i | (_, Some e) \<Rightarrow> Inl e)"

text \<open>\<open>strconv.ParseBool\<close>\<close>

definition ParseBool :: "string \<Rightarrow> bool option" where
  "ParseBool s = (if s \<in> set [''1'', ''t'', ''T'', ''true'', ''TRUE'', ''True''] then Some True
     else if s \<in> set [''0'', ''f'', ''F'', ''false'', ''FALSE'', ''False''] then Some False else None)"

definition in_int64 :: "int \<Rightarrow> bool" where
  "in_int64 i \<longleftrightarrow> - (2 ^ 63) \<le> i \<and> i < 2 ^ 63"

text \<open>Two's complement wrap-around of \<open>int64\<close> arithmetic.\<close>

definition wrap64 :: "int \<Rightarrow> int" where
  "wrap64 i = (i + 2 ^ 63) mod 2 ^ 64 - 2 ^ 63"

lemma in_int64_wrap64: "in_int64 (wrap64 i)"
proof -
  have "0 \<le> (i + 2 ^ 63) mod 2 ^ 64" "(i + 2 ^ 63) mod 2 ^ 64 < 2 ^ 64"
    by (rule pos_mod_sign, simp) (rule pos_mod_bound, simp)
  then show ?thesis by (simp add: in_int64_def wrap64_def)
qed

lemma wrap64_id: "in_int64 i \<Longrightarrow> wrap64 i = i"
  by (simp add: in_int64_def wrap64_def)

lemma digit_char_props:
  assumes "d < 10"
  shows "is_digit (digit_char d)" and "digit_val (digit_char d) = d"
  using assms by (simp_all add: is_digit_def digit_val_def digit_char_def)

lemma parse_digits_append:
  "parse_digits (xs @ ys) n = (case parse_digits xs n of None \<Rightarrow> None | Some m \<Rightarrow> parse_digits ys m)"
  by (induction xs arbitrary: n) auto

lemma parse_show_nat: "parse_digits (show_nat n) 0 = Some n"
proof (induction n rule: show_nat.induct)
  case (1 n)
  show ?case
  proof (cases "n < 10")
    case True
    then show ?thesis by (simp add: show_nat.simps [of n] digit_char_props)
  next
    case False
    with "1.IH" show ?thesis
      by (simp add: show_nat.simps [of n] parse_digits_append digit_char_props)
  qed
qed

lemma show_nat_not_Nil [simp]: "show_nat n \<noteq> []"
  by (subst show_nat.simps) simp

lemma hd_show_nat_digit: "is_digit (hd (show_nat n))"
proof (induction n rule: show_nat.induct)
  case (1 n)
  then show ?case
    by (cases "n < 10") (simp_all add: show_nat.simps [of n] digit_char_props hd_append)
qed

lemma split_sign_show_nat: "split_sign (show_nat n) = (False, show_nat n)"
proof -
  obtain c r where cr: "show_nat n = c # r" by (metis neq_Nil_conv show_nat_not_Nil)
  with hd_show_nat_digit [of n] have "is_digit c" by simp
  then have "c \<noteq> CHR ''-''" "c \<noteq> CHR ''+''" by (auto simp: is_digit_def)
  with cr show ?thesis by (simp add: split_sign_def)
qed

text \<open>Printing a key and parsing it back gives the key.\<close>

lemma ParseInt_show_int [simp]: "in_int64 i \<Longrightarrow> ParseInt (show_int i) = (i, None)"
proof (cases "i < 0")
  case True
  assume "in_int64 i"
  with True show ?thesis
    by (simp add: ParseInt_def show_int_def split_sign_def parse_show_nat in_int64_def)
next
  case False
  assume "in_int64 i"
  with False show ?thesis
    by (simp add: ParseInt_def show_int_def split_sign_show_nat parse_show_nat in_int64_def)
qed

lemma parse_key_show_int [simp]: "in_int64 i \<Longrightarrow> parse_key (show_int i) = i"
  by (simp add: parse_key_def)

lemma parse_int_show_int [simp]: "in_int64 i \<Longrightarrow> parse_int (show_int i) = Inr i"
  by (simp add: parse_int_def)

lemma show_int_inject:
  "in_int64 i \<Longrightarrow> in_int64 j \<Longrightarrow> show_int i = show_int j \<longleftrightarrow> i = j"
  by (metis parse_key_show_int)

lemma show_int_not_Nil [simp]: "show_int i \<noteq> []"
  by (simp add: show_int_def)

section \<open>Dynamic values\<close>

text \<open>
  The values an \<open>any\<close> of the engine holds. \<open>VFloat\<close> carries the exact value of a finite
  \<open>float64\<close>. \<open>VOther\<close> stands for the values \<open>encoding/json\<close> refuses (functions, channels, NaN and
  the infinities).
\<close>

datatype val =
    VNil
  | VBool bool
  | VInt int
  | VInt32 int
  | VInt64 int
  | VFloat rat
  | VStr string
  | VList "val list"
  | VMap "(string \<times> val) list"
  | VOther string

type_synonym vars = "(string \<times> val) list"

abbreviation put :: "string \<Rightarrow> 'v \<Rightarrow> (string \<times> 'v) list \<Rightarrow> (string \<times> 'v) list" where
  "put \<equiv> AList.update"

definition put_all :: "(string \<times> 'v) list \<Rightarrow> (string \<times> 'v) list \<Rightarrow> (string \<times> 'v) list" where
  "put_all kvs m = fold (\<lambda>(k, v) acc. put k v acc) kvs m"

definition has_key :: "string \<Rightarrow> (string \<times> 'v) list \<Rightarrow> bool" where
  "has_key k m \<longleftrightarrow> map_of m k \<noteq> None"

text \<open>\<open>s, ok := m[k].(string)\<close>, and \<open>s, _ := m[k].(string)\<close>, which is empty when absent.\<close>

definition str_prop :: "vars \<Rightarrow> string \<Rightarrow> string option" where
  "str_prop m k = (case map_of m k of Some (VStr s) \<Rightarrow> Some s | _ \<Rightarrow> None)"

definition str_or_empty :: "vars \<Rightarrow> string \<Rightarrow> string" where
  "str_or_empty m k = (case str_prop m k of Some s \<Rightarrow> s | None \<Rightarrow> [])"

text \<open>\<open>b, ok := m[k].(bool)\<close>\<close>

definition bool_prop :: "vars \<Rightarrow> string \<Rightarrow> bool option" where
  "bool_prop m k = (case map_of m k of Some (VBool b) \<Rightarrow> Some b | _ \<Rightarrow> None)"

lemma map_of_put_all_notin: "k \<notin> fst ` set kvs \<Longrightarrow> map_of (put_all kvs m) k = map_of m k"
  by (induction kvs arbitrary: m) (auto simp: put_all_def update_conv' split: prod.splits)

lemma map_of_put_all:
  assumes "distinct (map fst kvs)"
  shows "map_of (put_all kvs m) k = (case map_of kvs k of Some v \<Rightarrow> Some v | None \<Rightarrow> map_of m k)"
  using assms
proof (induction kvs arbitrary: m)
  case Nil
  then show ?case by (simp add: put_all_def)
next
  case (Cons kv kvs)
  obtain k' v' where kv: "kv = (k', v')" by (cases kv)
  have step: "put_all (kv # kvs) m = put_all kvs (put k' v' m)"
    by (simp add: put_all_def kv)
  show ?case
  proof (cases "k = k'")
    case True
    with Cons.prems kv have "k \<notin> fst ` set kvs" by auto
    then have "map_of (put_all kvs (put k' v' m)) k = map_of (put k' v' m) k"
      by (rule map_of_put_all_notin)
    with True step kv show ?thesis by (simp add: update_conv')
  next
    case False
    with Cons step kv show ?thesis by (simp add: update_conv' split: option.split)
  qed
qed

section \<open>float64\<close>

fun bit_length :: "nat \<Rightarrow> nat" where
  "bit_length n = (if n = 0 then 0 else Suc (bit_length (n div 2)))"

declare bit_length.simps [simp del]

definition round_half_even :: "rat \<Rightarrow> int" where
  "round_half_even x = (let f = \<lfloor>x\<rfloor>; d = x - of_int f in
     if d > 1 / 2 \<or> (d = 1 / 2 \<and> odd f) then f + 1 else f)"

definition rat_pow :: "rat \<Rightarrow> int \<Rightarrow> rat" where
  "rat_pow b e = (if e \<ge> 0 then b ^ nat e else 1 / b ^ nat (- e))"

text \<open>The \<open>float64\<close> nearest to a positive rational (53 bits, ties to even; no subnormals).\<close>

definition f64_round_pos :: "rat \<Rightarrow> rat" where
  "f64_round_pos q = (case quotient_of q of (a, b) \<Rightarrow>
     let e0 = int (bit_length (nat a)) - int (bit_length (nat b)) - 53;
         e = (if q / rat_pow 2 e0 \<ge> 2 ^ 53 then e0 + 1 else e0)
     in of_int (round_half_even (q / rat_pow 2 e)) * rat_pow 2 e)"

definition f64_round :: "rat \<Rightarrow> rat" where
  "f64_round q = (if q = 0 then 0 else if q < 0 then - f64_round_pos (- q) else f64_round_pos q)"

definition f64_of_int :: "int \<Rightarrow> rat" where
  "f64_of_int i = (if \<bar>i\<bar> \<le> 2 ^ 53 then of_int i else f64_round (of_int i))"

text \<open>\<open>int(f)\<close>: truncation towards zero (in the range of \<open>int\<close>, as the sources use it).\<close>

definition int_of_f64 :: "rat \<Rightarrow> int" where
  "int_of_f64 q = (if q \<ge> 0 then \<lfloor>q\<rfloor> else \<lceil>q\<rceil>)"

lemma int_of_f64_of_int [simp]: "\<bar>i\<bar> \<le> 2 ^ 53 \<Longrightarrow> int_of_f64 (f64_of_int i) = i"
  by (simp add: int_of_f64_def f64_of_int_def)

text \<open>
  \<open>%v\<close> of a \<open>float64\<close>: the shortest decimal that reads back as the same number, in scientific
  notation when the decimal exponent is below -4 or at least 6 (format \<open>g\<close>, shortest precision,
  of \<open>strconv\<close>).
\<close>

definition dec_point :: "rat \<Rightarrow> int" where
  "dec_point q = (if q \<ge> 1 then int (length (show_nat (nat \<lfloor>q\<rfloor>)))
     else (case List.find (\<lambda>k. q * 10 ^ k \<ge> 1) [1..<400] of Some k \<Rightarrow> 1 - int k | None \<Rightarrow> - 399))"

definition strip_zeros :: "string \<Rightarrow> string" where
  "strip_zeros s = rev (dropWhile (\<lambda>c. c = CHR ''0'') (rev s))"

definition shortest_digits :: "rat \<Rightarrow> string \<times> int" where
  "shortest_digits q = (let dp = dec_point q;
       cand = (\<lambda>nd. round_half_even (q / rat_pow 10 (dp - int nd)));
       nd = (case List.find (\<lambda>nd. f64_round (of_int (cand nd) * rat_pow 10 (dp - int nd)) = q) [1..<17]
             of Some nd \<Rightarrow> nd | None \<Rightarrow> 17);
       s = show_nat (nat (cand nd))
     in (strip_zeros s, dp + int (length s) - int nd))"

definition fmt_exp :: "int \<Rightarrow> string" where
  "fmt_exp e = (if e < 0 then ''-'' else ''+'') @
     (let s = show_nat (nat \<bar>e\<bar>) in if length s < 2 then ''0'' @ s else s)"

definition fmt_float_pos :: "rat \<Rightarrow> string" where
  "fmt_float_pos q = (case shortest_digits q of (ds, dp) \<Rightarrow>
     let e = dp - 1; nd = length ds in
     if e < - 4 \<or> e \<ge> 6 then take 1 ds @ (if nd > 1 then ''.'' @ drop 1 ds else []) @ ''e'' @ fmt_exp e
     else if dp \<le> 0 then ''0.'' @ replicate (nat (- dp)) CHR ''0'' @ ds
     else if nat dp \<ge> nd then ds @ replicate (nat dp - nd) CHR ''0''
     else take (nat dp) ds @ ''.'' @ drop (nat dp) ds)"

definition fmt_float :: "rat \<Rightarrow> string" where
  "fmt_float q = (if q = 0 then ''0'' else if q < 0 then ''-'' @ fmt_float_pos (- q) else fmt_float_pos q)"

section \<open>Formatting, comparing and storing values\<close>

fun join_with :: "string \<Rightarrow> string list \<Rightarrow> string" where
  "join_with sep [] = []"
| "join_with sep [x] = x"
| "join_with sep (x # y # ys) = x @ sep @ join_with sep (y # ys)"

text \<open>\<open>fmt.Sprintf("%v", v)\<close> and \<open>fmt.Sprint(v)\<close>; maps print with sorted keys.\<close>

fun fmt_v :: "val \<Rightarrow> string"
  and fmt_vs :: "val list \<Rightarrow> string list"
  and fmt_kvs :: "(string \<times> val) list \<Rightarrow> (string \<times> string) list" where
  "fmt_v VNil = ''<nil>''"
| "fmt_v (VBool b) = (if b then ''true'' else ''false'')"
| "fmt_v (VInt i) = show_int i"
| "fmt_v (VInt32 i) = show_int i"
| "fmt_v (VInt64 i) = show_int i"
| "fmt_v (VFloat q) = fmt_float q"
| "fmt_v (VStr s) = s"
| "fmt_v (VList xs) = ''['' @ join_with '' '' (fmt_vs xs) @ '']''"
| "fmt_v (VMap m) = ''map['' @ join_with '' '' (map (\<lambda>(k, s). k @ '':'' @ s) (sort_key fst (fmt_kvs m))) @ '']''"
| "fmt_v (VOther s) = s"
| "fmt_vs [] = []"
| "fmt_vs (x # xs) = fmt_v x # fmt_vs xs"
| "fmt_kvs [] = []"
| "fmt_kvs ((k, v) # r) = (k, fmt_v v) # fmt_kvs r"

text \<open>\<open>reflect.DeepEqual\<close>: same dynamic type and same contents; maps are compared by key.\<close>

fun deep_equal :: "val \<Rightarrow> val \<Rightarrow> bool"
  and deep_equal_list :: "val list \<Rightarrow> val list \<Rightarrow> bool"
  and deep_equal_kvs :: "(string \<times> val) list \<Rightarrow> (string \<times> val) list \<Rightarrow> bool" where
  "deep_equal (VList xs) (VList ys) = deep_equal_list xs ys"
| "deep_equal (VMap a) (VMap b) = (length a = length b \<and> deep_equal_kvs a b)"
| "deep_equal v w = (v = w)"
| "deep_equal_list [] [] = True"
| "deep_equal_list (x # xs) (y # ys) = (deep_equal x y \<and> deep_equal_list xs ys)"
| "deep_equal_list _ _ = False"
| "deep_equal_kvs [] b = True"
| "deep_equal_kvs ((k, v) # r) b =
     ((case map_of b k of None \<Rightarrow> False | Some w \<Rightarrow> deep_equal v w) \<and> deep_equal_kvs r b)"

text \<open>
  \<open>json.Marshal\<close> followed by \<open>json.Unmarshal\<close> into \<open>any\<close>: numbers come back as \<open>float64\<close>. The
  value column of the variable table holds the JSON text; the model holds the value that text
  decodes to. \<open>None\<close> is the error of \<open>json.Marshal\<close>.
\<close>

fun json_roundtrip :: "val \<Rightarrow> val option"
  and json_list :: "val list \<Rightarrow> val list option"
  and json_kvs :: "(string \<times> val) list \<Rightarrow> (string \<times> val) list option" where
  "json_roundtrip (VInt i) = Some (VFloat (f64_of_int i))"
| "json_roundtrip (VInt32 i) = Some (VFloat (f64_of_int i))"
| "json_roundtrip (VInt64 i) = Some (VFloat (f64_of_int i))"
| "json_roundtrip (VList xs) = (case json_list xs of None \<Rightarrow> None | Some ys \<Rightarrow> Some (VList ys))"
| "json_roundtrip (VMap m) = (case json_kvs m of None \<Rightarrow> None | Some m' \<Rightarrow> Some (VMap m'))"
| "json_roundtrip (VOther _) = None"
| "json_roundtrip v = Some v"
| "json_list [] = Some []"
| "json_list (x # xs) = (case json_roundtrip x of None \<Rightarrow> None
     | Some y \<Rightarrow> (case json_list xs of None \<Rightarrow> None | Some ys \<Rightarrow> Some (y # ys)))"
| "json_kvs [] = Some []"
| "json_kvs ((k, v) # r) = (case json_roundtrip v of None \<Rightarrow> None
     | Some w \<Rightarrow> (case json_kvs r of None \<Rightarrow> None | Some r' \<Rightarrow> Some ((k, w) # r')))"

text \<open>What is stored is a fixed point: storing it again changes nothing.\<close>

lemma json_roundtrip_stable:
  "json_roundtrip v = Some w \<Longrightarrow> json_roundtrip w = Some w"
  "json_list xs = Some ys \<Longrightarrow> json_list ys = Some ys"
  "json_kvs m = Some m' \<Longrightarrow> json_kvs m' = Some m'"
  by (induction v and xs and m arbitrary: w and ys and m' rule: json_roundtrip_json_list_json_kvs.induct)
     (auto split: option.splits)

lemma deep_equal_refl:
  "distinct (map fst m) \<Longrightarrow> (\<And>k v. (k, v) \<in> set m \<Longrightarrow> deep_equal v v) \<Longrightarrow> deep_equal (VMap m) (VMap m)"
proof -
  assume d: "distinct (map fst m)" and e: "\<And>k v. (k, v) \<in> set m \<Longrightarrow> deep_equal v v"
  have "set r \<subseteq> set m \<Longrightarrow> deep_equal_kvs r m" for r
  proof (induction r)
    case Nil
    then show ?case by simp
  next
    case (Cons kv r)
    obtain k v where kv: "kv = (k, v)" by (cases kv)
    with Cons.prems d have "map_of m k = Some v" by simp
    with Cons kv e show ?case by auto
  qed
  then show ?thesis by simp
qed

end
