(* ===== verification/Ident.thy ===== *)
theory Ident
  imports GoValues "HOL-Library.Word"
begin

unbundle bit_operations_syntax

text \<open>
  Keys: the snowflake generator of \<open>backend/libs/id/id.go\<close> and the deterministic keys
  (64-bit FNV-1a, sign bit cleared) that \<open>generateDeterministicKey\<close> computes for variables,
  timers and incidents.

  The clock is a sequence of readings in nanoseconds since the Unix epoch and a position in it;
  it may stand still or run backwards. The loop that waits for the next millisecond is a partial
  function: \<open>None\<close> means that it never returns.
\<close>

section \<open>Snowflake keys\<close>

record node =
  nd_timestamp :: int
  nd_node :: int
  nd_step :: int

definition nodeMax :: int where "nodeMax = 1023"
definition stepMax :: int where "stepMax = 4095"
definition timeShift :: nat where "timeShift = 22"
definition nodeShift :: nat where "nodeShift = 12"
definition snowflake_epoch :: int where "snowflake_epoch = 1704067200000"

definition NewNode :: "int \<Rightarrow> go_err + node" where
  "NewNode n = (if n < 0 \<or> n > nodeMax then Inl (Msg ''node number must be between 0 and 1023'')
     else Inr \<lparr>nd_timestamp = 0, nd_node = n, nd_step = 0\<rparr>)"

definition unix_milli :: "int \<Rightarrow> int" where
  "unix_milli t = t div 1000000"

text \<open>\<open>for now <= n.timestamp { now = time.Now().UnixMilli() }\<close> from clock position \<open>p\<close>.\<close>

partial_function (option) wait_next_ms :: "(nat \<Rightarrow> int) \<Rightarrow> int \<Rightarrow> nat \<Rightarrow> (int \<times> nat) option" where
  "wait_next_ms clk ts p =
     (let now = unix_milli (clk p) in if now \<le> ts then wait_next_ms clk ts (Suc p) else Some (now, Suc p))"

declare wait_next_ms.simps [code]

definition snowflake_key :: "int \<Rightarrow> int \<Rightarrow> int \<Rightarrow> int" where
  "snowflake_key now nd st =
     wrap64 (push_bit timeShift (now - snowflake_epoch)) OR push_bit nodeShift nd OR st"

text \<open>\<open>Generate\<close>: the key, the node after the call and the clock position after the call.\<close>

definition Generate :: "(nat \<Rightarrow> int) \<Rightarrow> node \<Rightarrow> nat \<Rightarrow> (int \<times> node \<times> nat) option" where
  "Generate clk n p =
     (let now0 = unix_milli (clk p);
          now1 = (if now0 < nd_timestamp n then nd_timestamp n else now0)
      in if now1 = nd_timestamp n then
           let st = (nd_step n + 1) AND stepMax in
           if st = 0 then
             (case wait_next_ms clk (nd_timestamp n) (Suc p) of
                None \<Rightarrow> None
              | Some (now, p') \<Rightarrow>
                  Some (snowflake_key now (nd_node n) st, n\<lparr>nd_timestamp := now, nd_step := st\<rparr>, p'))
           else Some (snowflake_key now1 (nd_node n) st, n\<lparr>nd_timestamp := now1, nd_step := st\<rparr>, Suc p)
         else Some (snowflake_key now1 (nd_node n) 0, n\<lparr>nd_timestamp := now1, nd_step := 0\<rparr>, Suc p))"

text \<open>Repeated generation, as callers use it.\<close>

primrec generate_many :: "nat \<Rightarrow> (nat \<Rightarrow> int) \<Rightarrow> node \<Rightarrow> nat \<Rightarrow> (int list \<times> node \<times> nat) option" where
  "generate_many 0 clk n p = Some ([], n, p)"
| "generate_many (Suc c) clk n p =
     (case Generate clk n p of None \<Rightarrow> None
      | Some (k, n', p') \<Rightarrow> (case generate_many c clk n' p' of None \<Rightarrow> None
          | Some (ks, n'', p'') \<Rightarrow> Some (k # ks, n'', p'')))"

section \<open>Deterministic keys\<close>

definition fnv64a_step :: "64 word \<Rightarrow> char \<Rightarrow> 64 word" where
  "fnv64a_step h c = (h XOR word_of_nat (of_char c)) * 1099511628211"

definition fnv64a :: "string \<Rightarrow> 64 word" where
  "fnv64a s = foldl fnv64a_step 14695981039346656037 s"

definition generateDeterministicKey :: "string \<Rightarrow> int" where
  "generateDeterministicKey s = uint (fnv64a s AND 0x7FFFFFFFFFFFFFFF)"

section \<open>Facts\<close>

definition node_ok :: "node \<Rightarrow> bool" where
  "node_ok n \<longleftrightarrow> 0 \<le> nd_node n \<and> nd_node n \<le> nodeMax \<and> 0 \<le> nd_step n \<and> nd_step n \<le> stepMax"

text \<open>The position of a node in the order of keys: time first, then the sequence number.\<close>

definition node_rank :: "node \<Rightarrow> int" where
  "node_rank n = 4096 * nd_timestamp n + nd_step n"

text \<open>The clock readings stay in the range where the 41 time bits of a key do not overflow.\<close>

definition clock_in_range :: "(nat \<Rightarrow> int) \<Rightarrow> bool" where
  "clock_in_range clk \<longleftrightarrow>
     (\<forall>p. snowflake_epoch - 2 ^ 41 \<le> unix_milli (clk p) \<and> unix_milli (clk p) < snowflake_epoch + 2 ^ 41)"

definition ms_in_range :: "int \<Rightarrow> bool" where
  "ms_in_range t \<longleftrightarrow> snowflake_epoch - 2 ^ 41 \<le> t \<and> t < snowflake_epoch + 2 ^ 41"

lemma NewNode_ok: "NewNode k = Inr n \<Longrightarrow> node_ok n"
  by (auto simp: NewNode_def node_ok_def stepMax_def split: if_splits)

lemma and_stepMax: "x AND stepMax = x mod 4096" for x :: int
proof -
  have m: "stepMax = mask 12" by (simp add: stepMax_def mask_eq_exp_minus_1)
  show ?thesis unfolding m take_bit_eq_mask [symmetric] by (simp add: take_bit_eq_mod)
qed

lemma or_low_bits:
  fixes a b :: int
  assumes "0 \<le> b" and "b < 2 ^ k"
  shows "push_bit k a OR b = push_bit k a + b"
proof -
  have b: "take_bit k b = b" using assms by (simp add: take_bit_int_eq_self)
  have "push_bit k a AND b = 0"
  proof (rule bit_eqI)
    fix n
    show "bit (push_bit k a AND b) n \<longleftrightarrow> bit 0 n"
      by (subst b [symmetric]) (auto simp: bit_simps)
  qed
  then show ?thesis by (simp add: disjunctive_add_eq_or)
qed

lemma snowflake_key_arith:
  assumes "ms_in_range t" "0 \<le> nd" "nd \<le> nodeMax" "0 \<le> st" "st \<le> stepMax"
  shows "snowflake_key t nd st = (t - snowflake_epoch) * 2 ^ 22 + nd * 2 ^ 12 + st"
proof -
  let ?d = "t - snowflake_epoch"
  have low: "push_bit 12 nd OR st = nd * 2 ^ 12 + st"
    using assms by (subst or_low_bits) (auto simp: stepMax_def push_bit_eq_mult)
  have bound: "0 \<le> nd * 2 ^ 12 + st" "nd * 2 ^ 12 + st < 2 ^ 22"
    using assms by (auto simp: nodeMax_def stepMax_def)
  have "in_int64 (push_bit 22 ?d)"
    using assms(1) by (auto simp: ms_in_range_def in_int64_def push_bit_eq_mult)
  then have "wrap64 (push_bit 22 ?d) = push_bit 22 ?d" by (rule wrap64_id)
  then have "snowflake_key t nd st = push_bit 22 ?d OR (nd * 2 ^ 12 + st)"
    by (simp add: snowflake_key_def timeShift_def nodeShift_def low or.assoc)
  also have "\<dots> = push_bit 22 ?d + (nd * 2 ^ 12 + st)"
    using bound by (rule or_low_bits)
  finally show ?thesis by (simp add: push_bit_eq_mult)
qed

lemma wait_next_ms_later:
  assumes ret: "wait_next_ms clk ts p = Some (now, p')"
  shows "ts < now \<and> (\<exists>q. now = unix_milli (clk q))"
proof -
  have "ts < fst r \<and> (\<exists>q. fst r = unix_milli (clk q))" if "wait_next_ms clk ts p = Some r" for r
  proof (rule wait_next_ms.raw_induct
      [where P = "\<lambda>clk ts p r. ts < fst r \<and> (\<exists>q. fst r = unix_milli (clk q))", OF _ that])
    fix f clk ts p r
    assume IH: "\<And>clk ts p r. f clk ts p = Some r \<Longrightarrow> ts < fst r \<and> (\<exists>q. fst r = unix_milli (clk q))"
      and eq: "(let now = unix_milli (clk p) in if now \<le> ts then f clk ts (Suc p) else Some (now, Suc p)) = Some r"
    show "ts < fst r \<and> (\<exists>q. fst r = unix_milli (clk q))"
      using eq IH by (auto simp: Let_def split: if_splits)
  qed
  from this [OF ret] show ?thesis by simp
qed

text \<open>When the clock gets past the millisecond, the wait ends.\<close>

lemma wait_next_ms_returns:
  "unix_milli (clk (p + d)) > ts \<Longrightarrow> \<exists>r. wait_next_ms clk ts p = Some r"
proof (induction d arbitrary: p)
  case 0
  then show ?case by (subst wait_next_ms.simps) (simp add: Let_def)
next
  case (Suc d)
  then have "unix_milli (clk (Suc p + d)) > ts" by simp
  then have "\<exists>r. wait_next_ms clk ts (Suc p) = Some r" by (rule Suc.IH)
  then show ?case by (subst wait_next_ms.simps) (auto simp: Let_def)
qed

lemma Generate_step:
  assumes gen: "Generate clk n p = Some (k, n', p')"
    and ok: "node_ok n" and clk: "clock_in_range clk"
  shows "node_ok n'" "nd_node n' = nd_node n" "node_rank n < node_rank n'"
    "nd_timestamp n' = nd_timestamp n \<or> ms_in_range (nd_timestamp n')"
    "k = snowflake_key (nd_timestamp n') (nd_node n') (nd_step n')"
proof -
  let ?now = "unix_milli (clk p)"
  have rng: "ms_in_range (unix_milli (clk q))" for q
    using clk by (simp add: clock_in_range_def ms_in_range_def)
  have st: "(nd_step n + 1) AND stepMax = (nd_step n + 1) mod 4096" by (rule and_stepMax)
  have smod: "0 \<le> (nd_step n + 1) mod 4096" "(nd_step n + 1) mod 4096 \<le> 4095"
    using pos_mod_sign [of 4096 "nd_step n + 1"] pos_mod_bound [of 4096 "nd_step n + 1"] by linarith+
  have nz: "(nd_step n + 1) mod 4096 \<noteq> 0 \<Longrightarrow> (nd_step n + 1) mod 4096 = nd_step n + 1"
    using ok by (cases "nd_step n = 4095") (auto simp: node_ok_def stepMax_def)
  have "node_ok n' \<and> nd_node n' = nd_node n \<and> node_rank n < node_rank n' \<and>
      (nd_timestamp n' = nd_timestamp n \<or> ms_in_range (nd_timestamp n')) \<and>
      k = snowflake_key (nd_timestamp n') (nd_node n') (nd_step n')"
  proof (cases "?now \<le> nd_timestamp n")
    case True
    then have eq: "(if ?now < nd_timestamp n then nd_timestamp n else ?now) = nd_timestamp n" by simp
    show ?thesis
    proof (cases "(nd_step n + 1) mod 4096 = 0")
      case True
      with gen eq st obtain now where w: "wait_next_ms clk (nd_timestamp n) (Suc p) = Some (now, p')"
        and n': "n' = n\<lparr>nd_timestamp := now, nd_step := 0\<rparr>" and k: "k = snowflake_key now (nd_node n) 0"
        by (auto simp: Generate_def Let_def split: option.splits)
      from wait_next_ms_later [OF w] rng have "nd_timestamp n < now" "ms_in_range now" by auto
      with ok n' k show ?thesis by (auto simp: node_ok_def node_rank_def stepMax_def)
    next
      case False
      with gen eq st have n': "n' = n\<lparr>nd_step := (nd_step n + 1) mod 4096\<rparr>"
        and k: "k = snowflake_key (nd_timestamp n) (nd_node n) ((nd_step n + 1) mod 4096)"
        by (auto simp: Generate_def Let_def)
      with ok smod nz [OF False] show ?thesis by (auto simp: node_ok_def node_rank_def stepMax_def)
    qed
  next
    case False
    with gen have n': "n' = n\<lparr>nd_timestamp := ?now, nd_step := 0\<rparr>" and k: "k = snowflake_key ?now (nd_node n) 0"
      by (auto simp: Generate_def Let_def split: if_splits)
    with ok False rng show ?thesis by (auto simp: node_ok_def node_rank_def stepMax_def)
  qed
  then show "node_ok n'" "nd_node n' = nd_node n" "node_rank n < node_rank n'"
    "nd_timestamp n' = nd_timestamp n \<or> ms_in_range (nd_timestamp n')"
    "k = snowflake_key (nd_timestamp n') (nd_node n') (nd_step n')" by blast+
qed

lemma snowflake_key_mono:
  assumes "ms_in_range t" "ms_in_range u" "0 \<le> nd" "nd \<le> nodeMax"
    "0 \<le> a" "a \<le> stepMax" "0 \<le> b" "b \<le> stepMax" "4096 * t + a < 4096 * u + b"
  shows "snowflake_key t nd a < snowflake_key u nd b"
proof -
  have "t < u \<or> t = u \<and> a < b" using assms(5-9) by (auto simp: stepMax_def)
  with assms show ?thesis by (auto simp: snowflake_key_arith stepMax_def nodeMax_def)
qed

lemma generate_many_sorted:
  assumes "generate_many c clk n p = Some (ks, n', p')"
    and "node_ok n" and "clock_in_range clk" and "ms_in_range (nd_timestamp n)"
  shows "sorted_wrt (<) ks \<and>
    (\<forall>k \<in> set ks. snowflake_key (nd_timestamp n) (nd_node n) (nd_step n) < k)"
  using assms
proof (induction c arbitrary: n p ks)
  case 0
  then show ?case by simp
next
  case (Suc c)
  from Suc.prems(1) obtain k n1 p1 ks1 where
    gen: "Generate clk n p = Some (k, n1, p1)" and many: "generate_many c clk n1 p1 = Some (ks1, n', p')"
    and ks: "ks = k # ks1"
    by (auto split: option.splits)
  note st = Generate_step [OF gen Suc.prems(2,3)]
  from st(4) Suc.prems(4) have r1: "ms_in_range (nd_timestamp n1)" by auto
  from Suc.IH [OF many st(1) Suc.prems(3) r1] st(5)
  have tail: "sorted_wrt (<) ks1" "\<forall>k' \<in> set ks1. k < k'" by auto
  have "snowflake_key (nd_timestamp n) (nd_node n) (nd_step n) < k"
    using snowflake_key_mono [OF Suc.prems(4) r1] Suc.prems(2) st(1,2,3,5)
    by (simp add: node_ok_def node_rank_def)
  with tail ks show ?case by auto
qed

lemma generateDeterministicKey_range:
  "0 \<le> generateDeterministicKey s \<and> generateDeterministicKey s < 2 ^ 63"
proof -
  have "uint (fnv64a s AND 0x7FFFFFFFFFFFFFFF) = uint (fnv64a s) AND 0x7FFFFFFFFFFFFFFF"
    by (simp add: uint_and)
  also have "\<dots> = take_bit 63 (uint (fnv64a s))"
    by (simp add: take_bit_eq_mask mask_eq_exp_minus_1)
  finally have "generateDeterministicKey s = take_bit 63 (uint (fnv64a s))"
    by (simp add: generateDeterministicKey_def)
  then show ?thesis
    using take_bit_int_less_exp [of 63 "uint (fnv64a s)"] by (simp del: take_bit_of_int)
qed

end
