(* ===== verification/EngineTypes.thy ===== *)
theory EngineTypes
  imports Ident
begin

text \<open>
  The data of \<open>backend/libs/model\<close>: the process definition as the parser produces it
  (\<open>types.go\<close>), the rows of the engine's tables (\<open>engine_types.go\<close>), the in-memory instance
  the token engine works on, and the domain events (\<open>events.proto\<close>).

  Keys and times are integers (times are nanoseconds since the Unix epoch), a nil pointer to a time
  is \<open>None\<close>, statuses and states are the strings the code compares.
\<close>

section \<open>Process definitions\<close>

datatype step_type =
    StepTypeStart | StepTypeEnd
  | StepTypeGatewayExclusive | StepTypeGatewayInclusive | StepTypeGatewayParallel
  | StepTypeGatewayComplex | StepTypeGatewayEventBased
  | StepTypeTask | StepTypeUserTask | StepTypeServiceTask | StepTypeScriptTask | StepTypeSendTask
  | StepTypeReceiveTask | StepTypeManualTask | StepTypeBusinessRuleTask
  | StepTypeSubProcess | StepTypeCallActivity | StepTypeEventSubProcess
  | StepTypeIntermediateCatchEvent | StepTypeIntermediateTimerCatchEvent
  | StepTypeIntermediateThrowEvent | StepTypeBoundaryEvent
  | StepTypeOther string

fun step_type_string :: "step_type \<Rightarrow> string" where
  "step_type_string StepTypeStart = ''START''"
| "step_type_string StepTypeEnd = ''END''"
| "step_type_string StepTypeGatewayExclusive = ''EXCLUSIVE_GATEWAY''"
| "step_type_string StepTypeGatewayInclusive = ''INCLUSIVE_GATEWAY''"
| "step_type_string StepTypeGatewayParallel = ''PARALLEL_GATEWAY''"
| "step_type_string StepTypeGatewayComplex = ''COMPLEX_GATEWAY''"
| "step_type_string StepTypeGatewayEventBased = ''EVENT_BASED_GATEWAY''"
| "step_type_string StepTypeTask = ''TASK''"
| "step_type_string StepTypeUserTask = ''USER_TASK''"
| "step_type_string StepTypeServiceTask = ''SERVICE_TASK''"
| "step_type_string StepTypeScriptTask = ''SCRIPT_TASK''"
| "step_type_string StepTypeSendTask = ''SEND_TASK''"
| "step_type_string StepTypeReceiveTask = ''RECEIVE_TASK''"
| "step_type_string StepTypeManualTask = ''MANUAL_TASK''"
| "step_type_string StepTypeBusinessRuleTask = ''BUSINESS_RULE_TASK''"
| "step_type_string StepTypeSubProcess = ''SUB_PROCESS''"
| "step_type_string StepTypeCallActivity = ''CALL_ACTIVITY''"
| "step_type_string StepTypeEventSubProcess = ''EVENT_SUB_PROCESS''"
| "step_type_string StepTypeIntermediateCatchEvent = ''INTERMEDIATE_CATCH_EVENT''"
| "step_type_string StepTypeIntermediateTimerCatchEvent = ''INTERMEDIATE_TIMER_CATCH_EVENT''"
| "step_type_string StepTypeIntermediateThrowEvent = ''INTERMEDIATE_THROW_EVENT''"
| "step_type_string StepTypeBoundaryEvent = ''BOUNDARY_EVENT''"
| "step_type_string (StepTypeOther s) = s"

record transition =
  tr_id :: string
  tr_target :: string
  tr_condition :: string

record task_listener =
  tl_event :: string
  tl_implementation :: string

text \<open>\<open>StepDefinition\<close>; sub-processes nest their steps.\<close>

datatype step = StepDef
  (st_id: string) (st_type: step_type) (st_name: string)
  (st_incoming: "string list") (st_outgoing: "transition list")
  (st_implementation: string) (st_sub_steps: "step list")
  (st_boundary_refs: "string list") (st_default_flow: string)
  (st_properties: vars)
  (st_loop_type: string) (st_loop_collection: string) (st_loop_element: string)
  (st_listeners: "task_listener list")
  (st_input_params: "(string \<times> string) list") (st_output_params: "(string \<times> string) list")

text \<open>A step with everything optional left out.\<close>

definition plain_step :: "string \<Rightarrow> step_type \<Rightarrow> string list \<Rightarrow> transition list \<Rightarrow> step" where
  "plain_step i t inc out = StepDef i t [] inc out [] [] [] [] [] [] [] [] [] [] []"

definition flow :: "string \<Rightarrow> string \<Rightarrow> transition" where
  "flow i target = \<lparr>tr_id = i, tr_target = target, tr_condition = []\<rparr>"

record workflow_def =
  wf_id :: int
  wf_process_definition_id :: string
  wf_name :: string
  wf_version :: int
  wf_resource_name :: string
  wf_deployment_id :: string
  wf_tenant_id :: string
  wf_checksum :: string
  wf_steps :: "step list"
  wf_created_at :: int

text \<open>
  The resource bytes of a process row: bytes that were uploaded, or the JSON array that
  \<open>deployWorkflow\<close> marshals from a list of steps.
\<close>

datatype resource = ResBytes string | ResSteps "step list"

text \<open>
  \<open>json.Marshal\<close> and \<open>json.Unmarshal\<close> of steps: only the dynamic property values can change
  (numbers become \<open>float64\<close>) or fail to marshal.
\<close>

fun steps_json :: "step list \<Rightarrow> step list option" and step_json :: "step \<Rightarrow> step option" where
  "steps_json [] = Some []"
| "steps_json (s # ss) = (case step_json s of None \<Rightarrow> None
     | Some s' \<Rightarrow> (case steps_json ss of None \<Rightarrow> None | Some ss' \<Rightarrow> Some (s' # ss')))"
| "step_json (StepDef i t n inc out impl sub refs def props lt lc le ls ip op) =
     (case steps_json sub of None \<Rightarrow> None
      | Some sub' \<Rightarrow> (case json_kvs props of None \<Rightarrow> None
          | Some props' \<Rightarrow> Some (StepDef i t n inc out impl sub' refs def props' lt lc le ls ip op)))"

section \<open>Rows of the engine tables\<close>

record process =
  pr_key :: int
  pr_bpmn_process_id :: string
  pr_version :: int
  pr_resource_name :: string
  pr_deployment_key :: int
  pr_resource :: resource
  pr_checksum :: string
  pr_tenant_id :: string
  pr_created_at :: int

record process_instance =
  pi_key :: int
  pi_id :: string
  pi_definition_key :: int
  pi_version :: int
  pi_parent_instance_key :: int
  pi_parent_element_key :: int
  pi_state :: string
  pi_created_at :: int
  pi_end_time :: int

record element_instance =
  ei_key :: int
  ei_id :: string
  ei_instance_key :: int
  ei_definition_key :: int
  ei_element_id :: string
  ei_type :: string
  ei_flow_scope_key :: int
  ei_state :: string
  ei_created_at :: int
  ei_end_time :: int

record variable =
  va_scope_key :: int
  va_instance_key :: int
  va_name :: string
  va_value :: val
  va_created_at :: int
  va_updated_at :: int

record job =
  jb_key :: int
  jb_id :: string
  jb_type :: string
  jb_instance_key :: int
  jb_element_key :: int
  jb_definition_key :: int
  jb_element_id :: string
  jb_worker :: string
  jb_retries :: int
  jb_state :: string
  jb_assignee :: string
  jb_candidate_users :: string
  jb_candidate_groups :: string
  jb_lock_until :: "int option"
  jb_due_date :: int
  jb_breached_at :: "int option"
  jb_created_at :: int
  jb_updated_at :: int

record timer =
  tm_key :: int
  tm_id :: string
  tm_element_key :: int
  tm_instance_key :: int
  tm_element_id :: string
  tm_due_date :: int
  tm_state :: string
  tm_repeat_count :: int
  tm_created_at :: int

record subscription =
  su_key :: int
  su_id :: string
  su_element_key :: int
  su_instance_key :: int
  su_element_id :: string
  su_message_name :: string
  su_correlation_key :: string
  su_state :: string
  su_created_at :: int

record incident =
  in_key :: int
  in_id :: string
  in_instance_key :: int
  in_element_key :: int
  in_job_key :: int
  in_error_type :: string
  in_error_message :: string
  in_state :: string
  in_created_at :: int
  in_resolved_at :: int

record idempotency_record =
  ir_key :: string
  ir_operation :: string
  ir_created_at :: int

record scheduler_lease =
  sl_id :: string
  sl_holder :: string
  sl_expires_at :: int
  sl_updated_at :: int

record decision_def =
  dd_key :: int
  dd_decision_id :: string
  dd_name :: string
  dd_version :: int
  dd_resource :: string
  dd_created_at :: int
  dd_updated_at :: int

text \<open>The zero value of \<open>time.Time\<close> (1 January of year 1, UTC).\<close>

definition zero_time :: int where
  "zero_time = - 62135596800000000000"

section \<open>Domain events and the outbox\<close>

datatype event =
    ProcessInstanceCreated int string int int string int
      \<comment> \<open>key, id, process definition key, version, BPMN process id, created at\<close>
  | ProcessInstanceCompleted int int int
      \<comment> \<open>key, process definition key, end time\<close>
  | ElementInstanceActivated int string int int string string int int
      \<comment> \<open>key, id, instance key, definition key, element id, type, flow scope key, created at\<close>
  | ElementInstanceCompleted int int string int
      \<comment> \<open>key, instance key, element id, end time\<close>
  | VariableUpdated string val int int int
      \<comment> \<open>name, value, instance key, scope key, updated at\<close>
  | JobCreated int string string int int int string int
      \<comment> \<open>key, id, type, instance key, element key, definition key, element id, created at\<close>
  | JobActivated int string int
      \<comment> \<open>key, worker, lock expiration\<close>
  | JobCompleted int string string int
      \<comment> \<open>key, worker, variables, updated at\<close>
  | JobFailed int string int string int
      \<comment> \<open>key, worker, retries, error message, updated at\<close>

fun event_type_name :: "event \<Rightarrow> string" where
  "event_type_name (ProcessInstanceCreated _ _ _ _ _ _) = ''ProcessInstanceCreated''"
| "event_type_name (ProcessInstanceCompleted _ _ _) = ''ProcessInstanceCompleted''"
| "event_type_name (ElementInstanceActivated _ _ _ _ _ _ _ _) = ''ElementInstanceActivated''"
| "event_type_name (ElementInstanceCompleted _ _ _ _) = ''ElementInstanceCompleted''"
| "event_type_name (VariableUpdated _ _ _ _ _) = ''VariableUpdated''"
| "event_type_name (JobCreated _ _ _ _ _ _ _ _) = ''JobCreated''"
| "event_type_name (JobActivated _ _ _) = ''JobActivated''"
| "event_type_name (JobCompleted _ _ _ _) = ''JobCompleted''"
| "event_type_name (JobFailed _ _ _ _ _) = ''JobFailed''"

text \<open>A row of the outbox; the payload is the protobuf message the bytes decode to.\<close>

record outbox_message =
  ob_id :: string
  ob_event_type :: string
  ob_payload :: event
  ob_status :: string
  ob_attempts :: int
  ob_last_error :: string
  ob_next_attempt :: "int option"
  ob_processing_started :: "int option"
  ob_created_at :: int
  ob_published_at :: "int option"

section \<open>The in-memory instance\<close>

datatype workflow_status = StatusPending | StatusRunning | StatusCompleted | StatusFailed

record execution =
  ex_id :: string
  ex_step_id :: string
  ex_status :: string
  ex_parent_id :: string
  ex_start_time :: int
  ex_element_key :: int

record workflow_instance =
  wi_id :: string
  wi_workflow_id :: string
  wi_status :: workflow_status
  wi_parent_instance_id :: string
  wi_parent_execution_id :: string
  wi_executions :: "execution list"
  wi_context :: vars
  wi_created_at :: int
  wi_updated_at :: int

definition empty_instance :: workflow_instance where
  "empty_instance = \<lparr>wi_id = [], wi_workflow_id = [], wi_status = StatusPending,
     wi_parent_instance_id = [], wi_parent_execution_id = [], wi_executions = [], wi_context = [],
     wi_created_at = zero_time, wi_updated_at = zero_time\<rparr>"

section \<open>Looking steps up\<close>

text \<open>
  \<open>findStep\<close> of \<open>navigation.go\<close> and \<open>findStepDeep\<close> of \<open>tier2_events.go\<close>: depth first, a step
  before its sub-steps.
\<close>

fun findStep :: "step list \<Rightarrow> string \<Rightarrow> step option" and findStepIn :: "step \<Rightarrow> string \<Rightarrow> step option" where
  "findStep [] i = None"
| "findStep (s # ss) i = (case findStepIn s i of Some f \<Rightarrow> Some f | None \<Rightarrow> findStep ss i)"
| "findStepIn (StepDef j t n inc out impl sub refs def props lt lc le ls ip op) i =
     (if j = i then Some (StepDef j t n inc out impl sub refs def props lt lc le ls ip op)
      else if sub \<noteq> [] then findStep sub i else None)"

fun findStepDeep :: "step list \<Rightarrow> string \<Rightarrow> step option" and findStepDeepIn :: "step \<Rightarrow> string \<Rightarrow> step option" where
  "findStepDeep [] i = None"
| "findStepDeep (s # ss) i = (case findStepDeepIn s i of Some f \<Rightarrow> Some f | None \<Rightarrow> findStepDeep ss i)"
| "findStepDeepIn (StepDef j t n inc out impl sub refs def props lt lc le ls ip op) i =
     (if j = i then Some (StepDef j t n inc out impl sub refs def props lt lc le ls ip op)
      else findStepDeep sub i)"

text \<open>The top-level loop \<open>for _, s := range wf.Steps { if s.ID == id ... }\<close>.\<close>

definition top_step :: "step list \<Rightarrow> string \<Rightarrow> step option" where
  "top_step ss i = List.find (\<lambda>s. st_id s = i) ss"

definition firstStartStep :: "step list \<Rightarrow> step option" where
  "firstStartStep ss = List.find (\<lambda>s. st_type s = StepTypeStart) ss"

text \<open>The two lookups are the same function, and they find a step with the id asked for.\<close>

lemma findStepDeep_eq: "findStepDeep ss i = findStep ss i" "findStepDeepIn s i = findStepIn s i"
  by (induction ss i and s i rule: findStepDeep_findStepDeepIn.induct)
     (auto split: option.split)

lemma findStep_id:
  "findStep ss i = Some f \<Longrightarrow> st_id f = i"
  "findStepIn s i = Some f \<Longrightarrow> st_id f = i"
  by (induction ss i and s i rule: findStep_findStepIn.induct) (auto split: option.splits if_splits)

fun all_steps :: "step list \<Rightarrow> step list" and steps_in :: "step \<Rightarrow> step list" where
  "all_steps [] = []"
| "all_steps (s # ss) = steps_in s @ all_steps ss"
| "steps_in (StepDef j t n inc out impl sub refs def props lt lc le ls ip op) =
     StepDef j t n inc out impl sub refs def props lt lc le ls ip op # all_steps sub"

lemma findStep_all_steps:
  "findStep ss i = List.find (\<lambda>s. st_id s = i) (all_steps ss)"
  "findStepIn s i = List.find (\<lambda>s. st_id s = i) (steps_in s)"
proof (induction ss i and s i rule: findStep_findStepIn.induct)
  case (2 s ss i)
  have "List.find P (xs @ ys) = (case List.find P xs of None \<Rightarrow> List.find P ys | Some x \<Rightarrow> Some x)"
    for P :: "step \<Rightarrow> bool" and xs ys
    by (induction xs) auto
  with 2 show ?case by (auto split: option.splits)
qed auto

end
