(* ===== verification/Repository.thy ===== *)
theory Repository
  imports EngineTypes "HOL-Library.Product_Lexorder"
begin

text \<open>
  The engine's world: the tables, the clock, the key generators, the event publisher, and the
  repository operations of \<open>gorm_repository.go\<close> on the tables.

  A table is the list of its rows in insertion order; a query without \<open>ORDER BY\<close> returns that
  order. Every repository call is one database call that may fail: \<open>env_db_fault n\<close> says whether
  the \<open>n\<close>-th one does, and a failing call leaves the tables as they are (a statement is atomic).
  Transactions are serial. What is not under src/ is a parameter in \<open>env\<close>: the JavaScript engine,
  the registered Go handlers, the BPMN XML parser, the JSON decoder for uploaded bytes, the UUID
  generator and SHA-256.
\<close>

section \<open>The world\<close>

record db =
  db_processes :: "process list"
  db_instances :: "process_instance list"
  db_elements :: "element_instance list"
  db_variables :: "variable list"
  db_jobs :: "job list"
  db_incidents :: "incident list"
  db_timers :: "timer list"
  db_subscriptions :: "subscription list"
  db_idempotency :: "idempotency_record list"
  db_outbox :: "outbox_message list"
  db_leases :: "scheduler_lease list"
  db_decisions :: "decision_def list"

definition empty_db :: db where
  "empty_db = \<lparr>db_processes = [], db_instances = [], db_elements = [], db_variables = [], db_jobs = [],
     db_incidents = [], db_timers = [], db_subscriptions = [], db_idempotency = [], db_outbox = [],
     db_leases = [], db_decisions = []\<rparr>"

record metrics =
  mt_publish_success :: int
  mt_publish_failure :: int
  mt_outbox_pending :: int
  mt_publish_lag_sec :: int
  mt_idempotency_hit :: int
  mt_idempotency_miss :: int

definition zero_metrics :: metrics where
  "zero_metrics = \<lparr>mt_publish_success = 0, mt_publish_failure = 0, mt_outbox_pending = 0,
     mt_publish_lag_sec = 0, mt_idempotency_hit = 0, mt_idempotency_miss = 0\<rparr>"

text \<open>
  \<open>s_buf\<close> is the buffer of the innermost open transaction (\<open>transactionalEventPublisher\<close>), \<open>None\<close>
  outside transactions, where events go to the bus; \<open>s_inst\<close> is the instance the current call works
  on (the \<open>*model.WorkflowInstance\<close> argument); \<open>s_memo\<close> is the memo of parsed definitions that the
  fan-outs of \<open>events.go\<close> share by reference (the \<open>definitions\<close> map).
\<close>

record est =
  s_db :: db
  s_calls :: nat
  s_clock :: nat
  s_uuids :: nat
  s_node :: node
  s_buf :: "(event \<times> string) list option"
  s_bus :: "(event \<times> string) list"
  s_pubs :: nat
  s_metrics :: metrics
  s_inst :: workflow_instance
  s_memo :: "(int \<times> workflow_def) list"

type_synonym 'a eng = "(est, 'a) go"

text \<open>
  What running a script gives: an error with its code, or the exported result, its truth value in
  JavaScript and the exported globals.
\<close>

datatype js_outcome = JsError string string | JsOk val bool vars

text \<open>One rule of a decision table, \<open>dmn.Condition\<close> and \<open>dmn.Rule\<close>.\<close>

record dmn_condition =
  dc_op :: string
  dc_value :: val

record dmn_rule =
  dr_when :: "(string \<times> dmn_condition) list"
  dr_then :: vars

record decision_table =
  dt_id :: string
  dt_hit_policy :: string
  dt_rules :: "dmn_rule list"

record env =
  env_clock :: "nat \<Rightarrow> int"
  env_uuid :: "nat \<Rightarrow> string"
  env_db_fault :: "nat \<Rightarrow> bool"
  env_pub_fault :: "nat \<Rightarrow> bool"
  env_handlers :: "string \<Rightarrow> (workflow_instance \<Rightarrow> step \<Rightarrow> go_err option \<times> workflow_instance) option"
  env_js :: "string \<Rightarrow> vars \<Rightarrow> int \<Rightarrow> js_outcome"
  env_parse_bpmn :: "string \<Rightarrow> go_err + workflow_def"
  env_parse_steps :: "string \<Rightarrow> go_err + step list"
  env_parse_decision :: "string \<Rightarrow> go_err + decision_table"
  env_sha256 :: "resource \<Rightarrow> string"
  env_outbox_max :: int

section \<open>Clock, keys, table access\<close>

definition timeNow :: "env \<Rightarrow> int eng" where
  "timeNow env = (\<lambda>s. (Ok (env_clock env (s_clock s)), s\<lparr>s_clock := Suc (s_clock s)\<rparr>))"

text \<open>\<open>id.GenerateSnowflake()\<close>; the engine's \<open>generateKey(s)\<close> ignores its argument.\<close>

definition GenerateSnowflake :: "env \<Rightarrow> int eng" where
  "GenerateSnowflake env = (\<lambda>s. case Generate (env_clock env) (s_node s) (s_clock s) of
       None \<Rightarrow> (Diverged, s)
     | Some (k, n, p) \<Rightarrow> (Ok k, s\<lparr>s_node := n, s_clock := p\<rparr>))"

definition generateKey :: "env \<Rightarrow> string \<Rightarrow> int eng" where
  "generateKey env seed = GenerateSnowflake env"

definition GenerateUUIDv7 :: "env \<Rightarrow> string eng" where
  "GenerateUUIDv7 env = (\<lambda>s. (Ok (env_uuid env (s_uuids s)), s\<lparr>s_uuids := Suc (s_uuids s)\<rparr>))"

definition generateRuntimeID :: "env \<Rightarrow> string eng" where
  "generateRuntimeID env = GenerateUUIDv7 env"

definition repo_query :: "env \<Rightarrow> (db \<Rightarrow> go_err + 'a) \<Rightarrow> 'a eng" where
  "repo_query env f = (\<lambda>s. let s' = s\<lparr>s_calls := Suc (s_calls s)\<rparr> in
     if env_db_fault env (s_calls s) then (Error DbErr, s')
     else (case f (s_db s) of Inl e \<Rightarrow> (Error e, s') | Inr x \<Rightarrow> (Ok x, s')))"

definition repo_exec :: "env \<Rightarrow> (db \<Rightarrow> go_err + 'a \<times> db) \<Rightarrow> 'a eng" where
  "repo_exec env f = (\<lambda>s. let s' = s\<lparr>s_calls := Suc (s_calls s)\<rparr> in
     if env_db_fault env (s_calls s) then (Error DbErr, s')
     else (case f (s_db s) of Inl e \<Rightarrow> (Error e, s') | Inr (x, d) \<Rightarrow> (Ok x, s'\<lparr>s_db := d\<rparr>)))"

definition find_row :: "('r \<Rightarrow> bool) \<Rightarrow> 'r list \<Rightarrow> go_err + 'r" where
  "find_row p rows = (case List.find p rows of None \<Rightarrow> Inl NotFound | Some r \<Rightarrow> Inr r)"

text \<open>\<open>INSERT\<close> refuses a primary key that is there; \<open>UPDATE ... WHERE key = k\<close> of a model whose key
  is zero is refused by gorm, and an update of a row that is not there changes nothing.\<close>

definition insert_row :: "('r \<Rightarrow> 'k) \<Rightarrow> 'r \<Rightarrow> 'r list \<Rightarrow> go_err + 'r list" where
  "insert_row key r rows = (if key r \<in> key ` set rows then Inl DupKey else Inr (rows @ [r]))"

definition update_rows :: "('r \<Rightarrow> bool) \<Rightarrow> ('r \<Rightarrow> 'r) \<Rightarrow> 'r list \<Rightarrow> 'r list" where
  "update_rows p f rows = map (\<lambda>r. if p r then f r else r) rows"

definition update_by_key :: "('r \<Rightarrow> int) \<Rightarrow> int \<Rightarrow> ('r \<Rightarrow> 'r) \<Rightarrow> 'r list \<Rightarrow> go_err + 'r list" where
  "update_by_key key k f rows =
     (if k = 0 then Inl MissingWhere else Inr (update_rows (\<lambda>r. key r = k) f rows))"

definition on_table :: "('a \<Rightarrow> 'e + 'b) \<Rightarrow> ('b \<Rightarrow> 'd) \<Rightarrow> 'a \<Rightarrow> 'e + unit \<times> 'd" where
  "on_table f store rows = (case f rows of Inl e \<Rightarrow> Inl e | Inr rows' \<Rightarrow> Inr ((), store rows'))"

section \<open>Processes and instances\<close>

definition CreateProcess :: "env \<Rightarrow> process \<Rightarrow> unit eng" where
  "CreateProcess env p = repo_exec env (\<lambda>d.
     on_table (insert_row pr_key p) (\<lambda>t. d\<lparr>db_processes := t\<rparr>) (db_processes d))"

definition GetProcess :: "env \<Rightarrow> int \<Rightarrow> process eng" where
  "GetProcess env k = repo_query env (\<lambda>d. find_row (\<lambda>p. pr_key p = k) (db_processes d))"

text \<open>Everything that hangs off one process instance goes with it.\<close>

definition drop_instance :: "int \<Rightarrow> db \<Rightarrow> db" where
  "drop_instance k d = d\<lparr>
     db_variables := filter (\<lambda>r. va_instance_key r \<noteq> k) (db_variables d),
     db_elements := filter (\<lambda>r. ei_instance_key r \<noteq> k) (db_elements d),
     db_jobs := filter (\<lambda>r. jb_instance_key r \<noteq> k) (db_jobs d),
     db_incidents := filter (\<lambda>r. in_instance_key r \<noteq> k) (db_incidents d),
     db_timers := filter (\<lambda>r. tm_instance_key r \<noteq> k) (db_timers d),
     db_subscriptions := filter (\<lambda>r. su_instance_key r \<noteq> k) (db_subscriptions d),
     db_instances := filter (\<lambda>r. pi_key r \<noteq> k) (db_instances d)\<rparr>"

definition DeleteProcess :: "env \<Rightarrow> int \<Rightarrow> unit eng" where
  "DeleteProcess env k = repo_exec env (\<lambda>d.
     let d' = fold (\<lambda>i. drop_instance (pi_key i)) (filter (\<lambda>i. pi_definition_key i = k) (db_instances d)) d
     in Inr ((), d'\<lparr>db_processes := filter (\<lambda>p. pr_key p \<noteq> k) (db_processes d')\<rparr>))"

definition CreateProcessInstance :: "env \<Rightarrow> process_instance \<Rightarrow> unit eng" where
  "CreateProcessInstance env p = repo_exec env (\<lambda>d.
     on_table (insert_row pi_key p) (\<lambda>t. d\<lparr>db_instances := t\<rparr>) (db_instances d))"

definition GetProcessInstance :: "env \<Rightarrow> int \<Rightarrow> process_instance eng" where
  "GetProcessInstance env k = repo_query env (\<lambda>d. find_row (\<lambda>p. pi_key p = k) (db_instances d))"

definition UpdateProcessInstance :: "env \<Rightarrow> int \<Rightarrow> string \<Rightarrow> int \<Rightarrow> unit eng" where
  "UpdateProcessInstance env k st et = repo_exec env (\<lambda>d.
     on_table (update_by_key pi_key k (\<lambda>p. p\<lparr>pi_state := st, pi_end_time := et\<rparr>))
       (\<lambda>t. d\<lparr>db_instances := t\<rparr>) (db_instances d))"

definition DeleteProcessInstance :: "env \<Rightarrow> int \<Rightarrow> unit eng" where
  "DeleteProcessInstance env k = repo_exec env (\<lambda>d. Inr ((), drop_instance k d))"

section \<open>Element instances and variables\<close>

definition CreateElementInstance :: "env \<Rightarrow> element_instance \<Rightarrow> unit eng" where
  "CreateElementInstance env el = repo_exec env (\<lambda>d.
     on_table (insert_row ei_key el) (\<lambda>t. d\<lparr>db_elements := t\<rparr>) (db_elements d))"

definition UpdateElementInstance :: "env \<Rightarrow> int \<Rightarrow> string \<Rightarrow> int \<Rightarrow> unit eng" where
  "UpdateElementInstance env k st et = repo_exec env (\<lambda>d.
     on_table (update_by_key ei_key k (\<lambda>el. el\<lparr>ei_state := st, ei_end_time := et\<rparr>))
       (\<lambda>t. d\<lparr>db_elements := t\<rparr>) (db_elements d))"

text \<open>\<open>CreateVariable\<close> is an upsert on the scope key.\<close>

definition upsert_variable :: "variable \<Rightarrow> variable list \<Rightarrow> variable list" where
  "upsert_variable v rows =
     (if va_scope_key v \<in> va_scope_key ` set rows
      then update_rows (\<lambda>r. va_scope_key r = va_scope_key v)
             (\<lambda>r. r\<lparr>va_instance_key := va_instance_key v, va_name := va_name v, va_value := va_value v,
                   va_updated_at := va_updated_at v\<rparr>) rows
      else rows @ [v])"

definition CreateVariable :: "env \<Rightarrow> variable \<Rightarrow> unit eng" where
  "CreateVariable env v = repo_exec env (\<lambda>d.
     Inr ((), d\<lparr>db_variables := upsert_variable v (db_variables d)\<rparr>))"

definition UpdateVariable :: "env \<Rightarrow> variable \<Rightarrow> unit eng" where
  "UpdateVariable env v = repo_exec env (\<lambda>d.
     on_table (update_by_key va_scope_key (va_scope_key v)
         (\<lambda>r. r\<lparr>va_value := va_value v, va_updated_at := va_updated_at v\<rparr>))
       (\<lambda>t. d\<lparr>db_variables := t\<rparr>) (db_variables d))"

section \<open>Jobs and incidents\<close>

definition CreateJob :: "env \<Rightarrow> job \<Rightarrow> unit eng" where
  "CreateJob env j = repo_exec env (\<lambda>d.
     on_table (insert_row jb_key j) (\<lambda>t. d\<lparr>db_jobs := t\<rparr>) (db_jobs d))"

definition GetJob :: "env \<Rightarrow> int \<Rightarrow> job eng" where
  "GetJob env k = repo_query env (\<lambda>d. find_row (\<lambda>j. jb_key j = k) (db_jobs d))"

text \<open>The columns \<open>UpdateJob\<close> writes; identity, type and due date stay.\<close>

definition job_columns :: "job \<Rightarrow> job \<Rightarrow> job" where
  "job_columns j r = r\<lparr>jb_worker := jb_worker j, jb_lock_until := jb_lock_until j,
     jb_retries := jb_retries j, jb_state := jb_state j, jb_assignee := jb_assignee j,
     jb_candidate_users := jb_candidate_users j, jb_candidate_groups := jb_candidate_groups j,
     jb_breached_at := jb_breached_at j, jb_updated_at := jb_updated_at j\<rparr>"

definition UpdateJob :: "env \<Rightarrow> job \<Rightarrow> unit eng" where
  "UpdateJob env j = repo_exec env (\<lambda>d.
     on_table (update_by_key jb_key (jb_key j) (job_columns j)) (\<lambda>t. d\<lparr>db_jobs := t\<rparr>) (db_jobs d))"

definition compatibleJobTypes :: "string \<Rightarrow> string list" where
  "compatibleJobTypes jobType = [jobType]"

definition activatable :: "int \<Rightarrow> string \<Rightarrow> job \<Rightarrow> bool" where
  "activatable now jobType j \<longleftrightarrow>
     (jb_state j = ''CREATED'' \<or>
      jb_state j = ''ACTIVATED'' \<and> (case jb_lock_until j of None \<Rightarrow> False | Some t \<Rightarrow> t \<le> now)) \<and>
     jb_retries j > 0 \<and> (jobType = [] \<or> jb_type j \<in> set (compatibleJobTypes jobType))"

definition ListActivatableJobs :: "env \<Rightarrow> string \<Rightarrow> int \<Rightarrow> job list eng" where
  "ListActivatableJobs env jobType maxJobs =
     (let m1 = (if maxJobs \<le> 0 then 1 else maxJobs); m = (if m1 > 100 then 100 else m1) in
      bindE (timeNow env) (\<lambda>now.
        repo_query env (\<lambda>d. Inr (take (nat m)
          (sort_key jb_created_at (filter (activatable now jobType) (db_jobs d)))))))"

definition ListJobsByProcessInstanceAndType :: "env \<Rightarrow> int \<Rightarrow> string \<Rightarrow> job list eng" where
  "ListJobsByProcessInstanceAndType env k jobType = repo_query env (\<lambda>d. Inr (sort_key jb_created_at
     (filter (\<lambda>j. jb_instance_key j = k \<and> (jobType = [] \<or> jb_type j \<in> set (compatibleJobTypes jobType)))
       (db_jobs d))))"

definition ListOverdueJobs :: "env \<Rightarrow> int \<Rightarrow> job list eng" where
  "ListOverdueJobs env now = repo_query env (\<lambda>d. Inr
     (filter (\<lambda>j. jb_state j \<in> {''CREATED'', ''ACTIVATED''} \<and> jb_due_date j > zero_time \<and>
        jb_due_date j \<le> now \<and> jb_breached_at j = None) (db_jobs d)))"

definition CreateIncident :: "env \<Rightarrow> incident \<Rightarrow> unit eng" where
  "CreateIncident env i = repo_exec env (\<lambda>d.
     on_table (insert_row in_key i) (\<lambda>t. d\<lparr>db_incidents := t\<rparr>) (db_incidents d))"

definition UpdateIncident :: "env \<Rightarrow> incident \<Rightarrow> unit eng" where
  "UpdateIncident env i = repo_exec env (\<lambda>d.
     on_table (update_by_key in_key (in_key i)
         (\<lambda>r. r\<lparr>in_state := in_state i, in_resolved_at := in_resolved_at i\<rparr>))
       (\<lambda>t. d\<lparr>db_incidents := t\<rparr>) (db_incidents d))"

definition ListIncidents :: "env \<Rightarrow> int \<Rightarrow> int \<Rightarrow> incident list eng" where
  "ListIncidents env k limit =
     (let l1 = (if limit \<le> 0 then 100 else limit); l = (if l1 > 1000 then 1000 else l1) in
      repo_query env (\<lambda>d. Inr (take (nat l) (sort_key (\<lambda>i. - in_created_at i)
        (filter (\<lambda>i. k = 0 \<or> in_instance_key i = k) (db_incidents d))))))"

section \<open>Timers and message subscriptions\<close>

definition CreateTimer :: "env \<Rightarrow> timer \<Rightarrow> unit eng" where
  "CreateTimer env t = repo_exec env (\<lambda>d.
     on_table (insert_row tm_key t) (\<lambda>x. d\<lparr>db_timers := x\<rparr>) (db_timers d))"

definition GetTimer :: "env \<Rightarrow> int \<Rightarrow> timer eng" where
  "GetTimer env k = repo_query env (\<lambda>d. find_row (\<lambda>t. tm_key t = k) (db_timers d))"

definition UpdateTimer :: "env \<Rightarrow> timer \<Rightarrow> unit eng" where
  "UpdateTimer env t = repo_exec env (\<lambda>d.
     on_table (update_by_key tm_key (tm_key t)
         (\<lambda>r. r\<lparr>tm_state := tm_state t, tm_due_date := tm_due_date t, tm_repeat_count := tm_repeat_count t\<rparr>))
       (\<lambda>x. d\<lparr>db_timers := x\<rparr>) (db_timers d))"

definition ListCreatedTimersByElementInstanceKey :: "env \<Rightarrow> int \<Rightarrow> timer list eng" where
  "ListCreatedTimersByElementInstanceKey env k = repo_query env (\<lambda>d. Inr
     (filter (\<lambda>t. tm_state t = ''CREATED'' \<and> tm_element_key t = k) (db_timers d)))"

definition ListDueTimers :: "env \<Rightarrow> int \<Rightarrow> timer list eng" where
  "ListDueTimers env now = repo_query env (\<lambda>d. Inr
     (filter (\<lambda>t. tm_state t = ''CREATED'' \<and> tm_due_date t \<le> now) (db_timers d)))"

definition CreateMessageSubscription :: "env \<Rightarrow> subscription \<Rightarrow> unit eng" where
  "CreateMessageSubscription env u = repo_exec env (\<lambda>d.
     on_table (insert_row su_key u) (\<lambda>x. d\<lparr>db_subscriptions := x\<rparr>) (db_subscriptions d))"

definition GetMessageSubscription :: "env \<Rightarrow> int \<Rightarrow> subscription eng" where
  "GetMessageSubscription env k = repo_query env (\<lambda>d. find_row (\<lambda>u. su_key u = k) (db_subscriptions d))"

definition UpdateMessageSubscription :: "env \<Rightarrow> subscription \<Rightarrow> unit eng" where
  "UpdateMessageSubscription env u = repo_exec env (\<lambda>d.
     on_table (update_by_key su_key (su_key u) (\<lambda>r. r\<lparr>su_state := su_state u\<rparr>))
       (\<lambda>x. d\<lparr>db_subscriptions := x\<rparr>) (db_subscriptions d))"

definition ListMessageSubscriptions :: "env \<Rightarrow> string \<Rightarrow> string \<Rightarrow> subscription list eng" where
  "ListMessageSubscriptions env name ck = repo_query env (\<lambda>d. Inr
     (filter (\<lambda>u. su_state u = ''OPEN'' \<and> su_message_name u = name \<and>
        (ck = [] \<or> su_correlation_key u = ck)) (db_subscriptions d)))"

section \<open>Idempotency records\<close>

definition GetIdempotencyRecord :: "env \<Rightarrow> string \<Rightarrow> string \<Rightarrow> idempotency_record option eng" where
  "GetIdempotencyRecord env k op = repo_query env (\<lambda>d. Inr
     (List.find (\<lambda>r. ir_key r = k \<and> ir_operation r = op) (db_idempotency d)))"

definition CreateIdempotencyRecord :: "env \<Rightarrow> idempotency_record \<Rightarrow> unit eng" where
  "CreateIdempotencyRecord env r = repo_exec env (\<lambda>d.
     Inr ((), d\<lparr>db_idempotency :=
       (if (ir_key r, ir_operation r) \<in> (\<lambda>x. (ir_key x, ir_operation x)) ` set (db_idempotency d)
        then db_idempotency d else db_idempotency d @ [r])\<rparr>))"

text \<open>One \<open>SELECT\<close>, then one \<open>DELETE\<close> per record; the count so far is returned also on an error.\<close>

definition DeleteIdempotencyRecordsBefore :: "env \<Rightarrow> int \<Rightarrow> int \<Rightarrow> int eng" where
  "DeleteIdempotencyRecordsBefore env cutoff limit =
     bindE (repo_query env (\<lambda>d. Inr (let rows = sort_key ir_created_at
           (filter (\<lambda>r. ir_created_at r < cutoff) (db_idempotency d))
         in if limit > 0 then take (nat limit) rows else rows))) (\<lambda>records.
     foldE (\<lambda>deleted rec. bindE (repo_exec env (\<lambda>d.
         let gone = (\<lambda>r. ir_key r = ir_key rec \<and> ir_operation r = ir_operation rec) in
         Inr (int (length (filter gone (db_idempotency d))),
              d\<lparr>db_idempotency := filter (\<lambda>r. \<not> gone r) (db_idempotency d)\<rparr>)))
       (\<lambda>n. ret (deleted + n))) 0 records)"

section \<open>Outbox rows\<close>

definition outboxProcessingLease :: int where
  "outboxProcessingLease = 300000000000"

definition claimable :: "int \<Rightarrow> outbox_message \<Rightarrow> bool" where
  "claimable now m \<longleftrightarrow>
     (let stale = now - outboxProcessingLease in
      ob_status m = ''PENDING'' \<and> (case ob_next_attempt m of None \<Rightarrow> True | Some t \<Rightarrow> t \<le> now) \<or>
      ob_status m = ''PROCESSING'' \<and>
        (case ob_processing_started m of Some t \<Rightarrow> t \<le> stale | None \<Rightarrow> ob_created_at m \<le> stale))"

definition CreateOutboxMessage :: "env \<Rightarrow> outbox_message \<Rightarrow> unit eng" where
  "CreateOutboxMessage env m = repo_exec env (\<lambda>d.
     on_table (insert_row ob_id m) (\<lambda>x. d\<lparr>db_outbox := x\<rparr>) (db_outbox d))"

definition ListPendingOutboxMessages :: "env \<Rightarrow> int \<Rightarrow> int \<Rightarrow> outbox_message list eng" where
  "ListPendingOutboxMessages env now limit = (let l = (if limit \<le> 0 then 100 else limit) in
     repo_query env (\<lambda>d. Inr (take (nat l) (sort_key ob_created_at (filter (claimable now) (db_outbox d))))))"

definition claim_row :: "int \<Rightarrow> outbox_message \<Rightarrow> outbox_message" where
  "claim_row tm m = m\<lparr>ob_status := ''PROCESSING'', ob_attempts := ob_attempts m + 1, ob_last_error := [],
     ob_next_attempt := None, ob_processing_started := Some tm\<rparr>"

definition ClaimOutboxMessage :: "env \<Rightarrow> string \<Rightarrow> int \<Rightarrow> bool eng" where
  "ClaimOutboxMessage env i tm = repo_exec env (\<lambda>d.
     let hit = (\<lambda>m. ob_id m = i \<and> claimable tm m) in
     Inr (\<exists>m \<in> set (db_outbox d). hit m, d\<lparr>db_outbox := update_rows hit (claim_row tm) (db_outbox d)\<rparr>))"

definition update_outbox :: "env \<Rightarrow> string \<Rightarrow> (outbox_message \<Rightarrow> outbox_message) \<Rightarrow> unit eng" where
  "update_outbox env i f = repo_exec env (\<lambda>d.
     Inr ((), d\<lparr>db_outbox := update_rows (\<lambda>m. ob_id m = i) f (db_outbox d)\<rparr>))"

definition failed_row :: "string \<Rightarrow> int \<Rightarrow> outbox_message \<Rightarrow> outbox_message" where
  "failed_row err next m = m\<lparr>ob_status := ''PENDING'', ob_last_error := err,
     ob_next_attempt := Some next, ob_processing_started := None\<rparr>"

definition terminal_row :: "string \<Rightarrow> int \<Rightarrow> outbox_message \<Rightarrow> outbox_message" where
  "terminal_row err tm m = m\<lparr>ob_status := ''FAILED'', ob_last_error := err, ob_next_attempt := None,
     ob_processing_started := None, ob_published_at := Some tm\<rparr>"

definition published_row :: "int \<Rightarrow> outbox_message \<Rightarrow> outbox_message" where
  "published_row tm m = m\<lparr>ob_status := ''PUBLISHED'', ob_last_error := [], ob_next_attempt := None,
     ob_processing_started := None, ob_published_at := Some tm\<rparr>"

definition MarkOutboxMessagePublishFailed :: "env \<Rightarrow> string \<Rightarrow> string \<Rightarrow> int \<Rightarrow> unit eng" where
  "MarkOutboxMessagePublishFailed env i err next = update_outbox env i (failed_row err next)"

definition MarkOutboxMessageTerminalFailed :: "env \<Rightarrow> string \<Rightarrow> string \<Rightarrow> int \<Rightarrow> unit eng" where
  "MarkOutboxMessageTerminalFailed env i err tm = update_outbox env i (terminal_row err tm)"

definition MarkOutboxMessagePublished :: "env \<Rightarrow> string \<Rightarrow> int \<Rightarrow> unit eng" where
  "MarkOutboxMessagePublished env i tm = update_outbox env i (published_row tm)"

definition CountPendingOutboxMessages :: "env \<Rightarrow> int \<Rightarrow> int eng" where
  "CountPendingOutboxMessages env now =
     repo_query env (\<lambda>d. Inr (int (length (filter (claimable now) (db_outbox d)))))"

section \<open>Scheduler lease and decisions\<close>

definition TryAcquireRuntimeSchedulerLease :: "env \<Rightarrow> string \<Rightarrow> int \<Rightarrow> bool eng" where
  "TryAcquireRuntimeSchedulerLease env holder ttl =
     (if trim_space holder = [] then throw (Msg ''runtime scheduler lease holder is required'')
      else let ttl' = (if ttl \<le> 0 then 15000000000 else ttl) in
      bindE (timeNow env) (\<lambda>now.
        let row = \<lparr>sl_id = ''runtime-scheduler'', sl_holder = holder, sl_expires_at = now + ttl', sl_updated_at = now\<rparr>
        in repo_exec env (\<lambda>d.
          (case List.find (\<lambda>l. sl_id l = ''runtime-scheduler'') (db_leases d) of
             None \<Rightarrow> Inr (True, d\<lparr>db_leases := db_leases d @ [row]\<rparr>)
           | Some l \<Rightarrow> if sl_expires_at l \<le> now \<or> sl_holder l = holder
               then Inr (True, d\<lparr>db_leases := update_rows (\<lambda>l. sl_id l = ''runtime-scheduler'') (\<lambda>_. row) (db_leases d)\<rparr>)
               else Inr (False, d)))))"

definition GetDecisionByDecisionID :: "env \<Rightarrow> string \<Rightarrow> decision_def eng" where
  "GetDecisionByDecisionID env i = repo_query env (\<lambda>d. find_row (\<lambda>x. dd_decision_id x = i) (db_decisions d))"

definition UpsertDecision :: "env \<Rightarrow> decision_def \<Rightarrow> unit eng" where
  "UpsertDecision env dec =
     (if trim_space (dd_decision_id dec) = [] then throw (Msg ''decision id is required'')
      else bindE (timeNow env) (\<lambda>now.
        bindE (tryE (GetDecisionByDecisionID env (dd_decision_id dec))) (\<lambda>r.
          (case r of
             Inr old \<Rightarrow> repo_exec env (\<lambda>d. on_table
               (update_by_key dd_key (dd_key old) (\<lambda>x. x\<lparr>dd_name := dd_name dec, dd_version := dd_version old + 1,
                  dd_resource := dd_resource dec, dd_updated_at := now\<rparr>))
               (\<lambda>t. d\<lparr>db_decisions := t\<rparr>) (db_decisions d))
           | Inl e \<Rightarrow> if e \<noteq> NotFound then throw e
               else bindE (timeNow env) (\<lambda>nano.
                 let row = dec\<lparr>dd_key := (if dd_key dec = 0 then nano else dd_key dec),
                    dd_version := (if dd_version dec = 0 then 1 else dd_version dec),
                    dd_created_at := now, dd_updated_at := now\<rparr>
                 in repo_exec env (\<lambda>d. on_table (insert_row dd_key row)
                      (\<lambda>t. d\<lparr>db_decisions := t\<rparr>) (db_decisions d)))))))"

definition ListDecisionRows :: "env \<Rightarrow> decision_def list eng" where
  "ListDecisionRows env = repo_query env (\<lambda>d. Inr (sort_key dd_decision_id (db_decisions d)))"

section \<open>Query helpers\<close>

definition GetProcessByBpmnProcessID :: "env \<Rightarrow> string \<Rightarrow> process eng" where
  "GetProcessByBpmnProcessID env i = repo_query env (\<lambda>d.
     (case sort_key (\<lambda>p. (- pr_version p, pr_key p)) (filter (\<lambda>p. pr_bpmn_process_id p = i) (db_processes d)) of
        [] \<Rightarrow> Inl NotFound | p # _ \<Rightarrow> Inr p))"

definition GetProcessByBpmnProcessIDAndVersion :: "env \<Rightarrow> string \<Rightarrow> int \<Rightarrow> process eng" where
  "GetProcessByBpmnProcessIDAndVersion env i v = repo_query env (\<lambda>d.
     (case sort_key pr_key (filter (\<lambda>p. pr_bpmn_process_id p = i \<and> pr_version p = v) (db_processes d)) of
        [] \<Rightarrow> Inl NotFound | p # _ \<Rightarrow> Inr p))"

definition GetProcessInstanceWithState ::
  "env \<Rightarrow> int \<Rightarrow> (process_instance \<times> element_instance list \<times> variable list) eng" where
  "GetProcessInstanceWithState env k =
     bindE (GetProcessInstance env k) (\<lambda>p.
     bindE (repo_query env (\<lambda>d. Inr (filter (\<lambda>e. ei_instance_key e = k) (db_elements d)))) (\<lambda>els.
     bindE (repo_query env (\<lambda>d. Inr (filter (\<lambda>v. va_instance_key v = k) (db_variables d)))) (\<lambda>vs.
     ret (p, els, vs))))"

definition GetElementInstance :: "env \<Rightarrow> int \<Rightarrow> element_instance eng" where
  "GetElementInstance env k = repo_query env (\<lambda>d. find_row (\<lambda>e. ei_key e = k) (db_elements d))"

definition listActiveElementInstances :: "env \<Rightarrow> int \<Rightarrow> string list \<Rightarrow> element_instance list eng" where
  "listActiveElementInstances env k types = repo_query env (\<lambda>d. Inr
     (filter (\<lambda>e. ei_state e \<in> {''ACTIVATED'', ''ACTIVATING'', ''COMPLETING''} \<and>
        (k = 0 \<or> ei_instance_key e = k) \<and> (types = [] \<or> ei_type e \<in> set types)) (db_elements d)))"

definition ListActiveElementInstances :: "env \<Rightarrow> int \<Rightarrow> element_instance list eng" where
  "ListActiveElementInstances env k = listActiveElementInstances env k []"

definition ListActiveElementInstancesByTypes :: "env \<Rightarrow> int \<Rightarrow> string list \<Rightarrow> element_instance list eng" where
  "ListActiveElementInstancesByTypes env k types = listActiveElementInstances env k types"

definition ListActiveProcessInstances :: "env \<Rightarrow> process_instance list eng" where
  "ListActiveProcessInstances env = repo_query env (\<lambda>d. Inr (filter (\<lambda>p. pi_state p = ''ACTIVE'') (db_instances d)))"

definition ListProcessInstancesByState :: "env \<Rightarrow> string \<Rightarrow> int \<Rightarrow> process_instance list eng" where
  "ListProcessInstancesByState env st limit = repo_query env (\<lambda>d. Inr
     (let rows = sort_key (\<lambda>p. (- pi_end_time p, - pi_created_at p))
           (filter (\<lambda>p. st = [] \<or> pi_state p = st) (db_instances d))
      in if limit > 0 then take (nat limit) rows else rows))"

fun normalize_values :: "string list \<Rightarrow> string list \<Rightarrow> string list" where
  "normalize_values [] seen = []"
| "normalize_values (v # vs) seen = (let n = to_lower (trim_space v) in
     if n = [] \<or> n \<in> set seen then normalize_values vs seen else n # normalize_values vs (n # seen))"

definition normalizeQueryValues :: "string list \<Rightarrow> string list" where
  "normalizeQueryValues vs = normalize_values vs []"

definition ListCompletedProcessInstancesWithCompletedJobsByWorkers ::
  "env \<Rightarrow> string \<Rightarrow> string list \<Rightarrow> int \<Rightarrow> process_instance list eng" where
  "ListCompletedProcessInstancesWithCompletedJobsByWorkers env jobType workers limit =
     (let ws = normalizeQueryValues workers; l = (if limit \<le> 0 then 100 else limit) in
      if ws = [] then ret []
      else repo_query env (\<lambda>d. Inr (take (nat l) (sort_key (\<lambda>p. (- pi_end_time p, - pi_created_at p))
        (filter (\<lambda>p. pi_state p = ''COMPLETED'' \<and> (\<exists>j \<in> set (db_jobs d). jb_instance_key j = pi_key p \<and>
            jb_type j \<in> set (compatibleJobTypes jobType) \<and> jb_state j = ''COMPLETED'' \<and>
            to_lower (trim_space (jb_worker j)) \<in> set ws)) (db_instances d))))))"

definition ListProcesses :: "env \<Rightarrow> process list eng" where
  "ListProcesses env = repo_query env (\<lambda>d. Inr (sort_key (\<lambda>p. - pr_created_at p) (db_processes d)))"

end
