(* ===== verification/Outbox.thy ===== *)
theory Outbox
  imports Repository
begin

text \<open>
  Transactions and the transactional outbox of \<open>engine.go\<close>, with the counters of
  \<open>engine_metrics.go\<close>. Events published inside \<open>withTx\<close> go to a buffer; at the end of the
  transaction the buffer is written to the outbox table, and only after the commit are the events
  published and their rows marked. The relay (\<open>flushPendingOutbox\<close>) picks up what is left.

  The engine is built with a publisher (the nil checks of the source are not modelled), the
  protobuf encoding of an event is the event itself, and log output is dropped.
\<close>

section \<open>Counters\<close>

definition incOutboxPublishSuccess :: "metrics \<Rightarrow> metrics" where
  "incOutboxPublishSuccess m = m\<lparr>mt_publish_success := mt_publish_success m + 1\<rparr>"

definition incOutboxPublishFailure :: "metrics \<Rightarrow> metrics" where
  "incOutboxPublishFailure m = m\<lparr>mt_publish_failure := mt_publish_failure m + 1\<rparr>"

definition setOutboxPending :: "int \<Rightarrow> metrics \<Rightarrow> metrics" where
  "setOutboxPending n m = m\<lparr>mt_outbox_pending := (if n < 0 then 0 else n)\<rparr>"

definition setOutboxPublishLagSec :: "int \<Rightarrow> metrics \<Rightarrow> metrics" where
  "setOutboxPublishLagSec n m = m\<lparr>mt_publish_lag_sec := (if n < 0 then 0 else n)\<rparr>"

definition incIdempotencyHit :: "metrics \<Rightarrow> metrics" where
  "incIdempotencyHit m = m\<lparr>mt_idempotency_hit := mt_idempotency_hit m + 1\<rparr>"

definition incIdempotencyMiss :: "metrics \<Rightarrow> metrics" where
  "incIdempotencyMiss m = m\<lparr>mt_idempotency_miss := mt_idempotency_miss m + 1\<rparr>"

definition meter :: "(metrics \<Rightarrow> metrics) \<Rightarrow> unit eng" where
  "meter f = modifyS (\<lambda>s. s\<lparr>s_metrics := f (s_metrics s)\<rparr>)"

section \<open>Publishing\<close>

text \<open>The bus publisher, which may fail, or the buffer of the open transaction, which does not.\<close>

definition Publish :: "env \<Rightarrow> event \<Rightarrow> string \<Rightarrow> unit eng" where
  "Publish env ev ty = (\<lambda>s. case s_buf s of
       Some b \<Rightarrow> (Ok (), s\<lparr>s_buf := Some (b @ [(ev, ty)])\<rparr>)
     | None \<Rightarrow> (let s' = s\<lparr>s_pubs := Suc (s_pubs s)\<rparr> in
         if env_pub_fault env (s_pubs s) then (Error PubErr, s')
         else (Ok (), s'\<lparr>s_bus := s_bus s @ [(ev, ty)]\<rparr>)))"

section \<open>Constants and small functions\<close>

definition outboxBaseRetryDelay :: int where "outboxBaseRetryDelay = 1000000000"
definition outboxMaxRetryDelay :: int where "outboxMaxRetryDelay = 300000000000"
definition outboxMaxErrorLength :: nat where "outboxMaxErrorLength = 2048"
definition defaultOutboxMaxAttempts :: int where "defaultOutboxMaxAttempts = 10"
definition outboxFlushBatchSize :: int where "outboxFlushBatchSize = 200"
definition defaultIdempotencyCleanupBatch :: int where "defaultIdempotencyCleanupBatch = 500"

definition safeInt32 :: "int \<Rightarrow> int" where
  "safeInt32 v = (if v > 2147483647 then 2147483647 else if v < - 2147483648 then - 2147483648 else v)"

definition OutboxMaxAttempts :: "env \<Rightarrow> int" where
  "OutboxMaxAttempts env = (if env_outbox_max env \<le> 0 then defaultOutboxMaxAttempts else env_outbox_max env)"

definition SetOutboxMaxAttempts :: "int \<Rightarrow> env \<Rightarrow> env" where
  "SetOutboxMaxAttempts n env = env\<lparr>env_outbox_max := (if n \<le> 0 then defaultOutboxMaxAttempts else n)\<rparr>"

definition outboxRetryDelay :: "int \<Rightarrow> int" where
  "outboxRetryDelay attempt =
     (if attempt \<le> 1 then outboxBaseRetryDelay
      else let shift = (if attempt - 1 > 8 then 8 else attempt - 1);
               delay = outboxBaseRetryDelay * push_bit (nat shift) 1
           in if delay > outboxMaxRetryDelay then outboxMaxRetryDelay else delay)"

definition known_event_types :: "string list" where
  "known_event_types = [''ProcessInstanceCreated'', ''ElementInstanceActivated'', ''VariableUpdated'',
     ''ElementInstanceCompleted'', ''ProcessInstanceCompleted'', ''JobCreated'', ''JobActivated'',
     ''JobCompleted'', ''JobFailed'']"

definition unmarshalOutboxEvent :: "string \<Rightarrow> event \<Rightarrow> go_err + event" where
  "unmarshalOutboxEvent ty payload =
     (if ty \<notin> set known_event_types then Inl (Msg (''unsupported event type '' @ ty))
      else if event_type_name payload \<noteq> ty then Inl (Msg ''failed to unmarshal event payload'')
      else Inr payload)"

section \<open>The outbox\<close>

text \<open>A buffered event once it is in the outbox: the event, its type, the row id and its time.\<close>

type_synonym persisted_event = "(event \<times> string) \<times> string \<times> int"

definition outbox_row :: "string \<Rightarrow> int \<Rightarrow> event \<times> string \<Rightarrow> outbox_message" where
  "outbox_row i t ev = \<lparr>ob_id = i, ob_event_type = snd ev, ob_payload = fst ev, ob_status = ''PENDING'',
     ob_attempts = 0, ob_last_error = [], ob_next_attempt = None, ob_processing_started = None,
     ob_created_at = t, ob_published_at = None\<rparr>"

primrec persistBufferedEventsToOutbox :: "env \<Rightarrow> (event \<times> string) list \<Rightarrow> persisted_event list eng" where
  "persistBufferedEventsToOutbox env [] = ret []"
| "persistBufferedEventsToOutbox env (ev # evs) =
     bindE (GenerateUUIDv7 env) (\<lambda>i.
     bindE (timeNow env) (\<lambda>t.
     thenE (mapErr (Wrapf (''failed to persist outbox message for '' @ snd ev))
             (CreateOutboxMessage env (outbox_row i t ev)))
     (bindE (persistBufferedEventsToOutbox env evs) (\<lambda>r. ret ((ev, i, t) # r)))))"

definition recordOutboxPublishSuccess :: "int \<Rightarrow> int \<Rightarrow> unit eng" where
  "recordOutboxPublishSuccess createdAt publishedAt =
     thenE (meter incOutboxPublishSuccess)
     (if createdAt \<noteq> zero_time
      then meter (setOutboxPublishLagSec (int_of_f64 (of_int (publishedAt - createdAt) / 1000000000)))
      else ret ())"

definition recordOutboxPublishFailure :: "env \<Rightarrow> string \<Rightarrow> int \<Rightarrow> go_err \<Rightarrow> unit eng" where
  "recordOutboxPublishFailure env i attempt err =
     thenE (meter incOutboxPublishFailure)
     (if i = [] then ret ()
      else let m0 = err_string err;
               m = (if length m0 > outboxMaxErrorLength then take outboxMaxErrorLength m0 else m0) in
        if attempt \<ge> OutboxMaxAttempts env
        then bindE (timeNow env) (\<lambda>t. ignoreE (MarkOutboxMessageTerminalFailed env i m t))
        else bindE (timeNow env) (\<lambda>t.
               ignoreE (MarkOutboxMessagePublishFailed env i m (t + outboxRetryDelay attempt))))"

definition flushOne :: "env \<Rightarrow> persisted_event \<Rightarrow> unit eng" where
  "flushOne env p = (case p of ((ev, ty), i, createdAt) \<Rightarrow>
     bindE (tryE (Publish env ev ty)) (\<lambda>r.
     (case r of
        Inl e \<Rightarrow> recordOutboxPublishFailure env i 1 e
      | Inr _ \<Rightarrow>
          if i = [] then ret ()
          else bindE (timeNow env) (\<lambda>publishedAt.
            bindE (tryE (MarkOutboxMessagePublished env i publishedAt)) (\<lambda>r'.
            (case r' of
               Inl e \<Rightarrow> recordOutboxPublishFailure env i 1 e
             | Inr _ \<Rightarrow> recordOutboxPublishSuccess createdAt publishedAt))))))"

definition flushBufferedEvents :: "env \<Rightarrow> persisted_event list \<Rightarrow> unit eng" where
  "flushBufferedEvents env events = forE events (flushOne env)"

record relay_result =
  rr_pending :: int
  rr_claimed :: int
  rr_published :: int
  rr_failed :: int

definition relayOne :: "env \<Rightarrow> relay_result \<Rightarrow> outbox_message \<Rightarrow> relay_result eng" where
  "relayOne env result msg =
     bindE (timeNow env) (\<lambda>now.
     bindE (tryE (ClaimOutboxMessage env (ob_id msg) now)) (\<lambda>c.
     (case c of
        Inl e \<Rightarrow> ret (result\<lparr>rr_failed := rr_failed result + 1\<rparr>)
      | Inr False \<Rightarrow> ret result
      | Inr True \<Rightarrow>
          let result1 = result\<lparr>rr_claimed := rr_claimed result + 1\<rparr>;
              failed = result1\<lparr>rr_failed := rr_failed result1 + 1\<rparr>;
              attempt = ob_attempts msg + 1
          in (case unmarshalOutboxEvent (ob_event_type msg) (ob_payload msg) of
                Inl e \<Rightarrow> thenE (recordOutboxPublishFailure env (ob_id msg) attempt e) (ret failed)
              | Inr ev \<Rightarrow>
                  bindE (tryE (Publish env ev (ob_event_type msg))) (\<lambda>r.
                  (case r of
                     Inl e \<Rightarrow> thenE (recordOutboxPublishFailure env (ob_id msg) attempt e) (ret failed)
                   | Inr _ \<Rightarrow>
                       bindE (timeNow env) (\<lambda>publishedAt.
                       bindE (tryE (MarkOutboxMessagePublished env (ob_id msg) publishedAt)) (\<lambda>r'.
                       (case r' of
                          Inl e \<Rightarrow> thenE (recordOutboxPublishFailure env (ob_id msg) attempt e) (ret failed)
                        | Inr _ \<Rightarrow> thenE (recordOutboxPublishSuccess (ob_created_at msg) publishedAt)
                            (ret (result1\<lparr>rr_published := rr_published result1 + 1\<rparr>)))))))))))"

definition flushPendingOutbox :: "env \<Rightarrow> int \<Rightarrow> relay_result eng" where
  "flushPendingOutbox env limit =
     bindE (timeNow env) (\<lambda>now.
     bindE (mapErr (Wrapf ''count pending outbox messages'') (CountPendingOutboxMessages env now)) (\<lambda>pending.
     thenE (meter (setOutboxPending pending))
     (bindE (mapErr (Wrapf ''list pending outbox messages'') (ListPendingOutboxMessages env now limit)) (\<lambda>msgs.
      foldE (relayOne env) \<lparr>rr_pending = pending, rr_claimed = 0, rr_published = 0, rr_failed = 0\<rparr> msgs))))"

definition RunOutboxRelayCycle :: "env \<Rightarrow> int \<Rightarrow> relay_result eng" where
  "RunOutboxRelayCycle env limit = flushPendingOutbox env limit"

section \<open>Transactions\<close>

text \<open>
  \<open>repo.WithTx\<close>: the function runs between a begin and a commit, each a database call; when it
  fails or panics, or when the commit fails, the tables are those of before.
\<close>

definition repo_WithTx :: "env \<Rightarrow> 'a eng \<Rightarrow> 'a eng" where
  "repo_WithTx env fn = (\<lambda>s.
     (case repo_query env (\<lambda>_. Inr ()) s of
        (Ok _, s1) \<Rightarrow>
          (case fn s1 of
             (Ok x, s2) \<Rightarrow>
               (case repo_query env (\<lambda>_. Inr ()) s2 of
                  (Ok _, s3) \<Rightarrow> (Ok x, s3)
                | (Error e, s3) \<Rightarrow> (Error e, s3\<lparr>s_db := s_db s\<rparr>)
                | (Panic p, s3) \<Rightarrow> (Panic p, s3\<lparr>s_db := s_db s\<rparr>)
                | (Diverged, s3) \<Rightarrow> (Diverged, s3))
           | (Error e, s2) \<Rightarrow> (Error e, s2\<lparr>s_db := s_db s\<rparr>)
           | (Panic p, s2) \<Rightarrow> (Panic p, s2\<lparr>s_db := s_db s\<rparr>)
           | (Diverged, s2) \<Rightarrow> (Diverged, s2))
      | (Error e, s1) \<Rightarrow> (Error e, s1)
      | (Panic p, s1) \<Rightarrow> (Panic p, s1)
      | (Diverged, s1) \<Rightarrow> (Diverged, s1)))"

text \<open>The transaction's own publisher: a fresh buffer for \<open>fn\<close>, the caller's publisher after it.\<close>

definition with_buffer :: "'a eng \<Rightarrow> 'a eng" where
  "with_buffer fn = (\<lambda>s. case fn (s\<lparr>s_buf := Some []\<rparr>) of (r, s') \<Rightarrow> (r, s'\<lparr>s_buf := s_buf s\<rparr>))"

definition buffered_events :: "est \<Rightarrow> (event \<times> string) list" where
  "buffered_events s = (case s_buf s of None \<Rightarrow> [] | Some b \<Rightarrow> b)"

definition tx_body :: "env \<Rightarrow> 'a eng \<Rightarrow> ('a \<times> persisted_event list) eng" where
  "tx_body env fn =
     bindE fn (\<lambda>x.
     bindE (gets buffered_events) (\<lambda>evs.
     bindE (persistBufferedEventsToOutbox env evs) (\<lambda>persisted. ret (x, persisted))))"

definition withTx :: "env \<Rightarrow> 'a eng \<Rightarrow> 'a eng" where
  "withTx env fn =
     bindE (with_buffer (repo_WithTx env (tx_body env fn))) (\<lambda>(x, outboxEvents).
     thenE (flushBufferedEvents env outboxEvents)
     (thenE (ignoreE (flushPendingOutbox env outboxFlushBatchSize)) (ret x)))"

section \<open>Idempotency keys\<close>

definition RunIdempotencyCleanup :: "env \<Rightarrow> int \<Rightarrow> int \<Rightarrow> (int option \<times> int) eng" where
  "RunIdempotencyCleanup env ttl limit =
     (if ttl \<le> 0 then ret (None, 0)
      else let l = (if limit \<le> 0 then defaultIdempotencyCleanupBatch else limit) in
        bindE (timeNow env) (\<lambda>now.
        bindE (mapErr (Wrapf ''delete idempotency records'') (DeleteIdempotencyRecordsBefore env (now - ttl) l)) (\<lambda>n.
        ret (Some (now - ttl), n))))"

definition HasProcessedIdempotencyKey :: "env \<Rightarrow> string \<Rightarrow> string \<Rightarrow> bool eng" where
  "HasProcessedIdempotencyKey env k0 op0 = (let k = trim_space k0; op = trim_space op0 in
     if k = [] \<or> op = [] then ret False
     else bindE (GetIdempotencyRecord env k op) (\<lambda>r.
       thenE (meter (if r \<noteq> None then incIdempotencyHit else incIdempotencyMiss)) (ret (r \<noteq> None))))"

definition RecordIdempotencyKey :: "env \<Rightarrow> string \<Rightarrow> string \<Rightarrow> unit eng" where
  "RecordIdempotencyKey env k0 op0 = (let k = trim_space k0; op = trim_space op0 in
     if k = [] \<or> op = [] then ret ()
     else bindE (timeNow env) (\<lambda>t.
       CreateIdempotencyRecord env \<lparr>ir_key = k, ir_operation = op, ir_created_at = t\<rparr>))"

end
