(* ===== verification/Gateway.thy ===== *)
theory Gateway
  imports Outbox
begin

text \<open>
  The decisions of \<open>gateway_logic.go\<close> and \<open>expression_eval.go\<close>: conditions (with the rewriting of
  a single \<open>=\<close> into \<open>==\<close>), which flows a step takes, when a join is ready, and the breadth-first
  search \<open>canReach\<close> that the inclusive join rests on.
\<close>

section \<open>Conditions\<close>

definition defaultGatewayConditionTimeout :: int where "defaultGatewayConditionTimeout = 1000000000"
definition defaultScriptEvaluationTimeout :: int where "defaultScriptEvaluationTimeout = 5000000000"

text \<open>
  \<open>evaluateJavaScriptExpression\<close>: the script is run in strict mode with the context as globals. The
  interpreter is goja, a parameter; its failures carry the kind of expression and the error code.
\<close>

definition evaluateJavaScriptExpression ::
  "env \<Rightarrow> string \<Rightarrow> vars \<Rightarrow> int \<Rightarrow> string \<Rightarrow> go_err + (val \<times> bool \<times> vars)" where
  "evaluateJavaScriptExpression env expression ctx timeout kind =
     (let t = (if timeout \<le> 0
               then (if kind = ''condition'' then defaultGatewayConditionTimeout else defaultScriptEvaluationTimeout)
               else timeout)
      in (case env_js env ([CHR 0x22] @ ''use strict'' @ [CHR 0x22, CHR '';'', CHR 0x0A] @ expression) ctx t of
            JsError code cause \<Rightarrow> Inl (EvalError kind code cause)
          | JsOk v b g \<Rightarrow> Inr (v, b, g)))"

text \<open>
  One character of the scan for a lone \<open>=\<close> outside quotes: is it one, and the quoting state after it
  (inside single quotes, inside double quotes, after a backslash).
\<close>

definition scan_char :: "char \<Rightarrow> char \<Rightarrow> char \<Rightarrow> bool \<Rightarrow> bool \<Rightarrow> bool \<Rightarrow> bool \<times> bool \<times> bool \<times> bool" where
  "scan_char prev ch next inS inD esc =
     (if esc then (False, inS, inD, False)
      else if (inS \<or> inD) \<and> ch = CHR 0x5C then (False, inS, inD, True)
      else if ch = CHR 0x27 \<and> \<not> inD then (False, \<not> inS, inD, False)
      else if ch = CHR 0x22 \<and> \<not> inS then (False, inS, \<not> inD, False)
      else (\<not> (inS \<or> inD \<or> ch \<noteq> CHR ''='') \<and>
            \<not> (prev = CHR ''='' \<or> next = CHR ''='' \<or> prev = CHR ''!'' \<or> prev = CHR ''<'' \<or> prev = CHR ''>'' \<or>
               next = CHR ''>''), inS, inD, False))"

definition head_or_nul :: "string \<Rightarrow> char" where
  "head_or_nul s = (case s of [] \<Rightarrow> CHR 0x00 | c # _ \<Rightarrow> c)"

text \<open>The scan: \<open>None\<close> when there are two lone \<open>=\<close>, else the index of the one there is, if any.\<close>

fun scanEq :: "char \<Rightarrow> string \<Rightarrow> nat \<Rightarrow> bool \<Rightarrow> bool \<Rightarrow> bool \<Rightarrow> nat option \<Rightarrow> nat option option" where
  "scanEq prev [] i inS inD esc idx = Some idx"
| "scanEq prev (ch # rest) i inS inD esc idx =
     (case scan_char prev ch (head_or_nul rest) inS inD esc of (lone, inS', inD', esc') \<Rightarrow>
        if lone then (if idx \<noteq> None then None else scanEq ch rest (Suc i) inS' inD' esc' (Some i))
        else scanEq ch rest (Suc i) inS' inD' esc' idx)"

definition rewriteSingleEqualsComparison :: "string \<Rightarrow> string \<times> bool" where
  "rewriteSingleEqualsComparison expr =
     (case scanEq (CHR 0x00) expr 0 False False False None of
        Some (Some k) \<Rightarrow> (take k expr @ ''=='' @ drop (Suc k) expr, True)
      | _ \<Rightarrow> (expr, False))"

definition normalizeConditionForEvaluation :: "string \<Rightarrow> string" where
  "normalizeConditionForEvaluation condition =
     (let trimmed = trim_space condition in
      case rewriteSingleEqualsComparison trimmed of (rewritten, ok) \<Rightarrow> if ok then rewritten else trimmed)"

definition evaluateCondition :: "env \<Rightarrow> string \<Rightarrow> vars \<Rightarrow> bool" where
  "evaluateCondition env condition ctx =
     (if condition = [] then True
      else let c = normalizeConditionForEvaluation condition in
        if c = ''true'' then True
        else if c = ''false'' then False
        else (case evaluateJavaScriptExpression env c ctx defaultGatewayConditionTimeout ''condition'' of
                Inl e \<Rightarrow> False
              | Inr (v, truthy, g) \<Rightarrow> (case v of VBool b \<Rightarrow> b | _ \<Rightarrow> truthy)))"

section \<open>Which flows a step takes\<close>

definition is_default_flow :: "step \<Rightarrow> transition \<Rightarrow> bool" where
  "is_default_flow st t \<longleftrightarrow> st_default_flow st \<noteq> [] \<and> st_default_flow st = tr_id t"

definition takes :: "env \<Rightarrow> vars \<Rightarrow> transition \<Rightarrow> bool" where
  "takes env ctx t \<longleftrightarrow> tr_condition t = [] \<or> evaluateCondition env (tr_condition t) ctx"

definition default_target :: "step \<Rightarrow> string list" where
  "default_target st = (if st_default_flow st = [] then []
     else (case List.find (\<lambda>t. tr_id t = st_default_flow st) (st_outgoing st) of
             None \<Rightarrow> [] | Some t \<Rightarrow> [tr_target t]))"

definition determineNextStepIDs :: "env \<Rightarrow> vars \<Rightarrow> step \<Rightarrow> go_err + string list" where
  "determineNextStepIDs env ctx st =
     (if st_type st = StepTypeGatewayParallel \<or> st_type st = StepTypeGatewayEventBased
      then Inr (map tr_target (st_outgoing st))
      else if st_type st = StepTypeGatewayInclusive
      then let matched = map tr_target (filter (\<lambda>t. \<not> is_default_flow st t \<and> takes env ctx t) (st_outgoing st));
               targets = (if matched = [] then default_target st else matched)
           in if targets = [] then Inl (Msg (''no matching path for inclusive gateway '' @ st_id st))
              else Inr targets
      else (case List.find (\<lambda>t. \<not> is_default_flow st t \<and> takes env ctx t) (st_outgoing st) of
              Some t \<Rightarrow> Inr [tr_target t]
            | None \<Rightarrow> if default_target st = [] then Inl (Msg (''no outgoing path found for step '' @ st_id st))
                else Inr (default_target st)))"

section \<open>Reachability\<close>

text \<open>The step map of \<open>canReach\<close>: every step, nested ones too; the last one indexed wins.\<close>

definition step_map :: "step list \<Rightarrow> string \<Rightarrow> step option" where
  "step_map ss i = List.find (\<lambda>s. st_id s = i) (rev (all_steps ss))"

primrec push_unvisited :: "transition list \<Rightarrow> string list \<Rightarrow> string list \<Rightarrow> string list \<times> string list" where
  "push_unvisited [] vis q = (vis, q)"
| "push_unvisited (t # ts) vis q =
     (if tr_target t \<in> set vis then push_unvisited ts vis q
      else push_unvisited ts (tr_target t # vis) (q @ [tr_target t]))"

definition all_targets :: "step list \<Rightarrow> string set" where
  "all_targets ss = (\<Union>s \<in> set (all_steps ss). tr_target ` set (st_outgoing s))"

lemma finite_all_targets [simp]: "finite (all_targets ss)"
  by (simp add: all_targets_def)

lemma step_map_in: "step_map ss i = Some s \<Longrightarrow> s \<in> set (all_steps ss) \<and> st_id s = i"
  by (auto simp: step_map_def find_Some_iff) (metis nth_mem set_rev length_rev)

lemma step_map_targets: "step_map ss i = Some s \<Longrightarrow> tr_target ` set (st_outgoing s) \<subseteq> all_targets ss"
  using step_map_in unfolding all_targets_def by fastforce

lemma push_unvisited_measure:
  assumes "tr_target ` set ts \<subseteq> A" and "finite A" and "push_unvisited ts vis q = (vis', q')"
  shows "length q' + card (A - set vis') = length q + card (A - set vis)"
  using assms
proof (induction ts arbitrary: vis q)
  case Nil
  then show ?case by simp
next
  case (Cons t ts)
  show ?case
  proof (cases "tr_target t \<in> set vis")
    case True
    with Cons show ?thesis by simp
  next
    case False
    with Cons.prems have in_A: "tr_target t \<in> A - set vis" by auto
    have "A - set (tr_target t # vis) = (A - set vis) - {tr_target t}" by auto
    then have card: "card (A - set vis) = Suc (card (A - set (tr_target t # vis)))"
      using in_A Cons.prems(2) by (metis card.remove finite_Diff)
    from False Cons.prems have "push_unvisited ts (tr_target t # vis) (q @ [tr_target t]) = (vis', q')"
      by simp
    with Cons.IH [of "tr_target t # vis" "q @ [tr_target t]"] Cons.prems(1,2) card show ?thesis by simp
  qed
qed

text \<open>The loop of the search: the queue, and the steps seen so far.\<close>

function reach_loop :: "step list \<Rightarrow> string \<Rightarrow> string list \<Rightarrow> string list \<Rightarrow> bool" where
  "reach_loop ss target vis [] = False"
| "reach_loop ss target vis (c # q) =
     (if c = target then True
      else (case step_map ss c of
              None \<Rightarrow> reach_loop ss target vis q
            | Some s \<Rightarrow> (case push_unvisited (st_outgoing s) vis q of (vis', q') \<Rightarrow>
                reach_loop ss target vis' q')))"
  by pat_completeness auto
termination
proof (relation "measure (\<lambda>(ss, target, vis, q). length q + card (all_targets ss - set vis))", goal_cases)
  case 1
  show ?case by simp
next
  case 2
  then show ?case by simp
next
  case (3 ss target vis c q s vis' q')
  then have "push_unvisited (st_outgoing s) vis q = (vis', q')" by simp
  from push_unvisited_measure [OF step_map_targets [OF 3(2)] finite_all_targets this] show ?case by simp
qed

definition canReach :: "string \<Rightarrow> string \<Rightarrow> step list \<Rightarrow> bool" where
  "canReach start target ss = (if start = target then True else reach_loop ss target [start] [start])"

text \<open>The flow graph: an edge for every sequence flow out of an indexed step.\<close>

definition flow_edges :: "step list \<Rightarrow> (string \<times> string) set" where
  "flow_edges ss = {(u, v). \<exists>s t. step_map ss u = Some s \<and> t \<in> set (st_outgoing s) \<and> v = tr_target t}"

lemma push_unvisited_sets:
  "push_unvisited ts vis q = (vis', q') \<Longrightarrow>
   set vis' = set vis \<union> tr_target ` set ts \<and> set q' = set q \<union> (tr_target ` set ts - set vis)"
  by (induction ts arbitrary: vis q) (auto split: if_splits)

lemma reach_loop_sound:
  "reach_loop ss target vis q \<Longrightarrow> \<exists>x \<in> set q. (x, target) \<in> (flow_edges ss)\<^sup>*"
proof (induction ss target vis q rule: reach_loop.induct)
  case (1 ss target vis)
  then show ?case by simp
next
  case (2 ss target vis c q)
  consider "c = target" | "c \<noteq> target" "step_map ss c = None"
    | s where "c \<noteq> target" "step_map ss c = Some s" by fastforce
  then show ?case
  proof cases
    case 1
    then show ?thesis by simp
  next
    case 2
    with "2.prems" have "reach_loop ss target vis q" by simp
    with "2.IH"(1) 2 show ?thesis by simp
  next
    case (3 s)
    note ne = 3(1) and s = 3(2)
    obtain vis' q' where p: "push_unvisited (st_outgoing s) vis q = (vis', q')" by fastforce
    from "2.prems" s p ne have "reach_loop ss target vis' q'" by simp
    from "2.IH"(2) [OF ne s p [symmetric] this]
    obtain x where x: "x \<in> set q'" "(x, target) \<in> (flow_edges ss)\<^sup>*" by blast
    show ?thesis
    proof (cases "x \<in> set q")
      case True
      with x show ?thesis by auto
    next
      case False
      with x(1) push_unvisited_sets [OF p] s have "(c, x) \<in> flow_edges ss"
        by (auto simp: flow_edges_def)
      from this x(2) have "(c, target) \<in> (flow_edges ss)\<^sup>*" by (rule converse_rtrancl_into_rtrancl)
      then show ?thesis by simp
    qed
  qed
qed

lemma reach_loop_complete:
  assumes "\<not> reach_loop ss target vis q" and "set q \<subseteq> set vis"
    and "\<forall>v \<in> set vis - set q. v \<noteq> target \<and> flow_edges ss `` {v} \<subseteq> set vis"
  shows "\<exists>C. set vis \<subseteq> C \<and> flow_edges ss `` C \<subseteq> C \<and> target \<notin> C"
  using assms
proof (induction ss target vis q rule: reach_loop.induct)
  case (1 ss target vis)
  then show ?case by (intro exI [of _ "set vis"]) auto
next
  case (2 ss target vis c q)
  then have ne: "c \<noteq> target" by auto
  show ?case
  proof (cases "step_map ss c")
    case None
    then have "flow_edges ss `` {c} = {}" by (auto simp: flow_edges_def)
    with 2 None ne show ?thesis by auto
  next
    case (Some s)
    obtain vis' q' where p: "push_unvisited (st_outgoing s) vis q = (vis', q')" by fastforce
    note sets = push_unvisited_sets [OF p]
    have succ: "flow_edges ss `` {c} = tr_target ` set (st_outgoing s)"
      using Some by (auto simp: flow_edges_def)
    from "2.prems"(1) Some p ne have n: "\<not> reach_loop ss target vis' q'" by simp
    have q: "set q' \<subseteq> set vis'" using sets "2.prems"(2) by auto
    have inv: "\<forall>v \<in> set vis' - set q'. v \<noteq> target \<and> flow_edges ss `` {v} \<subseteq> set vis'"
    proof
      fix v assume v: "v \<in> set vis' - set q'"
      show "v \<noteq> target \<and> flow_edges ss `` {v} \<subseteq> set vis'"
      proof (cases "v = c")
        case True
        have "flow_edges ss `` {c} \<subseteq> set vis'" unfolding succ using sets by simp
        with True ne show ?thesis by simp
      next
        case False
        have "v \<in> set vis' - set q'" using v .
        then have "v \<in> set vis - set q" by (cases "v \<in> set vis"; cases "v \<in> tr_target ` set (st_outgoing s)") (simp_all add: sets)
        then have "v \<in> set vis - set (c # q)" using False by simp
        then have "v \<noteq> target \<and> flow_edges ss `` {v} \<subseteq> set vis" by (rule "2.prems"(3) [rule_format])
        moreover have "set vis \<subseteq> set vis'" using sets by simp
        ultimately show ?thesis by (elim conjE) (intro conjI, assumption, rule subset_trans)
      qed
    qed
    from "2.IH"(2) [OF ne Some p [symmetric] n q inv] obtain C where
      "set vis' \<subseteq> C" "flow_edges ss `` C \<subseteq> C" "target \<notin> C" by (elim exE conjE)
    moreover have "set vis \<subseteq> set vis'" using sets by simp
    ultimately show ?thesis by (intro exI [of _ C]) simp
  qed
qed

text \<open>The search decides reachability in the flow graph.\<close>

lemma canReach_iff: "canReach a b ss \<longleftrightarrow> (a, b) \<in> (flow_edges ss)\<^sup>*"
proof (cases "a = b")
  case True
  then show ?thesis by (simp add: canReach_def)
next
  case False
  show ?thesis
  proof
    assume "canReach a b ss"
    with False have "reach_loop ss b [a] [a]" by (simp add: canReach_def)
    from reach_loop_sound [OF this] show "(a, b) \<in> (flow_edges ss)\<^sup>*" by simp
  next
    assume r: "(a, b) \<in> (flow_edges ss)\<^sup>*"
    show "canReach a b ss"
    proof (rule ccontr)
      assume "\<not> canReach a b ss"
      with False have "\<not> reach_loop ss b [a] [a]" by (simp add: canReach_def)
      from reach_loop_complete [OF this] obtain C where
        C: "a \<in> C" "flow_edges ss `` C \<subseteq> C" "b \<notin> C" by auto
      from r C(1,2) have "b \<in> C" by (induction rule: rtrancl_induct) auto
      with C(3) show False by simp
    qed
  qed
qed

section \<open>Joins\<close>

definition tokens_at :: "string \<Rightarrow> execution list \<Rightarrow> nat list" where
  "tokens_at i exs = filter (\<lambda>k. ex_status (exs ! k) = ''ACTIVE'' \<and> ex_step_id (exs ! k) = i) [0..<length exs]"

definition others_can_reach :: "string \<Rightarrow> execution list \<Rightarrow> step list \<Rightarrow> bool" where
  "others_can_reach i exs ss =
     list_ex (\<lambda>ex. ex_status ex = ''ACTIVE'' \<and> ex_step_id ex \<noteq> i \<and> canReach (ex_step_id ex) i ss) exs"

text \<open>\<open>checkGatewayJoin\<close>: is the join ready, and which tokens does it consume.\<close>

definition checkGatewayJoin :: "execution list \<Rightarrow> step \<Rightarrow> step list \<Rightarrow> bool \<times> nat list" where
  "checkGatewayJoin exs st ss =
     (let here = tokens_at (st_id st) exs in
      if st_type st = StepTypeGatewayParallel
      then (if length here \<ge> length (st_incoming st) then (True, here) else (False, []))
      else if st_type st = StepTypeGatewayInclusive
      then (if length here \<ge> length (st_incoming st) then (True, here)
            else if \<not> others_can_reach (st_id st) exs ss then (True, here) else (False, []))
      else (True, []))"

section \<open>Facts on conditions\<close>

lemma scan_char_lone:
  "scan_char p c n S D e = (True, S', D', e') \<Longrightarrow>
   c = CHR ''='' \<and> \<not> S \<and> \<not> D \<and> \<not> e \<and> \<not> S' \<and> \<not> D' \<and> \<not> e'"
  by (auto simp: scan_char_def split: if_splits)

lemma scan_char_doubled:
  "scan_char p CHR ''='' CHR ''='' False False False = (False, False, False, False)"
  "scan_char CHR ''='' CHR ''='' n False False False = (False, False, False, False)"
  by (simp_all add: scan_char_def)

lemma scanEq_some:
  "scanEq p xs i S D e (Some j) = Some (Some k) \<Longrightarrow>
   k = j \<and> scanEq p xs i' S D e None = Some None"
proof (induction xs arbitrary: p i i' S D e)
  case Nil
  then show ?case by simp
next
  case (Cons c r)
  obtain l S' D' e' where sc: "scan_char p c (head_or_nul r) S D e = (l, S', D', e')" by (metis prod_cases4)
  with Cons.prems have "\<not> l" by (auto split: if_splits)
  with sc Cons.prems have "scanEq c r (Suc i) S' D' e' (Some j) = Some (Some k)" by simp
  from Cons.IH [OF this] sc \<open>\<not> l\<close> show ?case by simp
qed

text \<open>The index found is that of an \<open>=\<close>, and doubling it leaves no lone \<open>=\<close>.\<close>

lemma scanEq_found:
  assumes "scanEq p xs i S D e None = Some (Some k)"
  shows "\<exists>d. k = i + d \<and> d < length xs \<and> xs ! d = CHR ''='' \<and>
     scanEq p (take d xs @ ''=='' @ drop (Suc d) xs) i' S D e None = Some None"
  using assms
proof (induction xs arbitrary: p i i' S D e)
  case Nil
  then show ?case by simp
next
  case (Cons c r)
  obtain l S' D' e' where sc: "scan_char p c (head_or_nul r) S D e = (l, S', D', e')" by (metis prod_cases4)
  show ?case
  proof (cases l)
    case True
    with sc have lone: "c = CHR ''=''" "\<not> S" "\<not> D" "\<not> e" "\<not> S'" "\<not> D'" "\<not> e'"
      using scan_char_lone [of p c "head_or_nul r" S D e S' D' e'] by simp_all
    from Cons.prems sc True have "scanEq c r (Suc i) S' D' e' (Some i) = Some (Some k)" by simp
    from scanEq_some [OF this] lone have "k = i" "scanEq CHR ''='' r (Suc (Suc i')) False False False None = Some None"
      by auto
    with lone show ?thesis
      by (intro exI [of _ 0]) (simp add: scan_char_doubled head_or_nul_def)
  next
    case False
    with Cons.prems sc have "scanEq c r (Suc i) S' D' e' None = Some (Some k)" by simp
    from Cons.IH [OF this] obtain d where d: "k = Suc i + d" "d < length r" "r ! d = CHR ''=''"
      "scanEq c (take d r @ ''=='' @ drop (Suc d) r) (Suc i') S' D' e' None = Some None" by blast
    have head: "head_or_nul (take d r @ ''=='' @ drop (Suc d) r) = head_or_nul r"
      using d(2,3) by (cases r; cases d) (auto simp: head_or_nul_def)
    have "scanEq p (take (Suc d) (c # r) @ ''=='' @ drop (Suc (Suc d)) (c # r)) i' S D e None = Some None"
      using sc False d(4) head by simp
    with d show ?thesis by (intro exI [of _ "Suc d"]) simp
  qed
qed

lemma trim_space_fixed: "trim_space s = s \<longleftrightarrow> s = [] \<or> \<not> is_space (hd s) \<and> \<not> is_space (last s)"
proof (cases "s = []")
  case True
  then show ?thesis by simp
next
  case False
  show ?thesis
  proof
    assume t: "trim_space s = s"
    have "length (dropWhile is_space s) = length s"
    proof (rule antisym)
      show "length (dropWhile is_space s) \<le> length s" by (rule length_dropWhile_le)
      have "length s = length (trim_space s)" using t by simp
      also have "\<dots> \<le> length (dropWhile is_space s)"
        unfolding trim_space_def by (metis length_dropWhile_le length_rev)
      finally show "length s \<le> length (dropWhile is_space s)" .
    qed
    then have d: "dropWhile is_space s = s"
      by (metis append.left_neutral append_eq_append_conv takeWhile_dropWhile_id)
    with t have "dropWhile is_space (rev s) = rev s" by (metis rev_swap trim_space_def)
    with d False show "s = [] \<or> \<not> is_space (hd s) \<and> \<not> is_space (last s)"
      by (metis dropWhile_eq_self_iff hd_rev rev_is_Nil_conv)
  next
    assume "s = [] \<or> \<not> is_space (hd s) \<and> \<not> is_space (last s)"
    with False have "dropWhile is_space s = s" "dropWhile is_space (rev s) = rev s"
      by (metis dropWhile_eq_self_iff, metis dropWhile_eq_self_iff hd_rev)
    then show "trim_space s = s" by (simp add: trim_space_def)
  qed
qed

lemma rewrite_trimmed:
  assumes "trim_space s = s" and "d < length s" and "s ! d = CHR ''=''"
  shows "trim_space (take d s @ ''=='' @ drop (Suc d) s) = take d s @ ''=='' @ drop (Suc d) s"
proof -
  have eq: "\<not> is_space CHR ''=''" by (simp add: is_space_def)
  have ne: "s \<noteq> []" using assms(2) by auto
  with assms(1) have s: "\<not> is_space (hd s)" "\<not> is_space (last s)" by (simp_all add: trim_space_fixed)
  have "\<not> is_space (hd (take d s @ ''=='' @ drop (Suc d) s))"
    using s(1) eq ne by (cases s; cases d) auto
  moreover have "\<not> is_space (last (take d s @ ''=='' @ drop (Suc d) s))"
    using s(2) eq assms(2) by (cases "drop (Suc d) s = []") (auto simp: last_drop)
  ultimately show ?thesis by (simp add: trim_space_fixed)
qed

lemma normalize_idem:
  "normalizeConditionForEvaluation (normalizeConditionForEvaluation c) = normalizeConditionForEvaluation c"
proof -
  let ?t = "trim_space c"
  show ?thesis
  proof (cases "\<exists>k. scanEq (CHR 0x00) ?t 0 False False False None = Some (Some k)")
    case True
    then obtain k where k: "scanEq (CHR 0x00) ?t 0 False False False None = Some (Some k)" by blast
    let ?r = "take k ?t @ ''=='' @ drop (Suc k) ?t"
    from scanEq_found [OF k, of 0] have f: "k < length ?t" "?t ! k = CHR ''=''"
      "scanEq (CHR 0x00) ?r 0 False False False None = Some None" by auto
    have n: "normalizeConditionForEvaluation c = ?r"
      by (simp add: normalizeConditionForEvaluation_def rewriteSingleEqualsComparison_def k Let_def)
    have "trim_space ?r = ?r" using f(1,2) by (intro rewrite_trimmed) simp_all
    then have "normalizeConditionForEvaluation ?r = ?r"
      by (simp only: normalizeConditionForEvaluation_def rewriteSingleEqualsComparison_def f(3) Let_def
          option.case prod.case if_False)
    then show ?thesis by (simp only: n)
  next
    case False
    then have "rewriteSingleEqualsComparison ?t = (?t, False)"
      by (auto simp: rewriteSingleEqualsComparison_def split: option.split)
    then show ?thesis by (simp add: normalizeConditionForEvaluation_def Let_def)
  qed
qed

end
