(* ===== verification/Deployment.thy ===== *)
theory Deployment
  imports Outbox
begin

text \<open>
  Deployment and lookup of process definitions (\<open>deployment.go\<close>). The BPMN parser
  (\<open>internal/domain/bpmn\<close>, which walks an XML tree) and the JSON decoder for uploaded bytes are
  parameters of the environment.
\<close>

definition processToWorkflowDefinition :: "env \<Rightarrow> process \<Rightarrow> go_err + workflow_def" where
  "processToWorkflowDefinition env p =
     (let wfd = \<lparr>wf_id = pr_key p, wf_process_definition_id = pr_bpmn_process_id p, wf_name = pr_resource_name p,
         wf_version = pr_version p, wf_resource_name = [], wf_deployment_id = show_int (pr_deployment_key p),
         wf_tenant_id = pr_tenant_id p, wf_checksum = pr_checksum p, wf_steps = [], wf_created_at = pr_created_at p\<rparr>
      in (case pr_resource p of
            ResSteps ss \<Rightarrow> Inr (wfd\<lparr>wf_steps := ss\<rparr>)
          | ResBytes b \<Rightarrow>
              if b = [] then Inr wfd
              else if hd b = CHR ''['' \<or> hd b = CHR ''{''
              then (case env_parse_steps env b of
                  Inl e \<Rightarrow> Inl (Msg (''failed to unmarshal steps from process resource: '' @ err_string e))
                | Inr ss \<Rightarrow> Inr (wfd\<lparr>wf_steps := ss\<rparr>))
              else (case env_parse_bpmn env b of
                  Inl e \<Rightarrow> Inl (Msg (''failed to parse bpmn from process resource: '' @ err_string e))
                | Inr q \<Rightarrow> Inr (wfd\<lparr>wf_process_definition_id := wf_process_definition_id q,
                    wf_name := wf_name q, wf_steps := wf_steps q\<rparr>))))"

text \<open>The version of a new deployment: one more than the latest, or 1.\<close>

definition next_version :: "env \<Rightarrow> string \<Rightarrow> int eng" where
  "next_version env i = bindE (tryE (GetProcessByBpmnProcessID env i)) (\<lambda>r.
     ret (case r of Inr latest \<Rightarrow> pr_version latest + 1 | Inl _ \<Rightarrow> 1))"

definition deployWorkflow_tx :: "env \<Rightarrow> string \<Rightarrow> step list \<Rightarrow> workflow_def eng" where
  "deployWorkflow_tx env name steps =
     bindE (generateRuntimeID env) (\<lambda>pid.
     bindE (next_version env pid) (\<lambda>version.
     (case steps_json steps of
        None \<Rightarrow> throw (Msg ''failed to marshal steps'')
      | Some ss \<Rightarrow>
          bindE (generateKey env (pid @ ''_v'' @ show_int version)) (\<lambda>key.
          bindE (generateRuntimeID env) (\<lambda>did.
          bindE (generateKey env did) (\<lambda>dkey.
          bindE (timeNow env) (\<lambda>now.
            let p = \<lparr>pr_key = key, pr_bpmn_process_id = pid, pr_version = version,
                pr_resource_name = (if name = [] then ''generated.bpmn'' else name),
                pr_deployment_key = dkey, pr_resource = ResSteps ss, pr_checksum = env_sha256 env (ResSteps ss),
                pr_tenant_id = ''default'', pr_created_at = now\<rparr>
            in thenE (CreateProcess env p) (liftR (processToWorkflowDefinition env p)))))))))"

definition DeployWorkflow :: "env \<Rightarrow> string \<Rightarrow> step list \<Rightarrow> workflow_def eng" where
  "DeployWorkflow env name steps = withTx env (deployWorkflow_tx env name steps)"

definition deployWorkflowFromBPMN_tx :: "env \<Rightarrow> string \<Rightarrow> workflow_def eng" where
  "deployWorkflowFromBPMN_tx env xml =
     (case env_parse_bpmn env xml of
        Inl e \<Rightarrow> throw (Wrapf ''bpmn validation failed'' (Msg (err_string e)))
      | Inr wfd \<Rightarrow>
          bindE (next_version env (wf_process_definition_id wfd)) (\<lambda>version.
          bindE (generateKey env (wf_process_definition_id wfd @ ''_v'' @ show_int version)) (\<lambda>key.
          bindE (generateRuntimeID env) (\<lambda>did.
          bindE (generateKey env did) (\<lambda>dkey.
          bindE (timeNow env) (\<lambda>now.
            let p = \<lparr>pr_key = key, pr_bpmn_process_id = wf_process_definition_id wfd, pr_version = version,
                pr_resource_name = (if wf_name wfd = [] then ''process.bpmn'' else wf_name wfd),
                pr_deployment_key = dkey, pr_resource = ResBytes xml, pr_checksum = env_sha256 env (ResBytes xml),
                pr_tenant_id = ''default'', pr_created_at = now\<rparr>
            in thenE (CreateProcess env p)
              (ret (wfd\<lparr>wf_id := key, wf_resource_name := pr_resource_name p,
                 wf_deployment_id := show_int dkey, wf_tenant_id := pr_tenant_id p,
                 wf_checksum := pr_checksum p, wf_created_at := now\<rparr>))))))))"

definition DeployWorkflowFromBPMN :: "env \<Rightarrow> string \<Rightarrow> workflow_def eng" where
  "DeployWorkflowFromBPMN env xml = withTx env (deployWorkflowFromBPMN_tx env xml)"

definition getWorkflowDefinition :: "env \<Rightarrow> int \<Rightarrow> workflow_def eng" where
  "getWorkflowDefinition env k =
     bindE (GetProcess env k) (\<lambda>p. liftR (processToWorkflowDefinition env p))"

definition getWorkflowDefinitionByBpmnProcessID :: "env \<Rightarrow> string \<Rightarrow> workflow_def eng" where
  "getWorkflowDefinitionByBpmnProcessID env i =
     bindE (GetProcessByBpmnProcessID env i) (\<lambda>p. liftR (processToWorkflowDefinition env p))"

definition getWorkflowDefinitionByBpmnProcessIDAndVersion :: "env \<Rightarrow> string \<Rightarrow> int \<Rightarrow> workflow_def eng" where
  "getWorkflowDefinitionByBpmnProcessIDAndVersion env i v =
     bindE (GetProcessByBpmnProcessIDAndVersion env i v) (\<lambda>p. liftR (processToWorkflowDefinition env p))"

text \<open>\<open>getWorkflowDefinitionFromMemo\<close>: the memo is shared by reference, so it lives in the state.\<close>

definition getWorkflowDefinitionFromMemo :: "env \<Rightarrow> int \<Rightarrow> workflow_def eng" where
  "getWorkflowDefinitionFromMemo env k =
     bindE (gets (\<lambda>s. map_of (s_memo s) k)) (\<lambda>hit.
       (case hit of
          Some wfd \<Rightarrow> ret wfd
        | None \<Rightarrow> bindE (getWorkflowDefinition env k) (\<lambda>wfd.
            thenE (modifyS (\<lambda>s. s\<lparr>s_memo := (k, wfd) # s_memo s\<rparr>)) (ret wfd))))"

text \<open>A fresh memo for the run of \<open>m\<close>.\<close>

definition with_memo :: "'a eng \<Rightarrow> 'a eng" where
  "with_memo m = (\<lambda>s. case m (s\<lparr>s_memo := []\<rparr>) of (r, s') \<Rightarrow> (r, s'\<lparr>s_memo := s_memo s\<rparr>))"

fun keep_latest :: "process list \<Rightarrow> (string \<times> process) list \<Rightarrow> (string \<times> process) list" where
  "keep_latest [] acc = acc"
| "keep_latest (p # ps) acc =
     keep_latest ps (case map_of acc (pr_bpmn_process_id p) of
        None \<Rightarrow> put (pr_bpmn_process_id p) p acc
      | Some q \<Rightarrow> if pr_version p \<ge> pr_version q then put (pr_bpmn_process_id p) p acc else acc)"

text \<open>\<open>listDeployedWorkflowDefinitions\<close>: the highest version of each process; what fails to load is skipped.\<close>

definition listDeployedWorkflowDefinitions :: "env \<Rightarrow> workflow_def list eng" where
  "listDeployedWorkflowDefinitions env =
     bindE (tryE (ListProcesses env)) (\<lambda>r.
       (case r of
          Inl _ \<Rightarrow> ret []
        | Inr procs \<Rightarrow> foldE (\<lambda>out p. bindE (tryE (getWorkflowDefinition env (pr_key (snd p)))) (\<lambda>w.
              ret (case w of Inl _ \<Rightarrow> out | Inr wfd \<Rightarrow> out @ [wfd])))
            [] (keep_latest procs [])))"

definition list_row :: "process \<Rightarrow> workflow_def" where
  "list_row p = \<lparr>wf_id = pr_key p, wf_process_definition_id = pr_bpmn_process_id p, wf_name = pr_bpmn_process_id p,
     wf_version = pr_version p, wf_resource_name = [], wf_deployment_id = [], wf_tenant_id = [], wf_checksum = [],
     wf_steps = [], wf_created_at = zero_time\<rparr>"

definition ListWorkflows :: "env \<Rightarrow> workflow_def list eng" where
  "ListWorkflows env = bindE (ListProcesses env) (\<lambda>ps. ret (map list_row ps))"

definition GetWorkflow :: "env \<Rightarrow> string \<Rightarrow> workflow_def eng" where
  "GetWorkflow env i = (case parse_int i of
       Inr k \<Rightarrow> getWorkflowDefinition env k
     | Inl _ \<Rightarrow> getWorkflowDefinitionByBpmnProcessID env i)"

definition DeleteWorkflow :: "env \<Rightarrow> string \<Rightarrow> unit eng" where
  "DeleteWorkflow env i = withTx env (case parse_int i of
       Inr k \<Rightarrow> DeleteProcess env k
     | Inl _ \<Rightarrow> bindE (GetProcessByBpmnProcessID env i) (\<lambda>p. DeleteProcess env (pr_key p)))"

definition DeleteInstance :: "env \<Rightarrow> string \<Rightarrow> unit eng" where
  "DeleteInstance env i = withTx env (case parse_int i of
       Inl e \<Rightarrow> throw (Msg (''invalid instance id: '' @ err_string e))
     | Inr k \<Rightarrow> DeleteProcessInstance env k)"

end
