(* ===== verification/Timers.thy ===== *)
theory Timers
  imports Outbox
begin

text \<open>
  Timer schedules (\<open>timer_schedule.go\<close>, \<open>parseISO8601Duration\<close> of \<open>events.go\<close>): durations, absolute
  times and repeating cycles, with the parsers of Go's \<open>time\<close> package they rest on.
  Durations and times are nanoseconds.
\<close>

section \<open>\<open>time.ParseDuration\<close>\<close>

definition span_digits :: "string \<Rightarrow> string \<times> string" where
  "span_digits s = (takeWhile is_digit s, dropWhile is_digit s)"

definition digits_val :: "string \<Rightarrow> nat" where
  "digits_val s = (case parse_digits s 0 of Some n \<Rightarrow> n | None \<Rightarrow> 0)"

text \<open>\<open>leadingFraction\<close>: digits beyond the range of \<open>int64\<close> are dropped; the value and its scale.\<close>

fun frac_digits :: "string \<Rightarrow> int \<Rightarrow> nat \<Rightarrow> int \<times> nat" where
  "frac_digits [] x k = (x, k)"
| "frac_digits (c # cs) x k =
     (if x > (2 ^ 63 - 1) div 10 then (x, k)
      else let y = x * 10 + int (digit_val c) in
        if y > 2 ^ 63 then (x, k) else frac_digits cs y (Suc k))"

definition duration_unit :: "string \<Rightarrow> int option" where
  "duration_unit u =
     (if u = ''ns'' then Some 1
      else if u = ''us'' \<or> u = [CHR 0xC2, CHR 0xB5, CHR ''s''] \<or> u = [CHR 0xCE, CHR 0xBC, CHR ''s''] then Some 1000
      else if u = ''ms'' then Some 1000000
      else if u = ''s'' then Some 1000000000
      else if u = ''m'' then Some 60000000000
      else if u = ''h'' then Some 3600000000000
      else None)"

text \<open>One number with its unit: its nanoseconds and the rest of the text, \<open>None\<close> on an error.\<close>

definition duration_item :: "string \<Rightarrow> (int \<times> string) option" where
  "duration_item s =
     (case span_digits s of (whole, s1) \<Rightarrow>
      let has_dot = (s1 \<noteq> [] \<and> hd s1 = CHR ''.'');
          (frac, s2) = (if has_dot then span_digits (tl s1) else ([], s1));
          unit = takeWhile (\<lambda>c. c \<noteq> CHR ''.'' \<and> \<not> is_digit c) s2;
          rest = dropWhile (\<lambda>c. c \<noteq> CHR ''.'' \<and> \<not> is_digit c) s2;
          v = int (digits_val whole)
      in if whole = [] \<and> frac = [] then None
         else if v > 2 ^ 63 then None
         else (case duration_unit unit of
             None \<Rightarrow> None
           | Some u \<Rightarrow>
               if v > 2 ^ 63 div u then None
               else (case frac_digits frac 0 0 of (f, k) \<Rightarrow>
                 let w = v * u + (if f > 0
                       then \<lfloor>f64_round (f64_of_int f * f64_round (of_int u / 10 ^ k))\<rfloor> else 0)
                 in if w > 2 ^ 63 then None else Some (w, rest))))"

lemma span_digits_length: "length (fst (span_digits s)) + length (snd (span_digits s)) = length s"
  by (simp add: span_digits_def) (metis length_append takeWhile_dropWhile_id)

lemma duration_item_shorter: "duration_item s = Some (v, rest) \<Longrightarrow> length rest < length s"
proof -
  assume d: "duration_item s = Some (v, rest)"
  obtain whole s1 where w: "span_digits s = (whole, s1)" by (cases "span_digits s")
  let ?dot = "s1 \<noteq> [] \<and> hd s1 = CHR ''.''"
  obtain frac s2 where f: "(if ?dot then span_digits (tl s1) else ([], s1)) = (frac, s2)"
    by (cases "if ?dot then span_digits (tl s1) else ([], s1)")
  from d w f have ne: "whole \<noteq> [] \<or> frac \<noteq> []"
    and rest: "rest = dropWhile (\<lambda>c. c \<noteq> CHR ''.'' \<and> \<not> is_digit c) s2"
    by (auto simp: duration_item_def Let_def split: if_splits option.splits prod.splits)
  have l1: "length whole + length s1 = length s" using span_digits_length [of s] w by simp
  have l2: "length frac + length s2 \<le> length s1"
    using span_digits_length [of "tl s1"] f by (auto split: if_splits)
  have l3: "length rest \<le> length s2" unfolding rest by (rule length_dropWhile_le)
  from ne have "length whole + length frac \<ge> 1" by (cases whole; cases frac) auto
  with l1 l2 l3 show ?thesis by linarith
qed

function duration_items :: "string \<Rightarrow> int \<Rightarrow> int option" where
  "duration_items s d =
     (if s = [] then Some d
      else (case duration_item s of
          None \<Rightarrow> None
        | Some (v, rest) \<Rightarrow> if d + v > 2 ^ 63 then None else duration_items rest (d + v)))"
  by pat_completeness auto
termination by (relation "measure (\<lambda>(s, d). length s)") (auto dest: duration_item_shorter)

declare duration_items.simps [simp del]

definition ParseDuration :: "string \<Rightarrow> go_err + int" where
  "ParseDuration s0 =
     (let invalid = Inl (Msg (''time: invalid duration '' @ s0));
          neg = (s0 \<noteq> [] \<and> hd s0 = CHR ''-'');
          s = (if s0 \<noteq> [] \<and> (hd s0 = CHR ''-'' \<or> hd s0 = CHR ''+'') then tl s0 else s0)
      in if s = ''0'' then Inr 0
         else if s = [] then invalid
         else (case duration_items s 0 of
             None \<Rightarrow> invalid
           | Some d \<Rightarrow> if neg then Inr (- d) else if d > 2 ^ 63 - 1 then invalid else Inr d))"

definition parseISO8601Duration :: "string \<Rightarrow> go_err + int" where
  "parseISO8601Duration dur_text =
     (if \<not> has_prefix dur_text ''PT''
      then Inl (Msg (''unsupported duration format (must start with PT): '' @ dur_text))
      else ParseDuration (to_lower (drop 2 dur_text)))"

section \<open>\<open>time.Parse\<close> of RFC 3339\<close>

definition leap_year :: "nat \<Rightarrow> bool" where
  "leap_year y \<longleftrightarrow> 4 dvd y \<and> (\<not> 100 dvd y \<or> 400 dvd y)"

definition days_in :: "nat \<Rightarrow> nat \<Rightarrow> nat" where
  "days_in m y = (if m = 2 then (if leap_year y then 29 else 28)
     else if m \<in> {4, 6, 9, 11} then 30 else 31)"

text \<open>Days from 1 January 1970 to a date of the Gregorian calendar.\<close>

definition civil_days :: "nat \<Rightarrow> nat \<Rightarrow> nat \<Rightarrow> int" where
  "civil_days y m d =
     (let y' = (if m \<le> 2 then int y - 1 else int y);
          era = y' div 400;
          yoe = y' - era * 400;
          mp = (if m > 2 then int m - 3 else int m + 9);
          doy = (153 * mp + 2) div 5 + int d - 1;
          doe = yoe * 365 + yoe div 4 - yoe div 100 + doy
      in era * 146097 + doe - 719468)"

definition fixed_num :: "nat \<Rightarrow> string \<Rightarrow> (nat \<times> string) option" where
  "fixed_num n s = (if length s \<ge> n \<and> list_all is_digit (take n s)
     then Some (digits_val (take n s), drop n s) else None)"

text \<open>The hour of a layout may have one digit.\<close>

definition hour_num :: "string \<Rightarrow> (nat \<times> string) option" where
  "hour_num s = (case fixed_num 2 s of Some r \<Rightarrow> Some r | None \<Rightarrow> fixed_num 1 s)"

definition lit :: "char \<Rightarrow> string \<Rightarrow> string option" where
  "lit c s = (case s of [] \<Rightarrow> None | x # r \<Rightarrow> if x = c then Some r else None)"

text \<open>A fraction of a second, truncated to nanoseconds.\<close>

definition frac_second :: "string \<Rightarrow> int \<times> string" where
  "frac_second s =
     (if length s \<ge> 2 \<and> (hd s = CHR ''.'' \<or> hd s = CHR '','') \<and> is_digit (s ! 1)
      then (let ds = takeWhile is_digit (tl s); k = take 9 ds in
        (int (digits_val k) * 10 ^ (9 - length k), dropWhile is_digit (tl s)))
      else (0, s))"

definition date_time :: "string \<Rightarrow> (int \<times> string) option" where
  "date_time s =
     Option.bind (fixed_num 4 s) (\<lambda>(y, s). Option.bind (lit CHR ''-'' s) (\<lambda>s.
     Option.bind (fixed_num 2 s) (\<lambda>(mo, s). Option.bind (lit CHR ''-'' s) (\<lambda>s.
     Option.bind (fixed_num 2 s) (\<lambda>(d, s). Option.bind (lit CHR ''T'' s) (\<lambda>s.
     Option.bind (hour_num s) (\<lambda>(h, s). Option.bind (lit CHR '':'' s) (\<lambda>s.
     Option.bind (fixed_num 2 s) (\<lambda>(mi, s). Option.bind (lit CHR '':'' s) (\<lambda>s.
     Option.bind (fixed_num 2 s) (\<lambda>(sec, s).
     (case frac_second s of (ns, s) \<Rightarrow>
       if 1 \<le> mo \<and> mo \<le> 12 \<and> 1 \<le> d \<and> d \<le> days_in mo y \<and> h < 24 \<and> mi < 60 \<and> sec < 60
       then Some (((civil_days y mo d * 86400) + int (h * 3600 + mi * 60 + sec)) * 1000000000 + ns, s)
       else None))))))))))))"

definition zone_offset :: "string \<Rightarrow> (int \<times> string) option" where
  "zone_offset s =
     (if s \<noteq> [] \<and> hd s = CHR ''Z'' then Some (0, tl s)
      else if length s < 6 \<or> s ! 3 \<noteq> CHR '':'' then None
      else (case (fixed_num 2 (take 2 (drop 1 s)), fixed_num 2 (take 2 (drop 4 s))) of
          (Some (h, _), Some (m, _)) \<Rightarrow>
            if h > 24 \<or> m > 60 then None
            else if hd s = CHR ''+'' then Some (int (h * 3600 + m * 60), drop 6 s)
            else if hd s = CHR ''-'' then Some (- int (h * 3600 + m * 60), drop 6 s)
            else None
        | _ \<Rightarrow> None))"

definition parse_rfc3339 :: "string \<Rightarrow> int option" where
  "parse_rfc3339 s = Option.bind (date_time s) (\<lambda>(t, r). Option.bind (zone_offset r) (\<lambda>(off, r').
     if r' = [] then Some (t - off * 1000000000) else None))"

definition parse_local_time :: "string \<Rightarrow> int option" where
  "parse_local_time s = Option.bind (date_time s) (\<lambda>(t, r). if r = [] then Some t else None)"

definition parseAbsoluteTime :: "string \<Rightarrow> go_err + int" where
  "parseAbsoluteTime value0 =
     (let value = trim_space value0 in
      if value = [] then Inl (Msg ''empty timeDate'')
      else (case parse_rfc3339 value of
          Some t \<Rightarrow> Inr t
        | None \<Rightarrow> (case parse_local_time value of
              Some t \<Rightarrow> Inr t
            | None \<Rightarrow> Inl (Msg (''unsupported timeDate format: '' @ value)))))"

section \<open>Schedules\<close>

text \<open>The repeat count is 1 for a one-shot timer, n for n firings, -1 for a timer that repeats for ever.\<close>

record timer_schedule =
  ts_due_date :: int
  ts_interval :: int
  ts_repeat_count :: int

definition repeating :: "int \<Rightarrow> int \<Rightarrow> string \<Rightarrow> go_err + timer_schedule" where
  "repeating now n dur_text = (case parseISO8601Duration dur_text of
       Inl e \<Rightarrow> Inl e
     | Inr d \<Rightarrow> Inr \<lparr>ts_due_date = now + d, ts_interval = d, ts_repeat_count = n\<rparr>)"

definition parseISO8601Cycle :: "string \<Rightarrow> int \<Rightarrow> go_err + timer_schedule" where
  "parseISO8601Cycle cycle0 now =
     (let cycle = trim_space cycle0 in
      if cycle = [] \<or> hd cycle \<noteq> CHR ''R''
      then Inl (Msg (''unsupported timeCycle (must start with R): '' @ cycle))
      else let rest = tl cycle in
        if rest = [] then Inl (Msg (''unsupported timeCycle: '' @ cycle))
        else if hd rest = CHR ''/'' then repeating now (-1) (tl rest)
        else let count = takeWhile (\<lambda>c. c \<noteq> CHR ''/'') rest; tail = dropWhile (\<lambda>c. c \<noteq> CHR ''/'') rest in
          if tail = [] then Inl (Msg (''unsupported timeCycle (expected R[n]/PT): '' @ cycle))
          else (case parse_int count of
              Inl _ \<Rightarrow> Inl (Msg (''invalid timeCycle repeat count: '' @ cycle))
            | Inr n \<Rightarrow> if n < 1 then Inl (Msg (''invalid timeCycle repeat count: '' @ cycle))
                else repeating now n (tl tail)))"

definition one_shot :: "int \<Rightarrow> int \<Rightarrow> timer_schedule" where
  "one_shot due interval = \<lparr>ts_due_date = due, ts_interval = interval, ts_repeat_count = 1\<rparr>"

definition resolveTimerSchedule :: "vars \<Rightarrow> int \<Rightarrow> go_err + timer_schedule" where
  "resolveTimerSchedule props now =
     (let cycle = trim_space (str_or_empty props ''timer_cycle'');
          date = trim_space (str_or_empty props ''timer_date'');
          dur = trim_space (str_or_empty props ''timer_duration'')
      in if cycle \<noteq> [] then parseISO8601Cycle cycle now
         else if date \<noteq> []
         then (case parseAbsoluteTime date of Inl e \<Rightarrow> Inl e | Inr due \<Rightarrow> Inr (one_shot due 0))
         else if dur = [] then Inl (Msg ''no timer_duration, timer_date, or timer_cycle'')
         else if has_prefix dur ''R'' then parseISO8601Cycle dur now
         else (case parseAbsoluteTime dur of
             Inr due \<Rightarrow> Inr (one_shot due 0)
           | Inl _ \<Rightarrow> (case parseISO8601Duration dur of
                 Inl e \<Rightarrow> Inl e
               | Inr d \<Rightarrow> Inr (one_shot (now + d) d))))"

text \<open>
  The interval a cycle is re-armed with. The clock readings taken on the way only enter due dates
  that are dropped; they are not modelled.
\<close>

definition cycleIntervalFromProps :: "vars \<Rightarrow> int" where
  "cycleIntervalFromProps props =
     (let cycle = trim_space (str_or_empty props ''timer_cycle'');
          dur = trim_space (str_or_empty props ''timer_duration'');
          from_dur = (if has_prefix dur ''R''
            then (case parseISO8601Cycle dur 0 of Inr s \<Rightarrow> ts_interval s | Inl _ \<Rightarrow> 0) else 0)
      in if cycle \<noteq> []
         then (case parseISO8601Cycle cycle 0 of Inr s \<Rightarrow> ts_interval s | Inl _ \<Rightarrow> from_dur)
         else from_dur)"

section \<open>Timers of the store\<close>

text \<open>\<open>finalizeTimerAfterFire\<close>: re-arm a cycle, or mark the timer triggered.\<close>

definition finalizeTimerAfterFire :: "env \<Rightarrow> timer \<Rightarrow> vars \<Rightarrow> unit eng" where
  "finalizeTimerAfterFire env t props =
     (let interval = cycleIntervalFromProps props in
      if tm_repeat_count t < 0 then
        if interval \<le> 0 then UpdateTimer env (t\<lparr>tm_state := ''TRIGGERED''\<rparr>)
        else bindE (timeNow env) (\<lambda>now.
          UpdateTimer env (t\<lparr>tm_due_date := now + interval, tm_state := ''CREATED''\<rparr>))
      else if tm_repeat_count t > 1 \<and> interval > 0 then
        bindE (timeNow env) (\<lambda>now.
          UpdateTimer env (t\<lparr>tm_repeat_count := tm_repeat_count t - 1, tm_due_date := now + interval,
                             tm_state := ''CREATED''\<rparr>))
      else UpdateTimer env (t\<lparr>tm_state := ''TRIGGERED'', tm_repeat_count := 0\<rparr>))"

definition cancelCreatedTimersForElementInstance :: "env \<Rightarrow> int \<Rightarrow> unit eng" where
  "cancelCreatedTimersForElementInstance env k =
     (if k = 0 then ret ()
      else bindE (tryE (ListCreatedTimersByElementInstanceKey env k)) (\<lambda>r.
        (case r of
           Inl _ \<Rightarrow> ret ()
         | Inr ts \<Rightarrow> forE ts (\<lambda>t. ignoreE (UpdateTimer env (t\<lparr>tm_state := ''CANCELED''\<rparr>))))))"

end
