(* ===== verification/Dmn.thy ===== *)
theory Dmn
  imports Outbox
begin

text \<open>
  Decision tables: \<open>backend/libs/dmn/table.go\<close> and the decision operations of \<open>decisions.go\<close>.
  Numbers are compared as \<open>float64\<close>; a string operand goes through \<open>strconv.ParseFloat\<close>
  (decimal notation and the names of infinity and NaN; hexadecimal notation is not modelled).
\<close>

section \<open>Numbers\<close>

datatype float64 = Finite rat | PosInf | NegInf | NaN

fun f64_less :: "float64 \<Rightarrow> float64 \<Rightarrow> bool" where
  "f64_less (Finite a) (Finite b) \<longleftrightarrow> a < b"
| "f64_less NaN _ \<longleftrightarrow> False"
| "f64_less _ NaN \<longleftrightarrow> False"
| "f64_less NegInf y \<longleftrightarrow> y \<noteq> NegInf"
| "f64_less x PosInf \<longleftrightarrow> x \<noteq> PosInf"
| "f64_less _ _ \<longleftrightarrow> False"

definition f64_le :: "float64 \<Rightarrow> float64 \<Rightarrow> bool" where
  "f64_le x y \<longleftrightarrow> x \<noteq> NaN \<and> y \<noteq> NaN \<and> (x = y \<or> f64_less x y)"

text \<open>Digits, an optional point, digits, an optional exponent.\<close>

definition parse_decimal :: "string \<Rightarrow> rat option" where
  "parse_decimal s =
     (let whole = takeWhile is_digit s; s1 = dropWhile is_digit s;
          dotted = (s1 \<noteq> [] \<and> hd s1 = CHR ''.'');
          frac = (if dotted then takeWhile is_digit (tl s1) else []);
          s2 = (if dotted then dropWhile is_digit (tl s1) else s1);
          mant = (case parse_digits (whole @ frac) 0 of Some n \<Rightarrow> n | None \<Rightarrow> 0)
      in if whole = [] \<and> frac = [] then None
         else if s2 = [] then Some (of_nat mant * rat_pow 10 (- int (length frac)))
         else if hd s2 = CHR ''e'' \<or> hd s2 = CHR ''E''
         then (case split_sign (tl s2) of (neg, ds) \<Rightarrow>
            if ds = [] then None
            else (case parse_digits ds 0 of
                None \<Rightarrow> None
              | Some e \<Rightarrow> Some (of_nat mant *
                  rat_pow 10 ((if neg then - int e else int e) - int (length frac)))))
         else None)"

definition ParseFloat :: "string \<Rightarrow> float64 option" where
  "ParseFloat s =
     (case split_sign s of (neg, body) \<Rightarrow>
        let b = to_lower body in
        if b = ''inf'' \<or> b = ''infinity'' then Some (if neg then NegInf else PosInf)
        else if b = ''nan'' \<and> body = s then Some NaN
        else (case parse_decimal body of
            None \<Rightarrow> None
          | Some q \<Rightarrow> (let r = f64_round (if neg then - q else q) in
              if \<bar>r\<bar> \<ge> 2 ^ 1024 then None else Some (Finite r))))"

fun asFloat :: "val \<Rightarrow> float64 option" where
  "asFloat (VFloat q) = Some (Finite q)"
| "asFloat (VInt i) = Some (Finite (f64_of_int i))"
| "asFloat (VInt64 i) = Some (Finite (f64_of_int i))"
| "asFloat (VStr s) = ParseFloat s"
| "asFloat _ = None"

section \<open>Tables\<close>

definition equals :: "val \<Rightarrow> val \<Rightarrow> bool" where
  "equals a b \<longleftrightarrow> (a = VNil \<and> b = VNil) \<or> fmt_v a = fmt_v b"

definition matchCondition :: "vars \<Rightarrow> string \<Rightarrow> dmn_condition \<Rightarrow> bool" where
  "matchCondition inputs key cond =
     (let v = map_of inputs key;
          op0 = to_lower (trim_space (dc_op cond));
          op = (if op0 = [] then ''eq'' else op0);
          left = (case v of None \<Rightarrow> None | Some x \<Rightarrow> asFloat x);
          right = asFloat (dc_value cond)
      in if op = ''exists'' then v \<noteq> None
         else if op = ''eq'' then (case v of None \<Rightarrow> False | Some x \<Rightarrow> equals x (dc_value cond))
         else if op = ''neq'' then (case v of None \<Rightarrow> True | Some x \<Rightarrow> \<not> equals x (dc_value cond))
         else if op \<in> {''gt'', ''gte'', ''lt'', ''lte''}
         then (case (left, right) of
             (Some l, Some r) \<Rightarrow>
               if op = ''gt'' then f64_less r l
               else if op = ''gte'' then f64_le r l
               else if op = ''lt'' then f64_less l r
               else f64_le l r
           | _ \<Rightarrow> False)
         else False)"

definition matchRule :: "(string \<times> dmn_condition) list \<Rightarrow> vars \<Rightarrow> bool" where
  "matchRule when inputs = list_all (\<lambda>(key, cond). matchCondition inputs key cond) when"

fun evaluate_rules :: "dmn_rule list \<Rightarrow> vars \<Rightarrow> vars" where
  "evaluate_rules [] inputs = []"
| "evaluate_rules (r # rs) inputs = (if matchRule (dr_when r) inputs then dr_then r else evaluate_rules rs inputs)"

definition Evaluate :: "decision_table \<Rightarrow> vars \<Rightarrow> vars" where
  "Evaluate table inputs = evaluate_rules (dt_rules table) inputs"

text \<open>\<open>dmn.Parse\<close>; the JSON decoder is a parameter.\<close>

definition dmn_Parse :: "env \<Rightarrow> string \<Rightarrow> go_err + decision_table" where
  "dmn_Parse env raw =
     (case env_parse_decision env raw of
        Inl e \<Rightarrow> Inl e
      | Inr t \<Rightarrow> if trim_space (dt_id t) = [] then Inl (Msg ''decision table id is required'')
          else Inr (if dt_hit_policy t = [] then t\<lparr>dt_hit_policy := ''FIRST''\<rparr> else t))"

section \<open>Decisions of the engine\<close>

definition firstNonEmpty :: "string list \<Rightarrow> string" where
  "firstNonEmpty vs = (case List.find (\<lambda>v. trim_space v \<noteq> []) vs of Some v \<Rightarrow> v | None \<Rightarrow> [])"

definition DeployDecision :: "env \<Rightarrow> string \<Rightarrow> string \<Rightarrow> string \<Rightarrow> decision_def eng" where
  "DeployDecision env decisionID0 name resource =
     (let i = trim_space decisionID0 in
      if i = [] then throw (Msg ''decision id is required'')
      else bindE (liftR (dmn_Parse env resource)) (\<lambda>table.
        if dt_id table \<noteq> i then throw (Msg (''decision id mismatch: resource id '' @ dt_id table @ '' != '' @ i))
        else thenE (UpsertDecision env \<lparr>dd_key = 0, dd_decision_id = i, dd_name = firstNonEmpty [name, i],
              dd_version = 0, dd_resource = resource, dd_created_at = zero_time, dd_updated_at = zero_time\<rparr>)
          (GetDecisionByDecisionID env i)))"

definition ListDecisions :: "env \<Rightarrow> decision_def list eng" where
  "ListDecisions env = ListDecisionRows env"

definition EvaluateDecision :: "env \<Rightarrow> string \<Rightarrow> vars \<Rightarrow> vars eng" where
  "EvaluateDecision env decisionID inputs =
     bindE (GetDecisionByDecisionID env (trim_space decisionID)) (\<lambda>def.
     bindE (liftR (dmn_Parse env (dd_resource def))) (\<lambda>table.
     ret (Evaluate table inputs)))"

section \<open>Facts\<close>

text \<open>First hit: the output of a table is that of the first rule whose conditions all hold.\<close>

lemma evaluate_rules_find:
  "evaluate_rules rs inputs = (case List.find (\<lambda>r. matchRule (dr_when r) inputs) rs of None \<Rightarrow> [] | Some r \<Rightarrow> dr_then r)"
  by (induction rs) auto

lemma f64_le_finite: "f64_le (Finite a) (Finite b) \<longleftrightarrow> a \<le> b"
  by (auto simp: f64_le_def)

end
