(* ===== verification/Instance.thy ===== *)
theory Instance
  imports Gateway Deployment Timers Dmn
begin

text \<open>
  The instance a call works on: reading it from the store (\<open>GetInstance\<close>, \<open>mapToWorkflowInstance\<close>),
  its variables (\<open>persistVariables\<close>, \<open>mapping.go\<close>), its listeners (\<open>listeners.go\<close>), its scopes,
  and the completion of the instance (\<open>navigation.go\<close>).

  A pointer to an execution that the source holds across a call is the execution as it was before the
  call; its id, parent and key do not change afterwards, but for the copy the exit of a parallel
  multi-instance step makes.
\<close>

section \<open>Access to the instance\<close>

definition getI :: "workflow_instance eng" where
  "getI = gets s_inst"

definition modI :: "(workflow_instance \<Rightarrow> workflow_instance) \<Rightarrow> unit eng" where
  "modI f = modifyS (\<lambda>s. s\<lparr>s_inst := f (s_inst s)\<rparr>)"

text \<open>Work on another instance; the caller's own one is untouched.\<close>

definition with_instance :: "workflow_instance \<Rightarrow> 'a eng \<Rightarrow> 'a eng" where
  "with_instance i m = (\<lambda>s. case m (s\<lparr>s_inst := i\<rparr>) of (r, s') \<Rightarrow> (r, s'\<lparr>s_inst := s_inst s\<rparr>))"

fun index_of :: "('a \<Rightarrow> bool) \<Rightarrow> 'a list \<Rightarrow> nat option" where
  "index_of p [] = None"
| "index_of p (x # xs) = (if p x then Some 0 else map_option Suc (index_of p xs))"

definition exec_index :: "string \<Rightarrow> workflow_instance \<Rightarrow> nat option" where
  "exec_index i w = index_of (\<lambda>ex. ex_id ex = i) (wi_executions w)"

definition find_exec :: "string \<Rightarrow> workflow_instance \<Rightarrow> execution option" where
  "find_exec i w = List.find (\<lambda>ex. ex_id ex = i) (wi_executions w)"

definition execAt :: "nat \<Rightarrow> execution eng" where
  "execAt k = bindE getI (\<lambda>w. indexE (wi_executions w) k)"

definition setExecAt :: "nat \<Rightarrow> execution \<Rightarrow> unit eng" where
  "setExecAt k ex = thenE (execAt k) (modI (\<lambda>w. w\<lparr>wi_executions := (wi_executions w)[k := ex]\<rparr>))"

definition setStatusAt :: "nat \<Rightarrow> string \<Rightarrow> unit eng" where
  "setStatusAt k st = bindE (execAt k) (\<lambda>ex. setExecAt k (ex\<lparr>ex_status := st\<rparr>))"

definition appendExec :: "execution \<Rightarrow> unit eng" where
  "appendExec ex = modI (\<lambda>w. w\<lparr>wi_executions := wi_executions w @ [ex]\<rparr>)"

definition setContext :: "string \<Rightarrow> val \<Rightarrow> unit eng" where
  "setContext k v = modI (\<lambda>w. w\<lparr>wi_context := put k v (wi_context w)\<rparr>)"

definition mergeContext :: "vars \<Rightarrow> unit eng" where
  "mergeContext kvs = modI (\<lambda>w. w\<lparr>wi_context := put_all kvs (wi_context w)\<rparr>)"

section \<open>Loading an instance\<close>

definition status_of_state :: "string \<Rightarrow> workflow_status" where
  "status_of_state st = (if st = ''COMPLETED'' then StatusCompleted
     else if st = ''CANCELED'' then StatusFailed else StatusRunning)"

text \<open>The execution of an element instance; \<open>None\<close> for states the mapping ignores.\<close>

definition exec_of_element :: "int \<Rightarrow> element_instance \<Rightarrow> execution option" where
  "exec_of_element pk el =
     (let mk = (\<lambda>st. Some \<lparr>ex_id = show_int (ei_key el), ex_step_id = ei_element_id el, ex_status = st,
          ex_parent_id = (if ei_flow_scope_key el \<noteq> pk then show_int (ei_flow_scope_key el) else []),
          ex_start_time = ei_created_at el, ex_element_key = ei_key el\<rparr>)
      in if ei_state el = ''COMPLETED'' then mk ''COMPLETED''
         else if ei_state el = ''TERMINATED'' then mk ''TERMINATED''
         else if ei_state el = ''ACTIVATING'' \<or> ei_state el = ''ACTIVATED'' then mk ''ACTIVE''
         else None)"

definition mapToWorkflowInstance ::
  "env \<Rightarrow> process_instance \<Rightarrow> element_instance list \<Rightarrow> variable list \<Rightarrow> workflow_instance eng" where
  "mapToWorkflowInstance env p els vs = bindE (timeNow env) (\<lambda>now. ret
     \<lparr>wi_id = show_int (pi_key p), wi_workflow_id = show_int (pi_definition_key p),
      wi_status = status_of_state (pi_state p),
      wi_parent_instance_id = (if pi_parent_instance_key p \<noteq> 0 then show_int (pi_parent_instance_key p) else []),
      wi_parent_execution_id = (if pi_parent_element_key p \<noteq> 0 then show_int (pi_parent_element_key p) else []),
      wi_executions = List.map_filter (exec_of_element (pi_key p)) els,
      wi_context = put_all (map (\<lambda>v. (va_name v, va_value v)) vs) [],
      wi_created_at = pi_created_at p, wi_updated_at = now\<rparr>)"

definition GetInstance :: "env \<Rightarrow> string \<Rightarrow> workflow_instance eng" where
  "GetInstance env i = (case parse_int i of
       Inl e \<Rightarrow> throw (Msg (''invalid instance id: '' @ err_string e))
     | Inr k \<Rightarrow> bindE (GetProcessInstanceWithState env k) (\<lambda>(p, els, vs). mapToWorkflowInstance env p els vs))"

definition summaries :: "env \<Rightarrow> process_instance list \<Rightarrow> workflow_instance list eng" where
  "summaries env ps = foldE (\<lambda>acc p. bindE (mapToWorkflowInstance env p [] []) (\<lambda>w. ret (acc @ [w]))) [] ps"

definition ListActiveInstances :: "env \<Rightarrow> workflow_instance list eng" where
  "ListActiveInstances env = bindE (ListActiveProcessInstances env) (summaries env)"

definition ListCompletedInstances :: "env \<Rightarrow> int \<Rightarrow> workflow_instance list eng" where
  "ListCompletedInstances env limit = bindE (ListProcessInstancesByState env ''COMPLETED'' limit) (summaries env)"

definition UserTaskJobType :: string where
  "UserTaskJobType = ''artificialflow:userTask''"

definition ListCompletedInstancesWithCompletedUserTaskWorkers ::
  "env \<Rightarrow> string list \<Rightarrow> int \<Rightarrow> workflow_instance list eng" where
  "ListCompletedInstancesWithCompletedUserTaskWorkers env workers limit =
     bindE (ListCompletedProcessInstancesWithCompletedJobsByWorkers env UserTaskJobType workers limit) (summaries env)"

section \<open>Variables\<close>

definition persistVariable :: "env \<Rightarrow> string \<Rightarrow> int \<Rightarrow> string \<Rightarrow> val \<Rightarrow> unit eng" where
  "persistVariable env instanceID scopeKey k v =
     (case json_roundtrip v of
        None \<Rightarrow> throw (Wrapf (''failed to marshal variable '' @ k) (Msg ''json: unsupported value''))
      | Some w \<Rightarrow>
          bindE (timeNow env) (\<lambda>created. bindE (timeNow env) (\<lambda>updated.
          let pk = parse_key instanceID in
          thenE (mapErr (Wrapf (''failed to persist variable '' @ k)) (CreateVariable env
             \<lparr>va_scope_key = generateDeterministicKey (instanceID @ ''_'' @ k), va_instance_key = pk, va_name = k,
              va_value = w, va_created_at = created, va_updated_at = updated\<rparr>))
          (mapErr (Wrapf (''failed to publish VariableUpdated for '' @ k))
             (Publish env (VariableUpdated k w pk scopeKey updated) ''VariableUpdated'')))))"

definition persistVariables :: "env \<Rightarrow> string \<Rightarrow> int \<Rightarrow> vars \<Rightarrow> unit eng" where
  "persistVariables env instanceID scopeKey vs = forE vs (\<lambda>(k, v). persistVariable env instanceID scopeKey k v)"

definition snapshotVariables :: "vars \<Rightarrow> vars" where
  "snapshotVariables vs = vs"

text \<open>A key that is not there reads as nil.\<close>

definition lookup_or_nil :: "vars \<Rightarrow> string \<Rightarrow> val" where
  "lookup_or_nil m k = (case map_of m k of Some v \<Rightarrow> v | None \<Rightarrow> VNil)"

definition changedVariables :: "vars \<Rightarrow> vars \<Rightarrow> vars" where
  "changedVariables old new = filter (\<lambda>(k, v). \<not> deep_equal (lookup_or_nil old k) v) new"

definition UpdateInstanceVariables :: "env \<Rightarrow> string \<Rightarrow> vars \<Rightarrow> unit eng" where
  "UpdateInstanceVariables env i vs = withTx env (case parse_int i of
       Inl e \<Rightarrow> throw (Msg (''invalid instance id: '' @ err_string e))
     | Inr k \<Rightarrow> persistVariables env i k vs)"

section \<open>Scopes and mappings\<close>

definition piKey :: "workflow_instance \<Rightarrow> int" where
  "piKey w = parse_key (wi_id w)"

definition getFlowScopeKey :: "workflow_instance \<Rightarrow> string \<Rightarrow> int" where
  "getFlowScopeKey w parentID =
     (if parentID = [] then piKey w
      else (case find_exec parentID w of
          Some ex \<Rightarrow> if ex_element_key ex \<noteq> 0 then ex_element_key ex else piKey w
        | None \<Rightarrow> piKey w))"

definition input_value :: "vars \<Rightarrow> string \<Rightarrow> val" where
  "input_value ctx source =
     (case map_of ctx source of
        Some v \<Rightarrow> v
      | None \<Rightarrow>
          if has_prefix source ''${'' \<and> has_suffix source ''}''
          then lookup_or_nil ctx (take (length source - 3) (drop 2 source))
          else VStr source)"

definition input_updates :: "vars \<Rightarrow> (string \<times> string) list \<Rightarrow> vars" where
  "input_updates ctx params = map (\<lambda>(target, source). (target, input_value ctx source)) params"

definition applyInputMappings :: "env \<Rightarrow> step \<Rightarrow> string \<Rightarrow> unit eng" where
  "applyInputMappings env st execID =
     bindE getI (\<lambda>w.
       let updates = input_updates (wi_context w) (st_input_params st) in
       if updates = [] then ret ()
       else thenE (mergeContext updates)
         (persistVariables env (wi_id w)
           (case find_exec execID w of Some ex \<Rightarrow> ex_element_key ex | None \<Rightarrow> 0) updates))"

definition output_updates :: "vars \<Rightarrow> (string \<times> string) list \<Rightarrow> vars" where
  "output_updates ctx params =
     List.map_filter (\<lambda>(target, source). map_option (Pair target) (map_of ctx source)) params"

definition applyOutputMappings :: "env \<Rightarrow> step \<Rightarrow> string \<Rightarrow> unit eng" where
  "applyOutputMappings env st execID =
     bindE getI (\<lambda>w.
       let updates = output_updates (wi_context w) (st_output_params st) in
       if updates = [] then ret ()
       else thenE (mergeContext updates)
         (persistVariables env (wi_id w)
           (case find_exec execID w of Some ex \<Rightarrow> getFlowScopeKey w (ex_parent_id ex) | None \<Rightarrow> 0) updates))"

section \<open>Handlers and listeners\<close>

definition runHandler :: "(workflow_instance \<Rightarrow> step \<Rightarrow> go_err option \<times> workflow_instance) \<Rightarrow> step \<Rightarrow> unit eng" where
  "runHandler h st = bindE getI (\<lambda>w. case h w st of (e, w') \<Rightarrow>
     thenE (modI (\<lambda>_. w')) (case e of None \<Rightarrow> ret () | Some err \<Rightarrow> throw err))"

definition executeTaskListeners :: "env \<Rightarrow> step \<Rightarrow> string \<Rightarrow> unit eng" where
  "executeTaskListeners env st eventType =
     forE (filter (\<lambda>l. tl_event l = eventType) (st_listeners st)) (\<lambda>l.
       (case env_handlers env (tl_implementation l) of
          None \<Rightarrow> ret ()
        | Some h \<Rightarrow> mapErr (\<lambda>e. Msg (''task listener '' @ tl_implementation l @ '' failed: '' @ err_string e))
            (runHandler h st)))"

section \<open>Elements and tokens\<close>

text \<open>A new token: its id, its start time, its key.\<close>

definition newExecution :: "env \<Rightarrow> string \<Rightarrow> string \<Rightarrow> execution eng" where
  "newExecution env stepID parentID =
     bindE (generateRuntimeID env) (\<lambda>i.
     bindE (timeNow env) (\<lambda>t.
     bindE (generateKey env i) (\<lambda>k.
     ret \<lparr>ex_id = i, ex_step_id = stepID, ex_status = ''ACTIVE'', ex_parent_id = parentID,
          ex_start_time = t, ex_element_key = k\<rparr>)))"

text \<open>The activated element instance of a token; some call sites leave its UUID empty, all drop the error.\<close>

definition activateElement :: "env \<Rightarrow> bool \<Rightarrow> int \<Rightarrow> workflow_def \<Rightarrow> execution \<Rightarrow> string \<Rightarrow> int \<Rightarrow> unit eng" where
  "activateElement env with_id pk wfd ex ty scope =
     bindE (if with_id then GenerateUUIDv7 env else ret []) (\<lambda>i.
     bindE (timeNow env) (\<lambda>t.
     ignoreE (CreateElementInstance env \<lparr>ei_key = ex_element_key ex, ei_id = i, ei_instance_key = pk,
        ei_definition_key = wf_id wfd, ei_element_id = ex_step_id ex, ei_type = ty, ei_flow_scope_key = scope,
        ei_state = ''ACTIVATED'', ei_created_at = t, ei_end_time = zero_time\<rparr>)))"

text \<open>\<open>if key != 0 { UpdateElementInstance(key, state, now) }\<close>, the error dropped.\<close>

definition finishElement :: "env \<Rightarrow> int \<Rightarrow> string \<Rightarrow> unit eng" where
  "finishElement env k st = (if k = 0 then ret ()
     else bindE (timeNow env) (\<lambda>t. ignoreE (UpdateElementInstance env k st t)))"

definition top_type :: "workflow_def \<Rightarrow> string \<Rightarrow> string" where
  "top_type wfd i = (case top_step (wf_steps wfd) i of Some s \<Rightarrow> step_type_string (st_type s) | None \<Rightarrow> ''TASK'')"

section \<open>The end of an instance\<close>

text \<open>\<open>if instance.Status == StatusCompleted { UpdateProcessInstance(...) }\<close>, the error dropped.\<close>

definition markCompleted :: "env \<Rightarrow> int \<Rightarrow> unit eng" where
  "markCompleted env k = bindE getI (\<lambda>w. if wi_status w = StatusCompleted
     then bindE (timeNow env) (\<lambda>t. ignoreE (UpdateProcessInstance env k ''COMPLETED'' t)) else ret ())"

definition completeInstanceIfNoActiveExecutions :: "env \<Rightarrow> workflow_def \<Rightarrow> unit eng" where
  "completeInstanceIfNoActiveExecutions env wfd =
     bindE getI (\<lambda>w.
       if wi_status w = StatusCompleted then ret ()
       else if list_ex (\<lambda>ex. ex_status ex = ''ACTIVE'') (wi_executions w) then ret ()
       else (case parse_int (wi_id w) of
           Inl e \<Rightarrow> throw (Wrapf (''invalid process instance id '' @ wi_id w) e)
         | Inr k \<Rightarrow>
             thenE (modI (\<lambda>w. w\<lparr>wi_status := StatusCompleted\<rparr>))
             (bindE (timeNow env) (\<lambda>t.
              thenE (UpdateProcessInstance env k ''COMPLETED'' t)
              (ignoreE (Publish env (ProcessInstanceCompleted k (wf_id wfd) t) ''ProcessInstanceCompleted''))))))"

section \<open>Event-based gateways\<close>

definition event_gateway_of :: "workflow_def \<Rightarrow> step \<Rightarrow> step option" where
  "event_gateway_of wfd st =
     (case List.find (\<lambda>i. case top_step (wf_steps wfd) i of
          Some s \<Rightarrow> st_type s = StepTypeGatewayEventBased \<and> st_id s \<noteq> [] | None \<Rightarrow> False) (st_incoming st) of
        None \<Rightarrow> None | Some i \<Rightarrow> top_step (wf_steps wfd) i)"

definition sibling_ids :: "workflow_def \<Rightarrow> step \<Rightarrow> string list" where
  "sibling_ids wfd st = (case event_gateway_of wfd st of None \<Rightarrow> []
     | Some g \<Rightarrow> filter (\<lambda>i. i \<noteq> st_id st) (map tr_target (st_outgoing g)))"

definition cancelEventGatewaySiblings :: "env \<Rightarrow> step \<Rightarrow> string \<Rightarrow> workflow_def \<Rightarrow> unit eng" where
  "cancelEventGatewaySiblings env st parentID wfd =
     bindE getI (\<lambda>w. forE [0..<length (wi_executions w)] (\<lambda>k.
       bindE (execAt k) (\<lambda>ex.
         if ex_status ex = ''ACTIVE'' \<and> ex_step_id ex \<in> set (sibling_ids wfd st) \<and> ex_parent_id ex = parentID
         then thenE (setStatusAt k ''TERMINATED'')
           (if ex_element_key ex = 0 then ret ()
            else thenE (finishElement env (ex_element_key ex) ''TERMINATED'')
              (cancelCreatedTimersForElementInstance env (ex_element_key ex)))
         else ret ())))"

end
