(* ===== verification/Navigation.thy ===== *)
theory Navigation
  imports Instance
begin

text \<open>
  Moving tokens: \<open>proceedToken\<close> of \<open>navigation.go\<close>, with the completion of sub-processes
  (\<open>subprocess.go\<close>) and of call activities (\<open>call_activity.go\<close>) it triggers.

  Every cycle of calls of the engine goes through \<open>proceedToken\<close> or \<open>autoAdvance\<close>. The definitions
  are not recursive: they take a function \<open>rec\<close> that runs such a call, and the theory
  \<open>Engine\<close> ties the knot.
\<close>

datatype call = CProceed string workflow_def | CAdvance string workflow_def

type_synonym calls = "call \<Rightarrow> unit eng"

section \<open>After the end of a path\<close>

definition notifyParentProcess :: "env \<Rightarrow> calls \<Rightarrow> unit eng" where
  "notifyParentProcess env rec = bindE getI (\<lambda>c.
     if wi_parent_instance_id c = [] \<or> wi_parent_execution_id c = [] then ret ()
     else bindE (mapErr (\<lambda>e. Msg (''failed to load parent instance '' @ wi_parent_instance_id c @ '': '' @ err_string e))
            (GetInstance env (wi_parent_instance_id c))) (\<lambda>p.
       with_instance p
         (case find_exec (wi_parent_execution_id c) p of
            None \<Rightarrow> throw (Msg (''parent execution '' @ wi_parent_execution_id c @ '' not found in instance '' @ wi_id p))
          | Some ex \<Rightarrow>
              if ex_status ex \<noteq> ''ACTIVE'' then ret ()
              else bindE (getWorkflowDefinition env (parse_key (wi_workflow_id p))) (\<lambda>pw.
                thenE (rec (CProceed (ex_id ex) pw))
                (case parse_int (wi_id p) of Inr k \<Rightarrow> markCompleted env k | Inl _ \<Rightarrow> ret ())))))"

definition all_children_completed :: "string \<Rightarrow> workflow_instance \<Rightarrow> bool" where
  "all_children_completed parentID w =
     list_all (\<lambda>ex. ex_parent_id ex = parentID \<longrightarrow> ex_status ex = ''COMPLETED'') (wi_executions w)"

definition checkSubProcessCompletion :: "env \<Rightarrow> calls \<Rightarrow> string \<Rightarrow> workflow_def \<Rightarrow> unit eng" where
  "checkSubProcessCompletion env rec execID wfd = bindE getI (\<lambda>w.
     (case find_exec execID w of
        None \<Rightarrow> ret ()
      | Some ex \<Rightarrow>
          if ex_parent_id ex = [] then ret ()
          else if \<not> all_children_completed (ex_parent_id ex) w then ret ()
          else (case find_exec (ex_parent_id ex) w of
              None \<Rightarrow> ret ()
            | Some p \<Rightarrow> if ex_status p = ''ACTIVE'' then rec (CProceed (ex_id p) wfd) else ret ())))"

text \<open>The branch of \<open>proceedToken\<close> for a step without outgoing flows.\<close>

definition endOfPath :: "env \<Rightarrow> calls \<Rightarrow> nat \<Rightarrow> string \<Rightarrow> string \<Rightarrow> workflow_def \<Rightarrow> unit eng" where
  "endOfPath env rec k execID stepID wfd =
     thenE (setStatusAt k ''COMPLETED'') (bindE getI (\<lambda>w.
     (case parse_int (wi_id w) of
        Inl e \<Rightarrow> throw (Wrapf (''invalid process instance id '' @ wi_id w) e)
      | Inr pk \<Rightarrow>
          bindE (execAt k) (\<lambda>ex.
          thenE (if ex_element_key ex = 0 then ret ()
             else bindE (timeNow env) (\<lambda>t.
               thenE (ignoreE (UpdateElementInstance env (ex_element_key ex) ''COMPLETED'' t))
               (ignoreE (Publish env (ElementInstanceCompleted (ex_element_key ex) pk stepID t)
                  ''ElementInstanceCompleted''))))
          (thenE (completeInstanceIfNoActiveExecutions env wfd)
          (thenE (checkSubProcessCompletion env rec execID wfd)
          (bindE getI (\<lambda>w. if wi_parent_instance_id w \<noteq> [] then notifyParentProcess env rec else ret ()))))))))"

section \<open>Leaving a step\<close>

definition collection_of :: "vars \<Rightarrow> string \<Rightarrow> val list" where
  "collection_of ctx name = (case map_of ctx name of Some (VList xs) \<Rightarrow> xs | _ \<Rightarrow> [])"

definition loop_int :: "vars \<Rightarrow> string \<Rightarrow> int" where
  "loop_int ctx name = (case map_of ctx name of
       Some (VFloat q) \<Rightarrow> int_of_f64 q | Some (VInt i) \<Rightarrow> i | _ \<Rightarrow> 0)"

definition loopIdxVar :: "string \<Rightarrow> string" where "loopIdxVar i = ''_loop_index_'' @ i"
definition loopTotalVar :: "string \<Rightarrow> string" where "loopTotalVar i = ''_loop_total_'' @ i"

text \<open>
  The exits return the index of the execution the next tokens are spawned from, or \<open>None\<close> when
  \<open>proceedToken\<close> returns here.
\<close>

definition exitStandard :: "env \<Rightarrow> nat \<Rightarrow> nat option eng" where
  "exitStandard env k =
     thenE (setStatusAt k ''COMPLETED'') (bindE (execAt k) (\<lambda>ex.
     thenE (if ex_element_key ex = 0 then ret ()
        else thenE (finishElement env (ex_element_key ex) ''COMPLETED'')
          (cancelCreatedTimersForElementInstance env (ex_element_key ex)))
     (ret (Some k))))"

definition exitParallel :: "env \<Rightarrow> nat \<Rightarrow> nat option eng" where
  "exitParallel env k =
     thenE (setStatusAt k ''COMPLETED'') (bindE (execAt k) (\<lambda>ex.
     thenE (finishElement env (ex_element_key ex) ''COMPLETED'')
     (bindE getI (\<lambda>w.
       if \<not> all_children_completed (ex_parent_id ex) w then ret None
       else (case exec_index (ex_parent_id ex) w of
           None \<Rightarrow> throw (Msg (''multi-instance parent execution '' @ ex_parent_id ex @ '' not found''))
         | Some p \<Rightarrow>
             thenE (setStatusAt p ''COMPLETED'') (bindE (execAt p) (\<lambda>pex.
             thenE (finishElement env (ex_element_key pex) ''COMPLETED'')
             (thenE (setExecAt k pex) (ret (Some p))))))))))"

text \<open>The next item of a sequential multi-instance step: its token, its element variable, its run.\<close>

definition nextIteration ::
  "env \<Rightarrow> calls \<Rightarrow> string \<Rightarrow> step \<Rightarrow> execution \<Rightarrow> int \<Rightarrow> workflow_def \<Rightarrow> unit eng" where
  "nextIteration env rec stepID st pex i wfd =
     bindE getI (\<lambda>w.
     thenE (persistVariables env (wi_id w) (ex_element_key pex) [(loopIdxVar (ex_id pex), VInt i)])
     (thenE (setContext (loopIdxVar (ex_id pex)) (VInt i))
     (bindE (newExecution env stepID (ex_id pex)) (\<lambda>child.
      bindE getI (\<lambda>w.
      let coll = collection_of (wi_context w) (st_loop_collection st) in
      thenE (if i < int (length coll) \<and> st_loop_element st \<noteq> []
         then bindE (if i < 0 then panic ''index out of range'' else indexE coll (nat i)) (\<lambda>item.
           persistVariables env (wi_id w) (ex_element_key child) [(st_loop_element st, item)])
         else ret ())
      (thenE (activateElement env False (piKey w) wfd child (step_type_string (st_type st)) (ex_element_key pex))
      (thenE (appendExec child) (rec (CAdvance (ex_id child) wfd)))))))))"

definition exitSequential ::
  "env \<Rightarrow> calls \<Rightarrow> nat \<Rightarrow> string \<Rightarrow> step \<Rightarrow> workflow_def \<Rightarrow> nat option eng" where
  "exitSequential env rec k stepID st wfd =
     thenE (setStatusAt k ''COMPLETED'') (bindE (execAt k) (\<lambda>ex.
     thenE (finishElement env (ex_element_key ex) ''COMPLETED'')
     (bindE getI (\<lambda>w.
       (case exec_index (ex_parent_id ex) w of
          None \<Rightarrow> throw (Msg (''multi-instance parent execution '' @ ex_parent_id ex @ '' not found''))
        | Some p \<Rightarrow>
            bindE (execAt p) (\<lambda>pex.
            let i = loop_int (wi_context w) (loopIdxVar (ex_parent_id ex)) + 1;
                total = loop_int (wi_context w) (loopTotalVar (ex_parent_id ex))
            in if i < total then thenE (nextIteration env rec stepID st pex i wfd) (ret None)
               else thenE (setStatusAt p ''COMPLETED'')
                 (thenE (finishElement env (ex_element_key pex) ''COMPLETED'') (ret (Some p)))))))))"

definition exitStep ::
  "env \<Rightarrow> calls \<Rightarrow> nat \<Rightarrow> string \<Rightarrow> step \<Rightarrow> workflow_def \<Rightarrow> nat option eng" where
  "exitStep env rec k stepID st wfd =
     (if st_loop_type st = ''PARALLEL'' then exitParallel env k
      else if st_loop_type st = ''SEQUENTIAL'' then exitSequential env rec k stepID st wfd
      else exitStandard env k)"

section \<open>Spawning tokens\<close>

definition createTimerFor :: "env \<Rightarrow> step \<Rightarrow> int \<Rightarrow> int \<Rightarrow> unit eng" where
  "createTimerFor env st elementKey pk = bindE (timeNow env) (\<lambda>now.
     (case resolveTimerSchedule (st_properties st) now of
        Inl _ \<Rightarrow> ret ()
      | Inr sched \<Rightarrow>
          bindE (generateKey env ''_timer'') (\<lambda>key.
          bindE (GenerateUUIDv7 env) (\<lambda>i.
          bindE (timeNow env) (\<lambda>created.
          ignoreE (CreateTimer env \<lparr>tm_key = key, tm_id = i, tm_element_key = elementKey, tm_instance_key = pk,
             tm_element_id = st_id st, tm_due_date = ts_due_date sched, tm_state = ''CREATED'',
             tm_repeat_count = ts_repeat_count sched, tm_created_at = created\<rparr>))))))"

definition correlation_value :: "vars \<Rightarrow> vars \<Rightarrow> string" where
  "correlation_value props ctx =
     (case str_prop props ''correlation_key'' of
        None \<Rightarrow> []
      | Some ck \<Rightarrow> if ck = [] then []
          else (case map_of ctx ck of Some v \<Rightarrow> fmt_v v | None \<Rightarrow> ck))"

definition subscribeFor :: "env \<Rightarrow> step \<Rightarrow> int \<Rightarrow> int \<Rightarrow> unit eng" where
  "subscribeFor env st elementKey pk =
     (case str_prop (st_properties st) ''message_ref'' of
        None \<Rightarrow> ret ()
      | Some msgRef \<Rightarrow>
          if msgRef = [] then ret ()
          else bindE getI (\<lambda>w.
            bindE (generateKey env ''_msg_sub'') (\<lambda>key.
            bindE (GenerateUUIDv7 env) (\<lambda>i.
            bindE (timeNow env) (\<lambda>created.
            ignoreE (CreateMessageSubscription env \<lparr>su_key = key, su_id = i, su_element_key = elementKey,
               su_instance_key = pk, su_element_id = st_id st, su_message_name = msgRef,
               su_correlation_key = correlation_value (st_properties st) (wi_context w),
               su_state = ''OPEN'', su_created_at = created\<rparr>))))))"

definition boundary_steps :: "workflow_def \<Rightarrow> step \<Rightarrow> step list" where
  "boundary_steps wfd st =
     filter (\<lambda>b. st_type b = StepTypeBoundaryEvent) (List.map_filter (top_step (wf_steps wfd)) (st_boundary_refs st))"

text \<open>The timers and subscriptions of a step that is entered, its boundary events included.\<close>

definition waitFor :: "env \<Rightarrow> step \<Rightarrow> int \<Rightarrow> int \<Rightarrow> workflow_def \<Rightarrow> unit eng" where
  "waitFor env st elementKey pk wfd =
     thenE (if st_type st = StepTypeIntermediateTimerCatchEvent then createTimerFor env st elementKey pk else ret ())
     (thenE (forE (boundary_steps wfd st) (\<lambda>b. createTimerFor env b elementKey pk))
     (thenE (if st_type st = StepTypeIntermediateCatchEvent \<or> st_type st = StepTypeReceiveTask
        then subscribeFor env st elementKey pk else ret ())
     (forE (boundary_steps wfd st) (\<lambda>b. subscribeFor env b elementKey pk))))"

definition spawnSingle :: "env \<Rightarrow> calls \<Rightarrow> nat \<Rightarrow> string \<Rightarrow> workflow_def \<Rightarrow> unit eng" where
  "spawnSingle env rec k targetID wfd =
     bindE (execAt k) (\<lambda>src.
     bindE (newExecution env targetID (ex_parent_id src)) (\<lambda>ex.
     bindE getI (\<lambda>w.
     thenE (activateElement env True (piKey w) wfd ex (top_type wfd targetID) (getFlowScopeKey w (ex_parent_id ex)))
     (thenE (case findStep (wf_steps wfd) targetID of
          None \<Rightarrow> ret () | Some st \<Rightarrow> waitFor env st (ex_element_key ex) (piKey w) wfd)
     (thenE (appendExec ex) (rec (CAdvance (ex_id ex) wfd)))))))"

definition spawnItem :: "env \<Rightarrow> calls \<Rightarrow> step \<Rightarrow> execution \<Rightarrow> workflow_def \<Rightarrow> val \<Rightarrow> unit eng" where
  "spawnItem env rec st scope wfd item =
     bindE (newExecution env (st_id st) (ex_id scope)) (\<lambda>child.
     bindE getI (\<lambda>w.
     thenE (activateElement env True (piKey w) wfd child (step_type_string (st_type st)) (ex_element_key scope))
     (thenE (if st_loop_element st = [] then ret ()
        else persistVariables env (wi_id w) (ex_element_key child) [(st_loop_element st, item)])
     (thenE (appendExec child) (rec (CAdvance (ex_id child) wfd))))))"

definition spawnFirst :: "env \<Rightarrow> calls \<Rightarrow> step \<Rightarrow> execution \<Rightarrow> workflow_def \<Rightarrow> val list \<Rightarrow> unit eng" where
  "spawnFirst env rec st scope wfd coll =
     bindE getI (\<lambda>w.
     let state = [(loopIdxVar (ex_id scope), VInt 0), (loopTotalVar (ex_id scope), VInt (int (length coll)))] in
     thenE (persistVariables env (wi_id w) (ex_element_key scope) state)
     (thenE (mergeContext state)
     (bindE (newExecution env (st_id st) (ex_id scope)) (\<lambda>child.
      thenE (if st_loop_element st = [] then ret ()
         else bindE (indexE coll 0) (\<lambda>item.
           persistVariables env (wi_id w) (ex_element_key child) [(st_loop_element st, item)]))
      (thenE (activateElement env True (piKey w) wfd child (step_type_string (st_type st)) (ex_element_key scope))
      (thenE (appendExec child) (rec (CAdvance (ex_id child) wfd))))))))"

definition spawnMulti :: "env \<Rightarrow> calls \<Rightarrow> nat \<Rightarrow> step \<Rightarrow> val list \<Rightarrow> workflow_def \<Rightarrow> unit eng" where
  "spawnMulti env rec k st coll wfd =
     bindE (execAt k) (\<lambda>src.
     bindE (newExecution env (st_id st) (ex_parent_id src)) (\<lambda>scope.
     bindE getI (\<lambda>w.
     thenE (activateElement env True (piKey w) wfd scope (step_type_string (st_type st) @ ''_MI_SCOPE'')
        (getFlowScopeKey w (ex_parent_id scope)))
     (thenE (appendExec scope)
     (if st_loop_type st = ''PARALLEL'' then forE coll (spawnItem env rec st scope wfd)
      else spawnFirst env rec st scope wfd coll)))))"

definition spawnToken :: "env \<Rightarrow> calls \<Rightarrow> nat \<Rightarrow> workflow_def \<Rightarrow> string \<Rightarrow> unit eng" where
  "spawnToken env rec k wfd targetID = bindE getI (\<lambda>w.
     (case findStep (wf_steps wfd) targetID of
        None \<Rightarrow> spawnSingle env rec k targetID wfd
      | Some st \<Rightarrow>
          let coll = collection_of (wi_context w) (st_loop_collection st) in
          if (st_loop_type st = ''PARALLEL'' \<or> st_loop_type st = ''SEQUENTIAL'') \<and> coll \<noteq> []
          then spawnMulti env rec k st coll wfd
          else spawnSingle env rec k targetID wfd))"

section \<open>\<open>proceedToken\<close>\<close>

definition proceedToken :: "env \<Rightarrow> calls \<Rightarrow> string \<Rightarrow> workflow_def \<Rightarrow> unit eng" where
  "proceedToken env rec execID wfd = bindE getI (\<lambda>w.
     (case exec_index execID w of
        None \<Rightarrow> throw (Msg (''execution '' @ execID @ '' not found''))
      | Some k \<Rightarrow>
          bindE (execAt k) (\<lambda>ex. let stepID = ex_step_id ex in
          (case findStep (wf_steps wfd) stepID of
             None \<Rightarrow> throw (Msg (''step '' @ stepID @ '' definition not found''))
           | Some st \<Rightarrow>
               thenE (mapErr (\<lambda>e. Msg (''failed to apply output mappings: '' @ err_string e))
                  (applyOutputMappings env st execID))
               (if st_outgoing st = [] then endOfPath env rec k execID stepID wfd
                else bindE getI (\<lambda>w.
                  bindE (liftR (determineNextStepIDs env (wi_context w) st)) (\<lambda>targets.
                  bindE (exitStep env rec k stepID st wfd) (\<lambda>r.
                  (case r of
                     None \<Rightarrow> ret ()
                   | Some k' \<Rightarrow> thenE (forE targets (spawnToken env rec k' wfd))
                       (completeInstanceIfNoActiveExecutions env wfd))))))))))"

end
