(* ===== verification/Start.thy ===== *)
theory Start
  imports Navigation
begin

text \<open>
  Creating and starting an instance (\<open>createAndStartInstance\<close>, \<open>StartInstance\<close> of \<open>engine.go\<close>) and the
  timers of its event sub-processes (\<open>scheduleEventSubProcessTimers\<close> of \<open>events.go\<close>).
\<close>

definition event_kind :: "step \<Rightarrow> string" where
  "event_kind st = str_or_empty (st_properties st) ''event_definition_type''"

definition event_subprocesses :: "workflow_def \<Rightarrow> step list" where
  "event_subprocesses wfd = filter (\<lambda>s. st_type s = StepTypeEventSubProcess) (wf_steps wfd)"

text \<open>A definition-level or instance-level timer with a deterministic key is created once.\<close>

definition createTimerOnce :: "env \<Rightarrow> int \<Rightarrow> int \<Rightarrow> int \<Rightarrow> step \<Rightarrow> int \<Rightarrow> unit eng" where
  "createTimerOnce env key elementKey instKey start now =
     (case resolveTimerSchedule (st_properties start) now of
        Inl _ \<Rightarrow> ret ()
      | Inr sched \<Rightarrow>
          bindE (tryE (GetTimer env key)) (\<lambda>r.
          (case r of
             Inr _ \<Rightarrow> ret ()
           | Inl _ \<Rightarrow> bindE (GenerateUUIDv7 env) (\<lambda>i.
               CreateTimer env \<lparr>tm_key = key, tm_id = i, tm_element_key = elementKey, tm_instance_key = instKey,
                 tm_element_id = st_id start, tm_due_date = ts_due_date sched, tm_state = ''CREATED'',
                 tm_repeat_count = ts_repeat_count sched, tm_created_at = now\<rparr>))))"

definition scheduleEventSubProcessTimers :: "env \<Rightarrow> string \<Rightarrow> workflow_def \<Rightarrow> unit eng" where
  "scheduleEventSubProcessTimers env instanceID wfd =
     (case parse_int instanceID of
        Inl _ \<Rightarrow> ret ()
      | Inr pk \<Rightarrow>
          if pk = 0 then ret ()
          else bindE (timeNow env) (\<lambda>now. forE (event_subprocesses wfd) (\<lambda>sp.
            (case firstStartStep (st_sub_steps sp) of
               None \<Rightarrow> ret ()
             | Some start \<Rightarrow>
                 if event_kind start \<noteq> ''timer'' then ret ()
                 else createTimerOnce env
                   (generateDeterministicKey (''esp_timer_'' @ show_int pk @ ''_'' @ st_id start)) 0 pk start now))))"

definition lookupProcess :: "env \<Rightarrow> string \<Rightarrow> int option \<Rightarrow> process eng" where
  "lookupProcess env workflowID version =
     (case parse_int workflowID of
        Inr k \<Rightarrow> GetProcess env k
      | Inl _ \<Rightarrow> (case version of
          Some v \<Rightarrow> if v > 0 then GetProcessByBpmnProcessIDAndVersion env workflowID v
                    else GetProcessByBpmnProcessID env workflowID
        | None \<Rightarrow> GetProcessByBpmnProcessID env workflowID))"

text \<open>The value the in-memory instance starts with: what \<open>json.Unmarshal\<close> makes of the marshalled one.\<close>

definition start_variable :: "string \<times> val \<Rightarrow> variable" where
  "start_variable kv = \<lparr>va_scope_key = 0, va_instance_key = 0, va_name = fst kv,
     va_value = (case json_roundtrip (snd kv) of Some w \<Rightarrow> w | None \<Rightarrow> VNil),
     va_created_at = zero_time, va_updated_at = zero_time\<rparr>"

definition newProcessInstance :: "env \<Rightarrow> process \<Rightarrow> string \<Rightarrow> string \<Rightarrow> (process_instance \<times> int) eng" where
  "newProcessInstance env p parentInstanceID parentExecutionID =
     bindE (GenerateUUIDv7 env) (\<lambda>i.
     bindE (GenerateSnowflake env) (\<lambda>pk.
     bindE (GenerateSnowflake env) (\<lambda>rootKey.
     bindE (timeNow env) (\<lambda>t.
     let q = \<lparr>pi_key = pk, pi_id = i, pi_definition_key = pr_key p, pi_version = pr_version p,
         pi_parent_instance_key = (if parentInstanceID = [] then 0 else parse_key parentInstanceID),
         pi_parent_element_key = (if parentExecutionID = [] then 0 else parse_key parentExecutionID),
         pi_state = ''ACTIVE'', pi_created_at = t, pi_end_time = zero_time\<rparr>
     in thenE (mapErr (\<lambda>e. Msg (''failed to create process instance: '' @ err_string e)) (CreateProcessInstance env q))
       (thenE (ignoreE (Publish env (ProcessInstanceCreated pk i (pr_key p) (safeInt32 (pr_version p))
           (pr_bpmn_process_id p) t) ''ProcessInstanceCreated''))
       (ret (q, rootKey)))))))"

definition newRootElement :: "env \<Rightarrow> process \<Rightarrow> int \<Rightarrow> int \<Rightarrow> step \<Rightarrow> element_instance eng" where
  "newRootElement env p pk rootKey start =
     bindE (GenerateUUIDv7 env) (\<lambda>i.
     bindE (timeNow env) (\<lambda>t.
     let el = \<lparr>ei_key = rootKey, ei_id = i, ei_instance_key = pk, ei_definition_key = pr_key p,
         ei_element_id = st_id start, ei_type = step_type_string (st_type start), ei_flow_scope_key = 0,
         ei_state = ''ACTIVATED'', ei_created_at = t, ei_end_time = zero_time\<rparr>
     in thenE (mapErr (\<lambda>e. Msg (''failed to create element instance: '' @ err_string e)) (CreateElementInstance env el))
       (thenE (ignoreE (Publish env (ElementInstanceActivated rootKey i pk (pr_key p) (ei_element_id el) (ei_type el)
           0 t) ''ElementInstanceActivated''))
       (ret el))))"

definition createAndStartInstance ::
  "env \<Rightarrow> calls \<Rightarrow> string \<Rightarrow> vars \<Rightarrow> string \<Rightarrow> string \<Rightarrow> int option \<Rightarrow> workflow_instance eng" where
  "createAndStartInstance env rec workflowID contextVars parentInstanceID parentExecutionID version =
     bindE (mapErr (\<lambda>e. Msg (''process not found for id '' @ workflowID @ '': '' @ err_string e))
        (lookupProcess env workflowID version)) (\<lambda>p.
     bindE (liftR (processToWorkflowDefinition env p)) (\<lambda>wfd.
     (case wf_steps wfd of
        [] \<Rightarrow> throw (Msg ''workflow has no steps'')
      | start # _ \<Rightarrow>
          bindE (newProcessInstance env p parentInstanceID parentExecutionID) (\<lambda>(q, rootKey).
          bindE (newRootElement env p (pi_key q) rootKey start) (\<lambda>el.
          thenE (persistVariables env (show_int (pi_key q)) (pi_key q) contextVars)
          (bindE (mapToWorkflowInstance env q [el] (map start_variable contextVars)) (\<lambda>w.
           thenE (if st_type start = StepTypeStart
              then with_instance w (bindE (execAt 0) (\<lambda>ex. rec (CProceed (ex_id ex) wfd))) else ret ())
           (thenE (scheduleEventSubProcessTimers env (wi_id w) wfd)
           (GetInstance env (wi_id w))))))))))"

definition StartInstanceVersion ::
  "env \<Rightarrow> calls \<Rightarrow> string \<Rightarrow> vars \<Rightarrow> int option \<Rightarrow> workflow_instance eng" where
  "StartInstanceVersion env rec workflowID contextVars version =
     withTx env (createAndStartInstance env rec workflowID contextVars [] [] version)"

definition StartInstance :: "env \<Rightarrow> calls \<Rightarrow> string \<Rightarrow> vars \<Rightarrow> workflow_instance eng" where
  "StartInstance env rec workflowID contextVars = StartInstanceVersion env rec workflowID contextVars None"

end
