(* ===== verification/EventDelivery.thy ===== *)
theory EventDelivery
  imports Start
begin

text \<open>
  Delivery of events to waiting tokens (\<open>events.go\<close>, \<open>tier2_events.go\<close>): boundary paths, event
  sub-processes, signals, messages, escalations, conditions, timers, and the start events of
  process definitions.
\<close>

section \<open>Boundary paths\<close>

definition cancel_activity :: "step \<Rightarrow> bool" where
  "cancel_activity b = (case bool_prop (st_properties b) ''cancel_activity'' of Some c \<Rightarrow> c | None \<Rightarrow> True)"

definition terminateAt :: "env \<Rightarrow> nat \<Rightarrow> unit eng" where
  "terminateAt env k = thenE (setStatusAt k ''TERMINATED'')
     (bindE (execAt k) (\<lambda>ex. finishElement env (ex_element_key ex) ''TERMINATED''))"

text \<open>The token of one flow out of a boundary event.\<close>

definition spawnBoundary ::
  "env \<Rightarrow> calls \<Rightarrow> bool \<Rightarrow> (string \<Rightarrow> string) \<Rightarrow> string \<Rightarrow> workflow_def \<Rightarrow> transition \<Rightarrow> unit eng" where
  "spawnBoundary env rec with_id type_of parentID wfd t =
     bindE (newExecution env (tr_target t) parentID) (\<lambda>ex.
     bindE getI (\<lambda>w.
     thenE (activateElement env with_id (piKey w) wfd ex (type_of (tr_target t)) (getFlowScopeKey w parentID))
     (thenE (appendExec ex) (rec (CAdvance (ex_id ex) wfd)))))"

definition deep_type :: "workflow_def \<Rightarrow> string \<Rightarrow> string" where
  "deep_type wfd i = (case findStepDeep (wf_steps wfd) i of Some s \<Rightarrow> step_type_string (st_type s) | None \<Rightarrow> ''TASK'')"

definition waiting_at :: "string \<Rightarrow> execution \<Rightarrow> bool" where
  "waiting_at stepID ex \<longleftrightarrow> ex_step_id ex = stepID \<and> (ex_status ex = ''ACTIVE'' \<or> ex_status ex = [])"

definition triggerBoundaryPath :: "env \<Rightarrow> calls \<Rightarrow> step \<Rightarrow> string \<Rightarrow> workflow_def \<Rightarrow> unit eng" where
  "triggerBoundaryPath env rec boundary attachedStepID wfd = bindE getI (\<lambda>w.
     bindE (case index_of (waiting_at attachedStepID) (wi_executions w) of
          None \<Rightarrow> ret []
        | Some k \<Rightarrow> bindE (execAt k) (\<lambda>ex.
            thenE (if cancel_activity boundary then terminateAt env k else ret ()) (ret (ex_parent_id ex)))) (\<lambda>parentID.
     forE (st_outgoing boundary) (spawnBoundary env rec False (deep_type wfd) parentID wfd)))"

section \<open>Event sub-processes\<close>

definition eventSubProcessStartMatches :: "step \<Rightarrow> string \<Rightarrow> string \<Rightarrow> bool" where
  "eventSubProcessStartMatches start kind ref =
     (let p = st_properties start; ty = event_kind start in
      if kind = ''message'' then ty = ''message'' \<and> (ref = [] \<or> str_or_empty p ''message_ref'' = ref)
      else if kind = ''signal'' then ty = ''signal'' \<and> (ref = [] \<or> str_or_empty p ''signal_ref'' = ref)
      else if kind = ''escalation'' then
        let c = str_or_empty p ''escalation_code'';
            r = (if c = [] then str_or_empty p ''escalation_ref'' else c)
        in ty = ''escalation'' \<and> (ref = [] \<or> r = ref \<or> r = [])
      else if kind = ''error'' then ty = ''error'' \<or> str_or_empty p ''error_code'' \<noteq> []
      else if kind = ''timer'' then ty = ''timer''
      else if kind = ''conditional'' then ty = ''conditional''
      else False)"

definition is_open_status :: "string \<Rightarrow> bool" where
  "is_open_status st \<longleftrightarrow> st = ''ACTIVE'' \<or> st = ''WAITING'' \<or> st = []"

text \<open>An interrupting start terminates the tokens outside the sub-process, in memory only.\<close>

definition interrupt_outside :: "string \<Rightarrow> execution \<Rightarrow> execution" where
  "interrupt_outside spID ex =
     (if is_open_status (to_upper (ex_status ex)) \<and> ex_parent_id ex \<noteq> spID
      then ex\<lparr>ex_status := ''TERMINATED''\<rparr> else ex)"

definition startEventSubProcess :: "env \<Rightarrow> calls \<Rightarrow> workflow_def \<Rightarrow> vars \<Rightarrow> step \<Rightarrow> step \<Rightarrow> unit eng" where
  "startEventSubProcess env rec wfd payload sp start =
     thenE (if cancel_activity start
        then modI (\<lambda>w. w\<lparr>wi_executions := map (interrupt_outside (st_id sp)) (wi_executions w)\<rparr>) else ret ())
     (thenE (mergeContext payload)
     (bindE (newExecution env (st_id start) (st_id sp)) (\<lambda>child.
      bindE getI (\<lambda>w.
      thenE (activateElement env False (piKey w) wfd child (step_type_string (st_type start))
         (getFlowScopeKey w (st_id sp)))
      (thenE (appendExec child) (rec (CAdvance (ex_id child) wfd)))))))"

definition tryStartEventSubProcesses ::
  "env \<Rightarrow> calls \<Rightarrow> workflow_def \<Rightarrow> string \<Rightarrow> string \<Rightarrow> vars \<Rightarrow> unit eng" where
  "tryStartEventSubProcesses env rec wfd kind ref payload =
     forE (event_subprocesses wfd) (\<lambda>sp.
       (case firstStartStep (st_sub_steps sp) of
          None \<Rightarrow> ret ()
        | Some start \<Rightarrow>
            if st_properties start = [] \<or> \<not> eventSubProcessStartMatches start kind ref then ret ()
            else startEventSubProcess env rec wfd payload sp start))"

text \<open>On every active instance, each in a transaction of its own.\<close>

definition triggerEventSubProcessesOnActiveInstances ::
  "env \<Rightarrow> calls \<Rightarrow> string \<Rightarrow> string \<Rightarrow> vars \<Rightarrow> unit eng" where
  "triggerEventSubProcessesOnActiveInstances env rec kind ref payload =
     bindE (tryE (ListActiveProcessInstances env)) (\<lambda>r.
     (case r of
        Inl _ \<Rightarrow> ret ()
      | Inr ps \<Rightarrow> forE ps (\<lambda>p. withTx env
          (bindE (tryE (GetInstance env (show_int (pi_key p)))) (\<lambda>i.
          (case i of
             Inl _ \<Rightarrow> ret ()
           | Inr w \<Rightarrow> bindE (tryE (getWorkflowDefinition env (parse_key (wi_workflow_id w)))) (\<lambda>d.
               (case d of
                  Inl _ \<Rightarrow> ret ()
                | Inr wfd \<Rightarrow> with_instance w (tryStartEventSubProcesses env rec wfd kind ref payload)))))))))"

section \<open>Start events of definitions\<close>

definition startInstancesWhere ::
  "env \<Rightarrow> calls \<Rightarrow> (step \<Rightarrow> bool) \<Rightarrow> (step \<Rightarrow> vars) \<Rightarrow> unit eng" where
  "startInstancesWhere env rec matches vars_of =
     bindE (listDeployedWorkflowDefinitions env) (\<lambda>defs. forE defs (\<lambda>wfd.
       (case firstStartStep (wf_steps wfd) of
          None \<Rightarrow> ret ()
        | Some start \<Rightarrow>
            if matches start
            then bindE (StartInstance env rec (show_int (wf_id wfd)) (vars_of start)) (\<lambda>_. ret ())
            else ret ())))"

definition startInstancesForMessageStart :: "env \<Rightarrow> calls \<Rightarrow> string \<Rightarrow> string \<Rightarrow> vars \<Rightarrow> unit eng" where
  "startInstancesForMessageStart env rec name ck payload =
     startInstancesWhere env rec
       (\<lambda>s. event_kind s = ''message'' \<and> str_or_empty (st_properties s) ''message_ref'' = name)
       (\<lambda>s. if ck = [] then payload
            else let key = str_or_empty (st_properties s) ''correlation_key'' in
              put (if key = [] then ''correlationKey'' else key) (VStr ck) payload)"

definition startInstancesForSignalStart :: "env \<Rightarrow> calls \<Rightarrow> string \<Rightarrow> vars \<Rightarrow> unit eng" where
  "startInstancesForSignalStart env rec name payload =
     startInstancesWhere env rec
       (\<lambda>s. event_kind s = ''signal'' \<and> str_or_empty (st_properties s) ''signal_ref'' = name) (\<lambda>_. payload)"

definition escalation_ref :: "step \<Rightarrow> string" where
  "escalation_ref s = (let c = str_or_empty (st_properties s) ''escalation_code'' in
     if c = [] then str_or_empty (st_properties s) ''escalation_ref'' else c)"

definition startInstancesForEscalationStart :: "env \<Rightarrow> calls \<Rightarrow> string \<Rightarrow> vars \<Rightarrow> unit eng" where
  "startInstancesForEscalationStart env rec code payload =
     startInstancesWhere env rec
       (\<lambda>s. event_kind s = ''escalation'' \<and> (escalation_ref s = [] \<or> escalation_ref s = code)) (\<lambda>_. payload)"

section \<open>Escalations\<close>

definition escalationCodeMatches :: "step \<Rightarrow> string \<Rightarrow> bool" where
  "escalationCodeMatches st code =
     (if event_kind st \<noteq> ''escalation'' \<and> \<not> has_key ''escalation_ref'' (st_properties st) \<and>
         \<not> has_key ''escalation_code'' (st_properties st)
      then False
      else escalation_ref st = [] \<or> escalation_ref st = code)"

definition waiting_element :: "int \<Rightarrow> execution \<Rightarrow> bool" where
  "waiting_element k ex \<longleftrightarrow> ex_element_key ex = k \<and> (ex_status ex = ''ACTIVE'' \<or> ex_status ex = [])"

definition proceedWaiting :: "calls \<Rightarrow> int \<Rightarrow> workflow_def \<Rightarrow> unit eng" where
  "proceedWaiting rec k wfd = bindE getI (\<lambda>w.
     (case List.find (waiting_element k) (wi_executions w) of
        None \<Rightarrow> ret ()
      | Some ex \<Rightarrow> rec (CProceed (ex_id ex) wfd)))"

definition escalateAt :: "env \<Rightarrow> calls \<Rightarrow> string \<Rightarrow> vars \<Rightarrow> workflow_def \<Rightarrow> step \<Rightarrow> element_instance \<Rightarrow> unit eng" where
  "escalateAt env rec code payload wfd st el = bindE getI (\<lambda>w.
     thenE (mergeContext payload)
     (thenE (ignoreE (persistVariables env (wi_id w) (ei_instance_key el) payload))
     (if st_type st = StepTypeIntermediateCatchEvent \<and> escalationCodeMatches st code
      then thenE (proceedWaiting rec (ei_key el) wfd)
        (ignoreE (tryStartEventSubProcesses env rec wfd ''escalation'' code payload))
      else (case List.find (\<lambda>b. escalationCodeMatches b code)
              (List.map_filter (findStepDeep (wf_steps wfd)) (st_boundary_refs st)) of
          None \<Rightarrow> ret ()
        | Some b \<Rightarrow> thenE (triggerBoundaryPath env rec b (st_id st) wfd)
            (ignoreE (tryStartEventSubProcesses env rec wfd ''escalation'' code payload))))))"

text \<open>An element whose definition, step or instance cannot be loaded is skipped.\<close>

definition withElement ::
  "env \<Rightarrow> element_instance \<Rightarrow> (workflow_def \<Rightarrow> step \<Rightarrow> bool) \<Rightarrow> (workflow_def \<Rightarrow> step \<Rightarrow> unit eng) \<Rightarrow> unit eng" where
  "withElement env el relevant body =
     bindE (tryE (getWorkflowDefinitionFromMemo env (ei_definition_key el))) (\<lambda>d.
     (case d of
        Inl _ \<Rightarrow> ret ()
      | Inr wfd \<Rightarrow>
          (case findStepDeep (wf_steps wfd) (ei_element_id el) of
             None \<Rightarrow> ret ()
           | Some st \<Rightarrow>
               if \<not> relevant wfd st then ret ()
               else bindE (tryE (GetInstance env (show_int (ei_instance_key el)))) (\<lambda>i.
                 (case i of
                    Inl _ \<Rightarrow> ret ()
                  | Inr w \<Rightarrow> with_instance w (body wfd st))))))"

definition deliverEscalationToWaiters :: "env \<Rightarrow> calls \<Rightarrow> string \<Rightarrow> vars \<Rightarrow> unit eng" where
  "deliverEscalationToWaiters env rec code payload =
     bindE (ListActiveElementInstances env 0) (\<lambda>active. with_memo (forE active (\<lambda>el.
       withElement env el (\<lambda>_ _. True) (\<lambda>wfd st. escalateAt env rec code payload wfd st el))))"

definition publishEscalation :: "env \<Rightarrow> calls \<Rightarrow> string \<Rightarrow> vars \<Rightarrow> unit eng" where
  "publishEscalation env rec code payload =
     thenE (deliverEscalationToWaiters env rec code payload) (startInstancesForEscalationStart env rec code payload)"

definition PublishEscalation :: "env \<Rightarrow> calls \<Rightarrow> string \<Rightarrow> vars \<Rightarrow> unit eng" where
  "PublishEscalation env rec code0 payload = (let code = trim_space code0 in
     if code = [] then throw (Msg ''escalation code is required'')
     else withTx env (publishEscalation env rec code payload))"

end
