(* ===== verification/Fanout.thy ===== *)
theory Fanout
  imports EventDelivery
begin

text \<open>
  The fan-outs of \<open>events.go\<close> and \<open>tier2_events.go\<close>: conditions, signals, messages, timers and due
  dates. A fan-out that runs each item in a transaction of its own collects the errors.
\<close>

definition collectErrors :: "(go_err \<Rightarrow> 'x \<Rightarrow> string) \<Rightarrow> ('x \<Rightarrow> unit eng) \<Rightarrow> 'x list \<Rightarrow> string list eng" where
  "collectErrors label f xs = foldE (\<lambda>errs x. bindE (tryE (f x)) (\<lambda>r.
     ret (case r of Inl e \<Rightarrow> errs @ [label e x] | Inr _ \<Rightarrow> errs))) [] xs"

section \<open>Conditions\<close>

definition condition_of :: "step \<Rightarrow> string" where
  "condition_of st = str_or_empty (st_properties st) ''condition''"

text \<open>A waiting conditional catch or boundary event whose condition holds now.\<close>

definition checkConditionalCatch :: "env \<Rightarrow> calls \<Rightarrow> element_instance \<Rightarrow> unit eng" where
  "checkConditionalCatch env rec el =
     withElement env el (\<lambda>_ st. event_kind st = ''conditional'' \<and> trim_space (condition_of st) \<noteq> [])
       (\<lambda>wfd st. bindE getI (\<lambda>w.
         if \<not> evaluateCondition env (condition_of st) (wi_context w) then ret ()
         else (case List.find (waiting_element (ei_key el)) (wi_executions w) of
             None \<Rightarrow> ret ()
           | Some ex \<Rightarrow>
               if ex_id ex = [] then ret ()
               else if st_type st = StepTypeBoundaryEvent
               then triggerBoundaryPath env rec st (str_or_empty (st_properties st) ''attached_to'') wfd
               else rec (CProceed (ex_id ex) wfd))))"

definition checkConditionalStart :: "env \<Rightarrow> calls \<Rightarrow> element_instance \<Rightarrow> unit eng" where
  "checkConditionalStart env rec el =
     withElement env el (\<lambda>_ st. event_kind st = ''conditional'')
       (\<lambda>wfd st. bindE getI (\<lambda>w.
         if \<not> evaluateCondition env (condition_of st) (wi_context w) then ret ()
         else proceedWaiting rec (ei_key el) wfd))"

definition CheckConditionals :: "env \<Rightarrow> calls \<Rightarrow> unit eng" where
  "CheckConditionals env rec = withTx env
     (bindE (ListActiveElementInstancesByTypes env 0
        [step_type_string StepTypeIntermediateCatchEvent, step_type_string StepTypeBoundaryEvent]) (\<lambda>active.
      with_memo
        (thenE (forE active (checkConditionalCatch env rec))
        (bindE (ListActiveElementInstancesByTypes env 0 [step_type_string StepTypeStart]) (\<lambda>starts.
         forE starts (checkConditionalStart env rec))))))"

section \<open>Signals\<close>

definition signalActivityElementTypes :: "string list" where
  "signalActivityElementTypes = map step_type_string
     [StepTypeUserTask, StepTypeServiceTask, StepTypeScriptTask, StepTypeReceiveTask, StepTypeManualTask,
      StepTypeBusinessRuleTask, StepTypeSendTask, StepTypeCallActivity, StepTypeSubProcess]"

definition signalCandidateElementTypes :: "string list" where
  "signalCandidateElementTypes = [step_type_string StepTypeIntermediateCatchEvent,
     step_type_string StepTypeBoundaryEvent, []] @ signalActivityElementTypes"

definition isSignalActivityElementType :: "string \<Rightarrow> bool" where
  "isSignalActivityElementType t \<longleftrightarrow> t \<in> set signalActivityElementTypes"

definition isSignalCandidateElementType :: "string \<Rightarrow> bool" where
  "isSignalCandidateElementType t \<longleftrightarrow>
     t = [] \<or> t = step_type_string StepTypeIntermediateCatchEvent \<or> t = step_type_string StepTypeBoundaryEvent \<or>
     isSignalActivityElementType t"

definition signalStepMatches :: "step \<Rightarrow> string \<Rightarrow> bool" where
  "signalStepMatches st name =
     (let ref = str_or_empty (st_properties st) ''signal_ref'' in
      ref \<noteq> [] \<and> ref = name \<and> (event_kind st = [] \<or> event_kind st = ''signal''))"

definition matchSignalStepForProcess :: "env \<Rightarrow> int \<Rightarrow> string \<Rightarrow> string \<Rightarrow> (workflow_def \<times> step) option eng" where
  "matchSignalStepForProcess env defKey elementID name =
     bindE (tryE (getWorkflowDefinitionFromMemo env defKey)) (\<lambda>d. ret
     (case d of
        Inl _ \<Rightarrow> None
      | Inr wfd \<Rightarrow> (case findStepDeep (wf_steps wfd) elementID of
            None \<Rightarrow> None
          | Some st \<Rightarrow>
              if st_type st \<noteq> StepTypeIntermediateCatchEvent \<and> st_type st \<noteq> StepTypeBoundaryEvent then None
              else if signalStepMatches st name then Some (wfd, st) else None)))"

definition matchSignalStep :: "env \<Rightarrow> element_instance \<Rightarrow> string \<Rightarrow> (workflow_def \<times> step) option eng" where
  "matchSignalStep env el name = (if ei_definition_key el = 0 then ret None
     else matchSignalStepForProcess env (ei_definition_key el) (ei_element_id el) name)"

definition matchSignalBoundaryOnActivity ::
  "env \<Rightarrow> element_instance \<Rightarrow> string \<Rightarrow> (workflow_def \<times> step \<times> step) option eng" where
  "matchSignalBoundaryOnActivity env el name =
     (if ei_definition_key el = 0 then ret None
      else if ei_type el \<noteq> [] \<and> \<not> isSignalActivityElementType (ei_type el) then ret None
      else bindE (tryE (getWorkflowDefinitionFromMemo env (ei_definition_key el))) (\<lambda>d. ret
        (case d of
           Inl _ \<Rightarrow> None
         | Inr wfd \<Rightarrow> (case findStepDeep (wf_steps wfd) (ei_element_id el) of
               None \<Rightarrow> None
             | Some activity \<Rightarrow>
                 map_option (\<lambda>b. (wfd, activity, b))
                   (List.find (\<lambda>b. st_type b = StepTypeBoundaryEvent \<and> signalStepMatches b name)
                     (List.map_filter (findStepDeep (wf_steps wfd)) (st_boundary_refs activity)))))))"

definition signalElementCanMatch :: "env \<Rightarrow> element_instance \<Rightarrow> string \<Rightarrow> bool eng" where
  "signalElementCanMatch env el name =
     (if \<not> isSignalCandidateElementType (ei_type el) then ret False
      else if ei_definition_key el = 0 then ret True
      else bindE (matchSignalStep env el name) (\<lambda>m.
        if m \<noteq> None then ret True
        else bindE (matchSignalBoundaryOnActivity env el name) (\<lambda>b. ret (b \<noteq> None))))"

text \<open>The signal reaches the token of the element: it moves on, the siblings of an event gateway go.\<close>

definition signalCatch :: "env \<Rightarrow> calls \<Rightarrow> element_instance \<Rightarrow> vars \<Rightarrow> workflow_def \<Rightarrow> step \<Rightarrow> unit eng" where
  "signalCatch env rec el payload wfd st =
     thenE (mergeContext payload) (bindE getI (\<lambda>w.
     (case List.find (\<lambda>ex. ex_element_key ex = ei_key el \<and> ex_status ex = ''ACTIVE'') (wi_executions w) of
        None \<Rightarrow> ret ()
      | Some ex \<Rightarrow>
          if ex_id ex = [] then ret ()
          else thenE (rec (CProceed (ex_id ex) wfd))
            (bindE getI (\<lambda>w'.
             thenE (case find_exec (ex_id ex) w' of
                 None \<Rightarrow> ret ()
               | Some ex' \<Rightarrow> ignoreE (cancelEventGatewaySiblings env st (ex_parent_id ex') wfd))
             (thenE (markCompleted env (piKey w'))
             (persistVariables env (wi_id w') (piKey w') payload)))))))"

definition signalBoundary :: "env \<Rightarrow> calls \<Rightarrow> vars \<Rightarrow> workflow_def \<Rightarrow> step \<Rightarrow> step \<Rightarrow> unit eng" where
  "signalBoundary env rec payload wfd activity b =
     thenE (mergeContext payload)
     (thenE (triggerBoundaryPath env rec b (st_id activity) wfd)
     (bindE getI (\<lambda>w. thenE (markCompleted env (piKey w))
       (persistVariables env (wi_id w) (piKey w) payload))))"

definition loadOrSkip :: "env \<Rightarrow> int \<Rightarrow> (workflow_instance \<Rightarrow> unit eng) \<Rightarrow> unit eng" where
  "loadOrSkip env k body = bindE (tryE (GetInstance env (show_int k))) (\<lambda>i.
     (case i of Inl _ \<Rightarrow> ret () | Inr w \<Rightarrow> body w))"

definition processSignalForElement :: "env \<Rightarrow> calls \<Rightarrow> element_instance \<Rightarrow> string \<Rightarrow> vars \<Rightarrow> unit eng" where
  "processSignalForElement env rec el name payload =
     (if \<not> isSignalCandidateElementType (ei_type el) then ret ()
      else bindE (matchSignalStep env el name) (\<lambda>m.
        (case m of
           Some (wfd, st) \<Rightarrow> loadOrSkip env (ei_instance_key el) (\<lambda>w.
             with_instance w (signalCatch env rec el payload wfd st))
         | None \<Rightarrow> bindE (matchSignalBoundaryOnActivity env el name) (\<lambda>bm.
             (case bm of
                Some (wfd, activity, b) \<Rightarrow> loadOrSkip env (ei_instance_key el) (\<lambda>w.
                  with_instance w (signalBoundary env rec payload wfd activity b))
              | None \<Rightarrow>
                  if ei_definition_key el \<noteq> 0 then ret ()
                  else loadOrSkip env (ei_instance_key el) (\<lambda>w.
                    (case parse_int (wi_workflow_id w) of
                       Inl _ \<Rightarrow> ret ()
                     | Inr k \<Rightarrow> bindE (matchSignalStepForProcess env k (ei_element_id el) name) (\<lambda>m'.
                         (case m' of
                            None \<Rightarrow> ret ()
                          | Some (wfd, st) \<Rightarrow> with_instance w (signalCatch env rec el payload wfd st))))))))))"

definition PublishSignal :: "env \<Rightarrow> calls \<Rightarrow> string \<Rightarrow> vars \<Rightarrow> unit eng" where
  "PublishSignal env rec name payload =
     bindE (ListActiveElementInstancesByTypes env 0 signalCandidateElementTypes) (\<lambda>active.
     bindE (with_memo (collectErrors
         (\<lambda>e el. ''failed signal for element '' @ show_int (ei_key el) @ '': '' @ err_string e)
         (\<lambda>el. bindE (signalElementCanMatch env el name) (\<lambda>c.
            if c then withTx env (processSignalForElement env rec el name payload) else ret ())) active)) (\<lambda>errs.
     if errs \<noteq> [] then throw (Msg (''errors during signal publish: '' @ concat errs))
     else thenE (startInstancesForSignalStart env rec name payload)
       (triggerEventSubProcessesOnActiveInstances env rec ''signal'' name payload)))"

text \<open>\<open>publishSignal\<close>, for throwing steps, in the transaction of the caller.\<close>

definition publishSignal :: "env \<Rightarrow> calls \<Rightarrow> string \<Rightarrow> vars \<Rightarrow> unit eng" where
  "publishSignal env rec name payload =
     bindE (ListActiveElementInstancesByTypes env 0 signalCandidateElementTypes) (\<lambda>active.
     thenE (with_memo (forE active (\<lambda>el. processSignalForElement env rec el name payload)))
     (thenE (startInstancesForSignalStart env rec name payload)
     (triggerEventSubProcessesOnActiveInstances env rec ''signal'' name payload)))"

section \<open>Messages\<close>

definition correlate :: "env \<Rightarrow> subscription \<Rightarrow> vars \<Rightarrow> unit eng" where
  "correlate env sub payload =
     thenE (ignoreE (UpdateMessageSubscription env (sub\<lparr>su_state := ''CORRELATED''\<rparr>)))
     (thenE (markCompleted env (su_instance_key sub))
     (bindE getI (\<lambda>w. persistVariables env (wi_id w) (su_instance_key sub) payload)))"

definition messageCatch :: "env \<Rightarrow> calls \<Rightarrow> subscription \<Rightarrow> vars \<Rightarrow> workflow_def \<Rightarrow> step \<Rightarrow> unit eng" where
  "messageCatch env rec sub payload wfd st = bindE getI (\<lambda>w.
     (case List.find (\<lambda>ex. ex_element_key ex = su_element_key sub) (wi_executions w) of
        None \<Rightarrow> ret ()
      | Some ex \<Rightarrow>
          if ex_status ex \<noteq> ''ACTIVE'' then ret ()
          else thenE (rec (CProceed (ex_id ex) wfd))
            (thenE (ignoreE (cancelEventGatewaySiblings env st (ex_parent_id ex) wfd))
            (correlate env sub payload))))"

definition messageBoundary :: "env \<Rightarrow> calls \<Rightarrow> subscription \<Rightarrow> vars \<Rightarrow> workflow_def \<Rightarrow> step \<Rightarrow> unit eng" where
  "messageBoundary env rec sub payload wfd st = bindE getI (\<lambda>w.
     (case index_of (\<lambda>ex. ex_element_key ex = su_element_key sub) (wi_executions w) of
        None \<Rightarrow> ret ()
      | Some k \<Rightarrow> bindE (execAt k) (\<lambda>ex.
          if ex_status ex \<noteq> ''ACTIVE'' then ret ()
          else thenE (if cancel_activity st then terminateAt env k else ret ())
            (thenE (forE (st_outgoing st) (spawnBoundary env rec True (top_type wfd) (ex_parent_id ex) wfd))
            (correlate env sub payload)))))"

definition processMessageSubscription :: "env \<Rightarrow> calls \<Rightarrow> subscription \<Rightarrow> vars \<Rightarrow> unit eng" where
  "processMessageSubscription env rec sub payload =
     loadOrSkip env (su_instance_key sub) (\<lambda>w.
     bindE (tryE (getWorkflowDefinition env (parse_key (wi_workflow_id w)))) (\<lambda>d.
     (case d of
        Inl _ \<Rightarrow> ret ()
      | Inr wfd \<Rightarrow> (case top_step (wf_steps wfd) (su_element_id sub) of
            None \<Rightarrow> ret ()
          | Some st \<Rightarrow> with_instance w (thenE (mergeContext payload)
              (if st_type st = StepTypeIntermediateCatchEvent \<or> st_type st = StepTypeReceiveTask
               then messageCatch env rec sub payload wfd st
               else if st_type st = StepTypeBoundaryEvent
               then messageBoundary env rec sub payload wfd st
               else ret ()))))))"

definition PublishMessage :: "env \<Rightarrow> calls \<Rightarrow> string \<Rightarrow> string \<Rightarrow> vars \<Rightarrow> unit eng" where
  "PublishMessage env rec name ck payload =
     bindE (ListMessageSubscriptions env name ck) (\<lambda>subs.
     bindE (collectErrors
         (\<lambda>e sub. ''failed message correlation for sub '' @ show_int (su_key sub) @ '': '' @ err_string e)
         (\<lambda>sub. withTx env (processMessageSubscription env rec sub payload)) subs) (\<lambda>errs.
     if errs \<noteq> [] then throw (Msg (''errors during message publish: '' @ concat errs))
     else thenE (startInstancesForMessageStart env rec name ck payload)
       (triggerEventSubProcessesOnActiveInstances env rec ''message'' name payload)))"

definition publishMessage :: "env \<Rightarrow> calls \<Rightarrow> string \<Rightarrow> string \<Rightarrow> vars \<Rightarrow> unit eng" where
  "publishMessage env rec name ck payload =
     bindE (ListMessageSubscriptions env name ck) (\<lambda>subs.
     forE subs (\<lambda>sub. processMessageSubscription env rec sub payload))"

section \<open>Timers\<close>

definition triggered :: "timer \<Rightarrow> timer" where
  "triggered t = t\<lparr>tm_state := ''TRIGGERED''\<rparr>"

definition timerCatch :: "env \<Rightarrow> calls \<Rightarrow> timer \<Rightarrow> workflow_def \<Rightarrow> step \<Rightarrow> unit eng" where
  "timerCatch env rec t wfd st = bindE getI (\<lambda>w.
     (case List.find (\<lambda>ex. ex_element_key ex = tm_element_key t) (wi_executions w) of
        None \<Rightarrow> ret ()
      | Some ex \<Rightarrow>
          if ex_status ex \<noteq> ''ACTIVE'' then ret ()
          else bindE (tryE (rec (CProceed (ex_id ex) wfd))) (\<lambda>r.
            (case r of
               Inl _ \<Rightarrow> ret ()
             | Inr _ \<Rightarrow>
                 thenE (ignoreE (cancelEventGatewaySiblings env st (ex_parent_id ex) wfd))
                 (thenE (ignoreE (UpdateTimer env (triggered t)))
                 (markCompleted env (tm_instance_key t)))))))"

definition timerBoundary :: "env \<Rightarrow> calls \<Rightarrow> timer \<Rightarrow> workflow_def \<Rightarrow> step \<Rightarrow> unit eng" where
  "timerBoundary env rec t wfd st = bindE getI (\<lambda>w.
     (case index_of (\<lambda>ex. ex_element_key ex = tm_element_key t) (wi_executions w) of
        None \<Rightarrow> ret ()
      | Some k \<Rightarrow> bindE (execAt k) (\<lambda>ex.
          if ex_status ex \<noteq> ''ACTIVE'' then ret ()
          else thenE (if cancel_activity st then terminateAt env k else ret ())
            (thenE (forE (st_outgoing st) (\<lambda>f.
               ignoreE (spawnBoundary env rec True (top_type wfd) (ex_parent_id ex) wfd f)))
            (thenE (if cancel_activity st
               then thenE (ignoreE (UpdateTimer env (triggered t)))
                 (cancelCreatedTimersForElementInstance env (tm_element_key t))
               else finalizeTimerAfterFire env t (st_properties st))
            (markCompleted env (tm_instance_key t)))))))"

definition timerEventSubProcess :: "env \<Rightarrow> calls \<Rightarrow> timer \<Rightarrow> workflow_def \<Rightarrow> step \<Rightarrow> unit eng" where
  "timerEventSubProcess env rec t wfd st =
     thenE (tryStartEventSubProcesses env rec wfd ''timer'' [] [])
     (thenE (finalizeTimerAfterFire env t (st_properties st)) (markCompleted env (tm_instance_key t)))"

text \<open>A definition-level timer start; its element key is the key of the definition.\<close>

definition processTimerStartDefinition :: "env \<Rightarrow> calls \<Rightarrow> timer \<Rightarrow> unit eng" where
  "processTimerStartDefinition env rec t =
     (let give_up = ignoreE (UpdateTimer env (triggered t)) in
      if tm_element_key t = 0 then give_up
      else bindE (tryE (getWorkflowDefinition env (tm_element_key t))) (\<lambda>d.
        (case d of
           Inl _ \<Rightarrow> give_up
         | Inr wfd \<Rightarrow> (case firstStartStep (wf_steps wfd) of
               None \<Rightarrow> give_up
             | Some start \<Rightarrow>
                 if st_id start \<noteq> tm_element_id t \<or> event_kind start \<noteq> ''timer'' then give_up
                 else thenE (createAndStartInstance env rec (show_int (tm_element_key t)) [] [] [] None)
                   (finalizeTimerAfterFire env t (st_properties start))))))"

definition processTimer :: "env \<Rightarrow> calls \<Rightarrow> timer \<Rightarrow> unit eng" where
  "processTimer env rec t =
     (if tm_instance_key t = 0 then processTimerStartDefinition env rec t
      else loadOrSkip env (tm_instance_key t) (\<lambda>w.
        bindE (tryE (getWorkflowDefinition env (parse_key (wi_workflow_id w)))) (\<lambda>d.
        (case d of
           Inl _ \<Rightarrow> ret ()
         | Inr wfd \<Rightarrow> (case findStep (wf_steps wfd) (tm_element_id t) of
               None \<Rightarrow> ret ()
             | Some st \<Rightarrow> with_instance w
                 (if st_type st = StepTypeStart \<and> event_kind st = ''timer''
                  then timerEventSubProcess env rec t wfd st
                  else if st_type st = StepTypeIntermediateTimerCatchEvent then timerCatch env rec t wfd st
                  else if st_type st = StepTypeBoundaryEvent then timerBoundary env rec t wfd st
                  else ret ()))))))"

definition ensureTimerStartSchedules :: "env \<Rightarrow> unit eng" where
  "ensureTimerStartSchedules env =
     bindE (listDeployedWorkflowDefinitions env) (\<lambda>defs.
     if defs = [] then ret ()
     else bindE (timeNow env) (\<lambda>now. forE defs (\<lambda>wfd.
       (case firstStartStep (wf_steps wfd) of
          None \<Rightarrow> ret ()
        | Some start \<Rightarrow>
            if event_kind start \<noteq> ''timer'' then ret ()
            else createTimerOnce env
              (generateDeterministicKey (''timer_start_'' @ show_int (wf_id wfd) @ ''_'' @ st_id start))
              (wf_id wfd) 0 start now))))"

definition CheckTimers :: "env \<Rightarrow> calls \<Rightarrow> unit eng" where
  "CheckTimers env rec =
     thenE (ensureTimerStartSchedules env)
     (bindE (timeNow env) (\<lambda>now.
      bindE (ListDueTimers env now) (\<lambda>due.
      bindE (collectErrors
          (\<lambda>e t. ''failed to process timer '' @ show_int (tm_key t) @ '': '' @ err_string e)
          (\<lambda>t. withTx env (processTimer env rec t)) due) (\<lambda>errs.
      if errs \<noteq> [] then throw (Msg (''encountered errors processing timers: '' @ concat errs))
      else CheckConditionals env rec))))"

section \<open>Due dates\<close>

definition slaBreach :: "env \<Rightarrow> calls \<Rightarrow> int \<Rightarrow> job \<Rightarrow> unit eng" where
  "slaBreach env rec now j =
     thenE (UpdateJob env (j\<lparr>jb_breached_at := Some now, jb_updated_at := now\<rparr>))
     (bindE (GenerateUUIDv7 env) (\<lambda>i.
      let k = generateDeterministicKey (''sla_breach_'' @ show_int (jb_key j)) in
      thenE (CreateIncident env \<lparr>in_key = k, in_id = i, in_instance_key = jb_instance_key j,
         in_element_key = jb_element_key j, in_job_key = jb_key j, in_error_type = ''SLA_DUE_DATE_BREACHED'',
         in_error_message = ''user-task due date breached for element '' @ jb_element_id j,
         in_state = ''CREATED'', in_created_at = now, in_resolved_at = zero_time\<rparr>)
      (publishEscalation env rec ''user-task.due-date.breached''
         [(''processInstanceKey'', VInt64 (jb_instance_key j)), (''jobKey'', VInt64 (jb_key j)),
          (''elementId'', VStr (jb_element_id j)), (''incidentKey'', VInt64 k)])))"

definition CheckSLAs :: "env \<Rightarrow> calls \<Rightarrow> unit eng" where
  "CheckSLAs env rec =
     bindE (timeNow env) (\<lambda>now.
     bindE (ListOverdueJobs env now) (\<lambda>jobs.
     bindE (collectErrors
         (\<lambda>e j. ''failed to process sla for job '' @ show_int (jb_key j) @ '': '' @ err_string e)
         (\<lambda>j. withTx env (slaBreach env rec now j)) jobs) (\<lambda>errs.
     if errs \<noteq> [] then throw (Msg (''errors processing SLAs: '' @ concat errs)) else ret ())))"

end
