(* ===== verification/Executors.thy ===== *)
theory Executors
  imports Fanout
begin

text \<open>
  What a token does at a step: the executors of \<open>step_executors.go\<close>, compensation
  (\<open>compensation.go\<close>), the cancellation of a transaction (\<open>tier2_events.go\<close>), error boundary events
  (\<open>events.go\<close>), and \<open>autoAdvance\<close> of \<open>navigation.go\<close>, which runs the executor and turns an error
  nobody handles into an incident.
\<close>

section \<open>Jobs of a step\<close>

definition newJob :: "int \<Rightarrow> string \<Rightarrow> string \<Rightarrow> workflow_instance \<Rightarrow> execution \<Rightarrow> workflow_def \<Rightarrow> step \<Rightarrow>
    int \<Rightarrow> int \<Rightarrow> int \<Rightarrow> job" where
  "newJob key i ty w ex wfd st retries created updated =
     \<lparr>jb_key = key, jb_id = i, jb_type = ty, jb_instance_key = piKey w, jb_element_key = ex_element_key ex,
      jb_definition_key = wf_id wfd, jb_element_id = st_id st, jb_worker = [], jb_retries = retries,
      jb_state = ''CREATED'', jb_assignee = [], jb_candidate_users = [], jb_candidate_groups = [],
      jb_lock_until = None, jb_due_date = zero_time, jb_breached_at = None, jb_created_at = created,
      jb_updated_at = updated\<rparr>"

text \<open>\<open>job.State = ...; job.UpdatedAt = time.Now(); repo.UpdateJob(job)\<close>, the error dropped.\<close>

definition stampJob :: "env \<Rightarrow> job \<Rightarrow> job eng" where
  "stampJob env j = bindE (timeNow env) (\<lambda>t.
     let j' = j\<lparr>jb_updated_at := t\<rparr> in thenE (ignoreE (UpdateJob env j')) (ret j'))"

definition serviceJob :: "env \<Rightarrow> workflow_instance \<Rightarrow> execution \<Rightarrow> step \<Rightarrow> workflow_def \<Rightarrow> string \<Rightarrow> job eng" where
  "serviceJob env w ex st wfd handlerID =
     bindE (generateKey env (ex_id ex @ ''_'' @ show_int (ex_element_key ex) @ ''_job'')) (\<lambda>key.
     bindE (tryE (GetJob env key)) (\<lambda>r.
     (case r of
        Inr existing \<Rightarrow> ret existing
      | Inl _ \<Rightarrow>
          bindE (GenerateUUIDv7 env) (\<lambda>i.
          bindE (timeNow env) (\<lambda>created.
          bindE (timeNow env) (\<lambda>updated.
          let j = newJob key i handlerID w ex wfd st 3 created updated in
          thenE (ignoreE (CreateJob env j)) (ret j)))))))"

definition knownConnectorInputKeys :: "string list" where
  "knownConnectorInputKeys = [''url'', ''method'', ''headers'', ''body'', ''timeoutMs'', ''failOnNon2xx'',
     ''webhookUrl'', ''payload'', ''webhookToken'', ''kafkaTopic'', ''kafkaKey'', ''kafkaValue'',
     ''emailTo'', ''emailSubject'', ''emailBody'', ''s3Bucket'', ''s3Key'', ''s3Body'', ''contentType'']"

definition connector_value :: "val \<Rightarrow> bool" where
  "connector_value v = (case v of VNil \<Rightarrow> False | VStr s \<Rightarrow> trim_space s \<noteq> [] | _ \<Rightarrow> True)"

definition connectorInputsFromProperties :: "vars \<Rightarrow> vars" where
  "connectorInputsFromProperties props = List.map_filter (\<lambda>k. case map_of props k of
       None \<Rightarrow> None | Some v \<Rightarrow> if connector_value v then Some (k, v) else None) knownConnectorInputKeys"

text \<open>Inputs of the modeler are defaults: a variable that is there wins.\<close>

definition persistConnectorInputs :: "env \<Rightarrow> step \<Rightarrow> unit eng" where
  "persistConnectorInputs env st = bindE getI (\<lambda>w.
     let fresh = filter (\<lambda>(k, _). \<not> has_key k (wi_context w)) (connectorInputsFromProperties (st_properties st)) in
     if fresh = [] then ret ()
     else thenE (mergeContext fresh) (persistVariables env (wi_id w) (piKey w) fresh))"

section \<open>Service, send and user tasks\<close>

definition jobIncident :: "env \<Rightarrow> job \<Rightarrow> go_err \<Rightarrow> unit eng" where
  "jobIncident env j err =
     bindE (generateKey env (show_int (jb_key j) @ ''_incident'')) (\<lambda>k.
     bindE (GenerateUUIDv7 env) (\<lambda>i.
     bindE (timeNow env) (\<lambda>t.
     ignoreE (CreateIncident env \<lparr>in_key = k, in_id = i, in_instance_key = jb_instance_key j,
        in_element_key = jb_element_key j, in_job_key = jb_key j, in_error_type = ''JOB_NO_RETRIES'',
        in_error_message = err_string err, in_state = ''CREATED'', in_created_at = t, in_resolved_at = zero_time\<rparr>))))"

text \<open>The handler failed and nothing is attached: the job fails, the token stays.\<close>

definition failServiceJob :: "env \<Rightarrow> job \<Rightarrow> go_err \<Rightarrow> unit eng" where
  "failServiceJob env j err =
     bindE (stampJob env (j\<lparr>jb_state := ''FAILED'', jb_retries := jb_retries j - 1\<rparr>)) (\<lambda>j'.
     if jb_retries j' \<le> 0 then jobIncident env j' err else ret ())"

definition runServiceHandler ::
  "env \<Rightarrow> calls \<Rightarrow> (workflow_instance \<Rightarrow> step \<Rightarrow> go_err option \<times> workflow_instance) \<Rightarrow> job \<Rightarrow> step \<Rightarrow>
   string \<Rightarrow> workflow_def \<Rightarrow> unit eng" where
  "runServiceHandler env rec h j st execID wfd =
     thenE (executeTaskListeners env st ''start'')
     (bindE (stampJob env (j\<lparr>jb_state := ''ACTIVATED'', jb_worker := ''internal-worker''\<rparr>)) (\<lambda>j.
      bindE getI (\<lambda>w.
      bindE (tryE (runHandler h st)) (\<lambda>r.
      (case r of
         Inl err \<Rightarrow> if st_boundary_refs st \<noteq> [] then throw err else failServiceJob env j err
       | Inr _ \<Rightarrow>
           bindE getI (\<lambda>w'.
           thenE (persistVariables env (wi_id w') (piKey w')
              (changedVariables (snapshotVariables (wi_context w)) (wi_context w')))
           (thenE (executeTaskListeners env st ''end'')
           (bindE (stampJob env (j\<lparr>jb_state := ''COMPLETED''\<rparr>)) (\<lambda>_.
            rec (CProceed execID wfd))))))))))"

definition executeServiceTask :: "env \<Rightarrow> calls \<Rightarrow> step \<Rightarrow> string \<Rightarrow> workflow_def \<Rightarrow> unit eng" where
  "executeServiceTask env rec st execID wfd = bindE getI (\<lambda>w.
     (case find_exec execID w of
        None \<Rightarrow> throw (Msg (''execution '' @ execID @ '' not found in ServiceTaskExecutor''))
      | Some ex \<Rightarrow>
          let handlerID = (if st_implementation st = [] then st_id st else st_implementation st) in
          bindE (serviceJob env w ex st wfd handlerID) (\<lambda>j.
          (case env_handlers env handlerID of
             Some h \<Rightarrow> runServiceHandler env rec h j st execID wfd
           | None \<Rightarrow>
               bindE (stampJob env (j\<lparr>jb_state := ''CREATED'', jb_worker := []\<rparr>)) (\<lambda>_.
               persistConnectorInputs env st)))))"

definition executeSendTask :: "env \<Rightarrow> calls \<Rightarrow> step \<Rightarrow> string \<Rightarrow> workflow_def \<Rightarrow> unit eng" where
  "executeSendTask env rec st execID wfd = executeServiceTask env rec st execID wfd"

definition userTaskDueDate :: "env \<Rightarrow> step \<Rightarrow> int eng" where
  "userTaskDueDate env st = (case str_or_empty (st_properties st) ''due_date'' of
       [] \<Rightarrow> ret zero_time
     | c # cs \<Rightarrow> (case parseISO8601Duration (c # cs) of
           Inr d \<Rightarrow> bindE (timeNow env) (\<lambda>t. ret (t + d))
         | Inl _ \<Rightarrow> ret (case parse_rfc3339 (c # cs) of Some t \<Rightarrow> t | None \<Rightarrow> zero_time)))"

definition executeUserTask :: "env \<Rightarrow> step \<Rightarrow> string \<Rightarrow> workflow_def \<Rightarrow> unit eng" where
  "executeUserTask env st execID wfd = bindE getI (\<lambda>w.
     (case find_exec execID w of
        None \<Rightarrow> throw (Msg (''execution '' @ execID @ '' not found in UserTaskExecutor''))
      | Some ex \<Rightarrow>
          bindE (generateKey env (execID @ ''_'' @ show_int (ex_element_key ex) @ ''_job'')) (\<lambda>key.
          bindE (tryE (GetJob env key)) (\<lambda>r.
          (case r of
             Inr _ \<Rightarrow> ret ()
           | Inl _ \<Rightarrow>
               bindE (userTaskDueDate env st) (\<lambda>due.
               bindE (GenerateUUIDv7 env) (\<lambda>i.
               bindE (timeNow env) (\<lambda>created.
               bindE (timeNow env) (\<lambda>updated.
               let p = st_properties st;
                   j = (newJob key i UserTaskJobType w ex wfd st 1 created updated)
                     \<lparr>jb_assignee := str_or_empty p ''assignee'', jb_candidate_users := str_or_empty p ''candidate_users'',
                      jb_candidate_groups := str_or_empty p ''candidate_groups'', jb_due_date := due\<rparr>
               in thenE (mapErr (Wrapf ''failed to create job'') (CreateJob env j))
                 (thenE (ignoreE (Publish env (JobCreated key i (jb_type j) (jb_instance_key j) (jb_element_key j)
                    (jb_definition_key j) (jb_element_id j) created) ''JobCreated''))
                 (thenE (executeTaskListeners env st ''create'')
                 (if jb_assignee j = [] then ret () else executeTaskListeners env st ''assignment''))))))))))))"

section \<open>Scripts and decisions\<close>

definition scriptTimeout :: "step \<Rightarrow> int" where
  "scriptTimeout st = (case str_or_empty (st_properties st) ''timeout'' of
       [] \<Rightarrow> defaultScriptEvaluationTimeout
     | c # cs \<Rightarrow> (case parseISO8601Duration (c # cs) of Inr d \<Rightarrow> d | Inl _ \<Rightarrow> defaultScriptEvaluationTimeout))"

definition scriptFailure :: "env \<Rightarrow> string \<Rightarrow> go_err \<Rightarrow> unit eng" where
  "scriptFailure env execID err = bindE getI (\<lambda>w.
     bindE (generateKey env (execID @ ''_incident_script'')) (\<lambda>k.
     bindE (GenerateUUIDv7 env) (\<lambda>i.
     bindE (timeNow env) (\<lambda>t.
     thenE (ignoreE (CreateIncident env \<lparr>in_key = k, in_id = i, in_instance_key = piKey w,
        in_element_key = (case find_exec execID w of Some ex \<Rightarrow> ex_element_key ex | None \<Rightarrow> 0), in_job_key = 0,
        in_error_type = (case as_eval_error err of
            Some (_, code) \<Rightarrow> if code = ''timeout'' then ''SCRIPT_TIMEOUT'' else ''SCRIPT_ERROR''
          | None \<Rightarrow> ''SCRIPT_ERROR''),
        in_error_message = err_string err, in_state = ''CREATED'', in_created_at = t, in_resolved_at = zero_time\<rparr>))
     (throw (Wrapf ''script execution failed'' err))))))"

definition executeScriptTask :: "env \<Rightarrow> calls \<Rightarrow> step \<Rightarrow> string \<Rightarrow> workflow_def \<Rightarrow> unit eng" where
  "executeScriptTask env rec st execID wfd =
     (let p = st_properties st; script = str_or_empty p ''script''; format = str_or_empty p ''script_format'';
          resultVar = str_or_empty p ''result_variable'' in
      if script = [] then rec (CProceed execID wfd)
      else if format \<noteq> [] \<and> format \<noteq> ''javascript'' \<and> format \<noteq> ''js''
      then throw (Msg (''unsupported script format: '' @ format))
      else bindE getI (\<lambda>w.
        (case evaluateJavaScriptExpression env script (wi_context w) (scriptTimeout st) ''script'' of
           Inl err \<Rightarrow> scriptFailure env execID err
         | Inr (v, _, globals) \<Rightarrow>
             thenE (mergeContext (filter (\<lambda>(k, x). k \<noteq> ''console'' \<and> x \<noteq> VNil) globals))
             (thenE (if resultVar = [] then ret () else setContext resultVar v)
             (bindE getI (\<lambda>w'.
              thenE (persistVariables env (wi_id w') (piKey w')
                 (changedVariables (snapshotVariables (wi_context w)) (wi_context w')))
              (rec (CProceed execID wfd))))))))"

definition executeBusinessRuleTask :: "env \<Rightarrow> calls \<Rightarrow> step \<Rightarrow> string \<Rightarrow> workflow_def \<Rightarrow> unit eng" where
  "executeBusinessRuleTask env rec st execID wfd =
     (let p = st_properties st; ref = str_or_empty p ''decision_ref'';
          rv = str_or_empty p ''result_variable''; resultVar = (if trim_space rv = [] then ''decisionResult'' else rv) in
      if trim_space ref = [] then rec (CProceed execID wfd)
      else bindE getI (\<lambda>w.
        bindE (mapErr (Wrapf (''business rule task '' @ st_id st)) (EvaluateDecision env ref (wi_context w))) (\<lambda>outputs.
        let changed = put_all outputs [(resultVar, VMap outputs)] in
        thenE (mergeContext ((resultVar, VMap outputs) # outputs))
        (thenE (persistVariables env (wi_id w) (piKey w) changed)
        (rec (CProceed execID wfd))))))"

section \<open>Sub-processes and call activities\<close>

definition executeSubProcess :: "env \<Rightarrow> calls \<Rightarrow> step \<Rightarrow> string \<Rightarrow> workflow_def \<Rightarrow> unit eng" where
  "executeSubProcess env rec st execID wfd =
     (case firstStartStep (st_sub_steps st) of
        None \<Rightarrow> rec (CProceed execID wfd)
      | Some start \<Rightarrow>
          bindE (newExecution env (st_id start) execID) (\<lambda>child.
          bindE getI (\<lambda>w.
          thenE (activateElement env False (piKey w) wfd child (step_type_string (st_type start))
             (getFlowScopeKey w execID))
          (thenE (appendExec child) (rec (CAdvance (ex_id child) wfd))))))"

definition calledElementVersion :: "vars \<Rightarrow> int option" where
  "calledElementVersion props = (case map_of props ''called_element_version'' of
       Some (VInt i) \<Rightarrow> if i > 0 then Some i else None
     | Some (VInt32 i) \<Rightarrow> if i > 0 then Some i else None
     | Some (VInt64 i) \<Rightarrow> if i > 0 then Some i else None
     | Some (VFloat q) \<Rightarrow> if q > 0 then Some (int_of_f64 q) else None
     | Some (VStr s) \<Rightarrow> (case parse_int (trim_space s) of Inr i \<Rightarrow> if i > 0 then Some i else None | Inl _ \<Rightarrow> None)
     | _ \<Rightarrow> None)"

definition executeCallActivity :: "env \<Rightarrow> calls \<Rightarrow> step \<Rightarrow> string \<Rightarrow> workflow_def \<Rightarrow> unit eng" where
  "executeCallActivity env rec st execID wfd = bindE getI (\<lambda>w.
     (case find_exec execID w of
        None \<Rightarrow> throw (Msg (''execution '' @ execID @ '' not found in CallActivityExecutor''))
      | Some ex \<Rightarrow>
          let called = str_or_empty (st_properties st) ''called_element'' in
          if called = [] then throw (Msg (''call activity '' @ st_id st @ '' missing called_element''))
          else bindE (mapErr (\<lambda>e. Msg (''workflow definition not found for key '' @ called @ '': '' @ err_string e))
               (case calledElementVersion (st_properties st) of
                  Some v \<Rightarrow> getWorkflowDefinitionByBpmnProcessIDAndVersion env called v
                | None \<Rightarrow> getWorkflowDefinitionByBpmnProcessID env called)) (\<lambda>def.
            bindE (createAndStartInstance env rec (show_int (wf_id def)) (wi_context w) (wi_id w)
               (show_int (ex_element_key ex)) None) (\<lambda>child.
            if wi_status child = StatusCompleted
            then bindE (mapErr (\<lambda>e. Msg (''failed to reload parent instance after child completion: '' @ err_string e))
                 (GetInstance env (wi_id w))) (\<lambda>w'. modI (\<lambda>_. w'))
            else ret ()))))"

end
