(* ===== verification/Steps.thy ===== *)
theory Steps
  imports Executors
begin

text \<open>
  The executors of events and gateways (\<open>step_executors.go\<close>), compensation (\<open>compensation.go\<close>), the
  cancellation of a transaction (\<open>tier2_events.go\<close>), error boundary events (\<open>events.go\<close>), and
  \<open>autoAdvance\<close> of \<open>navigation.go\<close>, which runs the executor of a step and turns an error nobody
  handles into an incident.
\<close>

section \<open>Compensation and cancellation\<close>

definition compensation_scope :: "workflow_instance \<Rightarrow> string \<Rightarrow> int" where
  "compensation_scope w scopeID = (if scopeID = [] then piKey w
     else (case find_exec scopeID w of Some ex \<Rightarrow> ex_element_key ex | None \<Rightarrow> 0))"

text \<open>The completed activities of a scope that have a definition, the one started last first.\<close>

definition completed_activities ::
  "workflow_instance \<Rightarrow> string \<Rightarrow> string \<Rightarrow> workflow_def \<Rightarrow> (execution \<times> step) list" where
  "completed_activities w scopeID activityRef wfd =
     sort_key (\<lambda>p. - ex_start_time (fst p))
       (List.map_filter (\<lambda>ex.
          if ex_status ex = ''COMPLETED'' \<and> ex_parent_id ex = scopeID \<and>
             (activityRef = [] \<or> ex_step_id ex = activityRef)
          then map_option (Pair ex) (findStep (wf_steps wfd) (ex_step_id ex)) else None) (wi_executions w))"

definition compensation_handlers :: "workflow_def \<Rightarrow> step \<Rightarrow> string list" where
  "compensation_handlers wfd st = concat (map (\<lambda>b. map tr_target (st_outgoing b))
     (filter (\<lambda>b. st_type b = StepTypeBoundaryEvent \<and> event_kind b = ''compensate'')
       (List.map_filter (findStep (wf_steps wfd)) (st_boundary_refs st))))"

definition step_type_of :: "workflow_def \<Rightarrow> string \<Rightarrow> string" where
  "step_type_of wfd i = (case findStep (wf_steps wfd) i of Some s \<Rightarrow> step_type_string (st_type s) | None \<Rightarrow> ''TASK'')"

definition runCompensationHandler :: "env \<Rightarrow> calls \<Rightarrow> string \<Rightarrow> int \<Rightarrow> workflow_def \<Rightarrow> string \<Rightarrow> unit eng" where
  "runCompensationHandler env rec scopeID scopeKey wfd handlerID =
     bindE (newExecution env handlerID scopeID) (\<lambda>ex.
     bindE getI (\<lambda>w.
     thenE (activateElement env False (piKey w) wfd ex (step_type_of wfd handlerID) scopeKey)
     (thenE (appendExec ex) (rec (CAdvance (ex_id ex) wfd)))))"

definition TriggerCompensation :: "env \<Rightarrow> calls \<Rightarrow> string \<Rightarrow> string \<Rightarrow> workflow_def \<Rightarrow> unit eng" where
  "TriggerCompensation env rec scopeID activityRef wfd = bindE getI (\<lambda>w.
     forE (completed_activities w scopeID activityRef wfd) (\<lambda>(_, st).
       forE (compensation_handlers wfd st)
         (runCompensationHandler env rec scopeID (compensation_scope w scopeID) wfd)))"

definition cancel_inside :: "string \<Rightarrow> string \<Rightarrow> execution \<Rightarrow> execution" where
  "cancel_inside transactionExecID txStepID ex =
     (if (ex_parent_id ex = transactionExecID \<or> ex_parent_id ex = txStepID) \<and>
         (ex_status ex = ''ACTIVE'' \<or> ex_status ex = [])
      then ex\<lparr>ex_status := ''CANCELLED''\<rparr> else ex)"

definition cancelTransactionScope :: "env \<Rightarrow> calls \<Rightarrow> string \<Rightarrow> workflow_def \<Rightarrow> unit eng" where
  "cancelTransactionScope env rec transactionExecID wfd = bindE getI (\<lambda>w.
     bindE (case exec_index transactionExecID w of
          None \<Rightarrow> ret []
        | Some k \<Rightarrow> thenE (setStatusAt k ''TERMINATED'') (bindE (execAt k) (\<lambda>ex. ret (ex_step_id ex)))) (\<lambda>txStepID.
     (case findStepDeep (wf_steps wfd) txStepID of
        None \<Rightarrow> throw (Msg (''transaction step '' @ txStepID @ '' not found''))
      | Some txStep \<Rightarrow>
          thenE (modI (\<lambda>w. w\<lparr>wi_executions :=
             map (cancel_inside transactionExecID txStepID) (wi_executions w)\<rparr>))
          (thenE (forE (filter (\<lambda>b. event_kind b = ''cancel'')
               (List.map_filter (findStepDeep (wf_steps wfd)) (st_boundary_refs txStep)))
             (\<lambda>b. triggerBoundaryPath env rec b txStepID wfd))
          (completeInstanceIfNoActiveExecutions env wfd)))))"

section \<open>Events\<close>

definition executeIntermediateCatchEvent :: "env \<Rightarrow> calls \<Rightarrow> step \<Rightarrow> string \<Rightarrow> workflow_def \<Rightarrow> unit eng" where
  "executeIntermediateCatchEvent env rec st execID wfd =
     (if event_kind st = ''link'' then rec (CProceed execID wfd)
      else if event_kind st = ''conditional'' then bindE getI (\<lambda>w.
        if condition_of st \<noteq> [] \<and> evaluateCondition env (condition_of st) (wi_context w)
        then rec (CProceed execID wfd) else ret ())
      else ret ())"

definition executeStartEvent :: "env \<Rightarrow> calls \<Rightarrow> step \<Rightarrow> string \<Rightarrow> workflow_def \<Rightarrow> unit eng" where
  "executeStartEvent env rec st execID wfd = bindE getI (\<lambda>w.
     if event_kind st = ''conditional'' \<and> condition_of st \<noteq> [] \<and>
        \<not> evaluateCondition env (condition_of st) (wi_context w)
     then ret () else rec (CProceed execID wfd))"

text \<open>Receive tasks, manual tasks and event sub-processes wait.\<close>

definition executeWait :: "unit eng" where
  "executeWait = ret ()"

text \<open>\<open>findLinkCatchStep\<close> descends only below intermediate catch events.\<close>

fun findLinkCatchStep :: "step list \<Rightarrow> string \<Rightarrow> step option"
  and findLinkCatchIn :: "step \<Rightarrow> string \<Rightarrow> step option" where
  "findLinkCatchStep [] name = None"
| "findLinkCatchStep (s # ss) name =
     (case findLinkCatchIn s name of Some f \<Rightarrow> Some f | None \<Rightarrow> findLinkCatchStep ss name)"
| "findLinkCatchIn (StepDef i t n inc out impl sub refs def props lt lc le ls ip op) name =
     (if t \<noteq> StepTypeIntermediateCatchEvent then None
      else if trim_space (str_or_empty props ''link_name'') = name
      then Some (StepDef i t n inc out impl sub refs def props lt lc le ls ip op)
      else findLinkCatchStep sub name)"

definition compensateFrom :: "env \<Rightarrow> calls \<Rightarrow> step \<Rightarrow> string \<Rightarrow> workflow_def \<Rightarrow> unit eng" where
  "compensateFrom env rec st execID wfd = bindE getI (\<lambda>w.
     (case find_exec execID w of
        None \<Rightarrow> ret ()
      | Some ex \<Rightarrow> TriggerCompensation env rec (ex_parent_id ex)
          (str_or_empty (st_properties st) ''activity_ref'') wfd))"

definition throwLink :: "env \<Rightarrow> calls \<Rightarrow> step \<Rightarrow> string \<Rightarrow> string \<Rightarrow> workflow_def \<Rightarrow> unit eng" where
  "throwLink env rec st linkName execID wfd =
     (case findLinkCatchStep (wf_steps wfd) (trim_space linkName) of
        None \<Rightarrow> throw (Msg (''link throw '' @ st_id st @ '': no link catch for name '' @ linkName))
      | Some c \<Rightarrow> bindE getI (\<lambda>w.
          thenE (case exec_index execID w of
               None \<Rightarrow> ret ()
             | Some k \<Rightarrow> bindE (execAt k) (\<lambda>ex. setExecAt k (ex\<lparr>ex_step_id := st_id c\<rparr>)))
          (rec (CProceed execID wfd))))"

definition throwEscalation :: "env \<Rightarrow> calls \<Rightarrow> string \<Rightarrow> workflow_def \<Rightarrow> unit eng" where
  "throwEscalation env rec code wfd =
     bindE (tryE (publishEscalation env rec code [])) (\<lambda>r.
     thenE (ignoreE (tryStartEventSubProcesses env rec wfd ''escalation'' code [])) (liftR r))"

definition throwCorrelation :: "vars \<Rightarrow> vars \<Rightarrow> string" where
  "throwCorrelation props ctx = (case str_prop props ''correlation_key'' of
       None \<Rightarrow> [] | Some ck \<Rightarrow> (case map_of ctx ck of Some v \<Rightarrow> fmt_v v | None \<Rightarrow> ck))"

definition executeIntermediateThrowEvent :: "env \<Rightarrow> calls \<Rightarrow> step \<Rightarrow> string \<Rightarrow> workflow_def \<Rightarrow> unit eng" where
  "executeIntermediateThrowEvent env rec st execID wfd =
     (let p = st_properties st; go_on = rec (CProceed execID wfd);
          link = str_or_empty p ''link_name'';
          esc_code = str_or_empty p ''escalation_code''; esc_ref = str_or_empty p ''escalation_ref'' in
      if str_or_empty p ''signal_ref'' \<noteq> [] then thenE (publishSignal env rec (str_or_empty p ''signal_ref'') []) go_on
      else if str_or_empty p ''message_ref'' \<noteq> [] then bindE getI (\<lambda>w.
        thenE (publishMessage env rec (str_or_empty p ''message_ref'') (throwCorrelation p (wi_context w)) []) go_on)
      else if str_or_empty p ''error_ref'' \<noteq> []
      then throw (BpmnError (str_or_empty p ''error_code'') (str_or_empty p ''error_message''))
      else if event_kind st = ''compensate'' then thenE (compensateFrom env rec st execID wfd) go_on
      else if trim_space link \<noteq> [] then throwLink env rec st link execID wfd
      else if trim_space esc_code \<noteq> [] then thenE (throwEscalation env rec esc_code wfd) go_on
      else if trim_space esc_ref \<noteq> [] then thenE (throwEscalation env rec esc_ref wfd) go_on
      else go_on)"

section \<open>Gateways and end events\<close>

definition consumeToken :: "env \<Rightarrow> string \<Rightarrow> nat \<Rightarrow> unit eng" where
  "consumeToken env execID k = bindE (execAt k) (\<lambda>ex.
     if ex_id ex = execID then ret ()
     else thenE (setStatusAt k ''COMPLETED'') (finishElement env (ex_element_key ex) ''COMPLETED''))"

definition executeGateway :: "env \<Rightarrow> calls \<Rightarrow> step \<Rightarrow> string \<Rightarrow> workflow_def \<Rightarrow> unit eng" where
  "executeGateway env rec st execID wfd =
     (if length (st_incoming st) > 1
      then bindE getI (\<lambda>w.
        (case checkGatewayJoin (wi_executions w) st (wf_steps wfd) of (ready, others) \<Rightarrow>
          if \<not> ready then ret ()
          else thenE (forE others (consumeToken env execID)) (rec (CProceed execID wfd))))
      else rec (CProceed execID wfd))"

definition cancel_other :: "string \<Rightarrow> execution \<Rightarrow> execution" where
  "cancel_other execID ex =
     (if ex_id ex \<noteq> execID \<and> is_open_status (to_upper (trim_space (ex_status ex)))
      then ex\<lparr>ex_status := ''CANCELLED''\<rparr> else ex)"

definition endEventEffects :: "env \<Rightarrow> calls \<Rightarrow> step \<Rightarrow> string \<Rightarrow> workflow_def \<Rightarrow> unit eng" where
  "endEventEffects env rec st execID wfd =
     (let p = st_properties st; kind = event_kind st; signal = str_or_empty p ''signal_ref'' in
      thenE (if signal \<noteq> [] then publishSignal env rec signal [] else ret ())
      (thenE (if kind = ''compensate'' then compensateFrom env rec st execID wfd else ret ())
      (thenE (if kind = ''terminate''
         then modI (\<lambda>w. w\<lparr>wi_executions := map (cancel_other execID) (wi_executions w)\<rparr>) else ret ())
      (if kind = ''escalation'' \<and> escalation_ref st \<noteq> []
       then thenE (publishEscalation env rec (escalation_ref st) [])
         (ignoreE (tryStartEventSubProcesses env rec wfd ''escalation'' (escalation_ref st) []))
       else ret ()))))"

definition executeEndEvent :: "env \<Rightarrow> calls \<Rightarrow> step \<Rightarrow> string \<Rightarrow> workflow_def \<Rightarrow> unit eng" where
  "executeEndEvent env rec st execID wfd =
     (let p = st_properties st in
      if str_or_empty p ''error_ref'' \<noteq> []
      then throw (BpmnError (str_or_empty p ''error_code'') (str_or_empty p ''error_message''))
      else thenE (endEventEffects env rec st execID wfd) (bindE getI (\<lambda>w.
        (case (if event_kind st = ''cancel'' then find_exec execID w else None) of
           Some ex \<Rightarrow> if ex_parent_id ex \<noteq> [] then cancelTransactionScope env rec (ex_parent_id ex) wfd
               else rec (CProceed execID wfd)
         | None \<Rightarrow> rec (CProceed execID wfd)))))"

section \<open>Error boundary events\<close>

definition error_boundary :: "go_err \<Rightarrow> step \<Rightarrow> bool" where
  "error_boundary err b \<longleftrightarrow> st_type b = StepTypeBoundaryEvent \<and> has_key ''error_ref'' (st_properties b) \<and>
     (case as_bpmn_error err of
        None \<Rightarrow> False
      | Some (code, _) \<Rightarrow> str_or_empty (st_properties b) ''error_code'' = [] \<or>
          str_or_empty (st_properties b) ''error_code'' = code)"

text \<open>True when a boundary event took the error over.\<close>

definition handleBoundaryError :: "env \<Rightarrow> calls \<Rightarrow> step \<Rightarrow> string \<Rightarrow> workflow_def \<Rightarrow> go_err \<Rightarrow> bool eng" where
  "handleBoundaryError env rec st execID wfd err =
     (case List.find (error_boundary err) (List.map_filter (top_step (wf_steps wfd)) (st_boundary_refs st)) of
        None \<Rightarrow> ret False
      | Some b \<Rightarrow> bindE getI (\<lambda>w.
          bindE (case exec_index execID w of
               None \<Rightarrow> ret []
             | Some k \<Rightarrow> bindE (execAt k) (\<lambda>ex.
                 thenE (if cancel_activity b then terminateAt env k else ret ()) (ret (ex_parent_id ex)))) (\<lambda>parentID.
          thenE (forE (st_outgoing b) (spawnBoundary env rec False (top_type wfd) parentID wfd))
          (thenE (case parse_int (wi_id w) of Inr pk \<Rightarrow> markCompleted env pk | Inl _ \<Rightarrow> ret ())
          (ret True)))))"

section \<open>\<open>autoAdvance\<close>\<close>

text \<open>The registry of executors; \<open>None\<close> for a step type without one.\<close>

fun executor :: "env \<Rightarrow> calls \<Rightarrow> step \<Rightarrow> string \<Rightarrow> workflow_def \<Rightarrow> step_type \<Rightarrow> unit eng option" where
  "executor env rec st i wfd StepTypeUserTask = Some (executeUserTask env st i wfd)"
| "executor env rec st i wfd StepTypeServiceTask = Some (executeServiceTask env rec st i wfd)"
| "executor env rec st i wfd StepTypeScriptTask = Some (executeScriptTask env rec st i wfd)"
| "executor env rec st i wfd StepTypeSendTask = Some (executeSendTask env rec st i wfd)"
| "executor env rec st i wfd StepTypeBusinessRuleTask = Some (executeBusinessRuleTask env rec st i wfd)"
| "executor env rec st i wfd StepTypeSubProcess = Some (executeSubProcess env rec st i wfd)"
| "executor env rec st i wfd StepTypeCallActivity = Some (executeCallActivity env rec st i wfd)"
| "executor env rec st i wfd StepTypeIntermediateThrowEvent = Some (executeIntermediateThrowEvent env rec st i wfd)"
| "executor env rec st i wfd StepTypeIntermediateCatchEvent = Some (executeIntermediateCatchEvent env rec st i wfd)"
| "executor env rec st i wfd StepTypeReceiveTask = Some executeWait"
| "executor env rec st i wfd StepTypeManualTask = Some executeWait"
| "executor env rec st i wfd StepTypeEventSubProcess = Some executeWait"
| "executor env rec st i wfd StepTypeStart = Some (executeStartEvent env rec st i wfd)"
| "executor env rec st i wfd StepTypeEnd = Some (executeEndEvent env rec st i wfd)"
| "executor env rec st i wfd StepTypeGatewayExclusive = Some (executeGateway env rec st i wfd)"
| "executor env rec st i wfd StepTypeGatewayInclusive = Some (executeGateway env rec st i wfd)"
| "executor env rec st i wfd StepTypeGatewayParallel = Some (executeGateway env rec st i wfd)"
| "executor env rec st i wfd StepTypeGatewayEventBased = Some (executeGateway env rec st i wfd)"
| "executor env rec st i wfd _ = None"

text \<open>The incident of an error nobody handled; its process instance key is a fresh key.\<close>

definition raiseIncident :: "env \<Rightarrow> execution \<Rightarrow> go_err \<Rightarrow> unit eng" where
  "raiseIncident env ex err =
     bindE (timeNow env) (\<lambda>nano.
     bindE (generateKey env (ex_id ex @ ''_incident_'' @ show_int nano)) (\<lambda>k.
     bindE (GenerateUUIDv7 env) (\<lambda>i.
     bindE getI (\<lambda>w.
     bindE (generateKey env (wi_id w)) (\<lambda>instKey.
     bindE (timeNow env) (\<lambda>t.
     mapErr (\<lambda>_. err) (CreateIncident env \<lparr>in_key = k, in_id = i, in_instance_key = instKey,
        in_element_key = ex_element_key ex, in_job_key = 0, in_error_type = ''EXECUTION_ERROR'',
        in_error_message = err_string err, in_state = ''CREATED'', in_created_at = t,
        in_resolved_at = zero_time\<rparr>)))))))"

definition autoAdvance :: "env \<Rightarrow> calls \<Rightarrow> string \<Rightarrow> workflow_def \<Rightarrow> unit eng" where
  "autoAdvance env rec execID wfd = bindE getI (\<lambda>w.
     (case find_exec execID w of
        None \<Rightarrow> ret ()
      | Some ex \<Rightarrow>
          (case findStep (wf_steps wfd) (ex_step_id ex) of
             None \<Rightarrow> throw (Msg ''step not found'')
           | Some st \<Rightarrow>
               (case executor env rec st execID wfd (st_type st) of
                  None \<Rightarrow> ret ()
                | Some run \<Rightarrow>
                    thenE (mapErr (\<lambda>e. Msg (''failed to apply input mappings: '' @ err_string e))
                       (applyInputMappings env st execID))
                    (bindE (tryE run) (\<lambda>r.
                    (case r of
                       Inr _ \<Rightarrow> ret ()
                     | Inl err \<Rightarrow> bindE (handleBoundaryError env rec st execID wfd err) (\<lambda>handled.
                         if handled then ret () else raiseIncident env ex err))))))))"

end
