(* ===== verification/Jobs.thy ===== *)
theory Jobs
  imports Steps
begin

text \<open>
  The operations of workers and users on tokens and jobs: \<open>CompleteTask\<close> and \<open>CompleteExecution\<close> of
  \<open>engine.go\<close>, and \<open>jobs.go\<close>: activation with a lock, completion, failure with retries, lock
  extension, retry, claim and completion of user tasks.
\<close>

section \<open>Completing a token\<close>

definition status_string :: "workflow_status \<Rightarrow> string" where
  "status_string st = (case st of StatusPending \<Rightarrow> ''PENDING'' | StatusRunning \<Rightarrow> ''RUNNING''
     | StatusCompleted \<Rightarrow> ''COMPLETED'' | StatusFailed \<Rightarrow> ''FAILED'')"

text \<open>The part the two share: a running instance and its definition, else an error.\<close>

definition withRunning :: "env \<Rightarrow> string \<Rightarrow> (workflow_instance \<Rightarrow> workflow_def \<Rightarrow> unit eng) \<Rightarrow> unit eng" where
  "withRunning env instanceID body =
     bindE (GetInstance env instanceID) (\<lambda>w.
       if wi_status w \<noteq> StatusRunning
       then throw (Msg (''instance is not running, status: '' @ status_string (wi_status w)))
       else (case parse_int (wi_workflow_id w) of
           Inl e \<Rightarrow> throw (Msg (''invalid workflow id in instance: '' @ err_string e))
         | Inr k \<Rightarrow> bindE (getWorkflowDefinition env k) (\<lambda>wfd. with_instance w (body w wfd))))"

definition completeToken :: "env \<Rightarrow> calls \<Rightarrow> execution \<Rightarrow> workflow_def \<Rightarrow> unit eng" where
  "completeToken env rec ex wfd =
     thenE (case findStep (wf_steps wfd) (ex_step_id ex) of
          None \<Rightarrow> ret () | Some st \<Rightarrow> executeTaskListeners env st ''complete'')
     (rec (CProceed (ex_id ex) wfd))"

definition completeTask :: "env \<Rightarrow> calls \<Rightarrow> string \<Rightarrow> string \<Rightarrow> unit eng" where
  "completeTask env rec instanceID stepID = withRunning env instanceID (\<lambda>w wfd.
     (case List.find (\<lambda>ex. ex_status ex = ''ACTIVE'' \<and> (stepID = [] \<or> ex_step_id ex = stepID \<or> ex_id ex = stepID))
         (wi_executions w) of
        None \<Rightarrow> throw (Msg (if stepID \<noteq> [] then ''no active execution found for step '' @ stepID
            else ''no active execution found''))
      | Some ex \<Rightarrow> completeToken env rec ex wfd))"

definition completeExecution :: "env \<Rightarrow> calls \<Rightarrow> string \<Rightarrow> string \<Rightarrow> unit eng" where
  "completeExecution env rec instanceID executionID = withRunning env instanceID (\<lambda>w wfd.
     (case find_exec executionID w of
        None \<Rightarrow> throw (Msg (''execution '' @ executionID @ '' not found''))
      | Some ex \<Rightarrow>
          if ex_status ex \<noteq> ''ACTIVE'' then throw (Msg (''execution '' @ executionID @ '' is not active''))
          else completeToken env rec ex wfd))"

definition CompleteTask :: "env \<Rightarrow> calls \<Rightarrow> string \<Rightarrow> string \<Rightarrow> unit eng" where
  "CompleteTask env rec instanceID stepID = withTx env (completeTask env rec instanceID stepID)"

definition CompleteExecution :: "env \<Rightarrow> calls \<Rightarrow> string \<Rightarrow> string \<Rightarrow> unit eng" where
  "CompleteExecution env rec instanceID executionID = withTx env (completeExecution env rec instanceID executionID)"

section \<open>Activation\<close>

definition defaultJobLockDuration :: int where "defaultJobLockDuration = 30000000000"

definition activated :: "string \<Rightarrow> int \<Rightarrow> int \<Rightarrow> job \<Rightarrow> job" where
  "activated worker now lock j = j\<lparr>jb_state := ''ACTIVATED'', jb_worker := worker,
     jb_lock_until := Some (now + lock), jb_updated_at := now\<rparr>"

definition activateOne :: "env \<Rightarrow> string \<Rightarrow> int \<Rightarrow> int \<Rightarrow> job list \<Rightarrow> job \<Rightarrow> job list eng" where
  "activateOne env worker now lock acc j =
     (let j' = activated worker now lock j in
      thenE (UpdateJob env j')
      (thenE (ignoreE (Publish env (JobActivated (jb_key j) worker (now + lock)) ''JobActivated''))
      (ret (acc @ [j']))))"

definition activateJobsOnce :: "env \<Rightarrow> string \<Rightarrow> string \<Rightarrow> int \<Rightarrow> int \<Rightarrow> job list eng" where
  "activateJobsOnce env jobType worker maxJobs lock0 =
     (if worker = [] then throw (Msg ''worker is required'')
      else let lock = (if lock0 \<le> 0 then defaultJobLockDuration else lock0) in
        withTx env (bindE (ListActivatableJobs env jobType maxJobs) (\<lambda>jobs.
          bindE (timeNow env) (\<lambda>now. foldE (activateOne env worker now lock) [] jobs))))"

text \<open>The long poll: \<open>ticks\<close> is the number of ticks of the poll timer before the request times out.\<close>

primrec pollJobs :: "env \<Rightarrow> string \<Rightarrow> string \<Rightarrow> int \<Rightarrow> int \<Rightarrow> nat \<Rightarrow> job list eng" where
  "pollJobs env jobType worker maxJobs lock 0 = ret []"
| "pollJobs env jobType worker maxJobs lock (Suc n) =
     bindE (activateJobsOnce env jobType worker maxJobs lock) (\<lambda>js.
       if js \<noteq> [] then ret js else pollJobs env jobType worker maxJobs lock n)"

definition ActivateJobs :: "env \<Rightarrow> string \<Rightarrow> string \<Rightarrow> int \<Rightarrow> int \<Rightarrow> nat \<Rightarrow> int \<Rightarrow> job list eng" where
  "ActivateJobs env jobType worker maxJobs requestTimeout ticks lock =
     bindE (activateJobsOnce env jobType worker maxJobs lock) (\<lambda>js.
       if js \<noteq> [] \<or> requestTimeout \<le> 0 then ret js else pollJobs env jobType worker maxJobs lock ticks)"

section \<open>Completion, failure, locks\<close>

definition ensureActiveLockOwnership :: "job \<Rightarrow> string \<Rightarrow> int \<Rightarrow> go_err option" where
  "ensureActiveLockOwnership j worker now =
     (if worker = [] then Some (Msg ''worker is required'')
      else if jb_worker j \<noteq> worker then Some (Msg (''job '' @ show_int (jb_key j) @ '' locked by worker '' @ jb_worker j))
      else (case jb_lock_until j of
          None \<Rightarrow> Some (Msg (''job '' @ show_int (jb_key j) @ '' has no active lock''))
        | Some t \<Rightarrow> if now > t then Some (Msg (''job '' @ show_int (jb_key j) @ '' lock expired'')) else None))"

definition orThrow :: "go_err option \<Rightarrow> unit eng" where
  "orThrow e = (case e of None \<Rightarrow> ret () | Some err \<Rightarrow> throw err)"

definition completeJob_tx :: "env \<Rightarrow> calls \<Rightarrow> int \<Rightarrow> string \<Rightarrow> vars \<Rightarrow> unit eng" where
  "completeJob_tx env rec jobKey worker vs =
     bindE (GetJob env jobKey) (\<lambda>j.
       if jb_state j = ''COMPLETED'' then ret ()
       else if jb_state j \<noteq> ''ACTIVATED'' then throw (Msg (''job '' @ show_int (jb_key j) @ '' is not activated''))
       else bindE (timeNow env) (\<lambda>now.
         let instanceID = show_int (jb_instance_key j) in
         thenE (orThrow (ensureActiveLockOwnership j worker now))
         (thenE (if vs = [] then ret ()
            else thenE (GetInstance env instanceID) (persistVariables env instanceID (jb_instance_key j) vs))
         (thenE (UpdateJob env (j\<lparr>jb_state := ''COMPLETED'', jb_lock_until := None, jb_updated_at := now\<rparr>))
         (thenE (ignoreE (Publish env (JobCompleted (jb_key j) worker [] now) ''JobCompleted''))
         (completeExecution env rec instanceID (show_int (jb_element_key j))))))))"

definition CompleteJob :: "env \<Rightarrow> calls \<Rightarrow> int \<Rightarrow> string \<Rightarrow> vars \<Rightarrow> unit eng" where
  "CompleteJob env rec jobKey worker vs = withTx env (completeJob_tx env rec jobKey worker vs)"

definition remaining_retries :: "job \<Rightarrow> int option \<Rightarrow> int" where
  "remaining_retries j retries =
     (let r = (case retries of None \<Rightarrow> jb_retries j - 1 | Some n \<Rightarrow> n) in if r < 0 then 0 else r)"

definition failedIncident :: "env \<Rightarrow> job \<Rightarrow> string \<Rightarrow> unit eng" where
  "failedIncident env j message =
     bindE (generateKey env (show_int (jb_key j) @ ''_incident'')) (\<lambda>k.
     bindE (timeNow env) (\<lambda>t.
     CreateIncident env \<lparr>in_key = k, in_id = [], in_instance_key = jb_instance_key j,
       in_element_key = jb_element_key j, in_job_key = jb_key j, in_error_type = ''JOB_NO_RETRIES'',
       in_error_message = (if message = [] then ''external worker failure'' else message),
       in_state = ''CREATED'', in_created_at = t, in_resolved_at = zero_time\<rparr>))"

definition failJob_tx :: "env \<Rightarrow> int \<Rightarrow> string \<Rightarrow> string \<Rightarrow> int option \<Rightarrow> unit eng" where
  "failJob_tx env jobKey worker message retries =
     bindE (GetJob env jobKey) (\<lambda>j.
       if jb_state j = ''COMPLETED'' then throw (Msg (''job '' @ show_int (jb_key j) @ '' already completed''))
       else if jb_state j = ''FAILED'' then ret ()
       else bindE (timeNow env) (\<lambda>now.
         thenE (if jb_state j = ''ACTIVATED'' then orThrow (ensureActiveLockOwnership j worker now) else ret ())
         (let r = remaining_retries j retries;
              j1 = j\<lparr>jb_retries := r, jb_worker := [], jb_lock_until := None, jb_updated_at := now\<rparr>
          in if r > 0 then UpdateJob env (j1\<lparr>jb_state := ''CREATED''\<rparr>)
             else thenE (UpdateJob env (j1\<lparr>jb_state := ''FAILED''\<rparr>))
               (thenE (ignoreE (Publish env (JobFailed (jb_key j) worker (safeInt32 r) message now) ''JobFailed''))
               (failedIncident env j1 message)))))"

definition FailJob :: "env \<Rightarrow> int \<Rightarrow> string \<Rightarrow> string \<Rightarrow> int option \<Rightarrow> unit eng" where
  "FailJob env jobKey worker message retries = withTx env (failJob_tx env jobKey worker message retries)"

definition extendJobLock_tx :: "env \<Rightarrow> int \<Rightarrow> string \<Rightarrow> int \<Rightarrow> unit eng" where
  "extendJobLock_tx env jobKey worker lock =
     bindE (GetJob env jobKey) (\<lambda>j.
       if jb_state j \<noteq> ''ACTIVATED'' then throw (Msg (''job '' @ show_int (jb_key j) @ '' is not activated''))
       else bindE (timeNow env) (\<lambda>now.
         thenE (orThrow (ensureActiveLockOwnership j worker now))
         (UpdateJob env (j\<lparr>jb_lock_until := Some (now + lock), jb_updated_at := now\<rparr>))))"

definition ExtendJobLock :: "env \<Rightarrow> int \<Rightarrow> string \<Rightarrow> int \<Rightarrow> unit eng" where
  "ExtendJobLock env jobKey worker lock =
     (if lock \<le> 0 then throw (Msg ''lock duration must be greater than zero'')
      else withTx env (extendJobLock_tx env jobKey worker lock))"

definition retryJob_tx :: "env \<Rightarrow> int \<Rightarrow> int \<Rightarrow> unit eng" where
  "retryJob_tx env jobKey retries =
     bindE (GetJob env jobKey) (\<lambda>j.
       if jb_state j = ''COMPLETED'' then throw (Msg (''job '' @ show_int (jb_key j) @ '' already completed''))
       else bindE (timeNow env) (\<lambda>now.
         if jb_state j = ''ACTIVATED'' \<and> (case jb_lock_until j of None \<Rightarrow> False | Some t \<Rightarrow> t > now)
         then throw (Msg (''job '' @ show_int (jb_key j) @ '' is locked by worker '' @ jb_worker j))
         else UpdateJob env (j\<lparr>jb_state := ''CREATED'', jb_retries := retries, jb_worker := [],
                jb_lock_until := None, jb_updated_at := now\<rparr>)))"

definition RetryJob :: "env \<Rightarrow> int \<Rightarrow> int \<Rightarrow> unit eng" where
  "RetryJob env jobKey retries = withTx env (retryJob_tx env jobKey (if retries \<le> 0 then 3 else retries))"

section \<open>Listings\<close>

definition ListInstanceJobs :: "env \<Rightarrow> string \<Rightarrow> job list eng" where
  "ListInstanceJobs env instanceID = (case parse_int instanceID of
       Inl e \<Rightarrow> throw (Wrapf ''invalid instance id'' e)
     | Inr k \<Rightarrow> ListJobsByProcessInstanceAndType env k [])"

definition ListEngineIncidents :: "env \<Rightarrow> int \<Rightarrow> int \<Rightarrow> incident list eng" where
  "ListEngineIncidents env k limit = ListIncidents env k limit"

definition ListUserTaskJobs :: "env \<Rightarrow> string \<Rightarrow> job list eng" where
  "ListUserTaskJobs env instanceID = (case parse_int instanceID of
       Inl e \<Rightarrow> throw (Msg (''invalid instance id: '' @ err_string e))
     | Inr k \<Rightarrow> ListJobsByProcessInstanceAndType env k UserTaskJobType)"

section \<open>User tasks\<close>

definition getUserTaskJob :: "env \<Rightarrow> string \<Rightarrow> string \<Rightarrow> job eng" where
  "getUserTaskJob env instanceID executionID = (case parse_int instanceID of
       Inl e \<Rightarrow> throw (Msg (''invalid instance id: '' @ err_string e))
     | Inr ik \<Rightarrow> (case parse_int executionID of
         Inl e \<Rightarrow> throw (Msg (''invalid execution id: '' @ err_string e))
       | Inr ek \<Rightarrow> bindE (ListJobsByProcessInstanceAndType env ik UserTaskJobType) (\<lambda>jobs.
           (case List.find (\<lambda>j. jb_element_key j = ek) jobs of
              None \<Rightarrow> throw (Msg (''no user task job found for execution '' @ executionID))
            | Some j \<Rightarrow> ret j))))"

definition claimUserTask_tx :: "env \<Rightarrow> string \<Rightarrow> string \<Rightarrow> string \<Rightarrow> bool \<Rightarrow> job eng" where
  "claimUserTask_tx env instanceID executionID owner force =
     bindE (getUserTaskJob env instanceID executionID) (\<lambda>j.
       if jb_state j = ''COMPLETED'' then throw (Msg (''user task '' @ executionID @ '' is already completed''))
       else if jb_worker j \<noteq> [] \<and> jb_worker j \<noteq> owner \<and> \<not> force
       then throw (Msg (''user task '' @ executionID @ '' is already claimed by '' @ jb_worker j))
       else bindE (timeNow env) (\<lambda>now.
         let j' = j\<lparr>jb_worker := owner, jb_state := ''ACTIVATED'', jb_updated_at := now\<rparr> in
         thenE (UpdateJob env j') (ret j')))"

definition ClaimUserTask :: "env \<Rightarrow> string \<Rightarrow> string \<Rightarrow> string \<Rightarrow> bool \<Rightarrow> job eng" where
  "ClaimUserTask env instanceID executionID owner0 force = (let owner = trim_space owner0 in
     if owner = [] then throw (Msg ''task owner is required'')
     else withTx env (claimUserTask_tx env instanceID executionID owner force))"

definition completeUserTask_tx :: "env \<Rightarrow> calls \<Rightarrow> string \<Rightarrow> string \<Rightarrow> string \<Rightarrow> bool \<Rightarrow> unit eng" where
  "completeUserTask_tx env rec instanceID executionID owner force =
     bindE (getUserTaskJob env instanceID executionID) (\<lambda>j.
       if jb_state j = ''COMPLETED'' then ret ()
       else if \<not> force \<and> jb_worker j = []
       then throw (Msg (''user task '' @ executionID @ '' must be claimed before completion''))
       else if \<not> force \<and> jb_worker j \<noteq> owner
       then throw (Msg (''user task '' @ executionID @ '' is claimed by '' @ jb_worker j))
       else bindE (timeNow env) (\<lambda>now.
         thenE (UpdateJob env (j\<lparr>jb_state := ''COMPLETED'', jb_lock_until := None, jb_updated_at := now\<rparr>))
         (completeExecution env rec instanceID executionID)))"

definition CompleteUserTask :: "env \<Rightarrow> calls \<Rightarrow> string \<Rightarrow> string \<Rightarrow> string \<Rightarrow> bool \<Rightarrow> unit eng" where
  "CompleteUserTask env rec instanceID executionID owner0 force = (let owner = trim_space owner0 in
     if owner = [] \<and> \<not> force then throw (Msg ''task owner is required'')
     else withTx env (completeUserTask_tx env rec instanceID executionID owner force))"

end
