(* ===== verification/Engine.thy ===== *)
theory Engine
  imports Jobs
begin

text \<open>
  The knot: a call of \<open>proceedToken\<close> or \<open>autoAdvance\<close> runs the definition with itself for the calls
  inside. The fuel bounds the depth of the call stack; a run that returns is not changed by more fuel
  (theory \<open>Fuel\<close>), so the outcome of a call is what it is from some fuel on, and a call that never
  returns is \<open>Diverged\<close> at every fuel.

  Below it the engine as a server: the requests of clients, workers and the scheduler
  (\<open>request\<close>), those of deployment and housekeeping (\<open>admin_request\<close>), and the states a sequence of
  requests reaches.
\<close>

section \<open>The knot\<close>

definition engine_step :: "env \<Rightarrow> calls \<Rightarrow> calls" where
  "engine_step env rec c = (case c of
       CProceed i wfd \<Rightarrow> proceedToken env rec i wfd
     | CAdvance i wfd \<Rightarrow> autoAdvance env rec i wfd)"

primrec run :: "env \<Rightarrow> nat \<Rightarrow> calls" where
  "run env 0 = (\<lambda>c. diverge)"
| "run env (Suc n) = engine_step env (run env n)"

section \<open>The engine as a server\<close>

datatype request =
    StartReq string vars "int option"
  | CompleteTaskReq string string
  | CompleteExecutionReq string string
  | ActivateJobsReq string string int int nat int
  | CompleteJobReq int string vars
  | FailJobReq int string string "int option"
  | ExtendJobLockReq int string int
  | RetryJobReq int int
  | ClaimUserTaskReq string string string bool
  | CompleteUserTaskReq string string string bool
  | PublishMessageReq string string vars
  | PublishSignalReq string vars
  | PublishEscalationReq string vars
  | UpdateVariablesReq string vars
  | CheckTimersReq
  | CheckSLAsReq
  | RelayReq int

definition drop_result :: "'a eng \<Rightarrow> unit eng" where
  "drop_result m = bindE m (\<lambda>_. ret ())"

fun serve :: "env \<Rightarrow> nat \<Rightarrow> request \<Rightarrow> unit eng" where
  "serve env n (StartReq i vs v) = drop_result (StartInstanceVersion env (run env n) i vs v)"
| "serve env n (CompleteTaskReq i st) = CompleteTask env (run env n) i st"
| "serve env n (CompleteExecutionReq i ex) = CompleteExecution env (run env n) i ex"
| "serve env n (ActivateJobsReq ty w mx tmo ticks lock) = drop_result (ActivateJobs env ty w mx tmo ticks lock)"
| "serve env n (CompleteJobReq k w vs) = CompleteJob env (run env n) k w vs"
| "serve env n (FailJobReq k w msg r) = FailJob env k w msg r"
| "serve env n (ExtendJobLockReq k w lock) = ExtendJobLock env k w lock"
| "serve env n (RetryJobReq k r) = RetryJob env k r"
| "serve env n (ClaimUserTaskReq i ex own f) = drop_result (ClaimUserTask env i ex own f)"
| "serve env n (CompleteUserTaskReq i ex own f) = CompleteUserTask env (run env n) i ex own f"
| "serve env n (PublishMessageReq name ck vs) = PublishMessage env (run env n) name ck vs"
| "serve env n (PublishSignalReq name vs) = PublishSignal env (run env n) name vs"
| "serve env n (PublishEscalationReq code vs) = PublishEscalation env (run env n) code vs"
| "serve env n (UpdateVariablesReq i vs) = UpdateInstanceVariables env i vs"
| "serve env n CheckTimersReq = CheckTimers env (run env n)"
| "serve env n CheckSLAsReq = CheckSLAs env (run env n)"
| "serve env n (RelayReq limit) = drop_result (RunOutboxRelayCycle env limit)"

datatype admin_request =
    DeployReq string "step list"
  | DeployBpmnReq string
  | DeployDecisionReq string string string
  | DeleteWorkflowReq string
  | DeleteInstanceReq string
  | RecordKeyReq string string
  | CleanupKeysReq int int
  | LeaseReq string int

fun administer :: "env \<Rightarrow> admin_request \<Rightarrow> unit eng" where
  "administer env (DeployReq name ss) = drop_result (DeployWorkflow env name ss)"
| "administer env (DeployBpmnReq xml) = drop_result (DeployWorkflowFromBPMN env xml)"
| "administer env (DeployDecisionReq i name res) = drop_result (DeployDecision env i name res)"
| "administer env (DeleteWorkflowReq i) = DeleteWorkflow env i"
| "administer env (DeleteInstanceReq i) = DeleteInstance env i"
| "administer env (RecordKeyReq k op) = RecordIdempotencyKey env k op"
| "administer env (CleanupKeysReq ttl limit) = drop_result (RunIdempotencyCleanup env ttl limit)"
| "administer env (LeaseReq holder ttl) = drop_result (TryAcquireRuntimeSchedulerLease env holder ttl)"

text \<open>One request after the other, each returning, with a result, an error or a panic.\<close>

inductive served :: "env \<Rightarrow> est \<Rightarrow> est \<Rightarrow> bool" for env where
  served_nothing: "served env s s"
| served_request: "served env s t \<Longrightarrow> serve env n q t = (r, u) \<Longrightarrow> r \<noteq> Diverged \<Longrightarrow> served env s u"

inductive reaches :: "env \<Rightarrow> est \<Rightarrow> est \<Rightarrow> bool" for env where
  reaches_nothing: "reaches env s s"
| reaches_request: "reaches env s t \<Longrightarrow> serve env n q t = (r, u) \<Longrightarrow> r \<noteq> Diverged \<Longrightarrow> reaches env s u"
| reaches_admin: "reaches env s t \<Longrightarrow> administer env q t = (r, u) \<Longrightarrow> r \<noteq> Diverged \<Longrightarrow> reaches env s u"

inductive_cases served_requestE: "served env s u"
inductive_simps served_simps: "served env s u"

end
