(* ===== verification/Fuel.thy ===== *)
theory Fuel
  imports Engine
begin

text \<open>
  More fuel never changes an outcome: every definition of the engine is monotone in the function that
  runs its inner calls, one rule per definition in \<open>approx_intros\<close>, and so \<open>run\<close> is monotone in its
  fuel.
\<close>

section \<open>The combinators\<close>

lemma approx_scope:
  assumes "approx m m'"
  shows "approx (\<lambda>s. case m (f s) of (r, s') \<Rightarrow> (r, g s s')) (\<lambda>s. case m' (f s) of (r, s') \<Rightarrow> (r, g s s'))"
proof (rule approxI)
  fix s
  assume "fst (case m (f s) of (r, s') \<Rightarrow> (r, g s s')) \<noteq> Diverged"
  then have "fst (m (f s)) \<noteq> Diverged" by (simp split: prod.splits)
  with assms have "m (f s) = m' (f s)" by (auto simp: approx_def)
  then show "(case m (f s) of (r, s') \<Rightarrow> (r, g s s')) = (case m' (f s) of (r, s') \<Rightarrow> (r, g s s'))" by simp
qed

lemma approx_with_instance [approx_intros]: "approx m m' \<Longrightarrow> approx (with_instance i m) (with_instance i m')"
  unfolding with_instance_def by (rule approx_scope)

lemma approx_with_memo [approx_intros]: "approx m m' \<Longrightarrow> approx (with_memo m) (with_memo m')"
  unfolding with_memo_def by (rule approx_scope)

lemma approx_with_buffer [approx_intros]: "approx m m' \<Longrightarrow> approx (with_buffer m) (with_buffer m')"
  unfolding with_buffer_def by (rule approx_scope)

lemma approx_repo_WithTx [approx_intros]:
  assumes "approx m m'"
  shows "approx (repo_WithTx env m) (repo_WithTx env m')"
proof (rule approxI)
  fix s
  assume nd: "fst (repo_WithTx env m s) \<noteq> Diverged"
  obtain r s1 where q: "repo_query env (\<lambda>_. Inr ()) s = (r, s1)" by fastforce
  show "repo_WithTx env m s = repo_WithTx env m' s"
  proof (cases r)
    case (Ok u)
    with q nd have "fst (m s1) \<noteq> Diverged"
      by (auto simp: repo_WithTx_def split: prod.splits outcome.splits)
    with assms have "m s1 = m' s1" by (auto simp: approx_def)
    with q Ok show ?thesis by (simp add: repo_WithTx_def)
  qed (use q in \<open>simp_all add: repo_WithTx_def\<close>)
qed

lemma approx_withTx [approx_intros]: "approx m m' \<Longrightarrow> approx (withTx env m) (withTx env m')"
  unfolding withTx_def tx_body_def by (intro approx_intros)

lemma approx_collectErrors [approx_intros]:
  "(\<And>x. approx (f x) (f' x)) \<Longrightarrow> approx (collectErrors l f xs) (collectErrors l f' xs)"
  unfolding collectErrors_def by (intro approx_intros)

lemma approx_loadOrSkip [approx_intros]:
  "(\<And>w. approx (b w) (b' w)) \<Longrightarrow> approx (loadOrSkip env k b) (loadOrSkip env k b')"
  unfolding loadOrSkip_def by (intro approx_intros)

lemma approx_withElement [approx_intros]:
  "(\<And>w s. approx (b w s) (b' w s)) \<Longrightarrow> approx (withElement env el p b) (withElement env el p b')"
  unfolding withElement_def by (intro approx_intros)

lemma approx_withRunning [approx_intros]:
  "(\<And>w d. approx (b w d) (b' w d)) \<Longrightarrow> approx (withRunning env i b) (withRunning env i b')"
  unfolding withRunning_def by (intro approx_intros)

text \<open>One set of calls below another.\<close>

definition calls_le :: "calls \<Rightarrow> calls \<Rightarrow> bool" where
  "calls_le rec rec' \<longleftrightarrow> (\<forall>c. approx (rec c) (rec' c))"

lemma calls_leD: "calls_le rec rec' \<Longrightarrow> approx (rec c) (rec' c)"
  by (simp add: calls_le_def)

section \<open>Moving tokens\<close>

lemma notifyParentProcess_mono [approx_intros]:
  "calls_le rec rec' \<Longrightarrow> approx (notifyParentProcess env rec) (notifyParentProcess env rec')"
  unfolding notifyParentProcess_def by (intro approx_intros | assumption | erule calls_leD)+

lemma checkSubProcessCompletion_mono [approx_intros]:
  "calls_le rec rec' \<Longrightarrow> approx (checkSubProcessCompletion env rec execID wfd) (checkSubProcessCompletion env rec' execID wfd)"
  unfolding checkSubProcessCompletion_def by (intro approx_intros | assumption | erule calls_leD)+

lemma endOfPath_mono [approx_intros]:
  "calls_le rec rec' \<Longrightarrow> approx (endOfPath env rec k execID stepID wfd) (endOfPath env rec' k execID stepID wfd)"
  unfolding endOfPath_def by (intro approx_intros | assumption | erule calls_leD)+

lemma nextIteration_mono [approx_intros]:
  "calls_le rec rec' \<Longrightarrow> approx (nextIteration env rec stepID st pex i wfd) (nextIteration env rec' stepID st pex i wfd)"
  unfolding nextIteration_def by (intro approx_intros | assumption | erule calls_leD)+

lemma exitSequential_mono [approx_intros]:
  "calls_le rec rec' \<Longrightarrow> approx (exitSequential env rec k stepID st wfd) (exitSequential env rec' k stepID st wfd)"
  unfolding exitSequential_def by (intro approx_intros | assumption | erule calls_leD)+

lemma exitStep_mono [approx_intros]:
  "calls_le rec rec' \<Longrightarrow> approx (exitStep env rec k stepID st wfd) (exitStep env rec' k stepID st wfd)"
  unfolding exitStep_def by (intro approx_intros | assumption | erule calls_leD)+

lemma spawnSingle_mono [approx_intros]:
  "calls_le rec rec' \<Longrightarrow> approx (spawnSingle env rec k targetID wfd) (spawnSingle env rec' k targetID wfd)"
  unfolding spawnSingle_def by (intro approx_intros | assumption | erule calls_leD)+

lemma spawnItem_mono [approx_intros]:
  "calls_le rec rec' \<Longrightarrow> approx (spawnItem env rec st scope wfd item) (spawnItem env rec' st scope wfd item)"
  unfolding spawnItem_def by (intro approx_intros | assumption | erule calls_leD)+

lemma spawnFirst_mono [approx_intros]:
  "calls_le rec rec' \<Longrightarrow> approx (spawnFirst env rec st scope wfd coll) (spawnFirst env rec' st scope wfd coll)"
  unfolding spawnFirst_def by (intro approx_intros | assumption | erule calls_leD)+

lemma spawnMulti_mono [approx_intros]:
  "calls_le rec rec' \<Longrightarrow> approx (spawnMulti env rec k st coll wfd) (spawnMulti env rec' k st coll wfd)"
  unfolding spawnMulti_def by (intro approx_intros | assumption | erule calls_leD)+

lemma spawnToken_mono [approx_intros]:
  "calls_le rec rec' \<Longrightarrow> approx (spawnToken env rec k wfd targetID) (spawnToken env rec' k wfd targetID)"
  unfolding spawnToken_def by (intro approx_intros | assumption | erule calls_leD)+

lemma proceedToken_mono [approx_intros]:
  "calls_le rec rec' \<Longrightarrow> approx (proceedToken env rec execID wfd) (proceedToken env rec' execID wfd)"
  unfolding proceedToken_def by (intro approx_intros | assumption | erule calls_leD)+

section \<open>Starting instances\<close>

lemma createAndStartInstance_mono [approx_intros]:
  "calls_le rec rec' \<Longrightarrow> approx (createAndStartInstance env rec workflowID contextVars parentInstanceID parentExecutionID version) (createAndStartInstance env rec' workflowID contextVars parentInstanceID parentExecutionID version)"
  unfolding createAndStartInstance_def by (intro approx_intros | assumption | erule calls_leD)+

lemma StartInstanceVersion_mono [approx_intros]:
  "calls_le rec rec' \<Longrightarrow> approx (StartInstanceVersion env rec workflowID contextVars version) (StartInstanceVersion env rec' workflowID contextVars version)"
  unfolding StartInstanceVersion_def by (intro approx_intros | assumption | erule calls_leD)+

lemma StartInstance_mono [approx_intros]:
  "calls_le rec rec' \<Longrightarrow> approx (StartInstance env rec workflowID contextVars) (StartInstance env rec' workflowID contextVars)"
  unfolding StartInstance_def by (intro approx_intros | assumption | erule calls_leD)+

section \<open>Delivery of events\<close>

lemma spawnBoundary_mono [approx_intros]:
  "calls_le rec rec' \<Longrightarrow> approx (spawnBoundary env rec with_id type_of parentID wfd t) (spawnBoundary env rec' with_id type_of parentID wfd t)"
  unfolding spawnBoundary_def by (intro approx_intros | assumption | erule calls_leD)+

lemma triggerBoundaryPath_mono [approx_intros]:
  "calls_le rec rec' \<Longrightarrow> approx (triggerBoundaryPath env rec boundary attachedStepID wfd) (triggerBoundaryPath env rec' boundary attachedStepID wfd)"
  unfolding triggerBoundaryPath_def by (intro approx_intros | assumption | erule calls_leD)+

lemma startEventSubProcess_mono [approx_intros]:
  "calls_le rec rec' \<Longrightarrow> approx (startEventSubProcess env rec wfd payload sp start) (startEventSubProcess env rec' wfd payload sp start)"
  unfolding startEventSubProcess_def by (intro approx_intros | assumption | erule calls_leD)+

lemma tryStartEventSubProcesses_mono [approx_intros]:
  "calls_le rec rec' \<Longrightarrow> approx (tryStartEventSubProcesses env rec wfd kind ref payload) (tryStartEventSubProcesses env rec' wfd kind ref payload)"
  unfolding tryStartEventSubProcesses_def by (intro approx_intros | assumption | erule calls_leD)+

lemma triggerEventSubProcessesOnActiveInstances_mono [approx_intros]:
  "calls_le rec rec' \<Longrightarrow> approx (triggerEventSubProcessesOnActiveInstances env rec kind ref payload) (triggerEventSubProcessesOnActiveInstances env rec' kind ref payload)"
  unfolding triggerEventSubProcessesOnActiveInstances_def by (intro approx_intros | assumption | erule calls_leD)+

lemma startInstancesWhere_mono [approx_intros]:
  "calls_le rec rec' \<Longrightarrow> approx (startInstancesWhere env rec matches vars_of) (startInstancesWhere env rec' matches vars_of)"
  unfolding startInstancesWhere_def by (intro approx_intros | assumption | erule calls_leD)+

lemma startInstancesForMessageStart_mono [approx_intros]:
  "calls_le rec rec' \<Longrightarrow> approx (startInstancesForMessageStart env rec name ck payload) (startInstancesForMessageStart env rec' name ck payload)"
  unfolding startInstancesForMessageStart_def by (intro approx_intros | assumption | erule calls_leD)+

lemma startInstancesForSignalStart_mono [approx_intros]:
  "calls_le rec rec' \<Longrightarrow> approx (startInstancesForSignalStart env rec name payload) (startInstancesForSignalStart env rec' name payload)"
  unfolding startInstancesForSignalStart_def by (intro approx_intros | assumption | erule calls_leD)+

lemma startInstancesForEscalationStart_mono [approx_intros]:
  "calls_le rec rec' \<Longrightarrow> approx (startInstancesForEscalationStart env rec code payload) (startInstancesForEscalationStart env rec' code payload)"
  unfolding startInstancesForEscalationStart_def by (intro approx_intros | assumption | erule calls_leD)+

lemma proceedWaiting_mono [approx_intros]:
  "calls_le rec rec' \<Longrightarrow> approx (proceedWaiting rec k wfd) (proceedWaiting rec' k wfd)"
  unfolding proceedWaiting_def by (intro approx_intros | assumption | erule calls_leD)+

lemma escalateAt_mono [approx_intros]:
  "calls_le rec rec' \<Longrightarrow> approx (escalateAt env rec code payload wfd st el) (escalateAt env rec' code payload wfd st el)"
  unfolding escalateAt_def by (intro approx_intros | assumption | erule calls_leD)+

lemma deliverEscalationToWaiters_mono [approx_intros]:
  "calls_le rec rec' \<Longrightarrow> approx (deliverEscalationToWaiters env rec code payload) (deliverEscalationToWaiters env rec' code payload)"
  unfolding deliverEscalationToWaiters_def by (intro approx_intros | assumption | erule calls_leD)+

lemma publishEscalation_mono [approx_intros]:
  "calls_le rec rec' \<Longrightarrow> approx (publishEscalation env rec code payload) (publishEscalation env rec' code payload)"
  unfolding publishEscalation_def by (intro approx_intros | assumption | erule calls_leD)+

lemma PublishEscalation_mono [approx_intros]:
  "calls_le rec rec' \<Longrightarrow> approx (PublishEscalation env rec code0 payload) (PublishEscalation env rec' code0 payload)"
  unfolding PublishEscalation_def by (intro approx_intros | assumption | erule calls_leD)+

section \<open>Fan-outs\<close>

lemma checkConditionalCatch_mono [approx_intros]:
  "calls_le rec rec' \<Longrightarrow> approx (checkConditionalCatch env rec el) (checkConditionalCatch env rec' el)"
  unfolding checkConditionalCatch_def by (intro approx_intros | assumption | erule calls_leD)+

lemma checkConditionalStart_mono [approx_intros]:
  "calls_le rec rec' \<Longrightarrow> approx (checkConditionalStart env rec el) (checkConditionalStart env rec' el)"
  unfolding checkConditionalStart_def by (intro approx_intros | assumption | erule calls_leD)+

lemma CheckConditionals_mono [approx_intros]:
  "calls_le rec rec' \<Longrightarrow> approx (CheckConditionals env rec) (CheckConditionals env rec')"
  unfolding CheckConditionals_def by (intro approx_intros | assumption | erule calls_leD)+

lemma signalCatch_mono [approx_intros]:
  "calls_le rec rec' \<Longrightarrow> approx (signalCatch env rec el payload wfd st) (signalCatch env rec' el payload wfd st)"
  unfolding signalCatch_def by (intro approx_intros | assumption | erule calls_leD)+

lemma signalBoundary_mono [approx_intros]:
  "calls_le rec rec' \<Longrightarrow> approx (signalBoundary env rec payload wfd activity b) (signalBoundary env rec' payload wfd activity b)"
  unfolding signalBoundary_def by (intro approx_intros | assumption | erule calls_leD)+

lemma processSignalForElement_mono [approx_intros]:
  "calls_le rec rec' \<Longrightarrow> approx (processSignalForElement env rec el name payload) (processSignalForElement env rec' el name payload)"
  unfolding processSignalForElement_def by (intro approx_intros | assumption | erule calls_leD)+

lemma PublishSignal_mono [approx_intros]:
  "calls_le rec rec' \<Longrightarrow> approx (PublishSignal env rec name payload) (PublishSignal env rec' name payload)"
  unfolding PublishSignal_def by (intro approx_intros | assumption | erule calls_leD)+

lemma publishSignal_mono [approx_intros]:
  "calls_le rec rec' \<Longrightarrow> approx (publishSignal env rec name payload) (publishSignal env rec' name payload)"
  unfolding publishSignal_def by (intro approx_intros | assumption | erule calls_leD)+

lemma messageCatch_mono [approx_intros]:
  "calls_le rec rec' \<Longrightarrow> approx (messageCatch env rec sub payload wfd st) (messageCatch env rec' sub payload wfd st)"
  unfolding messageCatch_def by (intro approx_intros | assumption | erule calls_leD)+

lemma messageBoundary_mono [approx_intros]:
  "calls_le rec rec' \<Longrightarrow> approx (messageBoundary env rec sub payload wfd st) (messageBoundary env rec' sub payload wfd st)"
  unfolding messageBoundary_def by (intro approx_intros | assumption | erule calls_leD)+

lemma processMessageSubscription_mono [approx_intros]:
  "calls_le rec rec' \<Longrightarrow> approx (processMessageSubscription env rec sub payload) (processMessageSubscription env rec' sub payload)"
  unfolding processMessageSubscription_def by (intro approx_intros | assumption | erule calls_leD)+

lemma PublishMessage_mono [approx_intros]:
  "calls_le rec rec' \<Longrightarrow> approx (PublishMessage env rec name ck payload) (PublishMessage env rec' name ck payload)"
  unfolding PublishMessage_def by (intro approx_intros | assumption | erule calls_leD)+

lemma publishMessage_mono [approx_intros]:
  "calls_le rec rec' \<Longrightarrow> approx (publishMessage env rec name ck payload) (publishMessage env rec' name ck payload)"
  unfolding publishMessage_def by (intro approx_intros | assumption | erule calls_leD)+

lemma timerCatch_mono [approx_intros]:
  "calls_le rec rec' \<Longrightarrow> approx (timerCatch env rec t wfd st) (timerCatch env rec' t wfd st)"
  unfolding timerCatch_def by (intro approx_intros | assumption | erule calls_leD)+

lemma timerBoundary_mono [approx_intros]:
  "calls_le rec rec' \<Longrightarrow> approx (timerBoundary env rec t wfd st) (timerBoundary env rec' t wfd st)"
  unfolding timerBoundary_def by (intro approx_intros | assumption | erule calls_leD)+

lemma timerEventSubProcess_mono [approx_intros]:
  "calls_le rec rec' \<Longrightarrow> approx (timerEventSubProcess env rec t wfd st) (timerEventSubProcess env rec' t wfd st)"
  unfolding timerEventSubProcess_def by (intro approx_intros | assumption | erule calls_leD)+

lemma processTimerStartDefinition_mono [approx_intros]:
  "calls_le rec rec' \<Longrightarrow> approx (processTimerStartDefinition env rec t) (processTimerStartDefinition env rec' t)"
  unfolding processTimerStartDefinition_def by (intro approx_intros | assumption | erule calls_leD)+

lemma processTimer_mono [approx_intros]:
  "calls_le rec rec' \<Longrightarrow> approx (processTimer env rec t) (processTimer env rec' t)"
  unfolding processTimer_def by (intro approx_intros | assumption | erule calls_leD)+

lemma CheckTimers_mono [approx_intros]:
  "calls_le rec rec' \<Longrightarrow> approx (CheckTimers env rec) (CheckTimers env rec')"
  unfolding CheckTimers_def by (intro approx_intros | assumption | erule calls_leD)+

lemma slaBreach_mono [approx_intros]:
  "calls_le rec rec' \<Longrightarrow> approx (slaBreach env rec now j) (slaBreach env rec' now j)"
  unfolding slaBreach_def by (intro approx_intros | assumption | erule calls_leD)+

lemma CheckSLAs_mono [approx_intros]:
  "calls_le rec rec' \<Longrightarrow> approx (CheckSLAs env rec) (CheckSLAs env rec')"
  unfolding CheckSLAs_def by (intro approx_intros | assumption | erule calls_leD)+

section \<open>Executors of tasks\<close>

lemma runServiceHandler_mono [approx_intros]:
  "calls_le rec rec' \<Longrightarrow> approx (runServiceHandler env rec h j st execID wfd) (runServiceHandler env rec' h j st execID wfd)"
  unfolding runServiceHandler_def by (intro approx_intros | assumption | erule calls_leD)+

lemma executeServiceTask_mono [approx_intros]:
  "calls_le rec rec' \<Longrightarrow> approx (executeServiceTask env rec st execID wfd) (executeServiceTask env rec' st execID wfd)"
  unfolding executeServiceTask_def by (intro approx_intros | assumption | erule calls_leD)+

lemma executeSendTask_mono [approx_intros]:
  "calls_le rec rec' \<Longrightarrow> approx (executeSendTask env rec st execID wfd) (executeSendTask env rec' st execID wfd)"
  unfolding executeSendTask_def by (intro approx_intros | assumption | erule calls_leD)+

lemma executeScriptTask_mono [approx_intros]:
  "calls_le rec rec' \<Longrightarrow> approx (executeScriptTask env rec st execID wfd) (executeScriptTask env rec' st execID wfd)"
  unfolding executeScriptTask_def by (intro approx_intros | assumption | erule calls_leD)+

lemma executeBusinessRuleTask_mono [approx_intros]:
  "calls_le rec rec' \<Longrightarrow> approx (executeBusinessRuleTask env rec st execID wfd) (executeBusinessRuleTask env rec' st execID wfd)"
  unfolding executeBusinessRuleTask_def by (intro approx_intros | assumption | erule calls_leD)+

lemma executeSubProcess_mono [approx_intros]:
  "calls_le rec rec' \<Longrightarrow> approx (executeSubProcess env rec st execID wfd) (executeSubProcess env rec' st execID wfd)"
  unfolding executeSubProcess_def by (intro approx_intros | assumption | erule calls_leD)+

lemma executeCallActivity_mono [approx_intros]:
  "calls_le rec rec' \<Longrightarrow> approx (executeCallActivity env rec st execID wfd) (executeCallActivity env rec' st execID wfd)"
  unfolding executeCallActivity_def by (intro approx_intros | assumption | erule calls_leD)+

section \<open>Executors of events and gateways\<close>

lemma runCompensationHandler_mono [approx_intros]:
  "calls_le rec rec' \<Longrightarrow> approx (runCompensationHandler env rec scopeID scopeKey wfd handlerID) (runCompensationHandler env rec' scopeID scopeKey wfd handlerID)"
  unfolding runCompensationHandler_def by (intro approx_intros | assumption | erule calls_leD)+

lemma TriggerCompensation_mono [approx_intros]:
  "calls_le rec rec' \<Longrightarrow> approx (TriggerCompensation env rec scopeID activityRef wfd) (TriggerCompensation env rec' scopeID activityRef wfd)"
  unfolding TriggerCompensation_def by (intro approx_intros | assumption | erule calls_leD)+

lemma cancelTransactionScope_mono [approx_intros]:
  "calls_le rec rec' \<Longrightarrow> approx (cancelTransactionScope env rec transactionExecID wfd) (cancelTransactionScope env rec' transactionExecID wfd)"
  unfolding cancelTransactionScope_def by (intro approx_intros | assumption | erule calls_leD)+

lemma executeIntermediateCatchEvent_mono [approx_intros]:
  "calls_le rec rec' \<Longrightarrow> approx (executeIntermediateCatchEvent env rec st execID wfd) (executeIntermediateCatchEvent env rec' st execID wfd)"
  unfolding executeIntermediateCatchEvent_def by (intro approx_intros | assumption | erule calls_leD)+

lemma executeStartEvent_mono [approx_intros]:
  "calls_le rec rec' \<Longrightarrow> approx (executeStartEvent env rec st execID wfd) (executeStartEvent env rec' st execID wfd)"
  unfolding executeStartEvent_def by (intro approx_intros | assumption | erule calls_leD)+

lemma compensateFrom_mono [approx_intros]:
  "calls_le rec rec' \<Longrightarrow> approx (compensateFrom env rec st execID wfd) (compensateFrom env rec' st execID wfd)"
  unfolding compensateFrom_def by (intro approx_intros | assumption | erule calls_leD)+

lemma throwLink_mono [approx_intros]:
  "calls_le rec rec' \<Longrightarrow> approx (throwLink env rec st linkName execID wfd) (throwLink env rec' st linkName execID wfd)"
  unfolding throwLink_def by (intro approx_intros | assumption | erule calls_leD)+

lemma throwEscalation_mono [approx_intros]:
  "calls_le rec rec' \<Longrightarrow> approx (throwEscalation env rec code wfd) (throwEscalation env rec' code wfd)"
  unfolding throwEscalation_def by (intro approx_intros | assumption | erule calls_leD)+

lemma executeIntermediateThrowEvent_mono [approx_intros]:
  "calls_le rec rec' \<Longrightarrow> approx (executeIntermediateThrowEvent env rec st execID wfd) (executeIntermediateThrowEvent env rec' st execID wfd)"
  unfolding executeIntermediateThrowEvent_def Let_def by (intro approx_intros | assumption | erule calls_leD)+

lemma executeGateway_mono [approx_intros]:
  "calls_le rec rec' \<Longrightarrow> approx (executeGateway env rec st execID wfd) (executeGateway env rec' st execID wfd)"
  unfolding executeGateway_def by (intro approx_intros | assumption | erule calls_leD)+

lemma endEventEffects_mono [approx_intros]:
  "calls_le rec rec' \<Longrightarrow> approx (endEventEffects env rec st execID wfd) (endEventEffects env rec' st execID wfd)"
  unfolding endEventEffects_def by (intro approx_intros | assumption | erule calls_leD)+

lemma executeEndEvent_mono [approx_intros]:
  "calls_le rec rec' \<Longrightarrow> approx (executeEndEvent env rec st execID wfd) (executeEndEvent env rec' st execID wfd)"
  unfolding executeEndEvent_def by (intro approx_intros | assumption | erule calls_leD)+

lemma handleBoundaryError_mono [approx_intros]:
  "calls_le rec rec' \<Longrightarrow> approx (handleBoundaryError env rec st execID wfd err) (handleBoundaryError env rec' st execID wfd err)"
  unfolding handleBoundaryError_def by (intro approx_intros | assumption | erule calls_leD)+

lemma executor_mono:
  assumes le: "calls_le rec rec'"
    and "executor env rec st i wfd ty = Some m" and "executor env rec' st i wfd ty = Some m'"
  shows "approx m m'"
  using assms by (cases ty) (auto intro!: approx_intros)

lemma executor_none: "executor env rec st i wfd ty = None \<longleftrightarrow> executor env rec' st i wfd ty = None"
  by (cases ty) auto

lemma executor_case_mono [approx_intros]:
  assumes le: "calls_le rec rec'" and "approx a a'" and k: "\<And>m m'. approx m m' \<Longrightarrow> approx (k m) (k' m')"
  shows "approx (case executor env rec st i wfd ty of None \<Rightarrow> a | Some m \<Rightarrow> k m)
    (case executor env rec' st i wfd ty of None \<Rightarrow> a' | Some m \<Rightarrow> k' m)"
  using assms executor_none [of env rec st i wfd ty rec'] executor_mono [OF le, of env st i wfd ty]
  by (auto split: option.split)

lemma autoAdvance_mono [approx_intros]:
  "calls_le rec rec' \<Longrightarrow> approx (autoAdvance env rec execID wfd) (autoAdvance env rec' execID wfd)"
  unfolding autoAdvance_def by (intro approx_intros | assumption | erule calls_leD)+

section \<open>Workers and users\<close>

lemma completeToken_mono [approx_intros]:
  "calls_le rec rec' \<Longrightarrow> approx (completeToken env rec ex wfd) (completeToken env rec' ex wfd)"
  unfolding completeToken_def by (intro approx_intros | assumption | erule calls_leD)+

lemma completeTask_mono [approx_intros]:
  "calls_le rec rec' \<Longrightarrow> approx (completeTask env rec instanceID stepID) (completeTask env rec' instanceID stepID)"
  unfolding completeTask_def by (intro approx_intros | assumption | erule calls_leD)+

lemma completeExecution_mono [approx_intros]:
  "calls_le rec rec' \<Longrightarrow> approx (completeExecution env rec instanceID executionID) (completeExecution env rec' instanceID executionID)"
  unfolding completeExecution_def by (intro approx_intros | assumption | erule calls_leD)+

lemma CompleteTask_mono [approx_intros]:
  "calls_le rec rec' \<Longrightarrow> approx (CompleteTask env rec instanceID stepID) (CompleteTask env rec' instanceID stepID)"
  unfolding CompleteTask_def by (intro approx_intros | assumption | erule calls_leD)+

lemma CompleteExecution_mono [approx_intros]:
  "calls_le rec rec' \<Longrightarrow> approx (CompleteExecution env rec instanceID executionID) (CompleteExecution env rec' instanceID executionID)"
  unfolding CompleteExecution_def by (intro approx_intros | assumption | erule calls_leD)+

lemma completeJob_tx_mono [approx_intros]:
  "calls_le rec rec' \<Longrightarrow> approx (completeJob_tx env rec jobKey worker vs) (completeJob_tx env rec' jobKey worker vs)"
  unfolding completeJob_tx_def by (intro approx_intros | assumption | erule calls_leD)+

lemma CompleteJob_mono [approx_intros]:
  "calls_le rec rec' \<Longrightarrow> approx (CompleteJob env rec jobKey worker vs) (CompleteJob env rec' jobKey worker vs)"
  unfolding CompleteJob_def by (intro approx_intros | assumption | erule calls_leD)+

lemma completeUserTask_tx_mono [approx_intros]:
  "calls_le rec rec' \<Longrightarrow> approx (completeUserTask_tx env rec instanceID executionID owner force) (completeUserTask_tx env rec' instanceID executionID owner force)"
  unfolding completeUserTask_tx_def by (intro approx_intros | assumption | erule calls_leD)+

lemma CompleteUserTask_mono [approx_intros]:
  "calls_le rec rec' \<Longrightarrow> approx (CompleteUserTask env rec instanceID executionID owner0 force) (CompleteUserTask env rec' instanceID executionID owner0 force)"
  unfolding CompleteUserTask_def by (intro approx_intros | assumption | erule calls_leD)+

section \<open>The knot\<close>

lemma engine_step_mono: "calls_le rec rec' \<Longrightarrow> calls_le (engine_step env rec) (engine_step env rec')"
  by (auto simp: calls_le_def engine_step_def split: call.split intro!: proceedToken_mono autoAdvance_mono)

lemma run_Suc: "calls_le (run env n) (run env (Suc n))"
proof (induction n)
  case 0
  then show ?case by (simp add: calls_le_def approx_diverge)
next
  case (Suc n)
  then have "calls_le (engine_step env (run env n)) (engine_step env (run env (Suc n)))" by (rule engine_step_mono)
  then show ?case by simp
qed

lemma run_mono: "n \<le> m \<Longrightarrow> calls_le (run env n) (run env m)"
proof (induction m rule: dec_induct)
  case base
  then show ?case by (simp add: calls_le_def approx_refl)
next
  case (step k)
  with run_Suc [of env k] show ?case by (auto simp: calls_le_def intro: approx_trans)
qed

lemma drop_result_mono [approx_intros]: "approx m m' \<Longrightarrow> approx (drop_result m) (drop_result m')"
  unfolding drop_result_def by (intro approx_intros | assumption)+

lemma serve_mono: "n \<le> m \<Longrightarrow> approx (serve env n q) (serve env m q)"
  by (cases q) (auto intro!: approx_intros run_mono)

end
