(* ===== verification/KeyProps.thy ===== *)
theory KeyProps
  imports Ident
begin

unbundle bit_operations_syntax

text \<open>
  The properties of keys (\<open>backend/libs/id/id.go\<close>, \<open>generateDeterministicKey\<close>): snowflake keys increase, carry their time, node and sequence number,
  and their generation ends when the clock moves on.
\<close>

section \<open>Order\<close>

lemma fresh_node_in_range: "NewNode k = Inr n \<Longrightarrow> ms_in_range (nd_timestamp n)"
  by (auto simp: NewNode_def ms_in_range_def snowflake_epoch_def split: if_splits)

text \<open>C38: the keys of a fresh node are strictly increasing, hence distinct, however its clock behaves: it may
  stand still, jump and run backwards, as long as it stays in the 41 bits of the key's time.\<close>

theorem snowflake_keys_increase:
  assumes "NewNode k = Inr n" and "clock_in_range clk" and "generate_many c clk n p = Some (ks, n', p')"
  shows "length ks = c \<and> sorted_wrt (<) ks \<and> distinct ks"
proof -
  have "length ks = c" using assms(3)
    by (induction c arbitrary: n p ks) (auto split: option.splits)
  moreover have "sorted_wrt (<) ks"
    using generate_many_sorted [OF assms(3) NewNode_ok assms(2) fresh_node_in_range] assms(1) by blast
  ultimately show ?thesis by (auto simp: strict_sorted_iff)
qed

text \<open>A clock that jumps back by two milliseconds after the first reading.\<close>

definition jumpy_clock :: "nat \<Rightarrow> int" where
  "jumpy_clock p = (if p = 0 then 1704067200005000000 else 1704067200003000000)"

lemma jumpy_keys:
  "generate_many 3 jumpy_clock \<lparr>nd_timestamp = 0, nd_node = 7, nd_step = 0\<rparr> 0 =
     Some ([21000192, 21000193, 21000194], \<lparr>nd_timestamp = 1704067200005, nd_node = 7, nd_step = 2\<rparr>, 3)"
  by code_simp

theorem snowflake_keys_increase_witness: "sorted_wrt (<) [21000192, 21000193, 21000194 :: int]"
proof -
  have "clock_in_range jumpy_clock"
    by (simp add: clock_in_range_def jumpy_clock_def snowflake_epoch_def unix_milli_def)
  then show ?thesis
    using snowflake_keys_increase [of 7 "\<lparr>nd_timestamp = 0, nd_node = 7, nd_step = 0\<rparr>" jumpy_clock, OF _ _ jumpy_keys]
    by (simp add: NewNode_def nodeMax_def)
qed

section \<open>Layout\<close>

text \<open>A key is a time, a node and a sequence number packed in 63 bits: each is read back from its bits.\<close>

theorem snowflake_key_fields:
  assumes "ms_in_range t" and "0 \<le> nd" and "nd \<le> nodeMax" and "0 \<le> st" and "st \<le> stepMax"
  shows "drop_bit 22 (snowflake_key t nd st) + snowflake_epoch = t \<and>
     take_bit 10 (drop_bit 12 (snowflake_key t nd st)) = nd \<and>
     take_bit 12 (snowflake_key t nd st) = st"
proof -
  let ?k = "snowflake_key t nd st" and ?d = "t - snowflake_epoch"
  have k: "?k = (?d * 1024 + nd) * 4096 + st"
    using snowflake_key_arith [OF assms] by (simp add: algebra_simps)
  have st: "st < 4096" and nd: "nd < 1024" using assms by (simp_all add: stepMax_def nodeMax_def)
  define x where "x = ?d * 1024 + nd"
  have "?k = x * 4096 + st" unfolding x_def by (rule k)
  with assms(4) st have "?k div 4096 = x" "?k mod 4096 = st"
    by (linarith, metis mod_mult_self3 mod_pos_pos_trivial)
  then have hi: "?k div 4096 = ?d * 1024 + nd" and lo: "?k mod 4096 = st" by (simp_all add: x_def)
  have "drop_bit 22 ?k = ?k div 4096 div 1024"
    by (simp add: drop_bit_eq_div zdiv_zmult2_eq [symmetric])
  also have "\<dots> = ?d" using assms(2) nd by (simp add: hi)
  finally have "drop_bit 22 ?k + snowflake_epoch = t" by simp
  moreover have "take_bit 10 (drop_bit 12 ?k) = nd"
    using assms(2) nd by (simp add: drop_bit_eq_div take_bit_eq_mod hi del: left_diff_distrib_numeral)
  moreover have "take_bit 12 ?k = st"
    using lo by (simp add: take_bit_eq_mod)
  ultimately show ?thesis by blast
qed

theorem snowflake_key_fields_witness:
  "drop_bit 22 (snowflake_key 1704067200005 7 2) + snowflake_epoch = 1704067200005"
  by (rule snowflake_key_fields [THEN conjunct1])
    (simp_all add: ms_in_range_def snowflake_epoch_def nodeMax_def stepMax_def)

section \<open>Termination of the wait\<close>

text \<open>When the sequence of a millisecond is exhausted the generator waits for the clock; it returns as soon
  as the clock has one later reading that is past the node's millisecond.\<close>

theorem generation_returns:
  assumes "p < q" and "nd_timestamp n < unix_milli (clk q)"
  shows "\<exists>k n' p'. Generate clk n p = Some (k, n', p')"
proof -
  obtain d where "q = Suc p + d" using assms(1) by (metis less_iff_Suc_add add_Suc)
  with assms(2) obtain r where "wait_next_ms clk (nd_timestamp n) (Suc p) = Some r"
    using wait_next_ms_returns by metis
  then show ?thesis by (cases r) (auto simp: Generate_def Let_def)
qed

theorem generation_returns_witness:
  "\<exists>k n' p'. Generate (\<lambda>p. 1704067200000000000 + 1000000 * int (p div 5))
     \<lparr>nd_timestamp = 1704067200000, nd_node = 0, nd_step = 4095\<rparr> 0 = Some (k, n', p')"
  by (rule generation_returns [of _ 5]) (simp_all add: unix_milli_def)

section \<open>Deterministic keys and decimal keys\<close>

text \<open>A deterministic key is never negative and fits a signed 64-bit column, whatever the text it is made of.\<close>

lemma deterministic_keys_fit: "0 \<le> generateDeterministicKey s \<and> in_int64 (generateDeterministicKey s)"
  using generateDeterministicKey_range [of s] by (simp add: in_int64_def)

end
