(* ===== verification/Demo.thy ===== *)
theory Demo
  imports Engine "HOL-Library.Code_Target_Nat"
begin

text \<open>
  A concrete engine for the witnesses: an environment, a store with one running instance of a process of
  one user task, and one request evaluated on it by the simplifier. A user who has claimed the task
  completes it: the job, the token and the instance are completed, and two events are published and
  recorded.
\<close>

definition demo_env :: env where
  "demo_env = \<lparr>env_clock = (\<lambda>n. 1704067200000000000 + 1000000 * int n), env_uuid = (\<lambda>n. ''u'' @ show_nat n),
     env_db_fault = (\<lambda>_. False), env_pub_fault = (\<lambda>_. False), env_handlers = (\<lambda>_. None),
     env_js = (\<lambda>_ _ _. JsError ''runtime'' ''no script''), env_parse_bpmn = (\<lambda>_. Inl (Msg ''no xml'')),
     env_parse_steps = (\<lambda>_. Inl (Msg ''no json'')), env_parse_decision = (\<lambda>_. Inl (Msg ''no json'')),
     env_sha256 = (\<lambda>_. ''sum''), env_outbox_max = 10\<rparr>"

definition demo_process :: process where
  "demo_process = \<lparr>pr_key = 3, pr_bpmn_process_id = ''review'', pr_version = 1, pr_resource_name = ''r'',
     pr_deployment_key = 4, pr_resource = ResSteps [plain_step ''task'' StepTypeUserTask [] []],
     pr_checksum = ''sum'', pr_tenant_id = ''default'', pr_created_at = 0\<rparr>"

definition demo_instance :: process_instance where
  "demo_instance = \<lparr>pi_key = 7, pi_id = ''i7'', pi_definition_key = 3, pi_version = 1, pi_parent_instance_key = 0,
     pi_parent_element_key = 0, pi_state = ''ACTIVE'', pi_created_at = 10, pi_end_time = zero_time\<rparr>"

definition demo_element :: element_instance where
  "demo_element = \<lparr>ei_key = 9, ei_id = ''e9'', ei_instance_key = 7, ei_definition_key = 3, ei_element_id = ''task'',
     ei_type = ''USER_TASK'', ei_flow_scope_key = 7, ei_state = ''ACTIVATED'', ei_created_at = 11,
     ei_end_time = zero_time\<rparr>"

definition demo_job :: job where
  "demo_job = \<lparr>jb_key = 5, jb_id = ''j5'', jb_type = UserTaskJobType, jb_instance_key = 7, jb_element_key = 9,
     jb_definition_key = 3, jb_element_id = ''task'', jb_worker = ''ann'', jb_retries = 3, jb_state = ''ACTIVATED'',
     jb_assignee = [], jb_candidate_users = [], jb_candidate_groups = [], jb_lock_until = None,
     jb_due_date = zero_time, jb_breached_at = None, jb_created_at = 12, jb_updated_at = 12\<rparr>"

definition demo_db :: db where
  "demo_db = empty_db\<lparr>db_processes := [demo_process], db_instances := [demo_instance],
     db_elements := [demo_element], db_jobs := [demo_job]\<rparr>"

definition demo_state :: "db \<Rightarrow> est" where
  "demo_state d = \<lparr>s_db = d, s_calls = 0, s_clock = 0, s_uuids = 0,
     s_node = \<lparr>nd_timestamp = 0, nd_node = 1, nd_step = 0\<rparr>, s_buf = None, s_bus = [], s_pubs = 0,
     s_metrics = zero_metrics, s_inst = empty_instance, s_memo = []\<rparr>"

definition demo_before :: est where
  "demo_before = demo_state demo_db"

definition demo_request :: request where
  "demo_request = CompleteUserTaskReq ''7'' ''9'' ''ann'' False"

text \<open>The state the request leaves, and the run.\<close>

definition demo_events :: "(event \<times> string) list" where
  "demo_events = [(ElementInstanceCompleted 9 7 ''task'' 1704067200002000000, ''ElementInstanceCompleted''),
     (ProcessInstanceCompleted 7 3 1704067200003000000, ''ProcessInstanceCompleted'')]"

definition demo_after :: est where
  "demo_after = demo_before\<lparr>s_db := demo_db\<lparr>
       db_instances := [demo_instance\<lparr>pi_state := ''COMPLETED'', pi_end_time := 1704067200003000000\<rparr>],
       db_elements := [demo_element\<lparr>ei_state := ''COMPLETED'', ei_end_time := 1704067200002000000\<rparr>],
       db_jobs := [demo_job\<lparr>jb_state := ''COMPLETED'', jb_updated_at := 1704067200000000000\<rparr>],
       db_outbox := [published_row 1704067200006000000 (outbox_row ''u0'' 1704067200004000000 (demo_events ! 0)),
         published_row 1704067200007000000 (outbox_row ''u1'' 1704067200005000000 (demo_events ! 1))]\<rparr>,
     s_calls := 16, s_clock := 9, s_uuids := 2, s_bus := demo_events, s_pubs := 2,
     s_metrics := zero_metrics\<lparr>mt_publish_success := 2\<rparr>\<rparr>"

lemma demo_run: "serve demo_env 3 demo_request demo_before = (Ok (), demo_after)"
  by code_simp

lemma demo_served: "served demo_env demo_before demo_after"
  by (rule served_request [OF served_nothing demo_run]) simp

text \<open>A deployment into an empty store.\<close>

definition life_steps :: "step list" where
  "life_steps = [plain_step ''start'' StepTypeStart [] [flow ''f1'' ''task''],
     plain_step ''task'' StepTypeUserTask [''start''] [flow ''f2'' ''end''],
     plain_step ''end'' StepTypeEnd [''task''] []]"

definition life_deployed :: est where
  "life_deployed = (demo_state empty_db)\<lparr>s_db := empty_db\<lparr>db_processes := [
       \<lparr>pr_key = 4096, pr_bpmn_process_id = ''u0'', pr_version = 1, pr_resource_name = ''life'',
        pr_deployment_key = 4198400, pr_resource = ResSteps life_steps, pr_checksum = ''sum'',
        pr_tenant_id = ''default'', pr_created_at = 1704067200002000000\<rparr>]\<rparr>,
     s_calls := 6, s_clock := 4, s_uuids := 2,
     s_node := \<lparr>nd_timestamp = 1704067200001, nd_node = 1, nd_step = 0\<rparr>\<rparr>"

lemma life_deploy: "administer demo_env (DeployReq ''life'' life_steps) (demo_state empty_db) = (Ok (), life_deployed)"
  by code_simp

text \<open>The same request when the commit fails, and a transaction that only publishes.\<close>

definition failing_env :: env where
  "failing_env = demo_env\<lparr>env_db_fault := (\<lambda>n. n = 11)\<rparr>"

lemma failing_run: "fst (serve failing_env 3 demo_request demo_before) = Error DbErr"
  by code_simp

lemma publish_run:
  "fst (withTx demo_env (Publish demo_env (JobActivated 5 ''w'' 9) ''JobActivated'') demo_before) = Ok ()"
  by code_simp

text \<open>A row that waits in the outbox, and the relay.\<close>

definition demo_pending :: est where
  "demo_pending = demo_state (empty_db\<lparr>db_outbox :=
     [outbox_row ''u9'' 5 (JobActivated 5 ''w'' 9, ''JobActivated'')]\<rparr>)"

lemma relay_run: "fst (serve demo_env 0 (RelayReq 10) demo_pending) = Ok ()"
  by code_simp

end
