(* ===== verification/FlowProps.thy ===== *)
theory FlowProps
  imports Demo
begin

text \<open>
  The properties of gateways (\<open>gateway_logic.go\<close>), step lookup (\<open>navigation.go\<close>, \<open>tier2_events.go\<close>),
  decision tables (\<open>libs/dmn/table.go\<close>, \<open>decisions.go\<close>) and timers (\<open>timer_schedule.go\<close>).
\<close>

section \<open>Lookup and reachability\<close>

text \<open>C13: the worklist search of the inclusive join decides reachability in the graph of sequence flows: it
  answers true exactly for the steps that a path of flows leads to, and it always terminates.\<close>

theorem search_decides_reachability: "canReach a b ss \<longleftrightarrow> (a, b) \<in> (flow_edges ss)\<^sup>*"
  by (rule canReach_iff)

text \<open>The engine's two recursive lookups of a step by id are the same function: both give the first step with
  that id in the order in which the definition is written, sub-process contents included.\<close>

theorem step_lookups_agree:
  "findStep ss i = findStepDeep ss i \<and> findStep ss i = List.find (\<lambda>s. st_id s = i) (all_steps ss)"
  using findStepDeep_eq(1) findStep_all_steps(1) by simp

section \<open>Gateways\<close>

lemma find_first:
  "List.find P xs = Some x \<longleftrightarrow> (\<exists>i < length xs. x = xs ! i \<and> P x \<and> (\<forall>j < i. \<not> P (xs ! j)))"
  by (auto simp: find_Some_iff)

lemma default_target_single: "default_target st = [] \<or> (\<exists>t \<in> set (st_outgoing st).
    tr_id t = st_default_flow st \<and> st_default_flow st \<noteq> [] \<and> default_target st = [tr_target t])"
  by (auto simp: default_target_def find_Some_iff split: option.split)

text \<open>An exclusive gateway sends the token along exactly one flow: the first one, in the order of the
  definition, that is not the default and whose condition holds; the default only when there is none; and
  it fails only when there is neither.\<close>

theorem exclusive_gateway_takes_one:
  assumes "st_type st = StepTypeGatewayExclusive"
  shows "(case determineNextStepIDs env ctx st of
      Inr targets \<Rightarrow> \<exists>t \<in> set (st_outgoing st). targets = [tr_target t] \<and>
        (is_default_flow st t \<and> (\<forall>u \<in> set (st_outgoing st). \<not> is_default_flow st u \<longrightarrow> \<not> takes env ctx u) \<or>
         (\<exists>i < length (st_outgoing st). t = st_outgoing st ! i \<and> \<not> is_default_flow st t \<and> takes env ctx t \<and>
            (\<forall>j < i. is_default_flow st (st_outgoing st ! j) \<or> \<not> takes env ctx (st_outgoing st ! j))))
    | Inl _ \<Rightarrow> \<forall>t \<in> set (st_outgoing st). \<not> is_default_flow st t \<and> \<not> takes env ctx t)"
proof (cases "List.find (\<lambda>t. \<not> is_default_flow st t \<and> takes env ctx t) (st_outgoing st)")
  case (Some t)
  then obtain i where i: "i < length (st_outgoing st)" "t = st_outgoing st ! i" "\<not> is_default_flow st t" "takes env ctx t"
    "\<forall>j < i. is_default_flow st (st_outgoing st ! j) \<or> \<not> takes env ctx (st_outgoing st ! j)"
    by (auto simp: find_first)
  with Some assms show ?thesis by (auto simp: determineNextStepIDs_def intro!: bexI [of _ t])
next
  case None
  then have none: "\<forall>u \<in> set (st_outgoing st). \<not> is_default_flow st u \<longrightarrow> \<not> takes env ctx u"
    by (auto simp: find_None_iff)
  show ?thesis
  proof (cases "default_target st = []")
    case True
    then have "\<forall>t \<in> set (st_outgoing st). \<not> is_default_flow st t"
      by (auto simp: default_target_def is_default_flow_def find_None_iff split: if_splits option.splits)
    with True None none assms show ?thesis by (simp add: determineNextStepIDs_def)
  next
    case False
    with default_target_single [of st] obtain t where "t \<in> set (st_outgoing st)" "is_default_flow st t"
      "default_target st = [tr_target t]" by (auto simp: is_default_flow_def)
    with False None none assms show ?thesis by (auto simp: determineNextStepIDs_def intro!: bexI [of _ t])
  qed
qed

definition demo_gateway :: "step_type \<Rightarrow> step" where
  "demo_gateway ty = StepDef ''g'' ty ''g'' [''a'', ''b'']
     [(flow ''f1'' ''x'')\<lparr>tr_condition := ''false''\<rparr>, flow ''f2'' ''y'', flow ''f3'' ''z''] [] [] [] ''f3'' [] [] [] [] [] [] []"

theorem exclusive_gateway_takes_one_witness:
  "determineNextStepIDs demo_env [] (demo_gateway StepTypeGatewayExclusive) = Inr [''y'']"
proof -
  let ?g = "demo_gateway StepTypeGatewayExclusive"
  have f: "evaluateCondition demo_env ''false'' [] = False"
    by (simp add: evaluateCondition_def normalizeConditionForEvaluation_def rewriteSingleEqualsComparison_def
        scan_char_def head_or_nul_def trim_space_def is_space_def)
  have g: "st_type ?g = StepTypeGatewayExclusive" by (simp add: demo_gateway_def)
  show ?thesis
    using exclusive_gateway_takes_one [OF g, of demo_env "[]"] f
    by (auto simp: demo_gateway_def flow_def is_default_flow_def takes_def less_Suc_eq split: sum.splits)
qed

text \<open>C10: an inclusive join releases exactly when at least as many active tokens wait at it as it lists incoming
  steps, or no active token elsewhere can still reach it along sequence flows, and it then consumes all the
  tokens that wait at it, and none otherwise. (The code counts tokens, it does not look which flow each came by: two
  tokens over one flow count as two, and several flows from one step are listed as one.)\<close>

theorem inclusive_join_waits_for_reachable_tokens:
  assumes "st_type st = StepTypeGatewayInclusive"
  shows "fst (checkGatewayJoin exs st ss) =
      (length (st_incoming st) \<le> length (tokens_at (st_id st) exs) \<or>
       (\<forall>ex \<in> set exs. ex_status ex = ''ACTIVE'' \<and> ex_step_id ex \<noteq> st_id st \<longrightarrow>
          (ex_step_id ex, st_id st) \<notin> (flow_edges ss)\<^sup>*)) \<and>
    set (snd (checkGatewayJoin exs st ss)) =
      (if fst (checkGatewayJoin exs st ss)
       then {k. k < length exs \<and> ex_status (exs ! k) = ''ACTIVE'' \<and> ex_step_id (exs ! k) = st_id st} else {})"
  using assms
  by (auto simp: checkGatewayJoin_def Let_def others_can_reach_def canReach_iff list_ex_iff tokens_at_def)

definition demo_token :: "string \<Rightarrow> execution" where
  "demo_token i = \<lparr>ex_id = i, ex_step_id = i, ex_status = ''ACTIVE'', ex_parent_id = [],
     ex_start_time = 0, ex_element_key = 1\<rparr>"

lemma stuck_unreachable: "E `` {a} = {} \<Longrightarrow> a \<noteq> b \<Longrightarrow> (a, b) \<notin> E\<^sup>*"
  by (auto elim: converse_rtranclE)

theorem inclusive_join_waits_for_reachable_tokens_witness:
  "fst (checkGatewayJoin [demo_token ''g'', demo_token ''q''] (demo_gateway StepTypeGatewayInclusive)
     [demo_gateway StepTypeGatewayInclusive])"
proof -
  have "flow_edges [demo_gateway StepTypeGatewayInclusive] `` {''q''} = {}"
    by (auto simp: flow_edges_def step_map_def demo_gateway_def)
  then have "(''q'', ''g'') \<notin> (flow_edges [demo_gateway StepTypeGatewayInclusive])\<^sup>*"
    by (rule stuck_unreachable) simp
  then show ?thesis
    using inclusive_join_waits_for_reachable_tokens [of "demo_gateway StepTypeGatewayInclusive"
        "[demo_token ''g'', demo_token ''q'']" "[demo_gateway StepTypeGatewayInclusive]"]
    by (simp add: demo_gateway_def demo_token_def)
qed

text \<open>Preparing a condition for evaluation, which trims it and doubles a lone equals sign outside quotes, is
  idempotent: a prepared condition is evaluated as it is.\<close>

lemma prepared_conditions_are_stable:
  "normalizeConditionForEvaluation (normalizeConditionForEvaluation c) = normalizeConditionForEvaluation c"
  by (rule normalize_idem)

section \<open>Durations\<close>

lemma show_nat_digits: "\<forall>c \<in> set (show_nat n). is_digit c"
proof (induction n rule: show_nat.induct)
  case (1 n)
  then show ?case by (cases "n < 10") (auto simp: show_nat.simps [of n] digit_char_props)
qed

lemma lower_digit: "is_digit c \<Longrightarrow> lower_char c = c"
  by (auto simp: is_digit_def lower_char_def Let_def)

lemma to_lower_append: "to_lower (xs @ ys) = to_lower xs @ to_lower ys"
  by (simp add: to_lower_def)

lemma to_lower_Cons: "to_lower [] = []" "to_lower (c # s) = lower_char c # to_lower s"
  by (simp_all add: to_lower_def)

lemma lower_units: "lower_char CHR ''H'' = CHR ''h''" "lower_char CHR ''M'' = CHR ''m''" "lower_char CHR ''S'' = CHR ''s''"
  by code_simp+

lemma to_lower_show_nat: "to_lower (show_nat n) = show_nat n"
  using show_nat_digits [of n] by (auto simp: to_lower_def lower_digit intro!: map_idI)

lemma span_show_nat: "\<not> is_digit c \<Longrightarrow> span_digits (show_nat n @ c # r) = (show_nat n, c # r)"
  using show_nat_digits [of n] by (simp add: span_digits_def takeWhile_append2 dropWhile_append2)

lemma digits_val_show: "digits_val (show_nat n) = n"
  by (simp add: digits_val_def parse_show_nat)

text \<open>One number with a one-letter unit in front of another number or at the end.\<close>

lemma duration_item_show:
  assumes "duration_unit [c] = Some u" and "\<not> is_digit c" and "c \<noteq> CHR ''.''"
    and "r = [] \<or> is_digit (hd r)" and "0 < u" and "int n * u \<le> 2 ^ 63"
  shows "duration_item (show_nat n @ c # r) = Some (int n * u, r)"
proof -
  have "takeWhile (\<lambda>c. c \<noteq> CHR ''.'' \<and> \<not> is_digit c) (c # r) = [c]"
    "dropWhile (\<lambda>c. c \<noteq> CHR ''.'' \<and> \<not> is_digit c) (c # r) = r"
    using assms(2-4) by (cases r; simp)+
  moreover have "int n \<le> 2 ^ 63 div u"
    using zdiv_mono1 [OF assms(6,5)] assms(5) by simp
  moreover have "int n * 1 \<le> int n * u"
    using assms(5) by (intro mult_left_mono) simp_all
  with assms(6) have "int n \<le> 2 ^ 63" by linarith
  ultimately show ?thesis
    using assms(1,3,6) by (simp add: duration_item_def span_show_nat [OF assms(2)] digits_val_show Let_def)
qed

text \<open>C40: a duration printed in hours, minutes and seconds is read back as that many nanoseconds, when it fits
  Go's 64-bit durations.\<close>

theorem durations_roundtrip:
  assumes "3600 * h + 60 * m + s \<le> 9223372036"
  shows "parseISO8601Duration (''PT'' @ show_nat h @ ''H'' @ show_nat m @ ''M'' @ show_nat s @ ''S'') =
     Inr (int (3600 * h + 60 * m + s) * 1000000000)"
proof -
  let ?h = "int h * 3600000000000" and ?m = "int m * 60000000000" and ?s = "int s * 1000000000"
  let ?S = "show_nat s @ ''s''" let ?M = "show_nat m @ CHR ''m'' # ?S" let ?H = "show_nat h @ CHR ''h'' # ?M"
  have "3600 * int h + 60 * int m + int s \<le> 9223372036" using assms by linarith
  then have bnd: "?h \<le> 2 ^ 63" "?m \<le> 2 ^ 63" "?s \<le> 2 ^ 63" "?h + ?m \<le> 2 ^ 63" "?h + ?m + ?s \<le> 2 ^ 63 - 1"
    by simp_all
  have hd: "is_digit (hd (show_nat n @ r))" for n r using hd_show_nat_digit [of n] by simp
  have items: "duration_item ?H = Some (?h, ?M)" "duration_item ?M = Some (?m, ?S)" "duration_item ?S = Some (?s, [])"
    using bnd by (intro duration_item_show disjI2 hd disjI1 refl; simp add: duration_unit_def is_digit_def)+
  have "duration_items ?H 0 = Some (?h + ?m + ?s)"
    using bnd by (simp add: duration_items.simps items)
  moreover have "to_lower (drop 2 (''PT'' @ show_nat h @ ''H'' @ show_nat m @ ''M'' @ show_nat s @ ''S'')) = ?H"
    by (simp add: to_lower_append to_lower_show_nat to_lower_Cons lower_units)
  moreover have "hd ?H \<noteq> CHR ''-''" "hd ?H \<noteq> CHR ''+''"
    using hd_show_nat_digit [of h] by (auto simp: is_digit_def)
  moreover have "?H \<noteq> ''0''" by (cases "show_nat h") auto
  ultimately show ?thesis using bnd(5)
    by (simp add: parseISO8601Duration_def has_prefix_def ParseDuration_def Let_def algebra_simps)
qed

theorem durations_roundtrip_witness: "parseISO8601Duration ''PT1H30M15S'' = Inr 5415000000000"
proof -
  have "show_nat 1 = ''1''" "show_nat 30 = ''30''" "show_nat 15 = ''15''"
    by (simp_all add: show_nat.simps digit_char_def, code_simp+)
  with durations_roundtrip [of 1 30 15] show ?thesis by simp
qed

end
