(* ===== verification/Frame.thy ===== *)
theory Frame
  imports Engine
begin

text \<open>
  What the engine may do to its tables, and the locale with which properties of whole operations are
  proved. \<open>runtime_write\<close> is the step relation of the tables while instances run: one rule per kind of
  write; \<open>admin_write\<close> adds deployment, deletion, idempotency keys and the scheduler lease.

  The locale \<open>eng_frame\<close> takes a preorder on states that the primitives of the engine respect (the
  clock, the key generators, a write of the tables, publication, the scope of a transaction), and
  derives, definition by definition, that every operation respects it, whatever its outcome. The
  theories \<open>Invariants\<close> and \<open>Delivery\<close> interpret it.
\<close>

section \<open>Writes of the tables\<close>

inductive runtime_write :: "db \<Rightarrow> db \<Rightarrow> bool" where
  new_instance: "pi_state p = ''ACTIVE'' \<Longrightarrow> pi_key p \<notin> pi_key ` set (db_instances d) \<Longrightarrow>
      runtime_write d (d\<lparr>db_instances := db_instances d @ [p]\<rparr>)"
| complete_instance:
    "runtime_write d (d\<lparr>db_instances := update_rows (\<lambda>p. pi_key p = k)
        (\<lambda>p. p\<lparr>pi_state := ''COMPLETED'', pi_end_time := t\<rparr>) (db_instances d)\<rparr>)"
| new_element: "ei_state el = ''ACTIVATED'' \<Longrightarrow> ei_key el \<notin> ei_key ` set (db_elements d) \<Longrightarrow>
      runtime_write d (d\<lparr>db_elements := db_elements d @ [el]\<rparr>)"
| finish_element: "st = ''COMPLETED'' \<or> st = ''TERMINATED'' \<Longrightarrow>
      runtime_write d (d\<lparr>db_elements := update_rows (\<lambda>el. ei_key el = k)
        (\<lambda>el. el\<lparr>ei_state := st, ei_end_time := t\<rparr>) (db_elements d)\<rparr>)"
| write_variable: "runtime_write d (d\<lparr>db_variables := upsert_variable v (db_variables d)\<rparr>)"
| new_job: "jb_key j \<notin> jb_key ` set (db_jobs d) \<Longrightarrow> runtime_write d (d\<lparr>db_jobs := db_jobs d @ [j]\<rparr>)"
| write_job: "runtime_write d (d\<lparr>db_jobs := update_rows (\<lambda>r. jb_key r = jb_key j) (job_columns j) (db_jobs d)\<rparr>)"
| new_incident: "in_key inc \<notin> in_key ` set (db_incidents d) \<Longrightarrow>
      runtime_write d (d\<lparr>db_incidents := db_incidents d @ [inc]\<rparr>)"
| new_timer: "tm_key x \<notin> tm_key ` set (db_timers d) \<Longrightarrow>
      runtime_write d (d\<lparr>db_timers := db_timers d @ [x]\<rparr>)"
| write_timer:
    "runtime_write d (d\<lparr>db_timers := update_rows (\<lambda>r. tm_key r = tm_key (x :: timer))
        (\<lambda>r. r\<lparr>tm_state := tm_state x, tm_due_date := tm_due_date x, tm_repeat_count := tm_repeat_count x\<rparr>)
        (db_timers d)\<rparr>)"
| new_subscription: "su_key u \<notin> su_key ` set (db_subscriptions d) \<Longrightarrow>
      runtime_write d (d\<lparr>db_subscriptions := db_subscriptions d @ [u]\<rparr>)"
| write_subscription:
    "runtime_write d (d\<lparr>db_subscriptions := update_rows (\<lambda>r. su_key r = su_key (u :: subscription))
        (\<lambda>r. r\<lparr>su_state := su_state u\<rparr>) (db_subscriptions d)\<rparr>)"
| new_outbox: "i \<notin> ob_id ` set (db_outbox d) \<Longrightarrow>
      runtime_write d (d\<lparr>db_outbox := db_outbox d @ [outbox_row i t ev]\<rparr>)"
| claim_outbox:
    "runtime_write d (d\<lparr>db_outbox := update_rows (\<lambda>m. ob_id m = i \<and> claimable t m) (claim_row t) (db_outbox d)\<rparr>)"
| fail_outbox: "runtime_write d (d\<lparr>db_outbox := update_rows (\<lambda>m. ob_id m = i) (failed_row e t) (db_outbox d)\<rparr>)"
| give_up_outbox:
    "runtime_write d (d\<lparr>db_outbox := update_rows (\<lambda>m. ob_id m = i) (terminal_row e t) (db_outbox d)\<rparr>)"
| publish_outbox:
    "runtime_write d (d\<lparr>db_outbox := update_rows (\<lambda>m. ob_id m = i) (published_row t) (db_outbox d)\<rparr>)"

inductive admin_write :: "db \<Rightarrow> db \<Rightarrow> bool" where
  new_process: "pr_key p \<notin> pr_key ` set (db_processes d) \<Longrightarrow>
      admin_write d (d\<lparr>db_processes := db_processes d @ [p]\<rparr>)"
| drop_one_instance: "admin_write d (drop_instance k d)"
| drop_process: "admin_write d (d\<lparr>db_processes := filter (\<lambda>p. pr_key p \<noteq> k) (db_processes d)\<rparr>)"
| new_key: "(ir_key r, ir_operation r) \<notin> (\<lambda>x. (ir_key x, ir_operation x)) ` set (db_idempotency d) \<Longrightarrow>
      admin_write d (d\<lparr>db_idempotency := db_idempotency d @ [r]\<rparr>)"
| drop_keys: "admin_write d (d\<lparr>db_idempotency := filter keep (db_idempotency d)\<rparr>)"
| new_lease: "sl_id l = ''runtime-scheduler'' \<Longrightarrow>
      List.find (\<lambda>l. sl_id l = ''runtime-scheduler'') (db_leases d) = None \<Longrightarrow>
      admin_write d (d\<lparr>db_leases := db_leases d @ [l]\<rparr>)"
| take_lease: "sl_id l = ''runtime-scheduler'' \<Longrightarrow>
      admin_write d (d\<lparr>db_leases := update_rows (\<lambda>l. sl_id l = ''runtime-scheduler'') (\<lambda>_. l) (db_leases d)\<rparr>)"
| new_decision: "dd_key x \<notin> dd_key ` set (db_decisions d) \<Longrightarrow>
      admin_write d (d\<lparr>db_decisions := db_decisions d @ [x]\<rparr>)"
| write_decision: "admin_write d (d\<lparr>db_decisions := update_rows (\<lambda>x. dd_key x = k)
      (\<lambda>x. x\<lparr>dd_name := name, dd_version := v, dd_resource := res, dd_updated_at := t\<rparr>) (db_decisions d)\<rparr>)"

inductive_cases runtime_writeE: "runtime_write d e"
inductive_cases admin_writeE: "admin_write d e"

section \<open>The frame\<close>

named_theorems keeps_intros
  \<open>the states a computation leaves are related to the ones it started in\<close>

lemmas [keeps_intros] = keeps_cases

definition calls_keep :: "(est \<Rightarrow> est \<Rightarrow> bool) \<Rightarrow> calls \<Rightarrow> bool" where
  "calls_keep R rec \<longleftrightarrow> (\<forall>c. keeps R (rec c))"

lemma calls_keepD: "calls_keep R rec \<Longrightarrow> keeps R (rec c)"
  by (simp add: calls_keep_def)

lemma keeps_conj: "keeps (\<lambda>s t. A s t \<and> B s t) m \<longleftrightarrow> keeps A m \<and> keeps B m"
  by (auto simp: keeps_def)

locale eng_frame = preorder_on_states R for R :: "est \<Rightarrow> est \<Rightarrow> bool" +
  assumes R_calls: "R s (s\<lparr>s_calls := n\<rparr>)"
    and R_clock: "R s (s\<lparr>s_clock := p\<rparr>)"
    and R_node: "R s (s\<lparr>s_node := nd\<rparr>)"
    and R_uuids: "R s (s\<lparr>s_uuids := u\<rparr>)"
    and R_metrics: "R s (s\<lparr>s_metrics := mt\<rparr>)"
    and R_inst: "R s (s\<lparr>s_inst := w\<rparr>)"
    and R_memo: "R s (s\<lparr>s_memo := mm\<rparr>)"
    and R_buffer: "s_buf s = Some b \<Longrightarrow> R s (s\<lparr>s_buf := Some (b @ [x])\<rparr>)"
    and R_pubs: "s_buf s = None \<Longrightarrow> R s (s\<lparr>s_pubs := n\<rparr>)"
    and R_bus: "s_buf s = None \<Longrightarrow> R s (s\<lparr>s_bus := s_bus s @ [x]\<rparr>)"
    and R_scope: "R (s\<lparr>s_buf := Some []\<rparr>) t \<Longrightarrow> R s (t\<lparr>s_buf := s_buf s\<rparr>)"
    and R_rollback: "R s t \<Longrightarrow> R s (t\<lparr>s_db := s_db s\<rparr>)"
    and R_write: "runtime_write (s_db s) d \<Longrightarrow> R s (s\<lparr>s_db := d\<rparr>)"
begin

lemmas [keeps_intros] = keeps_ret keeps_throw keeps_panic keeps_diverge keeps_gets keeps_bindE keeps_thenE
  keeps_tryE keeps_ignoreE keeps_mapErr keeps_liftR keeps_forE keeps_foldE keeps_indexE

text \<open>The primitives.\<close>

lemma keeps_timeNow [keeps_intros]: "keeps R (timeNow env)"
  by (simp add: keeps_def timeNow_def R_clock)

lemma keeps_GenerateSnowflake [keeps_intros]: "keeps R (GenerateSnowflake env)"
proof -
  have "R s (s\<lparr>s_node := nd, s_clock := p\<rparr>)" for s nd p
    by (rule R_trans [OF R_node R_clock])
  then show ?thesis by (auto simp: keeps_def GenerateSnowflake_def R_refl split: option.split)
qed

lemma keeps_GenerateUUIDv7 [keeps_intros]: "keeps R (GenerateUUIDv7 env)"
  by (simp add: keeps_def GenerateUUIDv7_def R_uuids)

lemma keeps_repo_query [keeps_intros]: "keeps R (repo_query env f)"
  by (auto simp: keeps_def repo_query_def Let_def R_calls split: sum.split)

lemma keeps_repo_exec:
  assumes "\<And>d x d'. f d = Inr (x, d') \<Longrightarrow> d' = d \<or> (\<forall>s. s_db s = d \<longrightarrow> R s (s\<lparr>s_db := d'\<rparr>))"
  shows "keeps R (repo_exec env f)"
proof (rule keepsI)
  fix s :: est
  let ?s = "s\<lparr>s_calls := Suc (s_calls s)\<rparr>"
  have "R s (?s\<lparr>s_db := d\<rparr>)" if "f (s_db s) = Inr (x, d)" for x d
  proof -
    have "?s\<lparr>s_db := d\<rparr> = ?s \<or> R ?s (?s\<lparr>s_db := d\<rparr>)" using assms [OF that] by auto
    with R_calls show ?thesis by (auto intro: R_trans)
  qed
  then show "R s (snd (repo_exec env f s))"
    by (auto simp: repo_exec_def Let_def R_calls split: sum.split)
qed

lemma keeps_runtime_exec:
  "(\<And>d x d'. f d = Inr (x, d') \<Longrightarrow> runtime_write d d') \<Longrightarrow> keeps R (repo_exec env f)"
  by (rule keeps_repo_exec) (blast intro: R_write)

lemma keeps_meter [keeps_intros]: "keeps R (meter f)"
  by (simp add: keeps_def meter_def modifyS_def R_metrics)

lemma keeps_modI [keeps_intros]: "keeps R (modI f)"
  by (simp add: keeps_def modI_def modifyS_def R_inst)

lemma keeps_Publish [keeps_intros]: "keeps R (Publish env ev ty)"
proof (rule keepsI)
  fix s :: est
  have "R s (s\<lparr>s_pubs := n, s_bus := s_bus s @ [x]\<rparr>)" if "s_buf s = None" for n x
  proof -
    have "R s (s\<lparr>s_pubs := n\<rparr>)" using that by (rule R_pubs)
    moreover have "R (s\<lparr>s_pubs := n\<rparr>) (s\<lparr>s_pubs := n\<rparr>\<lparr>s_bus := s_bus (s\<lparr>s_pubs := n\<rparr>) @ [x]\<rparr>)"
      by (rule R_bus) (simp add: that)
    ultimately show ?thesis using R_trans by simp
  qed
  then show "R s (snd (Publish env ev ty s))"
    by (auto simp: Publish_def Let_def R_buffer R_pubs split: option.split)
qed

lemma keeps_set_memo [keeps_intros]: "keeps R (modifyS (\<lambda>s. s\<lparr>s_memo := f s\<rparr>))"
  by (simp add: keeps_def modifyS_def R_memo)

lemma keeps_scope:
  assumes "keeps R m" and "\<And>s. R s (f s)" and "\<And>s t. R t (g s t)"
  shows "keeps R (\<lambda>s. case m (f s) of (r, t) \<Rightarrow> (r, g s t))"
proof (rule keepsI)
  fix s :: est
  obtain r t where m: "m (f s) = (r, t)" by fastforce
  with assms(1) have "R (f s) t" by (rule keepsD)
  with assms(2,3) m show "R s (snd (case m (f s) of (r, t) \<Rightarrow> (r, g s t)))"
    using R_trans [OF R_trans [OF assms(2)]] by simp
qed

lemma keeps_with_instance [keeps_intros]: "keeps R m \<Longrightarrow> keeps R (with_instance i m)"
  unfolding with_instance_def by (rule keeps_scope) (simp_all add: R_inst)

lemma keeps_with_memo [keeps_intros]: "keeps R m \<Longrightarrow> keeps R (with_memo m)"
  unfolding with_memo_def by (rule keeps_scope) (simp_all add: R_memo)

lemma keeps_with_buffer [keeps_intros]:
  assumes "keeps R m"
  shows "keeps R (with_buffer m)"
proof (rule keepsI)
  fix s :: est
  obtain r t where m: "m (s\<lparr>s_buf := Some []\<rparr>) = (r, t)" by fastforce
  from R_scope [OF keepsD [OF assms m]] show "R s (snd (with_buffer m s))"
    by (simp add: with_buffer_def m)
qed

lemma keeps_repo_WithTx [keeps_intros]:
  assumes "keeps R m"
  shows "keeps R (repo_WithTx env m)"
proof (rule keepsI)
  fix s :: est
  obtain r1 s1 where q: "repo_query env (\<lambda>_. Inr ()) s = (r1, s1)" by fastforce
  obtain r2 s2 where m: "m s1 = (r2, s2)" by fastforce
  obtain r3 s3 where c: "repo_query env (\<lambda>_. Inr ()) s2 = (r3, s3)" by fastforce
  have "R s s1" using keepsD [OF keeps_repo_query q] .
  moreover have "R s1 s2" using keepsD [OF assms m] .
  moreover have "R s2 s3" using keepsD [OF keeps_repo_query c] .
  ultimately have "R s s1" "R s s2" "R s s3" by (auto intro: R_trans)
  then show "R s (snd (repo_WithTx env m s))"
    using q m c by (auto simp: repo_WithTx_def R_rollback split: outcome.split)
qed

text \<open>The writes.\<close>

lemma keeps_CreateProcessInstance [keeps_intros]:
  "keeps R (CreateProcessInstance env \<lparr>pi_key = k, pi_id = i, pi_definition_key = dk, pi_version = v,
     pi_parent_instance_key = a, pi_parent_element_key = b, pi_state = ''ACTIVE'', pi_created_at = t,
     pi_end_time = e\<rparr>)"
  unfolding CreateProcessInstance_def
  by (rule keeps_runtime_exec) (auto simp: on_table_def insert_row_def split: if_splits intro!: runtime_write.new_instance)

lemma keeps_UpdateProcessInstance [keeps_intros]:
  "keeps R (UpdateProcessInstance env k ''COMPLETED'' t)"
  unfolding UpdateProcessInstance_def
  by (rule keeps_runtime_exec) (auto simp: on_table_def update_by_key_def split: if_splits intro!: runtime_write.complete_instance)

lemma keeps_CreateElementInstance [keeps_intros]:
  "keeps R (CreateElementInstance env \<lparr>ei_key = k, ei_id = i, ei_instance_key = ik,
     ei_definition_key = dk, ei_element_id = e, ei_type = ty, ei_flow_scope_key = fk, ei_state = ''ACTIVATED'',
     ei_created_at = t, ei_end_time = u\<rparr>)"
  unfolding CreateElementInstance_def
  by (rule keeps_runtime_exec) (auto simp: on_table_def insert_row_def split: if_splits intro!: runtime_write.new_element)

lemma keeps_UpdateElementInstance:
  "st = ''COMPLETED'' \<or> st = ''TERMINATED'' \<Longrightarrow> keeps R (UpdateElementInstance env k st t)"
  unfolding UpdateElementInstance_def
  by (rule keeps_runtime_exec) (auto simp: on_table_def update_by_key_def split: if_splits intro!: runtime_write.finish_element)

lemma keeps_CreateVariable [keeps_intros]: "keeps R (CreateVariable env v)"
  unfolding CreateVariable_def by (rule keeps_runtime_exec) (auto intro!: runtime_write.write_variable)

lemma keeps_CreateJob [keeps_intros]: "keeps R (CreateJob env j)"
  unfolding CreateJob_def
  by (rule keeps_runtime_exec) (auto simp: on_table_def insert_row_def split: if_splits intro!: runtime_write.new_job)

lemma keeps_UpdateJob [keeps_intros]: "keeps R (UpdateJob env j)"
  unfolding UpdateJob_def
  by (rule keeps_runtime_exec) (auto simp: on_table_def update_by_key_def split: if_splits intro!: runtime_write.write_job)

lemma keeps_CreateIncident [keeps_intros]: "keeps R (CreateIncident env i)"
  unfolding CreateIncident_def
  by (rule keeps_runtime_exec) (auto simp: on_table_def insert_row_def split: if_splits intro!: runtime_write.new_incident)

lemma keeps_CreateTimer [keeps_intros]: "keeps R (CreateTimer env x)"
  unfolding CreateTimer_def
  by (rule keeps_runtime_exec) (auto simp: on_table_def insert_row_def split: if_splits intro!: runtime_write.new_timer)

lemma keeps_UpdateTimer [keeps_intros]: "keeps R (UpdateTimer env x)"
  unfolding UpdateTimer_def
  by (rule keeps_runtime_exec) (auto simp: on_table_def update_by_key_def split: if_splits intro!: runtime_write.write_timer)

lemma keeps_CreateMessageSubscription [keeps_intros]: "keeps R (CreateMessageSubscription env u)"
  unfolding CreateMessageSubscription_def
  by (rule keeps_runtime_exec) (auto simp: on_table_def insert_row_def split: if_splits intro!: runtime_write.new_subscription)

lemma keeps_UpdateMessageSubscription [keeps_intros]: "keeps R (UpdateMessageSubscription env u)"
  unfolding UpdateMessageSubscription_def
  by (rule keeps_runtime_exec) (auto simp: on_table_def update_by_key_def split: if_splits intro!: runtime_write.write_subscription)

lemma keeps_CreateOutboxMessage [keeps_intros]: "keeps R (CreateOutboxMessage env (outbox_row i t ev))"
proof -
  have "ob_id (outbox_row i t ev) = i" by (simp add: outbox_row_def)
  then show ?thesis unfolding CreateOutboxMessage_def
    by (intro keeps_runtime_exec) (auto simp: on_table_def insert_row_def split: if_splits intro!: runtime_write.new_outbox)
qed

lemma keeps_ClaimOutboxMessage [keeps_intros]: "keeps R (ClaimOutboxMessage env i t)"
  unfolding ClaimOutboxMessage_def by (rule keeps_runtime_exec) (auto simp: Let_def intro!: runtime_write.claim_outbox)

lemma keeps_mark [keeps_intros]:
  "keeps R (MarkOutboxMessagePublishFailed env i e t)"
  "keeps R (MarkOutboxMessageTerminalFailed env i e t)"
  "keeps R (MarkOutboxMessagePublished env i t)"
  unfolding MarkOutboxMessagePublishFailed_def MarkOutboxMessageTerminalFailed_def
    MarkOutboxMessagePublished_def update_outbox_def
  by (rule keeps_runtime_exec, auto intro!: runtime_write.fail_outbox runtime_write.give_up_outbox runtime_write.publish_outbox)+

text \<open>Some calls write a literal state.\<close>

lemma keeps_UpdateElementInstance_literal [keeps_intros]:
  "keeps R (UpdateElementInstance env k ''COMPLETED'' t)"
  "keeps R (UpdateElementInstance env k ''TERMINATED'' t)"
  by (simp_all add: keeps_UpdateElementInstance)

lemma keeps_finishElement [keeps_intros]:
  "keeps R (finishElement env k ''COMPLETED'')"
  "keeps R (finishElement env k ''TERMINATED'')"
  unfolding finishElement_def by (intro keeps_intros)+

lemma keeps_persistBufferedEventsToOutbox [keeps_intros]:
  "keeps R (persistBufferedEventsToOutbox env evs)"
  by (induction evs) (auto intro!: keeps_intros)

text \<open>Theory \<open>Repository\<close>.\<close>

lemma keeps_generateKey [keeps_intros]: "keeps R (generateKey env seed)"
  unfolding generateKey_def by (intro keeps_intros)

lemma keeps_generateRuntimeID [keeps_intros]: "keeps R (generateRuntimeID env)"
  unfolding generateRuntimeID_def by (intro keeps_intros)

lemma keeps_GetProcess [keeps_intros]: "keeps R (GetProcess env k)"
  unfolding GetProcess_def by (intro keeps_intros)

lemma keeps_GetProcessInstance [keeps_intros]: "keeps R (GetProcessInstance env k)"
  unfolding GetProcessInstance_def by (intro keeps_intros)

lemma keeps_GetJob [keeps_intros]: "keeps R (GetJob env k)"
  unfolding GetJob_def by (intro keeps_intros)

lemma keeps_ListActivatableJobs [keeps_intros]: "keeps R (ListActivatableJobs env jobType maxJobs)"
  unfolding ListActivatableJobs_def by (intro keeps_intros)

lemma keeps_ListJobsByProcessInstanceAndType [keeps_intros]: "keeps R (ListJobsByProcessInstanceAndType env k jobType)"
  unfolding ListJobsByProcessInstanceAndType_def by (intro keeps_intros)

lemma keeps_ListOverdueJobs [keeps_intros]: "keeps R (ListOverdueJobs env now)"
  unfolding ListOverdueJobs_def by (intro keeps_intros)

lemma keeps_ListIncidents [keeps_intros]: "keeps R (ListIncidents env k limit)"
  unfolding ListIncidents_def by (intro keeps_intros)

lemma keeps_GetTimer [keeps_intros]: "keeps R (GetTimer env k)"
  unfolding GetTimer_def by (intro keeps_intros)

lemma keeps_ListCreatedTimersByElementInstanceKey [keeps_intros]: "keeps R (ListCreatedTimersByElementInstanceKey env k)"
  unfolding ListCreatedTimersByElementInstanceKey_def by (intro keeps_intros)

lemma keeps_ListDueTimers [keeps_intros]: "keeps R (ListDueTimers env now)"
  unfolding ListDueTimers_def by (intro keeps_intros)

lemma keeps_GetMessageSubscription [keeps_intros]: "keeps R (GetMessageSubscription env k)"
  unfolding GetMessageSubscription_def by (intro keeps_intros)

lemma keeps_ListMessageSubscriptions [keeps_intros]: "keeps R (ListMessageSubscriptions env name ck)"
  unfolding ListMessageSubscriptions_def by (intro keeps_intros)

lemma keeps_GetIdempotencyRecord [keeps_intros]: "keeps R (GetIdempotencyRecord env k op)"
  unfolding GetIdempotencyRecord_def by (intro keeps_intros)

lemma keeps_ListPendingOutboxMessages [keeps_intros]: "keeps R (ListPendingOutboxMessages env now limit)"
  unfolding ListPendingOutboxMessages_def by (intro keeps_intros)

lemma keeps_CountPendingOutboxMessages [keeps_intros]: "keeps R (CountPendingOutboxMessages env now)"
  unfolding CountPendingOutboxMessages_def by (intro keeps_intros)

lemma keeps_GetDecisionByDecisionID [keeps_intros]: "keeps R (GetDecisionByDecisionID env i)"
  unfolding GetDecisionByDecisionID_def by (intro keeps_intros)

lemma keeps_ListDecisionRows [keeps_intros]: "keeps R (ListDecisionRows env)"
  unfolding ListDecisionRows_def by (intro keeps_intros)

lemma keeps_GetProcessByBpmnProcessID [keeps_intros]: "keeps R (GetProcessByBpmnProcessID env i)"
  unfolding GetProcessByBpmnProcessID_def by (intro keeps_intros)

lemma keeps_GetProcessByBpmnProcessIDAndVersion [keeps_intros]: "keeps R (GetProcessByBpmnProcessIDAndVersion env i v)"
  unfolding GetProcessByBpmnProcessIDAndVersion_def by (intro keeps_intros)

lemma keeps_GetProcessInstanceWithState [keeps_intros]: "keeps R (GetProcessInstanceWithState env k)"
  unfolding GetProcessInstanceWithState_def by (intro keeps_intros)

lemma keeps_GetElementInstance [keeps_intros]: "keeps R (GetElementInstance env k)"
  unfolding GetElementInstance_def by (intro keeps_intros)

lemma keeps_listActiveElementInstances [keeps_intros]: "keeps R (listActiveElementInstances env k types)"
  unfolding listActiveElementInstances_def by (intro keeps_intros)

lemma keeps_ListActiveElementInstances [keeps_intros]: "keeps R (ListActiveElementInstances env k)"
  unfolding ListActiveElementInstances_def by (intro keeps_intros)

lemma keeps_ListActiveElementInstancesByTypes [keeps_intros]: "keeps R (ListActiveElementInstancesByTypes env k types)"
  unfolding ListActiveElementInstancesByTypes_def by (intro keeps_intros)

lemma keeps_ListActiveProcessInstances [keeps_intros]: "keeps R (ListActiveProcessInstances env)"
  unfolding ListActiveProcessInstances_def by (intro keeps_intros)

lemma keeps_ListProcessInstancesByState [keeps_intros]: "keeps R (ListProcessInstancesByState env st limit)"
  unfolding ListProcessInstancesByState_def by (intro keeps_intros)

lemma keeps_ListCompletedProcessInstancesWithCompletedJobsByWorkers [keeps_intros]:
  "keeps R (ListCompletedProcessInstancesWithCompletedJobsByWorkers env jobType workers limit)"
  unfolding ListCompletedProcessInstancesWithCompletedJobsByWorkers_def by (intro keeps_intros)

lemma keeps_ListProcesses [keeps_intros]: "keeps R (ListProcesses env)"
  unfolding ListProcesses_def by (intro keeps_intros)

text \<open>Theory \<open>Outbox\<close>.\<close>

lemma keeps_recordOutboxPublishSuccess [keeps_intros]: "keeps R (recordOutboxPublishSuccess createdAt publishedAt)"
  unfolding recordOutboxPublishSuccess_def by (intro keeps_intros)

lemma keeps_recordOutboxPublishFailure [keeps_intros]: "keeps R (recordOutboxPublishFailure env i attempt err)"
  unfolding recordOutboxPublishFailure_def by (intro keeps_intros)

lemma keeps_flushOne [keeps_intros]: "keeps R (flushOne env p)"
  unfolding flushOne_def by (intro keeps_intros)

lemma keeps_flushBufferedEvents [keeps_intros]: "keeps R (flushBufferedEvents env events)"
  unfolding flushBufferedEvents_def by (intro keeps_intros)

lemma keeps_relayOne [keeps_intros]: "keeps R (relayOne env result msg)"
  unfolding relayOne_def by (intro keeps_intros)

lemma keeps_flushPendingOutbox [keeps_intros]: "keeps R (flushPendingOutbox env limit)"
  unfolding flushPendingOutbox_def by (intro keeps_intros)

lemma keeps_RunOutboxRelayCycle [keeps_intros]: "keeps R (RunOutboxRelayCycle env limit)"
  unfolding RunOutboxRelayCycle_def by (intro keeps_intros)

lemma keeps_withTx [keeps_intros]: "keeps R m \<Longrightarrow> keeps R (withTx env m)"
  unfolding withTx_def tx_body_def by (intro keeps_intros | assumption)+

lemma keeps_HasProcessedIdempotencyKey [keeps_intros]: "keeps R (HasProcessedIdempotencyKey env k0 op0)"
  unfolding HasProcessedIdempotencyKey_def by (intro keeps_intros)

text \<open>Theory \<open>Dmn\<close>.\<close>

lemma keeps_ListDecisions [keeps_intros]: "keeps R (ListDecisions env)"
  unfolding ListDecisions_def by (intro keeps_intros)

lemma keeps_EvaluateDecision [keeps_intros]: "keeps R (EvaluateDecision env decisionID inputs)"
  unfolding EvaluateDecision_def by (intro keeps_intros)

text \<open>Theory \<open>Deployment\<close>.\<close>

lemma keeps_next_version [keeps_intros]: "keeps R (next_version env i)"
  unfolding next_version_def by (intro keeps_intros)

lemma keeps_getWorkflowDefinition [keeps_intros]: "keeps R (getWorkflowDefinition env k)"
  unfolding getWorkflowDefinition_def by (intro keeps_intros)

lemma keeps_getWorkflowDefinitionByBpmnProcessID [keeps_intros]: "keeps R (getWorkflowDefinitionByBpmnProcessID env i)"
  unfolding getWorkflowDefinitionByBpmnProcessID_def by (intro keeps_intros)

lemma keeps_getWorkflowDefinitionByBpmnProcessIDAndVersion [keeps_intros]: "keeps R (getWorkflowDefinitionByBpmnProcessIDAndVersion env i v)"
  unfolding getWorkflowDefinitionByBpmnProcessIDAndVersion_def by (intro keeps_intros)

lemma keeps_getWorkflowDefinitionFromMemo [keeps_intros]: "keeps R (getWorkflowDefinitionFromMemo env k)"
  unfolding getWorkflowDefinitionFromMemo_def by (intro keeps_intros)

lemma keeps_listDeployedWorkflowDefinitions [keeps_intros]: "keeps R (listDeployedWorkflowDefinitions env)"
  unfolding listDeployedWorkflowDefinitions_def by (intro keeps_intros)

lemma keeps_ListWorkflows [keeps_intros]: "keeps R (ListWorkflows env)"
  unfolding ListWorkflows_def by (intro keeps_intros)

lemma keeps_GetWorkflow [keeps_intros]: "keeps R (GetWorkflow env i)"
  unfolding GetWorkflow_def by (intro keeps_intros)

text \<open>Theory \<open>Timers\<close>.\<close>

lemma keeps_finalizeTimerAfterFire [keeps_intros]: "keeps R (finalizeTimerAfterFire env t props)"
  unfolding finalizeTimerAfterFire_def by (intro keeps_intros)

lemma keeps_cancelCreatedTimersForElementInstance [keeps_intros]: "keeps R (cancelCreatedTimersForElementInstance env k)"
  unfolding cancelCreatedTimersForElementInstance_def by (intro keeps_intros)

text \<open>Theory \<open>Instance\<close>.\<close>

lemma keeps_getI [keeps_intros]: "keeps R getI"
  unfolding getI_def by (intro keeps_intros)

lemma keeps_execAt [keeps_intros]: "keeps R (execAt k)"
  unfolding execAt_def by (intro keeps_intros)

lemma keeps_setExecAt [keeps_intros]: "keeps R (setExecAt k ex)"
  unfolding setExecAt_def by (intro keeps_intros)

lemma keeps_setStatusAt [keeps_intros]: "keeps R (setStatusAt k st)"
  unfolding setStatusAt_def by (intro keeps_intros)

lemma keeps_appendExec [keeps_intros]: "keeps R (appendExec ex)"
  unfolding appendExec_def by (intro keeps_intros)

lemma keeps_setContext [keeps_intros]: "keeps R (setContext k v)"
  unfolding setContext_def by (intro keeps_intros)

lemma keeps_mergeContext [keeps_intros]: "keeps R (mergeContext kvs)"
  unfolding mergeContext_def by (intro keeps_intros)

lemma keeps_mapToWorkflowInstance [keeps_intros]: "keeps R (mapToWorkflowInstance env p els vs)"
  unfolding mapToWorkflowInstance_def by (intro keeps_intros)

lemma keeps_GetInstance [keeps_intros]: "keeps R (GetInstance env i)"
  unfolding GetInstance_def by (intro keeps_intros)

lemma keeps_summaries [keeps_intros]: "keeps R (summaries env ps)"
  unfolding summaries_def by (intro keeps_intros)

lemma keeps_ListActiveInstances [keeps_intros]: "keeps R (ListActiveInstances env)"
  unfolding ListActiveInstances_def by (intro keeps_intros)

lemma keeps_ListCompletedInstances [keeps_intros]: "keeps R (ListCompletedInstances env limit)"
  unfolding ListCompletedInstances_def by (intro keeps_intros)

lemma keeps_ListCompletedInstancesWithCompletedUserTaskWorkers [keeps_intros]:
  "keeps R (ListCompletedInstancesWithCompletedUserTaskWorkers env workers limit)"
  unfolding ListCompletedInstancesWithCompletedUserTaskWorkers_def by (intro keeps_intros)

lemma keeps_persistVariable [keeps_intros]: "keeps R (persistVariable env instanceID scopeKey k v)"
  unfolding persistVariable_def by (intro keeps_intros)

lemma keeps_persistVariables [keeps_intros]: "keeps R (persistVariables env instanceID scopeKey vs)"
  unfolding persistVariables_def by (intro keeps_intros)

lemma keeps_UpdateInstanceVariables [keeps_intros]: "keeps R (UpdateInstanceVariables env i vs)"
  unfolding UpdateInstanceVariables_def by (intro keeps_intros)

lemma keeps_applyInputMappings [keeps_intros]: "keeps R (applyInputMappings env st execID)"
  unfolding applyInputMappings_def by (intro keeps_intros)

lemma keeps_applyOutputMappings [keeps_intros]: "keeps R (applyOutputMappings env st execID)"
  unfolding applyOutputMappings_def by (intro keeps_intros)

lemma keeps_runHandler [keeps_intros]: "keeps R (runHandler h st)"
  unfolding runHandler_def by (intro keeps_intros)

lemma keeps_executeTaskListeners [keeps_intros]: "keeps R (executeTaskListeners env st eventType)"
  unfolding executeTaskListeners_def by (intro keeps_intros)

lemma keeps_newExecution [keeps_intros]: "keeps R (newExecution env stepID parentID)"
  unfolding newExecution_def by (intro keeps_intros)

lemma keeps_activateElement [keeps_intros]: "keeps R (activateElement env with_id pk wfd ex ty scope)"
  unfolding activateElement_def by (intro keeps_intros)

lemma keeps_markCompleted [keeps_intros]: "keeps R (markCompleted env k)"
  unfolding markCompleted_def by (intro keeps_intros)

lemma keeps_completeInstanceIfNoActiveExecutions [keeps_intros]: "keeps R (completeInstanceIfNoActiveExecutions env wfd)"
  unfolding completeInstanceIfNoActiveExecutions_def by (intro keeps_intros)

lemma keeps_cancelEventGatewaySiblings [keeps_intros]: "keeps R (cancelEventGatewaySiblings env st parentID wfd)"
  unfolding cancelEventGatewaySiblings_def by (intro keeps_intros)

text \<open>Theory \<open>Navigation\<close>.\<close>

lemma keeps_notifyParentProcess [keeps_intros]: "calls_keep R rec \<Longrightarrow> keeps R (notifyParentProcess env rec)"
  unfolding notifyParentProcess_def by (intro keeps_intros | assumption | erule calls_keepD)+

lemma keeps_checkSubProcessCompletion [keeps_intros]: "calls_keep R rec \<Longrightarrow> keeps R (checkSubProcessCompletion env rec execID wfd)"
  unfolding checkSubProcessCompletion_def by (intro keeps_intros | assumption | erule calls_keepD)+

lemma keeps_endOfPath [keeps_intros]: "calls_keep R rec \<Longrightarrow> keeps R (endOfPath env rec k execID stepID wfd)"
  unfolding endOfPath_def by (intro keeps_intros | assumption | erule calls_keepD)+

lemma keeps_exitStandard [keeps_intros]: "keeps R (exitStandard env k)"
  unfolding exitStandard_def by (intro keeps_intros)

lemma keeps_exitParallel [keeps_intros]: "keeps R (exitParallel env k)"
  unfolding exitParallel_def by (intro keeps_intros)

lemma keeps_nextIteration [keeps_intros]: "calls_keep R rec \<Longrightarrow> keeps R (nextIteration env rec stepID st pex i wfd)"
  unfolding nextIteration_def by (intro keeps_intros | assumption | erule calls_keepD)+

lemma keeps_exitSequential [keeps_intros]: "calls_keep R rec \<Longrightarrow> keeps R (exitSequential env rec k stepID st wfd)"
  unfolding exitSequential_def by (intro keeps_intros | assumption | erule calls_keepD)+

lemma keeps_exitStep [keeps_intros]: "calls_keep R rec \<Longrightarrow> keeps R (exitStep env rec k stepID st wfd)"
  unfolding exitStep_def by (intro keeps_intros | assumption | erule calls_keepD)+

lemma keeps_createTimerFor [keeps_intros]: "keeps R (createTimerFor env st elementKey pk)"
  unfolding createTimerFor_def by (intro keeps_intros)

lemma keeps_subscribeFor [keeps_intros]: "keeps R (subscribeFor env st elementKey pk)"
  unfolding subscribeFor_def by (intro keeps_intros)

lemma keeps_waitFor [keeps_intros]: "keeps R (waitFor env st elementKey pk wfd)"
  unfolding waitFor_def by (intro keeps_intros)

lemma keeps_spawnSingle [keeps_intros]: "calls_keep R rec \<Longrightarrow> keeps R (spawnSingle env rec k targetID wfd)"
  unfolding spawnSingle_def by (intro keeps_intros | assumption | erule calls_keepD)+

lemma keeps_spawnItem [keeps_intros]: "calls_keep R rec \<Longrightarrow> keeps R (spawnItem env rec st scope wfd item)"
  unfolding spawnItem_def by (intro keeps_intros | assumption | erule calls_keepD)+

lemma keeps_spawnFirst [keeps_intros]: "calls_keep R rec \<Longrightarrow> keeps R (spawnFirst env rec st scope wfd coll)"
  unfolding spawnFirst_def by (intro keeps_intros | assumption | erule calls_keepD)+

lemma keeps_spawnMulti [keeps_intros]: "calls_keep R rec \<Longrightarrow> keeps R (spawnMulti env rec k st coll wfd)"
  unfolding spawnMulti_def by (intro keeps_intros | assumption | erule calls_keepD)+

lemma keeps_spawnToken [keeps_intros]: "calls_keep R rec \<Longrightarrow> keeps R (spawnToken env rec k wfd targetID)"
  unfolding spawnToken_def by (intro keeps_intros | assumption | erule calls_keepD)+

lemma keeps_proceedToken [keeps_intros]: "calls_keep R rec \<Longrightarrow> keeps R (proceedToken env rec execID wfd)"
  unfolding proceedToken_def by (intro keeps_intros | assumption | erule calls_keepD)+

text \<open>Theory \<open>Start\<close>.\<close>

lemma keeps_createTimerOnce [keeps_intros]: "keeps R (createTimerOnce env key elementKey instKey start now)"
  unfolding createTimerOnce_def by (intro keeps_intros)

lemma keeps_scheduleEventSubProcessTimers [keeps_intros]: "keeps R (scheduleEventSubProcessTimers env instanceID wfd)"
  unfolding scheduleEventSubProcessTimers_def by (intro keeps_intros)

lemma keeps_lookupProcess [keeps_intros]: "keeps R (lookupProcess env workflowID version)"
  unfolding lookupProcess_def by (intro keeps_intros)

lemma keeps_newProcessInstance [keeps_intros]:
  "keeps R (newProcessInstance env p parentInstanceID parentExecutionID)"
  unfolding newProcessInstance_def Let_def by (intro keeps_intros)

lemma keeps_newRootElement [keeps_intros]: "keeps R (newRootElement env p pk rootKey start)"
  unfolding newRootElement_def Let_def by (intro keeps_intros)

lemma keeps_createAndStartInstance [keeps_intros]:
  "calls_keep R rec \<Longrightarrow> keeps R (createAndStartInstance env rec workflowID contextVars parentInstanceID parentExecutionID version)"
  unfolding createAndStartInstance_def by (intro keeps_intros | assumption | erule calls_keepD)+

lemma keeps_StartInstanceVersion [keeps_intros]:
  "calls_keep R rec \<Longrightarrow> keeps R (StartInstanceVersion env rec workflowID contextVars version)"
  unfolding StartInstanceVersion_def by (intro keeps_intros | assumption | erule calls_keepD)+

lemma keeps_StartInstance [keeps_intros]: "calls_keep R rec \<Longrightarrow> keeps R (StartInstance env rec workflowID contextVars)"
  unfolding StartInstance_def by (intro keeps_intros | assumption | erule calls_keepD)+

text \<open>Theory \<open>EventDelivery\<close>.\<close>

lemma keeps_terminateAt [keeps_intros]: "keeps R (terminateAt env k)"
  unfolding terminateAt_def by (intro keeps_intros)

lemma keeps_spawnBoundary [keeps_intros]: "calls_keep R rec \<Longrightarrow> keeps R (spawnBoundary env rec with_id type_of parentID wfd t)"
  unfolding spawnBoundary_def by (intro keeps_intros | assumption | erule calls_keepD)+

lemma keeps_triggerBoundaryPath [keeps_intros]: "calls_keep R rec \<Longrightarrow> keeps R (triggerBoundaryPath env rec boundary attachedStepID wfd)"
  unfolding triggerBoundaryPath_def by (intro keeps_intros | assumption | erule calls_keepD)+

lemma keeps_startEventSubProcess [keeps_intros]: "calls_keep R rec \<Longrightarrow> keeps R (startEventSubProcess env rec wfd payload sp start)"
  unfolding startEventSubProcess_def by (intro keeps_intros | assumption | erule calls_keepD)+

lemma keeps_tryStartEventSubProcesses [keeps_intros]: "calls_keep R rec \<Longrightarrow> keeps R (tryStartEventSubProcesses env rec wfd kind ref payload)"
  unfolding tryStartEventSubProcesses_def by (intro keeps_intros | assumption | erule calls_keepD)+

lemma keeps_triggerEventSubProcessesOnActiveInstances [keeps_intros]:
  "calls_keep R rec \<Longrightarrow> keeps R (triggerEventSubProcessesOnActiveInstances env rec kind ref payload)"
  unfolding triggerEventSubProcessesOnActiveInstances_def by (intro keeps_intros | assumption | erule calls_keepD)+

lemma keeps_startInstancesWhere [keeps_intros]: "calls_keep R rec \<Longrightarrow> keeps R (startInstancesWhere env rec matches vars_of)"
  unfolding startInstancesWhere_def by (intro keeps_intros | assumption | erule calls_keepD)+

lemma keeps_startInstancesForMessageStart [keeps_intros]: "calls_keep R rec \<Longrightarrow> keeps R (startInstancesForMessageStart env rec name ck payload)"
  unfolding startInstancesForMessageStart_def by (intro keeps_intros | assumption | erule calls_keepD)+

lemma keeps_startInstancesForSignalStart [keeps_intros]: "calls_keep R rec \<Longrightarrow> keeps R (startInstancesForSignalStart env rec name payload)"
  unfolding startInstancesForSignalStart_def by (intro keeps_intros | assumption | erule calls_keepD)+

lemma keeps_startInstancesForEscalationStart [keeps_intros]: "calls_keep R rec \<Longrightarrow> keeps R (startInstancesForEscalationStart env rec code payload)"
  unfolding startInstancesForEscalationStart_def by (intro keeps_intros | assumption | erule calls_keepD)+

lemma keeps_proceedWaiting [keeps_intros]: "calls_keep R rec \<Longrightarrow> keeps R (proceedWaiting rec k wfd)"
  unfolding proceedWaiting_def by (intro keeps_intros | assumption | erule calls_keepD)+

lemma keeps_escalateAt [keeps_intros]: "calls_keep R rec \<Longrightarrow> keeps R (escalateAt env rec code payload wfd st el)"
  unfolding escalateAt_def by (intro keeps_intros | assumption | erule calls_keepD)+

lemma keeps_withElement [keeps_intros]:
  "(\<And>w s. keeps R (b w s)) \<Longrightarrow> keeps R (withElement env el p b)"
  unfolding withElement_def by (intro keeps_intros | assumption)+

lemma keeps_deliverEscalationToWaiters [keeps_intros]: "calls_keep R rec \<Longrightarrow> keeps R (deliverEscalationToWaiters env rec code payload)"
  unfolding deliverEscalationToWaiters_def by (intro keeps_intros | assumption | erule calls_keepD)+

lemma keeps_publishEscalation [keeps_intros]: "calls_keep R rec \<Longrightarrow> keeps R (publishEscalation env rec code payload)"
  unfolding publishEscalation_def by (intro keeps_intros | assumption | erule calls_keepD)+

lemma keeps_PublishEscalation [keeps_intros]: "calls_keep R rec \<Longrightarrow> keeps R (PublishEscalation env rec code0 payload)"
  unfolding PublishEscalation_def by (intro keeps_intros | assumption | erule calls_keepD)+

text \<open>Theory \<open>Fanout\<close>.\<close>

lemma keeps_checkConditionalCatch [keeps_intros]: "calls_keep R rec \<Longrightarrow> keeps R (checkConditionalCatch env rec el)"
  unfolding checkConditionalCatch_def by (intro keeps_intros | assumption | erule calls_keepD)+

lemma keeps_checkConditionalStart [keeps_intros]: "calls_keep R rec \<Longrightarrow> keeps R (checkConditionalStart env rec el)"
  unfolding checkConditionalStart_def by (intro keeps_intros | assumption | erule calls_keepD)+

lemma keeps_CheckConditionals [keeps_intros]: "calls_keep R rec \<Longrightarrow> keeps R (CheckConditionals env rec)"
  unfolding CheckConditionals_def by (intro keeps_intros | assumption | erule calls_keepD)+

lemma keeps_matchSignalStepForProcess [keeps_intros]: "keeps R (matchSignalStepForProcess env defKey elementID name)"
  unfolding matchSignalStepForProcess_def by (intro keeps_intros)

lemma keeps_matchSignalStep [keeps_intros]: "keeps R (matchSignalStep env el name)"
  unfolding matchSignalStep_def by (intro keeps_intros)

lemma keeps_matchSignalBoundaryOnActivity [keeps_intros]: "keeps R (matchSignalBoundaryOnActivity env el name)"
  unfolding matchSignalBoundaryOnActivity_def by (intro keeps_intros)

lemma keeps_signalElementCanMatch [keeps_intros]: "keeps R (signalElementCanMatch env el name)"
  unfolding signalElementCanMatch_def by (intro keeps_intros)

lemma keeps_signalCatch [keeps_intros]: "calls_keep R rec \<Longrightarrow> keeps R (signalCatch env rec el payload wfd st)"
  unfolding signalCatch_def by (intro keeps_intros | assumption | erule calls_keepD)+

lemma keeps_signalBoundary [keeps_intros]: "calls_keep R rec \<Longrightarrow> keeps R (signalBoundary env rec payload wfd activity b)"
  unfolding signalBoundary_def by (intro keeps_intros | assumption | erule calls_keepD)+

lemma keeps_collectErrors [keeps_intros]:
  "(\<And>x. keeps R (f x)) \<Longrightarrow> keeps R (collectErrors l f xs)"
  unfolding collectErrors_def by (intro keeps_intros | assumption)+

lemma keeps_loadOrSkip [keeps_intros]:
  "(\<And>w. keeps R (b w)) \<Longrightarrow> keeps R (loadOrSkip env k b)"
  unfolding loadOrSkip_def by (intro keeps_intros | assumption)+

lemma keeps_processSignalForElement [keeps_intros]: "calls_keep R rec \<Longrightarrow> keeps R (processSignalForElement env rec el name payload)"
  unfolding processSignalForElement_def by (intro keeps_intros | assumption | erule calls_keepD)+

lemma keeps_PublishSignal [keeps_intros]: "calls_keep R rec \<Longrightarrow> keeps R (PublishSignal env rec name payload)"
  unfolding PublishSignal_def by (intro keeps_intros | assumption | erule calls_keepD)+

lemma keeps_publishSignal [keeps_intros]: "calls_keep R rec \<Longrightarrow> keeps R (publishSignal env rec name payload)"
  unfolding publishSignal_def by (intro keeps_intros | assumption | erule calls_keepD)+

lemma keeps_correlate [keeps_intros]: "keeps R (correlate env sub payload)"
  unfolding correlate_def by (intro keeps_intros)

lemma keeps_messageCatch [keeps_intros]: "calls_keep R rec \<Longrightarrow> keeps R (messageCatch env rec sub payload wfd st)"
  unfolding messageCatch_def by (intro keeps_intros | assumption | erule calls_keepD)+

lemma keeps_messageBoundary [keeps_intros]: "calls_keep R rec \<Longrightarrow> keeps R (messageBoundary env rec sub payload wfd st)"
  unfolding messageBoundary_def by (intro keeps_intros | assumption | erule calls_keepD)+

lemma keeps_processMessageSubscription [keeps_intros]: "calls_keep R rec \<Longrightarrow> keeps R (processMessageSubscription env rec sub payload)"
  unfolding processMessageSubscription_def by (intro keeps_intros | assumption | erule calls_keepD)+

lemma keeps_PublishMessage [keeps_intros]: "calls_keep R rec \<Longrightarrow> keeps R (PublishMessage env rec name ck payload)"
  unfolding PublishMessage_def by (intro keeps_intros | assumption | erule calls_keepD)+

lemma keeps_publishMessage [keeps_intros]: "calls_keep R rec \<Longrightarrow> keeps R (publishMessage env rec name ck payload)"
  unfolding publishMessage_def by (intro keeps_intros | assumption | erule calls_keepD)+

lemma keeps_timerCatch [keeps_intros]: "calls_keep R rec \<Longrightarrow> keeps R (timerCatch env rec t wfd st)"
  unfolding timerCatch_def by (intro keeps_intros | assumption | erule calls_keepD)+

lemma keeps_timerBoundary [keeps_intros]: "calls_keep R rec \<Longrightarrow> keeps R (timerBoundary env rec t wfd st)"
  unfolding timerBoundary_def by (intro keeps_intros | assumption | erule calls_keepD)+

lemma keeps_timerEventSubProcess [keeps_intros]: "calls_keep R rec \<Longrightarrow> keeps R (timerEventSubProcess env rec t wfd st)"
  unfolding timerEventSubProcess_def by (intro keeps_intros | assumption | erule calls_keepD)+

lemma keeps_processTimerStartDefinition [keeps_intros]: "calls_keep R rec \<Longrightarrow> keeps R (processTimerStartDefinition env rec t)"
  unfolding processTimerStartDefinition_def Let_def by (intro keeps_intros | assumption | erule calls_keepD)+

lemma keeps_processTimer [keeps_intros]: "calls_keep R rec \<Longrightarrow> keeps R (processTimer env rec t)"
  unfolding processTimer_def by (intro keeps_intros | assumption | erule calls_keepD)+

lemma keeps_ensureTimerStartSchedules [keeps_intros]: "keeps R (ensureTimerStartSchedules env)"
  unfolding ensureTimerStartSchedules_def by (intro keeps_intros)

lemma keeps_CheckTimers [keeps_intros]: "calls_keep R rec \<Longrightarrow> keeps R (CheckTimers env rec)"
  unfolding CheckTimers_def by (intro keeps_intros | assumption | erule calls_keepD)+

lemma keeps_slaBreach [keeps_intros]: "calls_keep R rec \<Longrightarrow> keeps R (slaBreach env rec now j)"
  unfolding slaBreach_def by (intro keeps_intros | assumption | erule calls_keepD)+

lemma keeps_CheckSLAs [keeps_intros]: "calls_keep R rec \<Longrightarrow> keeps R (CheckSLAs env rec)"
  unfolding CheckSLAs_def by (intro keeps_intros | assumption | erule calls_keepD)+

text \<open>Theory \<open>Executors\<close>.\<close>

lemma keeps_stampJob [keeps_intros]: "keeps R (stampJob env j)"
  unfolding stampJob_def by (intro keeps_intros)

lemma keeps_serviceJob [keeps_intros]: "keeps R (serviceJob env w ex st wfd handlerID)"
  unfolding serviceJob_def by (intro keeps_intros)

lemma keeps_persistConnectorInputs [keeps_intros]: "keeps R (persistConnectorInputs env st)"
  unfolding persistConnectorInputs_def by (intro keeps_intros)

lemma keeps_jobIncident [keeps_intros]: "keeps R (jobIncident env j err)"
  unfolding jobIncident_def by (intro keeps_intros)

lemma keeps_failServiceJob [keeps_intros]: "keeps R (failServiceJob env j err)"
  unfolding failServiceJob_def by (intro keeps_intros)

lemma keeps_runServiceHandler [keeps_intros]: "calls_keep R rec \<Longrightarrow> keeps R (runServiceHandler env rec h j st execID wfd)"
  unfolding runServiceHandler_def by (intro keeps_intros | assumption | erule calls_keepD)+

lemma keeps_executeServiceTask [keeps_intros]: "calls_keep R rec \<Longrightarrow> keeps R (executeServiceTask env rec st execID wfd)"
  unfolding executeServiceTask_def by (intro keeps_intros | assumption | erule calls_keepD)+

lemma keeps_executeSendTask [keeps_intros]: "calls_keep R rec \<Longrightarrow> keeps R (executeSendTask env rec st execID wfd)"
  unfolding executeSendTask_def by (intro keeps_intros | assumption | erule calls_keepD)+

lemma keeps_userTaskDueDate [keeps_intros]: "keeps R (userTaskDueDate env st)"
  unfolding userTaskDueDate_def by (intro keeps_intros)

lemma keeps_executeUserTask [keeps_intros]: "keeps R (executeUserTask env st execID wfd)"
  unfolding executeUserTask_def by (intro keeps_intros)

lemma keeps_scriptFailure [keeps_intros]: "keeps R (scriptFailure env execID err)"
  unfolding scriptFailure_def by (intro keeps_intros)

lemma keeps_executeScriptTask [keeps_intros]: "calls_keep R rec \<Longrightarrow> keeps R (executeScriptTask env rec st execID wfd)"
  unfolding executeScriptTask_def by (intro keeps_intros | assumption | erule calls_keepD)+

lemma keeps_executeBusinessRuleTask [keeps_intros]: "calls_keep R rec \<Longrightarrow> keeps R (executeBusinessRuleTask env rec st execID wfd)"
  unfolding executeBusinessRuleTask_def by (intro keeps_intros | assumption | erule calls_keepD)+

lemma keeps_executeSubProcess [keeps_intros]: "calls_keep R rec \<Longrightarrow> keeps R (executeSubProcess env rec st execID wfd)"
  unfolding executeSubProcess_def by (intro keeps_intros | assumption | erule calls_keepD)+

lemma keeps_executeCallActivity [keeps_intros]: "calls_keep R rec \<Longrightarrow> keeps R (executeCallActivity env rec st execID wfd)"
  unfolding executeCallActivity_def by (intro keeps_intros | assumption | erule calls_keepD)+

text \<open>Theory \<open>Steps\<close>.\<close>

lemma keeps_runCompensationHandler [keeps_intros]:
  "calls_keep R rec \<Longrightarrow> keeps R (runCompensationHandler env rec scopeID scopeKey wfd handlerID)"
  unfolding runCompensationHandler_def by (intro keeps_intros | assumption | erule calls_keepD)+

lemma keeps_TriggerCompensation [keeps_intros]: "calls_keep R rec \<Longrightarrow> keeps R (TriggerCompensation env rec scopeID activityRef wfd)"
  unfolding TriggerCompensation_def by (intro keeps_intros | assumption | erule calls_keepD)+

lemma keeps_cancelTransactionScope [keeps_intros]: "calls_keep R rec \<Longrightarrow> keeps R (cancelTransactionScope env rec transactionExecID wfd)"
  unfolding cancelTransactionScope_def by (intro keeps_intros | assumption | erule calls_keepD)+

lemma keeps_executeIntermediateCatchEvent [keeps_intros]: "calls_keep R rec \<Longrightarrow> keeps R (executeIntermediateCatchEvent env rec st execID wfd)"
  unfolding executeIntermediateCatchEvent_def by (intro keeps_intros | assumption | erule calls_keepD)+

lemma keeps_executeStartEvent [keeps_intros]: "calls_keep R rec \<Longrightarrow> keeps R (executeStartEvent env rec st execID wfd)"
  unfolding executeStartEvent_def by (intro keeps_intros | assumption | erule calls_keepD)+

lemma keeps_executeWait [keeps_intros]: "keeps R executeWait"
  unfolding executeWait_def by (intro keeps_intros)

lemma keeps_compensateFrom [keeps_intros]: "calls_keep R rec \<Longrightarrow> keeps R (compensateFrom env rec st execID wfd)"
  unfolding compensateFrom_def by (intro keeps_intros | assumption | erule calls_keepD)+

lemma keeps_throwLink [keeps_intros]: "calls_keep R rec \<Longrightarrow> keeps R (throwLink env rec st linkName execID wfd)"
  unfolding throwLink_def by (intro keeps_intros | assumption | erule calls_keepD)+

lemma keeps_throwEscalation [keeps_intros]: "calls_keep R rec \<Longrightarrow> keeps R (throwEscalation env rec code wfd)"
  unfolding throwEscalation_def by (intro keeps_intros | assumption | erule calls_keepD)+

lemma keeps_executeIntermediateThrowEvent [keeps_intros]: "calls_keep R rec \<Longrightarrow> keeps R (executeIntermediateThrowEvent env rec st execID wfd)"
  unfolding executeIntermediateThrowEvent_def Let_def by (intro keeps_intros | assumption | erule calls_keepD)+

lemma keeps_consumeToken [keeps_intros]: "keeps R (consumeToken env execID k)"
  unfolding consumeToken_def by (intro keeps_intros)

lemma keeps_executeGateway [keeps_intros]: "calls_keep R rec \<Longrightarrow> keeps R (executeGateway env rec st execID wfd)"
  unfolding executeGateway_def by (intro keeps_intros | assumption | erule calls_keepD)+

lemma keeps_endEventEffects [keeps_intros]: "calls_keep R rec \<Longrightarrow> keeps R (endEventEffects env rec st execID wfd)"
  unfolding endEventEffects_def by (intro keeps_intros | assumption | erule calls_keepD)+

lemma keeps_executeEndEvent [keeps_intros]: "calls_keep R rec \<Longrightarrow> keeps R (executeEndEvent env rec st execID wfd)"
  unfolding executeEndEvent_def by (intro keeps_intros | assumption | erule calls_keepD)+

lemma keeps_handleBoundaryError [keeps_intros]: "calls_keep R rec \<Longrightarrow> keeps R (handleBoundaryError env rec st execID wfd err)"
  unfolding handleBoundaryError_def by (intro keeps_intros | assumption | erule calls_keepD)+

lemma keeps_executor: "calls_keep R rec \<Longrightarrow> executor env rec st i wfd ty = Some m \<Longrightarrow> keeps R m"
  by (cases ty) (auto intro!: keeps_intros)

lemma keeps_executor_case [keeps_intros]:
  assumes "calls_keep R rec" and "keeps R a" and "\<And>m. keeps R m \<Longrightarrow> keeps R (k m)"
  shows "keeps R (case executor env rec st i wfd ty of None \<Rightarrow> a | Some m \<Rightarrow> k m)"
  using assms keeps_executor by (auto split: option.split)

lemma keeps_raiseIncident [keeps_intros]: "keeps R (raiseIncident env ex err)"
  unfolding raiseIncident_def by (intro keeps_intros)

lemma keeps_autoAdvance [keeps_intros]: "calls_keep R rec \<Longrightarrow> keeps R (autoAdvance env rec execID wfd)"
  unfolding autoAdvance_def by (intro keeps_intros | assumption | erule calls_keepD)+

text \<open>Theory \<open>Jobs\<close>.\<close>

lemma keeps_withRunning [keeps_intros]:
  "(\<And>w d. keeps R (b w d)) \<Longrightarrow> keeps R (withRunning env i b)"
  unfolding withRunning_def by (intro keeps_intros | assumption)+

lemma keeps_completeToken [keeps_intros]: "calls_keep R rec \<Longrightarrow> keeps R (completeToken env rec ex wfd)"
  unfolding completeToken_def by (intro keeps_intros | assumption | erule calls_keepD)+

lemma keeps_completeTask [keeps_intros]: "calls_keep R rec \<Longrightarrow> keeps R (completeTask env rec instanceID stepID)"
  unfolding completeTask_def by (intro keeps_intros | assumption | erule calls_keepD)+

lemma keeps_completeExecution [keeps_intros]: "calls_keep R rec \<Longrightarrow> keeps R (completeExecution env rec instanceID executionID)"
  unfolding completeExecution_def by (intro keeps_intros | assumption | erule calls_keepD)+

lemma keeps_CompleteTask [keeps_intros]: "calls_keep R rec \<Longrightarrow> keeps R (CompleteTask env rec instanceID stepID)"
  unfolding CompleteTask_def by (intro keeps_intros | assumption | erule calls_keepD)+

lemma keeps_CompleteExecution [keeps_intros]: "calls_keep R rec \<Longrightarrow> keeps R (CompleteExecution env rec instanceID executionID)"
  unfolding CompleteExecution_def by (intro keeps_intros | assumption | erule calls_keepD)+

lemma keeps_activateOne [keeps_intros]: "keeps R (activateOne env worker now lock acc j)"
  unfolding activateOne_def by (intro keeps_intros)

lemma keeps_activateJobsOnce [keeps_intros]: "keeps R (activateJobsOnce env jobType worker maxJobs lock0)"
  unfolding activateJobsOnce_def by (intro keeps_intros)

lemma keeps_pollJobs [keeps_intros]: "keeps R (pollJobs env ty w mx lock n)"
  by (induction n) (auto intro!: keeps_intros)

lemma keeps_ActivateJobs [keeps_intros]:
  "keeps R (ActivateJobs env jobType worker maxJobs requestTimeout ticks lock)"
  unfolding ActivateJobs_def by (intro keeps_intros)

lemma keeps_orThrow [keeps_intros]: "keeps R (orThrow e)"
  unfolding orThrow_def by (intro keeps_intros)

lemma keeps_completeJob_tx [keeps_intros]: "calls_keep R rec \<Longrightarrow> keeps R (completeJob_tx env rec jobKey worker vs)"
  unfolding completeJob_tx_def by (intro keeps_intros | assumption | erule calls_keepD)+

lemma keeps_CompleteJob [keeps_intros]: "calls_keep R rec \<Longrightarrow> keeps R (CompleteJob env rec jobKey worker vs)"
  unfolding CompleteJob_def by (intro keeps_intros | assumption | erule calls_keepD)+

lemma keeps_failedIncident [keeps_intros]: "keeps R (failedIncident env j message)"
  unfolding failedIncident_def by (intro keeps_intros)

lemma keeps_failJob_tx [keeps_intros]: "keeps R (failJob_tx env jobKey worker message retries)"
  unfolding failJob_tx_def by (intro keeps_intros)

lemma keeps_FailJob [keeps_intros]: "keeps R (FailJob env jobKey worker message retries)"
  unfolding FailJob_def by (intro keeps_intros)

lemma keeps_extendJobLock_tx [keeps_intros]: "keeps R (extendJobLock_tx env jobKey worker lock)"
  unfolding extendJobLock_tx_def by (intro keeps_intros)

lemma keeps_ExtendJobLock [keeps_intros]: "keeps R (ExtendJobLock env jobKey worker lock)"
  unfolding ExtendJobLock_def by (intro keeps_intros)

lemma keeps_retryJob_tx [keeps_intros]: "keeps R (retryJob_tx env jobKey retries)"
  unfolding retryJob_tx_def by (intro keeps_intros)

lemma keeps_RetryJob [keeps_intros]: "keeps R (RetryJob env jobKey retries)"
  unfolding RetryJob_def by (intro keeps_intros)

lemma keeps_ListInstanceJobs [keeps_intros]: "keeps R (ListInstanceJobs env instanceID)"
  unfolding ListInstanceJobs_def by (intro keeps_intros)

lemma keeps_ListEngineIncidents [keeps_intros]: "keeps R (ListEngineIncidents env k limit)"
  unfolding ListEngineIncidents_def by (intro keeps_intros)

lemma keeps_ListUserTaskJobs [keeps_intros]: "keeps R (ListUserTaskJobs env instanceID)"
  unfolding ListUserTaskJobs_def by (intro keeps_intros)

lemma keeps_getUserTaskJob [keeps_intros]: "keeps R (getUserTaskJob env instanceID executionID)"
  unfolding getUserTaskJob_def by (intro keeps_intros)

lemma keeps_claimUserTask_tx [keeps_intros]: "keeps R (claimUserTask_tx env instanceID executionID owner force)"
  unfolding claimUserTask_tx_def by (intro keeps_intros)

lemma keeps_ClaimUserTask [keeps_intros]: "keeps R (ClaimUserTask env instanceID executionID owner0 force)"
  unfolding ClaimUserTask_def by (intro keeps_intros)

lemma keeps_completeUserTask_tx [keeps_intros]:
  "calls_keep R rec \<Longrightarrow> keeps R (completeUserTask_tx env rec instanceID executionID owner force)"
  unfolding completeUserTask_tx_def by (intro keeps_intros | assumption | erule calls_keepD)+

lemma keeps_CompleteUserTask [keeps_intros]:
  "calls_keep R rec \<Longrightarrow> keeps R (CompleteUserTask env rec instanceID executionID owner0 force)"
  unfolding CompleteUserTask_def by (intro keeps_intros | assumption | erule calls_keepD)+

text \<open>The knot and the requests.\<close>

lemma keeps_engine_step: "calls_keep R rec \<Longrightarrow> calls_keep R (engine_step env rec)"
  by (auto simp: calls_keep_def engine_step_def split: call.split intro!: keeps_proceedToken keeps_autoAdvance)

lemma keeps_run [keeps_intros]: "calls_keep R (run env n)"
proof (induction n)
  case 0
  then show ?case by (simp add: calls_keep_def keeps_diverge)
next
  case (Suc n)
  then show ?case by (simp add: keeps_engine_step)
qed

lemma keeps_drop_result [keeps_intros]: "keeps R m \<Longrightarrow> keeps R (drop_result m)"
  unfolding drop_result_def by (intro keeps_intros)

lemma keeps_serve: "keeps R (serve env n q)"
  by (cases q) (auto intro!: keeps_intros)

lemma serve_frame: "serve env n q s = (r, t) \<Longrightarrow> R s t"
  using keepsD [OF keeps_serve] .

lemma served_frame: "served env s t \<Longrightarrow> R s t"
  by (induction rule: served.induct) (auto intro: R_refl R_trans serve_frame)

end

section \<open>Deployment and housekeeping\<close>

locale eng_frame_admin = eng_frame +
  assumes R_admin_write: "admin_write (s_db s) d \<Longrightarrow> R s (s\<lparr>s_db := d\<rparr>)"
begin

lemma keeps_admin_exec:
  "(\<And>d x d'. f d = Inr (x, d') \<Longrightarrow> d' = d \<or> admin_write d d') \<Longrightarrow> keeps R (repo_exec env f)"
  by (rule keeps_repo_exec) (blast intro: R_admin_write)

lemma keeps_CreateProcess [keeps_intros]: "keeps R (CreateProcess env p)"
  unfolding CreateProcess_def
  by (rule keeps_admin_exec) (auto simp: on_table_def insert_row_def split: if_splits intro!: admin_write.new_process)

lemma drop_instances: "s_db (s :: est) = d \<Longrightarrow> R s (s\<lparr>s_db := fold (\<lambda>i. drop_instance (pi_key i)) is d\<rparr>)"
proof (induction "is" arbitrary: s d)
  case Nil
  then have "s\<lparr>s_db := d\<rparr> = s" by simp
  then show ?case by (simp add: R_refl)
next
  case (Cons i "is")
  let ?t = "s\<lparr>s_db := drop_instance (pi_key i) d\<rparr>"
  have "R s ?t" using Cons.prems by (auto intro: R_admin_write admin_write.drop_one_instance)
  moreover have "R ?t (?t\<lparr>s_db := fold (\<lambda>i. drop_instance (pi_key i)) is (drop_instance (pi_key i) d)\<rparr>)"
    by (rule Cons.IH) simp
  ultimately show ?case using R_trans by simp
qed

lemma keeps_DeleteProcess [keeps_intros]: "keeps R (DeleteProcess env k)"
  unfolding DeleteProcess_def
proof (rule keeps_repo_exec, intro disjI2 allI impI)
  fix d x d' and s :: est
  assume f: "(let e = fold (\<lambda>i. drop_instance (pi_key i)) (filter (\<lambda>i. pi_definition_key i = k) (db_instances d)) d
      in Inr ((), e\<lparr>db_processes := filter (\<lambda>p. pr_key p \<noteq> k) (db_processes e)\<rparr>)) = Inr (x, d')"
    and s: "s_db s = d"
  let ?e = "fold (\<lambda>i. drop_instance (pi_key i)) (filter (\<lambda>i. pi_definition_key i = k) (db_instances d)) d"
  have "R s (s\<lparr>s_db := ?e\<rparr>)" using s by (rule drop_instances)
  moreover have "R (s\<lparr>s_db := ?e\<rparr>) (s\<lparr>s_db := ?e\<rparr>\<lparr>s_db := d'\<rparr>)"
    using f by (intro R_admin_write) (auto simp: Let_def intro: admin_write.drop_process)
  ultimately show "R s (s\<lparr>s_db := d'\<rparr>)" using R_trans by simp
qed

lemma keeps_DeleteProcessInstance [keeps_intros]: "keeps R (DeleteProcessInstance env k)"
  unfolding DeleteProcessInstance_def by (rule keeps_admin_exec) (auto intro: admin_write.drop_one_instance)

lemma keeps_CreateIdempotencyRecord [keeps_intros]: "keeps R (CreateIdempotencyRecord env r)"
  unfolding CreateIdempotencyRecord_def
  by (rule keeps_admin_exec) (auto split: if_splits intro!: admin_write.new_key)

lemma keeps_drop_keys [keeps_intros]:
  "keeps R (repo_exec env (\<lambda>d. let gone = g in
     Inr (int (length (filter gone (db_idempotency d))),
       d\<lparr>db_idempotency := filter (\<lambda>r. \<not> gone r) (db_idempotency d)\<rparr>)))"
  by (rule keeps_admin_exec) (auto simp: Let_def intro!: admin_write.drop_keys)

lemma keeps_DeleteIdempotencyRecordsBefore [keeps_intros]:
  "keeps R (DeleteIdempotencyRecordsBefore env cutoff limit)"
  unfolding DeleteIdempotencyRecordsBefore_def by (intro keeps_intros)

lemma keeps_RunIdempotencyCleanup [keeps_intros]: "keeps R (RunIdempotencyCleanup env ttl limit)"
  unfolding RunIdempotencyCleanup_def by (intro keeps_intros)

lemma keeps_RecordIdempotencyKey [keeps_intros]: "keeps R (RecordIdempotencyKey env k op)"
  unfolding RecordIdempotencyKey_def by (intro keeps_intros)

lemma keeps_TryAcquireRuntimeSchedulerLease [keeps_intros]:
  "keeps R (TryAcquireRuntimeSchedulerLease env holder ttl)"
  unfolding TryAcquireRuntimeSchedulerLease_def Let_def
  by (intro keeps_intros; rule keeps_admin_exec)
     (auto split: option.splits if_splits intro!: admin_write.new_lease admin_write.take_lease)

lemma keeps_UpsertDecision [keeps_intros]: "keeps R (UpsertDecision env dec)"
  unfolding UpsertDecision_def
  by (intro keeps_intros; rule keeps_admin_exec)
     (auto simp: on_table_def insert_row_def update_by_key_def split: if_splits
        intro!: admin_write.new_decision admin_write.write_decision)

lemma keeps_DeployDecision [keeps_intros]: "keeps R (DeployDecision env i name res)"
  unfolding DeployDecision_def by (intro keeps_intros)

lemma keeps_DeployWorkflow [keeps_intros]: "keeps R (DeployWorkflow env name ss)"
  unfolding DeployWorkflow_def deployWorkflow_tx_def by (intro keeps_intros)

lemma keeps_DeployWorkflowFromBPMN [keeps_intros]: "keeps R (DeployWorkflowFromBPMN env xml)"
  unfolding DeployWorkflowFromBPMN_def deployWorkflowFromBPMN_tx_def by (intro keeps_intros)

lemma keeps_DeleteWorkflow [keeps_intros]: "keeps R (DeleteWorkflow env i)"
  unfolding DeleteWorkflow_def by (intro keeps_intros)

lemma keeps_DeleteInstance [keeps_intros]: "keeps R (DeleteInstance env i)"
  unfolding DeleteInstance_def by (intro keeps_intros)

lemma keeps_administer: "keeps R (administer env q)"
  by (cases q) (auto intro!: keeps_intros)

lemma administer_frame: "administer env q s = (r, t) \<Longrightarrow> R s t"
  using keepsD [OF keeps_administer] .

lemma reaches_frame: "reaches env s t \<Longrightarrow> R s t"
  by (induction rule: reaches.induct) (auto intro: R_refl R_trans serve_frame administer_frame)

end

end
