(* ===== verification/Invariants.thy ===== *)
theory Invariants
  imports Frame
begin

text \<open>
  What the tables keep over the life of the engine. The locales of theory \<open>Frame\<close> are interpreted on
  reachability by writes: whatever requests do to the tables is a sequence of \<open>runtime_write\<close> steps, with
  administration of \<open>runtime_write\<close> and \<open>admin_write\<close> steps. Two facts then go by induction on the steps:

    \<open>audit\<close>: no request of a client, a worker or the scheduler removes or moves a row, the columns
    that identify a row never change, an element instance that is finished and a process instance
    that is completed stay so, an outbox row keeps its event, and the deployment tables stay as they are;

    \<open>db_wf\<close>: primary keys are unique and states are the ones the engine knows, in every state that
    requests and administration reach.
\<close>

section \<open>Requests are sequences of writes\<close>

definition store_write :: "db \<Rightarrow> db \<Rightarrow> bool" where
  "store_write d e \<longleftrightarrow> runtime_write d e \<or> admin_write d e"

interpretation runtime: eng_frame "\<lambda>s t. runtime_write\<^sup>*\<^sup>* (s_db s) (s_db t)"
  by unfold_locales auto

interpretation store: eng_frame_admin "\<lambda>s t. store_write\<^sup>*\<^sup>* (s_db s) (s_db t)"
  by unfold_locales (auto simp: store_write_def)

section \<open>Tables that only grow\<close>

definition grows :: "('r \<Rightarrow> 'r \<Rightarrow> bool) \<Rightarrow> 'r list \<Rightarrow> 'r list \<Rightarrow> bool" where
  "grows rel xs ys \<longleftrightarrow> length xs \<le> length ys \<and> (\<forall>i<length xs. rel (xs ! i) (ys ! i))"

lemma grows_refl: "(\<And>r. rel r r) \<Longrightarrow> grows rel xs xs"
  by (simp add: grows_def)

lemma grows_trans:
  "(\<And>x y z. rel x y \<Longrightarrow> rel y z \<Longrightarrow> rel x z) \<Longrightarrow> grows rel xs ys \<Longrightarrow> grows rel ys zs \<Longrightarrow> grows rel xs zs"
  by (force simp: grows_def)

lemma grows_append: "(\<And>r. rel r r) \<Longrightarrow> grows rel xs (xs @ ys)"
  by (simp add: grows_def nth_append)

lemma grows_update: "(\<And>r. rel r r) \<Longrightarrow> (\<And>r. p r \<Longrightarrow> rel r (f r)) \<Longrightarrow> grows rel xs (update_rows p f xs)"
  by (simp add: grows_def update_rows_def)

lemma grows_row:
  assumes "grows rel xs ys" and "x \<in> set xs"
  shows "\<exists>y \<in> set ys. rel x y"
proof -
  from assms(2) obtain i where i: "i < length xs" "x = xs ! i" by (auto simp: in_set_conv_nth)
  with assms(1) have "i < length ys" "rel x (ys ! i)" by (auto simp: grows_def)
  then show ?thesis using nth_mem by blast
qed

section \<open>What a request may do to the rows\<close>

definition instance_step :: "process_instance \<Rightarrow> process_instance \<Rightarrow> bool" where
  "instance_step p q \<longleftrightarrow> q = p\<lparr>pi_state := pi_state q, pi_end_time := pi_end_time q\<rparr> \<and>
     (pi_state q = pi_state p \<or> pi_state q = ''COMPLETED'')"

definition finished_state :: "string \<Rightarrow> bool" where
  "finished_state st \<longleftrightarrow> st = ''COMPLETED'' \<or> st = ''TERMINATED''"

definition element_step :: "element_instance \<Rightarrow> element_instance \<Rightarrow> bool" where
  "element_step a b \<longleftrightarrow> b = a\<lparr>ei_state := ei_state b, ei_end_time := ei_end_time b\<rparr> \<and>
     (ei_state b = ei_state a \<or> finished_state (ei_state b))"

definition variable_step :: "variable \<Rightarrow> variable \<Rightarrow> bool" where
  "variable_step a b \<longleftrightarrow> va_scope_key b = va_scope_key a \<and> va_created_at b = va_created_at a"

definition job_step :: "job \<Rightarrow> job \<Rightarrow> bool" where
  "job_step a b \<longleftrightarrow> b = job_columns b a"

definition timer_step :: "timer \<Rightarrow> timer \<Rightarrow> bool" where
  "timer_step a b \<longleftrightarrow>
     b = a\<lparr>tm_state := tm_state b, tm_due_date := tm_due_date b, tm_repeat_count := tm_repeat_count b\<rparr>"

definition subscription_step :: "subscription \<Rightarrow> subscription \<Rightarrow> bool" where
  "subscription_step a b \<longleftrightarrow> b = a\<lparr>su_state := su_state b\<rparr>"

definition outbox_step :: "outbox_message \<Rightarrow> outbox_message \<Rightarrow> bool" where
  "outbox_step a b \<longleftrightarrow> ob_id b = ob_id a \<and> ob_event_type b = ob_event_type a \<and>
     ob_payload b = ob_payload a \<and> ob_created_at b = ob_created_at a \<and> ob_attempts a \<le> ob_attempts b"

definition audit :: "db \<Rightarrow> db \<Rightarrow> bool" where
  "audit d e \<longleftrightarrow>
     grows instance_step (db_instances d) (db_instances e) \<and>
     grows element_step (db_elements d) (db_elements e) \<and>
     grows variable_step (db_variables d) (db_variables e) \<and>
     grows job_step (db_jobs d) (db_jobs e) \<and>
     grows (=) (db_incidents d) (db_incidents e) \<and>
     grows timer_step (db_timers d) (db_timers e) \<and>
     grows subscription_step (db_subscriptions d) (db_subscriptions e) \<and>
     grows outbox_step (db_outbox d) (db_outbox e) \<and>
     db_processes e = db_processes d \<and> db_idempotency e = db_idempotency d \<and>
     db_leases e = db_leases d \<and> db_decisions e = db_decisions d"

lemma instance_step_refl: "instance_step p p" by (simp add: instance_step_def)
lemma element_step_refl: "element_step p p" by (simp add: element_step_def)
lemma variable_step_refl: "variable_step p p" by (simp add: variable_step_def)
lemma job_step_refl: "job_step p p" by (simp add: job_step_def job_columns_def)
lemma timer_step_refl: "timer_step p p" by (simp add: timer_step_def)
lemma subscription_step_refl: "subscription_step p p" by (simp add: subscription_step_def)
lemma outbox_step_refl: "outbox_step p p" by (simp add: outbox_step_def)

lemmas row_refl = instance_step_refl element_step_refl variable_step_refl job_step_refl timer_step_refl
  subscription_step_refl outbox_step_refl refl

lemma instance_step_trans: "instance_step p q \<Longrightarrow> instance_step q r \<Longrightarrow> instance_step p r"
  by (cases p; cases q; cases r) (auto simp: instance_step_def)

lemma element_step_trans: "element_step p q \<Longrightarrow> element_step q r \<Longrightarrow> element_step p r"
  by (cases p; cases q; cases r) (auto simp: element_step_def)

lemma variable_step_trans: "variable_step p q \<Longrightarrow> variable_step q r \<Longrightarrow> variable_step p r"
  by (simp add: variable_step_def)

lemma job_step_trans: "job_step p q \<Longrightarrow> job_step q r \<Longrightarrow> job_step p r"
  by (cases p; cases q; cases r) (auto simp: job_step_def job_columns_def)

lemma timer_step_trans: "timer_step p q \<Longrightarrow> timer_step q r \<Longrightarrow> timer_step p r"
  by (cases p; cases q; cases r) (auto simp: timer_step_def)

lemma subscription_step_trans: "subscription_step p q \<Longrightarrow> subscription_step q r \<Longrightarrow> subscription_step p r"
  by (cases p; cases q; cases r) (auto simp: subscription_step_def)

lemma outbox_step_trans: "outbox_step p q \<Longrightarrow> outbox_step q r \<Longrightarrow> outbox_step p r"
  by (auto simp: outbox_step_def)

lemma eq_rows_trans: "x = y \<Longrightarrow> y = z \<Longrightarrow> x = z"
  by simp

lemmas grows_step_trans =
  grows_trans [OF instance_step_trans] grows_trans [OF element_step_trans] grows_trans [OF variable_step_trans]
  grows_trans [OF job_step_trans] grows_trans [OF timer_step_trans] grows_trans [OF subscription_step_trans]
  grows_trans [OF outbox_step_trans] grows_trans [OF eq_rows_trans]

lemma audit_refl: "audit d d"
  by (simp add: audit_def grows_refl row_refl)

lemma audit_trans: "audit a b \<Longrightarrow> audit b c \<Longrightarrow> audit a c"
  unfolding audit_def by (elim conjE, intro conjI; (rule grows_step_trans; assumption)?) simp_all

lemma grows_upsert: "grows variable_step vs (upsert_variable v vs)"
  by (auto simp: upsert_variable_def variable_step_def intro!: grows_append grows_update)

lemma element_finish: "finished_state st \<Longrightarrow> element_step el (el\<lparr>ei_state := st, ei_end_time := t\<rparr>)"
  by (simp add: element_step_def)

lemmas row_steps = instance_step_def job_step_def job_columns_def timer_step_def subscription_step_def
  outbox_step_def claim_row_def failed_row_def terminal_row_def published_row_def

lemma runtime_write_audit: "runtime_write d e \<Longrightarrow> audit d e"
  by (erule runtime_writeE)
     (auto simp: audit_def grows_refl row_refl grows_upsert element_finish finished_state_def row_steps
       intro!: grows_append grows_update)

lemma runtime_writes_audit: "runtime_write\<^sup>*\<^sup>* d e \<Longrightarrow> audit d e"
  by (induction rule: rtranclp_induct) (auto intro: audit_refl audit_trans runtime_write_audit)

text \<open>What the audit says of single columns.\<close>

lemma element_step_columns:
  "element_step a b \<Longrightarrow> ei_key b = ei_key a \<and> ei_instance_key b = ei_instance_key a \<and>
     ei_element_id b = ei_element_id a \<and> ei_flow_scope_key b = ei_flow_scope_key a \<and>
     ei_created_at b = ei_created_at a \<and>
     (ei_state b \<noteq> ei_state a \<longrightarrow> ei_state b = ''COMPLETED'' \<or> ei_state b = ''TERMINATED'')"
  by (cases a; cases b) (auto simp: element_step_def finished_state_def)

lemma instance_step_columns:
  "instance_step p q \<Longrightarrow> pi_key q = pi_key p \<and> pi_definition_key q = pi_definition_key p \<and>
     pi_created_at q = pi_created_at p \<and> (pi_state p = ''COMPLETED'' \<longrightarrow> pi_state q = ''COMPLETED'')"
  by (cases p; cases q) (auto simp: instance_step_def)

lemma grows_eq_prefix: "grows (=) xs ys \<Longrightarrow> \<exists>zs. ys = xs @ zs"
proof -
  assume g: "grows (=) xs ys"
  have "take (length xs) ys = xs"
    using g by (intro nth_equalityI) (auto simp: grows_def)
  then show ?thesis by (metis append_take_drop_id)
qed

text \<open>So the audit relation is respected by every operation of the engine.\<close>

lemma served_audit: "served env s t \<Longrightarrow> audit (s_db s) (s_db t)"
  by (rule runtime_writes_audit) (rule runtime.served_frame)

section \<open>Well-formed tables\<close>

definition outbox_ok :: "outbox_message \<Rightarrow> bool" where
  "outbox_ok m \<longleftrightarrow>
     ob_status m \<in> {''PENDING'', ''PROCESSING'', ''PUBLISHED'', ''FAILED''} \<and> 0 \<le> ob_attempts m \<and>
     (ob_status m = ''PROCESSING'') = (ob_processing_started m \<noteq> None) \<and>
     (ob_next_attempt m \<noteq> None \<longrightarrow> ob_status m = ''PENDING'') \<and>
     (ob_status m \<in> {''PUBLISHED'', ''FAILED''} \<longrightarrow> ob_published_at m \<noteq> None)"

definition keys_unique :: "db \<Rightarrow> bool" where
  "keys_unique d \<longleftrightarrow>
     distinct (map pr_key (db_processes d)) \<and> distinct (map pi_key (db_instances d)) \<and>
     distinct (map ei_key (db_elements d)) \<and> distinct (map va_scope_key (db_variables d)) \<and>
     distinct (map jb_key (db_jobs d)) \<and> distinct (map in_key (db_incidents d)) \<and>
     distinct (map tm_key (db_timers d)) \<and> distinct (map su_key (db_subscriptions d)) \<and>
     distinct (map (\<lambda>r. (ir_key r, ir_operation r)) (db_idempotency d)) \<and>
     distinct (map ob_id (db_outbox d)) \<and> distinct (map dd_key (db_decisions d))"

definition rows_ok :: "db \<Rightarrow> bool" where
  "rows_ok d \<longleftrightarrow>
     list_all (\<lambda>p. pi_state p \<in> {''ACTIVE'', ''COMPLETED''}) (db_instances d) \<and>
     list_all (\<lambda>el. ei_state el \<in> {''ACTIVATED'', ''COMPLETED'', ''TERMINATED''}) (db_elements d) \<and>
     list_all outbox_ok (db_outbox d) \<and>
     length (db_leases d) \<le> 1 \<and> list_all (\<lambda>l. sl_id l = ''runtime-scheduler'') (db_leases d)"

definition db_wf :: "db \<Rightarrow> bool" where
  "db_wf d \<longleftrightarrow> keys_unique d \<and> rows_ok d"

lemma db_wf_empty: "db_wf empty_db"
  by (simp add: db_wf_def keys_unique_def rows_ok_def empty_db_def)

lemma map_update_rows [simp]: "(\<And>r. key (f r) = key r) \<Longrightarrow> map key (update_rows p f xs) = map key xs"
  by (simp add: update_rows_def)

lemma list_all_update_rows: "(\<And>r. ok r \<Longrightarrow> ok (f r)) \<Longrightarrow> list_all ok xs \<Longrightarrow> list_all ok (update_rows p f xs)"
  by (auto simp: update_rows_def list_all_iff)

lemma list_all_filter: "list_all ok xs \<Longrightarrow> list_all ok (filter p xs)"
  by (simp add: list_all_iff)

lemma distinct_map_append: "distinct (map key (xs @ [r])) \<longleftrightarrow> distinct (map key xs) \<and> key r \<notin> key ` set xs"
  by auto

lemma distinct_upsert: "distinct (map va_scope_key vs) \<Longrightarrow> distinct (map va_scope_key (upsert_variable v vs))"
  by (auto simp: upsert_variable_def)

lemma length_update_rows [simp]: "length (update_rows p f xs) = length xs"
  by (simp add: update_rows_def)

lemma no_lease:
  "list_all (\<lambda>l. sl_id l = i) ls \<Longrightarrow> List.find (\<lambda>l. sl_id l = i) ls = None \<Longrightarrow> ls = []"
  by (cases ls) auto

lemma take_lease_ok:
  "sl_id l = i \<Longrightarrow> list_all (\<lambda>l. sl_id l = i) ls \<Longrightarrow> list_all (\<lambda>l. sl_id l = i) (update_rows p (\<lambda>_. l) ls)"
  by (rule list_all_update_rows)

lemma outbox_ok_writes:
  "outbox_ok (outbox_row i t ev)"
  "outbox_ok m \<Longrightarrow> outbox_ok (claim_row t m)"
  "outbox_ok m \<Longrightarrow> outbox_ok (failed_row e t m)"
  "outbox_ok m \<Longrightarrow> outbox_ok (terminal_row e t m)"
  "outbox_ok m \<Longrightarrow> outbox_ok (published_row t m)"
  by (auto simp: outbox_ok_def outbox_row_def claim_row_def failed_row_def terminal_row_def published_row_def)

lemma row_keys [simp]:
  "jb_key (job_columns j r) = jb_key r" "ob_id (outbox_row i t ev) = i" "ob_id (claim_row t m) = ob_id m"
  "ob_id (failed_row e t m) = ob_id m" "ob_id (terminal_row e t m) = ob_id m"
  "ob_id (published_row t m) = ob_id m"
  by (simp_all add: job_columns_def outbox_row_def claim_row_def failed_row_def terminal_row_def published_row_def)

lemma keys_unique_drop: "keys_unique d \<Longrightarrow> keys_unique (drop_instance k d)"
  by (simp add: keys_unique_def drop_instance_def distinct_map_filter)

lemma rows_ok_drop: "rows_ok d \<Longrightarrow> rows_ok (drop_instance k d)"
  by (simp add: rows_ok_def drop_instance_def list_all_filter)

lemma runtime_write_wf: "runtime_write d e \<Longrightarrow> db_wf d \<Longrightarrow> db_wf e"
  by (erule runtime_writeE)
     (auto simp: db_wf_def keys_unique_def rows_ok_def distinct_upsert list_all_update_rows outbox_ok_writes)

lemma admin_write_wf: "admin_write d e \<Longrightarrow> db_wf d \<Longrightarrow> db_wf e"
proof (erule admin_writeE, goal_cases)
  case (2 k)
  then show ?case by (simp add: db_wf_def keys_unique_drop rows_ok_drop)
qed (auto simp: db_wf_def keys_unique_def rows_ok_def list_all_update_rows distinct_map_filter dest: no_lease)

lemma store_writes_wf: "store_write\<^sup>*\<^sup>* d e \<Longrightarrow> db_wf d \<Longrightarrow> db_wf e"
  by (induction rule: rtranclp_induct) (auto simp: store_write_def intro: runtime_write_wf admin_write_wf)

lemma reaches_wf: "reaches env s t \<Longrightarrow> db_wf (s_db s) \<Longrightarrow> db_wf (s_db t)"
  by (rule store_writes_wf) (rule store.reaches_frame)

end
