(* ===== verification/Delivery.thy ===== *)
theory Delivery
  imports Invariants
begin

text \<open>
  The transactional outbox: while a transaction is open nothing reaches the bus (\<open>quiet\<close>), a transaction
  that fails leaves tables and bus as they were, one that commits has a row in the outbox for every event
  it published, and every event that ever reaches the bus is in the outbox (\<open>delivers\<close>).
\<close>

section \<open>Inside a transaction\<close>

definition quiet :: "est \<Rightarrow> est \<Rightarrow> bool" where
  "quiet s t \<longleftrightarrow> (\<forall>b. s_buf s = Some b \<longrightarrow>
     s_bus t = s_bus s \<and> s_pubs t = s_pubs s \<and> (\<exists>b'. s_buf t = Some (b @ b')))"

lemma quiet_trans: "quiet s t \<Longrightarrow> quiet t u \<Longrightarrow> quiet s u"
  by (fastforce simp: quiet_def)

interpretation quiet: eng_frame_admin quiet
proof (unfold_locales, goal_cases)
  case (2 s t u)
  then show ?case by (rule quiet_trans)
qed (auto simp: quiet_def)

section \<open>What is recorded\<close>

definition recorded :: "db \<Rightarrow> event \<times> string \<Rightarrow> bool" where
  "recorded d x \<longleftrightarrow> (\<exists>m \<in> set (db_outbox d). ob_payload m = fst x \<and> ob_event_type m = snd x)"

lemma grows_recorded: "grows outbox_step (db_outbox d) (db_outbox e) \<Longrightarrow> recorded d x \<Longrightarrow> recorded e x"
  unfolding recorded_def by (force dest: grows_row simp: outbox_step_def)

lemma store_write_recorded: "store_write d e \<Longrightarrow> recorded d x \<Longrightarrow> recorded e x"
proof (unfold store_write_def, elim disjE)
  assume "runtime_write d e" and r: "recorded d x"
  then have "grows outbox_step (db_outbox d) (db_outbox e)"
    using runtime_write_audit by (simp add: audit_def)
  then show "recorded e x" using r by (rule grows_recorded)
next
  assume "admin_write d e" and "recorded d x"
  then show "recorded e x" by (cases rule: admin_write.cases) (auto simp: recorded_def drop_instance_def)
qed

lemma store_writes_recorded: "store_write\<^sup>*\<^sup>* d e \<Longrightarrow> recorded d x \<Longrightarrow> recorded e x"
  by (induction rule: rtranclp_induct) (auto intro: store_write_recorded)

lemma persisted_recorded:
  "persistBufferedEventsToOutbox env evs s = (Ok ps, t) \<Longrightarrow>
     map fst ps = evs \<and> (\<forall>x \<in> set evs. recorded (s_db t) x)"
proof (induction evs arbitrary: s ps)
  case Nil
  then show ?case by (simp add: ret_def)
next
  case (Cons ev evs)
  from Cons.prems obtain i c u ps' where
    p: "persistBufferedEventsToOutbox env evs u = (Ok ps', t)" and ps: "ps = (ev, i, c) # ps'"
    and row: "outbox_row i c ev \<in> set (db_outbox (s_db u))"
    by (auto simp: go_simps GenerateUUIDv7_def timeNow_def CreateOutboxMessage_def repo_exec_def Let_def on_table_def
        insert_row_def split: prod.splits outcome.splits sum.splits if_splits)
  have "recorded (s_db u) ev" using row by (force simp: recorded_def outbox_row_def)
  moreover have "store_write\<^sup>*\<^sup>* (s_db u) (s_db t)"
    using keepsD [OF store.keeps_persistBufferedEventsToOutbox p] .
  ultimately have "recorded (s_db t) ev" by (blast intro: store_writes_recorded)
  with Cons.IH [OF p] ps show ?case by simp
qed

section \<open>What is published after the commit\<close>

definition bus_only :: "(event \<times> string) set \<Rightarrow> est \<Rightarrow> est \<Rightarrow> bool" where
  "bus_only X s t \<longleftrightarrow> (s_buf s = None \<longrightarrow>
     s_buf t = None \<and> (\<exists>evs. s_bus t = s_bus s @ evs \<and> set evs \<subseteq> X))"

interpretation bus: preorder_on_states "bus_only X"
  by unfold_locales (force simp: bus_only_def)+

lemmas bus_rules = keeps_cases bus.keeps_ret bus.keeps_throw bus.keeps_bindE bus.keeps_thenE bus.keeps_tryE
  bus.keeps_ignoreE bus.keeps_mapErr bus.keeps_foldE

lemma bus_same: "(\<And>s. s_bus (snd (m s)) = s_bus s \<and> s_buf (snd (m s)) = s_buf s) \<Longrightarrow> keeps (bus_only X) m"
  by (simp add: keeps_def bus_only_def)

lemma bus_repo_exec: "keeps (bus_only X) (repo_exec env f)"
  by (rule bus_same) (simp add: repo_exec_def Let_def split: sum.split)

lemma bus_repo_query: "keeps (bus_only X) (repo_query env f)"
  by (rule bus_same) (simp add: repo_query_def Let_def split: sum.split)

lemma bus_timeNow: "keeps (bus_only X) (timeNow env)"
  by (rule bus_same) (simp add: timeNow_def)

lemma bus_meter: "keeps (bus_only X) (meter f)"
  by (rule bus_same) (simp add: meter_def modifyS_def)

lemma bus_Publish: "(ev, ty) \<in> X \<Longrightarrow> keeps (bus_only X) (Publish env ev ty)"
  by (auto simp: keeps_def bus_only_def Publish_def Let_def split: option.split)

lemma bus_mark:
  "keeps (bus_only X) (MarkOutboxMessagePublishFailed env i e t)"
  "keeps (bus_only X) (MarkOutboxMessageTerminalFailed env i e t)"
  "keeps (bus_only X) (MarkOutboxMessagePublished env i t)"
  "keeps (bus_only X) (ClaimOutboxMessage env i t)"
  unfolding MarkOutboxMessagePublishFailed_def MarkOutboxMessageTerminalFailed_def
    MarkOutboxMessagePublished_def ClaimOutboxMessage_def update_outbox_def
  by (rule bus_repo_exec)+

lemma bus_record:
  "keeps (bus_only X) (recordOutboxPublishFailure env i n e)"
  "keeps (bus_only X) (recordOutboxPublishSuccess c t)"
  unfolding recordOutboxPublishFailure_def recordOutboxPublishSuccess_def
  by (intro bus_rules bus_meter bus_timeNow bus_mark)+

lemma bus_flush:
  assumes "\<forall>p \<in> set ps. fst p \<in> X"
  shows "keeps (bus_only X) (flushBufferedEvents env ps)"
  unfolding flushBufferedEvents_def
proof (rule bus.keeps_forE)
  fix p
  assume "p \<in> set ps"
  moreover obtain ev ty i c where p: "p = ((ev, ty), i, c)" by (metis prod.exhaust)
  ultimately have "(ev, ty) \<in> X" using assms by auto
  then show "keeps (bus_only X) (flushOne env p)"
    unfolding flushOne_def p prod.case by (intro bus_rules bus_Publish bus_timeNow bus_mark bus_record)
qed

lemma unmarshal_payload: "unmarshalOutboxEvent ty p = Inr ev \<Longrightarrow> ev = p"
  by (auto simp: unmarshalOutboxEvent_def split: if_splits)

lemma bus_relayOne:
  assumes "(ob_payload m, ob_event_type m) \<in> X"
  shows "keeps (bus_only X) (relayOne env r m)"
proof (cases "unmarshalOutboxEvent (ob_event_type m) (ob_payload m)")
  case (Inl e)
  show ?thesis unfolding relayOne_def Let_def Inl sum.case
    by (intro bus_rules bus_timeNow bus_mark bus_record)
next
  case (Inr ev)
  with unmarshal_payload assms have "(ev, ob_event_type m) \<in> X" by metis
  then show ?thesis unfolding relayOne_def Let_def Inr sum.case
    by (intro bus_rules bus_timeNow bus_mark bus_record bus_Publish)
qed

lemma bus_relay_all:
  "\<forall>m \<in> set ms. (ob_payload m, ob_event_type m) \<in> X \<Longrightarrow> keeps (bus_only X) (foldE (relayOne env) r ms)"
  by (induction ms arbitrary: r) (auto intro!: bus.keeps_ret bus.keeps_bindE bus_relayOne)

text \<open>The relay publishes only what the outbox holds when it starts.\<close>

lemma bus_relay:
  assumes "flushPendingOutbox env limit s = (r, t)"
  shows "bus_only {x. recorded (s_db s) x} s t"
proof -
  let ?X = "{x. recorded (s_db s) x}"
  have list: "\<forall>m \<in> set ms. (ob_payload m, ob_event_type m) \<in> ?X"
    if "ListPendingOutboxMessages env now limit v = (Ok ms, u)" and "s_db v = s_db s" for now v ms u
  proof -
    from that have "set ms \<subseteq> set (db_outbox (s_db s))"
      by (auto simp: ListPendingOutboxMessages_def repo_query_def Let_def split: if_splits dest: in_set_takeD)
    then show ?thesis by (auto simp: recorded_def)
  qed
  obtain now a where a: "timeNow env s = (Ok now, a)" "s_db a = s_db s" "bus_only ?X s a"
    by (simp add: timeNow_def bus_only_def)
  obtain rb b where b: "CountPendingOutboxMessages env now a = (rb, b)" by fastforce
  have b': "s_db b = s_db s" "bus_only ?X s b"
    using b a by (auto simp: CountPendingOutboxMessages_def repo_query_def Let_def bus_only_def split: if_splits)
  show ?thesis
  proof (cases rb)
    case (Ok pending)
    obtain c where c: "meter (setOutboxPending pending) b = (Ok (), c)" "s_db c = s_db s" "bus_only ?X s c"
      using b' by (simp add: meter_def modifyS_def bus_only_def)
    obtain rd v where d: "ListPendingOutboxMessages env now limit c = (rd, v)" by fastforce
    have v: "bus_only ?X s v"
      using d c by (auto simp: ListPendingOutboxMessages_def repo_query_def Let_def bus_only_def split: if_splits)
    show ?thesis
    proof (cases rd)
      case (Ok ms)
      have "keeps (bus_only ?X) (foldE (relayOne env)
          \<lparr>rr_pending = pending, rr_claimed = 0, rr_published = 0, rr_failed = 0\<rparr> ms)"
        using list [OF d [unfolded Ok] c(2)] by (rule bus_relay_all)
      moreover from assms a b c d Ok \<open>rb = Ok pending\<close> have "foldE (relayOne env)
          \<lparr>rr_pending = pending, rr_claimed = 0, rr_published = 0, rr_failed = 0\<rparr> ms v = (r, t)"
        by (simp add: flushPendingOutbox_def go_simps)
      ultimately have "bus_only ?X v t" by (rule keepsD)
      with v show ?thesis by (rule bus.R_trans)
    qed (use assms a b c d v \<open>rb = Ok pending\<close> in \<open>auto simp: flushPendingOutbox_def go_simps\<close>)
  qed (use assms a b b' in \<open>auto simp: flushPendingOutbox_def go_simps\<close>)
qed

section \<open>The flush and the relay return\<close>

text \<open>\<open>returns m\<close>: from every state \<open>m\<close> returns a value, no error, no panic.\<close>

definition returns :: "'a eng \<Rightarrow> bool" where
  "returns m \<longleftrightarrow> (\<forall>s. \<exists>x t. m s = (Ok x, t))"

text \<open>\<open>tame m\<close>: \<open>m\<close> returns a value or an error.\<close>

definition tame :: "'a eng \<Rightarrow> bool" where
  "tame m \<longleftrightarrow> (\<forall>s. (\<exists>x t. m s = (Ok x, t)) \<or> (\<exists>e t. m s = (Error e, t)))"

lemma returnsD: "returns m \<Longrightarrow> \<exists>x t. m s = (Ok x, t)"
  unfolding returns_def by (rule spec)

lemma tameD: "tame m \<Longrightarrow> (\<exists>x t. m s = (Ok x, t)) \<or> (\<exists>e t. m s = (Error e, t))"
  unfolding tame_def by (rule spec)

lemma returns_ret: "returns (ret x)"
  by (simp add: returns_def ret_def)

lemma returns_bindE:
  assumes "returns m" and "\<And>x. returns (f x)"
  shows "returns (bindE m f)"
  unfolding returns_def
proof
  fix s
  obtain x t where m: "m s = (Ok x, t)" using returnsD [OF assms(1)] by blast
  then show "\<exists>y u. bindE m f s = (Ok y, u)" using returnsD [OF assms(2)] by (simp add: bindE_apply)
qed

lemma returns_thenE: "returns m \<Longrightarrow> returns k \<Longrightarrow> returns (thenE m k)"
  by (simp add: thenE_def returns_bindE)

lemma returns_forE: "(\<And>x. returns (f x)) \<Longrightarrow> returns (forE xs f)"
  by (induction xs) (auto intro: returns_ret returns_thenE)

lemma returns_foldE: "(\<And>a x. returns (f a x)) \<Longrightarrow> returns (foldE f a xs)"
  by (induction xs arbitrary: a) (auto intro: returns_ret returns_bindE)

lemma returns_tryE:
  assumes "tame m"
  shows "returns (tryE m)"
  unfolding returns_def
proof
  fix s
  show "\<exists>y u. tryE m s = (Ok y, u)" using tameD [OF assms, of s] by (auto simp: tryE_apply)
qed

lemma returns_ignoreE: "tame m \<Longrightarrow> returns (ignoreE m)"
  unfolding ignoreE_def by (intro returns_bindE returns_tryE returns_ret)

lemma returns_tame: "returns m \<Longrightarrow> tame m"
  by (auto simp: returns_def tame_def)

lemma tame_bindE:
  assumes "tame m" and "\<And>x. tame (f x)"
  shows "tame (bindE m f)"
  unfolding tame_def
proof
  fix s
  show "(\<exists>y u. bindE m f s = (Ok y, u)) \<or> (\<exists>e u. bindE m f s = (Error e, u))"
    using tameD [OF assms(1), of s]
  proof (elim disjE exE)
    fix x t
    assume "m s = (Ok x, t)"
    then show ?thesis using tameD [OF assms(2), of x t] by (simp add: bindE_apply)
  qed (simp add: bindE_apply)
qed

lemma tame_thenE: "tame m \<Longrightarrow> tame k \<Longrightarrow> tame (thenE m k)"
  by (simp add: thenE_def tame_bindE)

lemma tame_mapErr:
  assumes "tame m"
  shows "tame (mapErr h m)"
  unfolding tame_def
proof
  fix s
  show "(\<exists>y u. mapErr h m s = (Ok y, u)) \<or> (\<exists>e u. mapErr h m s = (Error e, u))"
    using tameD [OF assms, of s] by (auto simp: mapErr_apply)
qed

lemma tame_repo: "tame (repo_query env f)" "tame (repo_exec env g)"
  by (auto simp: tame_def repo_query_def repo_exec_def Let_def split: sum.split)

lemma returns_if: "returns a \<Longrightarrow> returns b \<Longrightarrow> returns (if c then a else b)"
  by simp

lemma returns_sum: "(\<And>x. returns (a x)) \<Longrightarrow> (\<And>x. returns (b x)) \<Longrightarrow>
  returns (case v of Inl x \<Rightarrow> a x | Inr x \<Rightarrow> b x)"
  by (cases v) simp_all

lemma returns_bool: "returns a \<Longrightarrow> returns b \<Longrightarrow> returns (case c of True \<Rightarrow> a | False \<Rightarrow> b)"
  by (cases c) simp_all

lemma returns_Let: "(\<And>x. returns (f x)) \<Longrightarrow> returns (Let v f)"
  by simp

lemma returns_timeNow: "returns (timeNow env)"
  by (simp add: returns_def timeNow_def)

lemma returns_meter: "returns (meter f)"
  by (simp add: returns_def meter_def modifyS_def)

lemma tame_Publish: "tame (Publish env ev ty)"
  by (auto simp: tame_def Publish_def Let_def split: option.split)

lemmas returns_rules = returns_ret returns_bindE returns_thenE returns_ignoreE returns_if returns_sum returns_bool
  returns_Let returns_timeNow returns_meter

lemma tame_outbox:
  "tame (MarkOutboxMessagePublishFailed env i e t)" "tame (MarkOutboxMessageTerminalFailed env i e t)"
  "tame (MarkOutboxMessagePublished env i t)" "tame (ClaimOutboxMessage env i t)"
  "tame (CountPendingOutboxMessages env t)" "tame (ListPendingOutboxMessages env t l)"
  by (simp_all add: MarkOutboxMessagePublishFailed_def MarkOutboxMessageTerminalFailed_def ClaimOutboxMessage_def
      MarkOutboxMessagePublished_def update_outbox_def CountPendingOutboxMessages_def
      ListPendingOutboxMessages_def tame_repo Let_def)

lemma returns_record:
  "returns (recordOutboxPublishFailure env i n e)" "returns (recordOutboxPublishSuccess c t)"
  unfolding recordOutboxPublishFailure_def recordOutboxPublishSuccess_def by (intro returns_rules tame_outbox)+

lemma returns_flush: "returns (flushBufferedEvents env ps)"
proof -
  have "returns (flushOne env p)" for p
    unfolding flushOne_def
    by (cases p) (auto intro!: returns_rules returns_tryE tame_Publish tame_outbox returns_record)
  then show ?thesis by (simp add: flushBufferedEvents_def returns_forE)
qed

lemma tame_relay: "tame (flushPendingOutbox env limit)"
proof -
  have "returns (relayOne env r m)" for r m
    unfolding relayOne_def by (intro returns_rules returns_tryE tame_Publish tame_outbox returns_record)
  then show ?thesis unfolding flushPendingOutbox_def
    by (intro tame_bindE tame_thenE tame_mapErr tame_outbox returns_tame returns_foldE returns_rules)
qed

section \<open>Transactions\<close>

text \<open>The transaction proper: what it leaves before anything is flushed.\<close>

lemma tx_step:
  assumes tx: "with_buffer (repo_WithTx env (tx_body env fn)) s = (r, t)" and quiet: "keeps quiet fn"
  shows "s_buf t = s_buf s" "s_bus t = s_bus s"
    "\<And>e. r = Error e \<Longrightarrow> s_db t = s_db s" "\<And>p. r = Panic p \<Longrightarrow> s_db t = s_db s"
    "\<And>x ps. r = Ok (x, ps) \<Longrightarrow> \<forall>p \<in> set ps. recorded (s_db t) (fst p)"
proof -
  let ?s = "s\<lparr>s_buf := Some []\<rparr>"
  obtain u where u: "repo_WithTx env (tx_body env fn) ?s = (r, u)" and t: "t = u\<lparr>s_buf := s_buf s\<rparr>"
    using tx by (auto simp: with_buffer_def split: prod.splits)
  have "keeps quiet (repo_WithTx env (tx_body env fn))"
    unfolding tx_body_def by (intro quiet.keeps_repo_WithTx quiet.keeps_bindE quiet.keeps_ret
        quiet.keeps_persistBufferedEventsToOutbox quiet.keeps_gets quiet)
  from keepsD [OF this u] have "s_bus u = s_bus s" by (simp add: quiet_def)
  with t show "s_buf t = s_buf s" "s_bus t = s_bus s" by simp_all
  show "s_db t = s_db s" if "r = Error e" for e
    using u t that by (auto simp: repo_WithTx_def repo_query_def Let_def split: if_splits prod.splits outcome.splits)
  show "s_db t = s_db s" if "r = Panic p" for p
    using u t that by (auto simp: repo_WithTx_def repo_query_def Let_def split: if_splits prod.splits outcome.splits)
  show "\<forall>p \<in> set ps. recorded (s_db t) (fst p)" if r: "r = Ok (x, ps)" for x ps
  proof -
    obtain v w where body: "tx_body env fn v = (Ok (x, ps), w)" and db: "s_db u = s_db w"
      using u r by (auto simp: repo_WithTx_def repo_query_def Let_def split: if_splits prod.splits outcome.splits)
    from body obtain evs y where "persistBufferedEventsToOutbox env evs y = (Ok ps, w)"
      by (auto simp: tx_body_def go_simps split: prod.splits outcome.splits)
    from persisted_recorded [OF this] have "set evs = fst ` set ps" "\<forall>x \<in> set evs. recorded (s_db w) x"
      by (metis list.set_map, blast)
    with db t show ?thesis by simp
  qed
qed

text \<open>A call of \<open>withTx\<close>: it returns a value, or does not return, or leaves tables, bus and buffer alone.\<close>

lemma withTx_atomic:
  assumes run: "withTx env fn s = (r, t)" and quiet: "keeps quiet fn"
  shows "(\<exists>x. r = Ok x) \<or> r = Diverged \<or> s_db t = s_db s \<and> s_bus t = s_bus s \<and> s_buf t = s_buf s"
proof -
  obtain r1 u where tx: "with_buffer (repo_WithTx env (tx_body env fn)) s = (r1, u)" by fastforce
  note st = tx_step [OF tx quiet]
  show ?thesis
  proof (cases r1)
    case (Ok y)
    obtain x ps where y: "y = (x, ps)" by (cases y)
    obtain v where "flushBufferedEvents env ps u = (Ok (), v)" using returnsD [OF returns_flush] by fastforce
    moreover obtain w where "ignoreE (flushPendingOutbox env outboxFlushBatchSize) v = (Ok (), w)"
      using returnsD [OF returns_ignoreE [OF tame_relay]] by fastforce
    ultimately show ?thesis using run tx Ok y by (auto simp: withTx_def bindE_apply thenE_apply ret_apply)
  qed (use run tx st in \<open>auto simp: withTx_def go_simps\<close>)
qed

text \<open>A commit: what the function published is in the outbox.\<close>

lemma withTx_commit:
  assumes run: "withTx env fn s = (Ok x, t)"
  shows "\<exists>u v. fn u = (Ok x, v) \<and> s_db u = s_db s \<and> s_buf u = Some [] \<and>
     (\<forall>ev \<in> set (buffered_events v). recorded (s_db t) ev)"
proof -
  let ?s = "s\<lparr>s_buf := Some []\<rparr>"
  from run obtain ps a v1 v2 where tx: "repo_WithTx env (tx_body env fn) ?s = (Ok (x, ps), a)"
    and f: "flushBufferedEvents env ps (a\<lparr>s_buf := s_buf s\<rparr>) = (Ok (), v1)"
    and q: "flushPendingOutbox env outboxFlushBatchSize v1 = (v2, t)"
    by (auto simp: withTx_def with_buffer_def bindE_apply thenE_apply ignoreE_apply ret_apply
        split: prod.splits outcome.splits)
  from tx obtain u w where body: "tx_body env fn u = (Ok (x, ps), w)" and u: "s_db u = s_db s" "s_buf u = Some []"
    and w: "s_db a = s_db w"
    by (auto simp: repo_WithTx_def repo_query_def Let_def split: if_splits prod.splits outcome.splits)
  from body obtain v where fn: "fn u = (Ok x, v)"
    and p: "persistBufferedEventsToOutbox env (buffered_events v) v = (Ok ps, w)"
    by (auto simp: tx_body_def go_simps split: prod.splits outcome.splits)
  have "store_write\<^sup>*\<^sup>* (s_db w) (s_db v1)" using keepsD [OF store.keeps_flushBufferedEvents f] w by simp
  also have "store_write\<^sup>*\<^sup>* (s_db v1) (s_db t)" using keepsD [OF store.keeps_flushPendingOutbox q] .
  finally have "recorded (s_db w) ev \<Longrightarrow> recorded (s_db t) ev" for ev by (rule store_writes_recorded)
  with persisted_recorded [OF p] fn u show ?thesis by blast
qed

text \<open>What has reached the bus since a state is in the outbox.\<close>

definition delivers :: "est \<Rightarrow> est \<Rightarrow> bool" where
  "delivers s t \<longleftrightarrow> (s_buf s = None \<longrightarrow>
     s_buf t = None \<and> store_write\<^sup>*\<^sup>* (s_db s) (s_db t) \<and>
     (\<exists>evs. s_bus t = s_bus s @ evs \<and> (\<forall>x \<in> set evs. recorded (s_db t) x)))"

lemma delivers_trans:
  assumes "delivers s t" and "delivers t u"
  shows "delivers s u"
  unfolding delivers_def
proof
  assume "s_buf s = None"
  with assms(1) obtain evs where t: "s_buf t = None" "store_write\<^sup>*\<^sup>* (s_db s) (s_db t)"
    "s_bus t = s_bus s @ evs" "\<forall>x \<in> set evs. recorded (s_db t) x" by (auto simp: delivers_def)
  with assms(2) obtain evs' where u: "s_buf u = None" "store_write\<^sup>*\<^sup>* (s_db t) (s_db u)"
    "s_bus u = s_bus t @ evs'" "\<forall>x \<in> set evs'. recorded (s_db u) x" by (auto simp: delivers_def)
  have "s_bus u = s_bus s @ (evs @ evs')" using t(3) u(3) by simp
  moreover have "\<forall>x \<in> set (evs @ evs'). recorded (s_db u) x"
    using t(4) u(4) store_writes_recorded [OF u(2)] by auto
  ultimately show "s_buf u = None \<and> store_write\<^sup>*\<^sup>* (s_db s) (s_db u) \<and>
      (\<exists>evs. s_bus u = s_bus s @ evs \<and> (\<forall>x \<in> set evs. recorded (s_db u) x))"
    using u(1) rtranclp_trans [OF t(2) u(2)] by blast
qed

interpretation delivers: preorder_on_states delivers
proof unfold_locales
  show "delivers s s" for s by (simp add: delivers_def)
  show "delivers s u" if "delivers s t" "delivers t u" for s t u using that by (rule delivers_trans)
qed

lemma bus_only_delivers:
  "bus_only {x. recorded (s_db s) x} s t \<Longrightarrow> store_write\<^sup>*\<^sup>* (s_db s) (s_db t) \<Longrightarrow> delivers s t"
  unfolding bus_only_def delivers_def by (auto intro: store_writes_recorded)

lemma withTx_delivers:
  assumes "keeps quiet fn" and kfn: "keeps (\<lambda>s t. store_write\<^sup>*\<^sup>* (s_db s) (s_db t)) fn"
  shows "keeps delivers (withTx env fn)"
proof (rule keepsI)
  fix s :: est
  obtain r1 u where tx: "with_buffer (repo_WithTx env (tx_body env fn)) s = (r1, u)" by fastforce
  note st = tx_step [OF tx assms(1)]
  have "keeps (\<lambda>s t. store_write\<^sup>*\<^sup>* (s_db s) (s_db t)) (with_buffer (repo_WithTx env (tx_body env fn)))"
    unfolding tx_body_def by (intro store.keeps_with_buffer store.keeps_repo_WithTx store.keeps_bindE
        store.keeps_gets store.keeps_ret store.keeps_persistBufferedEventsToOutbox kfn)
  from keepsD [OF this tx] have su: "delivers s u" using st(1,2) by (simp add: delivers_def)
  show "delivers s (snd (withTx env fn s))"
  proof (cases r1)
    case (Ok y)
    obtain x ps where y: "y = (x, ps)" by (cases y)
    obtain v where f: "flushBufferedEvents env ps u = (Ok (), v)" using returnsD [OF returns_flush] by fastforce
    obtain rw w where q: "flushPendingOutbox env outboxFlushBatchSize v = (rw, w)" by fastforce
    have "bus_only {x. recorded (s_db u) x} u v"
      using st(5) Ok y by (intro keepsD [OF bus_flush f]) auto
    then have "delivers u v" by (rule bus_only_delivers) (rule keepsD [OF store.keeps_flushBufferedEvents f])
    moreover have "delivers v w"
      using bus_relay [OF q] by (rule bus_only_delivers) (rule keepsD [OF store.keeps_flushPendingOutbox q])
    ultimately have "delivers s v" "delivers s w" using su by (auto intro: delivers_trans)
    moreover have "snd (withTx env fn s) = w"
      using tx f q Ok y tameD [OF tame_relay, of env outboxFlushBatchSize v]
      by (auto simp: withTx_def bindE_apply thenE_apply ignoreE_apply ret_apply)
    ultimately show ?thesis by simp
  qed (use tx su in \<open>auto simp: withTx_def bindE_apply\<close>)
qed

section \<open>The requests\<close>

text \<open>Outside transactions the requests read, look at the clock and create timers.\<close>

lemma delivers_same:
  assumes "\<And>s. s_buf (snd (m s)) = s_buf s \<and> s_bus (snd (m s)) = s_bus s"
    and "keeps (\<lambda>s t. store_write\<^sup>*\<^sup>* (s_db s) (s_db t)) m"
  shows "keeps delivers m"
  using assms by (simp add: keeps_def delivers_def)

lemma delivers_query [keeps_intros]: "keeps delivers (repo_query env f)"
  by (rule delivers_same [OF _ store.keeps_repo_query]) (auto simp: repo_query_def Let_def split: sum.split)

lemma delivers_timeNow [keeps_intros]: "keeps delivers (timeNow env)"
  by (rule delivers_same [OF _ store.keeps_timeNow]) (auto simp: timeNow_def)

lemma delivers_UUID [keeps_intros]: "keeps delivers (GenerateUUIDv7 env)"
  by (rule delivers_same [OF _ store.keeps_GenerateUUIDv7]) (auto simp: GenerateUUIDv7_def)

lemma delivers_CreateTimer [keeps_intros]: "keeps delivers (CreateTimer env x)"
  by (rule delivers_same [OF _ store.keeps_CreateTimer])
    (auto simp: CreateTimer_def repo_exec_def Let_def split: sum.split)

lemma delivers_set_memo [keeps_intros]: "keeps delivers (modifyS (\<lambda>s. s\<lparr>s_memo := f s\<rparr>))"
  by (rule delivers_same [OF _ store.keeps_set_memo]) (auto simp: modifyS_def)

lemma delivers_with_memo [keeps_intros]:
  assumes "keeps delivers m"
  shows "keeps delivers (with_memo m)"
proof (rule keepsI)
  fix s :: est
  obtain r t where m: "m (s\<lparr>s_memo := []\<rparr>) = (r, t)" by fastforce
  from keepsD [OF assms m] show "delivers s (snd (with_memo m s))"
    by (simp add: with_memo_def m delivers_def)
qed

lemmas [keeps_intros] = delivers.keeps_ret delivers.keeps_throw delivers.keeps_panic delivers.keeps_gets
  delivers.keeps_bindE delivers.keeps_thenE delivers.keeps_tryE delivers.keeps_ignoreE delivers.keeps_mapErr
  delivers.keeps_liftR delivers.keeps_forE delivers.keeps_foldE withTx_delivers

lemma delivers_relay [keeps_intros]: "keeps delivers (flushPendingOutbox env limit)"
proof (rule keepsI)
  fix s
  obtain r t where q: "flushPendingOutbox env limit s = (r, t)" by fastforce
  from bus_relay [OF q] keepsD [OF store.keeps_flushPendingOutbox q]
  show "delivers s (snd (flushPendingOutbox env limit s))" by (simp add: q bus_only_delivers)
qed

lemma delivers_getWorkflowDefinition [keeps_intros]: "keeps delivers (getWorkflowDefinition env k)"
  unfolding getWorkflowDefinition_def GetProcess_def by (intro keeps_intros)

lemma delivers_memo [keeps_intros]: "keeps delivers (getWorkflowDefinitionFromMemo env k)"
  unfolding getWorkflowDefinitionFromMemo_def by (intro keeps_intros)

lemma delivers_collectErrors [keeps_intros]:
  "(\<And>x. keeps delivers (f x)) \<Longrightarrow> keeps delivers (collectErrors l f xs)"
  unfolding collectErrors_def by (intro keeps_intros | assumption)+

lemma delivers_defs [keeps_intros]: "keeps delivers (listDeployedWorkflowDefinitions env)"
  unfolding listDeployedWorkflowDefinitions_def ListProcesses_def by (intro keeps_intros)

lemma delivers_StartInstanceVersion [keeps_intros]:
  "keeps delivers (StartInstanceVersion env (run env n) i vs v)"
  unfolding StartInstanceVersion_def by (intro keeps_intros)

lemma delivers_startInstances [keeps_intros]:
  "keeps delivers (startInstancesForMessageStart env (run env n) name ck vs)"
  "keeps delivers (startInstancesForSignalStart env (run env n) name vs)"
  unfolding startInstancesForMessageStart_def startInstancesForSignalStart_def startInstancesWhere_def
    StartInstance_def by (intro keeps_intros)+

lemma delivers_eventSubProcesses [keeps_intros]:
  "keeps delivers (triggerEventSubProcessesOnActiveInstances env (run env n) kind ref vs)"
  unfolding triggerEventSubProcessesOnActiveInstances_def ListActiveProcessInstances_def by (intro keeps_intros)

lemma delivers_signalElementCanMatch [keeps_intros]: "keeps delivers (signalElementCanMatch env el name)"
  unfolding signalElementCanMatch_def matchSignalStep_def matchSignalStepForProcess_def
    matchSignalBoundaryOnActivity_def by (intro keeps_intros)

lemma delivers_createTimerOnce [keeps_intros]: "keeps delivers (createTimerOnce env k a b st now)"
  unfolding createTimerOnce_def GetTimer_def by (intro keeps_intros)

lemma delivers_CheckConditionals [keeps_intros]: "keeps delivers (CheckConditionals env (run env n))"
  unfolding CheckConditionals_def by (intro keeps_intros)

lemma delivers_activateJobsOnce [keeps_intros]: "keeps delivers (activateJobsOnce env ty w mx lock)"
  unfolding activateJobsOnce_def Let_def by (intro keeps_intros)

lemma delivers_pollJobs [keeps_intros]: "keeps delivers (pollJobs env ty w mx lock n)"
  by (induction n) (auto intro!: keeps_intros)

lemma delivers_drop_result [keeps_intros]: "keeps delivers m \<Longrightarrow> keeps delivers (drop_result m)"
  unfolding drop_result_def by (intro keeps_intros)

text \<open>The fan-outs, and the requests that are one transaction.\<close>

lemma delivers_fanout [keeps_intros]:
  "keeps delivers (PublishSignal env (run env n) name vs)"
  "keeps delivers (PublishMessage env (run env n) name ck vs)"
  "keeps delivers (CheckTimers env (run env n))"
  "keeps delivers (CheckSLAs env (run env n))"
  "keeps delivers (ActivateJobs env ty w mx tmo ticks lock)"
  "keeps delivers (RunOutboxRelayCycle env limit)"
  unfolding PublishSignal_def PublishMessage_def CheckTimers_def CheckSLAs_def ActivateJobs_def
    RunOutboxRelayCycle_def ensureTimerStartSchedules_def ListActiveElementInstancesByTypes_def
    listActiveElementInstances_def ListMessageSubscriptions_def ListDueTimers_def ListOverdueJobs_def
  by (intro keeps_intros)+

lemma delivers_serve: "keeps delivers (serve env n q)"
  by (cases q; simp; (intro keeps_intros)?)
    (unfold CompleteTask_def CompleteExecution_def CompleteJob_def FailJob_def ExtendJobLock_def RetryJob_def
      ClaimUserTask_def CompleteUserTask_def PublishEscalation_def UpdateInstanceVariables_def Let_def,
     (intro keeps_intros)+)

text \<open>Administration publishes nothing outside its transactions.\<close>

lemma delivers_silent:
  assumes "keeps (bus_only {}) m" and "keeps (\<lambda>s t. store_write\<^sup>*\<^sup>* (s_db s) (s_db t)) m"
  shows "keeps delivers m"
  using assms by (auto simp: keeps_def delivers_def bus_only_def)

lemmas silent_rules = bus_rules bus_repo_exec bus_repo_query bus_timeNow

lemma delivers_admin [keeps_intros]:
  "keeps delivers (RecordIdempotencyKey env k op)"
  "keeps delivers (RunIdempotencyCleanup env ttl limit)"
  "keeps delivers (TryAcquireRuntimeSchedulerLease env holder t)"
  "keeps delivers (UpsertDecision env dec)"
proof -
  show "keeps delivers (RecordIdempotencyKey env k op)"
    by (rule delivers_silent [OF _ store.keeps_RecordIdempotencyKey])
      (unfold RecordIdempotencyKey_def CreateIdempotencyRecord_def, intro silent_rules)
  show "keeps delivers (RunIdempotencyCleanup env ttl limit)"
    by (rule delivers_silent [OF _ store.keeps_RunIdempotencyCleanup])
      (unfold RunIdempotencyCleanup_def DeleteIdempotencyRecordsBefore_def, intro silent_rules)
  show "keeps delivers (TryAcquireRuntimeSchedulerLease env holder t)"
    by (rule delivers_silent [OF _ store.keeps_TryAcquireRuntimeSchedulerLease])
      (unfold TryAcquireRuntimeSchedulerLease_def, intro silent_rules)
  show "keeps delivers (UpsertDecision env dec)"
    by (rule delivers_silent [OF _ store.keeps_UpsertDecision])
      (unfold UpsertDecision_def GetDecisionByDecisionID_def, intro silent_rules)
qed

lemma delivers_administer: "keeps delivers (administer env q)"
  by (cases q; simp)
    (unfold DeployWorkflow_def deployWorkflow_tx_def DeployWorkflowFromBPMN_def deployWorkflowFromBPMN_tx_def
      DeployDecision_def GetDecisionByDecisionID_def DeleteWorkflow_def DeleteInstance_def Let_def,
     (intro keeps_intros)+)

lemma reaches_delivers: "reaches env s t \<Longrightarrow> delivers s t"
proof (induction rule: reaches.induct)
  case (reaches_nothing s)
  show ?case by (rule delivers.R_refl)
next
  case (reaches_request s t n q r u)
  from keepsD [OF delivers_serve reaches_request(2)] reaches_request(4) show ?case by (blast intro: delivers_trans)
next
  case (reaches_admin s t q r u)
  from keepsD [OF delivers_administer reaches_admin(2)] reaches_admin(4) show ?case by (blast intro: delivers_trans)
qed

section \<open>Requests that are one transaction\<close>

fun one_transaction :: "request \<Rightarrow> bool" where
  "one_transaction (ActivateJobsReq ty w mx tmo ticks lock) = False"
| "one_transaction (PublishMessageReq name ck vs) = False"
| "one_transaction (PublishSignalReq name vs) = False"
| "one_transaction CheckTimersReq = False"
| "one_transaction CheckSLAsReq = False"
| "one_transaction (RelayReq limit) = False"
| "one_transaction q = True"

text \<open>Such a request either is refused at once or is a call of \<open>withTx\<close>.\<close>

lemma one_transaction_shape:
  assumes "one_transaction q"
  obtains (refused) e where "\<And>s. serve env n q s = (Error e, s)"
  | (tx) fn :: "unit eng" where "serve env n q = withTx env fn" "keeps quiet fn"
  | (inst) fn :: "workflow_instance eng" where "serve env n q = drop_result (withTx env fn)" "keeps quiet fn"
  | (job) fn :: "job eng" where "serve env n q = drop_result (withTx env fn)" "keeps quiet fn"
proof (cases q)
  case (StartReq i vs v)
  show ?thesis by (rule inst) (auto simp: StartReq StartInstanceVersion_def intro!: keeps_intros)
next
  case (CompleteTaskReq i st)
  show ?thesis by (rule tx) (auto simp: CompleteTaskReq CompleteTask_def intro!: keeps_intros)
next
  case (CompleteExecutionReq i ex)
  show ?thesis by (rule tx) (auto simp: CompleteExecutionReq CompleteExecution_def intro!: keeps_intros)
next
  case (CompleteJobReq k w vs)
  show ?thesis by (rule tx) (auto simp: CompleteJobReq CompleteJob_def intro!: keeps_intros)
next
  case (FailJobReq k w msg r)
  show ?thesis by (rule tx) (auto simp: FailJobReq FailJob_def intro!: keeps_intros)
next
  case (ExtendJobLockReq k w lock)
  show ?thesis
  proof (cases "lock \<le> 0")
    case True
    then show ?thesis by (intro refused) (simp add: ExtendJobLockReq ExtendJobLock_def throw_def)
  next
    case False
    show ?thesis by (rule tx) (auto simp: ExtendJobLockReq ExtendJobLock_def False intro!: keeps_intros)
  qed
next
  case (RetryJobReq k r)
  show ?thesis by (rule tx) (auto simp: RetryJobReq RetryJob_def intro!: keeps_intros)
next
  case (ClaimUserTaskReq i ex own f)
  show ?thesis
  proof (cases "trim_space own = []")
    case True
    then show ?thesis by (intro refused)
      (simp add: ClaimUserTaskReq ClaimUserTask_def drop_result_def bindE_def throw_def)
  next
    case False
    show ?thesis by (rule job) (auto simp: ClaimUserTaskReq ClaimUserTask_def Let_def False intro!: keeps_intros)
  qed
next
  case (CompleteUserTaskReq i ex own f)
  show ?thesis
  proof (cases "trim_space own = [] \<and> \<not> f")
    case True
    then show ?thesis by (intro refused) (simp add: CompleteUserTaskReq CompleteUserTask_def throw_def)
  next
    case False
    then have "serve env n q = withTx env (completeUserTask_tx env (run env n) i ex (trim_space own) f)"
      by (cases f) (simp_all add: CompleteUserTaskReq CompleteUserTask_def Let_def)
    then show ?thesis by (rule tx) (intro keeps_intros)
  qed
next
  case (PublishEscalationReq code vs)
  show ?thesis
  proof (cases "trim_space code = []")
    case True
    then show ?thesis by (intro refused) (simp add: PublishEscalationReq PublishEscalation_def throw_def)
  next
    case False
    show ?thesis by (rule tx)
      (auto simp: PublishEscalationReq PublishEscalation_def Let_def False intro!: keeps_intros)
  qed
next
  case (UpdateVariablesReq i vs)
  show ?thesis by (rule tx) (auto simp: UpdateVariablesReq UpdateInstanceVariables_def intro!: keeps_intros)
qed (use assms in simp_all)

lemma drop_result_outcome:
  "drop_result m s = (r, t) \<Longrightarrow> \<exists>r'. m s = (r', t) \<and> (\<forall>x. r = Ok x \<longleftrightarrow> (\<exists>y. r' = Ok y)) \<and> (r = Diverged \<longleftrightarrow> r' = Diverged)"
  by (auto simp: drop_result_def bindE_apply ret_def split: prod.splits outcome.splits)

lemma one_transaction_atomic:
  assumes "one_transaction q" and run: "serve env n q s = (r, t)"
  shows "r = Ok () \<or> r = Diverged \<or> s_db t = s_db s \<and> s_bus t = s_bus s \<and> s_buf t = s_buf s"
  using assms(1)
proof (cases q rule: one_transaction_shape [where env = env and n = n])
  case (refused e)
  with run show ?thesis by auto
next
  case (tx fn)
  with run withTx_atomic [of env fn s r t] show ?thesis by auto
next
  case (inst fn)
  from run inst(1) drop_result_outcome [of "withTx env fn" s r t] obtain r' where
    "withTx env fn s = (r', t)" "\<forall>x. r = Ok x \<longleftrightarrow> (\<exists>y. r' = Ok y)" "r = Diverged \<longleftrightarrow> r' = Diverged" by auto
  with withTx_atomic [OF _ inst(2)] show ?thesis by metis
next
  case (job fn)
  from run job(1) drop_result_outcome [of "withTx env fn" s r t] obtain r' where
    "withTx env fn s = (r', t)" "\<forall>x. r = Ok x \<longleftrightarrow> (\<exists>y. r' = Ok y)" "r = Diverged \<longleftrightarrow> r' = Diverged" by auto
  with withTx_atomic [OF _ job(2)] show ?thesis by metis
qed

end
