(* ===== verification/Commit.thy ===== *)
theory Commit
  imports Delivery
begin

text \<open>
  What a committed transaction leaves: after the function of \<open>withTx\<close> only the outbox is written (its
  events are recorded, published and marked), so every other table is as the function left it. With this,
  the operations that run one function in one transaction are specified by that function.
\<close>

section \<open>Flushing touches the outbox only\<close>

definition outbox_only :: "est \<Rightarrow> est \<Rightarrow> bool" where
  "outbox_only s t \<longleftrightarrow> (s_db s)\<lparr>db_outbox := []\<rparr> = (s_db t)\<lparr>db_outbox := []\<rparr>"

interpretation outbox_only: preorder_on_states outbox_only
  by unfold_locales (simp_all add: outbox_only_def)

lemmas outbox_only_rules = keeps_cases outbox_only.keeps_ret outbox_only.keeps_throw outbox_only.keeps_bindE
  outbox_only.keeps_thenE outbox_only.keeps_tryE outbox_only.keeps_ignoreE outbox_only.keeps_mapErr
  outbox_only.keeps_foldE outbox_only.keeps_forE outbox_only.keeps_gets

lemma outbox_only_same: "(\<And>s. s_db (snd (m s)) = s_db s) \<Longrightarrow> keeps outbox_only m"
  by (simp add: keeps_def outbox_only_def)

lemma outbox_only_query: "keeps outbox_only (repo_query env f)"
  by (rule outbox_only_same) (simp add: repo_query_def Let_def split: sum.split)

lemma outbox_only_exec:
  assumes "\<And>d x d'. f d = Inr (x, d') \<Longrightarrow> d\<lparr>db_outbox := []\<rparr> = d'\<lparr>db_outbox := []\<rparr>"
  shows "keeps outbox_only (repo_exec env f)"
  using assms by (force simp: keeps_def outbox_only_def repo_exec_def Let_def split: sum.split)

lemma outbox_only_prims:
  "keeps outbox_only (timeNow env)" "keeps outbox_only (meter g)" "keeps outbox_only (GenerateUUIDv7 env)"
  "keeps outbox_only (Publish env ev ty)"
  by (rule outbox_only_same; simp add: timeNow_def meter_def modifyS_def GenerateUUIDv7_def Publish_def Let_def
      split: option.split)+

lemma outbox_only_marks:
  "keeps outbox_only (MarkOutboxMessagePublishFailed env i e t)"
  "keeps outbox_only (MarkOutboxMessageTerminalFailed env i e t)"
  "keeps outbox_only (MarkOutboxMessagePublished env i t)" "keeps outbox_only (ClaimOutboxMessage env i t)"
  "keeps outbox_only (CreateOutboxMessage env m)"
  unfolding MarkOutboxMessagePublishFailed_def MarkOutboxMessageTerminalFailed_def CreateOutboxMessage_def
    MarkOutboxMessagePublished_def ClaimOutboxMessage_def update_outbox_def
  by (rule outbox_only_exec; auto simp: on_table_def Let_def split: sum.splits)+

lemma outbox_only_record:
  "keeps outbox_only (recordOutboxPublishFailure env i n e)" "keeps outbox_only (recordOutboxPublishSuccess c t)"
  unfolding recordOutboxPublishFailure_def recordOutboxPublishSuccess_def
  by (intro outbox_only_rules outbox_only_prims outbox_only_marks)+

lemma outbox_only_flush: "keeps outbox_only (flushBufferedEvents env ps)"
  unfolding flushBufferedEvents_def flushOne_def
  by (intro outbox_only_rules outbox_only_prims outbox_only_marks outbox_only_record)

lemma outbox_only_relay: "keeps outbox_only (flushPendingOutbox env limit)"
  unfolding flushPendingOutbox_def relayOne_def CountPendingOutboxMessages_def ListPendingOutboxMessages_def
  by (intro outbox_only_rules outbox_only_prims outbox_only_query outbox_only_marks outbox_only_record)

lemma outbox_only_persist: "keeps outbox_only (persistBufferedEventsToOutbox env evs)"
  by (induction evs) (auto intro!: outbox_only_rules outbox_only_prims outbox_only_marks)

section \<open>A committed transaction\<close>

text \<open>The function ran on the tables of the start, and its tables, the outbox apart, are those of the end.\<close>

lemma withTx_run_clock:
  assumes run: "withTx env fn s = (Ok x, t)"
  shows "\<exists>u v. fn u = (Ok x, v) \<and> s_db u = s_db s \<and> s_buf u = Some [] \<and> outbox_only v t \<and>
    s_clock u = s_clock s"
proof -
  let ?s = "s\<lparr>s_buf := Some []\<rparr>"
  from run obtain ps a v1 v2 where tx: "repo_WithTx env (tx_body env fn) ?s = (Ok (x, ps), a)"
    and f: "flushBufferedEvents env ps (a\<lparr>s_buf := s_buf s\<rparr>) = (Ok (), v1)"
    and q: "flushPendingOutbox env outboxFlushBatchSize v1 = (v2, t)"
    by (auto simp: withTx_def with_buffer_def bindE_apply thenE_apply ignoreE_apply ret_apply
        split: prod.splits outcome.splits)
  from tx obtain u w where body: "tx_body env fn u = (Ok (x, ps), w)" and u: "s_db u = s_db s" "s_buf u = Some []" "s_clock u = s_clock s"
    and w: "s_db a = s_db w"
    by (auto simp: repo_WithTx_def repo_query_def Let_def split: if_splits prod.splits outcome.splits)
  from body obtain v where fn: "fn u = (Ok x, v)"
    and p: "persistBufferedEventsToOutbox env (buffered_events v) v = (Ok ps, w)"
    by (auto simp: tx_body_def go_simps split: prod.splits outcome.splits)
  have "outbox_only v w" using keepsD [OF outbox_only_persist p] .
  moreover have "outbox_only w v1" using keepsD [OF outbox_only_flush f] w by (simp add: outbox_only_def)
  moreover have "outbox_only v1 t" using keepsD [OF outbox_only_relay q] .
  ultimately have "outbox_only v t" by (metis outbox_only.R_trans)
  with fn u show ?thesis by blast
qed

lemma withTx_run:
  "withTx env fn s = (Ok x, t) \<Longrightarrow> \<exists>u v. fn u = (Ok x, v) \<and> s_db u = s_db s \<and> s_buf u = Some [] \<and> outbox_only v t"
  by (blast dest: withTx_run_clock)

lemma outbox_only_tables:
  assumes "outbox_only v t"
  shows "db_jobs (s_db t) = db_jobs (s_db v)" "db_incidents (s_db t) = db_incidents (s_db v)"
    "db_processes (s_db t) = db_processes (s_db v)" "db_instances (s_db t) = db_instances (s_db v)"
    "db_elements (s_db t) = db_elements (s_db v)" "db_variables (s_db t) = db_variables (s_db v)"
    "db_timers (s_db t) = db_timers (s_db v)"
  using assms by (cases "s_db t"; cases "s_db v"; simp add: outbox_only_def)+

section \<open>Reading runs backwards\<close>

text \<open>A successful sequence is a sequence of successes.\<close>

lemma bindE_OkD: "bindE m f s = (Ok y, t) \<Longrightarrow> \<exists>x u. m s = (Ok x, u) \<and> f x u = (Ok y, t)"
  by (auto simp: bindE_apply split: prod.splits outcome.splits)

lemma thenE_OkD: "thenE m k s = (Ok y, t) \<Longrightarrow> \<exists>x u. m s = (Ok x, u) \<and> k u = (Ok y, t)"
  by (auto simp: thenE_apply split: prod.splits outcome.splits)

lemma ignoreE_OkD: "ignoreE m s = (Ok y, t) \<Longrightarrow> \<exists>r. m s = (r, t)"
  by (cases "m s") (auto simp: ignoreE_apply split: outcome.splits)

lemma query_OkD: "repo_query env f s = (Ok x, t) \<Longrightarrow> f (s_db s) = Inr x \<and> s_db t = s_db s"
  by (auto simp: repo_query_def Let_def split: if_splits sum.splits)

lemma exec_OkD: "repo_exec env f s = (Ok x, t) \<Longrightarrow> \<exists>d. f (s_db s) = Inr (x, d) \<and> s_db t = d"
  by (auto simp: repo_exec_def Let_def split: if_splits sum.splits)

lemma timeNow_OkD: "timeNow env s = (Ok x, t) \<Longrightarrow> (\<exists>p. x = env_clock env p) \<and> s_db t = s_db s"
  by (auto simp: timeNow_def)

lemma generateKey_db: "generateKey env i s = (r, t) \<Longrightarrow> s_db t = s_db s"
  by (auto simp: generateKey_def GenerateSnowflake_def split: option.splits)

lemma Publish_db: "Publish env ev ty s = (r, t) \<Longrightarrow> s_db t = s_db s"
  by (auto simp: Publish_def Let_def split: option.splits if_splits)

lemma orThrow_OkD: "orThrow e s = (Ok x, t) \<Longrightarrow> e = None \<and> t = s"
  by (auto simp: orThrow_def ret_apply throw_apply split: option.splits)

end
