(* ===== verification/JobProps.thy ===== *)
theory JobProps
  imports Commit Demo
begin

text \<open>
  The properties of jobs and user tasks (\<open>jobs.go\<close>): what activation, completion, failure and claiming do
  to the job rows, and that the lock of an activated job excludes other workers while it lasts.
\<close>

section \<open>Rows with unique keys\<close>

lemma find_row_Inr: "find_row P rows = Inr r \<Longrightarrow> r \<in> set rows \<and> P r"
  by (auto simp: find_row_def find_Some_iff split: option.splits)

lemma same_key: "distinct (map key rows) \<Longrightarrow> r \<in> set rows \<Longrightarrow> r' \<in> set rows \<Longrightarrow> key r = key r' \<Longrightarrow> r = r'"
  by (auto simp: distinct_map dest: inj_onD)

lemma update_the_row:
  assumes "distinct (map key rows)" and "r \<in> set rows"
  shows "update_rows (\<lambda>x. key x = key r) f rows = map (\<lambda>x. if x = r then f r else x) rows"
  using same_key [OF assms(1) _ assms(2)] by (auto simp: update_rows_def intro!: map_cong)

lemma UpdateJob_OkD:
  assumes "UpdateJob env j s = (Ok x, t)"
  shows "jb_key j \<noteq> 0" "s_db t = (s_db s)\<lparr>db_jobs := update_rows (\<lambda>r. jb_key r = jb_key j) (job_columns j) (db_jobs (s_db s))\<rparr>"
  using assms by (auto simp: UpdateJob_def on_table_def update_by_key_def dest!: exec_OkD split: if_splits)

lemma GetJob_OkD: "GetJob env k s = (Ok j, t) \<Longrightarrow> j \<in> set (db_jobs (s_db s)) \<and> jb_key j = k \<and> s_db t = s_db s"
  by (auto simp: GetJob_def dest!: query_OkD find_row_Inr)

section \<open>Activation\<close>

lemma activated_columns: "job_columns (activated w now lock j) j = activated w now lock j"
  by (simp add: activated_def job_columns_def)

lemma activated_key [simp]: "jb_key (activated w now lock j) = jb_key j"
  by (simp add: activated_def)

lemma activateOne_OkD:
  assumes "activateOne env w now lock acc j s = (Ok js, t)"
  shows "js = acc @ [activated w now lock j] \<and> s_db t = (s_db s)\<lparr>db_jobs :=
     update_rows (\<lambda>r. jb_key r = jb_key j) (job_columns (activated w now lock j)) (db_jobs (s_db s))\<rparr>"
proof -
  let ?j = "activated w now lock j"
  from assms obtain u v where u: "UpdateJob env ?j s = (Ok (), u)"
    and v: "ignoreE (Publish env (JobActivated (jb_key j) w (now + lock)) ''JobActivated'') u = (Ok (), v)"
    and t: "ret (acc @ [?j]) v = (Ok js, t)"
    unfolding activateOne_def Let_def by (auto dest!: thenE_OkD)
  from v have "s_db v = s_db u" by (blast dest: ignoreE_OkD Publish_db)
  with t UpdateJob_OkD(2) [OF u] show ?thesis by (simp add: ret_apply)
qed

lemma activate_rows:
  assumes "distinct (map jb_key rows)" and "set js \<subseteq> set rows" and "distinct (map jb_key js)"
  shows "fold (\<lambda>j. update_rows (\<lambda>r. jb_key r = jb_key j) (job_columns (activated w now lock j))) js rows =
     map (\<lambda>r. if r \<in> set js then activated w now lock r else r) rows"
  using assms
proof (induction js arbitrary: rows)
  case Nil
  then show ?case by simp
next
  case (Cons j js)
  let ?act = "activated w now lock"
  let ?rows = "map (\<lambda>r. if r = j then ?act j else r) rows"
  have up: "update_rows (\<lambda>r. jb_key r = jb_key j) (job_columns (?act j)) rows = ?rows"
    using update_the_row [of jb_key rows j "job_columns (?act j)"] Cons.prems by (simp add: activated_columns)
  have keys: "map jb_key ?rows = map jb_key rows" by simp
  have sub: "set js \<subseteq> set ?rows"
  proof
    fix x assume "x \<in> set js"
    with Cons.prems have "x \<in> set rows" "x \<noteq> j" by auto
    then show "x \<in> set ?rows" by (auto simp: image_iff)
  qed
  have new: "?act j \<notin> set js"
    using Cons.prems(3) by (metis activated_key distinct.simps(2) image_eqI list.set_map list.simps(9))
  have d: "distinct (map jb_key ?rows)" "distinct (map jb_key js)" unfolding keys using Cons.prems by simp_all
  have "fold (\<lambda>j. update_rows (\<lambda>r. jb_key r = jb_key j) (job_columns (?act j))) js ?rows =
      map (\<lambda>r. if r \<in> set js then ?act r else r) ?rows"
    by (rule Cons.IH [OF d(1) sub d(2)])
  also have "\<dots> = map (\<lambda>r. if r \<in> set (j # js) then ?act r else r) rows"
    using Cons.prems(3) new by (auto simp: image_iff)
  finally show ?case using up by simp
qed

lemma activate_all:
  assumes "foldE (activateOne env w now lock) acc jobs s = (Ok js, t)"
  shows "js = acc @ map (activated w now lock) jobs \<and> s_db t = (s_db s)\<lparr>db_jobs :=
     fold (\<lambda>j. update_rows (\<lambda>r. jb_key r = jb_key j) (job_columns (activated w now lock j))) jobs (db_jobs (s_db s))\<rparr>"
  using assms
proof (induction jobs arbitrary: acc s)
  case Nil
  then show ?case by (simp add: ret_apply)
next
  case (Cons j jobs)
  from Cons.prems obtain acc' u where "activateOne env w now lock acc j s = (Ok acc', u)"
    and rest: "foldE (activateOne env w now lock) acc' jobs u = (Ok js, t)"
    by (auto dest: bindE_OkD)
  with Cons.IH [OF rest] activateOne_OkD show ?case by force
qed

text \<open>The jobs a worker is offered: at most \<open>max\<close> (between 1 and 100), the oldest first.\<close>

definition offered :: "int \<Rightarrow> string \<Rightarrow> int \<Rightarrow> job list \<Rightarrow> job list" where
  "offered now jobType maxJobs jobs = take (nat (min 100 (if maxJobs \<le> 0 then 1 else maxJobs)))
     (sort_key jb_created_at (filter (activatable now jobType) jobs))"

lemma offered_props:
  "set (offered now ty m jobs) \<subseteq> {j \<in> set jobs. activatable now ty j}"
  "distinct (map jb_key jobs) \<Longrightarrow> distinct (map jb_key (offered now ty m jobs))"
  "int (length (offered now ty m jobs)) \<le> 100"
  "int (length (offered now ty m jobs)) \<le> max 1 m"
proof -
  show "set (offered now ty m jobs) \<subseteq> {j \<in> set jobs. activatable now ty j}"
    unfolding offered_def by (auto dest: in_set_takeD)
  show "distinct (map jb_key (offered now ty m jobs))" if "distinct (map jb_key jobs)"
  proof -
    have "distinct (map jb_key (sort_key jb_created_at (filter (activatable now ty) jobs)))"
      using that distinct_map_filter [of jb_key jobs "activatable now ty"] by (simp add: distinct_map)
    then show ?thesis unfolding offered_def by (simp add: take_map [symmetric])
  qed
qed (auto simp: offered_def)

text \<open>The readings of the clock of an activation: one to see which locks have run out, the next for the new locks.\<close>

lemma activation_run:
  assumes run: "activateJobsOnce env ty w m lk s = (Ok js, t)" and keys: "distinct (map jb_key (db_jobs (s_db s)))"
    and readings: "now0 = env_clock env (s_clock s)" "now = env_clock env (Suc (s_clock s))"
    and lock: "lock = (if lk \<le> 0 then defaultJobLockDuration else lk)"
    and picked: "picked = offered now0 ty m (db_jobs (s_db s))"
  shows "w \<noteq> [] \<and> js = map (activated w now lock) picked \<and>
      db_jobs (s_db t) = map (\<lambda>r. if r \<in> set picked then activated w now lock r else r) (db_jobs (s_db s))"
proof -
  let ?fn = "bindE (ListActivatableJobs env ty m) (\<lambda>jobs. bindE (timeNow env) (\<lambda>now. foldE (activateOne env w now lock) [] jobs))"
  have w: "w \<noteq> []" and tx: "withTx env ?fn s = (Ok js, t)"
    using run lock by (auto simp: activateJobsOnce_def Let_def throw_apply split: if_splits)
  from withTx_run_clock [OF tx] obtain u v where fn: "?fn u = (Ok js, v)" and u: "s_db u = s_db s" "s_clock u = s_clock s"
    and o: "outbox_only v t" by blast
  from bindE_OkD [OF fn] obtain jobs a where l: "ListActivatableJobs env ty m u = (Ok jobs, a)"
    and r1: "bindE (timeNow env) (\<lambda>now. foldE (activateOne env w now lock) [] jobs) a = (Ok js, v)" by blast
  from l u readings(1) picked have jobs: "jobs = picked" and a: "s_db a = s_db s" "s_clock a = Suc (s_clock s)"
    by (auto simp: ListActivatableJobs_def Let_def offered_def min_def timeNow_def bindE_apply repo_query_def split: if_splits)
  from bindE_OkD [OF r1] obtain x b where n: "timeNow env a = (Ok x, b)" and r2': "foldE (activateOne env w x lock) [] jobs b = (Ok js, v)"
    by blast
  from n a readings(2) have "x = now" and b: "s_db b = s_db s" by (auto simp: timeNow_def)
  with r2' have r2: "foldE (activateOne env w now lock) [] jobs b = (Ok js, v)" by simp
  note all = activate_all [OF r2] activate_rows [OF keys, of jobs w now lock]
  have "set jobs \<subseteq> set (db_jobs (s_db s))" "distinct (map jb_key jobs)"
    unfolding jobs picked using offered_props(1,2) keys by fastforce+
  with all b have "js = map (activated w now lock) jobs"
    "db_jobs (s_db v) = map (\<lambda>r. if r \<in> set jobs then activated w now lock r else r) (db_jobs (s_db s))" by simp_all
  with w jobs show ?thesis by (simp add: outbox_only_tables [OF o])
qed

text \<open>A job of the type that waits for a worker at the time \<open>now\<close>: free or with a lock that has run out, with
  retries left. (A type of \<open>[]\<close> asks for all types.)\<close>

definition waiting :: "int \<Rightarrow> string \<Rightarrow> job \<Rightarrow> bool" where
  "waiting now ty j \<longleftrightarrow> jb_retries j > 0 \<and> (ty = [] \<or> jb_type j = ty) \<and>
     (jb_state j = ''CREATED'' \<or> jb_state j = ''ACTIVATED'' \<and> (\<exists>until. jb_lock_until j = Some until \<and> until \<le> now))"

lemma waiting_activatable: "activatable now ty j \<longleftrightarrow> waiting now ty j"
  by (auto simp: activatable_def waiting_def compatibleJobTypes_def split: option.splits)

lemma take_oldest:
  fixes f :: "'a \<Rightarrow> int"
  assumes "x \<in> set (take n (sort_key f xs))" and "y \<in> set xs" and "y \<notin> set (take n (sort_key f xs))"
  shows "f x \<le> f y"
proof -
  have "y \<in> set (take n (sort_key f xs) @ drop n (sort_key f xs))" using assms(2) by simp
  with assms(3) have "y \<in> set (drop n (sort_key f xs))" unfolding set_append by blast
  moreover have "sorted (map f (take n (sort_key f xs) @ drop n (sort_key f xs)))" by simp
  ultimately show ?thesis using assms(1) unfolding map_append sorted_append by simp
qed

lemma offered_oldest:
  assumes "picked = offered now ty m jobs"
  shows "length picked = min (nat (min 100 (max 1 m))) (length (filter (waiting now ty) jobs))"
    "sorted (map jb_created_at picked)"
    "set picked \<subseteq> {j \<in> set jobs. waiting now ty j}"
    "\<forall>j \<in> set jobs. waiting now ty j \<longrightarrow> j \<in> set picked \<or> list_all (\<lambda>p. jb_created_at p \<le> jb_created_at j) picked"
proof -
  have eq: "picked = take (nat (min 100 (max 1 m))) (sort_key jb_created_at (filter (waiting now ty) jobs))"
  proof -
    have "min 100 (if m \<le> 0 then 1 else m) = min 100 (max 1 m)" by auto
    then show ?thesis unfolding assms offered_def waiting_activatable by simp
  qed
  show "length picked = min (nat (min 100 (max 1 m))) (length (filter (waiting now ty) jobs))"
    unfolding eq by (simp add: min.commute)
  show "sorted (map jb_created_at picked)" unfolding eq by (simp add: take_map [symmetric] sorted_wrt_take)
  show "set picked \<subseteq> {j \<in> set jobs. waiting now ty j}"
    unfolding eq by (auto dest: in_set_takeD)
  show "\<forall>j \<in> set jobs. waiting now ty j \<longrightarrow> j \<in> set picked \<or> list_all (\<lambda>p. jb_created_at p \<le> jb_created_at j) picked"
    unfolding eq list_all_iff using take_oldest [where f = jb_created_at] by fastforce
qed

text \<open>C7: activation (one attempt; the long poll repeats it) gives a worker as many jobs as it asked for, never
  more than 100, or all that wait: jobs that are free or whose lock has run out at the first reading of the
  clock, that have retries left and the type asked for, and the oldest of those. Each is activated and
  locked for the worker until the lock duration (asked for, or 30 seconds) after the next reading of
  the clock, and no other job is touched.\<close>

theorem activation_locks_the_offered_jobs:
  assumes "activateJobsOnce env ty w m lk s = (Ok js, t)" and "distinct (map jb_key (db_jobs (s_db s)))"
  shows "w \<noteq> [] \<and> (\<exists>picked.
     let now0 = env_clock env (s_clock s); now = env_clock env (Suc (s_clock s));
         lock = (if lk \<le> 0 then 30000000000 else lk); jobs = db_jobs (s_db s) in
     length picked = min (nat (min 100 (max 1 m))) (length (filter (waiting now0 ty) jobs)) \<and>
     set picked \<subseteq> {j \<in> set jobs. waiting now0 ty j} \<and> sorted (map jb_created_at picked) \<and>
     (\<forall>j \<in> set jobs. waiting now0 ty j \<longrightarrow>
        j \<in> set picked \<or> list_all (\<lambda>p. jb_created_at p \<le> jb_created_at j) picked) \<and>
     (\<forall>j \<in> set js. jb_state j = ''ACTIVATED'' \<and> jb_worker j = w \<and> jb_lock_until j = Some (now + lock)) \<and>
     js = map (activated w now lock) picked \<and>
     db_jobs (s_db t) = map (\<lambda>r. if r \<in> set picked then activated w now lock r else r) jobs)"
proof -
  let ?picked = "offered (env_clock env (s_clock s)) ty m (db_jobs (s_db s))"
  have lock: "(if lk \<le> 0 then 30000000000 else lk) = (if lk \<le> 0 then defaultJobLockDuration else lk)"
    by (simp add: defaultJobLockDuration_def)
  note run = activation_run [OF assms refl refl lock refl]
  have act: "jb_state (activated w n l j) = ''ACTIVATED'' \<and> jb_worker (activated w n l j) = w \<and>
      jb_lock_until (activated w n l j) = Some (n + l)" for n l j
    by (simp add: activated_def)
  show ?thesis unfolding Let_def
    using run offered_oldest [OF refl [of ?picked]] act
    by (intro conjI exI [of _ ?picked]) (simp_all add: ball_simps)
qed

text \<open>Two free jobs and one that another worker holds.\<close>

definition queue_job :: "int \<Rightarrow> string \<Rightarrow> string \<Rightarrow> int option \<Rightarrow> job" where
  "queue_job k st w lock = \<lparr>jb_key = k, jb_id = ''j'', jb_type = ''pay'', jb_instance_key = 7, jb_element_key = 8,
     jb_definition_key = 3, jb_element_id = ''charge'', jb_worker = w, jb_retries = 3, jb_state = st,
     jb_assignee = [], jb_candidate_users = [], jb_candidate_groups = [], jb_lock_until = lock,
     jb_due_date = zero_time, jb_breached_at = None, jb_created_at = k, jb_updated_at = 0\<rparr>"

definition demo_queue :: est where
  "demo_queue = demo_state (empty_db\<lparr>db_jobs := [queue_job 12 ''CREATED'' [] None, queue_job 11 ''CREATED'' [] None,
     queue_job 10 ''ACTIVATED'' ''v'' (Some 9000000000000000000)]\<rparr>)"

lemma demo_activation:
  "fst (activateJobsOnce demo_env ''pay'' ''w'' 1 0 demo_queue) =
     Ok [activated ''w'' 1704067200001000000 30000000000 (queue_job 11 ''CREATED'' [] None)]"
  by code_simp

theorem activation_locks_the_offered_jobs_witness:
  "\<exists>t. activateJobsOnce demo_env ''pay'' ''w'' 1 0 demo_queue =
     (Ok [activated ''w'' 1704067200001000000 30000000000 (queue_job 11 ''CREATED'' [] None)], t) \<and>
     length (db_jobs (s_db t)) = 3"
proof -
  obtain t where t: "activateJobsOnce demo_env ''pay'' ''w'' 1 0 demo_queue =
      (Ok [activated ''w'' 1704067200001000000 30000000000 (queue_job 11 ''CREATED'' [] None)], t)"
    using demo_activation by (metis prod.collapse)
  have "distinct (map jb_key (db_jobs (s_db demo_queue)))" by (simp add: demo_queue_def demo_state_def queue_job_def)
  from activation_locks_the_offered_jobs [OF t this] have "length (db_jobs (s_db t)) = length (db_jobs (s_db demo_queue))"
    unfolding Let_def by (elim conjE exE) (simp only: length_map)
  with t show ?thesis by (simp add: demo_queue_def demo_state_def)
qed

section \<open>Locks exclude\<close>

text \<open>A stretch of the life of the store after job \<open>j\<close> was handed out with a lock until \<open>until\<close>: requests and
  administration of any server that leave the row of the job alone, and successful activations of any
  worker on any server that look for jobs before the end of the lock. \<open>hs\<close> lists what the activations hand out.\<close>

inductive handed_out :: "job \<Rightarrow> int \<Rightarrow> est \<Rightarrow> job list list \<Rightarrow> est \<Rightarrow> bool" for j until where
  handed_nothing: "handed_out j until s [] s"
| handed_request: "handed_out j until s hs t \<Longrightarrow> serve env n q t = (r, u) \<Longrightarrow> r \<noteq> Diverged \<Longrightarrow>
      j \<in> set (db_jobs (s_db u)) \<Longrightarrow> handed_out j until s hs u"
| handed_admin: "handed_out j until s hs t \<Longrightarrow> administer env a t = (r, u) \<Longrightarrow> r \<noteq> Diverged \<Longrightarrow>
      j \<in> set (db_jobs (s_db u)) \<Longrightarrow> handed_out j until s hs u"
| handed_activation: "handed_out j until s hs t \<Longrightarrow> activateJobsOnce env ty w m lk t = (Ok js, u) \<Longrightarrow>
      env_clock env (s_clock t) < until \<Longrightarrow> handed_out j until s (hs @ [js]) u"

lemma activation_wf: "activateJobsOnce env ty w m lk s = (r, t) \<Longrightarrow> db_wf (s_db s) \<Longrightarrow> db_wf (s_db t)"
  by (rule store_writes_wf) (rule keepsD [OF store.keeps_activateJobsOnce])

lemma step_wf:
  "serve env n q t = (r, u) \<Longrightarrow> r \<noteq> Diverged \<Longrightarrow> db_wf (s_db t) \<Longrightarrow> db_wf (s_db u)"
  "administer env a t = (r, u) \<Longrightarrow> r \<noteq> Diverged \<Longrightarrow> db_wf (s_db t) \<Longrightarrow> db_wf (s_db u)"
  using reaches_wf [OF reaches_request [OF reaches_nothing]] reaches_wf [OF reaches_admin [OF reaches_nothing]] by blast+

lemma wf_job_keys: "db_wf d \<Longrightarrow> distinct (map jb_key (db_jobs d))"
  by (simp add: db_wf_def keys_unique_def)

lemma locked_job_stays:
  assumes "activateJobsOnce env ty w m lk s = (Ok js, t)" and keys: "distinct (map jb_key (db_jobs (s_db s)))"
    and "jb_state j = ''ACTIVATED''" "jb_lock_until j = Some until" "env_clock env (s_clock s) < until"
    and j: "j \<in> set (db_jobs (s_db s))"
  shows "j \<in> set (db_jobs (s_db t)) \<and> jb_key j \<notin> jb_key ` set js"
proof -
  let ?picked = "offered (env_clock env (s_clock s)) ty m (db_jobs (s_db s))"
  note run = activation_run [OF assms(1) keys refl refl refl refl]
  have old: "\<not> waiting (env_clock env (s_clock s)) ty j" using assms(3-5) by (simp add: waiting_def)
  have picked: "set ?picked \<subseteq> {j \<in> set (db_jobs (s_db s)). waiting (env_clock env (s_clock s)) ty j}"
    by (rule offered_oldest(3) [OF refl])
  with old have "j \<notin> set ?picked" by blast
  with run j have "j \<in> set (db_jobs (s_db t))" by (force simp: image_iff)
  moreover have "jb_key j \<noteq> jb_key r" if "r \<in> set ?picked" for r
    using same_key [OF keys j, of r] picked old that by auto
  with run have "jb_key j \<notin> jb_key ` set js" by (auto simp: image_iff)
  ultimately show ?thesis by blast
qed

lemma handed_out_keeps:
  assumes "handed_out j until s hs t" and "db_wf (s_db s)" and "j \<in> set (db_jobs (s_db s))"
    and "jb_state j = ''ACTIVATED''" "jb_lock_until j = Some until"
  shows "db_wf (s_db t) \<and> j \<in> set (db_jobs (s_db t)) \<and> list_all (\<lambda>js. jb_key j \<notin> jb_key ` set js) hs"
  using assms(1-3)
proof (induction rule: handed_out.induct)
  case (handed_activation s hs t env ty w m lk js u)
  then have t: "db_wf (s_db t)" "j \<in> set (db_jobs (s_db t))" by blast+
  with handed_activation locked_job_stays [OF handed_activation.hyps(2) wf_job_keys [OF t(1)] assms(4,5) handed_activation.hyps(3) t(2)]
    activation_wf [OF handed_activation.hyps(2) t(1)] show ?case by simp
qed (use step_wf in \<open>auto simp: assms\<close>)

text \<open>C8: locks are exclusive. A job that one activation handed out is not handed out again, to any worker, by
  any later activation, on whatever server, that looks for jobs (reads its clock) before the end of the
  lock, whatever other requests and administration run in between, as long as these leave the row of the
  job as it is. (Completing, failing, extending, retrying or deleting the job changes its row: a job that
  failed with retries left is free at once.)\<close>

theorem activation_excludes_others:
  assumes "db_wf (s_db s)" and "activateJobsOnce env ty w m lk s = (Ok js, t)"
    and "j \<in> set js" and "jb_lock_until j = Some until" and "handed_out j until t hs u"
  shows "\<forall>js' \<in> set hs. jb_key j \<notin> jb_key ` set js'"
proof -
  note run = activation_run [OF assms(2) wf_job_keys [OF assms(1)] refl refl refl refl]
  note props = offered_props(1) [of "env_clock env (s_clock s)" ty m "db_jobs (s_db s)"]
  from run assms(3) obtain r where r: "r \<in> set (offered (env_clock env (s_clock s)) ty m (db_jobs (s_db s)))"
      "j = activated w (env_clock env (Suc (s_clock s))) (if lk \<le> 0 then defaultJobLockDuration else lk) r" by auto
  with run props have "j \<in> set (db_jobs (s_db t))" by (force simp: image_iff)
  moreover have "jb_state j = ''ACTIVATED''" by (simp add: r(2) activated_def)
  moreover have "db_wf (s_db t)" by (rule activation_wf [OF assms(2,1)])
  ultimately show ?thesis using handed_out_keeps [OF assms(5) _ _ _ assms(4)] by (simp add: list_all_iff)
qed

text \<open>Two workers of another server, the second after a request to complete the first job with the wrong worker.\<close>

definition later_env :: env where
  "later_env = demo_env\<lparr>env_clock := (\<lambda>_. 1704067230000000000)\<rparr>"

definition after_first :: est where
  "after_first = snd (activateJobsOnce demo_env ''pay'' ''w'' 1 0 demo_queue)"

definition after_other :: est where
  "after_other = snd (serve later_env 3 (CompleteJobReq 11 ''x'' []) after_first)"

lemma second_activation:
  "fst (serve later_env 3 (CompleteJobReq 11 ''x'' []) after_first) \<noteq> Diverged"
  "list_ex (\<lambda>r. r = activated ''w'' 1704067200001000000 30000000000 (queue_job 11 ''CREATED'' [] None)) (db_jobs (s_db after_other))"
  "s_clock after_other < 100"
  "fst (activateJobsOnce later_env [] ''x'' 5 0 after_other) =
     Ok [activated ''x'' 1704067230000000000 30000000000 (queue_job 12 ''CREATED'' [] None)]"
  by code_simp+

theorem activation_excludes_others_witness:
  "jb_key (activated ''w'' 1704067200001000000 30000000000 (queue_job 11 ''CREATED'' [] None)) \<notin>
     jb_key ` set [activated ''x'' 1704067230000000000 30000000000 (queue_job 12 ''CREATED'' [] None)]"
proof -
  let ?j = "activated ''w'' 1704067200001000000 30000000000 (queue_job 11 ''CREATED'' [] None)"
  let ?js = "[activated ''x'' 1704067230000000000 30000000000 (queue_job 12 ''CREATED'' [] None)]"
  have first: "activateJobsOnce demo_env ''pay'' ''w'' 1 0 demo_queue = (Ok [?j], after_first)"
    using demo_activation unfolding after_first_def by (metis prod.collapse)
  have wf: "db_wf (s_db demo_queue)"
    by (simp add: db_wf_def keys_unique_def rows_ok_def demo_queue_def demo_state_def empty_db_def queue_job_def)
  have "handed_out ?j 1704067230001000000 after_first [] after_other"
    using handed_request [OF handed_nothing, of later_env 3 "CompleteJobReq 11 ''x'' []" after_first
        "fst (serve later_env 3 (CompleteJobReq 11 ''x'' []) after_first)" after_other ?j] second_activation(1,2)
    by (simp add: after_other_def list_ex_iff)
  moreover have "activateJobsOnce later_env [] ''x'' 5 0 after_other = (Ok ?js, snd (activateJobsOnce later_env [] ''x'' 5 0 after_other))"
    using second_activation(4) by (metis prod.collapse)
  ultimately have "handed_out ?j 1704067230001000000 after_first ([] @ [?js]) (snd (activateJobsOnce later_env [] ''x'' 5 0 after_other))"
    by (rule handed_activation) (simp add: later_env_def)
  from activation_excludes_others [OF wf first _ _ this] show ?thesis
    by (simp add: activated_def)
qed

section \<open>Completion\<close>

text \<open>\<open>w\<close> holds the lock of \<open>j\<close> at some reading of the clock.\<close>

definition owns_lock :: "env \<Rightarrow> string \<Rightarrow> job \<Rightarrow> bool" where
  "owns_lock env w j \<longleftrightarrow> w \<noteq> [] \<and> jb_worker j = w \<and> (\<exists>until p. jb_lock_until j = Some until \<and> env_clock env p \<le> until)"

lemma owner_ok: "ensureActiveLockOwnership j w now = None \<Longrightarrow>
    w \<noteq> [] \<and> jb_worker j = w \<and> (\<exists>until. jb_lock_until j = Some until \<and> now \<le> until)"
  by (auto simp: ensureActiveLockOwnership_def split: if_splits option.splits)

text \<open>C31: only the worker that holds the lock completes a job. A completion that succeeds was for a job that is
  there, and either the job was completed already and nothing but the outbox is touched, or the job is
  activated, locked by this very worker, and the lock had not run out at a reading of the clock.\<close>

theorem only_the_lock_owner_completes:
  assumes "CompleteJob env rec k w vs s = (Ok (), t)"
  shows "\<exists>j \<in> set (db_jobs (s_db s)). jb_key j = k \<and>
     (jb_state j = ''COMPLETED'' \<and> outbox_only s t \<or>
      jb_state j = ''ACTIVATED'' \<and> owns_lock env w j)"
proof -
  from withTx_run [OF assms [unfolded CompleteJob_def]] obtain u v where
    fn: "completeJob_tx env rec k w vs u = (Ok (), v)" and u: "s_db u = s_db s" and o: "outbox_only v t" by blast
  from bindE_OkD [OF fn [unfolded completeJob_tx_def]] obtain j a where "GetJob env k u = (Ok j, a)"
    and rest: "(if jb_state j = ''COMPLETED'' then ret ()
       else if jb_state j \<noteq> ''ACTIVATED'' then throw (Msg (''job '' @ show_int (jb_key j) @ '' is not activated''))
       else bindE (timeNow env) (\<lambda>now.
         let instanceID = show_int (jb_instance_key j) in
         thenE (orThrow (ensureActiveLockOwnership j w now))
         (thenE (if vs = [] then ret ()
            else thenE (GetInstance env instanceID) (persistVariables env instanceID (jb_instance_key j) vs))
         (thenE (UpdateJob env (j\<lparr>jb_state := ''COMPLETED'', jb_lock_until := None, jb_updated_at := now\<rparr>))
         (thenE (ignoreE (Publish env (JobCompleted (jb_key j) w [] now) ''JobCompleted''))
         (completeExecution env rec instanceID (show_int (jb_element_key j)))))))) a = (Ok (), v)" by blast
  then have j: "j \<in> set (db_jobs (s_db s))" "jb_key j = k" "s_db a = s_db s"
    using u by (auto dest: GetJob_OkD)
  show ?thesis
  proof (cases "jb_state j = ''COMPLETED''")
    case True
    with rest j o show ?thesis by (auto simp: ret_apply outbox_only_def)
  next
    case False
    with rest have act: "jb_state j = ''ACTIVATED''" by (auto simp: throw_apply split: if_splits)
    with False rest obtain now b where "timeNow env a = (Ok now, b)" "ensureActiveLockOwnership j w now = None"
      by (auto simp: Let_def dest!: bindE_OkD thenE_OkD orThrow_OkD)
    with act j owner_ok show ?thesis unfolding owns_lock_def by (blast dest: timeNow_OkD)
  qed
qed

text \<open>The job of the demo instance, locked by its worker.\<close>

definition held_job :: job where
  "held_job = Demo.demo_job\<lparr>jb_type := ''pay'', jb_lock_until := Some 1704067230000000000\<rparr>"

definition held_state :: est where
  "held_state = demo_state (demo_db\<lparr>db_jobs := [held_job]\<rparr>)"

lemma held_completion: "fst (CompleteJob demo_env (run demo_env 3) 5 ''ann'' [] held_state) = Ok ()"
  by code_simp

theorem only_the_lock_owner_completes_witness:
  "\<exists>t. CompleteJob demo_env (run demo_env 3) 5 ''ann'' [] held_state = (Ok (), t) \<and> jb_worker held_job = ''ann''"
proof -
  obtain t where t: "CompleteJob demo_env (run demo_env 3) 5 ''ann'' [] held_state = (Ok (), t)"
    using held_completion by (metis prod.collapse)
  from only_the_lock_owner_completes [OF t] have "jb_worker held_job = ''ann''"
    by (auto simp: held_state_def demo_state_def held_job_def Demo.demo_job_def)
  with t show ?thesis by blast
qed

section \<open>Failure\<close>

lemma the_job:
  assumes "distinct (map jb_key rows)" and "j \<in> set rows" and "jb_key j' = jb_key j"
  shows "update_rows (\<lambda>r. jb_key r = jb_key j') f rows = map (\<lambda>r. if r = j then f j else r) rows"
  using update_the_row [OF assms(1,2)] assms(3) by simp

lemma failedIncident_OkD:
  assumes "failedIncident env j msg s = (Ok x, t)"
  shows "\<exists>i. s_db t = (s_db s)\<lparr>db_incidents := db_incidents (s_db s) @ [i]\<rparr> \<and> in_job_key i = jb_key j \<and>
     in_instance_key i = jb_instance_key j \<and> in_error_type i = ''JOB_NO_RETRIES'' \<and> in_state i = ''CREATED'' \<and>
     in_error_message i = (if msg = [] then ''external worker failure'' else msg)"
proof -
  let ?i = "\<lambda>k now. \<lparr>in_key = k, in_id = [], in_instance_key = jb_instance_key j,
       in_element_key = jb_element_key j, in_job_key = jb_key j, in_error_type = ''JOB_NO_RETRIES'',
       in_error_message = (if msg = [] then ''external worker failure'' else msg),
       in_state = ''CREATED'', in_created_at = now, in_resolved_at = zero_time\<rparr>"
  from assms obtain k u now v where k: "generateKey env (show_int (jb_key j) @ ''_incident'') s = (Ok k, u)"
    and n: "timeNow env u = (Ok now, v)" and c: "CreateIncident env (?i k now) v = (Ok x, t)"
    unfolding failedIncident_def by (blast dest: bindE_OkD)
  from generateKey_db [OF k] timeNow_OkD [OF n] have "s_db v = s_db s" by simp
  with c have "s_db t = (s_db s)\<lparr>db_incidents := db_incidents (s_db s) @ [?i k now]\<rparr>"
    by (auto simp: CreateIncident_def on_table_def insert_row_def dest!: exec_OkD split: if_splits)
  then show ?thesis by (intro exI [of _ "?i k now"]) simp
qed

text \<open>What \<open>failJob_tx\<close> writes for a job \<open>j\<close> that may be failed, at time \<open>now\<close>.\<close>

definition failed_job :: "job \<Rightarrow> int option \<Rightarrow> int \<Rightarrow> job" where
  "failed_job j retries now = (let r = max 0 (case retries of None \<Rightarrow> jb_retries j - 1 | Some n \<Rightarrow> n) in
     j\<lparr>jb_retries := r, jb_worker := [], jb_lock_until := None, jb_updated_at := now,
       jb_state := (if r > 0 then ''CREATED'' else ''FAILED'')\<rparr>)"

lemma remaining_max: "remaining_retries j retries = max 0 (case retries of None \<Rightarrow> jb_retries j - 1 | Some n \<Rightarrow> n)"
  by (auto simp: remaining_retries_def Let_def)

lemma failed_job_columns: "job_columns (failed_job j retries now) j = failed_job j retries now"
  by (simp add: failed_job_def Let_def job_columns_def)

lemma failed_job_key: "jb_key (failed_job j retries now) = jb_key j"
  by (simp add: failed_job_def Let_def)

lemma UpdateJob_failed:
  assumes "UpdateJob env (failed_job j retries now) s = (Ok x, t)"
    and "distinct (map jb_key (db_jobs (s_db s)))" and "j \<in> set (db_jobs (s_db s))"
  shows "s_db t = (s_db s)\<lparr>db_jobs := map (\<lambda>x. if x = j then failed_job j retries now else x) (db_jobs (s_db s))\<rparr>"
  using UpdateJob_OkD(2) [OF assms(1)] the_job [OF assms(2,3) failed_job_key, of retries now "job_columns (failed_job j retries now)"]
  by (simp add: failed_job_columns)

definition release_failed :: "env \<Rightarrow> job \<Rightarrow> string \<Rightarrow> string \<Rightarrow> int option \<Rightarrow> int \<Rightarrow> unit eng" where
  "release_failed env j w msg retries now =
     (if jb_retries (failed_job j retries now) > 0 then UpdateJob env (failed_job j retries now)
      else thenE (UpdateJob env (failed_job j retries now))
        (thenE (ignoreE (Publish env (JobFailed (jb_key j) w (safeInt32 (remaining_retries j retries)) msg now) ''JobFailed''))
        (failedIncident env (j\<lparr>jb_retries := remaining_retries j retries, jb_worker := [], jb_lock_until := None,
           jb_updated_at := now\<rparr>) msg)))"

lemma release_failed_eq:
  "release_failed env j w msg retries now = (let r = remaining_retries j retries;
       j1 = j\<lparr>jb_retries := r, jb_worker := [], jb_lock_until := None, jb_updated_at := now\<rparr>
     in if r > 0 then UpdateJob env (j1\<lparr>jb_state := ''CREATED''\<rparr>)
        else thenE (UpdateJob env (j1\<lparr>jb_state := ''FAILED''\<rparr>))
          (thenE (ignoreE (Publish env (JobFailed (jb_key j) w (safeInt32 r) msg now) ''JobFailed''))
          (failedIncident env j1 msg)))"
  by (simp add: release_failed_def failed_job_def remaining_max Let_def)

lemma failJob_steps:
  "failJob_tx env k w msg retries = bindE (GetJob env k) (\<lambda>j.
     if jb_state j = ''COMPLETED'' then throw (Msg (''job '' @ show_int (jb_key j) @ '' already completed''))
     else if jb_state j = ''FAILED'' then ret ()
     else bindE (timeNow env) (\<lambda>now.
       thenE (if jb_state j = ''ACTIVATED'' then orThrow (ensureActiveLockOwnership j w now) else ret ())
       (release_failed env j w msg retries now)))"
  unfolding failJob_tx_def release_failed_eq by (rule refl)

lemma release_failed_OkD:
  assumes "release_failed env j w msg retries now s = (Ok (), t)"
    and "distinct (map jb_key (db_jobs (s_db s)))" and "j \<in> set (db_jobs (s_db s))"
  shows "db_jobs (s_db t) = map (\<lambda>x. if x = j then failed_job j retries now else x) (db_jobs (s_db s)) \<and>
    (if jb_retries (failed_job j retries now) > 0 then db_incidents (s_db t) = db_incidents (s_db s)
     else \<exists>i. db_incidents (s_db t) = db_incidents (s_db s) @ [i] \<and> in_job_key i = jb_key j \<and>
        in_error_type i = ''JOB_NO_RETRIES'' \<and> in_state i = ''CREATED'' \<and>
        in_error_message i = (if msg = [] then ''external worker failure'' else msg))"
proof (cases "jb_retries (failed_job j retries now) > 0")
  case True
  with assms(1) have "UpdateJob env (failed_job j retries now) s = (Ok (), t)" by (simp add: release_failed_def)
  from UpdateJob_failed [OF this assms(2,3)] True show ?thesis by simp
next
  case False
  let ?j1 = "j\<lparr>jb_retries := remaining_retries j retries, jb_worker := [], jb_lock_until := None, jb_updated_at := now\<rparr>"
  from False assms(1) obtain u v where u: "UpdateJob env (failed_job j retries now) s = (Ok (), u)"
    and p: "ignoreE (Publish env (JobFailed (jb_key j) w (safeInt32 (remaining_retries j retries)) msg now) ''JobFailed'') u = (Ok (), v)"
    and i: "failedIncident env ?j1 msg v = (Ok (), t)"
    by (auto simp: release_failed_def dest!: thenE_OkD)
  from p have "s_db v = s_db u" by (blast dest: ignoreE_OkD Publish_db)
  with UpdateJob_failed [OF u assms(2,3)] failedIncident_OkD [OF i] False show ?thesis by auto
qed

lemma failJob_OkD:
  assumes "failJob_tx env k w msg retries s = (Ok (), t)"
  shows "\<exists>j \<in> set (db_jobs (s_db s)). jb_key j = k \<and> jb_state j \<noteq> ''COMPLETED'' \<and>
     (jb_state j = ''FAILED'' \<and> s_db t = s_db s \<or>
      jb_state j \<noteq> ''FAILED'' \<and> (jb_state j = ''ACTIVATED'' \<longrightarrow> owns_lock env w j) \<and>
      (\<exists>now u. s_db u = s_db s \<and> release_failed env j w msg retries now u = (Ok (), t)))"
proof -
  from assms obtain j a where g: "GetJob env k s = (Ok j, a)"
    and rest: "(if jb_state j = ''COMPLETED'' then throw (Msg (''job '' @ show_int (jb_key j) @ '' already completed''))
       else if jb_state j = ''FAILED'' then ret ()
       else bindE (timeNow env) (\<lambda>now.
         thenE (if jb_state j = ''ACTIVATED'' then orThrow (ensureActiveLockOwnership j w now) else ret ())
         (release_failed env j w msg retries now))) a = (Ok (), t)"
    unfolding failJob_steps by (blast dest: bindE_OkD)
  from GetJob_OkD [OF g] have j: "j \<in> set (db_jobs (s_db s))" "jb_key j = k" "s_db a = s_db s" by simp_all
  from rest have nc: "jb_state j \<noteq> ''COMPLETED''" by (auto simp: throw_apply)
  show ?thesis
  proof (cases "jb_state j = ''FAILED''")
    case True
    with rest j nc show ?thesis by (auto simp: ret_apply)
  next
    case False
    with rest nc have "bindE (timeNow env) (\<lambda>now.
         thenE (if jb_state j = ''ACTIVATED'' then orThrow (ensureActiveLockOwnership j w now) else ret ())
         (release_failed env j w msg retries now)) a = (Ok (), t)" by simp
    then obtain now b c where n: "timeNow env a = (Ok now, b)"
      and own: "(if jb_state j = ''ACTIVATED'' then orThrow (ensureActiveLockOwnership j w now) else ret ()) b = (Ok (), c)"
      and wr: "release_failed env j w msg retries now c = (Ok (), t)"
      by (auto dest!: bindE_OkD thenE_OkD)
    from timeNow_OkD [OF n] obtain p where p: "now = env_clock env p" "s_db b = s_db a" by blast
    from own have "c = b \<and> (jb_state j = ''ACTIVATED'' \<longrightarrow> ensureActiveLockOwnership j w now = None)"
      by (auto simp: ret_apply dest: orThrow_OkD split: if_splits)
    then have "c = b \<and> (jb_state j = ''ACTIVATED'' \<longrightarrow> owns_lock env w j)"
      using owner_ok [of j w now] p(1) unfolding owns_lock_def by blast
    with p j nc False wr show ?thesis by (intro bexI [of _ j] conjI disjI2 exI [of _ now] exI [of _ c]) simp_all
  qed
qed

text \<open>A failed job uses up its retries. While some are left the job is free again for any worker; when the
  last one is gone the job is FAILED and exactly one incident is raised for it, with the message of the
  worker. A job that is activated can only be failed by the worker that holds its lock, a completed one
  not at all, and failing a failed job again changes nothing.\<close>

theorem failing_a_job:
  assumes "FailJob env k w msg retries s = (Ok (), t)" and "distinct (map jb_key (db_jobs (s_db s)))"
  shows "\<exists>j \<in> set (db_jobs (s_db s)). jb_key j = k \<and> jb_state j \<noteq> ''COMPLETED'' \<and>
     (jb_state j = ''FAILED'' \<and> outbox_only s t \<or>
      jb_state j \<noteq> ''FAILED'' \<and>
      (jb_state j = ''ACTIVATED'' \<longrightarrow> owns_lock env w j) \<and>
      (\<exists>now. db_jobs (s_db t) = map (\<lambda>x. if x = j then failed_job j retries now else x) (db_jobs (s_db s)) \<and>
         (if jb_retries (failed_job j retries now) > 0 then db_incidents (s_db t) = db_incidents (s_db s)
          else \<exists>i. db_incidents (s_db t) = db_incidents (s_db s) @ [i] \<and> in_job_key i = k \<and>
             in_error_type i = ''JOB_NO_RETRIES'' \<and> in_state i = ''CREATED'' \<and>
             in_error_message i = (if msg = [] then ''external worker failure'' else msg))))"
proof -
  from withTx_run [OF assms(1) [unfolded FailJob_def]] obtain u v where
    fn: "failJob_tx env k w msg retries u = (Ok (), v)" and u: "s_db u = s_db s" and o: "outbox_only v t" by blast
  note tables = outbox_only_tables [OF o]
  from failJob_OkD [OF fn] u obtain j where j: "j \<in> set (db_jobs (s_db s))" "jb_key j = k" "jb_state j \<noteq> ''COMPLETED''"
    and c: "jb_state j = ''FAILED'' \<and> s_db v = s_db s \<or>
      jb_state j \<noteq> ''FAILED'' \<and> (jb_state j = ''ACTIVATED'' \<longrightarrow> owns_lock env w j) \<and>
      (\<exists>now a. s_db a = s_db s \<and> release_failed env j w msg retries now a = (Ok (), v))" by auto
  from c show ?thesis
  proof (elim disjE conjE exE)
    assume "jb_state j = ''FAILED''" "s_db v = s_db s"
    with j o show ?thesis by (auto simp: outbox_only_def)
  next
    fix now a
    assume nf: "jb_state j \<noteq> ''FAILED''" and own: "jb_state j = ''ACTIVATED'' \<longrightarrow> owns_lock env w j"
      and a: "s_db a = s_db s" and wr: "release_failed env j w msg retries now a = (Ok (), v)"
    have "distinct (map jb_key (db_jobs (s_db a)))" "j \<in> set (db_jobs (s_db a))" using assms(2) j(1) a by simp_all
    note rel = release_failed_OkD [OF wr this, unfolded a j(2)]
    have "db_jobs (s_db t) = map (\<lambda>x. if x = j then failed_job j retries now else x) (db_jobs (s_db s)) \<and>
      (if jb_retries (failed_job j retries now) > 0 then db_incidents (s_db t) = db_incidents (s_db s)
       else \<exists>i. db_incidents (s_db t) = db_incidents (s_db s) @ [i] \<and> in_job_key i = k \<and>
          in_error_type i = ''JOB_NO_RETRIES'' \<and> in_state i = ''CREATED'' \<and>
          in_error_message i = (if msg = [] then ''external worker failure'' else msg))"
      unfolding tables by (rule rel)
    with nf own j show ?thesis by blast
  qed
qed

lemma held_failure: "fst (FailJob demo_env 5 ''ann'' ''no funds'' (Some 0) held_state) = Ok ()"
  by code_simp

theorem failing_a_job_witness:
  "\<exists>t i. FailJob demo_env 5 ''ann'' ''no funds'' (Some 0) held_state = (Ok (), t) \<and>
     db_incidents (s_db t) = [i] \<and> in_error_message i = ''no funds''"
proof -
  obtain t where t: "FailJob demo_env 5 ''ann'' ''no funds'' (Some 0) held_state = (Ok (), t)"
    using held_failure by (metis prod.collapse)
  have "distinct (map jb_key (db_jobs (s_db held_state)))"
    by (simp add: held_state_def demo_state_def)
  from failing_a_job [OF t this] have "\<exists>i. db_incidents (s_db t) = [i] \<and> in_error_message i = ''no funds''"
    by (auto simp: held_state_def demo_state_def held_job_def Demo.demo_job_def failed_job_def demo_db_def empty_db_def)
  with t show ?thesis by blast
qed

section \<open>User tasks\<close>

lemma insort_key_map: "insort_key k (f x) (map f xs) = map f (insort_key (\<lambda>x. k (f x)) x xs)"
  by (induction xs) auto

lemma sort_key_map: "sort_key k (map f xs) = map f (sort_key (\<lambda>x. k (f x)) xs)"
  by (induction xs) (simp_all add: insort_key_map)

lemma find_map: "List.find P (map f xs) = map_option f (List.find (\<lambda>x. P (f x)) xs)"
  by (induction xs) auto

text \<open>The job of the user task of an execution: the oldest one of its element instance.\<close>

definition user_task_job :: "int \<Rightarrow> int \<Rightarrow> job list \<Rightarrow> job option" where
  "user_task_job ik ek jobs = List.find (\<lambda>j. jb_element_key j = ek) (sort_key jb_created_at
     (filter (\<lambda>j. jb_instance_key j = ik \<and> jb_type j = UserTaskJobType) jobs))"

lemma find_in: "List.find P xs = Some x \<Longrightarrow> x \<in> set xs \<and> P x"
  by (auto simp: find_Some_iff)

lemma user_task_job_in: "user_task_job ik ek jobs = Some j \<Longrightarrow> j \<in> set jobs"
  unfolding user_task_job_def by (drule find_in) auto

lemma user_task_job_map:
  assumes "\<And>j. jb_element_key (f j) = jb_element_key j \<and> jb_created_at (f j) = jb_created_at j \<and>
      jb_instance_key (f j) = jb_instance_key j \<and> jb_type (f j) = jb_type j"
  shows "user_task_job ik ek (map f jobs) = map_option f (user_task_job ik ek jobs)"
  by (simp add: user_task_job_def filter_map sort_key_map find_map assms comp_def)

lemma getUserTaskJob_OkD:
  assumes "getUserTaskJob env i e s = (Ok j, t)"
  shows "\<exists>ik ek. parse_int i = Inr ik \<and> parse_int e = Inr ek \<and>
     user_task_job ik ek (db_jobs (s_db s)) = Some j \<and> s_db t = s_db s"
  using assms by (auto simp: getUserTaskJob_def ListJobsByProcessInstanceAndType_def user_task_job_def UserTaskJobType_def
      compatibleJobTypes_def throw_apply ret_apply dest!: bindE_OkD query_OkD split: sum.splits option.splits)

definition claimed_job :: "string \<Rightarrow> int \<Rightarrow> job \<Rightarrow> job" where
  "claimed_job owner now j = j\<lparr>jb_worker := owner, jb_state := ''ACTIVATED'', jb_updated_at := now\<rparr>"

lemma claim_run:
  assumes "ClaimUserTask env i e owner force s = (Ok j', t)" and keys: "distinct (map jb_key (db_jobs (s_db s)))"
  shows "\<exists>ik ek j now. parse_int i = Inr ik \<and> parse_int e = Inr ek \<and> user_task_job ik ek (db_jobs (s_db s)) = Some j \<and>
     trim_space owner \<noteq> [] \<and> jb_state j \<noteq> ''COMPLETED'' \<and> (jb_worker j = [] \<or> jb_worker j = trim_space owner \<or> force) \<and>
     j' = claimed_job (trim_space owner) now j \<and>
     db_jobs (s_db t) = map (\<lambda>x. if x = j then claimed_job (trim_space owner) now j else x) (db_jobs (s_db s))"
proof -
  let ?o = "trim_space owner"
  from assms(1) have o: "?o \<noteq> []" and tx: "withTx env (claimUserTask_tx env i e ?o force) s = (Ok j', t)"
    by (auto simp: ClaimUserTask_def Let_def throw_apply split: if_splits)
  from withTx_run [OF tx] obtain u v where fn: "claimUserTask_tx env i e ?o force u = (Ok j', v)"
    and u: "s_db u = s_db s" and out: "outbox_only v t" by blast
  from bindE_OkD [OF fn [unfolded claimUserTask_tx_def]] obtain j a where g: "getUserTaskJob env i e u = (Ok j, a)"
    and rest: "(if jb_state j = ''COMPLETED'' then throw (Msg (''user task '' @ e @ '' is already completed''))
       else if jb_worker j \<noteq> [] \<and> jb_worker j \<noteq> ?o \<and> \<not> force
       then throw (Msg (''user task '' @ e @ '' is already claimed by '' @ jb_worker j))
       else bindE (timeNow env) (\<lambda>now. let j' = j\<lparr>jb_worker := ?o, jb_state := ''ACTIVATED'', jb_updated_at := now\<rparr> in
         thenE (UpdateJob env j') (ret j'))) a = (Ok j', v)" by blast
  from getUserTaskJob_OkD [OF g] u obtain ik ek where p: "parse_int i = Inr ik" "parse_int e = Inr ek"
    and j: "user_task_job ik ek (db_jobs (s_db s)) = Some j" and a: "s_db a = s_db s" by auto
  from rest obtain now b where st: "jb_state j \<noteq> ''COMPLETED''" "jb_worker j = [] \<or> jb_worker j = ?o \<or> force"
    and n: "timeNow env a = (Ok now, b)" and up: "UpdateJob env (claimed_job ?o now j) b = (Ok (), v)"
    and j': "j' = claimed_job ?o now j"
    by (auto simp: claimed_job_def Let_def throw_apply ret_apply dest!: bindE_OkD thenE_OkD split: if_splits)
  have col: "job_columns (claimed_job ?o now j) j = claimed_job ?o now j" "jb_key (claimed_job ?o now j) = jb_key j"
    by (simp_all add: claimed_job_def job_columns_def)
  have "s_db b = s_db s" using timeNow_OkD [OF n] a by simp
  with UpdateJob_OkD(2) [OF up] the_job [OF keys user_task_job_in [OF j] col(2), of "job_columns (claimed_job ?o now j)"]
  have "db_jobs (s_db v) = map (\<lambda>x. if x = j then claimed_job ?o now j else x) (db_jobs (s_db s))" by (simp add: col(1))
  with p j o st j' show ?thesis by (auto simp: outbox_only_tables [OF out])
qed

text \<open>A user task has one owner. Once somebody has claimed it, a claim of another person that is not forced
  fails: two claims that both succeed are of the same owner, and for the same job.\<close>

theorem claimed_task_has_one_owner:
  assumes "distinct (map jb_key (db_jobs (s_db s)))"
    and "ClaimUserTask env i e owner force s = (Ok j, t)" and "ClaimUserTask env' i e owner' False t = (Ok j', u)"
  shows "trim_space owner' = trim_space owner \<and> jb_key j' = jb_key j"
proof -
  from claim_run [OF assms(2,1)] obtain ik ek j0 now where p: "parse_int i = Inr ik" "parse_int e = Inr ek"
    and j0: "user_task_job ik ek (db_jobs (s_db s)) = Some j0" and o: "trim_space owner \<noteq> []"
    and j: "j = claimed_job (trim_space owner) now j0"
    and rows: "db_jobs (s_db t) = map (\<lambda>x. if x = j0 then j else x) (db_jobs (s_db s))" by blast
  have "map jb_key (db_jobs (s_db t)) = map jb_key (db_jobs (s_db s))"
    unfolding rows by (auto simp: j claimed_job_def)
  with assms(1) have keys: "distinct (map jb_key (db_jobs (s_db t)))" by simp
  from claim_run [OF assms(3) keys] p obtain j1 now' where j1: "user_task_job ik ek (db_jobs (s_db t)) = Some j1"
    and w: "jb_worker j1 = [] \<or> jb_worker j1 = trim_space owner'" and j': "j' = claimed_job (trim_space owner') now' j1"
    by auto
  have "user_task_job ik ek (db_jobs (s_db t)) = Some j"
    unfolding rows by (subst user_task_job_map) (auto simp: j0 j claimed_job_def)
  with j1 have "j1 = j" by simp
  with w o j j' show ?thesis by (auto simp: claimed_job_def)
qed

text \<open>An unclaimed task, claimed twice by the same person.\<close>

definition open_task :: est where
  "open_task = demo_state (demo_db\<lparr>db_jobs := [Demo.demo_job\<lparr>jb_worker := [], jb_state := ''CREATED''\<rparr>]\<rparr>)"

definition bob_job :: "int \<Rightarrow> job" where
  "bob_job now = claimed_job ''bob'' now (Demo.demo_job\<lparr>jb_worker := [], jb_state := ''CREATED''\<rparr>)"

lemma first_claim:
  "fst (ClaimUserTask demo_env ''7'' ''9'' ''bob'' False open_task) = Ok (bob_job 1704067200000000000)"
  by code_simp

lemma second_claim:
  "fst (ClaimUserTask demo_env ''7'' ''9'' '' bob'' False
     (snd (ClaimUserTask demo_env ''7'' ''9'' ''bob'' False open_task))) = Ok (bob_job 1704067200002000000)"
  by code_simp

theorem claimed_task_has_one_owner_witness:
  "trim_space '' bob'' = trim_space ''bob'' \<and> jb_key (bob_job 1704067200002000000) = jb_key (bob_job 1704067200000000000)"
proof (rule claimed_task_has_one_owner)
  let ?t = "snd (ClaimUserTask demo_env ''7'' ''9'' ''bob'' False open_task)"
  show "distinct (map jb_key (db_jobs (s_db open_task)))" by (simp add: open_task_def demo_state_def)
  show "ClaimUserTask demo_env ''7'' ''9'' ''bob'' False open_task = (Ok (bob_job 1704067200000000000), ?t)"
    using first_claim by (metis prod.collapse)
  show "ClaimUserTask demo_env ''7'' ''9'' '' bob'' False ?t =
      (Ok (bob_job 1704067200002000000), snd (ClaimUserTask demo_env ''7'' ''9'' '' bob'' False ?t))"
    using second_claim by (metis prod.collapse)
qed

end
