(* ===== verification/StoreProps.thy ===== *)
theory StoreProps
  imports Commit Demo FlowProps
begin

text \<open>
  The properties of the outbox, the scheduler lease, idempotency keys, decisions and timers as tables: what
  sequences of the repository's operations guarantee (\<open>engine.go\<close>, \<open>gorm_repository.go\<close>,
  \<open>decisions.go\<close>, \<open>timer_schedule.go\<close>).
\<close>

section \<open>Calls that do not fail\<close>

lemma query_run:
  "\<not> env_db_fault env (s_calls s) \<Longrightarrow> repo_query env f s =
     (case f (s_db s) of Inl e \<Rightarrow> (Error e, s\<lparr>s_calls := Suc (s_calls s)\<rparr>)
      | Inr x \<Rightarrow> (Ok x, s\<lparr>s_calls := Suc (s_calls s)\<rparr>))"
  by (simp add: repo_query_def Let_def)

lemma exec_run:
  "\<not> env_db_fault env (s_calls s) \<Longrightarrow> repo_exec env f s =
     (case f (s_db s) of Inl e \<Rightarrow> (Error e, s\<lparr>s_calls := Suc (s_calls s)\<rparr>)
      | Inr (x, d) \<Rightarrow> (Ok x, s\<lparr>s_calls := Suc (s_calls s), s_db := d\<rparr>))"
  by (simp add: repo_exec_def Let_def split: sum.split prod.split)

lemma row_by_key:
  "distinct (map key rows) \<Longrightarrow> r \<in> set rows \<Longrightarrow> r' \<in> set rows \<Longrightarrow> key r = key r' \<Longrightarrow> r = r'"
  by (auto simp: distinct_map dest: inj_onD)

lemma in_update_rows: "x \<in> set (update_rows p f xs) \<longleftrightarrow> (\<exists>r \<in> set xs. x = (if p r then f r else r))"
  by (auto simp: update_rows_def image_iff)

section \<open>Retry delays\<close>

text \<open>The delay before the next attempt at publishing a message doubles with every attempt from one second up
  to 256 seconds, and never leaves these bounds; the configured maximum of five minutes is never reached.\<close>

theorem retry_delay_doubles:
  "outboxRetryDelay a = outboxBaseRetryDelay * 2 ^ nat (min 8 (max 0 (a - 1))) \<and>
   outboxBaseRetryDelay \<le> outboxRetryDelay a \<and> outboxRetryDelay a \<le> 256000000000 \<and>
   outboxRetryDelay a < outboxMaxRetryDelay \<and> outboxRetryDelay a \<le> outboxRetryDelay (a + 1)"
proof -
  have eq: "outboxRetryDelay b = outboxBaseRetryDelay * 2 ^ nat (min 8 (max 0 (b - 1)))"
    and le: "outboxRetryDelay b \<le> 256000000000" for b
  proof -
    let ?e = "min 8 (max 0 (b - 1))"
    have p: "(2::int) ^ nat ?e \<le> 2 ^ 8" by (rule power_increasing) auto
    have e: "\<not> b \<le> 1 \<Longrightarrow> (if b - 1 > 8 then 8 else b - 1) = ?e" "b \<le> 1 \<Longrightarrow> ?e = 0" by auto
    show eq: "outboxRetryDelay b = outboxBaseRetryDelay * 2 ^ nat ?e"
      using p e by (cases "b \<le> 1")
        (simp_all only: outboxRetryDelay_def Let_def push_bit_eq_mult outboxBaseRetryDelay_def outboxMaxRetryDelay_def
          if_True if_False, simp_all)
    show "outboxRetryDelay b \<le> 256000000000" using p by (simp add: eq outboxBaseRetryDelay_def)
  qed
  have grow: "(2::int) ^ nat (min 8 (max 0 (a - 1))) \<le> 2 ^ nat (min 8 (max 0 (a + 1 - 1)))"
    by (rule power_increasing) auto
  have one: "(1::int) \<le> 2 ^ nat (min 8 (max 0 (a - 1)))" by (rule one_le_power) simp
  show ?thesis
  proof (intro conjI)
    show "outboxBaseRetryDelay \<le> outboxRetryDelay a"
      unfolding eq using one by (simp add: outboxBaseRetryDelay_def)
    show "outboxRetryDelay a \<le> outboxRetryDelay (a + 1)"
      unfolding eq using grow by (simp add: outboxBaseRetryDelay_def)
    show "outboxRetryDelay a < outboxMaxRetryDelay"
      using le [of a] by (simp add: outboxMaxRetryDelay_def)
  qed (rule eq le)+
qed

section \<open>Claims\<close>

lemma ClaimOutboxMessage_OkD:
  assumes "ClaimOutboxMessage env i tm s = (Ok b, t)"
  shows "b = (\<exists>m \<in> set (db_outbox (s_db s)). ob_id m = i \<and> claimable tm m) \<and>
     s_db t = (s_db s)\<lparr>db_outbox := update_rows (\<lambda>m. ob_id m = i \<and> claimable tm m) (claim_row tm) (db_outbox (s_db s))\<rparr>"
  using assms by (auto simp: ClaimOutboxMessage_def Let_def dest!: exec_OkD)

lemma claimable_claimed: "claimable now' (claim_row now m) \<Longrightarrow> now + outboxProcessingLease \<le> now'"
  by (simp add: claimable_def claim_row_def Let_def)

text \<open>A claimed message is leased. After one relay has claimed it, no other relay can claim it during the
  five minutes of the lease.\<close>

theorem outbox_claims_exclude:
  assumes "distinct (map ob_id (db_outbox (s_db s)))"
    and "ClaimOutboxMessage env i now s = (Ok True, t)" and "ClaimOutboxMessage env' i now' t = (Ok b, u)"
    and "now' < now + outboxProcessingLease"
  shows "\<not> b"
proof
  assume b
  let ?hit = "\<lambda>m. ob_id m = i \<and> claimable now m"
  from ClaimOutboxMessage_OkD [OF assms(2)] obtain m where m: "m \<in> set (db_outbox (s_db s))" "?hit m"
    and rows: "db_outbox (s_db t) = update_rows ?hit (claim_row now) (db_outbox (s_db s))" by auto
  from \<open>b\<close> ClaimOutboxMessage_OkD [OF assms(3)] obtain x where "x \<in> set (db_outbox (s_db t))"
    and x: "ob_id x = i" "claimable now' x" by blast
  then obtain r where r: "r \<in> set (db_outbox (s_db s))" and eq: "x = (if ?hit r then claim_row now r else r)"
    unfolding rows in_update_rows by blast
  note hit = x [unfolded eq]
  from hit(1) have "ob_id r = i" by (auto simp: claim_row_def split: if_splits)
  with m(2) have "r = m" using row_by_key [OF assms(1) r m(1)] by simp
  with hit(2) m(2) have "claimable now' (claim_row now m)" by simp
  then have "now + outboxProcessingLease \<le> now'" by (rule claimable_claimed)
  with assms(4) show False by simp
qed

lemma two_claims:
  "fst (ClaimOutboxMessage demo_env ''u9'' 100 demo_pending) = Ok True"
  "fst (ClaimOutboxMessage demo_env ''u9'' 200 (snd (ClaimOutboxMessage demo_env ''u9'' 100 demo_pending))) = Ok False"
  by code_simp+

theorem outbox_claims_exclude_witness:
  "fst (ClaimOutboxMessage demo_env ''u9'' 200 (snd (ClaimOutboxMessage demo_env ''u9'' 100 demo_pending))) \<noteq> Ok True"
proof
  let ?t = "snd (ClaimOutboxMessage demo_env ''u9'' 100 demo_pending)"
  assume "fst (ClaimOutboxMessage demo_env ''u9'' 200 ?t) = Ok True"
  then obtain u where u: "ClaimOutboxMessage demo_env ''u9'' 200 ?t = (Ok True, u)" by (metis prod.collapse)
  have t: "ClaimOutboxMessage demo_env ''u9'' 100 demo_pending = (Ok True, ?t)"
    using two_claims(1) by (metis prod.collapse)
  have "distinct (map ob_id (db_outbox (s_db demo_pending)))" by (simp add: demo_pending_def demo_state_def)
  from outbox_claims_exclude [OF this t u] show False by (simp add: outboxProcessingLease_def)
qed

section \<open>Finished messages\<close>

text \<open>A row \<open>m\<close> that is in the outbox stays in it as it is.\<close>

definition untouched :: "outbox_message \<Rightarrow> est \<Rightarrow> est \<Rightarrow> bool" where
  "untouched m s t \<longleftrightarrow> (distinct (map ob_id (db_outbox (s_db s))) \<and> m \<in> set (db_outbox (s_db s)) \<longrightarrow>
     distinct (map ob_id (db_outbox (s_db t))) \<and> m \<in> set (db_outbox (s_db t)))"

interpretation untouched: preorder_on_states "untouched m"
  by unfold_locales (auto simp: untouched_def)

lemmas untouched_rules = keeps_cases untouched.keeps_ret untouched.keeps_throw untouched.keeps_bindE
  untouched.keeps_thenE untouched.keeps_tryE untouched.keeps_ignoreE untouched.keeps_mapErr untouched.keeps_foldE

lemma untouched_same: "(\<And>s. s_db (snd (f s)) = s_db s) \<Longrightarrow> keeps (untouched m) f"
  by (simp add: keeps_def untouched_def)

lemma untouched_prims:
  "keeps (untouched m) (timeNow env)" "keeps (untouched m) (meter g)" "keeps (untouched m) (Publish env ev ty)"
  by (rule untouched_same; simp add: timeNow_def meter_def modifyS_def Publish_def Let_def split: option.split)+

lemma untouched_query: "keeps (untouched m) (repo_query env f)"
  by (rule untouched_same) (simp add: repo_query_def Let_def split: sum.split)

lemma untouched_update:
  assumes "\<And>r. ob_id (f r) = ob_id r" and "i \<noteq> ob_id m"
  shows "keeps (untouched m) (update_outbox env i f)"
proof -
  have "m \<in> set (update_rows (\<lambda>r. ob_id r = i) f rows)" if "m \<in> set rows" for rows
    using that assms(2) by (auto simp: in_update_rows)
  then show ?thesis using assms(1)
    by (auto simp: keeps_def untouched_def update_outbox_def repo_exec_def Let_def)
qed

lemma untouched_marks:
  assumes "i \<noteq> ob_id m"
  shows "keeps (untouched m) (MarkOutboxMessagePublishFailed env i e t)"
    "keeps (untouched m) (MarkOutboxMessageTerminalFailed env i e t)"
    "keeps (untouched m) (MarkOutboxMessagePublished env i t)"
  unfolding MarkOutboxMessagePublishFailed_def MarkOutboxMessageTerminalFailed_def MarkOutboxMessagePublished_def
  by (rule untouched_update [OF _ assms]; simp)+

lemma untouched_record:
  assumes "i \<noteq> ob_id m"
  shows "keeps (untouched m) (recordOutboxPublishFailure env i n e)" "keeps (untouched m) (recordOutboxPublishSuccess c t)"
  unfolding recordOutboxPublishFailure_def recordOutboxPublishSuccess_def
  by (intro untouched_rules untouched_prims untouched_marks [OF assms])+

lemma relayOne_untouched:
  assumes fin: "\<And>now. \<not> claimable now m"
  shows "keeps (untouched m) (relayOne env r msg)"
proof (cases "ob_id msg = ob_id m")
  case False
  have "keeps (untouched m) (ClaimOutboxMessage env (ob_id msg) now)" for now
    using fin by (auto simp: keeps_def untouched_def ClaimOutboxMessage_def repo_exec_def Let_def in_update_rows)
  with False show ?thesis unfolding relayOne_def Let_def
    by (intro untouched_rules untouched_prims untouched_marks untouched_record) auto
next
  case True
  show ?thesis
  proof (rule keepsI)
    fix s :: est
    show "untouched m s (snd (relayOne env r msg s))"
    proof (cases "distinct (map ob_id (db_outbox (s_db s))) \<and> m \<in> set (db_outbox (s_db s))")
      case False
      then show ?thesis by (auto simp: untouched_def)
    next
      case there: True
      have none: "\<not> (ob_id x = ob_id msg \<and> claimable now x)" if "x \<in> set (db_outbox (s_db s))" for x now
        using there that row_by_key [of ob_id "db_outbox (s_db s)" x m] fin True by auto
      have "update_rows (\<lambda>x. ob_id x = ob_id msg \<and> claimable now x) (claim_row now) (db_outbox (s_db s)) =
          db_outbox (s_db s)" for now
        unfolding update_rows_def by (rule map_idI) (use none in auto)
      with none have claim: "fst (ClaimOutboxMessage env (ob_id msg) now u) \<noteq> Ok True \<and>
          s_db (snd (ClaimOutboxMessage env (ob_id msg) now u)) = s_db s" if "s_db u = s_db s" for now u
        using that by (auto simp: ClaimOutboxMessage_def repo_exec_def Let_def)
      let ?u = "s\<lparr>s_clock := Suc (s_clock s)\<rparr>"
      obtain c v where cv: "ClaimOutboxMessage env (ob_id msg) (env_clock env (s_clock s)) ?u = (c, v)" by fastforce
      with claim [of ?u "env_clock env (s_clock s)"] have "c \<noteq> Ok True" "s_db v = s_db s" by simp_all
      then have "s_db (snd (relayOne env r msg s)) = s_db s"
        by (cases c) (auto simp: relayOne_def timeNow_def go_simps cv)
      then show ?thesis by (simp add: untouched_def)
    qed
  qed
qed

text \<open>What is published stays published, and what was given up stays given up. A cycle of the relay, whatever
  fails in it, leaves every finished message of the outbox exactly as it is.\<close>

theorem relay_leaves_finished_messages:
  assumes "distinct (map ob_id (db_outbox (s_db s)))" and "m \<in> set (db_outbox (s_db s))"
    and "ob_status m \<in> {''PUBLISHED'', ''FAILED''}"
  shows "m \<in> set (db_outbox (s_db (snd (RunOutboxRelayCycle env limit s))))"
proof -
  have "\<not> claimable now m" for now using assms(3) by (auto simp: claimable_def Let_def)
  then have "keeps (untouched m) (RunOutboxRelayCycle env limit)"
    unfolding RunOutboxRelayCycle_def flushPendingOutbox_def CountPendingOutboxMessages_def ListPendingOutboxMessages_def
    by (intro untouched_rules untouched_prims untouched_query relayOne_untouched)
  then show ?thesis using assms(1,2) by (auto simp: keeps_def untouched_def)
qed

definition sent_message :: outbox_message where
  "sent_message = published_row 6 (outbox_row ''u8'' 4 (JobActivated 4 ''w'' 9, ''JobActivated''))"

theorem relay_leaves_finished_messages_witness:
  "sent_message \<in> set (db_outbox (s_db (snd (RunOutboxRelayCycle demo_env 10
     (demo_pending\<lparr>s_db := empty_db\<lparr>db_outbox := [outbox_row ''u9'' 5 (JobActivated 5 ''w'' 9, ''JobActivated''), sent_message]\<rparr>\<rparr>)))))"
  by (rule relay_leaves_finished_messages) (simp_all add: sent_message_def published_row_def outbox_row_def)

section \<open>Delivery by the relay\<close>

definition no_faults :: "env \<Rightarrow> bool" where
  "no_faults env \<longleftrightarrow> (\<forall>n. \<not> env_db_fault env n \<and> \<not> env_pub_fault env n)"

text \<open>The relay can decode the event of a message.\<close>

definition decodable :: "outbox_message \<Rightarrow> bool" where
  "decodable m \<longleftrightarrow> unmarshalOutboxEvent (ob_event_type m) (ob_payload m) = Inr (ob_payload m)"

lemma update_row_by_key:
  assumes "distinct (map key rows)" and "r \<in> set rows"
  shows "update_rows (\<lambda>x. key x = key r) f rows = map (\<lambda>x. if x = r then f x else x) rows"
  using row_by_key [OF assms(1) _ assms(2)] by (auto simp: update_rows_def intro!: map_cong)

lemma claim_one:
  assumes "distinct (map ob_id rows)" and "m \<in> set rows" and "claimable now m"
  shows "update_rows (\<lambda>x. ob_id x = ob_id m \<and> claimable now x) (claim_row now) rows =
     map (\<lambda>x. if x = m then claim_row now x else x) rows"
  using row_by_key [OF assms(1) _ assms(2)] assms(3) by (auto simp: update_rows_def intro!: map_cong)

lemma mark_claimed:
  assumes "distinct (map ob_id rows)" and "m \<in> set rows"
  shows "update_rows (\<lambda>x. ob_id x = ob_id m) f (map (\<lambda>x. if x = m then claim_row now x else x) rows) =
     map (\<lambda>x. if x = m then f (claim_row now x) else x) rows"
  using row_by_key [OF assms(1) _ assms(2)] by (auto simp: update_rows_def claim_row_def intro!: map_cong)

lemma success_run:
  "\<exists>t. recordOutboxPublishSuccess c p s = (Ok (), t) \<and> s_db t = s_db s \<and> s_bus t = s_bus s \<and> s_buf t = s_buf s \<and>
     s_clock t = s_clock s"
  by (auto simp: recordOutboxPublishSuccess_def meter_def go_simps)

lemma relayOne_delivers:
  assumes nf: "no_faults env" and buf: "s_buf s = None" and keys: "distinct (map ob_id (db_outbox (s_db s)))"
    and m: "m \<in> set (db_outbox (s_db s))" "claimable (env_clock env (s_clock s)) m" "decodable m"
  shows "\<exists>t tm. relayOne env r m s = (Ok (r\<lparr>rr_claimed := rr_claimed r + 1, rr_published := rr_published r + 1\<rparr>), t) \<and>
     s_buf t = None \<and> s_bus t = s_bus s @ [(ob_payload m, ob_event_type m)] \<and> s_clock s \<le> s_clock t \<and>
     db_outbox (s_db t) = map (\<lambda>x. if x = m then published_row tm (claim_row (env_clock env (s_clock s)) x) else x)
       (db_outbox (s_db s))"
proof -
  let ?now = "env_clock env (s_clock s)"
  let ?hit = "\<lambda>x. ob_id x = ob_id m \<and> claimable ?now x"
  let ?s1 = "s\<lparr>s_clock := Suc (s_clock s), s_calls := Suc (s_calls s),
      s_db := (s_db s)\<lparr>db_outbox := map (\<lambda>x. if x = m then claim_row ?now x else x) (db_outbox (s_db s))\<rparr>\<rparr>"
  let ?s2 = "?s1\<lparr>s_pubs := Suc (s_pubs s), s_bus := s_bus s @ [(ob_payload m, ob_event_type m)]\<rparr>"
  let ?tm = "env_clock env (Suc (s_clock s))"
  let ?s3 = "?s2\<lparr>s_clock := Suc (Suc (s_clock s)), s_calls := Suc (Suc (s_calls s)), s_db := (s_db s)\<lparr>db_outbox :=
      map (\<lambda>x. if x = m then published_row ?tm (claim_row ?now x) else x) (db_outbox (s_db s))\<rparr>\<rparr>"
  have hit: "(\<exists>x \<in> set (db_outbox (s_db s)). ?hit x) = True" using m(1,2) by blast
  have f: "\<not> env_db_fault env n" "\<not> env_pub_fault env n" for n using nf by (simp_all add: no_faults_def)
  have claim: "ClaimOutboxMessage env (ob_id m) ?now (s\<lparr>s_clock := Suc (s_clock s)\<rparr>) = (Ok True, ?s1)"
    unfolding ClaimOutboxMessage_def by (subst exec_run) (simp_all add: f Let_def claim_one [OF keys m(1,2)] hit [simplified])
  have pub: "Publish env (ob_payload m) (ob_event_type m) ?s1 = (Ok (), ?s2)"
    using buf f by (simp add: Publish_def Let_def)
  have mark: "MarkOutboxMessagePublished env (ob_id m) ?tm (?s2\<lparr>s_clock := Suc (Suc (s_clock s))\<rparr>) = (Ok (), ?s3)"
    unfolding MarkOutboxMessagePublished_def update_outbox_def
    by (subst exec_run) (simp_all add: f mark_claimed [OF keys m(1)])
  obtain t where t: "recordOutboxPublishSuccess (ob_created_at m) ?tm ?s3 = (Ok (), t)" "s_db t = s_db ?s3"
    "s_bus t = s_bus ?s3" "s_buf t = s_buf ?s3" "s_clock t = s_clock ?s3" using success_run by blast
  have "relayOne env r m s = (Ok (r\<lparr>rr_claimed := rr_claimed r + 1, rr_published := rr_published r + 1\<rparr>), t)"
    using claim pub mark t(1) m(3) by (simp add: relayOne_def timeNow_def go_simps decodable_def Let_def)
  with t(2-) buf show ?thesis by (intro exI [of _ t] exI [of _ ?tm]) simp
qed

text \<open>What becomes of a due message: it is published, or, when it cannot be decoded, the attempt is counted and it
  is due again later, or given up after the last attempt. (Rows have an id; one without is left claimed.)\<close>

definition relayed :: "env \<Rightarrow> outbox_message \<Rightarrow> outbox_message \<Rightarrow> bool" where
  "relayed env m x \<longleftrightarrow> ob_id x = ob_id m \<and>
     (if decodable m then ob_status x = ''PUBLISHED''
      else ob_attempts x = ob_attempts m + 1 \<and>
        ob_status x = (if ob_id m = [] then ''PROCESSING''
          else if OutboxMaxAttempts env \<le> ob_attempts m + 1 then ''FAILED'' else ''PENDING''))"

lemma failure_run:
  assumes nf: "no_faults env" and keys: "distinct (map ob_id rows)" "m \<in> set rows"
    and s: "db_outbox (s_db s) = map (\<lambda>x. if x = m then claim_row now x else x) rows"
  shows "\<exists>t f. recordOutboxPublishFailure env (ob_id m) (ob_attempts m + 1) e s = (Ok (), t) \<and>
     s_bus t = s_bus s \<and> s_buf t = s_buf s \<and> s_clock s \<le> s_clock t \<and>
     db_outbox (s_db t) = map (\<lambda>x. if x = m then f x else x) rows \<and> (\<not> decodable m \<longrightarrow> relayed env m (f m))"
proof (cases "ob_id m = []")
  case True
  with s show ?thesis
    by (intro exI [of _ "snd (recordOutboxPublishFailure env (ob_id m) (ob_attempts m + 1) e s)"] exI [of _ "claim_row now"])
      (simp add: recordOutboxPublishFailure_def meter_def go_simps relayed_def claim_row_def)
next
  case False
  have f: "\<not> env_db_fault env n" for n using nf by (simp add: no_faults_def)
  have mark: "update_outbox env (ob_id m) g u = (Ok (), u\<lparr>s_calls := Suc (s_calls u),
      s_db := (s_db u)\<lparr>db_outbox := map (\<lambda>x. if x = m then g (claim_row now x) else x) rows\<rparr>\<rparr>)"
    if "db_outbox (s_db u) = db_outbox (s_db s)" for g u
    unfolding update_outbox_def by (subst exec_run) (simp_all add: f that s mark_claimed [OF keys])
  show ?thesis
  proof (cases "OutboxMaxAttempts env \<le> ob_attempts m + 1")
    case True
    with False show ?thesis
      by (auto simp: recordOutboxPublishFailure_def meter_def timeNow_def go_simps Let_def MarkOutboxMessageTerminalFailed_def
          mark relayed_def terminal_row_def claim_row_def
          intro!: exI [of _ "\<lambda>x. terminal_row _ _ (claim_row now x)"])
  next
    case later: False
    with False show ?thesis
      by (auto simp: recordOutboxPublishFailure_def meter_def timeNow_def go_simps Let_def MarkOutboxMessagePublishFailed_def
          mark relayed_def failed_row_def claim_row_def
          intro!: exI [of _ "\<lambda>x. failed_row _ _ (claim_row now x)"])
  qed
qed

text \<open>The counts of a cycle that has seen the messages \<open>ms\<close>.\<close>

definition counted :: "outbox_message list \<Rightarrow> relay_result \<Rightarrow> relay_result" where
  "counted ms r = r\<lparr>rr_claimed := rr_claimed r + int (length ms),
     rr_published := rr_published r + int (length (filter decodable ms)),
     rr_failed := rr_failed r + int (length (filter (\<lambda>m. \<not> decodable m) ms))\<rparr>"

definition sent :: "outbox_message list \<Rightarrow> (event \<times> string) list" where
  "sent ms = map (\<lambda>m. (ob_payload m, ob_event_type m)) (filter decodable ms)"

lemma relayOne_relays:
  assumes nf: "no_faults env" and buf: "s_buf s = None" and keys: "distinct (map ob_id (db_outbox (s_db s)))"
    and m: "m \<in> set (db_outbox (s_db s))" "claimable (env_clock env (s_clock s)) m"
  shows "\<exists>t f. relayOne env r m s = (Ok (counted [m] r), t) \<and>
     s_buf t = None \<and> s_bus t = s_bus s @ sent [m] \<and> s_clock s \<le> s_clock t \<and>
     db_outbox (s_db t) = map (\<lambda>x. if x = m then f x else x) (db_outbox (s_db s)) \<and> relayed env m (f m)"
proof (cases "decodable m")
  case True
  from relayOne_delivers [OF assms True] obtain t tm where t:
    "relayOne env r m s = (Ok (r\<lparr>rr_claimed := rr_claimed r + 1, rr_published := rr_published r + 1\<rparr>), t)"
    "s_buf t = None" "s_bus t = s_bus s @ [(ob_payload m, ob_event_type m)]" "s_clock s \<le> s_clock t"
    "db_outbox (s_db t) = map (\<lambda>x. if x = m then published_row tm (claim_row (env_clock env (s_clock s)) x) else x)
       (db_outbox (s_db s))" by blast
  with True show ?thesis
    by (intro exI [of _ t] exI [of _ "\<lambda>x. published_row tm (claim_row (env_clock env (s_clock s)) x)"])
      (simp add: counted_def sent_def relayed_def published_row_def claim_row_def)
next
  case False
  let ?now = "env_clock env (s_clock s)"
  let ?hit = "\<lambda>x. ob_id x = ob_id m \<and> claimable ?now x"
  let ?s1 = "s\<lparr>s_clock := Suc (s_clock s), s_calls := Suc (s_calls s),
      s_db := (s_db s)\<lparr>db_outbox := map (\<lambda>x. if x = m then claim_row ?now x else x) (db_outbox (s_db s))\<rparr>\<rparr>"
  have hit: "(\<exists>x \<in> set (db_outbox (s_db s)). ?hit x) = True" using m(1,2) by blast
  have claim: "ClaimOutboxMessage env (ob_id m) ?now (s\<lparr>s_clock := Suc (s_clock s)\<rparr>) = (Ok True, ?s1)"
    unfolding ClaimOutboxMessage_def using nf
    by (subst exec_run) (simp_all add: no_faults_def Let_def claim_one [OF keys m(1,2)] hit [simplified])
  have refused: "\<exists>e. unmarshalOutboxEvent (ob_event_type m) (ob_payload m) = Inl e"
    using False by (auto simp: decodable_def unmarshalOutboxEvent_def)
  then obtain e where e: "unmarshalOutboxEvent (ob_event_type m) (ob_payload m) = Inl e" by blast
  have "db_outbox (s_db ?s1) = map (\<lambda>x. if x = m then claim_row ?now x else x) (db_outbox (s_db s))" by simp
  from failure_run [OF nf keys m(1) this, of e] obtain t f where
    t: "recordOutboxPublishFailure env (ob_id m) (ob_attempts m + 1) e ?s1 = (Ok (), t)"
    "s_bus t = s_bus s" "s_buf t = s_buf s" "Suc (s_clock s) \<le> s_clock t"
    "db_outbox (s_db t) = map (\<lambda>x. if x = m then f x else x) (db_outbox (s_db s))" "relayed env m (f m)"
    using False by auto
  have "relayOne env r m s = (Ok (counted [m] r), t)"
    using claim t(1) False by (simp add: relayOne_def timeNow_def go_simps e Let_def counted_def)
  with t(2-) buf False show ?thesis by (intro exI [of _ t] exI [of _ f]) (simp add: sent_def)
qed

lemma claimable_later: "claimable now m \<Longrightarrow> now \<le> now' \<Longrightarrow> claimable now' m"
  by (auto simp: claimable_def Let_def split: option.splits)

lemma counted_Cons: "counted ms (counted [m] r) = counted (m # ms) r"
  by (simp add: counted_def)

lemma sent_Cons: "sent (m # ms) = sent [m] @ sent ms"
  by (simp add: sent_def)

text \<open>The rows of the outbox after the messages \<open>ms\<close>, place by place.\<close>

definition rows_relayed :: "env \<Rightarrow> outbox_message list \<Rightarrow> outbox_message list \<Rightarrow> outbox_message list \<Rightarrow> bool" where
  "rows_relayed env ms = list_all2 (\<lambda>m x. if m \<in> set ms then relayed env m x else x = m)"

lemma rows_relayed_keys: "rows_relayed env ms rows rows' \<Longrightarrow> map ob_id rows' = map ob_id rows"
  unfolding rows_relayed_def by (induction rule: list_all2_induct) (auto simp: relayed_def split: if_splits)

lemma rows_relayed_Cons:
  assumes keys: "distinct (map ob_id rows)" and m: "m \<in> set rows" "m \<notin> set ms" and sub: "set ms \<subseteq> set rows"
    and f: "relayed env m (f m)" and r: "rows_relayed env ms (map (\<lambda>x. if x = m then f x else x) rows) rows'"
  shows "rows_relayed env (m # ms) rows rows'"
proof -
  have fm: "f m \<notin> set ms"
  proof
    assume "f m \<in> set ms"
    with sub have "f m \<in> set rows" by blast
    moreover have "ob_id (f m) = ob_id m" using f by (simp add: relayed_def)
    ultimately have "f m = m" using row_by_key [OF keys _ m(1), of "f m"] by simp
    with \<open>f m \<in> set ms\<close> m(2) show False by simp
  qed
  from r have "list_all2 (\<lambda>x y. if (if x = m then f x else x) \<in> set ms then relayed env (if x = m then f x else x) y
      else y = (if x = m then f x else x)) rows rows'"
    by (simp add: rows_relayed_def list.rel_map)
  then show ?thesis unfolding rows_relayed_def
    by (rule list_all2_mono) (use fm f in \<open>auto split: if_splits\<close>)
qed

lemma relay_all:
  assumes nf: "no_faults env" and mono: "mono (env_clock env)"
  shows "s_buf s = None \<Longrightarrow> distinct (map ob_id (db_outbox (s_db s))) \<Longrightarrow> distinct ms \<Longrightarrow>
    (\<forall>m \<in> set ms. m \<in> set (db_outbox (s_db s)) \<and> claimable (env_clock env (s_clock s)) m) \<Longrightarrow>
    \<exists>t. foldE (relayOne env) r ms s = (Ok (counted ms r), t) \<and> s_bus t = s_bus s @ sent ms \<and>
      rows_relayed env ms (db_outbox (s_db s)) (db_outbox (s_db t))"
proof (induction ms arbitrary: r s)
  case Nil
  then show ?case by (simp add: ret_apply counted_def sent_def rows_relayed_def list_all2_refl)
next
  case (Cons m ms)
  let ?now = "env_clock env (s_clock s)"
  from relayOne_relays [OF nf Cons.prems(1,2), of m r] Cons.prems(4) obtain u f where
    u: "relayOne env r m s = (Ok (counted [m] r), u)" "s_buf u = None" "s_bus u = s_bus s @ sent [m]" "s_clock s \<le> s_clock u"
    and rows: "db_outbox (s_db u) = map (\<lambda>x. if x = m then f x else x) (db_outbox (s_db s))" and f: "relayed env m (f m)"
    by auto
  have "ob_id (f m) = ob_id m" using f by (simp add: relayed_def)
  then have "map ob_id (db_outbox (s_db u)) = map ob_id (db_outbox (s_db s))" unfolding rows by auto
  then have keys: "distinct (map ob_id (db_outbox (s_db u)))" using Cons.prems(2) by simp
  have "?now \<le> env_clock env (s_clock u)" using mono u(4) by (rule monoD)
  then have rest: "\<forall>x \<in> set ms. x \<in> set (db_outbox (s_db u)) \<and> claimable (env_clock env (s_clock u)) x"
    using Cons.prems(3,4) by (auto simp: rows image_iff intro: claimable_later)
  have "distinct ms" using Cons.prems(3) by simp
  from Cons.IH [OF u(2) keys this rest, of "counted [m] r"] obtain t where
    t: "foldE (relayOne env) (counted [m] r) ms u = (Ok (counted ms (counted [m] r)), t)" "s_bus t = s_bus u @ sent ms"
      "rows_relayed env ms (db_outbox (s_db u)) (db_outbox (s_db t))" by blast
  have "rows_relayed env (m # ms) (db_outbox (s_db s)) (db_outbox (s_db t))"
    using Cons.prems f t(3) unfolding rows by (intro rows_relayed_Cons [of _ m ms env f]) auto
  with u(1,3) t show ?case by (simp add: bindE_apply counted_Cons sent_Cons [of m ms])
qed

text \<open>A message is due when it waits and the time of its next attempt, if it has one, has come, or when the process that
  took it five minutes ago or earlier (or made it, if no time is recorded) has not finished it.\<close>

definition due_at :: "int \<Rightarrow> outbox_message \<Rightarrow> bool" where
  "due_at now m \<longleftrightarrow> ob_status m = ''PENDING'' \<and> (case ob_next_attempt m of None \<Rightarrow> now | Some t \<Rightarrow> t) \<le> now \<or>
     ob_status m = ''PROCESSING'' \<and> (case ob_processing_started m of None \<Rightarrow> ob_created_at m | Some t \<Rightarrow> t) + 300 * 10 ^ 9 \<le> now"

lemma due_claimable: "due_at = claimable"
  by (auto simp: fun_eq_iff due_at_def claimable_def outboxProcessingLease_def Let_def split: option.splits)

text \<open>C9: the relay delivers. When neither the database nor the bus fails and the clock does not run backwards, one
  cycle whose limit covers the messages that are due publishes, in the order they were created, all of
  them whose event can be decoded; one that cannot be decoded does not hold up the others: its attempt is
  counted, and it is due again later or given up after the last attempt. No other row is touched.\<close>

theorem relay_delivers_everything_due:
  assumes "no_faults env" and "mono (env_clock env)" and "s_buf s = None"
    and "distinct (map ob_id (db_outbox (s_db s)))"
    and "due = sort_key ob_created_at (filter (due_at (env_clock env (s_clock s))) (db_outbox (s_db s)))"
    and "int (length due) \<le> limit" and "0 < limit"
  shows "\<exists>r t. RunOutboxRelayCycle env limit s = (Ok r, t) \<and>
     s_bus t = s_bus s @ map (\<lambda>m. (ob_payload m, ob_event_type m)) (filter decodable due) \<and>
     rr_published r = int (length (filter decodable due)) \<and> rr_failed r = int (length due) - rr_published r \<and>
     list_all2 (\<lambda>m x. if m \<in> set due then relayed env m x else x = m) (db_outbox (s_db s)) (db_outbox (s_db t))"
proof -
  have f: "\<not> env_db_fault env n" for n using assms(1) by (simp add: no_faults_def)
  note due = assms(5) [unfolded due_claimable]
  let ?now = "env_clock env (s_clock s)" and ?n = "int (length (filter (claimable (env_clock env (s_clock s))) (db_outbox (s_db s))))"
  let ?r = "\<lparr>rr_pending = ?n, rr_claimed = 0, rr_published = 0, rr_failed = 0\<rparr>"
  let ?u = "s\<lparr>s_clock := Suc (s_clock s), s_metrics := setOutboxPending ?n (s_metrics s),
      s_calls := Suc (Suc (s_calls s))\<rparr>"
  have take: "take (nat limit) due = due" using assms(6) by simp
  have "RunOutboxRelayCycle env limit s = foldE (relayOne env) ?r due ?u"
    using assms(7) take by (simp add: RunOutboxRelayCycle_def flushPendingOutbox_def CountPendingOutboxMessages_def
        ListPendingOutboxMessages_def timeNow_def go_simps query_run f meter_def due del: take_all_iff)
  moreover have "distinct due" using assms(4) due by (simp add: distinct_map)
  moreover have "?now \<le> env_clock env (Suc (s_clock s))" using assms(2) by (rule monoD) simp
  then have "\<forall>m \<in> set due. m \<in> set (db_outbox (s_db ?u)) \<and> claimable (env_clock env (s_clock ?u)) m"
    using due by (auto intro: claimable_later)
  ultimately obtain t where "RunOutboxRelayCycle env limit s = (Ok (counted due ?r), t)"
    "s_bus t = s_bus s @ sent due" "rows_relayed env due (db_outbox (s_db s)) (db_outbox (s_db t))"
    using relay_all [OF assms(1,2), of ?u due ?r] assms(3,4) by auto
  moreover have "rr_published (counted due ?r) = int (length (filter decodable due))"
    "rr_failed (counted due ?r) = int (length due) - rr_published (counted due ?r)"
    using sum_length_filter_compl [of decodable due] by (simp_all add: counted_def)
  ultimately show ?thesis unfolding sent_def rows_relayed_def by blast
qed

text \<open>Two due messages, the older one with a payload that is not of its type.\<close>

definition torn_pending :: est where
  "torn_pending = demo_pending\<lparr>s_db := empty_db\<lparr>db_outbox := [outbox_row ''u9'' 5 (JobActivated 5 ''w'' 9, ''JobActivated''),
     outbox_row ''u8'' 4 (JobActivated 4 ''w'' 9, ''JobFailed'')]\<rparr>\<rparr>"

theorem relay_delivers_everything_due_witness:
  "\<exists>t. s_bus t = [(JobActivated 5 ''w'' 9, ''JobActivated'')] \<and> map ob_attempts (drop 1 (db_outbox (s_db t))) = [1] \<and>
     t = snd (RunOutboxRelayCycle demo_env 10 torn_pending)"
proof -
  let ?m = "outbox_row ''u9'' 5 (JobActivated 5 ''w'' 9, ''JobActivated'')"
  let ?n = "outbox_row ''u8'' 4 (JobActivated 4 ''w'' 9, ''JobFailed'')"
  have "mono (env_clock demo_env)" by (auto simp: demo_env_def mono_def)
  moreover have "[?n, ?m] = sort_key ob_created_at (filter (due_at (env_clock demo_env (s_clock torn_pending))) (db_outbox (s_db torn_pending)))"
    by (simp add: torn_pending_def demo_env_def demo_pending_def demo_state_def outbox_row_def due_at_def)
  ultimately have "\<exists>r t. RunOutboxRelayCycle demo_env 10 torn_pending = (Ok r, t) \<and>
     s_bus t = s_bus torn_pending @ map (\<lambda>m. (ob_payload m, ob_event_type m)) (filter decodable [?n, ?m]) \<and>
     rr_published r = int (length (filter decodable [?n, ?m])) \<and> rr_failed r = int (length [?n, ?m]) - rr_published r \<and>
     list_all2 (\<lambda>m x. if m \<in> set [?n, ?m] then relayed demo_env m x else x = m) (db_outbox (s_db torn_pending)) (db_outbox (s_db t))"
    by (intro relay_delivers_everything_due)
      (simp_all add: no_faults_def demo_env_def torn_pending_def demo_pending_def demo_state_def outbox_row_def)
  moreover have "decodable ?m" "\<not> decodable ?n"
    by (simp_all add: decodable_def unmarshalOutboxEvent_def known_event_types_def outbox_row_def)
  ultimately show ?thesis
    by (auto simp: torn_pending_def demo_pending_def demo_state_def list_all2_Cons1 relayed_def outbox_row_def)
qed

section \<open>The scheduler lease\<close>

lemma lease_OkD:
  assumes "TryAcquireRuntimeSchedulerLease env h ttl s = (Ok b, t)"
  shows "\<exists>p. (let now = env_clock env p; held = List.find (\<lambda>l. sl_id l = ''runtime-scheduler'') (db_leases (s_db s)) in
     b = (case held of None \<Rightarrow> True | Some l \<Rightarrow> sl_expires_at l \<le> now \<or> sl_holder l = h) \<and>
     (b \<longrightarrow> (\<exists>l. List.find (\<lambda>l. sl_id l = ''runtime-scheduler'') (db_leases (s_db t)) = Some l \<and> sl_holder l = h)))"
proof -
  let ?run = "\<lambda>l. sl_id l = ''runtime-scheduler''"
  let ?ttl = "if ttl \<le> 0 then 15000000000 else ttl"
  let ?row = "\<lambda>now. \<lparr>sl_id = ''runtime-scheduler'', sl_holder = h, sl_expires_at = now + ?ttl, sl_updated_at = now\<rparr>"
  let ?f = "\<lambda>now d. case List.find ?run (db_leases d) of
      None \<Rightarrow> (Inr :: bool \<times> db \<Rightarrow> go_err + bool \<times> db) (True, d\<lparr>db_leases := db_leases d @ [?row now]\<rparr>)
    | Some l \<Rightarrow> if sl_expires_at l \<le> now \<or> sl_holder l = h
        then Inr (True, d\<lparr>db_leases := update_rows ?run (\<lambda>_. ?row now) (db_leases d)\<rparr>) else Inr (False, d)"
  from assms have "bindE (timeNow env) (\<lambda>now. repo_exec env (?f now)) s = (Ok b, t)"
    by (simp add: TryAcquireRuntimeSchedulerLease_def Let_def throw_apply split: if_splits)
  then obtain now u where n: "timeNow env s = (Ok now, u)" and e: "repo_exec env (?f now) u = (Ok b, t)"
    by (blast dest: bindE_OkD)
  from timeNow_OkD [OF n] obtain p where p: "now = env_clock env p" and u: "s_db u = s_db s" by blast
  from exec_OkD [OF e] have "?f now (s_db u) = Inr (b, s_db t)" by (elim exE conjE) (simp only:)
  then have f: "?f now (s_db s) = Inr (b, s_db t)" unfolding u .
  have add: "List.find ?run ls = None \<Longrightarrow> List.find ?run (ls @ [?row now]) = Some (?row now)" for ls
    by (induction ls) (auto split: if_splits)
  have upd: "List.find ?run ls = Some l \<Longrightarrow> List.find ?run (update_rows ?run (\<lambda>_. ?row now) ls) = Some (?row now)" for ls l
    by (induction ls) (auto simp: update_rows_def split: if_splits)
  have "b = (case List.find ?run (db_leases (s_db s)) of None \<Rightarrow> True | Some l \<Rightarrow> sl_expires_at l \<le> now \<or> sl_holder l = h) \<and>
     (b \<longrightarrow> (\<exists>l. List.find ?run (db_leases (s_db t)) = Some l \<and> sl_holder l = h))"
  proof (cases "List.find ?run (db_leases (s_db s))")
    case None
    with f have "b" "s_db t = (s_db s)\<lparr>db_leases := db_leases (s_db s) @ [?row now]\<rparr>" by auto
    with None add show ?thesis by simp
  next
    case (Some l)
    with f have "if sl_expires_at l \<le> now \<or> sl_holder l = h
        then b \<and> s_db t = (s_db s)\<lparr>db_leases := update_rows ?run (\<lambda>_. ?row now) (db_leases (s_db s))\<rparr> else \<not> b"
      by (auto split: if_splits)
    with Some upd [OF Some] show ?thesis by (auto split: if_splits)
  qed
  with p show ?thesis unfolding Let_def by blast
qed

text \<open>There is one active scheduler. While the lease that one runtime holds has not run out at any reading of
  the clock, another runtime does not get it.\<close>

theorem one_scheduler_at_a_time:
  assumes "TryAcquireRuntimeSchedulerLease env h ttl s = (Ok True, t)"
    and "TryAcquireRuntimeSchedulerLease env' h' ttl' t = (Ok b, u)" and "h' \<noteq> h"
    and "\<forall>l \<in> set (db_leases (s_db t)). \<forall>p. env_clock env' p < sl_expires_at l"
  shows "\<not> b"
proof -
  from lease_OkD [OF assms(1)] obtain l where
    l: "List.find (\<lambda>l. sl_id l = ''runtime-scheduler'') (db_leases (s_db t)) = Some l" "sl_holder l = h"
    unfolding Let_def by blast
  then have "l \<in> set (db_leases (s_db t))" by (auto simp: find_Some_iff)
  with assms(4) have "\<forall>p. env_clock env' p < sl_expires_at l" by blast
  with lease_OkD [OF assms(2)] l assms(3) show ?thesis by (auto simp: Let_def not_le [symmetric])
qed

definition early_env :: env where
  "early_env = demo_env\<lparr>env_clock := (\<lambda>_. 1704067200000000000)\<rparr>"

lemma two_schedulers:
  "fst (TryAcquireRuntimeSchedulerLease early_env ''a'' 0 (demo_state empty_db)) = Ok True"
  "db_leases (s_db (snd (TryAcquireRuntimeSchedulerLease early_env ''a'' 0 (demo_state empty_db)))) =
     [\<lparr>sl_id = ''runtime-scheduler'', sl_holder = ''a'', sl_expires_at = 1704067215000000000, sl_updated_at = 1704067200000000000\<rparr>]"
  "fst (TryAcquireRuntimeSchedulerLease early_env ''b'' 0
     (snd (TryAcquireRuntimeSchedulerLease early_env ''a'' 0 (demo_state empty_db)))) = Ok False"
  by code_simp+

theorem one_scheduler_at_a_time_witness: "fst (TryAcquireRuntimeSchedulerLease early_env ''b'' 0
   (snd (TryAcquireRuntimeSchedulerLease early_env ''a'' 0 (demo_state empty_db)))) = Ok False \<and> \<not> False"
proof -
  let ?t = "snd (TryAcquireRuntimeSchedulerLease early_env ''a'' 0 (demo_state empty_db))"
  have a: "TryAcquireRuntimeSchedulerLease early_env ''a'' 0 (demo_state empty_db) = (Ok True, ?t)"
    using two_schedulers(1) by (metis prod.collapse)
  have b: "TryAcquireRuntimeSchedulerLease early_env ''b'' 0 ?t =
      (Ok False, snd (TryAcquireRuntimeSchedulerLease early_env ''b'' 0 ?t))"
    using two_schedulers(3) by (metis prod.collapse)
  have "\<not> False" by (rule one_scheduler_at_a_time [OF a b]) (simp_all add: two_schedulers(2), simp add: early_env_def)
  with two_schedulers(3) show ?thesis by blast
qed

section \<open>Idempotency keys\<close>

text \<open>A recorded key is recognised. After an operation has been recorded under a key, the same operation under
  the same key, with any surrounding blanks, is reported as processed.\<close>

theorem recorded_keys_are_recognised:
  assumes "RecordIdempotencyKey env k op s = (Ok (), t)" and "trim_space k \<noteq> []" and "trim_space op \<noteq> []"
    and "trim_space k' = trim_space k" and "trim_space op' = trim_space op" and "\<not> env_db_fault env (s_calls t)"
  shows "fst (HasProcessedIdempotencyKey env k' op' t) = Ok True"
proof -
  let ?k = "trim_space k" and ?op = "trim_space op"
  let ?p = "\<lambda>r. ir_key r = ?k \<and> ir_operation r = ?op"
  from assms(1-3) obtain now u where u: "timeNow env s = (Ok now, u)"
    and e: "CreateIdempotencyRecord env \<lparr>ir_key = ?k, ir_operation = ?op, ir_created_at = now\<rparr> u = (Ok (), t)"
    by (auto simp: RecordIdempotencyKey_def Let_def dest!: bindE_OkD)
  let ?r = "\<lparr>ir_key = ?k, ir_operation = ?op, ir_created_at = now\<rparr>"
  let ?rows = "db_idempotency (s_db u)" and ?pair = "\<lambda>x. (ir_key x, ir_operation x)"
  from exec_OkD [OF e [unfolded CreateIdempotencyRecord_def]]
  have "s_db t = (s_db u)\<lparr>db_idempotency := (if (?k, ?op) \<in> ?pair ` set ?rows then ?rows else ?rows @ [?r])\<rparr>" by auto
  then have "\<exists>r \<in> set (db_idempotency (s_db t)). ?p r"
    by (cases "(?k, ?op) \<in> ?pair ` set ?rows") auto
  then have "List.find ?p (db_idempotency (s_db t)) \<noteq> None" unfolding find_None_iff by blast
  with assms(2-6) show ?thesis
    by (auto simp: HasProcessedIdempotencyKey_def Let_def GetIdempotencyRecord_def bindE_apply query_run thenE_apply
        meter_def modifyS_def ret_apply)
qed

lemma demo_record: "fst (RecordIdempotencyKey demo_env '' k1'' ''start'' (demo_state empty_db)) = Ok ()"
  by code_simp

theorem recorded_keys_are_recognised_witness:
  "fst (HasProcessedIdempotencyKey demo_env ''k1 '' ''start''
     (snd (RecordIdempotencyKey demo_env '' k1'' ''start'' (demo_state empty_db)))) = Ok True"
proof (rule recorded_keys_are_recognised)
  show "RecordIdempotencyKey demo_env '' k1'' ''start'' (demo_state empty_db) =
      (Ok (), snd (RecordIdempotencyKey demo_env '' k1'' ''start'' (demo_state empty_db)))"
    using demo_record by (metis prod.collapse)
qed (simp_all add: trim_space_def is_space_def demo_env_def)

section \<open>Decisions\<close>

lemma find_update_rows:
  assumes "\<And>x. P (f x) = P x"
  shows "List.find P (update_rows q f rows) = map_option (\<lambda>x. if q x then f x else x) (List.find P rows)"
  by (induction rows) (auto simp: update_rows_def assms)

lemma find_append: "List.find P (xs @ ys) = (case List.find P xs of None \<Rightarrow> List.find P ys | Some x \<Rightarrow> Some x)"
  by (induction xs) auto

lemma UpsertDecision_OkD:
  assumes "UpsertDecision env dec s = (Ok (), t)"
  shows "\<exists>d. List.find (\<lambda>x. dd_decision_id x = dd_decision_id dec) (db_decisions (s_db t)) = Some d \<and>
     dd_resource d = dd_resource dec"
proof -
  let ?P = "\<lambda>x. dd_decision_id x = dd_decision_id dec"
  from assms obtain now u r v where g: "tryE (GetDecisionByDecisionID env (dd_decision_id dec)) u = (Ok r, v)"
    and u: "s_db u = s_db s" and rest: "(case r of
      Inr old \<Rightarrow> repo_exec env (\<lambda>d. on_table
        (update_by_key dd_key (dd_key old) (\<lambda>x. x\<lparr>dd_name := dd_name dec, dd_version := dd_version old + 1,
           dd_resource := dd_resource dec, dd_updated_at := now\<rparr>)) (\<lambda>t. d\<lparr>db_decisions := t\<rparr>) (db_decisions d))
    | Inl e \<Rightarrow> if e \<noteq> NotFound then throw e else bindE (timeNow env) (\<lambda>nano.
        let row = dec\<lparr>dd_key := (if dd_key dec = 0 then nano else dd_key dec),
             dd_version := (if dd_version dec = 0 then 1 else dd_version dec),
             dd_created_at := now, dd_updated_at := now\<rparr>
        in repo_exec env (\<lambda>d. on_table (insert_row dd_key row) (\<lambda>t. d\<lparr>db_decisions := t\<rparr>) (db_decisions d)))) v = (Ok (), t)"
    by (auto simp: UpsertDecision_def throw_apply dest!: bindE_OkD timeNow_OkD split: if_splits)
  show ?thesis
  proof (cases r)
    case (Inr old)
    with g have "find_row ?P (db_decisions (s_db s)) = Inr old" and v: "s_db v = s_db s"
      using u by (auto simp: tryE_apply GetDecisionByDecisionID_def dest!: query_OkD split: prod.splits outcome.splits)
    then have found: "List.find ?P (db_decisions (s_db s)) = Some old" by (auto simp: find_row_def split: option.splits)
    let ?g = "\<lambda>x. x\<lparr>dd_name := dd_name dec, dd_version := dd_version old + 1, dd_resource := dd_resource dec, dd_updated_at := now\<rparr>"
    from rest Inr v have "s_db t = (s_db s)\<lparr>db_decisions := update_rows (\<lambda>x. dd_key x = dd_key old) ?g (db_decisions (s_db s))\<rparr>"
      by (auto simp: on_table_def update_by_key_def dest!: exec_OkD split: if_splits)
    then show ?thesis using found by (simp add: find_update_rows)
  next
    case (Inl e)
    with rest have e: "e = NotFound" by (auto simp: throw_apply split: if_splits)
    with g Inl have "find_row ?P (db_decisions (s_db s)) = Inl NotFound" and v: "s_db v = s_db s"
      using u by (auto simp: tryE_apply GetDecisionByDecisionID_def repo_query_def Let_def split: prod.splits outcome.splits if_splits sum.splits)
    then have none: "List.find ?P (db_decisions (s_db s)) = None" by (auto simp: find_row_def split: option.splits)
    from rest Inl e v obtain nano where row: "(s_db s)\<lparr>db_decisions := db_decisions (s_db s) @
        [dec\<lparr>dd_key := (if dd_key dec = 0 then nano else dd_key dec), dd_version := (if dd_version dec = 0 then 1 else dd_version dec),
           dd_created_at := now, dd_updated_at := now\<rparr>]\<rparr> = s_db t"
      by (auto simp: on_table_def insert_row_def Let_def dest!: bindE_OkD timeNow_OkD exec_OkD split: if_splits)
    show ?thesis using none by (simp add: find_append flip: row)
  qed
qed

text \<open>A deployed decision is the one that is evaluated. After a decision table has been deployed, evaluating the
  decision gives the outputs of the first rule of that very table whose conditions all hold for the inputs, and
  no outputs when there is none.\<close>

theorem deployed_decision_evaluates:
  assumes "DeployDecision env i name res s = (Ok d, t)" and "\<not> env_db_fault env (s_calls t)"
  shows "\<exists>table. dmn_Parse env res = Inr table \<and> dt_id table = trim_space i \<and>
     fst (EvaluateDecision env i inputs t) = Ok (case List.find (\<lambda>r. \<forall>(key, cond) \<in> set (dr_when r).
         matchCondition inputs key cond) (dt_rules table) of None \<Rightarrow> [] | Some r \<Rightarrow> dr_then r)"
proof -
  let ?i = "trim_space i"
  let ?dec = "\<lparr>dd_key = 0, dd_decision_id = ?i, dd_name = firstNonEmpty [name, ?i], dd_version = 0, dd_resource = res,
      dd_created_at = zero_time, dd_updated_at = zero_time\<rparr>"
  from assms(1) obtain table u where p: "dmn_Parse env res = Inr table" "dt_id table = ?i"
    and up: "UpsertDecision env ?dec s = (Ok (), u)" and g: "GetDecisionByDecisionID env ?i u = (Ok d, t)"
    by (cases "dmn_Parse env res") (auto simp: DeployDecision_def Let_def throw_apply dest!: bindE_OkD thenE_OkD
        split: if_splits)
  from g have "s_db t = s_db u" by (auto simp: GetDecisionByDecisionID_def dest: query_OkD)
  with UpsertDecision_OkD [OF up] obtain x where
    "List.find (\<lambda>x. dd_decision_id x = ?i) (db_decisions (s_db t)) = Some x" "dd_resource x = res" by auto
  then have "fst (EvaluateDecision env i inputs t) = Ok (Evaluate table inputs)"
    using assms(2) p(1) by (simp add: EvaluateDecision_def GetDecisionByDecisionID_def bindE_apply query_run find_row_def ret_apply)
  with p show ?thesis
    by (auto simp: Evaluate_def evaluate_rules_find matchRule_def list_all_iff)
qed

text \<open>A table of two rules: gold customers get the first one.\<close>

definition demo_table :: decision_table where
  "demo_table = \<lparr>dt_id = ''discount'', dt_hit_policy = ''FIRST'', dt_rules =
     [\<lparr>dr_when = [(''tier'', \<lparr>dc_op = ''eq'', dc_value = VStr ''gold''\<rparr>)], dr_then = [(''rate'', VInt 20)]\<rparr>,
      \<lparr>dr_when = [], dr_then = [(''rate'', VInt 0)]\<rparr>]\<rparr>"

definition decision_env :: env where
  "decision_env = demo_env\<lparr>env_parse_decision := (\<lambda>_. Inr demo_table)\<rparr>"

lemma demo_decision:
  "fst (DeployDecision decision_env ''discount'' [] ''{}'' (demo_state empty_db)) =
     Ok \<lparr>dd_key = 1704067200001000000, dd_decision_id = ''discount'', dd_name = ''discount'', dd_version = 1,
        dd_resource = ''{}'', dd_created_at = 1704067200000000000, dd_updated_at = 1704067200000000000\<rparr>"
  by code_simp

theorem deployed_decision_evaluates_witness:
  "fst (EvaluateDecision decision_env ''discount'' [(''tier'', VStr ''gold'')]
     (snd (DeployDecision decision_env ''discount'' [] ''{}'' (demo_state empty_db)))) = Ok [(''rate'', VInt 20)]"
proof -
  let ?t = "snd (DeployDecision decision_env ''discount'' [] ''{}'' (demo_state empty_db))"
  obtain d where d: "DeployDecision decision_env ''discount'' [] ''{}'' (demo_state empty_db) = (Ok d, ?t)"
    using demo_decision by (metis prod.collapse)
  have "\<not> env_db_fault decision_env (s_calls ?t)" by (simp add: decision_env_def demo_env_def)
  from deployed_decision_evaluates [OF d this, of "[(''tier'', VStr ''gold'')]"] show ?thesis
    by (auto simp: decision_env_def dmn_Parse_def demo_table_def matchCondition_def equals_def trim_space_def is_space_def
        to_lower_def lower_char_def split: if_splits)
qed

section \<open>Timer cycles\<close>

definition timer_row :: "int \<Rightarrow> db \<Rightarrow> timer option" where
  "timer_row k d = List.find (\<lambda>t. tm_key t = k) (db_timers d)"

lemma timer_row_key: "timer_row k d = Some t \<Longrightarrow> tm_key t = k"
  by (auto simp: timer_row_def find_Some_iff)

lemma timer_row_update:
  assumes "timer_row k d = Some t" and "\<And>x. tm_key (f x) = tm_key x"
  shows "timer_row k (d\<lparr>db_timers := update_rows (\<lambda>r. tm_key r = k) f (db_timers d)\<rparr>) = Some (f t)"
  using assms find_Some_iff [of "\<lambda>t. tm_key t = k" "db_timers d" t] by (auto simp: timer_row_def find_update_rows)

text \<open>Requests keep the row of a timer.\<close>

lemma timer_step_keeps: "timer_step a b \<Longrightarrow> tm_key b = tm_key a \<and> tm_instance_key b = tm_instance_key a"
  by (metis timer_step_def timer.ext_inject timer.surjective timer.update_convs(6-8))

lemma timer_row_stays:
  assumes "audit d e" and "timer_row k d = Some t"
  shows "\<exists>t'. timer_row k e = Some t' \<and> tm_instance_key t' = tm_instance_key t"
proof -
  from assms(2) obtain i where i: "i < length (db_timers d)" "db_timers d ! i = t" "tm_key t = k"
    and first: "\<forall>j < i. tm_key (db_timers d ! j) \<noteq> k"
    by (auto simp: timer_row_def find_Some_iff)
  from assms(1) have len: "length (db_timers d) \<le> length (db_timers e)"
    and st: "\<And>j. j < length (db_timers d) \<Longrightarrow> timer_step (db_timers d ! j) (db_timers e ! j)"
    by (simp_all add: audit_def grows_def)
  have "\<forall>j < i. tm_key (db_timers e ! j) \<noteq> k" using first i(1) st timer_step_keeps by (metis order.strict_trans)
  moreover have "i < length (db_timers e)" "tm_key (db_timers e ! i) = k" "tm_instance_key (db_timers e ! i) = tm_instance_key t"
    using i len st [OF i(1)] timer_step_keeps by auto
  ultimately have "List.find (\<lambda>t. tm_key t = k) (db_timers e) = Some (db_timers e ! i)" by (auto simp: find_Some_iff)
  with \<open>tm_instance_key (db_timers e ! i) = tm_instance_key t\<close> show ?thesis by (simp add: timer_row_def)
qed

lemma UpdateTimer_run:
  assumes "\<And>n. \<not> env_db_fault env n" and "k \<noteq> 0" and "tm_key x = k" and "timer_row k (s_db v) = Some t"
  shows "\<exists>u. UpdateTimer env x v = (Ok (), u) \<and> timer_row k (s_db u) =
     Some (t\<lparr>tm_state := tm_state x, tm_due_date := tm_due_date x, tm_repeat_count := tm_repeat_count x\<rparr>)"
proof -
  let ?f = "\<lambda>r. r\<lparr>tm_state := tm_state x, tm_due_date := tm_due_date x, tm_repeat_count := tm_repeat_count x\<rparr>"
  have "UpdateTimer env x v = (Ok (), v\<lparr>s_calls := Suc (s_calls v),
      s_db := (s_db v)\<lparr>db_timers := update_rows (\<lambda>r. tm_key r = k) ?f (db_timers (s_db v))\<rparr>\<rparr>)"
    using assms(1-3) by (simp add: UpdateTimer_def exec_run on_table_def update_by_key_def)
  with timer_row_update [OF assms(4), of ?f] show ?thesis by simp
qed

text \<open>After a firing: the timer is done, or it is armed again, for one firing less.\<close>

definition fired_once :: "timer \<Rightarrow> timer \<Rightarrow> bool" where
  "fired_once tm t \<longleftrightarrow> tm_instance_key t = tm_instance_key tm \<and>
     (tm_state t = ''TRIGGERED'' \<or> tm_state t = ''CREATED'' \<and> 1 < tm_repeat_count tm \<and> tm_repeat_count t = tm_repeat_count tm - 1)"

lemma finalize_fires:
  assumes nf: "\<And>n. \<not> env_db_fault env n" and k: "k \<noteq> 0" "tm_key tm = k" and n: "0 < tm_repeat_count tm"
    and row: "timer_row k (s_db v) = Some r" "tm_instance_key r = tm_instance_key tm"
  shows "\<exists>u t. finalizeTimerAfterFire env tm props v = (Ok (), u) \<and> timer_row k (s_db u) = Some t \<and> fired_once tm t"
proof (cases "1 < tm_repeat_count tm \<and> 0 < cycleIntervalFromProps props")
  case True
  let ?x = "tm\<lparr>tm_repeat_count := tm_repeat_count tm - 1, tm_due_date := env_clock env (s_clock v) + cycleIntervalFromProps props,
    tm_state := ''CREATED''\<rparr>"
  from UpdateTimer_run [OF nf k(1), of ?x "v\<lparr>s_clock := Suc (s_clock v)\<rparr>" r] k(2) row True show ?thesis
    by (auto simp: finalizeTimerAfterFire_def Let_def bindE_apply timeNow_def fired_once_def)
next
  case False
  let ?x = "tm\<lparr>tm_state := ''TRIGGERED'', tm_repeat_count := 0\<rparr>"
  from UpdateTimer_run [OF nf k(1), of ?x v r] k(2) row False n show ?thesis
    by (auto simp: finalizeTimerAfterFire_def Let_def fired_once_def)
qed

lemma give_up_fires:
  assumes nf: "\<And>n. \<not> env_db_fault env n" and k: "k \<noteq> 0" "tm_key tm = k"
    and row: "timer_row k (s_db v) = Some r" "tm_instance_key r = tm_instance_key tm"
  shows "\<exists>u t. ignoreE (UpdateTimer env (triggered tm)) v = (Ok (), u) \<and> timer_row k (s_db u) = Some t \<and> fired_once tm t"
  using UpdateTimer_run [OF nf k(1), of "triggered tm" v r] k(2) row by (auto simp: ignoreE_apply triggered_def fired_once_def)

lemma audit_of:
  assumes "keeps (\<lambda>s t. runtime_write\<^sup>*\<^sup>* (s_db s) (s_db t)) m" and "m s = (r, t)"
  shows "audit (s_db s) (s_db t)"
  using keepsD [OF assms] by (rule runtime_writes_audit)

text \<open>A timer of a start event belongs to no instance; when it fires, the process is started.\<close>

lemma start_timer_fires:
  assumes nf: "\<And>n. \<not> env_db_fault env n" and k: "k \<noteq> 0" and row: "timer_row k (s_db s) = Some tm"
    and start: "tm_instance_key tm = 0" and n: "0 < tm_repeat_count tm"
    and run: "processTimer env (run env f) tm s = (Ok (), u)"
  shows "\<exists>t. timer_row k (s_db u) = Some t \<and> fired_once tm t"
proof -
  have key: "tm_key tm = k" using row by (rule timer_row_key)
  have up: "\<exists>t. timer_row k (s_db u) = Some t \<and> fired_once tm t"
    if "audit (s_db s) (s_db v)" "ignoreE (UpdateTimer env (triggered tm)) v = (Ok (), u)" for v
    using timer_row_stays [OF that(1) row] give_up_fires [OF nf k key] that(2) by fastforce
  have finish: "\<exists>t. timer_row k (s_db u) = Some t \<and> fired_once tm t"
    if "audit (s_db s) (s_db v)" "finalizeTimerAfterFire env tm props v = (Ok (), u)" for v props
    using timer_row_stays [OF that(1) row] finalize_fires [OF nf k key n, of v _ props] that(2) by fastforce
  from run start have p: "processTimerStartDefinition env (run env f) tm s = (Ok (), u)" by (simp add: processTimer_def)
  show ?thesis
  proof (cases "tm_element_key tm = 0")
    case True
    with p show ?thesis by (intro up [OF audit_refl]) (simp add: processTimerStartDefinition_def)
  next
    case False
    obtain d v where d: "tryE (getWorkflowDefinition env (tm_element_key tm)) s = (Ok d, v)"
      and rest: "(case d of Inl _ \<Rightarrow> ignoreE (UpdateTimer env (triggered tm))
         | Inr wfd \<Rightarrow> (case firstStartStep (wf_steps wfd) of None \<Rightarrow> ignoreE (UpdateTimer env (triggered tm))
           | Some start \<Rightarrow> if st_id start \<noteq> tm_element_id tm \<or> event_kind start \<noteq> ''timer'' then ignoreE (UpdateTimer env (triggered tm))
               else thenE (createAndStartInstance env (run env f) (show_int (tm_element_key tm)) [] [] [] None)
                 (finalizeTimerAfterFire env tm (st_properties start)))) v = (Ok (), u)"
      using p False by (auto simp: processTimerStartDefinition_def Let_def dest!: bindE_OkD)
    have a: "audit (s_db s) (s_db v)"
      by (rule audit_of [OF runtime.keeps_tryE [OF runtime.keeps_getWorkflowDefinition] d])
    from rest consider "ignoreE (UpdateTimer env (triggered tm)) v = (Ok (), u)"
      | start where "thenE (createAndStartInstance env (run env f) (show_int (tm_element_key tm)) [] [] [] None)
          (finalizeTimerAfterFire env tm (st_properties start)) v = (Ok (), u)"
      by (auto split: sum.splits option.splits if_splits)
    then show ?thesis
    proof cases
      case 1
      then show ?thesis by (rule up [OF a])
    next
      case (2 start)
      from thenE_OkD [OF 2] obtain w x where c: "createAndStartInstance env (run env f) (show_int (tm_element_key tm)) [] [] [] None v = (Ok w, x)"
        and fin: "finalizeTimerAfterFire env tm (st_properties start) x = (Ok (), u)" by blast
      have "audit (s_db v) (s_db x)"
        by (rule audit_of [OF runtime.keeps_createAndStartInstance [OF runtime.keeps_run] c])
      with a have "audit (s_db s) (s_db x)" by (rule audit_trans)
      then show ?thesis using fin by (rule finish)
    qed
  qed
qed

text \<open>A stretch of the life of the store in which the timer \<open>k\<close> fires \<open>m\<close> times, each time in a transaction of its own and
  while it is armed, among requests that leave its row alone.\<close>

inductive firing :: "env \<Rightarrow> int \<Rightarrow> nat \<Rightarrow> est \<Rightarrow> est \<Rightarrow> bool" for env k where
  firing_nothing: "firing env k 0 s s"
| firing_request: "firing env k m s t \<Longrightarrow> serve env f q t = (r, u) \<Longrightarrow> r \<noteq> Diverged \<Longrightarrow>
      timer_row k (s_db u) = timer_row k (s_db t) \<Longrightarrow> firing env k m s u"
| firing_timer: "firing env k m s t \<Longrightarrow> timer_row k (s_db t) = Some tm \<Longrightarrow> tm_state tm = ''CREATED'' \<Longrightarrow>
      withTx env (processTimer env (run env f) tm) t = (Ok (), u) \<Longrightarrow> firing env k (Suc m) s u"

text \<open>C39: a cycle of starts ends. A timer that starts a process and is armed for \<open>n\<close> firings fires at most \<open>n\<close> times, whatever
  the instances it starts do, whatever requests come in between and whatever becomes of the definition, as long as the
  requests between leave the row of the timer alone: after each firing it is either done, or armed again for one firing less.
  The database is taken to answer.\<close>

theorem cycle_fires_n_times:
  assumes "firing env k m s u" and "\<And>i. \<not> env_db_fault env i" and "k \<noteq> 0"
    and "timer_row k (s_db s) = Some tm" and "tm_instance_key tm = 0" and "tm_state tm = ''CREATED''"
    and "tm_repeat_count tm = int n" and "0 < n"
  shows "m \<le> n \<and> (\<exists>t. timer_row k (s_db u) = Some t \<and>
     (tm_state t = ''TRIGGERED'' \<or> tm_state t = ''CREATED'' \<and> m < n \<and> tm_repeat_count t = int n - int m))"
proof -
  have "m \<le> n \<and> (\<exists>t. timer_row k (s_db u) = Some t \<and> tm_instance_key t = 0 \<and>
     (tm_state t = ''TRIGGERED'' \<or> tm_state t = ''CREATED'' \<and> m < n \<and> tm_repeat_count t = int n - int m))"
    using assms(1,4)
  proof (induction rule: firing.induct)
    case (firing_nothing s)
    with assms(5-8) show ?case by auto
  next
    case (firing_request m s t f q r u)
    then show ?case by auto
  next
    case (firing_timer m s t tm' f u)
    then have inv: "m < n" "tm_instance_key tm' = 0" "tm_repeat_count tm' = int n - int m" by auto
    from withTx_run [OF firing_timer.hyps(4)] obtain a b where ab: "processTimer env (run env f) tm' a = (Ok (), b)"
      "s_db a = s_db t" "outbox_only b u" by blast
    from start_timer_fires [OF assms(2,3) _ inv(2) _ ab(1)] inv firing_timer.hyps(2) ab(2) obtain t' where
      t': "timer_row k (s_db b) = Some t'" "fired_once tm' t'" by auto
    have "timer_row k (s_db u) = timer_row k (s_db b)" by (simp add: timer_row_def outbox_only_tables [OF ab(3)])
    with t' inv show ?case by (auto simp: fired_once_def)
  qed
  then show ?thesis by blast
qed

text \<open>A process that a timer starts twice, five seconds apart: the first start.\<close>

definition cycle_start :: step where
  "cycle_start = StepDef ''tick'' StepTypeStart [] [] [] [] [] [] []
     [(''event_definition_type'', VStr ''timer''), (''timer_cycle'', VStr ''R2/PT5S'')] [] [] [] [] [] []"

definition cycle_timer :: timer where
  "cycle_timer = \<lparr>tm_key = 4, tm_id = ''t4'', tm_element_key = 3, tm_instance_key = 0,
     tm_element_id = ''tick'', tm_due_date = 5, tm_state = ''CREATED'', tm_repeat_count = 2, tm_created_at = 1\<rparr>"

definition armed :: est where
  "armed = demo_state (empty_db\<lparr>db_processes := [demo_process\<lparr>pr_resource := ResSteps [cycle_start]\<rparr>], db_timers := [cycle_timer]\<rparr>)"

definition ticked :: "unit outcome \<times> est" where
  "ticked = withTx demo_env (processTimer demo_env (run demo_env 5) cycle_timer) armed"

lemma first_tick:
  "(case ticked of (r, u) \<Rightarrow> r = Ok () \<and> length (db_instances (s_db u)) = 1 \<and> map tm_state (db_timers (s_db u)) = [''CREATED''])"
  by code_simp

theorem cycle_fires_n_times_witness:
  "\<exists>u t. firing demo_env 4 1 armed u \<and> length (db_instances (s_db u)) = 1 \<and>
     timer_row 4 (s_db u) = Some t \<and> tm_state t = ''CREATED'' \<and> tm_repeat_count t = 1"
proof -
  obtain u where u: "withTx demo_env (processTimer demo_env (run demo_env 5) cycle_timer) armed = (Ok (), u)"
    "length (db_instances (s_db u)) = 1" "map tm_state (db_timers (s_db u)) = [''CREATED'']"
    using first_tick unfolding ticked_def by (auto split: prod.splits)
  have row: "timer_row 4 (s_db armed) = Some cycle_timer" by (simp add: timer_row_def armed_def demo_state_def cycle_timer_def)
  have run: "firing demo_env 4 (Suc 0) armed u"
    by (rule firing_timer [OF firing_nothing row _ u(1)]) (simp add: cycle_timer_def)
  have "\<not> env_db_fault demo_env i" for i by (simp add: demo_env_def)
  from cycle_fires_n_times [OF run this _ row, of 2] obtain t where t: "timer_row 4 (s_db u) = Some t"
    "tm_state t = ''TRIGGERED'' \<or> tm_state t = ''CREATED'' \<and> tm_repeat_count t = 1" by (auto simp: cycle_timer_def)
  from u(3) obtain t' where "db_timers (s_db u) = [t']" "tm_state t' = ''CREATED''" by auto
  with t(1) have "tm_state t = ''CREATED''" by (auto simp: timer_row_def split: if_splits)
  with t run u(2) show ?thesis by auto
qed

end
