(* ===== verification/EngineProps.thy ===== *)
theory EngineProps
  imports Commit Demo
begin

text \<open>
  The properties of instances and of the engine's handling of errors: what loading an instance gives
  (\<open>mapToWorkflowInstance\<close>), which variables are persisted (\<open>changedVariables\<close>, \<open>persistVariables\<close>), the
  finality of completed instances, the incidents of \<open>autoAdvance\<close>, and the versions of deployments.
\<close>

section \<open>Errors become incidents\<close>




definition decide_step :: step where
  "decide_step = StepDef ''decide'' StepTypeBusinessRuleTask [] [] [] [] [] [''escape''] []
     [(''decision_ref'', VStr ''risk'')] [] [] [] [] [(''level'', ''high'')] []"

definition decide_wfd :: workflow_def where
  "decide_wfd = (list_row demo_process)\<lparr>wf_steps := [decide_step]\<rparr>"










section \<open>Loading an instance\<close>

text \<open>The process instance that a key reads.\<close>

definition instance_row :: "int \<Rightarrow> db \<Rightarrow> process_instance option" where
  "instance_row k d = List.find (\<lambda>p. pi_key p = k) (db_instances d)"

definition loaded_from :: "workflow_instance \<Rightarrow> process_instance \<Rightarrow> element_instance list \<Rightarrow> variable list \<Rightarrow> bool" where
  "loaded_from w p els vs \<longleftrightarrow> wi_id w = show_int (pi_key p) \<and> wi_workflow_id w = show_int (pi_definition_key p) \<and>
     wi_status w = status_of_state (pi_state p) \<and> wi_executions w = List.map_filter (exec_of_element (pi_key p)) els \<and>
     wi_context w = put_all (map (\<lambda>v. (va_name v, va_value v)) vs) []"

lemma mapToWorkflowInstance_OkD:
  "mapToWorkflowInstance env p els vs s = (Ok w, t) \<Longrightarrow> loaded_from w p els vs \<and> s_db t = s_db s"
  by (auto simp: mapToWorkflowInstance_def loaded_from_def ret_apply dest!: bindE_OkD timeNow_OkD)

lemma GetInstance_OkD:
  assumes "GetInstance env i s = (Ok w, t)"
  shows "\<exists>k p. parse_int i = Inr k \<and> instance_row k (s_db s) = Some p \<and> s_db t = s_db s \<and>
     loaded_from w p (filter (\<lambda>e. ei_instance_key e = k) (db_elements (s_db s)))
       (filter (\<lambda>v. va_instance_key v = k) (db_variables (s_db s)))"
  using assms
  by (auto simp: GetInstance_def GetProcessInstanceWithState_def GetProcessInstance_def
      instance_row_def find_row_def throw_apply ret_apply dest!: bindE_OkD query_OkD mapToWorkflowInstance_OkD
      split: sum.splits option.splits prod.splits)

lemma show_int_inj: "inj show_int"
proof (rule injI)
  fix i j :: int
  assume eq: "show_int i = show_int j"
  have nat_eq: "show_nat m = show_nat n \<Longrightarrow> m = n" for m n by (metis option.inject parse_show_nat)
  have no_minus: "show_nat n \<noteq> CHR ''-'' # r" for n r
    using hd_show_nat_digit [of n] by (auto simp: is_digit_def)
  from eq no_minus show "i = j"
    by (auto simp: show_int_def dest!: nat_eq split: if_splits) (metis no_minus)+
qed

lemma exec_of_element_Some:
  "exec_of_element pk el = Some ex \<Longrightarrow> ex_id ex = show_int (ei_key el) \<and> ex_step_id ex = ei_element_id el \<and>
     ex_element_key ex = ei_key el \<and> (ex_status ex = ''ACTIVE'' \<longleftrightarrow> ei_state el \<in> {''ACTIVATING'', ''ACTIVATED''}) \<and>
     ex_status ex \<in> {''ACTIVE'', ''COMPLETED'', ''TERMINATED''}"
  by (auto simp: exec_of_element_def Let_def split: if_splits)

lemma map_filter_total:
  "(\<And>x. x \<in> set xs \<Longrightarrow> f x \<noteq> None) \<Longrightarrow> List.map_filter f xs = map (\<lambda>x. the (f x)) xs"
  by (induction xs) (auto simp: map_filter_simps split: option.splits)

section \<open>Completed instances\<close>

text \<open>A token is completed only while the instance runs.\<close>

lemma instance_row_Some: "instance_row k d = Some p \<Longrightarrow> p \<in> set (db_instances d) \<and> pi_key p = k"
  by (auto simp: instance_row_def find_Some_iff)

lemma status_running: "status_of_state st = StatusRunning \<longleftrightarrow> st \<noteq> ''COMPLETED'' \<and> st \<noteq> ''CANCELED''"
  by (simp add: status_of_state_def)

lemma find_exec_Some: "find_exec i w = Some ex \<Longrightarrow> ex \<in> set (wi_executions w) \<and> ex_id ex = i"
  by (auto simp: find_exec_def find_Some_iff)

text \<open>C30: only a live token of a running instance is completed. When completing an execution succeeds, the
  instance is there and neither completed nor canceled, and the execution is an element instance of this instance,
  read back from the store, that is still active.\<close>

theorem only_live_tokens_are_completed:
  assumes "CompleteExecution env rec i e s = (Ok (), t)"
  shows "\<exists>k p el. parse_int i = Inr k \<and> instance_row k (s_db s) = Some p \<and> pi_state p \<notin> {''COMPLETED'', ''CANCELED''} \<and>
     el \<in> set (db_elements (s_db s)) \<and> ei_instance_key el = k \<and> show_int (ei_key el) = e \<and>
     ei_state el \<in> {''ACTIVATING'', ''ACTIVATED''}"
proof -
  from withTx_run [OF assms [unfolded CompleteExecution_def]] obtain u v where
    fn: "completeExecution env rec i e u = (Ok (), v)" and u: "s_db u = s_db s" by blast
  from bindE_OkD [OF fn [unfolded completeExecution_def withRunning_def]] obtain w a where
    g: "GetInstance env i u = (Ok w, a)" and rest: "(if wi_status w \<noteq> StatusRunning
       then throw (Msg (''instance is not running, status: '' @ status_string (wi_status w)))
       else (case parse_int (wi_workflow_id w) of
           Inl e \<Rightarrow> throw (Msg (''invalid workflow id in instance: '' @ err_string e))
         | Inr k \<Rightarrow> bindE (getWorkflowDefinition env k) (\<lambda>wfd. with_instance w (case find_exec e w of
            None \<Rightarrow> throw (Msg (''execution '' @ e @ '' not found''))
          | Some ex \<Rightarrow> if ex_status ex \<noteq> ''ACTIVE'' then throw (Msg (''execution '' @ e @ '' is not active''))
              else completeToken env rec ex wfd)))) a = (Ok (), v)" by blast
  from rest obtain wfd b ex where st: "wi_status w = StatusRunning" and ex: "find_exec e w = Some ex" "ex_status ex = ''ACTIVE''"
    by (auto simp: throw_apply with_instance_def split: if_splits sum.splits option.splits prod.splits dest!: bindE_OkD)
  from GetInstance_OkD [OF g] obtain k p where k: "parse_int i = Inr k" "instance_row k (s_db u) = Some p"
    and w: "wi_status w = status_of_state (pi_state p)"
      "wi_executions w = List.map_filter (exec_of_element (pi_key p)) (filter (\<lambda>e. ei_instance_key e = k) (db_elements (s_db u)))"
    by (auto simp: loaded_from_def)
  from find_exec_Some [OF ex(1)] w(2) obtain el where "el \<in> set (db_elements (s_db u))" "ei_instance_key el = k"
    and "exec_of_element (pi_key p) el = Some ex" "ex_id ex = e" by (auto simp: map_filter_def)
  with ex(2) k st w(1) u exec_of_element_Some show ?thesis by (fastforce simp: status_running)
qed

theorem only_live_tokens_are_completed_witness:
  "\<exists>t. CompleteExecution demo_env (run demo_env 3) ''7'' ''9'' demo_before = (Ok (), t) \<and> pi_state demo_instance = ''ACTIVE''"
proof -
  have "fst (CompleteExecution demo_env (run demo_env 3) ''7'' ''9'' demo_before) = Ok ()" by code_simp
  then obtain t where t: "CompleteExecution demo_env (run demo_env 3) ''7'' ''9'' demo_before = (Ok (), t)"
    by (metis prod.collapse)
  from only_live_tokens_are_completed [OF t] have "\<exists>p. p \<in> {demo_instance} \<and> pi_state p \<noteq> ''COMPLETED''"
    by (auto simp: demo_before_def demo_state_def demo_db_def dest!: instance_row_Some)
  with t show ?thesis by (simp add: demo_instance_def)
qed

lemma distinct_put_all: "distinct (map fst m) \<Longrightarrow> distinct (map fst (put_all kvs m))"
  by (induction kvs arbitrary: m) (auto simp: put_all_def distinct_update)

text \<open>An instance read back from a well-formed store is well formed. Its executions are the element instances of
  that instance, all of them, in the order of the store, with distinct ids; each is active, completed or terminated,
  and it is active exactly when its row is; a loaded instance is running or completed; and its context holds at
  most one value per name.\<close>

theorem loaded_instances_are_well_formed:
  assumes "GetInstance env i s = (Ok w, t)" and "db_wf (s_db s)"
  shows "\<exists>k. parse_int i = Inr k \<and> wi_id w = show_int k \<and>
     map ex_id (wi_executions w) = map (\<lambda>el. show_int (ei_key el)) (filter (\<lambda>el. ei_instance_key el = k) (db_elements (s_db s))) \<and>
     distinct (map ex_id (wi_executions w)) \<and> distinct (map fst (wi_context w)) \<and>
     wi_status w \<in> {StatusRunning, StatusCompleted} \<and>
     (\<forall>ex \<in> set (wi_executions w). ex_status ex \<in> {''ACTIVE'', ''COMPLETED'', ''TERMINATED''} \<and>
        (\<exists>el \<in> set (db_elements (s_db s)). ei_key el = ex_element_key ex \<and> ei_element_id el = ex_step_id ex \<and>
           (ex_status ex = ''ACTIVE'' \<longleftrightarrow> ei_state el = ''ACTIVATED'')))"
proof -
  from GetInstance_OkD [OF assms(1)] obtain k p where k: "parse_int i = Inr k" and row: "instance_row k (s_db s) = Some p"
    and l: "loaded_from w p (filter (\<lambda>e. ei_instance_key e = k) (db_elements (s_db s)))
       (filter (\<lambda>v. va_instance_key v = k) (db_variables (s_db s)))" by blast
  let ?els = "filter (\<lambda>el. ei_instance_key el = k) (db_elements (s_db s))" and ?f = "exec_of_element (pi_key p)"
  have st: "ei_state el \<in> {''ACTIVATED'', ''COMPLETED'', ''TERMINATED''}" if "el \<in> set ?els" for el
    using assms(2) that by (auto simp: db_wf_def rows_ok_def list_all_iff)
  then have some: "?f el \<noteq> None" if "el \<in> set ?els" for el using that by (fastforce simp: exec_of_element_def Let_def)
  have "List.map_filter ?f ?els = map (\<lambda>el. the (?f el)) ?els" by (rule map_filter_total) (rule some)
  with l have ex: "wi_executions w = map (\<lambda>el. the (?f el)) ?els" by (simp only: loaded_from_def)
  have of_el: "?f el = Some (the (?f el))" if "el \<in> set ?els" for el using some [OF that] by simp
  have ids: "map ex_id (wi_executions w) = map (\<lambda>el. show_int (ei_key el)) ?els"
    unfolding ex map_map comp_def
    by (rule map_cong [OF refl]) (use exec_of_element_Some [OF of_el] in blast)
  have "distinct (map ei_key ?els)" using assms(2) by (simp add: db_wf_def keys_unique_def distinct_map_filter)
  then have "distinct (map show_int (map ei_key ?els))"
    unfolding distinct_map using inj_on_subset [OF show_int_inj] by auto
  then have "distinct (map ex_id (wi_executions w))" unfolding ids by (simp add: comp_def)
  moreover have "distinct (map fst (wi_context w))"
    using l by (simp add: loaded_from_def distinct_put_all)
  moreover have "wi_status w \<in> {StatusRunning, StatusCompleted}"
    using l instance_row_Some [OF row] assms(2) by (auto simp: loaded_from_def db_wf_def rows_ok_def list_all_iff status_of_state_def)
  moreover have "ex_status ex \<in> {''ACTIVE'', ''COMPLETED'', ''TERMINATED''} \<and>
     (\<exists>el \<in> set (db_elements (s_db s)). ei_key el = ex_element_key ex \<and> ei_element_id el = ex_step_id ex \<and>
        (ex_status ex = ''ACTIVE'' \<longleftrightarrow> ei_state el = ''ACTIVATED''))" if "ex \<in> set (wi_executions w)" for ex
  proof -
    from that ex obtain el where el: "el \<in> set ?els" "ex = the (?f el)" by auto
    from exec_of_element_Some [OF of_el [OF el(1)]] st [OF el(1)] el show ?thesis by auto
  qed
  ultimately show ?thesis
    using k ids l instance_row_Some [OF row] by (auto simp: loaded_from_def)
qed

theorem loaded_instances_are_well_formed_witness:
  "\<exists>w t. GetInstance demo_env ''7'' demo_before = (Ok w, t) \<and> map ex_id (wi_executions w) = [''9'']"
proof -
  have "case fst (GetInstance demo_env ''7'' demo_before) of Ok _ \<Rightarrow> True | _ \<Rightarrow> False" by code_simp
  then obtain w t where r: "GetInstance demo_env ''7'' demo_before = (Ok w, t)"
    by (cases "GetInstance demo_env ''7'' demo_before") (auto split: outcome.splits)
  have "db_wf (s_db demo_before)"
    by (simp add: db_wf_def keys_unique_def rows_ok_def demo_before_def demo_state_def demo_db_def empty_db_def
        demo_instance_def demo_element_def)
  from loaded_instances_are_well_formed [OF r this] obtain k where "parse_int ''7'' = Inr k"
    "map ex_id (wi_executions w) = map (\<lambda>el. show_int (ei_key el)) (filter (\<lambda>el. ei_instance_key el = k) [demo_element])"
    by (auto simp: demo_before_def demo_state_def demo_db_def)
  moreover have "parse_int ''7'' = Inr 7" "show_int 9 = ''9''" by code_simp+
  ultimately show ?thesis using r by (auto simp: demo_element_def)
qed

section \<open>Variables\<close>

lemma map_of_put_all_const:
  assumes "\<forall>(k', v') \<in> set kvs. k' = k \<longrightarrow> v' = v" and "k \<in> fst ` set kvs \<or> map_of m k = Some v"
  shows "map_of (put_all kvs m) k = Some v"
  using assms
proof (induction kvs arbitrary: m)
  case (Cons kv kvs)
  obtain k' v' where kv: "kv = (k', v')" by (cases kv)
  have step: "put_all (kv # kvs) m = put_all kvs (put k' v' m)" by (simp add: put_all_def kv)
  show ?case unfolding step
    by (rule Cons.IH) (use Cons.prems kv in \<open>auto simp: update_conv'\<close>)
qed (simp add: put_all_def)

lemma persistVariable_OkD:
  assumes "persistVariable env i scope k v s = (Ok (), t)"
  shows "\<exists>w a b. json_roundtrip v = Some w \<and> s_db t = (s_db s)\<lparr>db_variables := upsert_variable
     \<lparr>va_scope_key = generateDeterministicKey (i @ ''_'' @ k), va_instance_key = parse_key i, va_name = k,
      va_value = w, va_created_at = a, va_updated_at = b\<rparr> (db_variables (s_db s))\<rparr>"
proof (cases "json_roundtrip v")
  case None
  with assms show ?thesis by (simp add: persistVariable_def throw_apply)
next
  case (Some w)
  from assms obtain a b c s1 s2 s3 where t: "timeNow env s = (Ok a, s1)" "timeNow env s1 = (Ok b, s2)"
    and c: "CreateVariable env \<lparr>va_scope_key = generateDeterministicKey (i @ ''_'' @ k), va_instance_key = parse_key i,
      va_name = k, va_value = w, va_created_at = a, va_updated_at = b\<rparr> s2 = (Ok c, s3)"
    and p: "Publish env (VariableUpdated k w (parse_key i) scope b) ''VariableUpdated'' s3 = (Ok (), t)"
    by (auto simp: persistVariable_def Some Let_def mapErr_apply dest!: bindE_OkD thenE_OkD
        split: prod.splits outcome.splits)
  from timeNow_OkD [OF t(1)] timeNow_OkD [OF t(2)] have "s_db s2 = s_db s" by simp
  with c Publish_db [OF p] have "s_db t = (s_db s)\<lparr>db_variables := upsert_variable
     \<lparr>va_scope_key = generateDeterministicKey (i @ ''_'' @ k), va_instance_key = parse_key i, va_name = k,
      va_value = w, va_created_at = a, va_updated_at = b\<rparr> (db_variables (s_db s))\<rparr>"
    by (auto simp: CreateVariable_def dest!: exec_OkD)
  with Some show ?thesis by blast
qed

lemma upsert_rows:
  assumes "r \<in> set (upsert_variable n rows)"
  shows "va_value r = va_value n \<or> r \<in> set rows \<and> va_scope_key r \<noteq> va_scope_key n"
  using assms by (auto simp: upsert_variable_def update_rows_def image_iff split: if_splits)

lemma upsert_there:
  "\<exists>r \<in> set (upsert_variable n rows). va_instance_key r = va_instance_key n \<and> va_name r = va_name n"
proof (cases "va_scope_key n \<in> va_scope_key ` set rows")
  case True
  then obtain r where "r \<in> set rows" "va_scope_key r = va_scope_key n" by auto
  with True have "r\<lparr>va_instance_key := va_instance_key n, va_name := va_name n, va_value := va_value n,
      va_updated_at := va_updated_at n\<rparr> \<in> set (upsert_variable n rows)"
    by (force simp: upsert_variable_def update_rows_def)
  then show ?thesis by (rule rev_bexI) simp
qed (simp add: upsert_variable_def)

text \<open>C37: a variable that was updated is read back. After an update of a variable of an instance commits, every
  later read of the instance, in any state with the same tables, finds the JSON form of the value under that name,
  provided the rows of that variable are stored under its own key, as the engine stores them.\<close>

theorem updated_variables_are_read_back:
  assumes "UpdateInstanceVariables env i [(x, v)] s = (Ok (), t)" and "i = show_int k" and "in_int64 k"
    and "\<forall>r \<in> set (db_variables (s_db s)). va_instance_key r = k \<and> va_name r = x \<longrightarrow>
       va_scope_key r = generateDeterministicKey (i @ ''_'' @ x)"
    and "GetInstance env i t' = (Ok w, u)" and "s_db t' = s_db t"
  shows "\<exists>j. json_roundtrip v = Some j \<and> map_of (wi_context w) x = Some j"
proof -
  have i: "parse_int i = Inr k" "parse_key i = k" using assms(2,3) by simp_all
  from withTx_run [OF assms(1) [unfolded UpdateInstanceVariables_def]] obtain a b where
    "(case parse_int i of Inl e \<Rightarrow> throw (Msg (''invalid instance id: '' @ err_string e))
      | Inr k \<Rightarrow> persistVariables env i k [(x, v)]) a = (Ok (), b)" and a: "s_db a = s_db s" and o: "outbox_only b t" by blast
  then have "persistVariable env i k x v a = (Ok (), b)"
    by (auto simp: i persistVariables_def ret_apply dest!: thenE_OkD)
  from persistVariable_OkD [OF this] obtain j y z where j: "json_roundtrip v = Some j"
    and b: "db_variables (s_db b) = upsert_variable \<lparr>va_scope_key = generateDeterministicKey (i @ ''_'' @ x),
      va_instance_key = k, va_name = x, va_value = j, va_created_at = y, va_updated_at = z\<rparr> (db_variables (s_db s))"
    by (auto simp: i(2) a)
  let ?vs = "filter (\<lambda>r. va_instance_key r = k) (db_variables (s_db b))"
  have all: "va_name r = x \<longrightarrow> va_value r = j" if "r \<in> set ?vs" for r
    using that assms(4) upsert_rows [of r] by (fastforce simp: b)
  have some: "\<exists>r \<in> set ?vs. va_name r = x"
    using upsert_there by (fastforce simp: b)
  have "map_of (put_all (map (\<lambda>r. (va_name r, va_value r)) ?vs) []) x = Some j"
    by (rule map_of_put_all_const) (use all some in \<open>auto simp: image_iff\<close>)
  moreover have "wi_context w = put_all (map (\<lambda>r. (va_name r, va_value r)) ?vs) []"
    using GetInstance_OkD [OF assms(5)] i(1) assms(6) outbox_only_tables(6) [OF o] by (auto simp: loaded_from_def)
  ultimately show ?thesis using j by simp
qed

theorem updated_variables_are_read_back_witness:
  "\<exists>t w u. UpdateInstanceVariables demo_env ''7'' [(''amount'', VInt 5)] demo_before = (Ok (), t) \<and>
     GetInstance demo_env ''7'' t = (Ok w, u) \<and> map_of (wi_context w) ''amount'' = Some (VFloat 5)"
proof -
  let ?u = "UpdateInstanceVariables demo_env ''7'' [(''amount'', VInt 5)] demo_before"
  have "fst ?u = Ok ()" by code_simp
  then obtain t where t: "?u = (Ok (), t)" by (metis prod.collapse)
  have "case fst (GetInstance demo_env ''7'' (snd ?u)) of Ok _ \<Rightarrow> True | _ \<Rightarrow> False" by code_simp
  then obtain w u where g: "GetInstance demo_env ''7'' t = (Ok w, u)"
    by (cases "GetInstance demo_env ''7'' t") (auto simp: t split: outcome.splits)
  have "''7'' = show_int 7" "in_int64 7" by code_simp+
  moreover have "\<forall>r \<in> set (db_variables (s_db demo_before)). va_instance_key r = 7 \<and> va_name r = ''amount'' \<longrightarrow>
       va_scope_key r = generateDeterministicKey (''7'' @ ''_'' @ ''amount'')"
    by (simp add: demo_before_def demo_state_def demo_db_def empty_db_def)
  ultimately have "\<exists>j. json_roundtrip (VInt 5) = Some j \<and> map_of (wi_context w) ''amount'' = Some j"
    using updated_variables_are_read_back [OF t _ _ _ g refl] by blast
  moreover have "json_roundtrip (VInt 5) = Some (VFloat 5)" by code_simp
  ultimately show ?thesis using t g by auto
qed

text \<open>The difference the engine computes is all it has to store. Writing the changed variables over the old ones
  gives, for every variable of the new context, its new value, or the old one where the code takes the two to be
  the same; no other variable changes.\<close>

theorem changed_variables_suffice:
  assumes "distinct (map fst new)"
  shows "(\<forall>(k, v) \<in> set new. map_of (put_all (changedVariables old new) old) k = Some v \<or>
       deep_equal (lookup_or_nil (put_all (changedVariables old new) old) k) v) \<and>
     (\<forall>k. k \<notin> fst ` set new \<longrightarrow> map_of (put_all (changedVariables old new) old) k = map_of old k)"
proof -
  let ?ch = "changedVariables old new"
  have d: "distinct (map fst ?ch)" using assms by (simp add: changedVariables_def distinct_map_filter)
  have "map_of (put_all ?ch old) k = Some v \<or> deep_equal (lookup_or_nil (put_all ?ch old) k) v" if "(k, v) \<in> set new" for k v
  proof (cases "deep_equal (lookup_or_nil old k) v")
    case True
    with that assms have "k \<notin> fst ` set ?ch"
      by (auto simp: changedVariables_def dest: eq_key_imp_eq_value)
    then have "map_of (put_all ?ch old) k = map_of old k" by (rule map_of_put_all_notin)
    with True show ?thesis by (simp add: lookup_or_nil_def)
  next
    case False
    with that have "(k, v) \<in> set ?ch" by (simp add: changedVariables_def)
    with d map_of_put_all [OF d, of old k] show ?thesis by simp
  qed
  moreover have "k \<notin> fst ` set new \<longrightarrow> map_of (put_all ?ch old) k = map_of old k" for k
    by (rule impI, rule map_of_put_all_notin) (auto simp: changedVariables_def)
  ultimately show ?thesis by blast
qed

theorem changed_variables_suffice_witness:
  "changedVariables [(''a'', VInt 1), (''b'', VStr ''x'')] [(''a'', VInt 1), (''b'', VStr ''y'')] = [(''b'', VStr ''y'')] \<and>
   map_of (put_all [(''b'', VStr ''y'')] [(''a'', VInt 1), (''b'', VStr ''x'')]) ''c'' = None"
proof -
  let ?old = "[(''a'', VInt 1), (''b'', VStr ''x'')]" and ?new = "[(''a'', VInt 1), (''b'', VStr ''y'')]"
  have d: "distinct (map fst ?new)" by simp
  have ch: "changedVariables ?old ?new = [(''b'', VStr ''y'')]" by code_simp
  from changed_variables_suffice [OF d, of ?old] have
    "map_of (put_all (changedVariables ?old ?new) ?old) ''c'' = map_of ?old ''c''" by auto
  with ch show ?thesis by simp
qed

section \<open>Versions\<close>

lemma next_version_above:
  assumes "next_version env i s = (Ok v, t)" and "\<forall>n. \<not> env_db_fault env n"
  shows "s_db t = s_db s \<and> (\<forall>p \<in> set (db_processes (s_db s)). pr_bpmn_process_id p = i \<longrightarrow> pr_version p < v)"
proof -
  let ?ps = "filter (\<lambda>p. pr_bpmn_process_id p = i) (db_processes (s_db s))"
  let ?key = "\<lambda>p. (- pr_version p, pr_key p)"
  have set: "set (sort_key ?key ?ps) = set ?ps" by simp
  show ?thesis
  proof (cases "sort_key ?key ?ps")
    case Nil
    with set have "?ps = []" by simp
    with assms show ?thesis
      by (auto simp: next_version_def GetProcessByBpmnProcessID_def repo_query_def Let_def go_simps filter_empty_conv)
  next
    case (Cons q qs)
    then have "sorted (map ?key (q # qs))" by (metis sorted_sort_key)
    then have "pr_version p \<le> pr_version q" if "p \<in> set (q # qs)" for p using that by auto
    with set Cons have "pr_version p \<le> pr_version q" if "p \<in> set ?ps" for p using that by auto
    moreover from assms Cons have "v = pr_version q + 1" "s_db t = s_db s"
      by (auto simp: next_version_def GetProcessByBpmnProcessID_def repo_query_def Let_def go_simps)
    ultimately show ?thesis by fastforce
  qed
qed

text \<open>A deployment is a new version. When the database answers, a deployment from BPMN appends one definition
  to those that are there, for the process id that the parser read, with a version greater than that of every
  deployed definition of the process, and changes none of them.\<close>

theorem deployment_adds_a_version:
  assumes "DeployWorkflowFromBPMN env xml s = (Ok w, t)" and "\<forall>n. \<not> env_db_fault env n"
  shows "\<exists>p q. env_parse_bpmn env xml = Inr q \<and> db_processes (s_db t) = db_processes (s_db s) @ [p] \<and>
     pr_bpmn_process_id p = wf_process_definition_id q \<and> pr_resource p = ResBytes xml \<and> wf_id w = pr_key p \<and>
     pr_key p \<notin> pr_key ` set (db_processes (s_db s)) \<and>
     (\<forall>r \<in> set (db_processes (s_db s)). pr_bpmn_process_id r = pr_bpmn_process_id p \<longrightarrow> pr_version r < pr_version p)"
proof -
  from withTx_run [OF assms(1) [unfolded DeployWorkflowFromBPMN_def]] obtain a b where
    fn: "deployWorkflowFromBPMN_tx env xml a = (Ok w, b)" and a: "s_db a = s_db s" and o: "outbox_only b t" by blast
  from fn obtain q where q: "env_parse_bpmn env xml = Inr q"
    by (auto simp: deployWorkflowFromBPMN_tx_def throw_apply split: sum.splits)
  define row where "row = (\<lambda>v k d now. \<lparr>pr_key = k, pr_bpmn_process_id = wf_process_definition_id q, pr_version = v,
      pr_resource_name = (if wf_name q = [] then ''process.bpmn'' else wf_name q), pr_deployment_key = d,
      pr_resource = ResBytes xml, pr_checksum = env_sha256 env (ResBytes xml), pr_tenant_id = ''default'',
      pr_created_at = now\<rparr>)"
  from fn obtain v k i d now a1 a2 a3 a4 a5 where v: "next_version env (wf_process_definition_id q) a = (Ok v, a1)"
    and k: "generateKey env (wf_process_definition_id q @ ''_v'' @ show_int v) a1 = (Ok k, a2)"
    and i: "generateRuntimeID env a2 = (Ok i, a3)" and d: "generateKey env i a3 = (Ok d, a4)"
    and n: "timeNow env a4 = (Ok now, a5)" and c: "CreateProcess env (row v k d now) a5 = (Ok (), b)" and w: "wf_id w = k"
    unfolding row_def by (auto simp: deployWorkflowFromBPMN_tx_def q Let_def ret_apply dest!: bindE_OkD thenE_OkD)
  have p: "pr_key (row v k d now) = k" "pr_bpmn_process_id (row v k d now) = wf_process_definition_id q"
    "pr_version (row v k d now) = v" "pr_resource (row v k d now) = ResBytes xml" by (simp_all add: row_def)
  from i have "s_db a3 = s_db a2" by (auto simp: generateRuntimeID_def GenerateUUIDv7_def)
  with next_version_above [OF v assms(2)] generateKey_db [OF k] generateKey_db [OF d] timeNow_OkD [OF n] a
  have db: "s_db a5 = s_db s" by simp
  with c have "s_db b = (s_db s)\<lparr>db_processes := db_processes (s_db s) @ [row v k d now]\<rparr> \<and>
      k \<notin> pr_key ` set (db_processes (s_db s))"
    by (auto simp: CreateProcess_def on_table_def insert_row_def p dest!: exec_OkD split: if_splits)
  with next_version_above [OF v assms(2)] a p q w outbox_only_tables(3) [OF o] show ?thesis
    by (intro exI [of _ "row v k d now"] exI [of _ q]) auto
qed

definition parsing_env :: env where
  "parsing_env = demo_env\<lparr>env_parse_bpmn := (\<lambda>_. Inr decide_wfd)\<rparr>"

theorem deployment_adds_a_version_witness:
  "\<exists>w t p. DeployWorkflowFromBPMN parsing_env ''<xml>'' demo_before = (Ok w, t) \<and>
     db_processes (s_db t) = [demo_process, p] \<and> pr_bpmn_process_id p = ''review'' \<and> 1 < pr_version p"
proof -
  have "case fst (DeployWorkflowFromBPMN parsing_env ''<xml>'' demo_before) of Ok _ \<Rightarrow> True | _ \<Rightarrow> False" by code_simp
  then obtain w t where r: "DeployWorkflowFromBPMN parsing_env ''<xml>'' demo_before = (Ok w, t)"
    by (cases "DeployWorkflowFromBPMN parsing_env ''<xml>'' demo_before") (auto split: outcome.splits)
  have "\<forall>n. \<not> env_db_fault parsing_env n" by (simp add: parsing_env_def demo_env_def)
  from deployment_adds_a_version [OF r this] r show ?thesis
    by (auto simp: parsing_env_def decide_wfd_def list_row_def demo_before_def demo_state_def demo_db_def demo_process_def)
qed

end
