(* ===== verification/BpmnModel.thy ===== *)
theory BpmnModel
  imports EngineTypes
begin

text \<open>
  The elements of a BPMN 2.0 file as the parser of the command service sees them: one record per struct of
  \<open>internal/domain/bpmn/parser.go\<close>, with the attributes and children its tags name, as \<open>encoding/xml\<close> fills them
  in. An attribute that is not there is the empty string, a child that is not there (a nil pointer) is \<open>None\<close>, an
  empty child whose presence alone counts is a Boolean.

  Many attributes are accepted twice, in the namespace of the engine (\<open>_af\<close>) and without (\<open>_plain\<close>).
\<close>

section \<open>Extension elements\<close>

record workflow_property =
  wp_name :: string
  wp_value :: string

record workflow_properties =
  wp_af :: "workflow_property list"
  wp_plain :: "workflow_property list"

record io_entry =
  io_target :: string
  io_source :: string

record io_mapping =
  io_af_inputs :: "io_entry list"
  io_plain_inputs :: "io_entry list"
  io_af_outputs :: "io_entry list"
  io_plain_outputs :: "io_entry list"

record extension_elements =
  xe_af_properties :: "workflow_properties option"
  xe_plain_properties :: "workflow_properties option"
  xe_af_io :: "io_mapping option"
  xe_plain_io :: "io_mapping option"

record multi_instance =
  mi_is_sequential :: string
  mi_af_collection :: string
  mi_plain_collection :: string
  mi_af_loop_collection :: string
  mi_plain_loop_collection :: string
  mi_af_element_variable :: string
  mi_plain_element_variable :: string
  mi_af_loop_element :: string
  mi_plain_loop_element :: string

section \<open>Event definitions\<close>

text \<open>A message, signal, error, escalation or compensation definition is its reference, a link definition its
  name, a conditional definition its condition, if it has one.\<close>

record timer_definition =
  td_duration :: string
  td_date :: string
  td_cycle :: string

type_synonym conditional_definition = "string option"

section \<open>Nodes\<close>

text \<open>What every node has, and what every activity has.\<close>

record flow_node =
  fn_id :: string
  fn_name :: string
  fn_extensions :: "extension_elements option"

record activity = flow_node +
  ac_loop :: "multi_instance option"
  ac_af_collection :: string
  ac_plain_collection :: string
  ac_af_element_variable :: string
  ac_plain_element_variable :: string
  ac_af_is_sequential :: string
  ac_plain_is_sequential :: string

record start_event = flow_node +
  se_is_interrupting :: string
  se_timer :: "timer_definition option"
  se_message :: "string option"
  se_signal :: "string option"
  se_escalation :: "string option"
  se_conditional :: "conditional_definition option"

record end_event = flow_node +
  ee_signal :: "string option"
  ee_error :: "string option"
  ee_compensate :: "string option"
  ee_terminate :: bool
  ee_escalation :: "string option"
  ee_cancel :: bool

record service_task = activity +
  sv_job_type :: string
  sv_af_topic :: string
  sv_plain_topic :: string
  sv_af_task_type :: string
  sv_plain_task_type :: string

record send_task = service_task +
  sn_message_ref :: string

record script_task = activity +
  sc_af_script_format :: string
  sc_plain_script_format :: string
  sc_af_result_variable :: string
  sc_plain_result_variable :: string
  sc_af_timeout :: string
  sc_plain_timeout :: string
  sc_script :: string

record user_task = activity +
  ut_af_assignee :: string
  ut_plain_assignee :: string
  ut_af_candidate_users :: string
  ut_plain_candidate_users :: string
  ut_af_candidate_groups :: string
  ut_plain_candidate_groups :: string
  ut_af_due_date :: string
  ut_plain_due_date :: string

record receive_task = activity +
  rt_message_ref :: string
  rt_af_correlation_key :: string
  rt_plain_correlation_key :: string

record business_rule_task = activity +
  br_af_decision_ref :: string
  br_plain_decision_ref :: string
  br_af_result_variable :: string
  br_plain_result_variable :: string

record call_activity = activity +
  ca_called_element :: string
  ca_af_called_version :: string
  ca_plain_called_version :: string
  ca_plain_version :: string

record catch_event = flow_node +
  ce_af_timer_duration :: string
  ce_plain_timer_duration :: string
  ce_af_correlation_key :: string
  ce_plain_correlation_key :: string
  ce_timer :: "timer_definition option"
  ce_message :: "string option"
  ce_signal :: "string option"
  ce_link :: "string option"
  ce_escalation :: "string option"
  ce_conditional :: "conditional_definition option"
  ce_cancel :: bool

record throw_event = flow_node +
  te_af_correlation_key :: string
  te_plain_correlation_key :: string
  te_af_error_code :: string
  te_plain_error_code :: string
  te_af_error_message :: string
  te_plain_error_message :: string
  te_message :: "string option"
  te_signal :: "string option"
  te_error :: "string option"
  te_compensate :: "string option"
  te_link :: "string option"
  te_escalation :: "string option"

record boundary_event = flow_node +
  be_attached_to :: string
  be_cancel_activity :: string
  be_af_timer_duration :: string
  be_plain_timer_duration :: string
  be_af_correlation_key :: string
  be_plain_correlation_key :: string
  be_af_error_code :: string
  be_plain_error_code :: string
  be_af_error_message :: string
  be_plain_error_message :: string
  be_timer :: "timer_definition option"
  be_message :: "string option"
  be_signal :: "string option"
  be_error :: "string option"
  be_compensate :: "string option"
  be_escalation :: "string option"
  be_conditional :: "conditional_definition option"
  be_cancel :: bool

text \<open>The default flow is an attribute of exclusive and inclusive gateways.\<close>

record default_gateway = flow_node +
  gw_default :: string

record sequence_flow =
  sf_id :: string
  sf_source :: string
  sf_target :: string
  sf_expression :: "string option"
  sf_af_condition :: string
  sf_plain_condition :: string

section \<open>Processes\<close>

text \<open>The elements of one scope but for its sub-processes, and the sub-processes, which nest.\<close>

record scope_elements =
  el_start_events :: "start_event list"
  el_end_events :: "end_event list"
  el_service_tasks :: "service_task list"
  el_send_tasks :: "send_task list"
  el_user_tasks :: "user_task list"
  el_script_tasks :: "script_task list"
  el_receive_tasks :: "receive_task list"
  el_manual_tasks :: "activity list"
  el_business_rule_tasks :: "business_rule_task list"
  el_call_activities :: "call_activity list"
  el_catch_events :: "catch_event list"
  el_throw_events :: "throw_event list"
  el_boundary_events :: "boundary_event list"
  el_exclusive_gateways :: "default_gateway list"
  el_parallel_gateways :: "flow_node list"
  el_inclusive_gateways :: "default_gateway list"
  el_event_gateways :: "flow_node list"
  el_flows :: "sequence_flow list"

datatype sub_process = SubProcess
  (sp_activity: activity) (sp_triggered_by_event: string) (sp_elements: scope_elements)
  (sp_sub_processes: "sub_process list") (sp_transactions: "sub_process list")

record bpmn_process =
  bp_id :: string
  bp_name :: string
  bp_elements :: scope_elements
  bp_sub_processes :: "sub_process list"
  bp_transactions :: "sub_process list"

text \<open>Messages, signals, errors and escalations of the file: id, name and, for the last two, code.\<close>

record named_element =
  ne_id :: string
  ne_name :: string

record coded_element = named_element +
  ne_code :: string

record definitions =
  df_process :: bpmn_process
  df_messages :: "named_element list"
  df_signals :: "named_element list"
  df_errors :: "coded_element list"
  df_escalations :: "coded_element list"

text \<open>An element with nothing in it, for building examples.\<close>

definition no_elements :: scope_elements where
  "no_elements = \<lparr>el_start_events = [], el_end_events = [], el_service_tasks = [], el_send_tasks = [],
     el_user_tasks = [], el_script_tasks = [], el_receive_tasks = [], el_manual_tasks = [],
     el_business_rule_tasks = [], el_call_activities = [], el_catch_events = [], el_throw_events = [],
     el_boundary_events = [], el_exclusive_gateways = [], el_parallel_gateways = [], el_inclusive_gateways = [],
     el_event_gateways = [], el_flows = []\<rparr>"

end
