(* ===== verification/BpmnParser.thy ===== *)
theory BpmnParser
  imports BpmnModel Timers
begin

text \<open>
  The BPMN parser (\<open>internal/domain/bpmn/parser.go\<close>), from the decoded XML elements to the steps of a workflow
  definition: one definition per loop of \<open>parseFlowElements\<close>, then the boundary events are attached and the sequence
  flows connected.

  What the parser takes from elsewhere is the record \<open>parser_env\<close>: the decoder \<open>encoding/xml\<close>, the entity table of
  \<open>html.UnescapeString\<close>, the JSON decoder for parameter lists, and the orders in which the two loops over Go maps
  visit their entries.
\<close>

record parser_env =
  pe_decode :: "string \<Rightarrow> go_err + definitions"
  pe_unescape :: "string \<Rightarrow> string"
  pe_json_strings :: "string \<Rightarrow> (string \<times> string) list option"
  pe_json_values :: "string \<Rightarrow> vars option"
  pe_props_order :: "vars \<Rightarrow> vars"
  pe_refs_order :: "(string \<times> string) list \<Rightarrow> (string \<times> string) list"

section \<open>Strings and properties\<close>

text \<open>The parser's own \<open>firstNonEmpty\<close>, which trims its result.\<close>

definition firstTrimmed :: "string list \<Rightarrow> string" where
  "firstTrimmed vs = (case List.find (\<lambda>v. trim_space v \<noteq> []) vs of Some v \<Rightarrow> trim_space v | None \<Rightarrow> [])"

definition trim_prefix :: "string \<Rightarrow> string \<Rightarrow> string" where
  "trim_prefix s p = (if has_prefix s p then drop (length p) s else s)"

definition trim_suffix :: "string \<Rightarrow> string \<Rightarrow> string" where
  "trim_suffix s p = (if has_suffix s p then take (length s - length p) s else s)"

definition setStringProperty :: "string \<Rightarrow> string \<Rightarrow> vars \<Rightarrow> vars" where
  "setStringProperty k v props = (let t = trim_space v in if t \<noteq> [] then put k (VStr t) props else props)"

text \<open>Several in a row.\<close>

definition set_strings :: "(string \<times> string) list \<Rightarrow> vars \<Rightarrow> vars" where
  "set_strings kvs props = fold (\<lambda>(k, v). setStringProperty k v) kvs props"

definition firstStringProperty :: "vars \<Rightarrow> string list \<Rightarrow> string" where
  "firstStringProperty props keys = (case List.find (\<lambda>k. trim_space (str_or_empty props k) \<noteq> []) keys of
     Some k \<Rightarrow> trim_space (str_or_empty props k) | None \<Rightarrow> [])"

definition canonicalPropertyKey :: "string \<Rightarrow> string" where
  "canonicalPropertyKey key = (let k = to_lower (trim_space key) in
     if k = ''assignee'' then ''assignee''
     else if k \<in> {''candidateusers'', ''candidate_users''} then ''candidate_users''
     else if k \<in> {''candidategroups'', ''candidate_groups''} then ''candidate_groups''
     else if k \<in> {''duedate'', ''due_date''} then ''due_date''
     else if k \<in> {''calledelement'', ''called_element''} then ''called_element''
     else if k \<in> {''calledelementversion'', ''called_element_version''} then ''called_element_version''
     else if k \<in> {''collection'', ''loopcollection'', ''loop_collection''} then ''collection''
     else if k \<in> {''elementvariable'', ''element_variable'', ''loopelement'', ''loop_element''} then ''element_variable''
     else if k \<in> {''issequential'', ''is_sequential''} then ''is_sequential''
     else if k \<in> {''decisionref'', ''decision_ref''} then ''decision_ref''
     else if k \<in> {''resultvariable'', ''result_variable''} then ''result_variable''
     else if k \<in> {''scriptformat'', ''script_format''} then ''script_format''
     else if k \<in> {''messageref'', ''message_ref''} then ''message_ref''
     else if k \<in> {''signalref'', ''signal_ref''} then ''signal_ref''
     else if k \<in> {''correlationkey'', ''correlation_key''} then ''correlation_key''
     else if k \<in> {''timerduration'', ''timer_duration''} then ''timer_duration''
     else if k \<in> {''errorcode'', ''error_code''} then ''error_code''
     else if k \<in> {''errormessage'', ''error_message''} then ''error_message''
     else if k \<in> {''cancelactivity'', ''cancel_activity''} then ''cancel_activity''
     else if k \<in> {''attachedto'', ''attached_to''} then ''attached_to''
     else if k \<in> {''tasktype'', ''task_type''} then ''task_type''
     else if k \<in> {''jobtype'', ''job_type''} then ''job_type''
     else if k = ''topic'' then ''topic''
     else if k = ''implementation'' then ''implementation''
     else if k = ''handler'' then ''handler''
     else if k \<in> {''activityref'', ''activity_ref''} then ''activity_ref''
     else if k \<in> {''eventdefinitiontype'', ''event_definition_type''} then ''event_definition_type''
     else [])"

definition normalizeExtensionPropertyValue :: "string \<Rightarrow> string \<Rightarrow> val" where
  "normalizeExtensionPropertyValue key value =
     (if canonicalPropertyKey key = ''cancel_activity''
      then (case ParseBool value of Some b \<Rightarrow> VBool b | None \<Rightarrow> VStr value) else VStr value)"

definition merge_property :: "workflow_property \<Rightarrow> vars \<Rightarrow> vars" where
  "merge_property p props =
     (let key = trim_space (wp_name p); value = trim_space (wp_value p) in
      if key = [] then props
      else let props1 = (if has_key key props then props else put key (normalizeExtensionPropertyValue key value) props);
               canonical = canonicalPropertyKey key
           in if canonical = [] \<or> canonical = key \<or> has_key canonical props1 then props1
              else put canonical (normalizeExtensionPropertyValue canonical value) props1)"

definition option_list :: "'a option \<Rightarrow> 'a list" where
  "option_list v = (case v of None \<Rightarrow> [] | Some x \<Rightarrow> [x])"

definition mergeExtensionProperties :: "extension_elements option \<Rightarrow> vars \<Rightarrow> vars" where
  "mergeExtensionProperties ext props =
     (case ext of
        None \<Rightarrow> props
      | Some x \<Rightarrow> fold merge_property
          (concat (map (\<lambda>g. wp_af g @ wp_plain g)
            (option_list (xe_af_properties x) @ option_list (xe_plain_properties x)))) props)"

definition resolveRef :: "string \<Rightarrow> (string \<times> string) list \<Rightarrow> string" where
  "resolveRef ref lookup = (let t = trim_space ref in
     if t = [] then [] else (case map_of lookup t of Some r \<Rightarrow> r | None \<Rightarrow> t))"

definition appendIfMissing :: "string list \<Rightarrow> string \<Rightarrow> string list" where
  "appendIfMissing vs v = (let t = trim_space v in if t = [] \<or> t \<in> set vs then vs else vs @ [t])"

definition normalizeConditionExpression :: "parser_env \<Rightarrow> string \<Rightarrow> string" where
  "normalizeConditionExpression pe condition =
     (let n = trim_space (pe_unescape pe condition);
          m = (if has_prefix n ''<![CDATA['' \<and> has_suffix n '']]>''
               then trim_space (trim_suffix (trim_prefix n ''<![CDATA['') '']]>'') else n)
      in if (has_prefix m ''${'' \<or> has_prefix m ''#{'') \<and> has_suffix m ''}''
         then trim_space (take (length m - 3) (drop 2 m)) else m)"

definition extractConditionExpression :: "parser_env \<Rightarrow> conditional_definition option \<Rightarrow> string" where
  "extractConditionExpression pe def = (case def of
     Some (Some c) \<Rightarrow> trim_space (pe_unescape pe c) | _ \<Rightarrow> [])"

section \<open>References\<close>

record element_refs =
  rf_messages :: "(string \<times> string) list"
  rf_signals :: "(string \<times> string) list"
  rf_errors :: "(string \<times> string) list"
  rf_escalations :: "(string \<times> string) list"

definition named_ref :: "'a named_element_scheme \<Rightarrow> (string \<times> string) list \<Rightarrow> (string \<times> string) list" where
  "named_ref e m = (let i = trim_space (ne_id e); n = trim_space (ne_name e) in
     if i = [] then m else put i (if n = [] then i else n) m)"

definition coded_ref :: "coded_element \<Rightarrow> (string \<times> string) list \<Rightarrow> (string \<times> string) list" where
  "coded_ref e m = (let i = trim_space (ne_id e); c = trim_space (ne_code e); n = trim_space (ne_name e) in
     if i = [] then m else put i (if c \<noteq> [] then c else if n \<noteq> [] then n else i) m)"

definition buildElementRefs :: "definitions \<Rightarrow> element_refs" where
  "buildElementRefs d = \<lparr>rf_messages = fold named_ref (df_messages d) [], rf_signals = fold named_ref (df_signals d) [],
     rf_errors = fold coded_ref (df_errors d) [], rf_escalations = fold coded_ref (df_escalations d) []\<rparr>"

section \<open>Timers and common properties\<close>

definition looksLikeAbsoluteTime :: "string \<Rightarrow> bool" where
  "looksLikeAbsoluteTime value = (let v = trim_space value in
     v \<noteq> [] \<and> \<not> has_prefix v ''P'' \<and> \<not> has_prefix v ''R'' \<and> (parse_rfc3339 v \<noteq> None \<or> parse_local_time v \<noteq> None))"

text \<open>Whether a timer property was applied, and the properties.\<close>

definition applyTimerEventDefinition :: "timer_definition option \<Rightarrow> string \<Rightarrow> vars \<Rightarrow> bool \<times> vars" where
  "applyTimerEventDefinition def attrDuration props =
     (let (a1, p1) = (case def of
            None \<Rightarrow> (False, props)
          | Some t \<Rightarrow>
              let d = trim_space (td_duration t); e = trim_space (td_date t); c = trim_space (td_cycle t);
                  q1 = (if d \<noteq> [] then set_strings [(''timer_duration'', d), (''timer_type'', ''duration'')] props else props);
                  q2 = (if e \<noteq> [] then let q = setStringProperty ''timer_date'' e q1 in
                          if has_key ''timer_type'' q then q else setStringProperty ''timer_type'' ''date'' q else q1);
                  q3 = (if c \<noteq> [] then set_strings [(''timer_cycle'', c), (''timer_type'', ''cycle'')] q2 else q2)
              in (d \<noteq> [] \<or> e \<noteq> [] \<or> c \<noteq> [], q3));
          attr = trim_space attrDuration
      in if attr \<noteq> [] \<and> \<not> has_key ''timer_duration'' p1 \<and> \<not> has_key ''timer_date'' p1 \<and> \<not> has_key ''timer_cycle'' p1
         then (True,
           if has_prefix attr ''R'' then set_strings [(''timer_cycle'', attr), (''timer_type'', ''cycle'')] p1
           else if looksLikeAbsoluteTime attr then set_strings [(''timer_date'', attr), (''timer_type'', ''date'')] p1
           else set_strings [(''timer_duration'', attr), (''timer_type'', ''duration'')] p1)
         else (a1, p1))"

text \<open>\<open>if x.Definition != nil { ... }\<close>\<close>

definition when_some :: "'a option \<Rightarrow> ('a \<Rightarrow> vars \<Rightarrow> vars) \<Rightarrow> vars \<Rightarrow> vars" where
  "when_some v f props = (case v of None \<Rightarrow> props | Some x \<Rightarrow> f x props)"

definition message_properties :: "element_refs \<Rightarrow> string \<Rightarrow> vars \<Rightarrow> vars" where
  "message_properties refs r = setStringProperty ''message_ref'' (resolveRef r (rf_messages refs))"

definition signal_properties :: "element_refs \<Rightarrow> string \<Rightarrow> vars \<Rightarrow> vars" where
  "signal_properties refs r = setStringProperty ''signal_ref'' (resolveRef r (rf_signals refs))"

definition error_properties :: "element_refs \<Rightarrow> string \<Rightarrow> vars \<Rightarrow> vars" where
  "error_properties refs r = (let code = resolveRef r (rf_errors refs) in
     set_strings [(''error_ref'', code), (''error_code'', code)])"

definition escalation_properties :: "element_refs \<Rightarrow> string \<Rightarrow> vars \<Rightarrow> vars" where
  "escalation_properties refs r = (let code = resolveRef r (rf_escalations refs) in
     set_strings [(''escalation_ref'', code), (''escalation_code'', code), (''event_definition_type'', ''escalation'')])"

definition compensate_properties :: "string \<Rightarrow> vars \<Rightarrow> vars" where
  "compensate_properties ref = set_strings [(''event_definition_type'', ''compensate''), (''activity_ref'', ref)]"

definition link_properties :: "string \<Rightarrow> string \<Rightarrow> vars \<Rightarrow> vars" where
  "link_properties node_name name =
     set_strings [(''link_name'', firstTrimmed [name, node_name]), (''event_definition_type'', ''link'')]"

definition condition_properties :: "parser_env \<Rightarrow> conditional_definition option \<Rightarrow> vars \<Rightarrow> vars" where
  "condition_properties pe def props = (let cond = extractConditionExpression pe def in
     if cond \<noteq> [] then set_strings [(''condition'', cond), (''event_definition_type'', ''conditional'')] props else props)"

definition event_type :: "string \<Rightarrow> vars \<Rightarrow> vars" where
  "event_type ty = setStringProperty ''event_definition_type'' ty"

text \<open>A Boolean attribute that is not empty; what does not parse is true.\<close>

definition cancel_property :: "string \<Rightarrow> vars \<Rightarrow> vars" where
  "cancel_property raw props = (let t = trim_space raw in
     if t = [] then props
     else put ''cancel_activity'' (VBool (case ParseBool t of Some b \<Rightarrow> b | None \<Rightarrow> True)) props)"

section \<open>Loops, mappings and listeners\<close>

text \<open>Replacing some of the fields of a step.\<close>

fun with_loop :: "string \<Rightarrow> string \<Rightarrow> string \<Rightarrow> step \<Rightarrow> step" where
  "with_loop lt lc le (StepDef i ty n inc out impl sub bnd dfl props _ _ _ ls ins outs) =
     StepDef i ty n inc out impl sub bnd dfl props lt lc le ls ins outs"

fun with_mappings :: "vars \<Rightarrow> task_listener list \<Rightarrow> (string \<times> string) list \<Rightarrow> (string \<times> string) list \<Rightarrow> step \<Rightarrow> step" where
  "with_mappings props ls ins outs (StepDef i ty n inc out impl sub bnd dfl _ lt lc le _ _ _) =
     StepDef i ty n inc out impl sub bnd dfl props lt lc le ls ins outs"

fun with_boundary :: "string \<Rightarrow> step \<Rightarrow> step" where
  "with_boundary b (StepDef i ty n inc out impl sub bnd dfl props lt lc le ls ins outs) =
     StepDef i ty n inc out impl sub (appendIfMissing bnd b) dfl props lt lc le ls ins outs"

fun with_outgoing :: "transition \<Rightarrow> step \<Rightarrow> step" where
  "with_outgoing t (StepDef i ty n inc out impl sub bnd dfl props lt lc le ls ins outs) =
     StepDef i ty n inc (out @ [t]) impl sub bnd dfl props lt lc le ls ins outs"

fun with_incoming :: "string \<Rightarrow> step \<Rightarrow> step" where
  "with_incoming src (StepDef i ty n inc out impl sub bnd dfl props lt lc le ls ins outs) =
     StepDef i ty n (appendIfMissing inc src) out impl sub bnd dfl props lt lc le ls ins outs"

text \<open>The step of an element: id, type, name, implementation, sub-steps, default flow and properties.\<close>

definition node_step ::
  "'a flow_node_scheme \<Rightarrow> step_type \<Rightarrow> string \<Rightarrow> step list \<Rightarrow> string \<Rightarrow> vars \<Rightarrow> step" where
  "node_step e ty impl sub dfl props = StepDef (fn_id e) ty (fn_name e) [] [] impl sub [] dfl props [] [] [] [] [] []"

definition or_else :: "string \<Rightarrow> string \<Rightarrow> string" where
  "or_else a b = (if a = [] then b else a)"

definition sequential_property :: "vars \<Rightarrow> string" where
  "sequential_property props = (case str_prop props ''isSequential'' of
       Some v \<Rightarrow> v
     | None \<Rightarrow> (case str_prop props ''is_sequential'' of
           Some v \<Rightarrow> v
         | None \<Rightarrow> (case bool_prop props ''isSequential'' of
               Some b \<Rightarrow> if b then ''true'' else ''false'' | None \<Rightarrow> [])))"

definition applyMultiInstance :: "multi_instance option \<Rightarrow> string \<Rightarrow> string \<Rightarrow> string \<Rightarrow> step \<Rightarrow> step" where
  "applyMultiInstance mi collection0 element0 sequential0 st =
     (let c0 = trim_space collection0; e0 = trim_space element0; s0 = trim_space sequential0;
          c1 = (case mi of None \<Rightarrow> c0 | Some m \<Rightarrow> or_else c0 (firstTrimmed
                  [mi_af_collection m, mi_plain_collection m, mi_af_loop_collection m, mi_plain_loop_collection m]));
          e1 = (case mi of None \<Rightarrow> e0 | Some m \<Rightarrow> or_else e0 (firstTrimmed
                  [mi_af_element_variable m, mi_plain_element_variable m, mi_af_loop_element m, mi_plain_loop_element m]));
          s1 = (case mi of None \<Rightarrow> s0 | Some m \<Rightarrow> or_else s0 (trim_space (mi_is_sequential m)));
          props = st_properties st;
          c2 = or_else c1 (firstStringProperty props [''collection'', ''loopCollection'', ''loop_collection'']);
          e2 = or_else e1 (firstStringProperty props [''elementVariable'', ''element_variable'', ''loopElement'', ''loop_element'']);
          s2 = or_else s1 (sequential_property props)
      in if mi = None \<and> c2 = [] \<and> e2 = [] \<and> s2 = [] then st
         else with_loop (if s2 \<noteq> [] \<and> ParseBool s2 = Some True then ''SEQUENTIAL'' else ''PARALLEL'') c2 e2 st)"

definition loop_of :: "'a activity_scheme \<Rightarrow> step \<Rightarrow> step" where
  "loop_of a = applyMultiInstance (ac_loop a)
     (firstTrimmed [ac_af_collection a, ac_plain_collection a])
     (firstTrimmed [ac_af_element_variable a, ac_plain_element_variable a])
     (firstTrimmed [ac_af_is_sequential a, ac_plain_is_sequential a])"

text \<open>\<open>if _, exists := m[k]; !exists { m[k] = v }\<close>\<close>

definition put_new :: "string \<Rightarrow> string \<Rightarrow> (string \<times> string) list \<Rightarrow> (string \<times> string) list" where
  "put_new k v m = (if has_key k m then m else put k v m)"

definition trimmed_pairs :: "(string \<times> string) list \<Rightarrow> (string \<times> string) list" where
  "trimmed_pairs kvs = fold (\<lambda>(k, v) m. let k' = trim_space k; v' = trim_space v in
     if k' \<noteq> [] \<and> v' \<noteq> [] then put k' v' m else m) kvs []"

definition parseParameterJSON :: "parser_env \<Rightarrow> string \<Rightarrow> (string \<times> string) list" where
  "parseParameterJSON pe value =
     (let t = trim_space value in
      if t = [] then []
      else (case pe_json_strings pe t of
          Some (x # xs) \<Rightarrow> trimmed_pairs (x # xs)
        | _ \<Rightarrow> (case pe_json_values pe t of
            None \<Rightarrow> []
          | Some kvs \<Rightarrow> fold (\<lambda>(k, v) m.
              let k' = trim_space k;
                  s = (case v of VStr w \<Rightarrow> trim_space w
                       | _ \<Rightarrow> let w = trim_space (fmt_v v) in if w = ''<nil>'' then [] else w)
              in if k' \<noteq> [] \<and> s \<noteq> [] then put k' s m else m) kvs [])))"

definition merge_io_map :: "(string \<times> string) list \<Rightarrow> (string \<times> string) list \<Rightarrow> (string \<times> string) list" where
  "merge_io_map src dst = fold (\<lambda>(k, v) m. if k = [] \<or> v = [] then m else put_new k v m) src dst"

definition io_entries :: "io_entry list \<Rightarrow> (string \<times> string) list \<Rightarrow> (string \<times> string) list" where
  "io_entries es m = fold (\<lambda>e m. let t = trim_space (io_target e); s = trim_space (io_source e) in
     if t \<noteq> [] \<and> s \<noteq> [] then put_new t s m else m) es m"

text \<open>The accumulators of the loop over the properties: inputs, outputs, listeners and keys to delete.\<close>

record mapping_acc =
  ma_inputs :: "(string \<times> string) list"
  ma_outputs :: "(string \<times> string) list"
  ma_listeners :: "task_listener list"
  ma_delete :: "string list"

definition mapping_property :: "parser_env \<Rightarrow> string \<times> val \<Rightarrow> mapping_acc \<Rightarrow> mapping_acc" where
  "mapping_property pe kv a =
     (let key = fst kv; k = trim_space key in
      (case snd kv of
         VStr raw \<Rightarrow>
           let value = trim_space raw; lower = to_lower k; rest = trim_space (drop 6 k);
               listen = trim_space (drop 9 k)
           in if k = [] \<or> value = [] then a
              else if has_prefix lower ''input.'' \<or> has_prefix lower ''input:'' then
                (if rest = [] then a
                 else a\<lparr>ma_inputs := put_new rest value (ma_inputs a), ma_delete := ma_delete a @ [key]\<rparr>)
              else if has_prefix lower ''output.'' \<or> has_prefix lower ''output:'' then
                (let out = trim_space (drop 7 k) in
                 if out = [] then a
                 else a\<lparr>ma_outputs := put_new out value (ma_outputs a), ma_delete := ma_delete a @ [key]\<rparr>)
              else if has_prefix lower ''listener.'' then
                (if listen = [] then a
                 else a\<lparr>ma_listeners := ma_listeners a @ [\<lparr>tl_event = to_lower listen, tl_implementation = value\<rparr>],
                        ma_delete := ma_delete a @ [key]\<rparr>)
              else if lower = ''inputparameters'' \<or> lower = ''input_parameters'' then
                a\<lparr>ma_inputs := merge_io_map (parseParameterJSON pe value) (ma_inputs a), ma_delete := ma_delete a @ [key]\<rparr>
              else if lower = ''outputparameters'' \<or> lower = ''output_parameters'' then
                a\<lparr>ma_outputs := merge_io_map (parseParameterJSON pe value) (ma_outputs a), ma_delete := ma_delete a @ [key]\<rparr>
              else a
       | _ \<Rightarrow> a))"

definition applyIOMappingsAndListeners :: "parser_env \<Rightarrow> extension_elements option \<Rightarrow> step \<Rightarrow> step" where
  "applyIOMappingsAndListeners pe ext st =
     (let maps = (case ext of None \<Rightarrow> [] | Some x \<Rightarrow> option_list (xe_af_io x) @ option_list (xe_plain_io x));
          ins = fold (\<lambda>m. io_entries (io_af_inputs m @ io_plain_inputs m)) maps [];
          outs = fold (\<lambda>m. io_entries (io_af_outputs m @ io_plain_outputs m)) maps [];
          a = fold (mapping_property pe) (pe_props_order pe (st_properties st))
                \<lparr>ma_inputs = ins, ma_outputs = outs, ma_listeners = [], ma_delete = []\<rparr>
      in with_mappings (filter (\<lambda>kv. fst kv \<notin> set (ma_delete a)) (st_properties st))
           (ma_listeners a) (ma_inputs a) (ma_outputs a) st)"

definition finish_activity :: "parser_env \<Rightarrow> 'a activity_scheme \<Rightarrow> step \<Rightarrow> step" where
  "finish_activity pe a st = applyIOMappingsAndListeners pe (fn_extensions a) (loop_of a st)"

section \<open>Events, tasks and gateways\<close>

definition parse_start_event :: "parser_env \<Rightarrow> element_refs \<Rightarrow> start_event \<Rightarrow> step" where
  "parse_start_event pe refs se =
     (let (timed, p0) = applyTimerEventDefinition (se_timer se) [] [];
          p1 = (if timed then event_type ''timer'' p0 else p0);
          p2 = when_some (se_message se) (\<lambda>r p. event_type ''message'' (message_properties refs r p)) p1;
          p3 = when_some (se_signal se) (\<lambda>r p. event_type ''signal'' (signal_properties refs r p)) p2;
          p4 = when_some (se_escalation se) (escalation_properties refs) p3;
          p5 = condition_properties pe (se_conditional se) p4;
          p6 = cancel_property (se_is_interrupting se) p5
      in node_step se StepTypeStart [] [] [] (mergeExtensionProperties (fn_extensions se) p6))"

definition parse_end_event :: "element_refs \<Rightarrow> end_event \<Rightarrow> step" where
  "parse_end_event refs ee =
     (let p1 = when_some (ee_signal ee) (signal_properties refs) [];
          p2 = when_some (ee_error ee) (error_properties refs) p1;
          p3 = when_some (ee_compensate ee) compensate_properties p2;
          p4 = (if ee_terminate ee then event_type ''terminate'' p3 else p3);
          p5 = when_some (ee_escalation ee) (escalation_properties refs) p4;
          p6 = (if ee_cancel ee then event_type ''cancel'' p5 else p5)
      in node_step ee StepTypeEnd [] [] [] (mergeExtensionProperties (fn_extensions ee) p6))"

definition job_type_of :: "string \<Rightarrow> vars \<Rightarrow> string" where
  "job_type_of attr props = or_else (trim_space attr) (firstStringProperty props
     [''task_type'', ''taskType'', ''job_type'', ''jobType'', ''topic'', ''implementation'', ''handler''])"

definition parse_service_task :: "parser_env \<Rightarrow> service_task \<Rightarrow> step" where
  "parse_service_task pe st =
     (let props = mergeExtensionProperties (fn_extensions st) (set_strings
            [(''topic'', firstTrimmed [sv_af_topic st, sv_plain_topic st]),
             (''task_type'', firstTrimmed [sv_af_task_type st, sv_plain_task_type st])] [])
      in finish_activity pe st (node_step st StepTypeServiceTask (job_type_of (sv_job_type st) props) [] [] props))"

definition parse_send_task :: "parser_env \<Rightarrow> send_task \<Rightarrow> step" where
  "parse_send_task pe st =
     (let props = mergeExtensionProperties (fn_extensions st) (set_strings
            [(''topic'', firstTrimmed [sv_af_topic st, sv_plain_topic st]),
             (''task_type'', firstTrimmed [sv_af_task_type st, sv_plain_task_type st]),
             (''message_ref'', sn_message_ref st)] []);
          impl = or_else (job_type_of (sv_job_type st) props) ''io.artificialflow.connector.http''
      in finish_activity pe st (node_step st StepTypeSendTask impl [] [] props))"

definition parse_user_task :: "parser_env \<Rightarrow> user_task \<Rightarrow> step" where
  "parse_user_task pe ut = finish_activity pe ut (node_step ut StepTypeUserTask [] [] []
     (mergeExtensionProperties (fn_extensions ut) (set_strings
       [(''assignee'', firstTrimmed [ut_af_assignee ut, ut_plain_assignee ut]),
        (''candidate_users'', firstTrimmed [ut_af_candidate_users ut, ut_plain_candidate_users ut]),
        (''candidate_groups'', firstTrimmed [ut_af_candidate_groups ut, ut_plain_candidate_groups ut]),
        (''due_date'', firstTrimmed [ut_af_due_date ut, ut_plain_due_date ut])] [])))"

definition parse_script_task :: "parser_env \<Rightarrow> script_task \<Rightarrow> step" where
  "parse_script_task pe st = finish_activity pe st (node_step st StepTypeScriptTask [] [] []
     (mergeExtensionProperties (fn_extensions st) (set_strings
       [(''script_format'', firstTrimmed [sc_af_script_format st, sc_plain_script_format st]),
        (''result_variable'', firstTrimmed [sc_af_result_variable st, sc_plain_result_variable st]),
        (''timeout'', firstTrimmed [sc_af_timeout st, sc_plain_timeout st]),
        (''script'', sc_script st)] [])))"

definition parse_receive_task :: "parser_env \<Rightarrow> element_refs \<Rightarrow> receive_task \<Rightarrow> step" where
  "parse_receive_task pe refs rt = finish_activity pe rt (node_step rt StepTypeReceiveTask [] [] []
     (mergeExtensionProperties (fn_extensions rt) (set_strings
       [(''message_ref'', resolveRef (rt_message_ref rt) (rf_messages refs)),
        (''correlation_key'', firstTrimmed [rt_af_correlation_key rt, rt_plain_correlation_key rt])] [])))"

definition parse_manual_task :: "parser_env \<Rightarrow> activity \<Rightarrow> step" where
  "parse_manual_task pe mt = finish_activity pe mt (node_step mt StepTypeManualTask [] [] []
     (mergeExtensionProperties (fn_extensions mt) []))"

definition parse_business_rule_task :: "parser_env \<Rightarrow> business_rule_task \<Rightarrow> step" where
  "parse_business_rule_task pe br = finish_activity pe br (node_step br StepTypeBusinessRuleTask [] [] []
     (mergeExtensionProperties (fn_extensions br) (set_strings
       [(''decision_ref'', firstTrimmed [br_af_decision_ref br, br_plain_decision_ref br]),
        (''result_variable'', firstTrimmed [br_af_result_variable br, br_plain_result_variable br])] [])))"

definition parse_call_activity :: "parser_env \<Rightarrow> call_activity \<Rightarrow> step" where
  "parse_call_activity pe ca = finish_activity pe ca (node_step ca StepTypeCallActivity [] [] []
     (mergeExtensionProperties (fn_extensions ca) (set_strings
       [(''called_element'', ca_called_element ca),
        (''called_element_version'', firstTrimmed
           [ca_af_called_version ca, ca_plain_called_version ca, ca_plain_version ca])] [])))"

definition parse_catch_event :: "parser_env \<Rightarrow> element_refs \<Rightarrow> catch_event \<Rightarrow> step" where
  "parse_catch_event pe refs ce =
     (let (timed, p0) = applyTimerEventDefinition (ce_timer ce)
            (firstTrimmed [ce_af_timer_duration ce, ce_plain_timer_duration ce]) [];
          p1 = when_some (ce_message ce) (message_properties refs) p0;
          p2 = when_some (ce_signal ce) (\<lambda>r p. event_type ''signal'' (signal_properties refs r p)) p1;
          p3 = when_some (ce_link ce) (link_properties (fn_name ce)) p2;
          p4 = when_some (ce_escalation ce) (escalation_properties refs) p3;
          p5 = condition_properties pe (ce_conditional ce) p4;
          p6 = (if ce_cancel ce then event_type ''cancel'' p5 else p5);
          p7 = setStringProperty ''correlation_key'' (firstTrimmed [ce_af_correlation_key ce, ce_plain_correlation_key ce]) p6
      in node_step ce (if timed then StepTypeIntermediateTimerCatchEvent else StepTypeIntermediateCatchEvent) [] [] []
           (mergeExtensionProperties (fn_extensions ce) p7))"

definition parse_throw_event :: "element_refs \<Rightarrow> throw_event \<Rightarrow> step" where
  "parse_throw_event refs te =
     (let p1 = when_some (te_message te) (message_properties refs) [];
          p2 = when_some (te_signal te) (signal_properties refs) p1;
          p3 = when_some (te_error te) (error_properties refs) p2;
          p4 = when_some (te_compensate te) compensate_properties p3;
          p5 = when_some (te_link te) (link_properties (fn_name te)) p4;
          p6 = when_some (te_escalation te) (escalation_properties refs) p5;
          p7 = set_strings
            [(''correlation_key'', firstTrimmed [te_af_correlation_key te, te_plain_correlation_key te]),
             (''error_code'', firstTrimmed [te_af_error_code te, te_plain_error_code te]),
             (''error_message'', firstTrimmed [te_af_error_message te, te_plain_error_message te])] p6
      in node_step te StepTypeIntermediateThrowEvent [] [] [] (mergeExtensionProperties (fn_extensions te) p7))"

definition parse_boundary_event :: "parser_env \<Rightarrow> element_refs \<Rightarrow> boundary_event \<Rightarrow> step" where
  "parse_boundary_event pe refs be =
     (let p1 = cancel_property (be_cancel_activity be) (setStringProperty ''attached_to'' (be_attached_to be) []);
          p2 = snd (applyTimerEventDefinition (be_timer be)
                 (firstTrimmed [be_af_timer_duration be, be_plain_timer_duration be]) p1);
          p3 = when_some (be_message be) (message_properties refs) p2;
          p4 = when_some (be_signal be) (\<lambda>r p. event_type ''signal'' (signal_properties refs r p)) p3;
          p5 = when_some (be_error be) (error_properties refs) p4;
          p6 = when_some (be_compensate be) compensate_properties p5;
          p7 = when_some (be_escalation be) (escalation_properties refs) p6;
          p8 = condition_properties pe (be_conditional be) p7;
          p9 = (if be_cancel be then event_type ''cancel'' p8 else p8);
          p10 = set_strings
            [(''correlation_key'', firstTrimmed [be_af_correlation_key be, be_plain_correlation_key be]),
             (''error_code'', firstTrimmed [be_af_error_code be, be_plain_error_code be]),
             (''error_message'', firstTrimmed [be_af_error_message be, be_plain_error_message be])] p9
      in node_step be StepTypeBoundaryEvent [] [] [] (mergeExtensionProperties (fn_extensions be) p10))"

definition parse_default_gateway :: "step_type \<Rightarrow> default_gateway \<Rightarrow> step" where
  "parse_default_gateway ty gw =
     node_step gw ty [] [] (gw_default gw) (mergeExtensionProperties (fn_extensions gw) [])"

definition parse_plain_gateway :: "step_type \<Rightarrow> flow_node \<Rightarrow> step" where
  "parse_plain_gateway ty gw = node_step gw ty [] [] [] (mergeExtensionProperties (fn_extensions gw) [])"

text \<open>The steps of a scope but for its sub-processes, in the order of the code.\<close>

definition element_steps :: "parser_env \<Rightarrow> element_refs \<Rightarrow> scope_elements \<Rightarrow> step list" where
  "element_steps pe refs el =
     map (parse_start_event pe refs) (el_start_events el) @ map (parse_end_event refs) (el_end_events el) @
     map (parse_service_task pe) (el_service_tasks el) @ map (parse_send_task pe) (el_send_tasks el) @
     map (parse_user_task pe) (el_user_tasks el) @ map (parse_script_task pe) (el_script_tasks el) @
     map (parse_receive_task pe refs) (el_receive_tasks el) @ map (parse_manual_task pe) (el_manual_tasks el) @
     map (parse_business_rule_task pe) (el_business_rule_tasks el) @ map (parse_call_activity pe) (el_call_activities el) @
     map (parse_catch_event pe refs) (el_catch_events el) @ map (parse_throw_event refs) (el_throw_events el) @
     map (parse_boundary_event pe refs) (el_boundary_events el) @
     map (parse_default_gateway StepTypeGatewayExclusive) (el_exclusive_gateways el) @
     map (parse_plain_gateway StepTypeGatewayParallel) (el_parallel_gateways el) @
     map (parse_default_gateway StepTypeGatewayInclusive) (el_inclusive_gateways el) @
     map (parse_plain_gateway StepTypeGatewayEventBased) (el_event_gateways el)"

section \<open>Connecting the steps\<close>

text \<open>\<open>stepByID[id]\<close> is a pointer to the last step of that id.\<close>

definition step_index :: "string \<Rightarrow> step list \<Rightarrow> nat option" where
  "step_index i ss = (case filter (\<lambda>k. st_id (ss ! k) = i) [0..<length ss] of [] \<Rightarrow> None | ks \<Rightarrow> Some (last ks))"

definition at_step :: "nat \<Rightarrow> (step \<Rightarrow> step) \<Rightarrow> step list \<Rightarrow> step list" where
  "at_step k f ss = ss[k := f (ss ! k)]"

text \<open>\<open>boundaryToAttached\<close>: a later boundary event of the same id replaces an earlier one.\<close>

definition boundary_targets :: "boundary_event list \<Rightarrow> (string \<times> string) list" where
  "boundary_targets bs = fold (\<lambda>b m. let a = trim_space (be_attached_to b) in
     if a = [] then m else put (fn_id b) a m) bs []"

definition attach_boundary :: "string \<times> string \<Rightarrow> step list \<Rightarrow> step list" where
  "attach_boundary ba ss = (case step_index (snd ba) ss of
     None \<Rightarrow> ss | Some k \<Rightarrow> at_step k (with_boundary (fst ba)) ss)"

definition missing_refs :: "string \<Rightarrow> bool \<Rightarrow> string \<Rightarrow> bool \<Rightarrow> string" where
  "missing_refs source sourceOK target targetOK =
     (if \<not> sourceOK \<and> \<not> targetOK then ''sourceRef='' @ source @ '', targetRef='' @ target
      else if \<not> sourceOK then ''sourceRef='' @ source else ''targetRef='' @ target)"

definition flow_condition :: "parser_env \<Rightarrow> sequence_flow \<Rightarrow> string" where
  "flow_condition pe f = (let c = firstTrimmed [sf_af_condition f, sf_plain_condition f] in
     if c \<noteq> [] then normalizeConditionExpression pe c
     else (case sf_expression f of Some x \<Rightarrow> normalizeConditionExpression pe x | None \<Rightarrow> []))"

definition connect_flow :: "parser_env \<Rightarrow> sequence_flow \<Rightarrow> step list \<Rightarrow> go_err + step list" where
  "connect_flow pe f ss =
     (let source = trim_space (sf_source f); target = trim_space (sf_target f) in
      if source = [] \<or> target = [] then Inr ss
      else (case (step_index source ss, step_index target ss) of
          (Some i, Some j) \<Rightarrow>
            Inr (at_step j (with_incoming source)
              (at_step i (with_outgoing \<lparr>tr_id = sf_id f, tr_target = target, tr_condition = flow_condition pe f\<rparr>) ss))
        | (s, t) \<Rightarrow> let flow_id = trim_space (sf_id f) in
            Inl (Msg (''sequenceFlow '' @ (if flow_id = [] then ''<unknown>'' else flow_id) @
              '' references unsupported or undefined BPMN element(s): '' @
              missing_refs source (s \<noteq> None) target (t \<noteq> None)))))"

fun connect_flows :: "parser_env \<Rightarrow> sequence_flow list \<Rightarrow> step list \<Rightarrow> go_err + step list" where
  "connect_flows pe [] ss = Inr ss"
| "connect_flows pe (f # fs) ss = (case connect_flow pe f ss of Inl e \<Rightarrow> Inl e | Inr ss' \<Rightarrow> connect_flows pe fs ss')"

definition attach_boundaries :: "parser_env \<Rightarrow> boundary_event list \<Rightarrow> step list \<Rightarrow> step list" where
  "attach_boundaries pe bs ss = fold attach_boundary (pe_refs_order pe (boundary_targets bs)) ss"

text \<open>The first error of a list of results, or all the results.\<close>

fun all_right :: "(go_err + 'a) list \<Rightarrow> go_err + 'a list" where
  "all_right [] = Inr []"
| "all_right (Inl e # rs) = Inl e"
| "all_right (Inr x # rs) = (case all_right rs of Inl e \<Rightarrow> Inl e | Inr xs \<Rightarrow> Inr (x # xs))"

section \<open>Scopes\<close>

text \<open>\<open>parseFlowElements\<close>, given the results for the sub-processes of the scope.\<close>

definition parseFlowElements ::
  "parser_env \<Rightarrow> element_refs \<Rightarrow> scope_elements \<Rightarrow> (go_err + step) list \<Rightarrow> go_err + step list" where
  "parseFlowElements pe refs el subs =
     (case all_right subs of
        Inl e \<Rightarrow> Inl e
      | Inr sub_steps \<Rightarrow> connect_flows pe (el_flows el)
          (attach_boundaries pe (el_boundary_events el) (element_steps pe refs el @ sub_steps)))"

definition triggered_by_event :: "string \<Rightarrow> bool" where
  "triggered_by_event raw0 = (let raw = trim_space raw0 in
     raw \<noteq> [] \<and> (case ParseBool raw of Some b \<Rightarrow> b | None \<Rightarrow> to_lower raw = ''true''))"

definition sub_process_step :: "parser_env \<Rightarrow> bool \<Rightarrow> activity \<Rightarrow> string \<Rightarrow> step list \<Rightarrow> step" where
  "sub_process_step pe transaction a triggered steps =
     (let ev = triggered_by_event triggered;
          p0 = mergeExtensionProperties (fn_extensions a) [];
          p1 = (if ev then put ''triggered_by_event'' (VBool True) p0 else p0);
          p2 = (if transaction then put ''transaction'' (VBool True) p1 else p1)
      in finish_activity pe a
           (node_step a (if ev then StepTypeEventSubProcess else StepTypeSubProcess) [] steps [] p2))"

fun parse_sub_process :: "parser_env \<Rightarrow> element_refs \<Rightarrow> bool \<Rightarrow> sub_process \<Rightarrow> go_err + step" where
  "parse_sub_process pe refs transaction (SubProcess a triggered el subs txs) =
     (case parseFlowElements pe refs el
         (map (parse_sub_process pe refs False) subs @ map (parse_sub_process pe refs True) txs) of
        Inl e \<Rightarrow> Inl (Wrapf (''subProcess '' @ fn_id a) e)
      | Inr steps \<Rightarrow> Inr (sub_process_step pe transaction a triggered steps))"

text \<open>The whole file; the fields the deployment fills in are left empty.\<close>

definition parse_definitions :: "parser_env \<Rightarrow> definitions \<Rightarrow> go_err + workflow_def" where
  "parse_definitions pe d =
     (let refs = buildElementRefs d; p = df_process d in
      (case parseFlowElements pe refs (bp_elements p)
          (map (parse_sub_process pe refs False) (bp_sub_processes p) @
           map (parse_sub_process pe refs True) (bp_transactions p)) of
         Inl e \<Rightarrow> Inl e
       | Inr steps \<Rightarrow> Inr \<lparr>wf_id = 0, wf_process_definition_id = bp_id p, wf_name = bp_name p, wf_version = 0,
           wf_resource_name = [], wf_deployment_id = [], wf_tenant_id = [], wf_checksum = [], wf_steps = steps,
           wf_created_at = zero_time\<rparr>))"

definition bpmn_Parse :: "parser_env \<Rightarrow> string \<Rightarrow> go_err + workflow_def" where
  "bpmn_Parse pe xml = (case pe_decode pe xml of Inl e \<Rightarrow> Inl e | Inr d \<Rightarrow> parse_definitions pe d)"

text \<open>An engine with this parser.\<close>

definition with_parser :: "parser_env \<Rightarrow> env \<Rightarrow> env" where
  "with_parser pe env = env\<lparr>env_parse_bpmn := bpmn_Parse pe\<rparr>"

end
