(* ===== verification/BpmnProps.thy ===== *)
theory BpmnProps
  imports BpmnParser
begin

text \<open>
  The properties of the BPMN parser: the steps of every scope are connected both ways along the sequence flows, a
  file is refused exactly when a flow leads to nowhere, every element of a scope becomes one step, and boundary
  events hang at the step they name.
\<close>

section \<open>What connecting leaves alone\<close>

lemma with_fields [simp]:
  "st_id (with_outgoing t s) = st_id s" "st_id (with_incoming i s) = st_id s" "st_id (with_boundary b s) = st_id s"
  "st_id (with_loop a b' c s) = st_id s" "st_id (with_mappings p l i' o' s) = st_id s"
  "st_type (with_outgoing t s) = st_type s" "st_type (with_incoming i s) = st_type s" "st_type (with_boundary b s) = st_type s"
  "st_type (with_loop a b' c s) = st_type s" "st_type (with_mappings p l i' o' s) = st_type s"
  "st_sub_steps (with_outgoing t s) = st_sub_steps s" "st_sub_steps (with_incoming i s) = st_sub_steps s"
  "st_sub_steps (with_boundary b s) = st_sub_steps s" "st_sub_steps (with_loop a b' c s) = st_sub_steps s"
  "st_sub_steps (with_mappings p l i' o' s) = st_sub_steps s"
  by (cases s; simp)+

lemma with_flows [simp]:
  "st_outgoing (with_outgoing t s) = st_outgoing s @ [t]" "st_outgoing (with_incoming i s) = st_outgoing s"
  "st_outgoing (with_boundary b s) = st_outgoing s" "st_outgoing (with_loop a b' c s) = st_outgoing s"
  "st_outgoing (with_mappings p l i' o' s) = st_outgoing s"
  "st_incoming (with_outgoing t s) = st_incoming s" "st_incoming (with_incoming i s) = appendIfMissing (st_incoming s) i"
  "st_incoming (with_boundary b s) = st_incoming s" "st_incoming (with_loop a b' c s) = st_incoming s"
  "st_incoming (with_mappings p l i' o' s) = st_incoming s"
  "st_boundary_refs (with_outgoing t s) = st_boundary_refs s" "st_boundary_refs (with_incoming i s) = st_boundary_refs s"
  "st_boundary_refs (with_boundary b s) = appendIfMissing (st_boundary_refs s) b"
  "st_boundary_refs (with_loop a b' c s) = st_boundary_refs s"
  "st_boundary_refs (with_mappings p l i' o' s) = st_boundary_refs s"
  by (cases s; simp)+

lemma node_step_fields [simp]:
  "st_id (node_step e ty impl sub dfl props) = fn_id e" "st_type (node_step e ty impl sub dfl props) = ty"
  "st_sub_steps (node_step e ty impl sub dfl props) = sub" "st_outgoing (node_step e ty impl sub dfl props) = []"
  "st_incoming (node_step e ty impl sub dfl props) = []" "st_boundary_refs (node_step e ty impl sub dfl props) = []"
  by (simp_all add: node_step_def)

lemma finish_activity_fields [simp]:
  "st_id (finish_activity pe a s) = st_id s" "st_type (finish_activity pe a s) = st_type s"
  "st_sub_steps (finish_activity pe a s) = st_sub_steps s" "st_outgoing (finish_activity pe a s) = st_outgoing s"
  "st_incoming (finish_activity pe a s) = st_incoming s" "st_boundary_refs (finish_activity pe a s) = st_boundary_refs s"
  by (simp_all add: finish_activity_def applyIOMappingsAndListeners_def loop_of_def applyMultiInstance_def Let_def)

lemma length_at_step [simp]: "length (at_step k f ss) = length ss"
  by (simp add: at_step_def)

lemma nth_at_step: "j < length ss \<Longrightarrow> at_step k f ss ! j = (if j = k then f (ss ! j) else ss ! j)"
  by (simp add: at_step_def nth_list_update)

lemma map_at_step: "(\<And>s. g (f s) = g s) \<Longrightarrow> map g (at_step k f ss) = map g ss"
  by (rule nth_equalityI) (simp_all add: nth_at_step)

lemma step_index_Some: "step_index i ss = Some k \<Longrightarrow> k < length ss \<and> st_id (ss ! k) = i"
  using last_in_set [of "filter (\<lambda>k. st_id (ss ! k) = i) [0..<length ss]"]
  by (auto simp: step_index_def split: list.splits)

lemma step_index_None: "step_index i ss = None \<longleftrightarrow> i \<notin> st_id ` set ss"
proof -
  have "step_index i ss = None \<longleftrightarrow> filter (\<lambda>k. st_id (ss ! k) = i) [0..<length ss] = []"
    by (simp add: step_index_def split: list.split)
  also have "\<dots> \<longleftrightarrow> (\<forall>k < length ss. st_id (ss ! k) \<noteq> i)" by (auto simp: filter_empty_conv)
  also have "\<dots> \<longleftrightarrow> i \<notin> st_id ` set ss" by (force simp: in_set_conv_nth image_iff)
  finally show ?thesis .
qed

lemma step_index_ids: "map st_id ss = map st_id ss' \<Longrightarrow> step_index i ss = step_index i ss'"
proof -
  assume ids: "map st_id ss = map st_id ss'"
  then have len: "length ss = length ss'" by (rule map_eq_imp_length_eq)
  have "st_id (ss ! k) = st_id (ss' ! k)" if "k < length ss" for k using ids that len by (metis nth_map)
  then have "filter (\<lambda>k. st_id (ss ! k) = i) [0..<length ss] = filter (\<lambda>k. st_id (ss' ! k) = i) [0..<length ss']"
    by (auto simp: len intro!: filter_cong)
  then show ?thesis by (simp only: step_index_def)
qed

lemma appendIfMissing_set: "set (appendIfMissing vs v) = set vs \<union> (if trim_space v = [] then {} else {trim_space v})"
  by (auto simp: appendIfMissing_def Let_def)

lemma appendIfMissing_distinct: "distinct vs \<Longrightarrow> distinct (appendIfMissing vs v)"
  by (auto simp: appendIfMissing_def Let_def)

section \<open>Connected scopes\<close>

text \<open>Every transition leads to a step that has the source among its incoming, and the other way round; no source is
  listed twice.\<close>

definition linked :: "step list \<Rightarrow> bool" where
  "linked ss \<longleftrightarrow> (\<forall>s \<in> set ss. distinct (st_incoming s) \<and>
     (\<forall>t \<in> set (st_outgoing s). \<exists>u \<in> set ss. st_id u = tr_target t \<and> st_id s \<in> set (st_incoming u)) \<and>
     (\<forall>i \<in> set (st_incoming s). \<exists>u \<in> set ss. st_id u = i \<and> (\<exists>t \<in> set (st_outgoing u). tr_target t = st_id s)))"

text \<open>The scopes of a definition: the steps of the process and those of each of its sub-processes.\<close>

fun step_scopes :: "step \<Rightarrow> step list list" where
  "step_scopes (StepDef i ty n inc out impl sub bnd dfl props lt lc le ls ins outs) =
     sub # concat (map step_scopes sub)"

definition scopes :: "step list \<Rightarrow> step list list" where
  "scopes ss = ss # concat (map step_scopes ss)"

lemma step_scopes_sub: "step_scopes s = scopes (st_sub_steps s)"
  by (cases s) (simp add: scopes_def)

lemma scopes_eq: "scopes ss = ss # concat (map scopes (map st_sub_steps ss))"
  by (subst scopes_def) (simp add: comp_def step_scopes_sub [abs_def, symmetric])

text \<open>A transition added to step \<open>i\<close> and its source added to step \<open>j\<close>.\<close>

lemma Bex_set_nth: "(\<exists>u \<in> set ss. P u) \<longleftrightarrow> (\<exists>m < length ss. P (ss ! m))"
  by (metis in_set_conv_nth)

lemma linked_nth:
  "linked ss \<longleftrightarrow> (\<forall>k < length ss. distinct (st_incoming (ss ! k)) \<and>
     (\<forall>t \<in> set (st_outgoing (ss ! k)). \<exists>m < length ss. st_id (ss ! m) = tr_target t \<and> st_id (ss ! k) \<in> set (st_incoming (ss ! m))) \<and>
     (\<forall>i \<in> set (st_incoming (ss ! k)). \<exists>m < length ss. st_id (ss ! m) = i \<and>
        (\<exists>t \<in> set (st_outgoing (ss ! m)). tr_target t = st_id (ss ! k))))"
  unfolding linked_def all_set_conv_all_nth [of ss] by (simp only: Bex_set_nth)

lemma connected_linked:
  assumes "linked ss" and i: "i < length ss" "st_id (ss ! i) = trim_space src" and j: "j < length ss" "st_id (ss ! j) = tr_target t"
    and src: "trim_space src \<noteq> []"
  shows "linked (at_step j (with_incoming src) (at_step i (with_outgoing t) ss))"
proof -
  define us where "us = at_step j (with_incoming src) (at_step i (with_outgoing t) ss)"
  have len: "length us = length ss" by (simp add: us_def)
  have ids: "st_id (us ! k) = st_id (ss ! k)" if "k < length ss" for k using that by (simp add: us_def nth_at_step)
  have out: "set (st_outgoing (us ! k)) = set (st_outgoing (ss ! k)) \<union> (if k = i then {t} else {})" if "k < length ss" for k
    using that by (simp add: us_def nth_at_step)
  have inc: "set (st_incoming (us ! k)) = set (st_incoming (ss ! k)) \<union> (if k = j then {trim_space src} else {})"
    if "k < length ss" for k
    using that src by (simp add: us_def nth_at_step appendIfMissing_set)
  have dis: "distinct (st_incoming (us ! k))" if "k < length ss" for k
    using that assms(1) by (simp add: us_def nth_at_step appendIfMissing_distinct linked_nth)
  have "\<exists>m < length ss. st_id (us ! m) = tr_target u \<and> st_id (us ! k) \<in> set (st_incoming (us ! m))"
    if k: "k < length ss" and u: "u \<in> set (st_outgoing (us ! k))" for k u
  proof (cases "u \<in> set (st_outgoing (ss ! k))")
    case True
    with assms(1) k obtain m where "m < length ss" "st_id (ss ! m) = tr_target u" "st_id (ss ! k) \<in> set (st_incoming (ss ! m))"
      unfolding linked_nth by blast
    with ids [of m] ids [OF k] inc [of m] show ?thesis by (intro exI [of _ m]) simp
  next
    case False
    with u out [OF k] have "k = i" "u = t" by (auto split: if_splits)
    with i j ids [of j] ids [OF k] inc [of j] show ?thesis by (intro exI [of _ j]) simp
  qed
  moreover have "\<exists>m < length ss. st_id (us ! m) = x \<and> (\<exists>u \<in> set (st_outgoing (us ! m)). tr_target u = st_id (us ! k))"
    if k: "k < length ss" and x: "x \<in> set (st_incoming (us ! k))" for k x
  proof (cases "x \<in> set (st_incoming (ss ! k))")
    case True
    with assms(1) k obtain m u where "m < length ss" "st_id (ss ! m) = x" "u \<in> set (st_outgoing (ss ! m))"
      "tr_target u = st_id (ss ! k)" unfolding linked_nth by blast
    with ids [of m] ids [OF k] out [of m] show ?thesis by (intro exI [of _ m]) auto
  next
    case False
    with x inc [OF k] have "k = j" "x = trim_space src" by (auto split: if_splits)
    with i j ids [of i] ids [OF k] out [of i] show ?thesis by (intro exI [of _ i]) simp
  qed
  ultimately have "linked us" unfolding linked_nth len using dis by blast
  then show ?thesis by (simp only: us_def)
qed

lemma connect_flow_Inr:
  assumes "connect_flow pe f ss = Inr ss'"
  shows "(linked ss \<longrightarrow> linked ss') \<and> map st_id ss' = map st_id ss \<and> map st_sub_steps ss' = map st_sub_steps ss \<and>
     map st_type ss' = map st_type ss \<and> map st_boundary_refs ss' = map st_boundary_refs ss"
proof (cases "trim_space (sf_source f) = [] \<or> trim_space (sf_target f) = []")
  case True
  with assms show ?thesis by (auto simp: connect_flow_def Let_def)
next
  case False
  let ?t = "\<lparr>tr_id = sf_id f, tr_target = trim_space (sf_target f), tr_condition = flow_condition pe f\<rparr>"
  from False assms obtain i j where ij: "step_index (trim_space (sf_source f)) ss = Some i" "step_index (trim_space (sf_target f)) ss = Some j"
    and ss': "ss' = at_step j (with_incoming (trim_space (sf_source f))) (at_step i (with_outgoing ?t) ss)"
    by (auto simp: connect_flow_def Let_def split: option.splits)
  have "linked ss'" if "linked ss"
    unfolding ss' by (rule connected_linked [OF that]) (use step_index_Some [OF ij(1)] step_index_Some [OF ij(2)] False in simp_all)
  then show ?thesis by (simp add: ss' map_at_step)
qed

lemma connect_flows_Inr:
  "connect_flows pe fs ss = Inr ss' \<Longrightarrow> (linked ss \<longrightarrow> linked ss') \<and> map st_id ss' = map st_id ss \<and>
     map st_sub_steps ss' = map st_sub_steps ss \<and> map st_type ss' = map st_type ss \<and>
     map st_boundary_refs ss' = map st_boundary_refs ss"
proof (induction fs arbitrary: ss)
  case (Cons f fs)
  then obtain sm where "connect_flow pe f ss = Inr sm" "connect_flows pe fs sm = Inr ss'" by (auto split: sum.splits)
  with Cons.IH [of sm] connect_flow_Inr [of pe f ss sm] show ?case by simp
qed simp

text \<open>A flow is refused when one of its ends names no step of the scope.\<close>

definition dangling :: "string set \<Rightarrow> sequence_flow \<Rightarrow> bool" where
  "dangling ids f \<longleftrightarrow> trim_space (sf_source f) \<noteq> [] \<and> trim_space (sf_target f) \<noteq> [] \<and>
     (trim_space (sf_source f) \<notin> ids \<or> trim_space (sf_target f) \<notin> ids)"

lemma connect_flow_Inl: "(\<exists>e. connect_flow pe f ss = Inl e) \<longleftrightarrow> dangling (st_id ` set ss) f"
  using step_index_None [of "trim_space (sf_source f)" ss] step_index_None [of "trim_space (sf_target f)" ss]
  by (auto simp: connect_flow_def dangling_def Let_def split: option.splits)

lemma connect_flows_Inl: "(\<exists>e. connect_flows pe fs ss = Inl e) \<longleftrightarrow> (\<exists>f \<in> set fs. dangling (st_id ` set ss) f)"
proof (induction fs arbitrary: ss)
  case (Cons f fs)
  show ?case
  proof (cases "connect_flow pe f ss")
    case (Inl e)
    with connect_flow_Inl [of pe f ss] show ?thesis by auto
  next
    case (Inr sm)
    then have "map st_id sm = map st_id ss" using connect_flow_Inr by blast
    then have "st_id ` set sm = st_id ` set ss" by (metis image_set)
    with Inr Cons.IH [of sm] connect_flow_Inl [of pe f ss] show ?thesis by auto
  qed
qed simp

section \<open>Scopes\<close>

lemma all_right_map: "all_right (map Inr xs) = Inr xs"
  by (induction xs) auto

lemma all_right_Inr: "all_right rs = Inr xs \<longleftrightarrow> rs = map Inr xs"
proof
  show "all_right rs = Inr xs \<Longrightarrow> rs = map Inr xs"
  proof (induction rs arbitrary: xs)
    case (Cons r rs)
    then show ?case by (cases r) (auto split: sum.splits)
  qed auto
qed (simp add: all_right_map)

lemma all_right_Inl: "(\<exists>e. all_right rs = Inl e) \<longleftrightarrow> (\<exists>e. Inl e \<in> set rs)"
proof (induction rs)
  case (Cons r rs)
  then show ?case by (cases r) (auto split: sum.splits)
qed auto

lemma element_steps_fresh:
  "s \<in> set (element_steps pe refs el) \<Longrightarrow> st_outgoing s = [] \<and> st_incoming s = [] \<and> st_sub_steps s = [] \<and> st_boundary_refs s = []"
  by (auto simp: element_steps_def parse_start_event_def parse_end_event_def parse_service_task_def parse_send_task_def
      parse_user_task_def parse_script_task_def parse_receive_task_def parse_manual_task_def parse_business_rule_task_def
      parse_call_activity_def parse_catch_event_def parse_throw_event_def parse_boundary_event_def
      parse_default_gateway_def parse_plain_gateway_def Let_def split: prod.splits)

lemma sub_process_step_fields:
  "st_outgoing (sub_process_step pe tx a tr ss) = []" "st_incoming (sub_process_step pe tx a tr ss) = []"
  "st_sub_steps (sub_process_step pe tx a tr ss) = ss" "st_id (sub_process_step pe tx a tr ss) = fn_id a"
  "st_boundary_refs (sub_process_step pe tx a tr ss) = []"
  by (simp_all add: sub_process_step_def Let_def)

lemma attach_boundary_fields:
  "map st_id (attach_boundary ba ss) = map st_id ss" "map st_sub_steps (attach_boundary ba ss) = map st_sub_steps ss"
  "map st_outgoing (attach_boundary ba ss) = map st_outgoing ss" "map st_incoming (attach_boundary ba ss) = map st_incoming ss"
  by (auto simp: attach_boundary_def map_at_step split: option.split)

lemma attach_boundaries_fields:
  "map st_id (attach_boundaries pe bs ss) = map st_id ss" "map st_sub_steps (attach_boundaries pe bs ss) = map st_sub_steps ss"
  "map st_outgoing (attach_boundaries pe bs ss) = map st_outgoing ss"
  "map st_incoming (attach_boundaries pe bs ss) = map st_incoming ss"
proof -
  have "map st_id (fold attach_boundary m ss) = map st_id ss \<and> map st_sub_steps (fold attach_boundary m ss) = map st_sub_steps ss \<and>
    map st_outgoing (fold attach_boundary m ss) = map st_outgoing ss \<and> map st_incoming (fold attach_boundary m ss) = map st_incoming ss" for m
    by (induction m arbitrary: ss) (simp_all add: attach_boundary_fields)
  then show "map st_id (attach_boundaries pe bs ss) = map st_id ss" "map st_sub_steps (attach_boundaries pe bs ss) = map st_sub_steps ss"
    "map st_outgoing (attach_boundaries pe bs ss) = map st_outgoing ss"
    "map st_incoming (attach_boundaries pe bs ss) = map st_incoming ss" by (simp_all add: attach_boundaries_def)
qed

lemma attach_boundaries_nth:
  assumes "k < length ss"
  shows "st_outgoing (attach_boundaries pe bs ss ! k) = st_outgoing (ss ! k)"
    "st_id (attach_boundaries pe bs ss ! k) = st_id (ss ! k)"
proof -
  have "length (attach_boundaries pe bs ss) = length ss" by (metis attach_boundaries_fields(1) length_map)
  with assms show "st_outgoing (attach_boundaries pe bs ss ! k) = st_outgoing (ss ! k)"
    "st_id (attach_boundaries pe bs ss ! k) = st_id (ss ! k)"
    using attach_boundaries_fields(1,3) by (metis nth_map)+
qed

lemma unconnected_linked: "(\<forall>s \<in> set ss. st_outgoing s = [] \<and> st_incoming s = []) \<Longrightarrow> linked ss"
  by (auto simp: linked_def)

text \<open>What a scope gives: its steps, in order, connected, with the sub-steps of its sub-processes.\<close>

lemma parseFlowElements_Inr:
  assumes "parseFlowElements pe refs el subs = Inr ss" and "\<forall>s. Inr s \<in> set subs \<longrightarrow> st_outgoing s = [] \<and> st_incoming s = []"
  shows "\<exists>sub_steps. subs = map Inr sub_steps \<and> linked ss \<and>
     map st_id ss = map st_id (element_steps pe refs el) @ map st_id sub_steps \<and>
     map st_sub_steps ss = map (\<lambda>_. []) (element_steps pe refs el) @ map st_sub_steps sub_steps"
proof -
  from assms(1) obtain sub_steps where subs: "subs = map Inr sub_steps" and c: "connect_flows pe (el_flows el)
    (attach_boundaries pe (el_boundary_events el) (element_steps pe refs el @ sub_steps)) = Inr ss"
    by (auto simp: parseFlowElements_def all_right_Inr split: sum.splits)
  let ?ss = "element_steps pe refs el @ sub_steps"
  have "\<forall>s \<in> set ?ss. st_outgoing s = [] \<and> st_incoming s = []" using assms(2) element_steps_fresh by (auto simp: subs)
  then have fresh: "set (map st_outgoing ?ss) \<subseteq> {[]}" "set (map st_incoming ?ss) \<subseteq> {[]}" by auto
  let ?as = "attach_boundaries pe (el_boundary_events el) ?ss"
  have "st_outgoing s = [] \<and> st_incoming s = []" if "s \<in> set ?as" for s
  proof -
    have "st_outgoing s \<in> set (map st_outgoing ?as)" "st_incoming s \<in> set (map st_incoming ?as)" using that by simp_all
    with fresh show ?thesis by (simp only: attach_boundaries_fields) blast
  qed
  then have "linked ?as" using unconnected_linked by blast
  moreover have "map st_sub_steps (element_steps pe refs el) = map (\<lambda>_. []) (element_steps pe refs el)"
    using element_steps_fresh by auto
  ultimately show ?thesis using connect_flows_Inr [OF c] subs by (simp add: attach_boundaries_fields)
qed

lemma scopes_linked:
  assumes "parseFlowElements pe refs el subs = Inr ss"
    and "\<forall>s. Inr s \<in> set subs \<longrightarrow> st_outgoing s = [] \<and> st_incoming s = [] \<and> (\<forall>x \<in> set (scopes (st_sub_steps s)). linked x)"
  shows "\<forall>x \<in> set (scopes ss). linked x"
proof -
  from parseFlowElements_Inr [OF assms(1)] assms(2) obtain sub_steps where subs: "subs = map Inr sub_steps" and l: "linked ss"
    and m: "map st_sub_steps ss = map (\<lambda>_. []) (element_steps pe refs el) @ map st_sub_steps sub_steps" by blast
  have "\<forall>x \<in> set (scopes []). linked x" by (simp add: scopes_def linked_def)
  then show ?thesis using assms(2) l unfolding scopes_eq [of ss] m by (auto simp: subs)
qed

lemma parse_sub_process_linked:
  "parse_sub_process pe refs tx sp = Inr s \<Longrightarrow> st_outgoing s = [] \<and> st_incoming s = [] \<and>
     (\<forall>x \<in> set (scopes (st_sub_steps s)). linked x)"
proof (induction pe refs tx sp arbitrary: s rule: parse_sub_process.induct)
  case (1 pe refs tx a tr el subs txs)
  let ?rs = "map (parse_sub_process pe refs False) subs @ map (parse_sub_process pe refs True) txs"
  from "1.prems" obtain ss where ss: "parseFlowElements pe refs el ?rs = Inr ss" and s: "s = sub_process_step pe tx a tr ss"
    by (auto split: sum.splits)
  have "\<forall>u. Inr u \<in> set ?rs \<longrightarrow> st_outgoing u = [] \<and> st_incoming u = [] \<and> (\<forall>x \<in> set (scopes (st_sub_steps u)). linked x)"
    using "1.IH" by (auto simp: image_iff) (metis sum.inject(2))+
  from scopes_linked [OF ss this] show ?case by (simp add: s sub_process_step_fields)
qed

text \<open>C11: a parsed process is connected. In every scope of a parsed file, the process and each sub-process, every
  transition leads to a step of the same scope that lists the source among its incoming steps, every incoming
  step has a transition to the step, and none is listed twice, so a join counts the steps it waits for.\<close>

theorem parsed_scopes_are_linked:
  assumes "bpmn_Parse pe xml = Inr wfd" and "ss \<in> set (scopes (wf_steps wfd))"
  shows "linked ss"
proof -
  from assms(1) obtain d where "parse_definitions pe d = Inr wfd" by (auto simp: bpmn_Parse_def split: sum.splits)
  then have r: "parseFlowElements pe (buildElementRefs d) (bp_elements (df_process d))
      (map (parse_sub_process pe (buildElementRefs d) False) (bp_sub_processes (df_process d)) @
       map (parse_sub_process pe (buildElementRefs d) True) (bp_transactions (df_process d))) = Inr (wf_steps wfd)"
    by (auto simp: parse_definitions_def Let_def split: sum.splits)
  have "\<forall>x \<in> set (scopes (wf_steps wfd)). linked x"
  proof (rule scopes_linked [OF r], intro allI impI)
    fix s
    assume "Inr s \<in> set (map (parse_sub_process pe (buildElementRefs d) False) (bp_sub_processes (df_process d)) @
       map (parse_sub_process pe (buildElementRefs d) True) (bp_transactions (df_process d)))"
    then obtain tx sp where "parse_sub_process pe (buildElementRefs d) tx sp = Inr s" by (auto dest: sym)
    then show "st_outgoing s = [] \<and> st_incoming s = [] \<and> (\<forall>x \<in> set (scopes (st_sub_steps s)). linked x)"
      by (rule parse_sub_process_linked)
  qed
  with assms(2) show ?thesis by blast
qed

section \<open>When a file is refused\<close>

text \<open>The ids of the nodes of a scope, in the order of the steps.\<close>

definition element_ids :: "scope_elements \<Rightarrow> string list" where
  "element_ids el = map fn_id (el_start_events el) @ map fn_id (el_end_events el) @ map fn_id (el_service_tasks el) @
     map fn_id (el_send_tasks el) @ map fn_id (el_user_tasks el) @ map fn_id (el_script_tasks el) @
     map fn_id (el_receive_tasks el) @ map fn_id (el_manual_tasks el) @ map fn_id (el_business_rule_tasks el) @
     map fn_id (el_call_activities el) @ map fn_id (el_catch_events el) @ map fn_id (el_throw_events el) @
     map fn_id (el_boundary_events el) @ map fn_id (el_exclusive_gateways el) @ map fn_id (el_parallel_gateways el) @
     map fn_id (el_inclusive_gateways el) @ map fn_id (el_event_gateways el)"

definition node_ids :: "scope_elements \<Rightarrow> sub_process list \<Rightarrow> string list" where
  "node_ids el sps = element_ids el @ map (\<lambda>sp. fn_id (sp_activity sp)) sps"

fun sub_scopes :: "sub_process \<Rightarrow> (string list \<times> sequence_flow list) list" where
  "sub_scopes (SubProcess a tr el subs txs) =
     (node_ids el (subs @ txs), el_flows el) # concat (map sub_scopes subs) @ concat (map sub_scopes txs)"

definition file_scopes :: "definitions \<Rightarrow> (string list \<times> sequence_flow list) list" where
  "file_scopes d = (let p = df_process d in
     (node_ids (bp_elements p) (bp_sub_processes p @ bp_transactions p), el_flows (bp_elements p)) #
     concat (map sub_scopes (bp_sub_processes p)) @ concat (map sub_scopes (bp_transactions p)))"

definition refused :: "(string list \<times> sequence_flow list) list \<Rightarrow> bool" where
  "refused scs \<longleftrightarrow> (\<exists>(ids, flows) \<in> set scs. \<exists>f \<in> set flows. dangling (set ids) f)"

lemma element_steps_ids: "map st_id (element_steps pe refs el) = element_ids el"
  by (simp add: element_steps_def element_ids_def comp_def parse_start_event_def parse_end_event_def parse_service_task_def
      parse_send_task_def parse_user_task_def parse_script_task_def parse_receive_task_def parse_manual_task_def
      parse_business_rule_task_def parse_call_activity_def parse_catch_event_def parse_throw_event_def
      parse_boundary_event_def parse_default_gateway_def parse_plain_gateway_def Let_def case_prod_beta)

lemma parse_sub_process_id: "parse_sub_process pe refs tx sp = Inr s \<Longrightarrow> st_id s = fn_id (sp_activity sp)"
  by (cases sp) (auto simp: sub_process_step_fields split: sum.splits)

lemma sub_results_ids:
  "map (parse_sub_process pe refs tx) sps = map Inr ss \<Longrightarrow> map st_id ss = map (\<lambda>sp. fn_id (sp_activity sp)) sps"
proof (induction sps arbitrary: ss)
  case (Cons sp sps)
  then show ?case by (auto simp: Cons_eq_map_conv dest: parse_sub_process_id)
qed simp

definition sub_results :: "parser_env \<Rightarrow> element_refs \<Rightarrow> sub_process list \<Rightarrow> sub_process list \<Rightarrow> (go_err + step) list" where
  "sub_results pe refs subs txs = map (parse_sub_process pe refs False) subs @ map (parse_sub_process pe refs True) txs"

lemma sub_results_Inr:
  assumes "sub_results pe refs subs txs = map Inr ss"
  shows "map st_id ss = map (\<lambda>sp. fn_id (sp_activity sp)) (subs @ txs)"
proof -
  from assms obtain s1 s2 where "ss = s1 @ s2" "map (parse_sub_process pe refs False) subs = map Inr s1"
    "map (parse_sub_process pe refs True) txs = map Inr s2"
    by (auto simp: sub_results_def append_eq_map_conv)
  then show ?thesis by (simp add: sub_results_ids)
qed

lemma parseFlowElements_Inl:
  "(\<exists>e. parseFlowElements pe refs el (sub_results pe refs subs txs) = Inl e) \<longleftrightarrow>
     (\<exists>e. Inl e \<in> set (sub_results pe refs subs txs)) \<or> (\<exists>f \<in> set (el_flows el). dangling (set (node_ids el (subs @ txs))) f)"
proof (cases "all_right (sub_results pe refs subs txs)")
  case (Inl e)
  then show ?thesis using all_right_Inl [of "sub_results pe refs subs txs"] by (simp add: parseFlowElements_def)
next
  case (Inr ss)
  let ?as = "attach_boundaries pe (el_boundary_events el) (element_steps pe refs el @ ss)"
  from Inr have "sub_results pe refs subs txs = map Inr ss" by (simp add: all_right_Inr)
  from sub_results_Inr [OF this] have "map st_id ?as = node_ids el (subs @ txs)"
    by (simp add: attach_boundaries_fields element_steps_ids node_ids_def)
  then have "st_id ` set ?as = set (node_ids el (subs @ txs))" by (metis image_set)
  with Inr all_right_Inl [of "sub_results pe refs subs txs"] show ?thesis
    using connect_flows_Inl [of pe "el_flows el" ?as] by (simp add: parseFlowElements_def)
qed

lemma refused_simps:
  "refused ((ids, flows) # scs) \<longleftrightarrow> (\<exists>f \<in> set flows. dangling (set ids) f) \<or> refused scs"
  "refused (scs @ scs') \<longleftrightarrow> refused scs \<or> refused scs'" "refused (concat (map g xs)) \<longleftrightarrow> (\<exists>x \<in> set xs. refused (g x))"
  by (simp_all add: refused_def bex_Un)

lemma sub_results_Inl:
  "(\<exists>e. Inl e \<in> set (sub_results pe refs subs txs)) \<longleftrightarrow>
     (\<exists>sp \<in> set subs. \<exists>e. parse_sub_process pe refs False sp = Inl e) \<or>
     (\<exists>sp \<in> set txs. \<exists>e. parse_sub_process pe refs True sp = Inl e)"
  unfolding sub_results_def set_append set_map Un_iff image_iff by metis

lemma parse_sub_process_Inl: "(\<exists>e. parse_sub_process pe refs tx sp = Inl e) \<longleftrightarrow> refused (sub_scopes sp)"
proof (induction pe refs tx sp rule: parse_sub_process.induct)
  case (1 pe refs tx a tr el subs txs)
  have "(\<exists>e. parse_sub_process pe refs tx (SubProcess a tr el subs txs) = Inl e) \<longleftrightarrow>
    (\<exists>e. parseFlowElements pe refs el (sub_results pe refs subs txs) = Inl e)"
    by (auto simp: sub_results_def split: sum.splits)
  also have "\<dots> \<longleftrightarrow> (\<exists>sp \<in> set subs. refused (sub_scopes sp)) \<or> (\<exists>sp \<in> set txs. refused (sub_scopes sp)) \<or>
    (\<exists>f \<in> set (el_flows el). dangling (set (node_ids el (subs @ txs))) f)"
    unfolding parseFlowElements_Inl sub_results_Inl using "1.IH" by simp
  also have "\<dots> \<longleftrightarrow> refused (sub_scopes (SubProcess a tr el subs txs))"
    unfolding sub_scopes.simps refused_simps by blast
  finally show ?case .
qed

text \<open>C12: a file is refused exactly when a sequence flow leads to nowhere: when a flow of the process or of a
  sub-process, whose two ends are not blank, names a node that is not in the same scope.\<close>

theorem refused_iff_dangling:
  "(\<exists>e. parse_definitions pe d = Inl e) \<longleftrightarrow> (\<exists>(ids, flows) \<in> set (file_scopes d). \<exists>f \<in> set flows. dangling (set ids) f)"
proof -
  let ?p = "df_process d" and ?refs = "buildElementRefs d"
  have "(\<exists>e. parse_definitions pe d = Inl e) \<longleftrightarrow> (\<exists>e. parseFlowElements pe ?refs (bp_elements ?p)
    (sub_results pe ?refs (bp_sub_processes ?p) (bp_transactions ?p)) = Inl e)"
    by (auto simp: parse_definitions_def sub_results_def Let_def split: sum.splits)
  also have "\<dots> \<longleftrightarrow> refused (file_scopes d)"
    unfolding parseFlowElements_Inl sub_results_Inl parse_sub_process_Inl file_scopes_def Let_def refused_simps by blast
  finally show ?thesis unfolding refused_def .
qed

section \<open>What the steps are\<close>

lemma step_index_distinct:
  assumes "distinct (map st_id ss)" and "k < length ss"
  shows "step_index i ss = Some k \<longleftrightarrow> st_id (ss ! k) = i"
proof
  assume "st_id (ss ! k) = i"
  with assms(2) have "step_index i ss \<noteq> None" by (auto simp: step_index_None)
  then obtain m where m: "step_index i ss = Some m" by blast
  from step_index_Some [OF m] \<open>st_id (ss ! k) = i\<close> assms have "m = k"
    by (metis length_map nth_eq_iff_index_eq nth_map)
  with m show "step_index i ss = Some k" by simp
qed (simp add: step_index_Some)

definition flow_transition :: "parser_env \<Rightarrow> sequence_flow \<Rightarrow> transition" where
  "flow_transition pe f = \<lparr>tr_id = sf_id f, tr_target = trim_space (sf_target f), tr_condition = flow_condition pe f\<rparr>"

definition flows_from :: "string \<Rightarrow> sequence_flow list \<Rightarrow> sequence_flow list" where
  "flows_from i fs = filter (\<lambda>f. trim_space (sf_source f) = i \<and> i \<noteq> [] \<and> trim_space (sf_target f) \<noteq> []) fs"

lemma connect_flow_outgoing:
  assumes "connect_flow pe f ss = Inr ss'" and "distinct (map st_id ss)" and k: "k < length ss"
  shows "st_outgoing (ss' ! k) = st_outgoing (ss ! k) @ map (flow_transition pe) (flows_from (st_id (ss ! k)) [f])"
proof (cases "trim_space (sf_source f) = [] \<or> trim_space (sf_target f) = []")
  case True
  with assms(1) show ?thesis by (auto simp: connect_flow_def flows_from_def Let_def)
next
  case False
  with assms(1) obtain i j where i: "step_index (trim_space (sf_source f)) ss = Some i" and j: "step_index (trim_space (sf_target f)) ss = Some j"
    and ss': "ss' = at_step j (with_incoming (trim_space (sf_source f))) (at_step i (with_outgoing (flow_transition pe f)) ss)"
    by (auto simp: connect_flow_def flow_transition_def Let_def split: option.splits)
  show ?thesis
  proof (cases "k = i")
    case True
    with step_index_Some [OF i] False k show ?thesis by (simp add: ss' nth_at_step flows_from_def)
  next
    case ki: False
    with step_index_distinct [OF assms(2) k, of "trim_space (sf_source f)"] i
    have "trim_space (sf_source f) \<noteq> st_id (ss ! k)" by auto
    with ki k show ?thesis by (simp add: ss' nth_at_step flows_from_def)
  qed
qed

lemma connect_flows_outgoing:
  assumes "connect_flows pe fs ss = Inr ss'" and "distinct (map st_id ss)" and "k < length ss"
  shows "st_outgoing (ss' ! k) = st_outgoing (ss ! k) @ map (flow_transition pe) (flows_from (st_id (ss ! k)) fs)"
  using assms
proof (induction fs arbitrary: ss)
  case (Cons f fs)
  then obtain sm where f: "connect_flow pe f ss = Inr sm" and fs: "connect_flows pe fs sm = Inr ss'" by (auto split: sum.splits)
  from connect_flow_Inr [OF f] have ids: "map st_id sm = map st_id ss" by blast
  then have len: "length sm = length ss" by (rule map_eq_imp_length_eq)
  from ids Cons.prems(3) len have id: "st_id (sm ! k) = st_id (ss ! k)" by (metis nth_map)
  from Cons.IH [OF fs] Cons.prems(2,3) ids len id connect_flow_outgoing [OF f Cons.prems(2,3)]
  show ?case by (simp add: flows_from_def)
qed (simp add: flows_from_def)

lemma parseFlowElements_outgoing:
  assumes "parseFlowElements pe refs el (sub_results pe refs subs txs) = Inr ss" and "distinct (node_ids el (subs @ txs))"
  shows "map st_id ss = node_ids el (subs @ txs) \<and>
     (\<forall>s \<in> set ss. st_outgoing s = map (flow_transition pe) (flows_from (st_id s) (el_flows el)))"
proof -
  from assms(1) obtain us where us: "sub_results pe refs subs txs = map Inr us" and c: "connect_flows pe (el_flows el)
    (attach_boundaries pe (el_boundary_events el) (element_steps pe refs el @ us)) = Inr ss"
    by (auto simp: parseFlowElements_def all_right_Inr split: sum.splits)
  let ?as = "attach_boundaries pe (el_boundary_events el) (element_steps pe refs el @ us)"
  have "map st_id ?as = node_ids el (subs @ txs)"
    using sub_results_Inr [OF us] by (simp add: attach_boundaries_fields element_steps_ids node_ids_def)
  with connect_flows_Inr [OF c] assms(2) have ids: "map st_id ss = node_ids el (subs @ txs)" "map st_id ?as = map st_id ss"
    "distinct (map st_id ?as)" by simp_all
  then have len: "length ?as = length ss" by (metis length_map)
  have "st_outgoing u = []" if "u \<in> set us" for u
  proof -
    from that us have "Inr u \<in> set (sub_results pe refs subs txs)" by simp
    then obtain tx sp where "parse_sub_process pe refs tx sp = Inr u" by (auto simp: sub_results_def dest: sym)
    then show ?thesis using parse_sub_process_linked by blast
  qed
  then have "st_outgoing u = []" if "u \<in> set (element_steps pe refs el @ us)" for u
    using that element_steps_fresh by auto
  then have fresh: "st_outgoing (?as ! k) = []" if "k < length ss" for k
    using that len attach_boundaries_nth(1) [of k] attach_boundaries_fields(1) by (metis length_map nth_mem)
  have "st_outgoing (ss ! k) = map (flow_transition pe) (flows_from (st_id (ss ! k)) (el_flows el))" if "k < length ss" for k
    using connect_flows_outgoing [OF c ids(3), of k] that len fresh [OF that] ids(2) by (metis append_Nil nth_map)
  then show ?thesis using ids(1) by (metis in_set_conv_nth)
qed

text \<open>The steps are the elements of the file. When the node ids of the process are distinct, its steps carry
  them in the order of the code, each once, and the transitions of a step are the sequence flows that start at
  it, in the order of the file, with their conditions.\<close>

theorem parsed_steps_follow_the_file:
  assumes "parse_definitions pe d = Inr wfd" and "p = df_process d"
    and "distinct (node_ids (bp_elements p) (bp_sub_processes p @ bp_transactions p))"
  shows "map st_id (wf_steps wfd) = node_ids (bp_elements p) (bp_sub_processes p @ bp_transactions p) \<and>
     (\<forall>s \<in> set (wf_steps wfd). st_outgoing s =
        map (\<lambda>f. \<lparr>tr_id = sf_id f, tr_target = trim_space (sf_target f), tr_condition = flow_condition pe f\<rparr>)
          (filter (\<lambda>f. trim_space (sf_source f) = st_id s \<and> st_id s \<noteq> [] \<and> trim_space (sf_target f) \<noteq> []) (el_flows (bp_elements p))))"
proof -
  from assms(1,2) have "parseFlowElements pe (buildElementRefs d) (bp_elements p)
    (sub_results pe (buildElementRefs d) (bp_sub_processes p) (bp_transactions p)) = Inr (wf_steps wfd)"
    by (auto simp: parse_definitions_def sub_results_def Let_def split: sum.splits)
  from parseFlowElements_outgoing [OF this assms(3), unfolded flow_transition_def [abs_def] flows_from_def] show ?thesis .
qed

section \<open>Boundary events\<close>

lemma attach_boundary_refs:
  assumes "k < length ss"
  shows "set (st_boundary_refs (attach_boundary ba ss ! k)) = set (st_boundary_refs (ss ! k)) \<union>
     {trim_space b |b. b = fst ba \<and> trim_space b \<noteq> [] \<and> step_index (snd ba) ss = Some k}"
  using assms
  by (cases "step_index (snd ba) ss") (auto simp: attach_boundary_def nth_at_step appendIfMissing_set split: if_splits)

lemma fold_attach_refs:
  assumes "k < length ss"
  shows "set (st_boundary_refs (fold attach_boundary m ss ! k)) = set (st_boundary_refs (ss ! k)) \<union>
     {trim_space b |a b. (b, a) \<in> set m \<and> trim_space b \<noteq> [] \<and> step_index a ss = Some k}"
  using assms
proof (induction m arbitrary: ss)
  case (Cons ba m)
  have ids: "map st_id (attach_boundary ba ss) = map st_id ss" by (rule attach_boundary_fields)
  then have len: "k < length (attach_boundary ba ss)" using Cons.prems by (metis length_map)
  show ?case
    using Cons.IH [OF len] attach_boundary_refs [OF Cons.prems, of ba] step_index_ids [OF ids]
    by (cases ba) auto
qed simp

lemma put_fresh: "k \<notin> fst ` set m \<Longrightarrow> put k v m = m @ [(k, v)]"
  by (induction m) auto

lemma boundary_targets_set:
  assumes "distinct (map fn_id bs)"
  shows "set (boundary_targets bs) = {(fn_id b, trim_space (be_attached_to b)) |b. b \<in> set bs \<and> trim_space (be_attached_to b) \<noteq> []}"
proof -
  let ?f = "\<lambda>b m. let a = trim_space (be_attached_to b) in if a = [] then m else put (fn_id b) a m"
  have "set (fold ?f bs m) = set m \<union> {(fn_id b, trim_space (be_attached_to b)) |b. b \<in> set bs \<and> trim_space (be_attached_to b) \<noteq> []}"
    if "distinct (map fn_id bs)" "fst ` set m \<inter> fn_id ` set bs = {}" for m
    using that
  proof (induction bs arbitrary: m)
    case (Cons b bs)
    let ?a = "trim_space (be_attached_to b)"
    have put: "put (fn_id b) ?a m = m @ [(fn_id b, ?a)]"
      using Cons.prems(2) by (intro put_fresh) (auto simp: image_iff)
    show ?case
      using Cons.IH [of m] Cons.IH [of "m @ [(fn_id b, ?a)]"] Cons.prems by (auto simp: put Let_def)
  qed simp
  from this [OF assms, of "[]"] show ?thesis by (simp add: boundary_targets_def)
qed

text \<open>Boundary events hang at the activity they name. When the node ids of the process are distinct, the
  boundary events of a step are those whose \<open>attachedToRef\<close> is the id of the step, whatever the order in which the
  parser's loop visits them.\<close>

theorem boundary_events_hang_at_their_activity:
  assumes "parse_definitions pe d = Inr wfd" and "p = df_process d"
    and "distinct (node_ids (bp_elements p) (bp_sub_processes p @ bp_transactions p))"
    and "\<forall>m. set (pe_refs_order pe m) = set m" and "s \<in> set (wf_steps wfd)"
  shows "set (st_boundary_refs s) = {trim_space (fn_id b) |b. b \<in> set (el_boundary_events (bp_elements p)) \<and>
     trim_space (fn_id b) \<noteq> [] \<and> trim_space (be_attached_to b) = st_id s \<and> st_id s \<noteq> []}"
proof -
  let ?el = "bp_elements p" and ?refs = "buildElementRefs d"
  from assms(1,2) have "parseFlowElements pe ?refs ?el (sub_results pe ?refs (bp_sub_processes p) (bp_transactions p)) =
    Inr (wf_steps wfd)" by (auto simp: parse_definitions_def sub_results_def Let_def split: sum.splits)
  then obtain us where us: "sub_results pe ?refs (bp_sub_processes p) (bp_transactions p) = map Inr us" and
    c: "connect_flows pe (el_flows ?el) (attach_boundaries pe (el_boundary_events ?el) (element_steps pe ?refs ?el @ us)) =
      Inr (wf_steps wfd)" by (auto simp: parseFlowElements_def all_right_Inr split: sum.splits)
  define ss where "ss = element_steps pe ?refs ?el @ us"
  define as where "as = attach_boundaries pe (el_boundary_events ?el) ss"
  have ids: "map st_id ss = node_ids ?el (bp_sub_processes p @ bp_transactions p)" "map st_id as = map st_id ss"
    using sub_results_Inr [OF us] by (simp_all add: as_def ss_def attach_boundaries_fields element_steps_ids node_ids_def)
  have wf: "map st_id (wf_steps wfd) = map st_id as" "map st_boundary_refs (wf_steps wfd) = map st_boundary_refs as"
    using connect_flows_Inr [OF c] by (simp_all add: as_def ss_def)
  from assms(5) obtain k where k: "k < length (wf_steps wfd)" "s = wf_steps wfd ! k" by (metis in_set_conv_nth)
  then have len: "k < length as" "k < length ss" using wf(1) ids(2) by (metis length_map)+
  have s: "st_id s = st_id (ss ! k)" "st_boundary_refs s = st_boundary_refs (as ! k)"
    using k len wf ids(2) by (metis nth_map)+
  have "st_boundary_refs u = []" if "u \<in> set us" for u
  proof -
    from that us have "Inr u \<in> set (sub_results pe ?refs (bp_sub_processes p) (bp_transactions p))" by simp
    then obtain tx sp where "parse_sub_process pe ?refs tx sp = Inr u" by (auto simp: sub_results_def dest: sym)
    then show ?thesis by (cases sp) (auto simp: sub_process_step_fields split: sum.splits)
  qed
  then have "st_boundary_refs (ss ! k) = []"
    using nth_mem [OF len(2)] element_steps_fresh by (auto simp: ss_def)
  moreover have "distinct (map fn_id (el_boundary_events ?el))"
    using assms(3) by (simp add: node_ids_def element_ids_def)
  ultimately have "set (st_boundary_refs (as ! k)) = {trim_space (fn_id b) |b. b \<in> set (el_boundary_events ?el) \<and>
     trim_space (be_attached_to b) \<noteq> [] \<and> trim_space (fn_id b) \<noteq> [] \<and> step_index (trim_space (be_attached_to b)) ss = Some k}"
    using fold_attach_refs [OF len(2)] assms(4) boundary_targets_set
    by (auto simp: as_def attach_boundaries_def)
  moreover have "distinct (map st_id ss)" using assms(3) ids(1) by simp
  ultimately show ?thesis using step_index_distinct [OF _ len(2)] by (auto simp: s)
qed

section \<open>An example\<close>

text \<open>A start event, a service task with a message boundary event, and an end event in a sub-process.\<close>

definition plain_node :: "string \<Rightarrow> flow_node" where
  "plain_node i = \<lparr>fn_id = i, fn_name = i, fn_extensions = None\<rparr>"

definition plain_activity :: "string \<Rightarrow> activity" where
  "plain_activity i = \<lparr>fn_id = i, fn_name = i, fn_extensions = None, ac_loop = None, ac_af_collection = [],
     ac_plain_collection = [], ac_af_element_variable = [], ac_plain_element_variable = [], ac_af_is_sequential = [],
     ac_plain_is_sequential = []\<rparr>"

definition connection :: "string \<Rightarrow> string \<Rightarrow> string \<Rightarrow> sequence_flow" where
  "connection i a b = \<lparr>sf_id = i, sf_source = a, sf_target = b, sf_expression = Some ''${amount > 10}'', sf_af_condition = [],
     sf_plain_condition = []\<rparr>"

definition example_file :: definitions where
  "example_file = \<lparr>df_process = \<lparr>bp_id = ''order'', bp_name = ''Order'',
       bp_elements = no_elements\<lparr>el_manual_tasks := [plain_activity ''pack'', plain_activity ''ship''],
         el_boundary_events := [\<lparr>fn_id = ''late'', fn_name = ''Late'', fn_extensions = None, be_attached_to = '' pack '',
           be_cancel_activity = ''false'', be_af_timer_duration = [], be_plain_timer_duration = ''PT1H'',
           be_af_correlation_key = [], be_plain_correlation_key = [], be_af_error_code = [], be_plain_error_code = [],
           be_af_error_message = [], be_plain_error_message = [], be_timer = None, be_message = None, be_signal = None,
           be_error = None, be_compensate = None, be_escalation = None, be_conditional = None, be_cancel = False\<rparr>],
         el_parallel_gateways := [plain_node ''join''],
         el_flows := [connection ''f1'' ''pack'' ''join'', connection ''f2'' ''ship'' '' join'', connection ''f3'' ''pack'' ''join'']\<rparr>,
       bp_sub_processes = [SubProcess (plain_activity ''sub'') [] (no_elements\<lparr>el_manual_tasks := [plain_activity ''in'']\<rparr>) [] []],
       bp_transactions = []\<rparr>,
     df_messages = [], df_signals = [], df_errors = [], df_escalations = []\<rparr>"

definition example_parser :: parser_env where
  "example_parser = \<lparr>pe_decode = (\<lambda>_. Inr example_file), pe_unescape = (\<lambda>s. s), pe_json_strings = (\<lambda>_. None),
     pe_json_values = (\<lambda>_. None), pe_props_order = (\<lambda>m. m), pe_refs_order = rev\<rparr>"

definition example_steps :: "step list" where
  "example_steps = (case parse_definitions example_parser example_file of Inl _ \<Rightarrow> [] | Inr w \<Rightarrow> wf_steps w)"

lemma example_parses: "case parse_definitions example_parser example_file of Inl _ \<Rightarrow> False | Inr w \<Rightarrow> True"
  by code_simp

lemma example_result:
  obtains wfd where "parse_definitions example_parser example_file = Inr wfd" "wf_steps wfd = example_steps"
  using example_parses by (auto simp: example_steps_def split: sum.splits)

lemma example_ids: "distinct (node_ids (bp_elements (df_process example_file))
    (bp_sub_processes (df_process example_file) @ bp_transactions (df_process example_file)))"
  by code_simp

lemma example_join: "example_steps ! 3 \<in> set example_steps \<and> st_id (example_steps ! 3) = ''join'' \<and>
    map tr_target (st_outgoing (example_steps ! 0)) = [''join'', ''join''] \<and> st_id (example_steps ! 0) = ''pack''"
  by code_simp

theorem parsed_scopes_are_linked_witness:
  "distinct (st_incoming (example_steps ! 3)) \<and> st_id (example_steps ! 3) = ''join''"
proof -
  obtain wfd where w: "parse_definitions example_parser example_file = Inr wfd" "wf_steps wfd = example_steps"
    by (rule example_result)
  then have "bpmn_Parse example_parser [] = Inr wfd" by (simp add: bpmn_Parse_def example_parser_def)
  from parsed_scopes_are_linked [OF this, of example_steps] w have "linked example_steps" by (simp add: scopes_def)
  with example_join show ?thesis unfolding linked_def by blast
qed

theorem parsed_steps_follow_the_file_witness:
  "map st_id example_steps = [''pack'', ''ship'', ''late'', ''join'', ''sub'']"
proof -
  obtain wfd where w: "parse_definitions example_parser example_file = Inr wfd" "wf_steps wfd = example_steps"
    by (rule example_result)
  have "node_ids (bp_elements (df_process example_file)) (bp_sub_processes (df_process example_file) @
    bp_transactions (df_process example_file)) = [''pack'', ''ship'', ''late'', ''join'', ''sub'']" by code_simp
  with parsed_steps_follow_the_file [OF w(1) refl example_ids] w(2) show ?thesis by simp
qed

theorem boundary_events_hang_at_their_activity_witness: "set (st_boundary_refs (example_steps ! 0)) = {''late''}"
proof -
  obtain wfd where w: "parse_definitions example_parser example_file = Inr wfd" "wf_steps wfd = example_steps"
    by (rule example_result)
  have o: "\<forall>m. set (pe_refs_order example_parser m) = set m" by (simp add: example_parser_def)
  have m: "example_steps ! 0 \<in> set (wf_steps wfd)" unfolding w(2) by code_simp
  have "st_id (example_steps ! 0) = ''pack''" "trim_space '' pack '' = ''pack''" "trim_space ''late'' = ''late''" by code_simp+
  with boundary_events_hang_at_their_activity [OF w(1) refl example_ids o m] show ?thesis
    by (simp add: example_file_def no_elements_def)
qed

end
