(* ===== verification/Auth.thy ===== *)
theory Auth
  imports Timers
begin

text \<open>
  Who calls: principals and roles, the mapping of token claims to a principal, token introspection, the
  configuration, and the middleware that authenticates a request (\<open>backend/libs/auth\<close>).

  What comes from outside is the record \<open>auth_env\<close>: the clock, the answer of the introspection endpoint (its body as
  \<open>json.Unmarshal\<close> reads it), provider discovery and the verification of a JWT (\<open>coreos/go-oidc\<close>), and \<open>url.Parse\<close>.
  Environment variables and credential files are arguments of \<open>ResolveConfigFromEnv\<close>. Claims are lists of pairs; where
  the code ranges over a map the order of the list stands for the order Go happens to take.
\<close>

section \<open>Strings\<close>

text \<open>\<open>strings.Split\<close> at one character, \<open>strings.EqualFold\<close>.\<close>

fun split_at_char :: "char \<Rightarrow> string \<Rightarrow> string list" where
  "split_at_char c [] = [[]]"
| "split_at_char c (x # xs) = (if x = c then [] # split_at_char c xs
     else (case split_at_char c xs of [] \<Rightarrow> [[x]] | p # ps \<Rightarrow> (x # p) # ps))"

definition equal_fold :: "string \<Rightarrow> string \<Rightarrow> bool" where
  "equal_fold a b \<longleftrightarrow> to_lower a = to_lower b"

definition splitAndTrim :: "string \<Rightarrow> string list" where
  "splitAndTrim raw = filter (\<lambda>p. p \<noteq> []) (map trim_space (split_at_char CHR '','' raw))"

fun dedupe_from :: "string list \<Rightarrow> string list \<Rightarrow> string list" where
  "dedupe_from seen [] = []"
| "dedupe_from seen (v # vs) = (let t = trim_space v in
     if t = [] \<or> t \<in> set seen then dedupe_from seen vs else t # dedupe_from (t # seen) vs)"

definition dedupeStrings :: "string list \<Rightarrow> string list" where
  "dedupeStrings vs = dedupe_from [] vs"

text \<open>The \<open>firstNonEmpty\<close> of this package.\<close>

definition first_trimmed :: "string list \<Rightarrow> string" where
  "first_trimmed vs = (case List.find (\<lambda>v. trim_space v \<noteq> []) vs of Some v \<Rightarrow> trim_space v | None \<Rightarrow> [])"

section \<open>Principals and roles\<close>

record principal =
  pl_subject :: string
  pl_issuer :: string
  pl_audience :: "string list"
  pl_email :: string
  pl_name :: string
  pl_tenant :: string
  pl_roles :: "string list"
  pl_scopes :: "string list"
  pl_token_mode :: string
  pl_claims :: vars

definition RoleArtificialFlowAdmin :: string where "RoleArtificialFlowAdmin = ''artificialflow admin''"
definition RoleArtificialFlowModeler :: string where "RoleArtificialFlowModeler = ''artificialflow modeler''"
definition RoleArtificialFlowClient :: string where "RoleArtificialFlowClient = ''artificialflow client''"

definition StandardRoles :: "string list" where
  "StandardRoles = [RoleArtificialFlowAdmin, RoleArtificialFlowModeler, RoleArtificialFlowClient]"

definition CanonicalRole :: "string \<Rightarrow> string" where
  "CanonicalRole role = (let t = trim_space role in
     if equal_fold t RoleArtificialFlowAdmin then RoleArtificialFlowAdmin
     else if equal_fold t RoleArtificialFlowModeler then RoleArtificialFlowModeler
     else if equal_fold t RoleArtificialFlowClient then RoleArtificialFlowClient else t)"

fun canonical_from :: "string list \<Rightarrow> string list \<Rightarrow> string list" where
  "canonical_from seen [] = []"
| "canonical_from seen (r # rs) = (let n = CanonicalRole r; key = to_lower n in
     if n = [] \<or> key \<in> set seen then canonical_from seen rs else n # canonical_from (key # seen) rs)"

definition CanonicalizeRoles :: "string list \<Rightarrow> string list" where
  "CanonicalizeRoles roles = canonical_from [] roles"

definition IsStandardRole :: "string \<Rightarrow> bool" where
  "IsStandardRole role \<longleftrightarrow> CanonicalRole role \<in> set StandardRoles"

definition HasRole :: "principal \<Rightarrow> string \<Rightarrow> bool" where
  "HasRole p role = (let required = CanonicalRole role in
     required \<noteq> [] \<and> list_ex (\<lambda>c. equal_fold (CanonicalRole c) required) (pl_roles p))"

definition HasAnyRole :: "principal \<Rightarrow> string list \<Rightarrow> bool" where
  "HasAnyRole p roles = list_ex (HasRole p) roles"

section \<open>Configuration\<close>

record auth_config =
  cf_internal_issuer :: string
  cf_external_issuer :: string
  cf_client_id :: string
  cf_client_id_file :: string
  cf_token_mode :: string
  cf_introspection_url :: string
  cf_introspection_client_id :: string
  cf_introspection_secret :: string
  cf_introspection_auth_method :: string
  cf_introspection_client_id_file :: string
  cf_introspection_secret_file :: string
  cf_enforce_audience :: bool
  cf_allow_insecure_issuer :: bool
  cf_subject_path :: string
  cf_roles_path :: string
  cf_scopes_path :: string
  cf_tenant_path :: string
  cf_email_path :: string
  cf_name_path :: string

definition Enabled :: "auth_config \<Rightarrow> bool" where
  "Enabled c \<longleftrightarrow> trim_space (if cf_token_mode c = ''introspection'' then cf_introspection_url c else cf_internal_issuer c) \<noteq> []"

definition normalizeTokenMode :: "string \<Rightarrow> string" where
  "normalizeTokenMode raw = (if to_lower (trim_space raw) \<in> {''introspection'', ''opaque''} then ''introspection'' else ''jwt'')"

definition normalizeIntrospectionAuthMethod :: "string \<Rightarrow> string" where
  "normalizeIntrospectionAuthMethod raw = (if to_lower (trim_space raw) = ''post'' then ''post'' else ''basic'')"

text \<open>Environment variables are a function, empty when unset.\<close>

definition envBoolOrDefault :: "(string \<Rightarrow> string) \<Rightarrow> string \<Rightarrow> bool \<Rightarrow> bool" where
  "envBoolOrDefault getenv key d = (let v = trim_space (to_lower (getenv key)) in
     if v \<in> {''1'', ''true'', ''yes'', ''on''} then True
     else if v \<in> {''0'', ''false'', ''no'', ''off''} then False else d)"

text \<open>Seconds; \<open>strconv.Atoi\<close> is \<open>ParseInt\<close> on the 64-bit machines the services run on.\<close>

definition envDurationSeconds :: "(string \<Rightarrow> string) \<Rightarrow> string \<Rightarrow> int" where
  "envDurationSeconds getenv key = (let raw = trim_space (getenv key) in
     if raw = [] then 0 else (case parse_int raw of Inl _ \<Rightarrow> 0 | Inr n \<Rightarrow> if n \<le> 0 then 0 else n))"

text \<open>The parameter \<open>cred\<close> is \<open>readDeploymentCredentialFile\<close>: what a file holds within so many seconds.\<close>

definition ResolveConfigFromEnv :: "(string \<Rightarrow> string) \<Rightarrow> (string \<Rightarrow> int \<Rightarrow> string) \<Rightarrow> auth_config" where
  "ResolveConfigFromEnv getenv cred =
     (let env1 = (\<lambda>k. trim_space (getenv k));
          env2 = (\<lambda>k d. first_trimmed [getenv k, d]);
          file_timeout = envDurationSeconds getenv ''AUTH_INTROSPECTION_CREDENTIAL_FILE_TIMEOUT_SECONDS'';
          id_timeout0 = envDurationSeconds getenv ''AUTH_CLIENT_ID_FILE_TIMEOUT_SECONDS'';
          id_timeout = (if id_timeout0 = 0 then file_timeout else id_timeout0);
          id_file = env1 ''AUTH_CLIENT_ID_FILE'';
          id0 = env1 ''AUTH_CLIENT_ID'';
          id1 = (if id0 = [] \<and> id_file \<noteq> [] then cred id_file id_timeout else id0);
          id2 = (if id1 = [] \<and> id_file = [] then ''workflow-backend'' else id1);
          in_file = env1 ''AUTH_INTROSPECTION_CLIENT_ID_FILE'';
          in0 = env1 ''AUTH_INTROSPECTION_CLIENT_ID'';
          in1 = (if in0 = [] \<and> in_file \<noteq> [] then cred in_file file_timeout else in0);
          sec_file = env1 ''AUTH_INTROSPECTION_CLIENT_SECRET_FILE'';
          sec0 = env1 ''AUTH_INTROSPECTION_CLIENT_SECRET'';
          sec1 = (if sec0 = [] \<and> sec_file \<noteq> [] then cred sec_file file_timeout else sec0);
          internal0 = env1 ''AUTH_ISSUER_INTERNAL_URL''; external0 = env1 ''AUTH_ISSUER_PUBLIC_URL'';
          internal = (if internal0 = [] then external0 else internal0);
          external = (if external0 = [] then internal else external0);
          in2 = (if in1 = [] \<and> in_file = [] then id2 else in1)
      in \<lparr>cf_internal_issuer = internal, cf_external_issuer = external, cf_client_id = id2, cf_client_id_file = id_file,
          cf_token_mode = normalizeTokenMode (env2 ''AUTH_TOKEN_MODE'' ''jwt''),
          cf_introspection_url = env1 ''AUTH_INTROSPECTION_URL'', cf_introspection_client_id = in2,
          cf_introspection_secret = sec1,
          cf_introspection_auth_method = normalizeIntrospectionAuthMethod (env2 ''AUTH_INTROSPECTION_AUTH_METHOD'' ''basic''),
          cf_introspection_client_id_file = in_file, cf_introspection_secret_file = sec_file,
          cf_enforce_audience = envBoolOrDefault getenv ''AUTH_ENFORCE_AUDIENCE'' True,
          cf_allow_insecure_issuer = envBoolOrDefault getenv ''AUTH_ALLOW_INSECURE_ISSUER'' False,
          cf_subject_path = env2 ''AUTH_CLAIM_SUBJECT_PATH'' ''sub'',
          cf_roles_path = env2 ''AUTH_CLAIM_ROLES_PATH'' ''roles,realm_access.roles,groups'',
          cf_scopes_path = env2 ''AUTH_CLAIM_SCOPES_PATH'' ''scope,scp'',
          cf_tenant_path = env2 ''AUTH_CLAIM_TENANT_PATH'' ''tenant_id'',
          cf_email_path = env2 ''AUTH_CLAIM_EMAIL_PATH'' ''email'',
          cf_name_path = env2 ''AUTH_CLAIM_NAME_PATH'' ''name''\<rparr>)"

section \<open>Claims\<close>

fun claim_walk :: "val \<Rightarrow> string list \<Rightarrow> val option" where
  "claim_walk current [] = Some current"
| "claim_walk current (p # ps) = (case current of
     VMap m \<Rightarrow> (case map_of m (trim_space p) of None \<Rightarrow> None | Some v \<Rightarrow> claim_walk v ps)
   | _ \<Rightarrow> None)"

definition claimByPath :: "vars \<Rightarrow> string \<Rightarrow> val option" where
  "claimByPath claims path0 = (let path = trim_space path0 in
     if path = [] then None else claim_walk (VMap claims) (split_at_char CHR ''.'' path))"

definition valueAsString :: "val \<Rightarrow> string" where
  "valueAsString v = (case v of VStr s \<Rightarrow> trim_space s | _ \<Rightarrow> [])"

definition valueAsStringSlice :: "val \<Rightarrow> string list" where
  "valueAsStringSlice v = (case v of
     VStr s \<Rightarrow> (let t = trim_space s in
       if t = [] then [] else dedupeStrings (concat (map (split_at_char CHR '' '') (split_at_char CHR '','' t))))
   | VList vs \<Rightarrow> dedupeStrings (filter (\<lambda>s. s \<noteq> []) (map valueAsString vs))
   | _ \<Rightarrow> [])"

definition valueAsRoleSlice :: "val \<Rightarrow> string list" where
  "valueAsRoleSlice v = (case v of
     VStr s \<Rightarrow> (let t = trim_space s in if t = [] then [] else dedupeStrings (split_at_char CHR '','' t))
   | VMap m \<Rightarrow> dedupeStrings (map fst m)
   | _ \<Rightarrow> valueAsStringSlice v)"

definition claimZitadelProjectIDRoles :: "vars \<Rightarrow> string list" where
  "claimZitadelProjectIDRoles claims =
     (let pre = ''urn:zitadel:iam:org:project:''; suf = '':roles'' in
      dedupeStrings (concat (map (\<lambda>(key, v).
        if has_prefix key pre \<and> has_suffix key suf \<and>
           (let rest = drop (length pre) key in
            (if has_suffix rest suf then take (length rest - length suf) rest else rest) \<noteq> [])
        then valueAsRoleSlice v else []) claims)))"

definition first_some :: "('a \<Rightarrow> 'b list) \<Rightarrow> 'a list \<Rightarrow> 'b list" where
  "first_some f xs = (case List.find (\<lambda>x. f x \<noteq> []) xs of Some x \<Rightarrow> f x | None \<Rightarrow> [])"

definition claimFirstString :: "vars \<Rightarrow> string \<Rightarrow> string" where
  "claimFirstString claims paths = first_some (\<lambda>p. case claimByPath claims p of
     Some v \<Rightarrow> valueAsString v | None \<Rightarrow> []) (splitAndTrim paths)"

definition claimFirstStringSlice :: "vars \<Rightarrow> string \<Rightarrow> string list" where
  "claimFirstStringSlice claims paths = first_some (\<lambda>p. case claimByPath claims p of
     Some v \<Rightarrow> valueAsStringSlice v | None \<Rightarrow> []) (splitAndTrim paths)"

definition claimFirstRoleSlice :: "vars \<Rightarrow> string \<Rightarrow> string list" where
  "claimFirstRoleSlice claims paths = first_some (\<lambda>p. case claimByPath claims p of
       Some v \<Rightarrow> valueAsRoleSlice v
     | None \<Rightarrow> if p = ''urn:zitadel:iam:org:project:roles'' then claimZitadelProjectIDRoles claims else [])
     (splitAndTrim paths)"

definition principalFromClaims :: "vars \<Rightarrow> string \<Rightarrow> auth_config \<Rightarrow> string \<Rightarrow> principal" where
  "principalFromClaims claims fallback cfg mode =
     (let subject = first_trimmed [claimFirstString claims (cf_subject_path cfg), fallback];
          roles = claimFirstRoleSlice claims (cf_roles_path cfg);
          scopes = claimFirstStringSlice claims (cf_scopes_path cfg)
      in \<lparr>pl_subject = (if subject = [] then claimFirstString claims ''sub'' else subject), pl_issuer = [],
          pl_audience = dedupeStrings (claimFirstStringSlice claims ''aud''),
          pl_email = claimFirstString claims (cf_email_path cfg), pl_name = claimFirstString claims (cf_name_path cfg),
          pl_tenant = claimFirstString claims (cf_tenant_path cfg),
          pl_roles = CanonicalizeRoles (if roles = [] then claimFirstRoleSlice claims ''roles,realm_access.roles,groups'' else roles),
          pl_scopes = dedupeStrings (if scopes = [] then claimFirstStringSlice claims ''scope,scp'' else scopes),
          pl_token_mode = mode, pl_claims = claims\<rparr>)"

section \<open>What comes from outside\<close>

record url =
  u_scheme :: string
  u_host :: string
  u_userinfo :: bool
  u_text :: string

text \<open>A request to the introspection endpoint: target, \<open>Host\<close> header, form and basic credentials.\<close>

record intro_request =
  iq_url :: string
  iq_host :: string
  iq_form :: "(string \<times> string) list"
  iq_basic :: "(string \<times> string) option"

text \<open>Its answer: no connection, a body that cannot be read, or a status and a body.\<close>

datatype intro_answer = Unreachable go_err | Unreadable go_err | Answered int "go_err + vars"

text \<open>A JWT that \<open>go-oidc\<close> accepted: signature, expiry, issuer and, unless skipped, the audience are checked there.\<close>

record id_token =
  it_subject :: string
  it_issuer :: string
  it_audience :: "string list"
  it_claims :: "go_err + vars"

text \<open>
  \<open>oidc_discover issuer attempt\<close> is \<open>oidc.NewProvider\<close>; \<open>oidc_verify issuer client_id skip token\<close> is the verification of
  the provider found there, with \<open>ClientID\<close> and \<open>SkipClientIDCheck\<close>.
\<close>

record auth_env =
  ae_url_parse :: "string \<Rightarrow> go_err + url"
  ae_introspect :: "intro_request \<Rightarrow> intro_answer"
  oidc_discover :: "string \<Rightarrow> nat \<Rightarrow> go_err option"
  oidc_verify :: "string \<Rightarrow> string \<Rightarrow> bool \<Rightarrow> string \<Rightarrow> go_err + id_token"

section \<open>Token introspection\<close>

definition valueAsBool :: "val option \<Rightarrow> bool" where
  "valueAsBool v = (case v of
       Some (VBool b) \<Rightarrow> b
     | Some (VStr s) \<Rightarrow> trim_space (to_lower s) \<in> {''true'', ''1'', ''yes'', ''on''}
     | Some (VFloat q) \<Rightarrow> q \<noteq> 0
     | _ \<Rightarrow> False)"

definition numericDate :: "val option \<Rightarrow> int option" where
  "numericDate v = (case v of
       Some (VFloat q) \<Rightarrow> Some (int_of_f64 q)
     | Some (VStr s) \<Rightarrow> map_option (\<lambda>t. t div 1000000000) (parse_rfc3339 (trim_space s))
     | _ \<Rightarrow> None)"

text \<open>\<open>now.Before(time.Unix(e, 0))\<close>: a \<open>time.Time\<close> counts seconds from year 1 in an \<open>int64\<close>.\<close>

definition before_unix :: "int \<Rightarrow> int \<Rightarrow> bool" where
  "before_unix now e \<longleftrightarrow> now div 1000000000 + 62135596800 < wrap64 (e + 62135596800)"

definition validateIntrospectionTimes :: "vars \<Rightarrow> int \<Rightarrow> go_err option" where
  "validateIntrospectionTimes claims now =
     (if (case numericDate (map_of claims ''exp'') of Some e \<Rightarrow> \<not> before_unix now e | None \<Rightarrow> False)
      then Some (Msg ''expired token'')
      else if (case numericDate (map_of claims ''nbf'') of Some e \<Rightarrow> before_unix now e | None \<Rightarrow> False)
      then Some (Msg ''token is not active yet'') else None)"

definition claim_string :: "vars \<Rightarrow> string \<Rightarrow> string" where
  "claim_string claims k = (case map_of claims k of Some v \<Rightarrow> valueAsString v | None \<Rightarrow> [])"

definition audience_ok :: "auth_config \<Rightarrow> string list \<Rightarrow> vars \<Rightarrow> bool" where
  "audience_ok cfg audience claims \<longleftrightarrow>
     \<not> cf_enforce_audience cfg \<or> trim_space (cf_client_id cfg) = [] \<or>
     list_ex (\<lambda>aud. equal_fold (trim_space aud) (trim_space (cf_client_id cfg))) audience \<or>
     equal_fold (trim_space (claim_string claims ''client_id'')) (trim_space (cf_client_id cfg)) \<or>
     equal_fold (trim_space (claim_string claims ''azp'')) (trim_space (cf_client_id cfg))"

definition introspection_principal :: "auth_config \<Rightarrow> int \<Rightarrow> vars \<Rightarrow> go_err + principal" where
  "introspection_principal cfg now claims =
     (if \<not> valueAsBool (map_of claims ''active'') then Inl (Msg ''inactive token'')
      else (case validateIntrospectionTimes claims now of
          Some e \<Rightarrow> Inl e
        | None \<Rightarrow>
          (let subject = first_trimmed [claim_string claims ''sub'', claim_string claims ''username''] in
           if subject = [] then Inl (Msg ''active token has no subject'')
           else let p = principalFromClaims claims subject cfg ''introspection'';
                    iss = claim_string claims ''iss'';
                    p1 = (if iss \<noteq> [] then p\<lparr>pl_issuer := iss\<rparr> else p);
                    p2 = (if pl_audience p1 = [] then p1\<lparr>pl_audience := claimFirstStringSlice claims ''aud,client_id,azp''\<rparr> else p1)
                in if audience_ok cfg (pl_audience p2) claims then Inr p2
                   else Inl (Msg ''token audience/client mismatch''))))"

definition introspectionRequestHost :: "auth_env \<Rightarrow> auth_config \<Rightarrow> string \<Rightarrow> string" where
  "introspectionRequestHost ae cfg target =
     (if \<not> cf_allow_insecure_issuer cfg \<or> trim_space (cf_external_issuer cfg) = [] then []
      else (case ae_url_parse ae (trim_space target) of
          Inl _ \<Rightarrow> []
        | Inr internal \<Rightarrow> (case ae_url_parse ae (trim_space (cf_external_issuer cfg)) of
            Inl _ \<Rightarrow> []
          | Inr external \<Rightarrow> if u_host external = [] \<or> u_host internal = u_host external then [] else u_host external)))"

definition introspection_request :: "auth_env \<Rightarrow> auth_config \<Rightarrow> string \<Rightarrow> string \<Rightarrow> intro_request" where
  "introspection_request ae cfg target token =
     (let post = equal_fold (cf_introspection_auth_method cfg) ''post'';
          cid = cf_introspection_client_id cfg; secret = cf_introspection_secret cfg
      in \<lparr>iq_url = target, iq_host = introspectionRequestHost ae cfg target,
          iq_form = (''token'', token) #
            (if post \<and> cid \<noteq> [] then [(''client_id'', cid)] else []) @
            (if post \<and> secret \<noteq> [] then [(''client_secret'', secret)] else []),
          iq_basic = (if \<not> post \<and> cid \<noteq> [] then Some (cid, secret) else None)\<rparr>)"

definition introspection_Verify :: "auth_env \<Rightarrow> auth_config \<Rightarrow> string \<Rightarrow> int \<Rightarrow> string \<Rightarrow> go_err + principal" where
  "introspection_Verify ae cfg target now token =
     (case ae_introspect ae (introspection_request ae cfg target token) of
        Unreachable e \<Rightarrow> Inl (Wrapf ''token introspection request failed'' e)
      | Unreadable e \<Rightarrow> Inl (Wrapf ''read introspection response'' e)
      | Answered status body \<Rightarrow>
          if status \<noteq> 200 then Inl (Msg (''token introspection failed with status='' @ show_int status))
          else (case body of
              Inl e \<Rightarrow> Inl (Wrapf ''decode introspection response'' e)
            | Inr claims \<Rightarrow> introspection_principal cfg now claims))"

section \<open>JWT\<close>

definition jwt_Verify :: "auth_env \<Rightarrow> auth_config \<Rightarrow> string \<Rightarrow> string \<Rightarrow> go_err + principal" where
  "jwt_Verify ae cfg issuer token =
     (case oidc_verify ae issuer (cf_client_id cfg) (\<not> cf_enforce_audience cfg) token of
        Inl e \<Rightarrow> Inl e
      | Inr idt \<Rightarrow> (case it_claims idt of
          Inl e \<Rightarrow> Inl (Wrapf ''failed to parse claims'' e)
        | Inr claims \<Rightarrow> (let p = principalFromClaims claims (it_subject idt) cfg ''jwt'' in
            Inr (p\<lparr>pl_issuer := trim_space (it_issuer idt), pl_audience := dedupeStrings (pl_audience p @ it_audience idt)\<rparr>))))"

definition newIssuerRewriteHTTPClient :: "auth_env \<Rightarrow> string \<Rightarrow> string \<Rightarrow> go_err + (url \<times> url)" where
  "newIssuerRewriteHTTPClient ae external internal =
     (case ae_url_parse ae external of
        Inl e \<Rightarrow> Inl (Wrapf ''parse external issuer URL'' e)
      | Inr ext \<Rightarrow> (case ae_url_parse ae internal of
          Inl e \<Rightarrow> Inl (Wrapf ''parse internal issuer URL'' e)
        | Inr int_url \<Rightarrow>
            if u_scheme ext = [] \<or> u_host ext = [] then Inl (Msg ''external issuer URL must include scheme and host'')
            else if u_scheme int_url = [] \<or> u_host int_url = [] then Inl (Msg ''internal issuer URL must include scheme and host'')
            else Inr (ext, int_url)))"

text \<open>The target and \<open>Host\<close> header a request leaves with; an empty \<open>Host\<close> is the one of the target.\<close>

definition RoundTrip :: "url \<times> url \<Rightarrow> url \<Rightarrow> string \<Rightarrow> url \<times> string" where
  "RoundTrip t target host = (case t of (ext, int_url) \<Rightarrow>
     if u_scheme target = u_scheme ext \<and> u_host target = u_host ext
     then (target\<lparr>u_scheme := u_scheme int_url, u_host := u_host int_url\<rparr>, u_host ext) else (target, host))"

text \<open>Up to 30 attempts at discovery; the error is the last one.\<close>

fun discover :: "auth_env \<Rightarrow> string \<Rightarrow> nat \<Rightarrow> nat \<Rightarrow> go_err option" where
  "discover ae issuer attempt 0 = None"
| "discover ae issuer attempt (Suc n) = (case oidc_discover ae issuer attempt of
       None \<Rightarrow> None
     | Some e \<Rightarrow> if n = 0 then Some e else discover ae issuer (Suc attempt) n)"

definition newJWTVerifier :: "auth_env \<Rightarrow> auth_config \<Rightarrow> go_err + string" where
  "newJWTVerifier ae cfg =
     (if trim_space (cf_internal_issuer cfg) = [] then Inl (Msg ''AUTH_ISSUER_INTERNAL_URL is required for jwt token mode'')
      else let rewrite = cf_allow_insecure_issuer cfg \<and> cf_internal_issuer cfg \<noteq> cf_external_issuer cfg \<and> cf_external_issuer cfg \<noteq> [];
               issuer = (if rewrite then cf_external_issuer cfg else cf_internal_issuer cfg);
               client = (if rewrite then map_sum id Some (newIssuerRewriteHTTPClient ae (cf_external_issuer cfg) (cf_internal_issuer cfg)) else Inr None)
           in (case client of
               Inl e \<Rightarrow> Inl e
             | Inr _ \<Rightarrow> (case discover ae issuer 0 30 of
                 Some e \<Rightarrow> Inl (Wrapf ''failed to get provider'' e)
               | None \<Rightarrow> Inr issuer)))"

section \<open>The middleware\<close>

text \<open>A verifier: of introspection, with its normalised URL, or of JWTs, with the issuer it was discovered at.\<close>

datatype verifier = IntrospectionVerifier auth_config string | JwtVerifier auth_config string

definition validateIntrospectionURL :: "auth_env \<Rightarrow> string \<Rightarrow> go_err + string" where
  "validateIntrospectionURL ae raw = (case ae_url_parse ae raw of
       Inl e \<Rightarrow> Inl (Wrapf ''parse AUTH_INTROSPECTION_URL'' e)
     | Inr u \<Rightarrow>
         if u_scheme u \<noteq> ''http'' \<and> u_scheme u \<noteq> ''https'' then Inl (Msg ''AUTH_INTROSPECTION_URL must use http or https'')
         else if trim_space (u_host u) = [] then Inl (Msg ''AUTH_INTROSPECTION_URL must include a host'')
         else if u_userinfo u then Inl (Msg ''AUTH_INTROSPECTION_URL must not include userinfo'')
         else Inr (u_text u))"

definition newIntrospectionVerifier :: "auth_env \<Rightarrow> auth_config \<Rightarrow> go_err + verifier" where
  "newIntrospectionVerifier ae cfg = (let raw = trim_space (cf_introspection_url cfg) in
     if raw = [] then Inl (Msg ''AUTH_INTROSPECTION_URL is required when AUTH_TOKEN_MODE=introspection'')
     else (case validateIntrospectionURL ae raw of
         Inl e \<Rightarrow> Inl e
       | Inr u \<Rightarrow> Inr (IntrospectionVerifier (cfg\<lparr>cf_introspection_url := u\<rparr>) u)))"

definition buildVerifier :: "auth_env \<Rightarrow> auth_config \<Rightarrow> go_err + verifier" where
  "buildVerifier ae cfg =
     (if cf_token_mode cfg = ''introspection'' then newIntrospectionVerifier ae cfg
      else (case newJWTVerifier ae cfg of Inl e \<Rightarrow> Inl e | Inr issuer \<Rightarrow> Inr (JwtVerifier cfg issuer)))"

definition Verify :: "auth_env \<Rightarrow> verifier \<Rightarrow> int \<Rightarrow> string \<Rightarrow> go_err + principal" where
  "Verify ae v now token = (case v of
       IntrospectionVerifier cfg target \<Rightarrow> introspection_Verify ae cfg target now token
     | JwtVerifier cfg issuer \<Rightarrow> jwt_Verify ae cfg issuer token)"

definition fingerprint_parts :: "auth_config \<Rightarrow> string list" where
  "fingerprint_parts c =
     [trim_space (cf_internal_issuer c), trim_space (cf_external_issuer c), trim_space (cf_client_id c),
      trim_space (cf_token_mode c), trim_space (cf_introspection_url c), trim_space (cf_introspection_client_id c),
      cf_introspection_secret c, trim_space (cf_introspection_auth_method c), trim_space (cf_subject_path c),
      trim_space (cf_roles_path c), trim_space (cf_scopes_path c), trim_space (cf_tenant_path c),
      trim_space (cf_email_path c), trim_space (cf_name_path c),
      if cf_enforce_audience c then ''audience:on'' else ''audience:off'',
      if cf_allow_insecure_issuer c then ''issuer:insecure'' else ''issuer:strict'']"

definition configFingerprint :: "auth_config \<Rightarrow> string" where
  "configFingerprint c = join_with ''|'' (fingerprint_parts c)"

record middleware =
  mw_public :: "string set"
  mw_verifier :: "(verifier \<times> string) option"

definition getVerifier :: "auth_env \<Rightarrow> middleware \<Rightarrow> auth_config \<Rightarrow> go_err + (verifier \<times> middleware)" where
  "getVerifier ae m cfg =
     (case mw_verifier m of
        Some (v, f) \<Rightarrow> if f = configFingerprint cfg then Inr (v, m)
          else (case buildVerifier ae cfg of Inl e \<Rightarrow> Inl e
            | Inr v' \<Rightarrow> Inr (v', m\<lparr>mw_verifier := Some (v', configFingerprint cfg)\<rparr>))
      | None \<Rightarrow> (case buildVerifier ae cfg of Inl e \<Rightarrow> Inl e
            | Inr v' \<Rightarrow> Inr (v', m\<lparr>mw_verifier := Some (v', configFingerprint cfg)\<rparr>)))"

text \<open>\<open>provided\<close> is what the configuration provider returned.\<close>

definition NewDynamicMiddleware :: "auth_env \<Rightarrow> go_err + auth_config \<Rightarrow> string list \<Rightarrow> go_err + middleware" where
  "NewDynamicMiddleware ae provided paths = (case provided of
       Inl e \<Rightarrow> Inl e
     | Inr cfg \<Rightarrow>
         (let m = \<lparr>mw_public = insert ''/health'' (set (filter (\<lambda>p. p \<noteq> []) (map trim_space paths))), mw_verifier = None\<rparr> in
          if Enabled cfg then (case buildVerifier ae cfg of
              Inl e \<Rightarrow> Inl e
            | Inr v \<Rightarrow> Inr (m\<lparr>mw_verifier := Some (v, configFingerprint cfg)\<rparr>))
          else Inr m))"

definition disabledAuthPrincipal :: principal where
  "disabledAuthPrincipal = \<lparr>pl_subject = ''local-disabled-auth'', pl_issuer = [], pl_audience = [], pl_email = [], pl_name = [],
     pl_tenant = [], pl_roles = StandardRoles, pl_scopes = [], pl_token_mode = ''disabled'', pl_claims = []\<rparr>"

text \<open>\<open>strings.SplitN(s, " ", 2)\<close> cuts at the first space.\<close>

definition extractBearerToken :: "string \<Rightarrow> string" where
  "extractBearerToken raw = (let a = trim_space raw;
       scheme = takeWhile (\<lambda>c. c \<noteq> CHR '' '') a; rest = dropWhile (\<lambda>c. c \<noteq> CHR '' '') a
     in if rest = [] \<or> \<not> equal_fold scheme ''Bearer'' then [] else trim_space (tl rest))"

text \<open>What the middleware does with a request: hand it on, with a principal or without, or answer it.\<close>

datatype admission = Pass "principal option" | Refuse int string

definition Handler :: "auth_env \<Rightarrow> go_err + auth_config \<Rightarrow> int \<Rightarrow> string \<Rightarrow> string \<Rightarrow> middleware \<Rightarrow> admission \<times> middleware" where
  "Handler ae provided now path authorization m =
     (if path \<in> mw_public m then (Pass None, m)
      else (case provided of
          Inl _ \<Rightarrow> (Refuse 503 ''Authentication configuration unavailable'', m)
        | Inr cfg \<Rightarrow>
            if \<not> Enabled cfg then (Pass (Some disabledAuthPrincipal), m)
            else (case getVerifier ae m cfg of
                Inl _ \<Rightarrow> (Refuse 503 ''Authentication configuration unavailable'', m)
              | Inr (v, m') \<Rightarrow>
                  (let token = extractBearerToken authorization in
                   if token = [] then (Refuse 401 ''Authorization header required'', m')
                   else (case Verify ae v now token of
                       Inl _ \<Rightarrow> (Refuse 401 ''Invalid token'', m')
                     | Inr p \<Rightarrow> (Pass (Some p), m'))))))"

text \<open>gRPC codes: 14 unavailable, 16 unauthenticated, 7 permission denied. The metadata is the list of its values.\<close>

definition UnaryServerInterceptor ::
  "auth_env \<Rightarrow> go_err + auth_config \<Rightarrow> int \<Rightarrow> string list \<Rightarrow> string list \<Rightarrow> middleware \<Rightarrow> admission \<times> middleware" where
  "UnaryServerInterceptor ae provided now roles metadata m =
     (case provided of
        Inl _ \<Rightarrow> (Refuse 14 ''authentication configuration unavailable'', m)
      | Inr cfg \<Rightarrow>
          if \<not> Enabled cfg then (Pass (Some disabledAuthPrincipal), m)
          else (let token = (case metadata of [] \<Rightarrow> [] | h # _ \<Rightarrow> extractBearerToken h) in
            if token = [] then (Refuse 16 ''authorization metadata required'', m)
            else (case getVerifier ae m cfg of
                Inl _ \<Rightarrow> (Refuse 14 ''authentication configuration unavailable'', m)
              | Inr (v, m') \<Rightarrow> (case Verify ae v now token of
                  Inl _ \<Rightarrow> (Refuse 16 ''invalid token'', m')
                | Inr p \<Rightarrow> if HasAnyRole p roles then (Pass (Some p), m') else (Refuse 7 ''forbidden'', m')))))"

end
