(* ===== verification/Dto.thy ===== *)
theory Dto
  imports Engine Auth
begin

text \<open>
  The requests and responses of the HTTP interface (\<open>interfaces/http/dto\<close>): one record per struct and the mapping
  of the engine's rows to them. A response is kept as the value that is encoded to JSON; the raw XML of a definition,
  which the model of a definition does not hold, is left out. Times are nanoseconds.
\<close>

section \<open>Responses\<close>

record workflow_response =
  wr_id :: string
  wr_process_definition_id :: string
  wr_name :: string
  wr_version :: int
  wr_resource_name :: string
  wr_deployment_id :: string
  wr_tenant_id :: string
  wr_checksum :: string
  wr_steps :: "step list"
  wr_created_at :: int

record user_task_response =
  ut_key :: string
  ut_element_id :: string
  ut_execution_id :: string
  ut_state :: string
  ut_assignee :: string
  ut_candidate_users :: "string list"
  ut_candidate_groups :: "string list"
  ut_claimed_by :: string
  ut_can_claim :: bool
  ut_can_complete :: bool
  ut_due_date :: int
  ut_created_at :: int
  ut_updated_at :: int

record execution_response =
  xr_id :: string
  xr_step_id :: string
  xr_status :: string
  xr_parent_id :: string
  xr_start_time :: int
  xr_element_key :: string
  xr_task :: "user_task_response option"

record instance_response =
  nr_id :: string
  nr_workflow_id :: string
  nr_status :: string
  nr_parent_instance_id :: string
  nr_parent_execution_id :: string
  nr_context :: vars
  nr_created_at :: int
  nr_updated_at :: int
  nr_executions :: "execution_response list"

record job_response =
  jr_key :: string
  jr_type :: string
  jr_instance_key :: string
  jr_element_key :: string
  jr_definition_key :: string
  jr_element_id :: string
  jr_worker :: string
  jr_retries :: int
  jr_state :: string
  jr_assignee :: string
  jr_candidate_users :: string
  jr_candidate_groups :: string
  jr_lock_until :: "int option"
  jr_due_date :: int
  jr_created_at :: int
  jr_updated_at :: int

record incident_response =
  cr_key :: string
  cr_id :: string
  cr_instance_key :: string
  cr_element_key :: string
  cr_job_key :: string
  cr_error_type :: string
  cr_error_message :: string
  cr_state :: string
  cr_created_at :: int
  cr_resolved_at :: "int option"

record decision_summary =
  ds_key :: string
  ds_decision_id :: string
  ds_name :: string
  ds_version :: int
  ds_created_at :: int
  ds_updated_at :: int

record metrics_response =
  mr_outbox_pending :: int
  mr_publish_success :: int
  mr_publish_failure :: int
  mr_publish_lag_sec :: int
  mr_max_attempts :: int
  mr_idempotency_hit :: int
  mr_idempotency_miss :: int

section \<open>Mapping\<close>

definition ToWorkflowResponse :: "workflow_def \<Rightarrow> workflow_response" where
  "ToWorkflowResponse w = \<lparr>wr_id = show_int (wf_id w), wr_process_definition_id = wf_process_definition_id w,
     wr_name = wf_name w, wr_version = wf_version w, wr_resource_name = wf_resource_name w,
     wr_deployment_id = wf_deployment_id w, wr_tenant_id = wf_tenant_id w, wr_checksum = wf_checksum w,
     wr_steps = wf_steps w, wr_created_at = wf_created_at w\<rparr>"

text \<open>A map from execution ids to tasks: of two tasks of one execution the later one counts.\<close>

definition ToExecutionResponses :: "execution list \<Rightarrow> user_task_response list \<Rightarrow> execution_response list" where
  "ToExecutionResponses executions tasks = map (\<lambda>ex.
     \<lparr>xr_id = ex_id ex, xr_step_id = ex_step_id ex, xr_status = ex_status ex, xr_parent_id = ex_parent_id ex,
      xr_start_time = ex_start_time ex, xr_element_key = show_int (ex_element_key ex),
      xr_task = map_of (rev (map (\<lambda>t. (ut_execution_id t, t)) tasks)) (ex_id ex)\<rparr>) executions"

definition ToWorkflowInstanceResponse :: "workflow_instance \<Rightarrow> instance_response" where
  "ToWorkflowInstanceResponse i = \<lparr>nr_id = wi_id i, nr_workflow_id = wi_workflow_id i,
     nr_status = status_string (wi_status i), nr_parent_instance_id = wi_parent_instance_id i,
     nr_parent_execution_id = wi_parent_execution_id i, nr_context = wi_context i, nr_created_at = wi_created_at i,
     nr_updated_at = wi_updated_at i, nr_executions = ToExecutionResponses (wi_executions i) []\<rparr>"

definition ToWorkflowInstanceResponseWithTasks :: "workflow_instance \<Rightarrow> user_task_response list \<Rightarrow> instance_response" where
  "ToWorkflowInstanceResponseWithTasks i tasks =
     (ToWorkflowInstanceResponse i)\<lparr>nr_executions := ToExecutionResponses (wi_executions i) tasks\<rparr>"

definition ToJobResponse :: "job \<Rightarrow> job_response" where
  "ToJobResponse j = \<lparr>jr_key = show_int (jb_key j), jr_type = jb_type j, jr_instance_key = show_int (jb_instance_key j),
     jr_element_key = show_int (jb_element_key j), jr_definition_key = show_int (jb_definition_key j),
     jr_element_id = jb_element_id j, jr_worker = jb_worker j, jr_retries = jb_retries j, jr_state = jb_state j,
     jr_assignee = jb_assignee j, jr_candidate_users = jb_candidate_users j, jr_candidate_groups = jb_candidate_groups j,
     jr_lock_until = jb_lock_until j, jr_due_date = jb_due_date j, jr_created_at = jb_created_at j,
     jr_updated_at = jb_updated_at j\<rparr>"

definition ToJobResponses :: "job list \<Rightarrow> job_response list" where
  "ToJobResponses js = map ToJobResponse js"

definition splitAssignmentList :: "string \<Rightarrow> string list" where
  "splitAssignmentList v = filter (\<lambda>p. p \<noteq> []) (map trim_space (split_at_char CHR '','' v))"

definition ToUserTaskResponse :: "job \<Rightarrow> bool \<Rightarrow> bool \<Rightarrow> bool \<Rightarrow> user_task_response" where
  "ToUserTaskResponse j eligible ownsClaim admin =
     (let claimed = trim_space (jb_worker j) in
      \<lparr>ut_key = show_int (jb_key j), ut_element_id = jb_element_id j, ut_execution_id = show_int (jb_element_key j),
       ut_state = jb_state j, ut_assignee = jb_assignee j,
       ut_candidate_users = splitAssignmentList (jb_candidate_users j),
       ut_candidate_groups = splitAssignmentList (jb_candidate_groups j), ut_claimed_by = claimed,
       ut_can_claim = (eligible \<and> jb_state j \<noteq> ''COMPLETED'' \<and> (claimed = [] \<or> admin)),
       ut_can_complete = (jb_state j \<noteq> ''COMPLETED'' \<and> (admin \<or> (eligible \<and> ownsClaim))),
       ut_due_date = jb_due_date j, ut_created_at = jb_created_at j, ut_updated_at = jb_updated_at j\<rparr>)"

text \<open>The two mappings that \<open>handler.go\<close> writes out.\<close>

definition incident_response_of :: "incident \<Rightarrow> incident_response" where
  "incident_response_of i = \<lparr>cr_key = show_int (in_key i), cr_id = in_id i, cr_instance_key = show_int (in_instance_key i),
     cr_element_key = show_int (in_element_key i), cr_job_key = (if in_job_key i \<noteq> 0 then show_int (in_job_key i) else []),
     cr_error_type = in_error_type i, cr_error_message = in_error_message i, cr_state = in_state i,
     cr_created_at = in_created_at i,
     cr_resolved_at = (if in_resolved_at i = zero_time then None else Some (in_resolved_at i))\<rparr>"

definition decision_summary_of :: "decision_def \<Rightarrow> decision_summary" where
  "decision_summary_of d = \<lparr>ds_key = show_int (dd_key d), ds_decision_id = dd_decision_id d, ds_name = dd_name d,
     ds_version = dd_version d, ds_created_at = dd_created_at d, ds_updated_at = dd_updated_at d\<rparr>"

section \<open>Requests\<close>

text \<open>
  A body as \<open>json.NewDecoder(r.Body).Decode(&req)\<close> reads it: decoded, empty (the error is \<open>io.EOF\<close>), or malformed, with
  what was decoded until then. Fields that are absent are zero; an absent map is empty.
\<close>

datatype 'a body = Decoded 'a | EmptyBody | Malformed go_err 'a

definition read_strict :: "'a body \<Rightarrow> go_err + 'a" where
  "read_strict b = (case b of Decoded x \<Rightarrow> Inr x | EmptyBody \<Rightarrow> Inl (Msg ''EOF'') | Malformed e _ \<Rightarrow> Inl e)"

text \<open>\<open>err != nil && err != io.EOF\<close>, and \<open>_ = ...Decode(&req)\<close>; \<open>zero\<close> is the zero value of the request.\<close>

definition read_optional :: "'a \<Rightarrow> 'a body \<Rightarrow> go_err + 'a" where
  "read_optional zero b = (case b of Decoded x \<Rightarrow> Inr x | EmptyBody \<Rightarrow> Inr zero | Malformed e _ \<Rightarrow> Inl e)"

definition read_any :: "'a \<Rightarrow> 'a body \<Rightarrow> 'a" where
  "read_any zero b = (case b of Decoded x \<Rightarrow> x | EmptyBody \<Rightarrow> zero | Malformed _ x \<Rightarrow> x)"

record start_instance_request =
  sr_workflow_id :: string
  sr_version :: "int option"
  sr_context :: vars

record activate_jobs_request =
  ar_type :: string
  ar_worker :: string
  ar_max_jobs :: int
  ar_timeout_ms :: int
  ar_lock_ms :: int

record complete_job_request =
  kr_worker :: string
  kr_variables :: vars

record fail_job_request =
  fr_worker :: string
  fr_error_message :: string
  fr_retries :: "int option"

record extend_lock_request =
  er_worker :: string
  er_lock_ms :: int

record publish_message_request =
  pm_name :: string
  pm_correlation_key :: string
  pm_payload :: vars

record deploy_decision_request =
  dr_decision_id :: string
  dr_name :: string
  dr_resource :: string

end
