(* ===== verification/Api.thy ===== *)
theory Api
  imports Dto
begin

text \<open>
  The HTTP interface of the command service (\<open>interfaces/http/handler.go\<close>) and the gRPC server
  (\<open>interfaces/grpc/server.go\<close>): one constructor of \<open>api_call\<close> per route, with its path variables, query
  parameters, headers and body; one definition per handler; \<open>dispatch\<close> is \<open>RegisterRoutes\<close>, each route with its guard.

  A handler answers: it returns a response, also for an error of the engine, and never an error of its own; a panic of
  the engine goes through. The principal is that of the request's context, \<open>None\<close> when the middleware let the request
  pass without one. Logging and swagger are left out; the routes of identity management are in \<open>IamApi\<close>.
\<close>

section \<open>Responses\<close>

datatype resp_body =
    TextBody string
  | NoBody
  | JWorkflow workflow_response
  | JWorkflows "workflow_response list"
  | JInstance instance_response
  | JInstances "instance_response list"
  | JTask user_task_response
  | JTasks "user_task_response list"
  | JDecisions "decision_summary list"
  | JDecision decision_def
  | JOutputs vars
  | JJobRows "job list"
  | JJobs "job_response list"
  | JIncidents "incident_response list"
  | JCapabilities string "string list"
  | JMetrics metrics_response
  | JIdentity "principal option"
  | JHealth

text \<open>\<open>rs_protocol\<close> is the header \<open>X-Workflow-Engine-Protocol-Version\<close>, empty when not set.\<close>

record response =
  rs_status :: int
  rs_protocol :: string
  rs_body :: resp_body

definition http_error :: "int \<Rightarrow> string \<Rightarrow> response" where
  "http_error st msg = \<lparr>rs_status = st, rs_protocol = [], rs_body = TextBody msg\<rparr>"

definition ok :: "resp_body \<Rightarrow> response" where
  "ok b = \<lparr>rs_status = 200, rs_protocol = [], rs_body = b\<rparr>"

text \<open>\<open>x, err := m; if err != nil { http.Error(w, err.Error(), status); return }; k\<close>\<close>

definition orFail :: "int \<Rightarrow> 'a eng \<Rightarrow> ('a \<Rightarrow> response eng) \<Rightarrow> response eng" where
  "orFail st m k = bindE (tryE m) (\<lambda>r. case r of Inl e \<Rightarrow> ret (http_error st (err_string e)) | Inr x \<Rightarrow> k x)"

definition orRefuse :: "int \<Rightarrow> go_err + 'a \<Rightarrow> ('a \<Rightarrow> response eng) \<Rightarrow> response eng" where
  "orRefuse st r k = (case r of Inl e \<Rightarrow> ret (http_error st (err_string e)) | Inr x \<Rightarrow> k x)"

definition withPrincipal :: "principal option \<Rightarrow> (principal \<Rightarrow> response eng) \<Rightarrow> response eng" where
  "withPrincipal who k = (case who of None \<Rightarrow> ret (http_error 401 ''Unauthorized'') | Some p \<Rightarrow> k p)"

section \<open>Who may see and do what\<close>

definition splitAssignment :: "string \<Rightarrow> string list" where
  "splitAssignment v = filter (\<lambda>p. p \<noteq> []) (map trim_space (split_at_char CHR '','' v))"

definition containsFold :: "string list \<Rightarrow> string \<Rightarrow> bool" where
  "containsFold vs target = (let t = trim_space target in
     t \<noteq> [] \<and> list_ex (\<lambda>v. equal_fold (trim_space v) t) vs)"

definition principalHasFullInstanceVisibility :: "principal \<Rightarrow> bool" where
  "principalHasFullInstanceVisibility p = HasAnyRole p [RoleArtificialFlowAdmin, RoleArtificialFlowClient]"

definition principalIdentifiers :: "principal \<Rightarrow> string list" where
  "principalIdentifiers p = filter (\<lambda>v. v \<noteq> []) (map trim_space
     ([pl_subject p, pl_email p, pl_name p] @
      (if CHR ''@'' \<in> set (pl_email p) then [takeWhile (\<lambda>c. c \<noteq> CHR ''@'') (pl_email p)] else []) @
      List.map_filter (str_prop (pl_claims p)) [''preferred_username'', ''login_name'', ''username'']))"

definition taskOwner :: "principal \<Rightarrow> string" where
  "taskOwner p = (case List.find (\<lambda>v. trim_space v \<noteq> []) [pl_email p, pl_subject p, pl_name p] of
     Some v \<Rightarrow> trim_space v | None \<Rightarrow> ''unknown-user'')"

text \<open>The users and groups a task is offered to.\<close>

definition assigned_to :: "job \<Rightarrow> principal \<Rightarrow> bool" where
  "assigned_to j p \<longleftrightarrow>
     (trim_space (jb_assignee j) \<noteq> [] \<and> containsFold (principalIdentifiers p) (trim_space (jb_assignee j))) \<or>
     list_ex (containsFold (principalIdentifiers p)) (splitAssignment (jb_candidate_users j)) \<or>
     list_ex (HasRole p) (splitAssignment (jb_candidate_groups j))"

definition userTaskEligible :: "job \<Rightarrow> principal \<Rightarrow> bool" where
  "userTaskEligible j p \<longleftrightarrow>
     trim_space (jb_assignee j) = [] \<and> splitAssignment (jb_candidate_users j) = [] \<and> splitAssignment (jb_candidate_groups j) = [] \<or>
     assigned_to j p"

definition userTaskAssignedToPrincipal :: "job \<Rightarrow> principal \<Rightarrow> bool" where
  "userTaskAssignedToPrincipal j p \<longleftrightarrow>
     (trim_space (jb_worker j) \<noteq> [] \<and> containsFold (principalIdentifiers p) (trim_space (jb_worker j))) \<or> assigned_to j p"

definition userTaskCompletedByPrincipal :: "job \<Rightarrow> principal \<Rightarrow> bool" where
  "userTaskCompletedByPrincipal j p \<longleftrightarrow> equal_fold (trim_space (jb_state j)) ''COMPLETED'' \<and>
     trim_space (jb_worker j) \<noteq> [] \<and> containsFold (principalIdentifiers p) (trim_space (jb_worker j))"

definition canViewInstance :: "env \<Rightarrow> string \<Rightarrow> principal \<Rightarrow> bool eng" where
  "canViewInstance env instanceID p =
     (if principalHasFullInstanceVisibility p then ret True
      else bindE (ListUserTaskJobs env instanceID) (\<lambda>jobs. ret (list_ex (\<lambda>j. userTaskAssignedToPrincipal j p) jobs)))"

text \<open>An instance whose visibility cannot be evaluated is left out.\<close>

definition filterInstancesForPrincipal :: "env \<Rightarrow> workflow_instance list \<Rightarrow> principal \<Rightarrow> workflow_instance list eng" where
  "filterInstancesForPrincipal env instances p =
     (if principalHasFullInstanceVisibility p then ret instances
      else foldE (\<lambda>acc w. bindE (tryE (canViewInstance env (wi_id w) p)) (\<lambda>r.
        ret (case r of Inr True \<Rightarrow> acc @ [w] | _ \<Rightarrow> acc))) [] instances)"

definition userTaskResponseForPrincipal :: "job \<Rightarrow> principal \<Rightarrow> user_task_response" where
  "userTaskResponseForPrincipal j p =
     (let admin = HasRole p RoleArtificialFlowAdmin;
          ownsClaim = (trim_space (jb_worker j) \<noteq> [] \<and> equal_fold (trim_space (jb_worker j)) (taskOwner p))
      in ToUserTaskResponse j (admin \<or> userTaskEligible j p) ownsClaim admin)"

definition userTaskResponsesForRequest :: "env \<Rightarrow> principal option \<Rightarrow> string \<Rightarrow> bool \<Rightarrow> user_task_response list eng" where
  "userTaskResponsesForRequest env who instanceID includeCompleted = (case who of
       None \<Rightarrow> throw (Msg ''unauthorized'')
     | Some p \<Rightarrow> bindE (ListUserTaskJobs env instanceID) (\<lambda>jobs.
         ret (map (\<lambda>j. userTaskResponseForPrincipal j p)
           (filter (\<lambda>j. (jb_state j \<noteq> ''COMPLETED'' \<or> includeCompleted) \<and>
             (principalHasFullInstanceVisibility p \<or> userTaskAssignedToPrincipal j p)) jobs))))"

definition userTaskJobForPrincipal :: "env \<Rightarrow> string \<Rightarrow> string \<Rightarrow> job eng" where
  "userTaskJobForPrincipal env instanceID executionID =
     bindE (ListUserTaskJobs env instanceID) (\<lambda>jobs.
       (case List.find (\<lambda>j. show_int (jb_element_key j) = executionID) jobs of
          Some j \<Rightarrow> ret j
        | None \<Rightarrow> throw (Msg (''user task '' @ executionID @ '' was not found''))))"

definition instanceHasCompletedTaskByPrincipal :: "env \<Rightarrow> string \<Rightarrow> principal \<Rightarrow> bool eng" where
  "instanceHasCompletedTaskByPrincipal env instanceID p =
     bindE (ListUserTaskJobs env instanceID) (\<lambda>jobs. ret (list_ex (\<lambda>j. userTaskCompletedByPrincipal j p) jobs))"

section \<open>Headers\<close>

record headers =
  hd_idempotency :: string
  hd_protocol :: string
  hd_acting_subject :: string
  hd_acting_username :: string
  hd_acting_email :: string
  hd_acting_name :: string
  hd_acting_roles :: string

definition actingPrincipalFromRequest :: "headers \<Rightarrow> go_err + principal" where
  "actingPrincipalFromRequest h =
     (let username = trim_space (hd_acting_username h); email = trim_space (hd_acting_email h);
          subject0 = trim_space (hd_acting_subject h);
          subject = (if subject0 = [] then username else subject0)
      in if subject = [] \<and> email = [] then Inl (Msg ''acting user identity is required'')
         else Inr \<lparr>pl_subject = subject, pl_issuer = [], pl_audience = [], pl_email = email,
           pl_name = trim_space (hd_acting_name h), pl_tenant = [],
           pl_roles = CanonicalizeRoles (splitAssignment (trim_space (hd_acting_roles h))), pl_scopes = [],
           pl_token_mode = [],
           pl_claims = (if username = [] then [] else [(''username'', VStr username), (''preferred_username'', VStr username)])\<rparr>)"

definition WorkerProtocolVersion :: string where "WorkerProtocolVersion = ''v1''"

text \<open>\<open>%q\<close> of the printable ASCII a header can hold.\<close>

definition quoted :: "string \<Rightarrow> string" where
  "quoted s = ''\"'' @ concat (map (\<lambda>c. if c = CHR ''\"'' \<or> c = CHR 0x5C then [CHR 0x5C, c] else [c]) s) @ ''\"''"

definition validateWorkerProtocolVersion :: "headers \<Rightarrow> go_err + unit" where
  "validateWorkerProtocolVersion h = (let v = trim_space (hd_protocol h) in
     if v = [] \<or> v = WorkerProtocolVersion then Inr ()
     else Inl (Msg (''unsupported worker protocol version '' @ quoted v @ '' (supported: '' @ WorkerProtocolVersion @ '')'')))"

definition setWorkerProtocolHeaders :: "response \<Rightarrow> response" where
  "setWorkerProtocolHeaders r = r\<lparr>rs_protocol := WorkerProtocolVersion\<rparr>"

definition maxIdempotencyKeyLength :: nat where "maxIdempotencyKeyLength = 128"

definition readIdempotencyKey :: "headers \<Rightarrow> go_err + string" where
  "readIdempotencyKey h = (let k = trim_space (hd_idempotency h) in
     if k = [] then Inr []
     else if length k > maxIdempotencyKeyLength
     then Inl (Msg (''Idempotency-Key exceeds '' @ show_int (int maxIdempotencyKeyLength) @ '' characters''))
     else Inr k)"

section \<open>Guards\<close>

definition RequireAnyRole :: "string list \<Rightarrow> (principal option \<Rightarrow> response eng) \<Rightarrow> principal option \<Rightarrow> response eng" where
  "RequireAnyRole roles h who = (case who of
       None \<Rightarrow> ret (http_error 401 ''Unauthorized'')
     | Some p \<Rightarrow> if HasAnyRole p roles then h who else ret (http_error 403 ''Forbidden''))"

definition RequireAuthenticated :: "(principal option \<Rightarrow> response eng) \<Rightarrow> principal option \<Rightarrow> response eng" where
  "RequireAuthenticated h who = (case who of None \<Rightarrow> ret (http_error 401 ''Unauthorized'') | Some _ \<Rightarrow> h who)"

definition adminOnly :: "(principal option \<Rightarrow> response eng) \<Rightarrow> principal option \<Rightarrow> response eng" where
  "adminOnly = RequireAnyRole [RoleArtificialFlowAdmin]"

definition adminOrClient :: "(principal option \<Rightarrow> response eng) \<Rightarrow> principal option \<Rightarrow> response eng" where
  "adminOrClient = RequireAnyRole [RoleArtificialFlowAdmin, RoleArtificialFlowClient]"

definition processDesigner :: "(principal option \<Rightarrow> response eng) \<Rightarrow> principal option \<Rightarrow> response eng" where
  "processDesigner = RequireAnyRole [RoleArtificialFlowAdmin, RoleArtificialFlowModeler, RoleArtificialFlowClient]"

definition scopedInstanceRead :: "(principal option \<Rightarrow> response eng) \<Rightarrow> principal option \<Rightarrow> response eng" where
  "scopedInstanceRead h = RequireAuthenticated (\<lambda>who. withPrincipal who (\<lambda>p.
     if HasRole p RoleArtificialFlowModeler \<and> \<not> HasAnyRole p [RoleArtificialFlowAdmin, RoleArtificialFlowClient]
     then ret (http_error 403 ''Forbidden'') else h who))"

definition sdkInboxOnly :: "headers \<Rightarrow> (principal option \<Rightarrow> response eng) \<Rightarrow> principal option \<Rightarrow> response eng" where
  "sdkInboxOnly hs h = RequireAuthenticated (\<lambda>who. withPrincipal who (\<lambda>p.
     if HasRole p RoleArtificialFlowClient then
       if HasRole p RoleArtificialFlowAdmin then ret (http_error 403 ''Forbidden'')
       else orRefuse 400 (actingPrincipalFromRequest hs) (\<lambda>acting.
         if HasAnyRole acting [RoleArtificialFlowAdmin, RoleArtificialFlowClient] then ret (http_error 403 ''Forbidden'')
         else h (Some acting))
     else if HasAnyRole p [RoleArtificialFlowAdmin, RoleArtificialFlowClient, RoleArtificialFlowModeler]
     then ret (http_error 403 ''Forbidden'')
     else h who))"

section \<open>Definitions and decisions\<close>

text \<open>An upload read under the limit of 20 MiB.\<close>

datatype upload = Uploaded string | TooLarge go_err | ReadFailed go_err

text \<open>\<open>errors.Is(err, ErrBPMNValidation)\<close>\<close>

fun is_bpmn_validation :: "go_err \<Rightarrow> bool" where
  "is_bpmn_validation (Wrapf m e) \<longleftrightarrow> m = ''bpmn validation failed'' \<or> is_bpmn_validation e"
| "is_bpmn_validation _ \<longleftrightarrow> False"

definition deployWorkflow :: "env \<Rightarrow> upload \<Rightarrow> response eng" where
  "deployWorkflow env up = (case up of
       TooLarge _ \<Rightarrow> ret (http_error 413 ''request body too large'')
     | ReadFailed e \<Rightarrow> ret (http_error 400 (err_string e))
     | Uploaded xml \<Rightarrow> bindE (tryE (DeployWorkflowFromBPMN env xml)) (\<lambda>r. ret (case r of
           Inl e \<Rightarrow> http_error (if is_bpmn_validation e then 400 else 500) (err_string e)
         | Inr wfd \<Rightarrow> ok (JWorkflow (ToWorkflowResponse wfd)))))"

definition listWorkflows :: "env \<Rightarrow> response eng" where
  "listWorkflows env = orFail 500 (ListWorkflows env) (\<lambda>ws. ret (ok (JWorkflows (map ToWorkflowResponse ws))))"

definition getWorkflow :: "env \<Rightarrow> string \<Rightarrow> response eng" where
  "getWorkflow env i = orFail 404 (GetWorkflow env i) (\<lambda>w. ret (ok (JWorkflow (ToWorkflowResponse w))))"

definition deleteWorkflow :: "env \<Rightarrow> string \<Rightarrow> response eng" where
  "deleteWorkflow env i = orFail 500 (DeleteWorkflow env i) (\<lambda>_. ret (ok NoBody\<lparr>rs_status := 204\<rparr>))"

definition listDecisions :: "env \<Rightarrow> response eng" where
  "listDecisions env = orFail 500 (ListDecisions env) (\<lambda>ds. ret (ok (JDecisions (map decision_summary_of ds))))"

definition deployDecision :: "env \<Rightarrow> deploy_decision_request body \<Rightarrow> response eng" where
  "deployDecision env b = orRefuse 400 (read_strict b) (\<lambda>req.
     orFail 400 (DeployDecision env (dr_decision_id req) (dr_name req) (dr_resource req)) (\<lambda>d. ret (ok (JDecision d))))"

definition evaluateDecision :: "env \<Rightarrow> string \<Rightarrow> vars body \<Rightarrow> response eng" where
  "evaluateDecision env decisionID b =
     orFail 400 (EvaluateDecision env decisionID (read_any [] b)) (\<lambda>out. ret (ok (JOutputs out)))"

section \<open>Instances\<close>

definition startInstance :: "env \<Rightarrow> calls \<Rightarrow> start_instance_request body \<Rightarrow> response eng" where
  "startInstance env rec b = orRefuse 400 (read_strict b) (\<lambda>req.
     orFail 500 (StartInstanceVersion env rec (sr_workflow_id req) (sr_context req) (sr_version req)) (\<lambda>w.
       ret (ok (JInstance (ToWorkflowInstanceResponse w)))))"

definition instances_response :: "workflow_instance list \<Rightarrow> response" where
  "instances_response ws = ok (JInstances (map ToWorkflowInstanceResponse ws))"

definition listInstances :: "env \<Rightarrow> principal option \<Rightarrow> response eng" where
  "listInstances env who = withPrincipal who (\<lambda>p. orFail 500 (ListActiveInstances env) (\<lambda>ws.
     bindE (filterInstancesForPrincipal env ws p) (\<lambda>vs. ret (instances_response vs))))"

text \<open>The query parameter \<open>limit\<close> of the two histories: at least 1, at most 100, which is also the default.\<close>

definition history_limit :: "string \<Rightarrow> int option" where
  "history_limit raw0 = (let raw = trim_space raw0 in
     if raw = [] then Some 100
     else (case parse_int raw of Inl _ \<Rightarrow> None | Inr n \<Rightarrow> if n < 1 then None else Some (min n 100)))"

definition listCompletedInstanceHistory :: "env \<Rightarrow> string \<Rightarrow> principal option \<Rightarrow> response eng" where
  "listCompletedInstanceHistory env raw who = withPrincipal who (\<lambda>p. case history_limit raw of
       None \<Rightarrow> ret (http_error 400 ''invalid limit'')
     | Some limit \<Rightarrow>
         orFail 500 (ListCompletedInstances env
             (if principalHasFullInstanceVisibility p then limit else max (limit * 5) 100)) (\<lambda>ws.
           bindE (filterInstancesForPrincipal env ws p) (\<lambda>vs. ret (instances_response (take (nat limit) vs)))))"

definition listInboxInstances :: "env \<Rightarrow> principal option \<Rightarrow> response eng" where
  "listInboxInstances env who = withPrincipal who (\<lambda>p. orFail 500 (ListActiveInstances env) (\<lambda>ws.
     bindE (filterInstancesForPrincipal env ws p) (\<lambda>vs. ret (instances_response vs))))"

definition listInboxCompletedHistory :: "env \<Rightarrow> string \<Rightarrow> principal option \<Rightarrow> response eng" where
  "listInboxCompletedHistory env raw who = withPrincipal who (\<lambda>p. case history_limit raw of
       None \<Rightarrow> ret (http_error 400 ''invalid limit'')
     | Some limit \<Rightarrow>
         orFail 500 (ListCompletedInstancesWithCompletedUserTaskWorkers env (principalIdentifiers p) limit) (\<lambda>ws.
           ret (instances_response ws)))"

definition includes_completed :: "string \<Rightarrow> bool" where
  "includes_completed raw \<longleftrightarrow> ParseBool raw = Some True"

text \<open>The two reads of one instance differ in whether completed tasks may be asked for.\<close>

definition readInstance :: "env \<Rightarrow> string \<Rightarrow> bool \<Rightarrow> principal option \<Rightarrow> response eng" where
  "readInstance env i includeCompleted who = withPrincipal who (\<lambda>p.
     orFail 404 (GetInstance env i) (\<lambda>w.
     orFail 500 (canViewInstance env i p) (\<lambda>visible.
       if \<not> visible then ret (http_error 403 ''Forbidden'')
       else bindE (tryE (userTaskResponsesForRequest env who i includeCompleted)) (\<lambda>r.
         ret (ok (JInstance (ToWorkflowInstanceResponseWithTasks w (case r of Inl _ \<Rightarrow> [] | Inr ts \<Rightarrow> ts))))))))"

definition getInstance :: "env \<Rightarrow> string \<Rightarrow> principal option \<Rightarrow> response eng" where
  "getInstance env i who = readInstance env i False who"

definition getInboxInstance :: "env \<Rightarrow> string \<Rightarrow> string \<Rightarrow> principal option \<Rightarrow> response eng" where
  "getInboxInstance env i raw who = readInstance env i (includes_completed raw) who"

definition updateVariables :: "env \<Rightarrow> string \<Rightarrow> vars body \<Rightarrow> response eng" where
  "updateVariables env i b = orRefuse 400 (read_strict b) (\<lambda>vs.
     orFail 500 (UpdateInstanceVariables env i vs) (\<lambda>_. ret (ok (TextBody ''Variables updated''))))"

definition api_completeTask :: "env \<Rightarrow> calls \<Rightarrow> string \<Rightarrow> string body \<Rightarrow> response eng" where
  "api_completeTask env rec i b = orFail 500 (CompleteTask env rec i (read_any [] b)) (\<lambda>_.
     ret (ok (TextBody ''Task completed'')))"

definition deleteInstance :: "env \<Rightarrow> string \<Rightarrow> response eng" where
  "deleteInstance env i = orFail 500 (DeleteInstance env i) (\<lambda>_. ret (ok NoBody\<lparr>rs_status := 204\<rparr>))"

section \<open>User tasks\<close>

definition listUserTasks :: "env \<Rightarrow> string \<Rightarrow> string \<Rightarrow> principal option \<Rightarrow> response eng" where
  "listUserTasks env i raw who = withPrincipal who (\<lambda>p.
     orFail 500 (canViewInstance env i p) (\<lambda>visible.
       if \<not> visible then ret (http_error 403 ''Forbidden'')
       else orFail 500 (userTaskResponsesForRequest env who i (includes_completed raw)) (\<lambda>ts. ret (ok (JTasks ts)))))"

definition claimUserTask :: "env \<Rightarrow> string \<Rightarrow> string \<Rightarrow> principal option \<Rightarrow> response eng" where
  "claimUserTask env i ex who = withPrincipal who (\<lambda>p.
     orFail 404 (userTaskJobForPrincipal env i ex) (\<lambda>j.
       if \<not> HasRole p RoleArtificialFlowAdmin \<and> \<not> userTaskEligible j p then ret (http_error 403 ''Forbidden'')
       else orFail 409 (ClaimUserTask env i ex (taskOwner p) (HasRole p RoleArtificialFlowAdmin)) (\<lambda>claimed.
         ret (ok (JTask (userTaskResponseForPrincipal claimed p))))))"

definition completeUserTask :: "env \<Rightarrow> calls \<Rightarrow> string \<Rightarrow> string \<Rightarrow> principal option \<Rightarrow> response eng" where
  "completeUserTask env rec i ex who = withPrincipal who (\<lambda>p.
     orFail 404 (userTaskJobForPrincipal env i ex) (\<lambda>j.
       let admin = HasRole p RoleArtificialFlowAdmin in
       if \<not> admin \<and> \<not> userTaskEligible j p then ret (http_error 403 ''Forbidden'')
       else if \<not> admin \<and> trim_space (jb_worker j) \<noteq> taskOwner p
       then ret (http_error 403 ''Task must be claimed by the current user before completion'')
       else orFail 409 (CompleteUserTask env rec i ex (taskOwner p) admin) (\<lambda>_. ret (ok (TextBody ''Task completed'')))))"

section \<open>Jobs and incidents\<close>

definition listInstanceJobs :: "env \<Rightarrow> string \<Rightarrow> response eng" where
  "listInstanceJobs env i = orFail 400 (ListInstanceJobs env i) (\<lambda>js. ret (ok (JJobRows js)))"

definition listIncidents :: "env \<Rightarrow> string \<Rightarrow> string \<Rightarrow> response eng" where
  "listIncidents env rawKey0 rawLimit0 = (let rawKey = trim_space rawKey0; rawLimit = trim_space rawLimit0 in
     (case (if rawKey = [] then Inr 0 else parse_int rawKey) of
        Inl _ \<Rightarrow> ret (http_error 400 ''invalid processInstanceKey'')
      | Inr k \<Rightarrow> (case (if rawLimit = [] then Inr 100 else parse_int rawLimit) of
          Inl _ \<Rightarrow> ret (http_error 400 ''invalid limit'')
        | Inr limit \<Rightarrow> if limit < 0 then ret (http_error 400 ''invalid limit'')
            else orFail 500 (ListEngineIncidents env k limit) (\<lambda>is. ret (ok (JIncidents (map incident_response_of is)))))))"

definition parse_job_key :: "string \<Rightarrow> go_err + int" where
  "parse_job_key raw = (case parse_int raw of Inl _ \<Rightarrow> Inl (Msg ''invalid job key'') | Inr k \<Rightarrow> Inr k)"

definition retryJob :: "env \<Rightarrow> string \<Rightarrow> int option body \<Rightarrow> response eng" where
  "retryJob env rawKey b = orRefuse 400 (parse_job_key rawKey) (\<lambda>k.
     let retries = (case read_any None b of Some n \<Rightarrow> if n > 0 then n else 3 | None \<Rightarrow> 3) in
     orFail 400 (RetryJob env k retries) (\<lambda>_. ret (ok (TextBody ''Job retried''))))"

definition milliseconds :: "int \<Rightarrow> int" where
  "milliseconds n = wrap64 (n * 1000000)"

definition versioned :: "headers \<Rightarrow> response eng \<Rightarrow> response eng" where
  "versioned hs m = orRefuse 400 (validateWorkerProtocolVersion hs) (\<lambda>_. bindE m (\<lambda>r. ret (setWorkerProtocolHeaders r)))"

definition activateJobs :: "env \<Rightarrow> headers \<Rightarrow> activate_jobs_request body \<Rightarrow> nat \<Rightarrow> response eng" where
  "activateJobs env hs b ticks = versioned hs
     (orRefuse 400 (read_optional \<lparr>ar_type = [], ar_worker = [], ar_max_jobs = 0, ar_timeout_ms = 0, ar_lock_ms = 0\<rparr> b) (\<lambda>req.
       orFail 400 (ActivateJobs env (ar_type req) (ar_worker req) (ar_max_jobs req) (milliseconds (ar_timeout_ms req)) ticks
           (milliseconds (ar_lock_ms req))) (\<lambda>js. ret (ok (JJobs (ToJobResponses js))))))"

definition jobsCapabilities :: "response eng" where
  "jobsCapabilities = ret (setWorkerProtocolHeaders (ok (JCapabilities WorkerProtocolVersion
     [''activate'', ''complete'', ''fail'', ''extend-lock''])))"

text \<open>
  What the three operations of workers on one job share: the version, the key, and the idempotency key, under which a
  request that was recorded is answered without being run, and one that succeeded is recorded.
\<close>

definition jobRequest :: "env \<Rightarrow> headers \<Rightarrow> string \<Rightarrow> string \<Rightarrow> string \<Rightarrow> (int \<Rightarrow> go_err + unit eng) \<Rightarrow> response eng" where
  "jobRequest env hs verb done_text rawKey act = versioned hs
     (orRefuse 400 (parse_job_key rawKey) (\<lambda>k.
      orRefuse 400 (readIdempotencyKey hs) (\<lambda>ikey.
        let operation = ''jobs.'' @ verb @ '':'' @ show_int k in
        orFail 500 (if ikey = [] then ret False else HasProcessedIdempotencyKey env ikey operation) (\<lambda>already.
          if already then ret (ok (TextBody done_text))
          else orRefuse 400 (act k) (\<lambda>m. orFail 400 m (\<lambda>_.
            thenE (if ikey = [] then ret () else ignoreE (RecordIdempotencyKey env ikey operation))
              (ret (ok (TextBody done_text)))))))))"

definition completeJob :: "env \<Rightarrow> calls \<Rightarrow> headers \<Rightarrow> string \<Rightarrow> complete_job_request body \<Rightarrow> response eng" where
  "completeJob env rec hs rawKey b = jobRequest env hs ''complete'' ''Job completed'' rawKey (\<lambda>k.
     map_sum id (\<lambda>req. CompleteJob env rec k (kr_worker req) (kr_variables req))
       (read_optional \<lparr>kr_worker = [], kr_variables = []\<rparr> b))"

definition failJob :: "env \<Rightarrow> headers \<Rightarrow> string \<Rightarrow> fail_job_request body \<Rightarrow> response eng" where
  "failJob env hs rawKey b = jobRequest env hs ''fail'' ''Job failed'' rawKey (\<lambda>k.
     map_sum id (\<lambda>req. FailJob env k (fr_worker req) (fr_error_message req) (fr_retries req))
       (read_optional \<lparr>fr_worker = [], fr_error_message = [], fr_retries = None\<rparr> b))"

definition extendJobLock :: "env \<Rightarrow> headers \<Rightarrow> string \<Rightarrow> extend_lock_request body \<Rightarrow> response eng" where
  "extendJobLock env hs rawKey b = jobRequest env hs ''extend-lock'' ''Job lock extended'' rawKey (\<lambda>k.
     map_sum id (\<lambda>req. ExtendJobLock env k (er_worker req) (milliseconds (er_lock_ms req)))
       (read_optional \<lparr>er_worker = [], er_lock_ms = 0\<rparr> b))"

section \<open>Events and metrics\<close>

definition api_publishSignal :: "env \<Rightarrow> calls \<Rightarrow> (string \<times> vars) body \<Rightarrow> response eng" where
  "api_publishSignal env rec b = orRefuse 400 (read_strict b) (\<lambda>(name, payload).
     orFail 500 (PublishSignal env rec name payload) (\<lambda>_. ret (ok (TextBody ''Signal published''))))"

definition api_publishMessage :: "env \<Rightarrow> calls \<Rightarrow> publish_message_request body \<Rightarrow> response eng" where
  "api_publishMessage env rec b = orRefuse 400 (read_strict b) (\<lambda>req.
     orFail 500 (PublishMessage env rec (pm_name req) (pm_correlation_key req) (pm_payload req)) (\<lambda>_.
       ret (ok (TextBody ''Message published''))))"

definition api_publishEscalation :: "env \<Rightarrow> calls \<Rightarrow> (string \<times> vars) body \<Rightarrow> response eng" where
  "api_publishEscalation env rec b = orRefuse 400 (read_strict b) (\<lambda>(code, payload).
     if trim_space code = [] then ret (http_error 400 ''escalation_code is required'')
     else orFail 500 (PublishEscalation env rec code payload) (\<lambda>_. ret (ok (TextBody ''Escalation published''))))"

definition engineMetrics :: "env \<Rightarrow> response eng" where
  "engineMetrics env = bindE (gets s_metrics) (\<lambda>m. ret (ok (JMetrics
     \<lparr>mr_outbox_pending = mt_outbox_pending m, mr_publish_success = mt_publish_success m,
      mr_publish_failure = mt_publish_failure m, mr_publish_lag_sec = mt_publish_lag_sec m,
      mr_max_attempts = OutboxMaxAttempts env, mr_idempotency_hit = mt_idempotency_hit m,
      mr_idempotency_miss = mt_idempotency_miss m\<rparr>)))"

section \<open>Routes\<close>

datatype api_call =
    Health
  | IdentityMe
  | ListInbox headers
  | InboxHistory headers string
  | GetInboxInstance headers string string
  | ListInboxTasks headers string string
  | ClaimInboxTask headers string string
  | CompleteInboxTask headers string string
  | DeployWorkflowCall upload
  | ListWorkflowsCall
  | GetWorkflowCall string
  | DeleteWorkflowCall string
  | ListDecisionsCall
  | DeployDecisionCall "deploy_decision_request body"
  | EvaluateDecisionCall string "vars body"
  | StartInstanceCall "start_instance_request body"
  | ListInstancesCall
  | CompletedHistoryCall string
  | UpdateVariablesCall string "vars body"
  | CompleteTaskCall string "string body"
  | ListTasksCall string string
  | ClaimTaskCall string string
  | CompleteUserTaskCall string string
  | ListInstanceJobsCall string
  | ListIncidentsCall string string
  | RetryJobCall string "int option body"
  | GetInstanceCall string
  | DeleteInstanceCall string
  | PublishSignalCall "(string \<times> vars) body"
  | PublishMessageCall "publish_message_request body"
  | PublishEscalationCall "(string \<times> vars) body"
  | ActivateJobsCall headers "activate_jobs_request body" nat
  | JobsCapabilitiesCall
  | CompleteJobCall headers string "complete_job_request body"
  | FailJobCall headers string "fail_job_request body"
  | ExtendJobLockCall headers string "extend_lock_request body"
  | EngineMetricsCall

fun dispatch :: "env \<Rightarrow> calls \<Rightarrow> api_call \<Rightarrow> principal option \<Rightarrow> response eng" where
  "dispatch env rec Health = (\<lambda>_. ret (ok JHealth))"
| "dispatch env rec IdentityMe = (\<lambda>who. ret (ok (JIdentity who)))"
| "dispatch env rec (ListInbox hs) = sdkInboxOnly hs (listInboxInstances env)"
| "dispatch env rec (InboxHistory hs limit) = sdkInboxOnly hs (listInboxCompletedHistory env limit)"
| "dispatch env rec (GetInboxInstance hs i inc) = sdkInboxOnly hs (getInboxInstance env i inc)"
| "dispatch env rec (ListInboxTasks hs i inc) = sdkInboxOnly hs (listUserTasks env i inc)"
| "dispatch env rec (ClaimInboxTask hs i ex) = sdkInboxOnly hs (claimUserTask env i ex)"
| "dispatch env rec (CompleteInboxTask hs i ex) = sdkInboxOnly hs (completeUserTask env rec i ex)"
| "dispatch env rec (DeployWorkflowCall up) = processDesigner (\<lambda>_. deployWorkflow env up)"
| "dispatch env rec ListWorkflowsCall = processDesigner (\<lambda>_. listWorkflows env)"
| "dispatch env rec (GetWorkflowCall i) = processDesigner (\<lambda>_. getWorkflow env i)"
| "dispatch env rec (DeleteWorkflowCall i) = adminOnly (\<lambda>_. deleteWorkflow env i)"
| "dispatch env rec ListDecisionsCall = processDesigner (\<lambda>_. listDecisions env)"
| "dispatch env rec (DeployDecisionCall b) = processDesigner (\<lambda>_. deployDecision env b)"
| "dispatch env rec (EvaluateDecisionCall i b) = adminOrClient (\<lambda>_. evaluateDecision env i b)"
| "dispatch env rec (StartInstanceCall b) = adminOrClient (\<lambda>_. startInstance env rec b)"
| "dispatch env rec ListInstancesCall = scopedInstanceRead (listInstances env)"
| "dispatch env rec (CompletedHistoryCall limit) = scopedInstanceRead (listCompletedInstanceHistory env limit)"
| "dispatch env rec (UpdateVariablesCall i b) = adminOrClient (\<lambda>_. updateVariables env i b)"
| "dispatch env rec (CompleteTaskCall i b) = adminOrClient (\<lambda>_. api_completeTask env rec i b)"
| "dispatch env rec (ListTasksCall i inc) = scopedInstanceRead (listUserTasks env i inc)"
| "dispatch env rec (ClaimTaskCall i ex) = adminOnly (claimUserTask env i ex)"
| "dispatch env rec (CompleteUserTaskCall i ex) = adminOnly (completeUserTask env rec i ex)"
| "dispatch env rec (ListInstanceJobsCall i) = adminOnly (\<lambda>_. listInstanceJobs env i)"
| "dispatch env rec (ListIncidentsCall k limit) = adminOnly (\<lambda>_. listIncidents env k limit)"
| "dispatch env rec (RetryJobCall k b) = adminOnly (\<lambda>_. retryJob env k b)"
| "dispatch env rec (GetInstanceCall i) = scopedInstanceRead (getInstance env i)"
| "dispatch env rec (DeleteInstanceCall i) = adminOnly (\<lambda>_. deleteInstance env i)"
| "dispatch env rec (PublishSignalCall b) = adminOrClient (\<lambda>_. api_publishSignal env rec b)"
| "dispatch env rec (PublishMessageCall b) = adminOrClient (\<lambda>_. api_publishMessage env rec b)"
| "dispatch env rec (PublishEscalationCall b) = adminOrClient (\<lambda>_. api_publishEscalation env rec b)"
| "dispatch env rec (ActivateJobsCall hs b ticks) = adminOrClient (\<lambda>_. activateJobs env hs b ticks)"
| "dispatch env rec JobsCapabilitiesCall = adminOrClient (\<lambda>_. jobsCapabilities)"
| "dispatch env rec (CompleteJobCall hs k b) = adminOrClient (\<lambda>_. completeJob env rec hs k b)"
| "dispatch env rec (FailJobCall hs k b) = adminOrClient (\<lambda>_. failJob env hs k b)"
| "dispatch env rec (ExtendJobLockCall hs k b) = adminOrClient (\<lambda>_. extendJobLock env hs k b)"
| "dispatch env rec EngineMetricsCall = adminOnly (\<lambda>_. engineMetrics env)"

text \<open>
  A request behind the middleware: its path and \<open>Authorization\<close> header, the configuration provided and the time, and
  the route it matches. The state of the middleware is kept beside that of the engine.
\<close>

definition handleHttp :: "auth_env \<Rightarrow> env \<Rightarrow> calls \<Rightarrow> go_err + auth_config \<Rightarrow> int \<Rightarrow> string \<Rightarrow> string \<Rightarrow> api_call \<Rightarrow>
    middleware \<Rightarrow> est \<Rightarrow> response outcome \<times> middleware \<times> est" where
  "handleHttp ae env rec provided now path authorization c m s =
     (case Handler ae provided now path authorization m of
        (Refuse st msg, m') \<Rightarrow> (Ok (http_error st msg), m', s)
      | (Pass who, m') \<Rightarrow> (case dispatch env rec c who s of (r, s') \<Rightarrow> (r, m', s')))"

section \<open>gRPC\<close>

datatype grpc_call =
    GrpcActivateJobs string string int int nat
  | GrpcCompleteJob int string string
  | GrpcFailJob int string string int

text \<open>\<open>pb.Job\<close>: the columns of a job the server fills in; the deadline is in milliseconds, 0 without a lock.\<close>

record pb_job =
  pj_key :: int
  pj_id :: string
  pj_type :: string
  pj_instance_key :: int
  pj_definition_key :: int
  pj_element_key :: int
  pj_element_id :: string
  pj_worker :: string
  pj_retries :: int
  pj_deadline :: int

definition pb_job_of :: "job \<Rightarrow> pb_job" where
  "pb_job_of j = \<lparr>pj_key = jb_key j, pj_id = jb_id j, pj_type = jb_type j, pj_instance_key = jb_instance_key j,
     pj_definition_key = jb_definition_key j, pj_element_key = jb_element_key j, pj_element_id = jb_element_id j,
     pj_worker = jb_worker j, pj_retries = safeInt32 (jb_retries j),
     pj_deadline = (case jb_lock_until j of None \<Rightarrow> 0 | Some t \<Rightarrow> t div 1000000)\<rparr>"

text \<open>\<open>json\<close> is \<open>json.Unmarshal\<close> into a map. An error is the error of the call.\<close>

fun grpc_serve :: "env \<Rightarrow> calls \<Rightarrow> (string \<Rightarrow> go_err + vars) \<Rightarrow> grpc_call \<Rightarrow> pb_job list eng" where
  "grpc_serve env rec json (GrpcActivateJobs ty worker maxJobs timeoutMs ticks) =
     bindE (ActivateJobs env ty worker maxJobs (milliseconds timeoutMs) ticks 20000000000) (\<lambda>js. ret (map pb_job_of js))"
| "grpc_serve env rec json (GrpcCompleteJob k worker raw) =
     (case (if raw = [] then Inr [] else json raw) of
        Inl e \<Rightarrow> throw (Wrapf ''invalid variables JSON'' e)
      | Inr vs \<Rightarrow> thenE (CompleteJob env rec k worker vs) (ret []))"
| "grpc_serve env rec json (GrpcFailJob k worker msg retries) =
     thenE (FailJob env k worker msg (Some retries)) (ret [])"

end
