(* ===== verification/ApiFrame.thy ===== *)
theory ApiFrame
  imports Api Invariants
begin

text \<open>
  What the HTTP interface does to the store: each handler is proved, once, to respect any relation on states that the
  engine's writes respect (the locales of theory \<open>Frame\<close>). \<open>eng_frame_deploy\<close> sits between the two: it has the writes of
  deployments and idempotency keys, and none that removes a row.
\<close>

section \<open>The store behind the interface\<close>

text \<open>Writes of a deployment and of an idempotency key: nothing is removed.\<close>

inductive deploy_write :: "db \<Rightarrow> db \<Rightarrow> bool" where
  deploy_process: "pr_key p \<notin> pr_key ` set (db_processes d) \<Longrightarrow> deploy_write d (d\<lparr>db_processes := db_processes d @ [p]\<rparr>)"
| deploy_key: "(ir_key r, ir_operation r) \<notin> (\<lambda>x. (ir_key x, ir_operation x)) ` set (db_idempotency d) \<Longrightarrow>
      deploy_write d (d\<lparr>db_idempotency := db_idempotency d @ [r]\<rparr>)"
| deploy_decision: "dd_key x \<notin> dd_key ` set (db_decisions d) \<Longrightarrow> deploy_write d (d\<lparr>db_decisions := db_decisions d @ [x]\<rparr>)"
| deploy_version: "deploy_write d (d\<lparr>db_decisions := update_rows (\<lambda>x. dd_key x = k)
      (\<lambda>x. x\<lparr>dd_name := name, dd_version := v, dd_resource := res, dd_updated_at := t\<rparr>) (db_decisions d)\<rparr>)"

lemma deploy_write_admin: "deploy_write d e \<Longrightarrow> admin_write d e"
  by (induction rule: deploy_write.induct) (auto intro: admin_write.intros)

lemmas handler_defs = deployWorkflow_def listWorkflows_def getWorkflow_def listDecisions_def deployDecision_def
  evaluateDecision_def startInstance_def listInstances_def listCompletedInstanceHistory_def listInboxInstances_def
  listInboxCompletedHistory_def readInstance_def getInstance_def getInboxInstance_def updateVariables_def
  api_completeTask_def listUserTasks_def claimUserTask_def completeUserTask_def listInstanceJobs_def listIncidents_def
  retryJob_def activateJobs_def jobsCapabilities_def jobRequest_def completeJob_def failJob_def extendJobLock_def
  api_publishSignal_def api_publishMessage_def api_publishEscalation_def engineMetrics_def

lemmas guard_defs = adminOnly_def adminOrClient_def processDesigner_def scopedInstanceRead_def sdkInboxOnly_def
  RequireAnyRole_def RequireAuthenticated_def

lemma keeps_upload [keeps_intros]:
  "(\<And>x. keeps R (a x)) \<Longrightarrow> (\<And>x. keeps R (b x)) \<Longrightarrow> (\<And>x. keeps R (c x)) \<Longrightarrow>
     keeps R (case u of Uploaded x \<Rightarrow> a x | TooLarge x \<Rightarrow> b x | ReadFailed x \<Rightarrow> c x)"
  by (cases u) simp_all

text \<open>The calls that remove rows.\<close>

definition removes :: "api_call \<Rightarrow> bool" where
  "removes c \<longleftrightarrow> (case c of DeleteWorkflowCall _ \<Rightarrow> True | DeleteInstanceCall _ \<Rightarrow> True | _ \<Rightarrow> False)"

text \<open>
  The interface in use: HTTP calls under the principals \<open>allowed\<close>, gRPC calls and the requests of the scheduler, in any
  order; and with everything else an administrator or the housekeeping may do.
\<close>

inductive client_run :: "env \<Rightarrow> (api_call \<Rightarrow> principal option \<Rightarrow> bool) \<Rightarrow> (string \<Rightarrow> go_err + vars) \<Rightarrow> est \<Rightarrow> est \<Rightarrow> bool"
  for env allowed json where
  client_nothing: "client_run env allowed json s s"
| client_http: "client_run env allowed json s t \<Longrightarrow> allowed c who \<Longrightarrow> dispatch env (run env n) c who t = (r, u) \<Longrightarrow>
    client_run env allowed json s u"
| client_grpc: "client_run env allowed json s t \<Longrightarrow> grpc_serve env (run env n) json q t = (r', u) \<Longrightarrow>
    client_run env allowed json s u"
| client_background: "client_run env allowed json s t \<Longrightarrow> serve env n rq t = (r'', u) \<Longrightarrow> client_run env allowed json s u"

inductive api_run :: "env \<Rightarrow> (string \<Rightarrow> go_err + vars) \<Rightarrow> est \<Rightarrow> est \<Rightarrow> bool" for env json where
  api_nothing: "api_run env json s s"
| api_http: "api_run env json s t \<Longrightarrow> dispatch env (run env n) c who t = (r, u) \<Longrightarrow> api_run env json s u"
| api_grpc: "api_run env json s t \<Longrightarrow> grpc_serve env (run env n) json q t = (r', u) \<Longrightarrow> api_run env json s u"
| api_engine: "api_run env json s t \<Longrightarrow> reaches env t u \<Longrightarrow> api_run env json s u"

locale eng_frame_deploy = eng_frame +
  assumes R_deploy_write: "deploy_write (s_db s) d \<Longrightarrow> R s (s\<lparr>s_db := d\<rparr>)"
begin

lemma keeps_deploy_exec:
  "(\<And>d x d'. f d = Inr (x, d') \<Longrightarrow> d' = d \<or> deploy_write d d') \<Longrightarrow> keeps R (repo_exec env f)"
  by (rule keeps_repo_exec) (blast intro: R_deploy_write)

lemma keeps_CreateProcess [keeps_intros]: "keeps R (CreateProcess env p)"
  unfolding CreateProcess_def
  by (rule keeps_deploy_exec) (auto simp: on_table_def insert_row_def split: if_splits intro!: deploy_process)

lemma keeps_RecordIdempotencyKey [keeps_intros]: "keeps R (RecordIdempotencyKey env k op)"
  unfolding RecordIdempotencyKey_def CreateIdempotencyRecord_def Let_def
  by (intro keeps_intros; rule keeps_deploy_exec) (auto split: if_splits intro!: deploy_key)

lemma keeps_UpsertDecision [keeps_intros]: "keeps R (UpsertDecision env dec)"
  unfolding UpsertDecision_def
  by (intro keeps_intros; rule keeps_deploy_exec)
     (auto simp: on_table_def insert_row_def update_by_key_def split: if_splits intro!: deploy_decision deploy_version)

lemma keeps_DeployDecision [keeps_intros]: "keeps R (DeployDecision env i name res)"
  unfolding DeployDecision_def by (intro keeps_intros)

lemma keeps_DeployWorkflowFromBPMN [keeps_intros]: "keeps R (DeployWorkflowFromBPMN env xml)"
  unfolding DeployWorkflowFromBPMN_def deployWorkflowFromBPMN_tx_def by (intro keeps_intros)

lemma keeps_orFail [keeps_intros]: "keeps R m \<Longrightarrow> (\<And>x. keeps R (k x)) \<Longrightarrow> keeps R (orFail st m k)"
  unfolding orFail_def by (intro keeps_intros)

lemma keeps_orRefuse [keeps_intros]: "(\<And>x. keeps R (k x)) \<Longrightarrow> keeps R (orRefuse st r k)"
  unfolding orRefuse_def by (intro keeps_intros)

lemma keeps_orRefuse_run:
  "(\<And>m. r = Inr m \<Longrightarrow> keeps R (k m)) \<Longrightarrow> keeps R (orRefuse st r k)"
  unfolding orRefuse_def by (auto split: sum.split intro: keeps_intros)

lemma keeps_withPrincipal [keeps_intros]: "(\<And>p. keeps R (k p)) \<Longrightarrow> keeps R (withPrincipal who k)"
  unfolding withPrincipal_def by (intro keeps_intros)

lemma keeps_versioned [keeps_intros]: "keeps R m \<Longrightarrow> keeps R (versioned hs m)"
  unfolding versioned_def by (intro keeps_intros)

lemma keeps_visibility [keeps_intros]:
  "keeps R (canViewInstance env i p)" "keeps R (filterInstancesForPrincipal env ws p)"
  "keeps R (userTaskResponsesForRequest env who i c)" "keeps R (userTaskJobForPrincipal env i ex)"
  unfolding canViewInstance_def filterInstancesForPrincipal_def userTaskResponsesForRequest_def userTaskJobForPrincipal_def
  by (intro keeps_intros)+

lemma keeps_jobRequest:
  "(\<And>k m. act k = Inr m \<Longrightarrow> keeps R m) \<Longrightarrow> keeps R (jobRequest env hs verb txt rawKey act)"
  unfolding jobRequest_def Let_def by (intro keeps_intros keeps_orRefuse_run) auto

lemma keeps_job_handlers [keeps_intros]:
  "calls_keep R rec \<Longrightarrow> keeps R (completeJob env rec hs k b)" "keeps R (failJob env hs k b')" "keeps R (extendJobLock env hs k b'')"
  unfolding completeJob_def failJob_def extendJobLock_def
  by (rule keeps_jobRequest; auto simp: read_optional_def map_sum_def split: body.splits sum.splits intro: keeps_intros)+

lemma keeps_guards [keeps_intros]:
  assumes "\<And>w. keeps R (h w)"
  shows "keeps R (adminOnly h who)" "keeps R (adminOrClient h who)" "keeps R (processDesigner h who)"
    "keeps R (scopedInstanceRead h who)" "keeps R (sdkInboxOnly hs h who)"
  unfolding guard_defs by (intro keeps_intros assms)+

lemma keeps_handlers [keeps_intros]:
  "keeps R (deployWorkflow env up)" "keeps R (listWorkflows env)" "keeps R (getWorkflow env i)" "keeps R (listDecisions env)"
  "keeps R (deployDecision env db)" "keeps R (evaluateDecision env i vb)" "keeps R (listInstances env who)"
  "keeps R (listCompletedInstanceHistory env raw who)" "keeps R (listInboxInstances env who)"
  "keeps R (listInboxCompletedHistory env raw who)" "keeps R (getInstance env i who)"
  "keeps R (getInboxInstance env i raw who)" "keeps R (updateVariables env i vb)" "keeps R (listUserTasks env i raw who)"
  "keeps R (claimUserTask env i ex who)" "keeps R (listInstanceJobs env i)" "keeps R (listIncidents env raw raw')"
  "keeps R (retryJob env raw rb)" "keeps R (activateJobs env hs ab ticks)" "keeps R jobsCapabilities"
  "keeps R (engineMetrics env)"
  unfolding handler_defs Let_def by (intro keeps_intros)+

lemma keeps_running_handlers [keeps_intros]:
  assumes "calls_keep R rec"
  shows "keeps R (startInstance env rec sb)" "keeps R (api_completeTask env rec i tb)" "keeps R (completeUserTask env rec i ex who)"
    "keeps R (api_publishSignal env rec gb)" "keeps R (api_publishMessage env rec mb)" "keeps R (api_publishEscalation env rec gb)"
  unfolding handler_defs Let_def by (intro keeps_intros assms)+

lemma keeps_dispatch:
  assumes "calls_keep R rec" and "removes c \<longrightarrow> (\<forall>p. who = Some p \<longrightarrow> \<not> HasRole p RoleArtificialFlowAdmin)"
  shows "keeps R (dispatch env rec c who)"
proof (cases "removes c")
  case True
  have "adminOnly h who = ret (http_error (if who = None then 401 else 403) (if who = None then ''Unauthorized'' else ''Forbidden''))" for h
    using assms(2) True by (auto simp: adminOnly_def RequireAnyRole_def HasAnyRole_def split: option.splits)
  with True show ?thesis by (auto simp: removes_def split: api_call.splits intro: keeps_intros)
next
  case False
  with assms(1) show ?thesis by (cases c) (auto simp: removes_def intro!: keeps_intros)
qed

lemma keeps_grpc: "calls_keep R rec \<Longrightarrow> keeps R (grpc_serve env rec json q)"
  by (cases q) (auto intro!: keeps_intros)

lemma client_run_frame:
  "client_run env allowed json s t \<Longrightarrow> (\<And>c who. allowed c who \<Longrightarrow> removes c \<longrightarrow> (\<forall>p. who = Some p \<longrightarrow> \<not> HasRole p RoleArtificialFlowAdmin)) \<Longrightarrow>
     R s t"
proof (induction rule: client_run.induct)
  case (client_http s t c who n r u)
  then show ?case using keepsD [OF keeps_dispatch [OF keeps_run]] R_trans by metis
next
  case (client_grpc s t n q r u)
  then show ?case using keepsD [OF keeps_grpc [OF keeps_run]] R_trans by metis
next
  case (client_background s t n q r u)
  then show ?case using serve_frame R_trans by metis
qed (rule R_refl)

end

section \<open>Administration through the interface\<close>

context eng_frame_admin
begin

sublocale deploy: eng_frame_deploy R
  by unfold_locales (auto intro: R_admin_write deploy_write_admin)

lemma keeps_removing_handlers [keeps_intros]: "keeps R (deleteWorkflow env i)" "keeps R (deleteInstance env i)"
  unfolding deleteWorkflow_def deleteInstance_def by (intro keeps_intros)+

lemma keeps_any_dispatch:
  assumes "calls_keep R rec"
  shows "keeps R (dispatch env rec c who)"
proof (cases "removes c")
  case True
  then show ?thesis by (auto simp: removes_def split: api_call.splits intro!: keeps_intros)
qed (use assms deploy.keeps_dispatch in blast)

lemma api_run_frame: "api_run env json s t \<Longrightarrow> R s t"
proof (induction rule: api_run.induct)
  case (api_http s t n c who r u)
  then show ?case using keepsD [OF keeps_any_dispatch [OF keeps_run]] R_trans by metis
next
  case (api_grpc s t n q r u)
  then show ?case using keepsD [OF deploy.keeps_grpc [OF keeps_run]] R_trans by metis
next
  case (api_engine s t u)
  then show ?case using reaches_frame R_trans by metis
qed (rule R_refl)

end

section \<open>What clients may do to the store\<close>

definition client_write :: "db \<Rightarrow> db \<Rightarrow> bool" where
  "client_write d e \<longleftrightarrow> runtime_write d e \<or> deploy_write d e"

interpretation client: eng_frame_deploy "\<lambda>s t. client_write\<^sup>*\<^sup>* (s_db s) (s_db t)"
  by unfold_locales (auto simp: client_write_def)

text \<open>Nothing of what happened is lost: rows stay, with the columns that say what they are.\<close>

definition keeps_history :: "db \<Rightarrow> db \<Rightarrow> bool" where
  "keeps_history d e \<longleftrightarrow> grows instance_step (db_instances d) (db_instances e) \<and>
     grows element_step (db_elements d) (db_elements e) \<and> grows job_step (db_jobs d) (db_jobs e) \<and>
     grows outbox_step (db_outbox d) (db_outbox e) \<and> grows (=) (db_incidents d) (db_incidents e) \<and>
     grows (=) (db_processes d) (db_processes e) \<and> grows (=) (db_idempotency d) (db_idempotency e)"

lemma keeps_history_refl: "keeps_history d d"
  by (simp add: keeps_history_def grows_refl row_refl)

lemma keeps_history_trans: "keeps_history a b \<Longrightarrow> keeps_history b c \<Longrightarrow> keeps_history a c"
  unfolding keeps_history_def by (elim conjE, intro conjI; (rule grows_step_trans; assumption)?)

lemma client_write_history: "client_write d e \<Longrightarrow> keeps_history d e"
proof (unfold client_write_def, elim disjE)
  assume "runtime_write d e"
  then show ?thesis using runtime_write_audit [of d e] by (auto simp: audit_def keeps_history_def grows_refl)
next
  assume "deploy_write d e"
  then show ?thesis
    by (cases rule: deploy_write.cases) (auto simp: keeps_history_def row_refl intro: grows_refl grows_append)
qed

lemma client_writes_history: "client_write\<^sup>*\<^sup>* d e \<Longrightarrow> keeps_history d e"
  by (induction rule: rtranclp_induct) (auto intro: keeps_history_refl keeps_history_trans client_write_history)

end
