(* ===== verification/AuthProps.thy ===== *)
theory AuthProps
  imports Auth
begin

text \<open>
  What authentication guarantees: which requests the middleware hands on and with which principal, which answers
  of the introspection endpoint make a principal, and that the canonical form of a list of roles is a normal form
  with the same rights.
\<close>

section \<open>Strings\<close>

lemma lower_char_idem [simp]: "lower_char (lower_char c) = lower_char c"
  by (simp add: lower_char_def Let_def of_char_of)

lemma to_lower_idem [simp]: "to_lower (to_lower s) = to_lower s"
  by (simp add: to_lower_def)

lemma to_lower_Nil_iff [simp]: "to_lower s = [] \<longleftrightarrow> s = []"
  by (simp add: to_lower_def)

lemma split_join:
  "ps \<noteq> [] \<Longrightarrow> \<forall>p \<in> set ps. c \<notin> set p \<Longrightarrow> split_at_char c (join_with [c] ps) = ps"
proof (induction "[c]" ps rule: join_with.induct)
  case (2 x)
  then show ?case by (induction x) auto
next
  case (3 x y ys)
  have "split_at_char c (x @ c # r) = x # split_at_char c r" if "c \<notin> set x" for x r
    using that by (induction x) auto
  with 3 show ?case by simp
qed simp

lemma first_trimmed_nonempty: "(\<exists>v \<in> set vs. trim_space v \<noteq> []) \<Longrightarrow> first_trimmed vs \<noteq> []"
  by (auto simp: first_trimmed_def find_None_iff find_Some_iff split: option.split)

lemma first_trimmed_trimmed [simp]: "trim_space (first_trimmed vs) = first_trimmed vs"
  by (simp add: first_trimmed_def split: option.split)

section \<open>Roles\<close>

definition role_key :: "string \<Rightarrow> string" where
  "role_key r = to_lower (CanonicalRole r)"

lemma CanonicalRole_idem [simp]: "CanonicalRole (CanonicalRole r) = CanonicalRole r"
proof -
  have "CanonicalRole RoleArtificialFlowAdmin = RoleArtificialFlowAdmin" "CanonicalRole RoleArtificialFlowModeler = RoleArtificialFlowModeler"
    "CanonicalRole RoleArtificialFlowClient = RoleArtificialFlowClient" by code_simp+
  then show ?thesis by (simp add: CanonicalRole_def Let_def)
qed

lemma canonical_keys: "set (map role_key (canonical_from seen rs)) = set (map role_key rs) - set seen - {[]}"
proof (induction seen rs rule: canonical_from.induct)
  case (2 seen r rs)
  have "role_key (CanonicalRole r) = role_key r" by (simp add: role_key_def)
  with 2 show ?case by (auto simp: Let_def role_key_def)
qed simp

lemma canonical_normal:
  "(\<forall>r \<in> set (canonical_from seen rs). CanonicalRole r = r \<and> r \<noteq> []) \<and>
     distinct (map to_lower (canonical_from seen rs)) \<and> set (map to_lower (canonical_from seen rs)) \<inter> set seen = {}"
proof (induction rs arbitrary: seen)
  case (Cons r rs)
  show ?case
  proof (cases "CanonicalRole r = [] \<or> to_lower (CanonicalRole r) \<in> set seen")
    case True
    then show ?thesis using Cons.IH [of seen] by (simp add: Let_def)
  next
    case False
    then show ?thesis using Cons.IH [of "to_lower (CanonicalRole r) # seen"] by (auto simp: Let_def)
  qed
qed simp

lemma canonical_fixed:
  "\<forall>r \<in> set rs. CanonicalRole r = r \<and> r \<noteq> [] \<Longrightarrow> distinct (map to_lower rs) \<Longrightarrow> set (map to_lower rs) \<inter> set seen = {} \<Longrightarrow>
     canonical_from seen rs = rs"
  by (induction rs arbitrary: seen) (auto simp: Let_def)

lemma HasRole_keys: "HasRole p r \<longleftrightarrow> CanonicalRole r \<noteq> [] \<and> role_key r \<in> set (map role_key (pl_roles p))"
  by (simp add: HasRole_def Let_def list_ex_iff equal_fold_def role_key_def image_iff) (metis (no_types))

text \<open>The canonical form of a list of roles is a normal form: making it again changes nothing, no role occurs twice in
  it, in whatever case it is written, none is blank, and a principal has exactly the rights with it that it
  has with the list it came from.\<close>

theorem canonical_roles_are_normal:
  "CanonicalizeRoles (CanonicalizeRoles rs) = CanonicalizeRoles rs \<and>
   distinct (map to_lower (CanonicalizeRoles rs)) \<and> [] \<notin> set (CanonicalizeRoles rs) \<and>
   HasAnyRole (p\<lparr>pl_roles := CanonicalizeRoles rs\<rparr>) required = HasAnyRole (p\<lparr>pl_roles := rs\<rparr>) required"
proof -
  let ?cs = "canonical_from [] rs"
  have n: "(\<forall>r \<in> set ?cs. CanonicalRole r = r \<and> r \<noteq> []) \<and> distinct (map to_lower ?cs) \<and> set (map to_lower ?cs) \<inter> set [] = {}"
    by (rule canonical_normal)
  have keys: "set (map role_key ?cs) = set (map role_key rs) - {[]}" using canonical_keys [of "[]" rs] by simp
  have "role_key r \<noteq> []" if "CanonicalRole r \<noteq> []" for r using that by (simp add: role_key_def)
  with keys have "role_key r \<in> set (map role_key ?cs) \<longleftrightarrow> role_key r \<in> set (map role_key rs)" if "CanonicalRole r \<noteq> []" for r
    using that by blast
  then have "HasRole (p\<lparr>pl_roles := ?cs\<rparr>) r = HasRole (p\<lparr>pl_roles := rs\<rparr>) r" for r
    by (cases "CanonicalRole r = []") (simp_all add: HasRole_keys del: set_map list.set_map)
  then have "HasAnyRole (p\<lparr>pl_roles := ?cs\<rparr>) required = HasAnyRole (p\<lparr>pl_roles := rs\<rparr>) required"
    by (simp add: HasAnyRole_def list_ex_iff)
  moreover have "canonical_from [] ?cs = ?cs" by (rule canonical_fixed) (use n in simp_all)
  ultimately show ?thesis using n unfolding CanonicalizeRoles_def by blast
qed

section \<open>Introspection\<close>

lemma zdiv_less_mult:
  assumes "0 < b"
  shows "(a :: int) div b < e \<longleftrightarrow> a < e * b"
proof -
  have a: "a = (a div b) * b + a mod b" by simp
  have r: "0 \<le> a mod b" "a mod b < b" using assms by simp_all
  have "a < e * b" if "a div b < e"
  proof -
    from that assms have "(a div b + 1) * b \<le> e * b" by (intro mult_right_mono) auto
    with a r show ?thesis unfolding distrib_right by linarith
  qed
  moreover have "e * b \<le> a" if "e \<le> a div b"
  proof -
    from that assms have "e * b \<le> (a div b) * b" by (intro mult_right_mono) auto
    with a r show ?thesis by linarith
  qed
  ultimately show ?thesis by force
qed

lemma before_unix_plain:
  assumes "\<bar>e\<bar> \<le> 2 ^ 62"
  shows "before_unix now e \<longleftrightarrow> now < e * 1000000000"
proof -
  have "wrap64 (e + 62135596800) = e + 62135596800" by (rule wrap64_id) (use assms in \<open>auto simp: in_int64_def abs_le_iff\<close>)
  then have "before_unix now e \<longleftrightarrow> now div 1000000000 < e" by (simp add: before_unix_def)
  then show ?thesis by (simp add: zdiv_less_mult)
qed

text \<open>An introspection endpoint that knows one token, and a configuration for it.\<close>

definition ann_claims :: vars where
  "ann_claims = [(''active'', VBool True), (''sub'', VStr ''ann''), (''exp'', VFloat (of_int 2000000000)),
     (''aud'', VStr ''Flow''), (''roles'', VList [VStr ''ArtificialFlow Client''])]"

definition demo_auth :: auth_env where
  "demo_auth = \<lparr>ae_url_parse = (\<lambda>u. Inr \<lparr>u_scheme = ''https'', u_host = ''idp'', u_userinfo = False, u_text = u\<rparr>),
     ae_introspect = (\<lambda>q. if hd (iq_form q) = (''token'', ''t1'') then Answered 200 (Inr ann_claims)
        else Answered 200 (Inr [(''active'', VBool False)])),
     oidc_discover = (\<lambda>_ _. Some (Msg ''no provider'')), oidc_verify = (\<lambda>_ _ _ _. Inl (Msg ''no provider''))\<rparr>"

definition demo_config :: auth_config where
  "demo_config = ResolveConfigFromEnv (\<lambda>k. if k = ''AUTH_TOKEN_MODE'' then ''opaque''
     else if k = ''AUTH_INTROSPECTION_URL'' then ''https://idp/introspect''
     else if k = ''AUTH_CLIENT_ID'' then ''flow'' else []) (\<lambda>_ _. [])"

definition ann :: principal where
  "ann = \<lparr>pl_subject = ''ann'', pl_issuer = [], pl_audience = [''Flow''], pl_email = [], pl_name = [], pl_tenant = [],
     pl_roles = [''artificialflow client''], pl_scopes = [], pl_token_mode = ''introspection'', pl_claims = ann_claims\<rparr>"

lemma ann_verified: "introspection_Verify demo_auth demo_config ''https://idp/introspect'' 1700000000000000000 ''t1'' = Inr ann"
  by code_simp

text \<open>Introspection lets in only tokens that are good now. When a token verifies, the endpoint answered 200 with a JSON
  object that says the token is active; a numeric expiry lies in the future and a numeric start does not; the principal
  has a subject and canonical roles; and when the audience is enforced for a client id, that id is among the
  principal's audiences, or it is the client or authorized party of the token, up to case and blanks.\<close>

theorem verified_tokens_are_good_now:
  assumes "introspection_Verify ae cfg target now token = Inr p"
  shows "\<exists>claims. ae_introspect ae (introspection_request ae cfg target token) = Answered 200 (Inr claims) \<and>
     valueAsBool (map_of claims ''active'') \<and>
     (\<forall>e. map_of claims ''exp'' = Some (VFloat (of_int e)) \<and> \<bar>e\<bar> \<le> 2 ^ 62 \<longrightarrow> now < e * 1000000000) \<and>
     (\<forall>e. map_of claims ''nbf'' = Some (VFloat (of_int e)) \<and> \<bar>e\<bar> \<le> 2 ^ 62 \<longrightarrow> e * 1000000000 \<le> now) \<and>
     pl_subject p \<noteq> [] \<and> CanonicalizeRoles (pl_roles p) = pl_roles p \<and>
     (cf_enforce_audience cfg \<and> trim_space (cf_client_id cfg) \<noteq> [] \<longrightarrow>
        (\<exists>a \<in> set (pl_audience p) \<union> {claim_string claims ''client_id'', claim_string claims ''azp''}.
           to_lower (trim_space a) = to_lower (trim_space (cf_client_id cfg))))"
proof -
  from assms obtain claims where ans: "ae_introspect ae (introspection_request ae cfg target token) = Answered 200 (Inr claims)"
    and p: "introspection_principal cfg now claims = Inr p"
    by (auto simp: introspection_Verify_def split: intro_answer.splits if_splits sum.splits)
  let ?subject = "first_trimmed [claim_string claims ''sub'', claim_string claims ''username'']"
  let ?p = "principalFromClaims claims ?subject cfg ''introspection''"
  from p have act: "valueAsBool (map_of claims ''active'')" and times: "validateIntrospectionTimes claims now = None"
    and sub: "?subject \<noteq> []" and pp: "pl_subject p = pl_subject ?p" "pl_roles p = pl_roles ?p"
    and aud: "audience_ok cfg (pl_audience p) claims"
    by (auto simp: introspection_principal_def Let_def split: if_splits option.splits)
  have "pl_subject ?p \<noteq> []"
    using sub by (auto simp: principalFromClaims_def Let_def first_trimmed_nonempty)
  moreover have "CanonicalizeRoles (pl_roles ?p) = pl_roles ?p"
    using canonical_roles_are_normal by (simp add: principalFromClaims_def Let_def)
  moreover have "now < e * 1000000000" if "map_of claims ''exp'' = Some (VFloat (of_int e))" "\<bar>e\<bar> \<le> 2 ^ 62" for e
    using times that before_unix_plain [of e now]
    by (simp add: validateIntrospectionTimes_def numericDate_def int_of_f64_def split: if_splits)
  moreover have "e * 1000000000 \<le> now" if "map_of claims ''nbf'' = Some (VFloat (of_int e))" "\<bar>e\<bar> \<le> 2 ^ 62" for e
    using times that before_unix_plain [of e now]
    by (simp add: validateIntrospectionTimes_def numericDate_def int_of_f64_def split: if_splits)
  ultimately show ?thesis
    using ans act aud pp by (auto simp: audience_ok_def list_ex_iff equal_fold_def)
qed

theorem verified_tokens_are_good_now_witness:
  "introspection_Verify demo_auth demo_config ''https://idp/introspect'' 1700000000000000000 ''t1'' = Inr ann \<and>
   pl_subject ann \<noteq> [] \<and> CanonicalizeRoles (pl_roles ann) = pl_roles ann"
  using ann_verified verified_tokens_are_good_now [OF ann_verified] by blast

section \<open>The middleware\<close>

text \<open>A configuration none of whose fields contains the character that joins the fields of a fingerprint.\<close>

definition no_bar :: "auth_config \<Rightarrow> bool" where
  "no_bar c \<longleftrightarrow> (\<forall>p \<in> set (fingerprint_parts c). CHR ''|'' \<notin> set p)"

lemma fingerprint_inj:
  assumes "configFingerprint c = configFingerprint d" and "no_bar c" and "no_bar d"
  shows "fingerprint_parts c = fingerprint_parts d"
proof -
  have ne: "fingerprint_parts e \<noteq> []" for e by (simp add: fingerprint_parts_def)
  have "split_at_char CHR ''|'' (configFingerprint e) = fingerprint_parts e" if "no_bar e" for e
    unfolding configFingerprint_def by (rule split_join [OF ne]) (use that in \<open>simp add: no_bar_def\<close>)
  with assms show ?thesis by metis
qed

text \<open>The verifier a middleware keeps was built from a configuration with the fingerprint kept beside it.\<close>

definition mw_wf :: "auth_env \<Rightarrow> middleware \<Rightarrow> bool" where
  "mw_wf ae m \<longleftrightarrow> (\<forall>v f. mw_verifier m = Some (v, f) \<longrightarrow> (\<exists>c. no_bar c \<and> buildVerifier ae c = Inr v \<and> f = configFingerprint c))"

lemma mw_wf_new: "NewDynamicMiddleware ae (Inr c) paths = Inr m \<Longrightarrow> no_bar c \<Longrightarrow> mw_wf ae m"
  by (auto simp: NewDynamicMiddleware_def mw_wf_def Let_def split: if_splits sum.splits)

lemma getVerifier_wf:
  assumes "getVerifier ae m c = Inr (v, m')" and "mw_wf ae m" and "no_bar c"
  shows "mw_wf ae m' \<and> mw_public m' = mw_public m \<and>
    (\<exists>d. fingerprint_parts d = fingerprint_parts c \<and> buildVerifier ae d = Inr v)"
proof (cases "\<exists>f. mw_verifier m = Some (v, f) \<and> f = configFingerprint c \<and> m' = m")
  case True
  with assms(2) obtain d where "no_bar d" "buildVerifier ae d = Inr v" "configFingerprint d = configFingerprint c"
    by (fastforce simp: mw_wf_def)
  with True assms fingerprint_inj show ?thesis by blast
next
  case False
  with assms(1) have "buildVerifier ae c = Inr v \<and> m' = m\<lparr>mw_verifier := Some (v, configFingerprint c)\<rparr>"
    by (auto simp: getVerifier_def split: option.splits prod.splits if_splits sum.splits)
  with assms(3) show ?thesis by (auto simp: mw_wf_def)
qed

text \<open>A request as the middleware sees it: what the provider of the configuration says, the time, path and \<open>Authorization\<close>.\<close>

type_synonym arrival = "(go_err + auth_config) \<times> int \<times> string \<times> string"

definition admit :: "auth_env \<Rightarrow> arrival \<Rightarrow> middleware \<Rightarrow> middleware" where
  "admit ae q m = (case q of (provided, now, path, authorization) \<Rightarrow> snd (Handler ae provided now path authorization m))"

lemma Handler_wf:
  assumes "mw_wf ae m" and "\<forall>c. provided = Inr c \<longrightarrow> no_bar c"
  shows "mw_wf ae (snd (Handler ae provided now path auth m)) \<and> mw_public (snd (Handler ae provided now path auth m)) = mw_public m"
proof (cases "\<exists>c v m'. provided = Inr c \<and> getVerifier ae m c = Inr (v, m') \<and> snd (Handler ae provided now path auth m) = m'")
  case True
  with getVerifier_wf [OF _ assms(1)] assms(2) show ?thesis by blast
next
  case False
  then have "snd (Handler ae provided now path auth m) = m"
    by (auto simp: Handler_def Let_def split: sum.splits prod.splits if_splits)
  with assms(1) show ?thesis by simp
qed

lemma admit_wf:
  "mw_wf ae m \<Longrightarrow> \<forall>q \<in> set qs. \<forall>c. fst q = Inr c \<longrightarrow> no_bar c \<Longrightarrow> mw_wf ae (fold (admit ae) qs m) \<and>
     mw_public (fold (admit ae) qs m) = mw_public m"
  by (induction qs arbitrary: m) (auto simp: admit_def Handler_wf split: prod.splits)

text \<open>Two configurations agree in what verification reads: the issuers, the client, the mode, the introspection endpoint
  with its credentials, the paths of the claims, and the two switches. Texts are compared up to surrounding blanks,
  the secret to the letter; the names of the files some of them were read from do not matter.\<close>

definition agree_on_verification :: "auth_config \<Rightarrow> auth_config \<Rightarrow> bool" where
  "agree_on_verification c d \<longleftrightarrow>
     (\<forall>field \<in> {cf_internal_issuer, cf_external_issuer, cf_client_id, cf_token_mode, cf_introspection_url,
        cf_introspection_client_id, cf_introspection_auth_method, cf_subject_path, cf_roles_path, cf_scopes_path,
        cf_tenant_path, cf_email_path, cf_name_path}. trim_space (field c) = trim_space (field d)) \<and>
     cf_introspection_secret c = cf_introspection_secret d \<and>
     (cf_enforce_audience c \<longleftrightarrow> cf_enforce_audience d) \<and> (cf_allow_insecure_issuer c \<longleftrightarrow> cf_allow_insecure_issuer d)"

lemma fingerprint_agrees: "fingerprint_parts d = fingerprint_parts c \<Longrightarrow> agree_on_verification d c"
  by (simp add: fingerprint_parts_def agree_on_verification_def split: if_splits)

text \<open>C15: the middleware hands on only what it may. After any number of requests, whatever configurations they came under,
  a request gets through in one of three ways: its path is public, and it has no principal; authentication is
  off, and it has the local principal; or its bearer token was verified now, by a verifier built from a configuration that
  agrees with the current one in every field verification reads, and it has the principal the token stands for. (Agreement of
  texts is up to surrounding blanks, as the fingerprint trims them; and provided no part of a fingerprint contains the character
  the parts are joined with.)\<close>

theorem only_verified_requests_pass:
  assumes "NewDynamicMiddleware ae (Inr c0) paths = Inr m0" and "no_bar c0" and "\<forall>q \<in> set qs. \<forall>c. fst q = Inr c \<longrightarrow> no_bar c"
    and "no_bar cfg" and "Handler ae (Inr cfg) now path authorization (fold (admit ae) qs m0) = (Pass p, m')"
  shows "path \<in> mw_public m0 \<and> p = None \<or> \<not> Enabled cfg \<and> p = Some disabledAuthPrincipal \<or>
     (\<exists>d v who. p = Some who \<and> agree_on_verification d cfg \<and> buildVerifier ae d = Inr v \<and>
        extractBearerToken authorization \<noteq> [] \<and> Verify ae v now (extractBearerToken authorization) = Inr who)"
proof -
  let ?m = "fold (admit ae) qs m0"
  have m: "mw_wf ae ?m" "mw_public ?m = mw_public m0"
    using admit_wf [OF mw_wf_new [OF assms(1,2)] assms(3)] by auto
  show ?thesis
  proof (cases "path \<in> mw_public ?m \<or> \<not> Enabled cfg")
    case True
    with assms(5) m show ?thesis by (auto simp: Handler_def split: if_splits)
  next
    case False
    with assms(5) obtain v m1 who where "getVerifier ae ?m cfg = Inr (v, m1)" "p = Some who"
      "extractBearerToken authorization \<noteq> []" "Verify ae v now (extractBearerToken authorization) = Inr who"
      by (auto simp: Handler_def Let_def split: if_splits sum.splits prod.splits)
    with getVerifier_wf [OF _ m(1) assms(4)] fingerprint_agrees show ?thesis by blast
  qed
qed

lemma demo_admission:
  "\<exists>m0 m'. NewDynamicMiddleware demo_auth (Inr demo_config) [] = Inr m0 \<and> mw_public m0 = {''/health''} \<and>
     Handler demo_auth (Inr demo_config) 1700000000000000000 ''/instances'' ''Bearer t1''
       (fold (admit demo_auth) [(Inr demo_config, 1600000000000000000, ''/health'', [])] m0) = (Pass (Some ann), m')"
proof -
  have "introspection_Verify demo_auth (demo_config\<lparr>cf_introspection_url := ''https://idp/introspect''\<rparr>)
      ''https://idp/introspect'' 1700000000000000000 ''t1'' = Inr ann"
    "buildVerifier demo_auth demo_config = Inr (IntrospectionVerifier
       (demo_config\<lparr>cf_introspection_url := ''https://idp/introspect''\<rparr>) ''https://idp/introspect'')"
    "Enabled demo_config" "extractBearerToken ''Bearer t1'' = ''t1''" by code_simp+
  then show ?thesis
    by (simp add: NewDynamicMiddleware_def Handler_def admit_def getVerifier_def Verify_def Let_def)
qed

lemma demo_no_bar: "no_bar demo_config"
proof -
  have "list_all (\<lambda>p. CHR ''|'' \<notin> set p) (fingerprint_parts demo_config)" by code_simp
  then show ?thesis by (simp add: no_bar_def list_all_iff)
qed

theorem only_verified_requests_pass_witness:
  "\<exists>m0 m'. Handler demo_auth (Inr demo_config) 1700000000000000000 ''/instances'' ''Bearer t1''
       (fold (admit demo_auth) [(Inr demo_config, 1600000000000000000, ''/health'', [])] m0) = (Pass (Some ann), m') \<and>
     (\<exists>d v. agree_on_verification d demo_config \<and> buildVerifier demo_auth d = Inr v \<and>
        Verify demo_auth v 1700000000000000000 (extractBearerToken ''Bearer t1'') = Inr ann)"
proof -
  from demo_admission obtain m0 m' where r: "NewDynamicMiddleware demo_auth (Inr demo_config) [] = Inr m0"
    "mw_public m0 = {''/health''}" "Handler demo_auth (Inr demo_config) 1700000000000000000 ''/instances'' ''Bearer t1''
       (fold (admit demo_auth) [(Inr demo_config, 1600000000000000000, ''/health'', [])] m0) = (Pass (Some ann), m')" by blast
  note b = demo_no_bar
  then have qs: "\<forall>q \<in> set [(Inr demo_config, 1600000000000000000 :: int, ''/health'', [] :: string)].
      \<forall>c. fst q = Inr c \<longrightarrow> no_bar c" by auto
  have "Enabled demo_config" by code_simp
  with only_verified_requests_pass [OF r(1) b qs b r(3)] r show ?thesis by auto
qed

end
