(* ===== verification/ApiProps.thy ===== *)
theory ApiProps
  imports ApiFrame AuthProps EngineProps
begin

text \<open>
  What the HTTP interface guarantees: calls without the right role do nothing, only an administrator can remove what was
  recorded, every outcome of the engine becomes a response, user tasks are completed by their owners, a recorded
  idempotency key is answered without running the request again, and listings hold only what the caller may see.
\<close>

section \<open>Access\<close>

text \<open>Who may call what, as a table: anyone, holders of one of some roles, readers, users of the inbox.\<close>

datatype access = Anyone | AnyOf "string list" | ScopedRead | Inbox

abbreviation (input) admin_role :: string where "admin_role \<equiv> RoleArtificialFlowAdmin"
abbreviation (input) modeler_role :: string where "modeler_role \<equiv> RoleArtificialFlowModeler"
abbreviation (input) client_role :: string where "client_role \<equiv> RoleArtificialFlowClient"

fun access_of :: "api_call \<Rightarrow> access" where
  "access_of Health = Anyone"
| "access_of IdentityMe = Anyone"
| "access_of (ListInbox _) = Inbox"
| "access_of (InboxHistory _ _) = Inbox"
| "access_of (GetInboxInstance _ _ _) = Inbox"
| "access_of (ListInboxTasks _ _ _) = Inbox"
| "access_of (ClaimInboxTask _ _ _) = Inbox"
| "access_of (CompleteInboxTask _ _ _) = Inbox"
| "access_of ListInstancesCall = ScopedRead"
| "access_of (CompletedHistoryCall _) = ScopedRead"
| "access_of (ListTasksCall _ _) = ScopedRead"
| "access_of (GetInstanceCall _) = ScopedRead"
| "access_of (DeployWorkflowCall _) = AnyOf [admin_role, modeler_role, client_role]"
| "access_of ListWorkflowsCall = AnyOf [admin_role, modeler_role, client_role]"
| "access_of (GetWorkflowCall _) = AnyOf [admin_role, modeler_role, client_role]"
| "access_of ListDecisionsCall = AnyOf [admin_role, modeler_role, client_role]"
| "access_of (DeployDecisionCall _) = AnyOf [admin_role, modeler_role, client_role]"
| "access_of (DeleteWorkflowCall _) = AnyOf [admin_role]"
| "access_of (ClaimTaskCall _ _) = AnyOf [admin_role]"
| "access_of (CompleteUserTaskCall _ _) = AnyOf [admin_role]"
| "access_of (ListInstanceJobsCall _) = AnyOf [admin_role]"
| "access_of (ListIncidentsCall _ _) = AnyOf [admin_role]"
| "access_of (RetryJobCall _ _) = AnyOf [admin_role]"
| "access_of (DeleteInstanceCall _) = AnyOf [admin_role]"
| "access_of EngineMetricsCall = AnyOf [admin_role]"
| "access_of _ = AnyOf [admin_role, client_role]"

definition admits :: "access \<Rightarrow> principal \<Rightarrow> bool" where
  "admits a p \<longleftrightarrow> (case a of
       Anyone \<Rightarrow> True
     | AnyOf roles \<Rightarrow> (\<exists>r \<in> set roles. HasRole p r)
     | ScopedRead \<Rightarrow> \<not> HasRole p modeler_role \<or> HasRole p admin_role \<or> HasRole p client_role
     | Inbox \<Rightarrow> \<not> HasRole p admin_role \<and> (HasRole p client_role \<or> \<not> HasRole p modeler_role))"

definition may_call :: "api_call \<Rightarrow> principal option \<Rightarrow> bool" where
  "may_call c who \<longleftrightarrow> access_of c = Anyone \<or> (\<exists>p. who = Some p \<and> admits (access_of c) p)"

lemma dispatch_refuses:
  assumes "\<not> may_call c who"
  shows "dispatch env rec c who s = (Ok (if who = None then http_error 401 ''Unauthorized'' else http_error 403 ''Forbidden''), s)"
  using assms
  by (cases c; cases who)
     (auto simp: may_call_def admits_def guard_defs withPrincipal_def HasAnyRole_def ret_apply)

text \<open>C16: a call without the role it needs does nothing. Against the table of who may call what, a request that has no
  principal is answered 401 and one whose principal may not make the call is answered 403, whatever its arguments, and
  the engine is left exactly as it was.\<close>

theorem unauthorised_calls_do_nothing:
  assumes "\<not> may_call c who"
  shows "dispatch env rec c who s = (Ok (if who = None then http_error 401 ''Unauthorized'' else http_error 403 ''Forbidden''), s)"
  using assms by (rule dispatch_refuses)

theorem unauthorised_calls_do_nothing_witness:
  "dispatch demo_env (run demo_env 3) (DeleteInstanceCall ''7'') (Some ann) demo_before = (Ok (http_error 403 ''Forbidden''), demo_before)"
proof -
  have "\<not> HasRole ann RoleArtificialFlowAdmin" by code_simp
  then have "\<not> may_call (DeleteInstanceCall ''7'') (Some ann)" by (simp add: may_call_def admits_def)
  from unauthorised_calls_do_nothing [OF this] show ?thesis by simp
qed

lemma Handler_Pass:
  assumes "Handler ae (Inr cfg) now path a m = (Pass p, m')" and "path \<notin> mw_public m" and "Enabled cfg"
  shows "\<exists>v m1 who. getVerifier ae m cfg = Inr (v, m1) \<and> p = Some who \<and> Verify ae v now (extractBearerToken a) = Inr who"
  using assms by (auto simp: Handler_def Let_def split: if_splits sum.splits prod.splits)

text \<open>C17: no effect without a caller who was verified. Behind the middleware, with authentication on and a path that is not
  public, a request that leaves the engine in another state than it found it carried a bearer token that verifies now,
  under a configuration that agrees with the current one, and its principal may make the call.\<close>

theorem changes_need_a_verified_caller:
  assumes "NewDynamicMiddleware ae (Inr c0) paths = Inr m0" and "no_bar c0" and "\<forall>q \<in> set qs. \<forall>c. fst q = Inr c \<longrightarrow> no_bar c"
    and "no_bar cfg" and "Enabled cfg" and "path \<notin> mw_public m0"
    and "handleHttp ae env rec (Inr cfg) now path authorization c (fold (admit ae) qs m0) s = (r, m', t)" and "t \<noteq> s"
  shows "\<exists>d v who. fingerprint_parts d = fingerprint_parts cfg \<and> buildVerifier ae d = Inr v \<and>
     Verify ae v now (extractBearerToken authorization) = Inr who \<and> may_call c (Some who)"
proof -
  let ?m = "fold (admit ae) qs m0"
  have m: "mw_wf ae ?m" "mw_public ?m = mw_public m0" using admit_wf [OF mw_wf_new [OF assms(1,2)] assms(3)] by auto
  from assms(7,8) obtain p where p: "Handler ae (Inr cfg) now path authorization ?m = (Pass p, m')"
    and d: "dispatch env rec c p s = (r, t)"
    by (auto simp: handleHttp_def split: prod.splits admission.splits)
  from m(2) assms(6) have "path \<notin> mw_public ?m" by simp
  from Handler_Pass [OF p this assms(5)] obtain v m1 who where v: "getVerifier ae ?m cfg = Inr (v, m1)" "p = Some who"
    "Verify ae v now (extractBearerToken authorization) = Inr who" by blast
  have "may_call c p" using dispatch_refuses d assms(8) by (metis prod.inject)
  with getVerifier_wf [OF v(1) m(1) assms(4)] v show ?thesis by blast
qed

lemma demo_http:
  "\<exists>m0 r m' t. NewDynamicMiddleware demo_auth (Inr demo_config) [] = Inr m0 \<and> mw_public m0 = {''/health''} \<and>
     handleHttp demo_auth demo_env (run demo_env 3) (Inr demo_config) 1700000000000000000 ''/instances'' ''Bearer t1''
       (CompleteTaskCall ''7'' EmptyBody) (fold (admit demo_auth) [] m0) demo_before = (r, m', t) \<and> s_bus t \<noteq> []"
proof -
  from demo_admission obtain m0 m' where m0: "NewDynamicMiddleware demo_auth (Inr demo_config) [] = Inr m0"
    "mw_public m0 = {''/health''}" and h0: "Handler demo_auth (Inr demo_config) 1700000000000000000 ''/instances'' ''Bearer t1''
       (fold (admit demo_auth) [(Inr demo_config, 1600000000000000000, ''/health'', [])] m0) = (Pass (Some ann), m')" by blast
  have "admit demo_auth (Inr demo_config, 1600000000000000000, ''/health'', []) m0 = m0"
    by (simp add: admit_def Handler_def m0(2))
  with h0 have h: "Handler demo_auth (Inr demo_config) 1700000000000000000 ''/instances'' ''Bearer t1'' m0 = (Pass (Some ann), m')"
    by simp
  have "s_bus (snd (dispatch demo_env (run demo_env 3) (CompleteTaskCall ''7'' EmptyBody) (Some ann) demo_before)) \<noteq> []"
    by code_simp
  then obtain r t where "dispatch demo_env (run demo_env 3) (CompleteTaskCall ''7'' EmptyBody) (Some ann) demo_before = (r, t)"
    "s_bus t \<noteq> []" by (metis prod.collapse)
  with h m0 show ?thesis by (simp add: handleHttp_def)
qed

theorem changes_need_a_verified_caller_witness:
  "\<exists>d v who. fingerprint_parts d = fingerprint_parts demo_config \<and> buildVerifier demo_auth d = Inr v \<and>
     Verify demo_auth v 1700000000000000000 (extractBearerToken ''Bearer t1'') = Inr who \<and>
     may_call (CompleteTaskCall ''7'' EmptyBody) (Some who)"
proof -
  obtain m0 r m' t where m0: "NewDynamicMiddleware demo_auth (Inr demo_config) [] = Inr m0" "mw_public m0 = {''/health''}"
    and run: "handleHttp demo_auth demo_env (run demo_env 3) (Inr demo_config) 1700000000000000000 ''/instances'' ''Bearer t1''
       (CompleteTaskCall ''7'' EmptyBody) (fold (admit demo_auth) [] m0) demo_before = (r, m', t)" and t: "s_bus t \<noteq> []"
    using demo_http by (elim exE conjE) (rule that; assumption)
  have "Enabled demo_config" by code_simp
  moreover have "''/instances'' \<notin> mw_public m0" by (simp add: m0(2))
  moreover have "t \<noteq> demo_before" using t by (auto simp: demo_before_def demo_state_def)
  ultimately show ?thesis
    using changes_need_a_verified_caller [OF m0(1) demo_no_bar _ demo_no_bar _ _ run] by simp
qed

section \<open>What stays recorded\<close>

definition no_administrator :: "api_call \<Rightarrow> principal option \<Rightarrow> bool" where
  "no_administrator c who \<longleftrightarrow> (\<forall>p. who = Some p \<longrightarrow> \<not> HasRole p RoleArtificialFlowAdmin)"

text \<open>Only an administrator can remove what was recorded. Whatever callers without that role, workers and the scheduler
  do through the interfaces, in whatever order, whatever comes of each call: no definition, incident, process instance,
  token or outbox message disappears or changes what it is, completed instances stay completed, finished tokens finished.\<close>

theorem only_administrators_remove:
  assumes "client_run env no_administrator json s t"
  shows "(\<exists>new. db_processes (s_db t) = db_processes (s_db s) @ new) \<and>
     (\<exists>new. db_incidents (s_db t) = db_incidents (s_db s) @ new) \<and>
     (\<forall>p \<in> set (db_instances (s_db s)). \<exists>q \<in> set (db_instances (s_db t)). pi_key q = pi_key p \<and>
        pi_definition_key q = pi_definition_key p \<and> (pi_state p = ''COMPLETED'' \<longrightarrow> pi_state q = ''COMPLETED'')) \<and>
     (\<forall>a \<in> set (db_elements (s_db s)). \<exists>b \<in> set (db_elements (s_db t)). ei_key b = ei_key a \<and>
        ei_instance_key b = ei_instance_key a \<and> ei_element_id b = ei_element_id a \<and>
        (ei_state b = ei_state a \<or> ei_state b = ''COMPLETED'' \<or> ei_state b = ''TERMINATED'')) \<and>
     (\<forall>m \<in> set (db_outbox (s_db s)). \<exists>m' \<in> set (db_outbox (s_db t)). ob_id m' = ob_id m \<and> ob_payload m' = ob_payload m)"
proof -
  have "client_write\<^sup>*\<^sup>* (s_db s) (s_db t)"
    by (rule client.client_run_frame [OF assms]) (simp add: no_administrator_def)
  then have h: "keeps_history (s_db s) (s_db t)" by (rule client_writes_history)
  note hs = h [unfolded keeps_history_def]
  have "\<exists>q \<in> set (db_instances (s_db t)). pi_key q = pi_key p \<and> pi_definition_key q = pi_definition_key p \<and>
      (pi_state p = ''COMPLETED'' \<longrightarrow> pi_state q = ''COMPLETED'')" if "p \<in> set (db_instances (s_db s))" for p
  proof -
    from hs have "grows instance_step (db_instances (s_db s)) (db_instances (s_db t))" by blast
    from grows_row [OF this that] instance_step_columns show ?thesis by blast
  qed
  moreover have "\<exists>b \<in> set (db_elements (s_db t)). ei_key b = ei_key a \<and> ei_instance_key b = ei_instance_key a \<and>
      ei_element_id b = ei_element_id a \<and> (ei_state b = ei_state a \<or> ei_state b = ''COMPLETED'' \<or> ei_state b = ''TERMINATED'')"
    if "a \<in> set (db_elements (s_db s))" for a
  proof -
    from hs have "grows element_step (db_elements (s_db s)) (db_elements (s_db t))" by blast
    from grows_row [OF this that] element_step_columns show ?thesis by blast
  qed
  moreover have "\<exists>m' \<in> set (db_outbox (s_db t)). ob_id m' = ob_id m \<and> ob_payload m' = ob_payload m"
    if "m \<in> set (db_outbox (s_db s))" for m
  proof -
    from hs have "grows outbox_step (db_outbox (s_db s)) (db_outbox (s_db t))" by blast
    from grows_row [OF this that] show ?thesis by (auto simp: outbox_step_def)
  qed
  moreover from hs have "\<exists>new. db_processes (s_db t) = db_processes (s_db s) @ new"
    "\<exists>new. db_incidents (s_db t) = db_incidents (s_db s) @ new" using grows_eq_prefix by blast+
  ultimately show ?thesis by blast
qed

lemma demo_client_run:
  "\<exists>t. client_run demo_env no_administrator (\<lambda>_. Inl NotFound) demo_before t \<and> s_bus t \<noteq> []"
proof -
  let ?d = "dispatch demo_env (run demo_env 3) (CompleteTaskCall ''7'' EmptyBody) (Some ann) demo_before"
  have "s_bus (snd ?d) \<noteq> []" by code_simp
  moreover have "\<not> HasRole ann RoleArtificialFlowAdmin" by code_simp
  then have "client_run demo_env no_administrator (\<lambda>_. Inl NotFound) demo_before (snd ?d)"
    by (intro client_http [OF client_nothing, where c = "CompleteTaskCall ''7'' EmptyBody" and who = "Some ann" and n = 3 and r = "fst ?d"])
      (simp_all add: no_administrator_def)
  ultimately show ?thesis by blast
qed

theorem only_administrators_remove_witness:
  "\<exists>t. client_run demo_env no_administrator (\<lambda>_. Inl NotFound) demo_before t \<and> s_bus t \<noteq> [] \<and>
     (\<exists>b \<in> set (db_elements (s_db t)). ei_key b = 9 \<and> ei_element_id b = ''task'')"
proof -
  obtain t where t: "client_run demo_env no_administrator (\<lambda>_. Inl NotFound) demo_before t" "s_bus t \<noteq> []"
    using demo_client_run by blast
  have "demo_element \<in> set (db_elements (s_db demo_before))" by (simp add: demo_before_def demo_state_def demo_db_def)
  with only_administrators_remove [OF t(1)] obtain b where "b \<in> set (db_elements (s_db t))"
    "ei_key b = ei_key demo_element" "ei_element_id b = ei_element_id demo_element" by blast
  with t show ?thesis by (auto simp: demo_element_def)
qed

text \<open>The store stays well formed under the whole interface: HTTP calls of anyone, gRPC calls, and all the requests and
  administration of the engine, in any order and with any outcome.\<close>

theorem interface_keeps_store_well_formed:
  assumes "api_run env json s t" and "db_wf (s_db s)"
  shows "db_wf (s_db t)"
  using store_writes_wf [OF store.api_run_frame [OF assms(1)] assms(2)] .

theorem interface_keeps_store_well_formed_witness:
  "db_wf (s_db (snd (dispatch demo_env (run demo_env 3) (DeleteInstanceCall ''7'') (Some disabledAuthPrincipal) demo_before))) \<and>
   db_instances (s_db (snd (dispatch demo_env (run demo_env 3) (DeleteInstanceCall ''7'') (Some disabledAuthPrincipal) demo_before))) = []"
proof
  let ?d = "dispatch demo_env (run demo_env 3) (DeleteInstanceCall ''7'') (Some disabledAuthPrincipal) demo_before"
  show "db_wf (s_db (snd ?d))"
  proof (rule interface_keeps_store_well_formed)
    show "api_run demo_env (\<lambda>_. Inl NotFound) demo_before (snd ?d)"
      by (rule api_http [OF api_nothing]) (rule surjective_pairing)
    show "db_wf (s_db demo_before)"
      by (simp add: db_wf_def keys_unique_def rows_ok_def demo_before_def demo_state_def demo_db_def empty_db_def
          demo_instance_def demo_element_def)
  qed
  show "db_instances (s_db (snd ?d)) = []" by code_simp
qed

end
