(* ===== verification/InboxProps.thy ===== *)
theory InboxProps
  imports ApiProps
begin

text \<open>
  Answers and user tasks: the statuses the handlers answer with are those the interface documents, and user tasks are
  completed by their owners.
\<close>

section \<open>Statuses\<close>

named_theorems answer_intros
  \<open>structural rules: a handler answers with a documented status and never fails\<close>

definition documented :: "int set" where
  "documented = {200, 204, 400, 401, 403, 404, 409, 413, 500}"

definition infallible :: "'a eng \<Rightarrow> bool" where
  "infallible m \<longleftrightarrow> (\<forall>s e. fst (m s) \<noteq> Error e)"

definition answers :: "response eng \<Rightarrow> bool" where
  "answers m \<longleftrightarrow> (\<forall>s. case fst (m s) of Ok r \<Rightarrow> rs_status r \<in> documented | Error _ \<Rightarrow> False | _ \<Rightarrow> True)"

lemma infallible_prims [answer_intros]:
  "infallible (ret x)" "infallible (gets f)" "infallible (tryE m)" "infallible (ignoreE m)"
  by (auto simp: infallible_def go_simps split: prod.splits outcome.splits)

lemma infallible_bindE [answer_intros]: "infallible m \<Longrightarrow> (\<And>x. infallible (k x)) \<Longrightarrow> infallible (bindE m k)"
  unfolding infallible_def by (auto simp: bindE_apply split: prod.splits outcome.splits) (metis fst_conv)+

lemma infallible_foldE [answer_intros]: "(\<And>a x. infallible (f a x)) \<Longrightarrow> infallible (foldE f a xs)"
  by (induction xs arbitrary: a) (auto intro: answer_intros)

lemma infallible_if [answer_intros]: "infallible a \<Longrightarrow> infallible b \<Longrightarrow> infallible (if c then a else b)"
  by simp

lemma infallible_filter [answer_intros]: "infallible (filterInstancesForPrincipal env ws p)"
  unfolding filterInstancesForPrincipal_def by (intro answer_intros)

lemma answers_ret [answer_intros]: "rs_status r \<in> documented \<Longrightarrow> answers (ret r)"
  by (simp add: answers_def ret_def)

lemma answers_bindE [answer_intros]:
  assumes "infallible m" and "\<And>x. answers (k x)"
  shows "answers (bindE m k)"
  unfolding answers_def
proof
  fix s
  obtain r t where m: "m s = (r, t)" by fastforce
  from assms(2) have "case fst (k x t) of Ok r \<Rightarrow> rs_status r \<in> documented | Error _ \<Rightarrow> False | _ \<Rightarrow> True" for x
    by (simp add: answers_def)
  moreover have "r \<noteq> Error e" for e using assms(1) m by (metis fst_conv infallible_def)
  ultimately show "case fst (bindE m k s) of Ok r \<Rightarrow> rs_status r \<in> documented | Error _ \<Rightarrow> False | _ \<Rightarrow> True"
    by (cases r) (auto simp: bindE_apply m)
qed

lemma answers_thenE [answer_intros]: "infallible m \<Longrightarrow> answers k \<Longrightarrow> answers (thenE m k)"
  unfolding thenE_def by (intro answer_intros)

lemma answers_if [answer_intros]: "answers a \<Longrightarrow> answers b \<Longrightarrow> answers (if c then a else b)"
  by simp

lemma answers_case [answer_intros]:
  "answers a \<Longrightarrow> (\<And>x. answers (b x)) \<Longrightarrow> answers (case v of None \<Rightarrow> a | Some x \<Rightarrow> b x)"
  "(\<And>x. answers (f x)) \<Longrightarrow> (\<And>x. answers (g x)) \<Longrightarrow> answers (case w of Inl x \<Rightarrow> f x | Inr x \<Rightarrow> g x)"
  "(\<And>x y. answers (h x y)) \<Longrightarrow> answers (case p of (x, y) \<Rightarrow> h x y)"
  "(\<And>x. answers (i x)) \<Longrightarrow> (\<And>x. answers (j x)) \<Longrightarrow> (\<And>x. answers (l x)) \<Longrightarrow>
     answers (case u of Uploaded x \<Rightarrow> i x | TooLarge x \<Rightarrow> j x | ReadFailed x \<Rightarrow> l x)"
  by (auto split: option.split sum.split prod.split upload.split)

lemma answers_orFail [answer_intros]: "st \<in> documented \<Longrightarrow> (\<And>x. answers (k x)) \<Longrightarrow> answers (orFail st m k)"
  unfolding orFail_def by (intro answer_intros) (simp add: http_error_def)

lemma answers_orRefuse [answer_intros]: "st \<in> documented \<Longrightarrow> (\<And>x. answers (k x)) \<Longrightarrow> answers (orRefuse st r k)"
  unfolding orRefuse_def by (intro answer_intros) (simp add: http_error_def)

lemma status_simps [answer_intros]:
  "st \<in> documented \<Longrightarrow> rs_status (http_error st msg) \<in> documented" "rs_status (ok b) \<in> documented"
  "rs_status (instances_response ws) \<in> documented" "rs_status (ok b\<lparr>rs_status := 204\<rparr>) \<in> documented"
  "rs_status r \<in> documented \<Longrightarrow> rs_status (setWorkerProtocolHeaders r) \<in> documented"
  by (simp_all add: http_error_def ok_def documented_def instances_response_def setWorkerProtocolHeaders_def)

lemma codes [answer_intros]:
  "(400 :: int) \<in> documented" "(401 :: int) \<in> documented" "(403 :: int) \<in> documented" "(404 :: int) \<in> documented"
  "(409 :: int) \<in> documented" "(413 :: int) \<in> documented" "(500 :: int) \<in> documented"
  "rs_status (case r of Inl e \<Rightarrow> http_error (if is_bpmn_validation e then 400 else 500) (err_string e) | Inr w \<Rightarrow> ok (f w)) \<in> documented"
  by (auto simp: documented_def http_error_def ok_def split: sum.split)

lemma answers_withPrincipal [answer_intros]: "(\<And>p. answers (k p)) \<Longrightarrow> answers (withPrincipal who k)"
  unfolding withPrincipal_def by (intro answer_intros)

lemma answers_versioned [answer_intros]:
  assumes "answers m"
  shows "answers (versioned hs m)"
proof -
  have "answers (bindE m (\<lambda>r. ret (setWorkerProtocolHeaders r)))"
    unfolding answers_def
  proof
    fix s
    from assms have "case fst (m s) of Ok r \<Rightarrow> rs_status r \<in> documented | Error _ \<Rightarrow> False | _ \<Rightarrow> True"
      by (simp add: answers_def)
    then show "case fst (bindE m (\<lambda>r. ret (setWorkerProtocolHeaders r)) s) of Ok r \<Rightarrow> rs_status r \<in> documented
        | Error _ \<Rightarrow> False | _ \<Rightarrow> True"
      by (auto simp: bindE_apply ret_apply status_simps split: prod.splits outcome.splits)
  qed
  then show ?thesis unfolding versioned_def by (intro answers_orRefuse codes)
qed

lemma answers_guards [answer_intros]:
  assumes "\<And>w. answers (h w)"
  shows "answers (adminOnly h who)" "answers (adminOrClient h who)" "answers (processDesigner h who)"
    "answers (scopedInstanceRead h who)" "answers (sdkInboxOnly hs h who)"
  unfolding guard_defs by (intro answer_intros assms)+

lemma answers_handlers [answer_intros]:
  "answers (deployWorkflow env up)" "answers (listWorkflows env)" "answers (getWorkflow env i)" "answers (listDecisions env)"
  "answers (deployDecision env db)" "answers (evaluateDecision env i vb)" "answers (listInstances env who)"
  "answers (listCompletedInstanceHistory env raw who)" "answers (listInboxInstances env who)"
  "answers (listInboxCompletedHistory env raw who)" "answers (getInstance env i who)"
  "answers (getInboxInstance env i raw who)" "answers (updateVariables env i vb)" "answers (listUserTasks env i raw who)"
  "answers (claimUserTask env i ex who)" "answers (listInstanceJobs env i)" "answers (listIncidents env raw raw')"
  "answers (retryJob env raw rb)" "answers (activateJobs env hs ab ticks)" "answers jobsCapabilities"
  "answers (engineMetrics env)" "answers (startInstance env rec sb)" "answers (api_completeTask env rec i tb)"
  "answers (completeUserTask env rec i ex who)" "answers (api_publishSignal env rec gb)"
  "answers (api_publishMessage env rec mb)" "answers (api_publishEscalation env rec gb)"
  "answers (completeJob env rec hs k cb)" "answers (failJob env hs k fb)" "answers (extendJobLock env hs k eb)"
  "answers (deleteWorkflow env i)" "answers (deleteInstance env i)"
  unfolding handler_defs deleteWorkflow_def deleteInstance_def Let_def by (intro answer_intros)+

lemma answers_dispatch: "answers (dispatch env rec c who)"
  by (cases c) (auto intro!: answer_intros)

text \<open>The handlers answer with the statuses the interface documents, whatever the call, the caller and the state of the
  store; behind the middleware, which has answers of its own.\<close>

lemma documented_statuses:
  "(\<exists>resp t. dispatch env rec c who s = (Ok resp, t) \<and> rs_status resp \<in> {200, 204, 400, 401, 403, 404, 409, 413, 500}) \<or>
   (\<exists>p t. dispatch env rec c who s = (Panic p, t)) \<or> (\<exists>t. dispatch env rec c who s = (Diverged, t))"
  using answers_dispatch [of env rec c who]
  by (cases "dispatch env rec c who s"; cases "fst (dispatch env rec c who s)")
     (auto simp: answers_def documented_def dest: spec [of _ s])

section \<open>User tasks\<close>

text \<open>Whom an inbox request acts for: the user it names when a client sends it, otherwise the caller.\<close>

definition inbox_caller :: "headers \<Rightarrow> principal option \<Rightarrow> principal \<Rightarrow> bool" where
  "inbox_caller hs who p \<longleftrightarrow> (\<exists>q. who = Some q \<and> \<not> HasRole q RoleArtificialFlowAdmin \<and>
     (if HasRole q RoleArtificialFlowClient then actingPrincipalFromRequest hs = Inr p else p = q)) \<and>
     \<not> HasRole p RoleArtificialFlowAdmin \<and> \<not> HasRole p RoleArtificialFlowClient"

lemma sdkInboxOnly_cases:
  assumes "sdkInboxOnly hs h who s = (r, t)"
  shows "(\<exists>p. inbox_caller hs who p \<and> h (Some p) s = (r, t)) \<or>
     (\<exists>st msg. st \<in> {400, 401, 403} \<and> r = Ok (http_error st msg) \<and> t = s)"
  using assms
  by (auto simp: sdkInboxOnly_def RequireAuthenticated_def withPrincipal_def orRefuse_def inbox_caller_def HasAnyRole_def ret_apply
      split: option.splits if_splits sum.splits)

text \<open>A user task of an instance, as the job that stands for it.\<close>

definition is_task_of :: "string \<Rightarrow> job \<Rightarrow> db \<Rightarrow> bool" where
  "is_task_of i j d \<longleftrightarrow> j \<in> set (db_jobs d) \<and> parse_int i = Inr (jb_instance_key j) \<and>
     jb_type j \<in> set (compatibleJobTypes UserTaskJobType)"

lemma ListUserTaskJobs_run:
  assumes "ListUserTaskJobs env i s = (r, t)"
  shows "s_db t = s_db s \<and> s_bus t = s_bus s \<and> (\<forall>jobs. r = Ok jobs \<longrightarrow> (\<forall>j \<in> set jobs. is_task_of i j (s_db s)))"
proof -
  have "UserTaskJobType \<noteq> []" by (simp add: UserTaskJobType_def)
  with assms show ?thesis
    by (auto simp: ListUserTaskJobs_def ListJobsByProcessInstanceAndType_def repo_query_def is_task_of_def Let_def throw_apply
        split: sum.splits if_splits)
qed

lemma userTaskJobForPrincipal_run:
  assumes "userTaskJobForPrincipal env i ex s = (r, t)"
  shows "s_db t = s_db s \<and> s_bus t = s_bus s \<and> (\<forall>j. r = Ok j \<longrightarrow> is_task_of i j (s_db s) \<and> show_int (jb_element_key j) = ex)"
proof -
  obtain r1 u where l: "ListUserTaskJobs env i s = (r1, u)" by fastforce
  from ListUserTaskJobs_run [OF l] assms l show ?thesis
    by (auto simp: userTaskJobForPrincipal_def bindE_apply ret_apply throw_apply find_Some_iff split: outcome.splits option.splits)
qed

lemma orFail_cases:
  assumes "orFail st m k s = (Ok resp, t)"
  shows "(\<exists>e. m s = (Error e, t) \<and> resp = http_error st (err_string e)) \<or> (\<exists>x u. m s = (Ok x, u) \<and> k x u = (Ok resp, t))"
  using assms
  by (auto simp: orFail_def bindE_apply tryE_apply ret_apply split: prod.splits outcome.splits sum.splits)

lemma status_of_error: "rs_status (http_error st msg) = st"
  by (simp add: http_error_def)

text \<open>C23: a user task is completed by the one who claimed it. When a completion through the inbox is answered 200, there is a
  user task of that instance and token, offered to the user the request acts for and claimed by that user, who is
  neither an administrator nor a client; any other answer leaves the tables and the bus as they were.\<close>

theorem inbox_tasks_have_owners:
  assumes "dispatch env (run env n) (CompleteInboxTask hs i ex) who s = (Ok resp, t)"
  shows "rs_status resp \<noteq> 200 \<and> s_db t = s_db s \<and> s_bus t = s_bus s \<or>
     rs_status resp = 200 \<and> (\<exists>p j. inbox_caller hs who p \<and> is_task_of i j (s_db s) \<and> show_int (jb_element_key j) = ex \<and>
        userTaskEligible j p \<and> trim_space (jb_worker j) = taskOwner p)"
proof -
  from assms have "sdkInboxOnly hs (completeUserTask env (run env n) i ex) who s = (Ok resp, t)" by simp
  from sdkInboxOnly_cases [OF this] show ?thesis
  proof (elim disjE exE conjE)
    fix p
    assume p: "inbox_caller hs who p" and run: "completeUserTask env (run env n) i ex (Some p) s = (Ok resp, t)"
    from p have na: "\<not> HasRole p RoleArtificialFlowAdmin" by (simp add: inbox_caller_def)
    from orFail_cases [OF run [unfolded completeUserTask_def withPrincipal_def option.case]] show ?thesis
    proof (elim disjE exE conjE)
      fix e assume e: "userTaskJobForPrincipal env i ex s = (Error e, t)" and r: "resp = http_error 404 (err_string e)"
      from userTaskJobForPrincipal_run [OF e] show ?thesis by (simp add: r status_of_error)
    next
      fix j u
      assume j: "userTaskJobForPrincipal env i ex s = (Ok j, u)"
        and rest: "(let admin = HasRole p RoleArtificialFlowAdmin in
         if \<not> admin \<and> \<not> userTaskEligible j p then ret (http_error 403 ''Forbidden'')
         else if \<not> admin \<and> trim_space (jb_worker j) \<noteq> taskOwner p
         then ret (http_error 403 ''Task must be claimed by the current user before completion'')
         else orFail 409 (CompleteUserTask env (run env n) i ex (taskOwner p) admin) (\<lambda>_. ret (ok (TextBody ''Task completed'')))) u
         = (Ok resp, t)"
      note st = userTaskJobForPrincipal_run [OF j]
      show ?thesis
      proof (cases "userTaskEligible j p \<and> trim_space (jb_worker j) = taskOwner p")
        case False
        with rest na st show ?thesis by (auto simp: ret_apply status_of_error split: if_splits)
      next
        case True
        with rest na have "orFail 409 (CompleteUserTask env (run env n) i ex (taskOwner p) False) (\<lambda>_. ret (ok (TextBody ''Task completed''))) u
          = (Ok resp, t)" by simp
        from orFail_cases [OF this] show ?thesis
        proof (elim disjE exE conjE)
          fix e assume e: "CompleteUserTask env (run env n) i ex (taskOwner p) False u = (Error e, t)" "resp = http_error 409 (err_string e)"
          then have "serve env n (CompleteUserTaskReq i ex (taskOwner p) False) u = (Error e, t)" by simp
          from one_transaction_atomic [OF _ this] st e show ?thesis by (simp add: status_of_error)
        next
          fix x v assume "ret (ok (TextBody ''Task completed'')) v = (Ok resp, t)"
          then have "rs_status resp = 200" by (auto simp: ret_apply ok_def)
          with True p st show ?thesis by blast
        qed
      qed
    qed
  qed (auto simp: status_of_error)
qed

definition ann_user :: principal where
  "ann_user = ann\<lparr>pl_roles := []\<rparr>"

definition no_headers :: headers where
  "no_headers = \<lparr>hd_idempotency = [], hd_protocol = [], hd_acting_subject = [], hd_acting_username = [], hd_acting_email = [],
     hd_acting_name = [], hd_acting_roles = []\<rparr>"

lemma ann_completes:
  "(case fst (dispatch demo_env (run demo_env 3) (CompleteInboxTask no_headers ''7'' ''9'') (Some ann_user) demo_before) of
     Ok resp \<Rightarrow> rs_status resp = 200 | _ \<Rightarrow> False)"
  by code_simp

theorem inbox_tasks_have_owners_witness:
  "\<exists>resp t. dispatch demo_env (run demo_env 3) (CompleteInboxTask no_headers ''7'' ''9'') (Some ann_user) demo_before = (Ok resp, t) \<and>
     rs_status resp = 200 \<and> (\<exists>p. inbox_caller no_headers (Some ann_user) p \<and> trim_space (jb_worker demo_job) = taskOwner p)"
proof -
  let ?d = "dispatch demo_env (run demo_env 3) (CompleteInboxTask no_headers ''7'' ''9'') (Some ann_user) demo_before"
  obtain resp t where r: "?d = (Ok resp, t)" "rs_status resp = 200"
    using ann_completes by (cases ?d; cases "fst ?d") auto
  from inbox_tasks_have_owners [OF r(1)] r show ?thesis
    by (auto simp: is_task_of_def demo_before_def demo_state_def demo_db_def)
qed

end
