(* ===== verification/WorkerProps.thy ===== *)
theory WorkerProps
  imports InboxProps StoreProps
begin

text \<open>
  What workers and readers of the interface can rely on: a job operation recorded under an idempotency key is answered
  again without being run, and the listings of instances show nobody more than the instances they have a task of.
\<close>

section \<open>Idempotency keys\<close>

text \<open>The operations of workers on one job: their headers, the operation and the key of the job in the path.\<close>

fun worker_request :: "api_call \<Rightarrow> (headers \<times> string \<times> string) option" where
  "worker_request (CompleteJobCall hs k _) = Some (hs, ''complete'', k)"
| "worker_request (FailJobCall hs k _) = Some (hs, ''fail'', k)"
| "worker_request (ExtendJobLockCall hs k _) = Some (hs, ''extend-lock'', k)"
| "worker_request _ = None"

definition done_text :: "string \<Rightarrow> string" where
  "done_text verb = (if verb = ''complete'' then ''Job completed'' else if verb = ''fail'' then ''Job failed'' else ''Job lock extended'')"

lemma worker_requests_share:
  assumes "worker_request c = Some (hs, verb, k)"
  shows "\<exists>act. dispatch env rec c = adminOrClient (\<lambda>_. jobRequest env hs verb (done_text verb) k act)"
  using assms by (cases c) (auto simp: completeJob_def failJob_def extendJobLock_def done_text_def)

lemma operation_kept: "trim_space (''jobs.'' @ verb @ '':'' @ show_int k) \<noteq> []"
  by (simp add: trim_space_def is_space_def dropWhile_eq_Nil_conv)

lemma recorded_row:
  assumes "RecordIdempotencyKey env k op s = (Ok (), t)" and "trim_space k \<noteq> []" and "trim_space op \<noteq> []"
  shows "\<exists>r \<in> set (db_idempotency (s_db t)). ir_key r = trim_space k \<and> ir_operation r = trim_space op"
proof -
  from assms obtain now u where u: "timeNow env s = (Ok now, u)"
    and e: "CreateIdempotencyRecord env \<lparr>ir_key = trim_space k, ir_operation = trim_space op, ir_created_at = now\<rparr> u = (Ok (), t)"
    by (auto simp: RecordIdempotencyKey_def Let_def dest!: bindE_OkD)
  from exec_OkD [OF e [unfolded CreateIdempotencyRecord_def]] show ?thesis by (auto split: if_splits)
qed

lemma processed_row:
  assumes "trim_space k \<noteq> []" and "trim_space op \<noteq> []" and "\<not> env_db_fault env (s_calls s)"
  shows "\<exists>t. HasProcessedIdempotencyKey env k op s =
      (Ok (\<exists>r \<in> set (db_idempotency (s_db s)). ir_key r = trim_space k \<and> ir_operation r = trim_space op), t) \<and>
     s_db t = s_db s \<and> s_bus t = s_bus s"
  using assms
  by (cases "List.find (\<lambda>r. ir_key r = trim_space k \<and> ir_operation r = trim_space op) (db_idempotency (s_db s))")
     (auto simp: HasProcessedIdempotencyKey_def Let_def GetIdempotencyRecord_def bindE_apply query_run thenE_apply
      meter_def modifyS_def ret_apply find_None_iff find_Some_iff)

lemma record_succeeds:
  assumes "\<And>n. \<not> env_db_fault env n"
  shows "\<exists>t. RecordIdempotencyKey env k op s = (Ok (), t)"
  using assms
  by (auto simp: RecordIdempotencyKey_def CreateIdempotencyRecord_def repo_exec_def bindE_apply timeNow_def ret_apply Let_def)

definition has_record :: "headers \<Rightarrow> string \<Rightarrow> string \<Rightarrow> db \<Rightarrow> bool" where
  "has_record hs verb rawKey d \<longleftrightarrow> (\<exists>k. parse_job_key rawKey = Inr k \<and> (\<exists>r \<in> set (db_idempotency d).
     ir_key r = trim_space (hd_idempotency hs) \<and> ir_operation r = trim_space (''jobs.'' @ verb @ '':'' @ show_int k)))"

lemma versioned_cases:
  assumes "versioned hs m s = (Ok resp, t)"
  shows "(\<exists>e. validateWorkerProtocolVersion hs = Inl e \<and> resp = http_error 400 (err_string e) \<and> t = s) \<or>
     (validateWorkerProtocolVersion hs = Inr () \<and> (\<exists>r. m s = (Ok r, t) \<and> resp = setWorkerProtocolHeaders r))"
  using assms by (auto simp: versioned_def orRefuse_def ret_apply bindE_apply split: sum.splits prod.splits outcome.splits)

lemma status_kept [simp]: "rs_status (setWorkerProtocolHeaders r) = rs_status r"
  by (simp add: setWorkerProtocolHeaders_def)

lemma orRefuse_200:
  assumes "orRefuse st r k s = (Ok resp, t)" and "rs_status resp = 200" and "st \<noteq> 200"
  shows "\<exists>x. r = Inr x \<and> k x s = (Ok resp, t)"
  using assms by (auto simp: orRefuse_def ret_apply status_of_error split: sum.splits)

lemma orFail_200:
  assumes "orFail st m k s = (Ok resp, t)" and "rs_status resp = 200" and "st \<noteq> 200"
  shows "\<exists>x u. m s = (Ok x, u) \<and> k x u = (Ok resp, t)"
  using orFail_cases [OF assms(1)] assms(2,3) by (auto simp: status_of_error)

lemma readIdempotencyKey_Inr:
  assumes "readIdempotencyKey hs = Inr k"
  shows "k = trim_space (hd_idempotency hs)"
  using assms by (auto simp: readIdempotencyKey_def Let_def split: if_splits)

lemma jobRequest_records:
  assumes run: "jobRequest env hs verb d rawKey act s = (Ok resp, t)" and ok: "rs_status resp = 200"
    and key: "trim_space (hd_idempotency hs) \<noteq> []" and nf: "\<And>n. \<not> env_db_fault env n"
  shows "has_record hs verb rawKey (s_db t) \<and> resp = setWorkerProtocolHeaders (ok (TextBody d)) \<and>
     validateWorkerProtocolVersion hs = Inr () \<and> readIdempotencyKey hs = Inr (trim_space (hd_idempotency hs))"
proof -
  from versioned_cases [OF run [unfolded jobRequest_def]] ok
  obtain r where v: "validateWorkerProtocolVersion hs = Inr ()" "resp = setWorkerProtocolHeaders r" "rs_status r = 200"
    and m: "orRefuse 400 (parse_job_key rawKey) (\<lambda>k. orRefuse 400 (readIdempotencyKey hs) (\<lambda>ikey.
        let operation = ''jobs.'' @ verb @ '':'' @ show_int k in
        orFail 500 (if ikey = [] then ret False else HasProcessedIdempotencyKey env ikey operation) (\<lambda>already.
          if already then ret (ok (TextBody d))
          else orRefuse 400 (act k) (\<lambda>m. orFail 400 m (\<lambda>_.
            thenE (if ikey = [] then ret () else ignoreE (RecordIdempotencyKey env ikey operation))
              (ret (ok (TextBody d)))))))) s = (Ok r, t)"
    by (auto simp: status_of_error)
  from orRefuse_200 [OF m v(3)] obtain k where k: "parse_job_key rawKey = Inr k" and
    m: "orRefuse 400 (readIdempotencyKey hs) (\<lambda>ikey.
        let operation = ''jobs.'' @ verb @ '':'' @ show_int k in
        orFail 500 (if ikey = [] then ret False else HasProcessedIdempotencyKey env ikey operation) (\<lambda>already.
          if already then ret (ok (TextBody d))
          else orRefuse 400 (act k) (\<lambda>m. orFail 400 m (\<lambda>_.
            thenE (if ikey = [] then ret () else ignoreE (RecordIdempotencyKey env ikey operation))
              (ret (ok (TextBody d))))))) s = (Ok r, t)" by auto
  let ?i = "trim_space (hd_idempotency hs)" and ?o = "''jobs.'' @ verb @ '':'' @ show_int k"
  from orRefuse_200 [OF m v(3)] obtain ikey where ikey: "readIdempotencyKey hs = Inr ikey" by auto
  with readIdempotencyKey_Inr have i: "readIdempotencyKey hs = Inr ?i" by blast
  from m key have m: "orFail 500 (HasProcessedIdempotencyKey env ?i ?o) (\<lambda>already.
          if already then ret (ok (TextBody d))
          else orRefuse 400 (act k) (\<lambda>m. orFail 400 m (\<lambda>_.
            thenE (ignoreE (RecordIdempotencyKey env ?i ?o)) (ret (ok (TextBody d)))))) s = (Ok r, t)"
    by (simp add: Let_def orRefuse_def i cong: if_cong sum.case_cong)
  from orFail_200 [OF m v(3)] obtain b u where b: "HasProcessedIdempotencyKey env ?i ?o s = (Ok b, u)"
    and m: "(if b then ret (ok (TextBody d)) else orRefuse 400 (act k) (\<lambda>m. orFail 400 m (\<lambda>_.
            thenE (ignoreE (RecordIdempotencyKey env ?i ?o)) (ret (ok (TextBody d)))))) u = (Ok r, t)" by auto
  have "has_record hs verb rawKey (s_db t) \<and> r = ok (TextBody d)"
  proof (cases b)
    case True
    with m b processed_row [of ?i ?o env s] operation_kept key nf k show ?thesis
      by (auto simp: has_record_def ret_apply)
  next
    case False
    with m have m: "orRefuse 400 (act k) (\<lambda>m. orFail 400 m (\<lambda>_.
            thenE (ignoreE (RecordIdempotencyKey env ?i ?o)) (ret (ok (TextBody d))))) u = (Ok r, t)" by simp
    let ?tail = "\<lambda>_. thenE (ignoreE (RecordIdempotencyKey env ?i ?o)) (ret (ok (TextBody d)))"
    from orRefuse_200 [OF m v(3)] have "\<exists>body. act k = Inr body \<and> orFail 400 body ?tail u = (Ok r, t)" by simp
    then obtain body where "act k = Inr body" and m: "orFail 400 body ?tail u = (Ok r, t)" by blast
    from orFail_200 [OF m v(3)] obtain w where
      m: "thenE (ignoreE (RecordIdempotencyKey env ?i ?o)) (ret (ok (TextBody d))) w = (Ok r, t)" by auto
    from record_succeeds [OF nf] obtain w' where w: "RecordIdempotencyKey env ?i ?o w = (Ok (), w')" by blast
    with m have "r = ok (TextBody d)" "t = w'" by (auto simp: thenE_apply ignoreE_apply ret_apply)
    with recorded_row [OF w] operation_kept key k show ?thesis by (auto simp: has_record_def)
  qed
  with v i show ?thesis by simp
qed

lemma jobRequest_repeats:
  assumes rec: "has_record hs verb rawKey (s_db s)" and v: "validateWorkerProtocolVersion hs = Inr ()"
    and i: "readIdempotencyKey hs = Inr (trim_space (hd_idempotency hs))" and key: "trim_space (hd_idempotency hs) \<noteq> []"
    and nf: "\<And>n. \<not> env_db_fault env n"
  shows "\<exists>t. jobRequest env hs verb d rawKey act s = (Ok (setWorkerProtocolHeaders (ok (TextBody d))), t) \<and>
     s_db t = s_db s \<and> s_bus t = s_bus s"
proof -
  let ?i = "trim_space (hd_idempotency hs)"
  from rec obtain k where k: "parse_job_key rawKey = Inr k" and "\<exists>r \<in> set (db_idempotency (s_db s)). ir_key r = trim_space ?i \<and>
     ir_operation r = trim_space (''jobs.'' @ verb @ '':'' @ show_int k)"
    by (auto simp: has_record_def)
  with processed_row [of ?i "''jobs.'' @ verb @ '':'' @ show_int k" env s] operation_kept key nf
  obtain t where t: "HasProcessedIdempotencyKey env ?i (''jobs.'' @ verb @ '':'' @ show_int k) s = (Ok True, t)"
    "s_db t = s_db s" "s_bus t = s_bus s" by auto
  then show ?thesis using v i k key
    by (simp add: jobRequest_def versioned_def orRefuse_def orFail_def bindE_apply tryE_apply ret_apply Let_def)
qed

lemma adminOrClient_200:
  assumes "adminOrClient h who s = (Ok resp, t)" and "rs_status resp = 200"
  shows "adminOrClient h' who = h' who"
  using assms by (auto simp: adminOrClient_def RequireAnyRole_def ret_apply status_of_error split: option.splits if_splits)

text \<open>C29: a recorded request is not run again. When an operation of a worker on a job is sent with an idempotency key and
  answered 200, a request with the same headers for the same operation on the same job is answered with the same
  response as long as the key is kept, whatever its body and whatever happened to the job meanwhile, and leaves the
  tables and the bus as they are. The database is taken to answer.\<close>

theorem recorded_requests_are_not_rerun:
  assumes "worker_request c = Some (hs, verb, k)" and "worker_request c' = Some (hs, verb, k)"
    and "trim_space (hd_idempotency hs) \<noteq> []" and "\<And>n. \<not> env_db_fault env n"
    and "dispatch env rec c who s = (Ok resp, t)" and "rs_status resp = 200"
    and "set (db_idempotency (s_db t)) \<subseteq> set (db_idempotency (s_db u))"
  shows "\<exists>v. dispatch env rec' c' who u = (Ok resp, v) \<and> s_db v = s_db u \<and> s_bus v = s_bus u"
proof -
  from worker_requests_share [OF assms(1)] worker_requests_share [OF assms(2)] obtain act act' where
    c: "dispatch env rec c = adminOrClient (\<lambda>_. jobRequest env hs verb (done_text verb) k act)" and
    c': "dispatch env rec' c' = adminOrClient (\<lambda>_. jobRequest env hs verb (done_text verb) k act')" by metis
  note run = assms(5) [unfolded c]
  have a: "adminOrClient h who = h who" for h :: "principal option \<Rightarrow> response eng"
    by (rule adminOrClient_200 [OF run assms(6)])
  from run have "jobRequest env hs verb (done_text verb) k act s = (Ok resp, t)" by (simp add: a)
  note r = jobRequest_records [OF this assms(6,3,4)]
  with assms(7) have "has_record hs verb k (s_db u)" by (auto simp: has_record_def)
  from jobRequest_repeats [OF this _ _ assms(3,4)] r show ?thesis by (simp add: c' a)
qed

definition keyed :: headers where
  "keyed = no_headers\<lparr>hd_idempotency := ''once''\<rparr>"

definition open_before :: est where
  "open_before = demo_state (demo_db\<lparr>db_jobs := [demo_job\<lparr>jb_state := ''CREATED'', jb_worker := []\<rparr>]\<rparr>)"

definition fail_call :: "int \<Rightarrow> api_call" where
  "fail_call n = FailJobCall keyed ''5'' (Decoded \<lparr>fr_worker = ''ann'', fr_error_message = ''no'', fr_retries = Some n\<rparr>)"

lemma demo_fails_once:
  "(case dispatch demo_env (run demo_env 3) (fail_call 2) (Some disabledAuthPrincipal) open_before of
     (Ok resp, t) \<Rightarrow> rs_status resp = 200 \<and> map jb_retries (db_jobs (s_db t)) = [2] | _ \<Rightarrow> False)"
  by code_simp

theorem recorded_requests_are_not_rerun_witness:
  "\<exists>resp t v. dispatch demo_env (run demo_env 3) (fail_call 2) (Some disabledAuthPrincipal) open_before = (Ok resp, t) \<and>
     dispatch demo_env (run demo_env 3) (fail_call 0) (Some disabledAuthPrincipal) t = (Ok resp, v) \<and>
     s_db t \<noteq> s_db open_before \<and> s_db v = s_db t \<and> s_bus v = s_bus t"
proof -
  obtain resp t where r: "dispatch demo_env (run demo_env 3) (fail_call 2) (Some disabledAuthPrincipal) open_before = (Ok resp, t)"
    and st: "rs_status resp = 200" "map jb_retries (db_jobs (s_db t)) = [2]"
    using demo_fails_once by (auto split: prod.splits outcome.splits)
  have w: "worker_request (fail_call n) = Some (keyed, ''fail'', ''5'')" for n by (simp add: fail_call_def)
  have "trim_space (hd_idempotency keyed) \<noteq> []" by code_simp
  moreover have "\<not> env_db_fault demo_env n" for n by (simp add: demo_env_def)
  ultimately obtain v where "dispatch demo_env (run demo_env 3) (fail_call 0) (Some disabledAuthPrincipal) t = (Ok resp, v)"
    "s_db v = s_db t" "s_bus v = s_bus t"
    using recorded_requests_are_not_rerun [OF w w _ _ r st(1) subset_refl] by blast
  moreover have "s_db t \<noteq> s_db open_before"
    using st(2) by (auto simp: open_before_def demo_state_def demo_db_def demo_job_def)
  ultimately show ?thesis using r by blast
qed

section \<open>Listings\<close>

text \<open>A user task of the instance a text names: the text reads as the key of the instance or is its decimal.\<close>

definition task_of_named :: "string \<Rightarrow> job \<Rightarrow> db \<Rightarrow> bool" where
  "task_of_named i j d \<longleftrightarrow> j \<in> set (db_jobs d) \<and> jb_type j = UserTaskJobType \<and>
     (parse_int i = Inr (jb_instance_key j) \<or> i = show_int (jb_instance_key j))"

lemma is_task_named: "is_task_of i j d \<Longrightarrow> task_of_named i j d"
  by (simp add: is_task_of_def task_of_named_def compatibleJobTypes_def)

text \<open>An instance the principal has a user task of: assigned, offered or claimed.\<close>

definition takes_part :: "principal \<Rightarrow> string \<Rightarrow> db \<Rightarrow> bool" where
  "takes_part p i d \<longleftrightarrow> (\<exists>j. task_of_named i j d \<and> userTaskAssignedToPrincipal j p)"

lemma canViewInstance_run:
  assumes "canViewInstance env i p s = (r, t)" and "\<not> principalHasFullInstanceVisibility p"
  shows "s_db t = s_db s \<and> (r = Ok True \<longrightarrow> takes_part p i (s_db s))"
proof -
  obtain r1 u where l: "ListUserTaskJobs env i s = (r1, u)" by fastforce
  from ListUserTaskJobs_run [OF l] assms l show ?thesis
    by (auto simp: canViewInstance_def bindE_apply ret_apply list_ex_iff takes_part_def split: outcome.splits dest: is_task_named)
qed

definition keep_visible :: "env \<Rightarrow> principal \<Rightarrow> workflow_instance list \<Rightarrow> workflow_instance \<Rightarrow> workflow_instance list eng" where
  "keep_visible env p acc w = bindE (tryE (canViewInstance env (wi_id w) p)) (\<lambda>r.
     ret (case r of Inr True \<Rightarrow> acc @ [w] | _ \<Rightarrow> acc))"

lemma keep_visible_run:
  assumes "keep_visible env p acc w s = (Ok acc', t)" and "\<not> principalHasFullInstanceVisibility p"
  shows "s_db t = s_db s \<and> (acc' = acc \<or> acc' = acc @ [w] \<and> takes_part p (wi_id w) (s_db s))"
proof -
  obtain r u where v: "canViewInstance env (wi_id w) p s = (r, u)" by fastforce
  from canViewInstance_run [OF v assms(2)] assms(1) v show ?thesis
    by (cases r) (auto simp: keep_visible_def bindE_apply tryE_apply ret_apply split: bool.splits)
qed

lemma filter_run:
  assumes "foldE (keep_visible env p) acc ws s = (Ok vs, t)" and "\<not> principalHasFullInstanceVisibility p"
    and "\<forall>w \<in> set acc. takes_part p (wi_id w) (s_db s)"
  shows "\<forall>w \<in> set vs. takes_part p (wi_id w) (s_db s)"
  using assms
proof (induction ws arbitrary: acc s)
  case Nil
  then show ?case by (auto simp: ret_apply)
next
  case (Cons w ws)
  from Cons.prems(1) obtain acc' u where st: "keep_visible env p acc w s = (Ok acc', u)"
    and f: "foldE (keep_visible env p) acc' ws u = (Ok vs, t)" by (auto dest!: bindE_OkD)
  note k = keep_visible_run [OF st Cons.prems(2)]
  with Cons.prems(3) have "\<forall>w \<in> set acc'. takes_part p (wi_id w) (s_db u)" by auto
  from Cons.IH [OF f Cons.prems(2) this] k show ?case by simp
qed

lemma filterInstances_run:
  assumes "filterInstancesForPrincipal env ws p s = (Ok vs, t)" and "\<not> principalHasFullInstanceVisibility p"
  shows "\<forall>w \<in> set vs. takes_part p (wi_id w) (s_db s)"
  using filter_run [where acc = "[]" and env = env and p = p and ws = ws and s = s] assms
  by (simp add: filterInstancesForPrincipal_def keep_visible_def [abs_def])

lemma summaries_db:
  assumes "foldE (\<lambda>acc p. bindE (mapToWorkflowInstance env p [] []) (\<lambda>w. ret (acc @ [w]))) acc ps s = (Ok ws, t)"
  shows "s_db t = s_db s"
  using assms
proof (induction ps arbitrary: acc s)
  case (Cons p ps)
  then obtain acc' u where "bindE (mapToWorkflowInstance env p [] []) (\<lambda>w. ret (acc @ [w])) s = (Ok acc', u)"
    and f: "foldE (\<lambda>acc p. bindE (mapToWorkflowInstance env p [] []) (\<lambda>w. ret (acc @ [w]))) acc' ps u = (Ok ws, t)"
    by (simp only: foldE.simps) (drule bindE_OkD, elim exE conjE, rule that)
  then have "s_db u = s_db s" by (auto simp: ret_apply dest!: bindE_OkD mapToWorkflowInstance_OkD)
  with Cons.IH [OF f] show ?case by simp
qed (simp add: ret_apply)

lemma listed_db:
  "ListActiveInstances env s = (Ok ws, t) \<Longrightarrow> s_db t = s_db s"
  "ListCompletedInstances env limit s = (Ok ws, t) \<Longrightarrow> s_db t = s_db s"
  by (auto simp: ListActiveInstances_def ListCompletedInstances_def summaries_def ListActiveProcessInstances_def
      ListProcessInstancesByState_def dest!: bindE_OkD summaries_db query_OkD split: if_splits)

text \<open>The instances of the history of the inbox.\<close>

lemma summaries_rows:
  assumes "foldE (\<lambda>acc p. bindE (mapToWorkflowInstance env p [] []) (\<lambda>w. ret (acc @ [w]))) acc ps s = (Ok ws, t)"
  shows "map wi_id ws = map wi_id acc @ map (\<lambda>p. show_int (pi_key p)) ps"
  using assms
proof (induction ps arbitrary: acc s)
  case (Cons p ps)
  then obtain acc' u where a: "bindE (mapToWorkflowInstance env p [] []) (\<lambda>w. ret (acc @ [w])) s = (Ok acc', u)"
    and f: "foldE (\<lambda>acc p. bindE (mapToWorkflowInstance env p [] []) (\<lambda>w. ret (acc @ [w]))) acc' ps u = (Ok ws, t)"
    by (simp only: foldE.simps) (drule bindE_OkD, elim exE conjE, rule that)
  from a have "map wi_id acc' = map wi_id acc @ [show_int (pi_key p)]"
    by (auto simp: mapToWorkflowInstance_def ret_apply dest!: bindE_OkD)
  with Cons.IH [OF f] show ?case by simp
qed (simp add: ret_apply)

lemma normalized_values: "x \<in> set (normalize_values vs seen) \<Longrightarrow> x \<noteq> [] \<and> (\<exists>v \<in> set vs. x = to_lower (trim_space v))"
  by (induction vs seen rule: normalize_values.induct) (auto simp: Let_def split: if_splits)

lemma completed_by_principal:
  assumes "to_lower (trim_space (jb_worker j)) \<in> set (normalizeQueryValues (principalIdentifiers p))"
  shows "userTaskAssignedToPrincipal j p"
  using normalized_values [OF assms [unfolded normalizeQueryValues_def]]
  by (auto simp: userTaskAssignedToPrincipal_def containsFold_def Let_def list_ex_iff equal_fold_def)

lemma history_scoped:
  assumes "ListCompletedInstancesWithCompletedUserTaskWorkers env (principalIdentifiers p) limit s = (Ok ws, t)"
  shows "\<forall>w \<in> set ws. takes_part p (wi_id w) (s_db s)"
proof -
  from bindE_OkD [OF assms [unfolded ListCompletedInstancesWithCompletedUserTaskWorkers_def]] obtain ps u where
    l: "ListCompletedProcessInstancesWithCompletedJobsByWorkers env UserTaskJobType (principalIdentifiers p) limit s = (Ok ps, u)"
    and m: "summaries env ps u = (Ok ws, t)" by blast
  have part: "takes_part p (show_int (pi_key q)) (s_db s)" if "q \<in> set ps" for q
  proof -
    from l that obtain j where "j \<in> set (db_jobs (s_db s))" "jb_instance_key j = pi_key q"
      "jb_type j \<in> set (compatibleJobTypes UserTaskJobType)"
      "to_lower (trim_space (jb_worker j)) \<in> set (normalizeQueryValues (principalIdentifiers p))"
      by (auto simp: ListCompletedProcessInstancesWithCompletedJobsByWorkers_def Let_def ret_apply
          dest!: query_OkD in_set_takeD split: if_splits)
    then show ?thesis unfolding takes_part_def task_of_named_def
      by (intro exI [of _ j]) (simp add: completed_by_principal compatibleJobTypes_def)
  qed
  from summaries_rows [OF m [unfolded summaries_def]] have "set (map wi_id ws) = set (map (\<lambda>q. show_int (pi_key q)) ps)" by simp
  then have ids: "wi_id ` set ws = (\<lambda>q. show_int (pi_key q)) ` set ps" by simp
  show ?thesis
  proof
    fix w assume "w \<in> set ws"
    then have "wi_id w \<in> (\<lambda>q. show_int (pi_key q)) ` set ps" unfolding ids [symmetric] by (rule imageI)
    with part show "takes_part p (wi_id w) (s_db s)" by auto
  qed
qed

text \<open>The reads that are scoped, for whom they read, and which instances a response shows.\<close>

fun reads_for :: "api_call \<Rightarrow> principal option \<Rightarrow> principal \<Rightarrow> bool" where
  "reads_for ListInstancesCall who p \<longleftrightarrow> who = Some p"
| "reads_for (CompletedHistoryCall _) who p \<longleftrightarrow> who = Some p"
| "reads_for (GetInstanceCall _) who p \<longleftrightarrow> who = Some p"
| "reads_for (ListTasksCall _ _) who p \<longleftrightarrow> who = Some p"
| "reads_for (ListInbox hs) who p \<longleftrightarrow> inbox_caller hs who p"
| "reads_for (InboxHistory hs _) who p \<longleftrightarrow> inbox_caller hs who p"
| "reads_for (GetInboxInstance hs _ _) who p \<longleftrightarrow> inbox_caller hs who p"
| "reads_for (ListInboxTasks hs _ _) who p \<longleftrightarrow> inbox_caller hs who p"
| "reads_for _ _ _ \<longleftrightarrow> False"

fun path_instance :: "api_call \<Rightarrow> string list" where
  "path_instance (GetInstanceCall i) = [i]"
| "path_instance (GetInboxInstance _ i _) = [i]"
| "path_instance (ListTasksCall i _) = [i]"
| "path_instance (ListInboxTasks _ i _) = [i]"
| "path_instance _ = []"

definition shown_instances :: "api_call \<Rightarrow> resp_body \<Rightarrow> string list" where
  "shown_instances c b = (case (b, path_instance c) of
       (TextBody _, _) \<Rightarrow> []
     | (JInstances ws, []) \<Rightarrow> map nr_id ws
     | (_, path) \<Rightarrow> path)"

definition scoped :: "api_call \<Rightarrow> principal \<Rightarrow> db \<Rightarrow> response \<Rightarrow> bool" where
  "scoped c p d resp \<longleftrightarrow> (\<forall>i \<in> set (shown_instances c (rs_body resp)). takes_part p i d)"

lemma scoped_error [simp]: "scoped c p d (http_error st msg)"
  by (simp add: scoped_def http_error_def shown_instances_def)

lemma scoped_instances:
  assumes "\<forall>w \<in> set ws. takes_part p (wi_id w) d" and "path_instance c = []"
  shows "scoped c p d (instances_response ws)"
  using assms by (simp add: scoped_def instances_response_def ok_def ToWorkflowInstanceResponse_def shown_instances_def)

lemma take_sub: "\<forall>w \<in> set vs. P w \<Longrightarrow> \<forall>w \<in> set (take k vs). P w"
  by (auto dest: in_set_takeD)

lemma listInstances_scoped:
  assumes "\<not> principalHasFullInstanceVisibility p" and "path_instance c = []"
  shows "listInstances env (Some p) s = (Ok resp, t) \<Longrightarrow> scoped c p (s_db s) resp"
    and "listInboxInstances env (Some p) s = (Ok resp, t) \<Longrightarrow> scoped c p (s_db s) resp"
    and "listCompletedInstanceHistory env raw (Some p) s = (Ok resp, t) \<Longrightarrow> scoped c p (s_db s) resp"
  using assms
  by (auto simp: listInstances_def listInboxInstances_def listCompletedInstanceHistory_def withPrincipal_def ret_apply
      dest!: orFail_cases bindE_OkD listed_db filterInstances_run intro!: scoped_instances take_sub split: option.splits)

lemma inboxHistory_scoped:
  assumes "listInboxCompletedHistory env raw (Some p) s = (Ok resp, t)" and "path_instance c = []"
  shows "scoped c p (s_db s) resp"
  using assms
  by (auto simp: listInboxCompletedHistory_def withPrincipal_def ret_apply
      dest!: orFail_cases intro!: scoped_instances history_scoped split: option.splits)

lemma canView_orFail:
  assumes "orFail st (canViewInstance env i p) (\<lambda>visible. if \<not> visible then ret (http_error st' msg) else m) s = (Ok resp, t)"
    and "\<not> principalHasFullInstanceVisibility p"
  shows "(\<exists>st msg. resp = http_error st msg) \<or> takes_part p i (s_db s)"
proof -
  consider e where "resp = http_error st (err_string e)"
    | b u where "canViewInstance env i p s = (Ok b, u)" "(if \<not> b then ret (http_error st' msg) else m) u = (Ok resp, t)"
    using orFail_cases [OF assms(1)] by blast
  then show ?thesis
  proof cases
    case 1
    then show ?thesis by blast
  next
    case 2
    with canViewInstance_run [OF 2(1) assms(2)] show ?thesis by (cases b) (auto simp: ret_apply)
  qed
qed

lemma shown_of_path:
  assumes "(\<exists>st msg. resp = http_error st msg) \<or> takes_part p i d" and "path_instance c = [i]"
  shows "scoped c p d resp"
proof -
  from assms(1) consider st msg where "resp = http_error st msg" | "takes_part p i d" by blast
  then show ?thesis using assms(2) by cases (simp, auto simp: scoped_def shown_instances_def split: resp_body.splits)
qed

lemma readInstance_scoped:
  assumes "readInstance env i inc (Some p) s = (Ok resp, t)" and "\<not> principalHasFullInstanceVisibility p"
  shows "(\<exists>st msg. resp = http_error st msg) \<or> takes_part p i (s_db s)"
proof -
  from assms(1) have "orFail 404 (GetInstance env i) (\<lambda>w. orFail 500 (canViewInstance env i p) (\<lambda>visible.
       if \<not> visible then ret (http_error 403 ''Forbidden'')
       else bindE (tryE (userTaskResponsesForRequest env (Some p) i inc)) (\<lambda>r.
         ret (ok (JInstance (ToWorkflowInstanceResponseWithTasks w (case r of Inl _ \<Rightarrow> [] | Inr ts \<Rightarrow> ts))))))) s = (Ok resp, t)"
    by (simp add: readInstance_def withPrincipal_def)
  from orFail_cases [OF this] show ?thesis
  proof (elim disjE exE conjE)
    fix w u assume g: "GetInstance env i s = (Ok w, u)" and r: "orFail 500 (canViewInstance env i p) (\<lambda>visible.
       if \<not> visible then ret (http_error 403 ''Forbidden'')
       else bindE (tryE (userTaskResponsesForRequest env (Some p) i inc)) (\<lambda>r.
         ret (ok (JInstance (ToWorkflowInstanceResponseWithTasks w (case r of Inl _ \<Rightarrow> [] | Inr ts \<Rightarrow> ts)))))) u = (Ok resp, t)"
    from GetInstance_OkD [OF g] canView_orFail [OF r assms(2)] show ?thesis by auto
  qed blast
qed

lemma listUserTasks_scoped:
  assumes "listUserTasks env i raw (Some p) s = (Ok resp, t)" and "\<not> principalHasFullInstanceVisibility p"
  shows "(\<exists>st msg. resp = http_error st msg) \<or> takes_part p i (s_db s)"
  using canView_orFail [OF assms(1) [unfolded listUserTasks_def withPrincipal_def option.case] assms(2)] .

lemma scopedInstanceRead_cases:
  assumes "scopedInstanceRead h who s = (r, t)"
  shows "(\<exists>p. who = Some p \<and> h who s = (r, t)) \<or> (\<exists>st msg. r = Ok (http_error st msg))"
  using assms by (auto simp: scopedInstanceRead_def RequireAuthenticated_def withPrincipal_def ret_apply split: option.splits if_splits)

lemma inbox_caller_unique:
  assumes "inbox_caller hs who p" and "inbox_caller hs who p'"
  shows "p = p'"
  using assms by (auto simp: inbox_caller_def split: if_splits)

lemma inbox_caller_scoped: "inbox_caller hs who p \<Longrightarrow> \<not> principalHasFullInstanceVisibility p"
  by (simp add: inbox_caller_def principalHasFullInstanceVisibility_def HasAnyRole_def)

lemma scoped_by_guard:
  assumes "scopedInstanceRead h (Some p) s = (Ok resp, t)" and "h (Some p) s = (Ok resp, t) \<Longrightarrow> scoped c p d resp"
  shows "scoped c p d resp"
  using scopedInstanceRead_cases [OF assms(1)] assms(2) by auto

lemma scoped_by_inbox:
  assumes "sdkInboxOnly hs h who s = (Ok resp, t)" and "inbox_caller hs who p" and "h (Some p) s = (Ok resp, t) \<Longrightarrow> scoped c p d resp"
  shows "scoped c p d resp"
  using sdkInboxOnly_cases [OF assms(1)]
proof (elim disjE exE conjE)
  fix p' assume "inbox_caller hs who p'" "h (Some p') s = (Ok resp, t)"
  with inbox_caller_unique [OF assms(2)] assms(3) show ?thesis by blast
qed auto

lemma reads_are_scoped:
  assumes run: "dispatch env rec c who s = (Ok resp, t)" and p: "reads_for c who p" and nf: "\<not> principalHasFullInstanceVisibility p"
  shows "scoped c p (s_db s) resp"
proof (cases c)
  case ListInstancesCall
  with run p show ?thesis by (auto elim!: scoped_by_guard intro: listInstances_scoped(1) [OF nf])
next
  case (CompletedHistoryCall raw)
  with run p show ?thesis by (auto elim!: scoped_by_guard intro: listInstances_scoped(3) [OF nf])
next
  case (ListInbox hs)
  with run p show ?thesis by (auto elim!: scoped_by_inbox intro: listInstances_scoped(2) [OF nf])
next
  case (InboxHistory hs raw)
  with run p show ?thesis by (auto elim!: scoped_by_inbox intro: inboxHistory_scoped)
next
  case (GetInstanceCall i)
  with run p show ?thesis
    by (auto simp: getInstance_def elim!: scoped_by_guard dest!: readInstance_scoped [OF _ nf] intro: shown_of_path)
next
  case (GetInboxInstance hs i raw)
  with run p show ?thesis
    by (auto simp: getInboxInstance_def elim!: scoped_by_inbox dest!: readInstance_scoped [OF _ nf] intro: shown_of_path)
next
  case (ListTasksCall i raw)
  with run p show ?thesis by (auto elim!: scoped_by_guard dest!: listUserTasks_scoped [OF _ nf] intro: shown_of_path)
next
  case (ListInboxTasks hs i raw)
  with run p show ?thesis by (auto elim!: scoped_by_inbox dest!: listUserTasks_scoped [OF _ nf] intro: shown_of_path)
qed (use p in auto)

text \<open>C24: what a user is shown is scoped. The active and completed instances listed, an instance read, and the tasks listed
  of one, in the inbox (its history included) and outside, are shown to a principal who is neither administrator nor client
  only if a user task of that instance is assigned to, offered to or claimed (or completed) by that principal.\<close>

theorem listings_are_scoped:
  assumes "dispatch env rec c who s = (Ok resp, t)" and "reads_for c who p"
    and "\<not> HasRole p RoleArtificialFlowAdmin" and "\<not> HasRole p RoleArtificialFlowClient"
    and "i \<in> set (shown_instances c (rs_body resp))"
  shows "\<exists>j. task_of_named i j (s_db s) \<and> userTaskAssignedToPrincipal j p"
proof -
  from assms(3,4) have "\<not> principalHasFullInstanceVisibility p" by (simp add: principalHasFullInstanceVisibility_def HasAnyRole_def)
  from reads_are_scoped [OF assms(1,2) this] assms(5) show ?thesis by (auto simp: scoped_def takes_part_def)
qed

lemma ann_reads:
  "(case fst (dispatch demo_env (run demo_env 3) (ListInbox no_headers) (Some ann_user) demo_before) of
     Ok resp \<Rightarrow> shown_instances (ListInbox no_headers) (rs_body resp) = [''7''] | _ \<Rightarrow> False)"
  by code_simp

theorem listings_are_scoped_witness:
  "\<exists>resp t. dispatch demo_env (run demo_env 3) (ListInbox no_headers) (Some ann_user) demo_before = (Ok resp, t) \<and>
     shown_instances (ListInbox no_headers) (rs_body resp) = [''7''] \<and> userTaskAssignedToPrincipal demo_job ann_user"
proof -
  let ?d = "dispatch demo_env (run demo_env 3) (ListInbox no_headers) (Some ann_user) demo_before"
  obtain resp t where r: "?d = (Ok resp, t)" "shown_instances (ListInbox no_headers) (rs_body resp) = [''7'']"
    using ann_reads by (cases ?d; cases "fst ?d") auto
  have "inbox_caller no_headers (Some ann_user) ann_user" "\<not> HasRole ann_user RoleArtificialFlowAdmin"
    "\<not> HasRole ann_user RoleArtificialFlowClient"
    by (simp_all add: inbox_caller_def ann_user_def HasRole_def)
  with listings_are_scoped [OF r(1), of ann_user "''7''"] r show ?thesis
    by (auto simp: task_of_named_def demo_before_def demo_state_def demo_db_def)
qed
end
