(* ===== verification/Sync.thy ===== *)
theory Sync
  imports Auth
begin

text \<open>
  The sync worker (\<open>backend/services/sync-worker\<close>): it reads the domain events and the change records of the tables
  from the message bus and keeps documents of them in the search engine. The client of the search engine is
  \<open>libs/elasticsearch/repository.go\<close>.

  What is outside has a state \<open>'s\<close> and is the record \<open>outside\<close>: the three requests to the search engine, each answered
  with a status or not at all, the clock, the commit of a message to the consumer group, the write of a message to the
  dead letter topic, and whether the context was cancelled. Decoders are the record \<open>decoders\<close>. A document is a JSON
  object, a list of its fields; a time in it is its nanoseconds. Logging and tracing are left out, and the watchdog
  that restarts a consumer without an assignment.
\<close>

section \<open>The search engine\<close>

datatype reply = NoReply go_err | Replied int string

text \<open>A message of the bus, and the message \<open>publishDLQ\<close> makes of one that could not be processed.\<close>

record kafka_message =
  km_topic :: string
  km_partition :: int
  km_offset :: int
  km_key :: string
  km_value :: string
  km_headers :: "(string \<times> string) list"

record dead_letter =
  dl_failed_at :: int
  dl_topic :: string
  dl_partition :: int
  dl_offset :: int
  dl_error :: string
  dl_key :: string
  dl_value :: string
  dl_headers :: "(string \<times> string) list"

record 's outside =
  os_index :: "string \<Rightarrow> string \<Rightarrow> vars \<Rightarrow> 's \<Rightarrow> reply \<times> 's"
  os_delete :: "string \<Rightarrow> string \<Rightarrow> 's \<Rightarrow> reply \<times> 's"
  os_update :: "string \<Rightarrow> string \<Rightarrow> string \<Rightarrow> vars \<Rightarrow> 's \<Rightarrow> reply \<times> 's"
  os_now :: "'s \<Rightarrow> int \<times> 's"
  os_commit :: "kafka_message \<Rightarrow> 's \<Rightarrow> go_err option \<times> 's"
  os_dead :: "dead_letter \<Rightarrow> 's \<Rightarrow> go_err option \<times> 's"
  os_cancelled :: "'s \<Rightarrow> bool \<times> 's"

text \<open>
  \<open>dc_event\<close> is \<open>proto.Unmarshal\<close> into the message type it is given, \<open>dc_json\<close> and \<open>dc_object\<close> are \<open>json.Unmarshal\<close> into
  \<open>any\<close> and into a map, \<open>dc_change\<close> that of a change record: operation, row before, row after. \<open>dc_text\<close> is the text
  the value of a variable was decoded from.
\<close>

record decoders =
  dc_event :: "string \<Rightarrow> string \<Rightarrow> go_err + event"
  dc_json :: "string \<Rightarrow> go_err + val"
  dc_object :: "string \<Rightarrow> go_err + vars"
  dc_change :: "string \<Rightarrow> go_err + string \<times> string \<times> string"
  dc_text :: "val \<Rightarrow> string"

definition is_error :: "int \<Rightarrow> bool" where
  "is_error code \<longleftrightarrow> code > 299"

definition marshalled :: "vars \<Rightarrow> bool" where
  "marshalled doc \<longleftrightarrow> json_kvs doc \<noteq> None"

definition unsupported :: go_err where
  "unsupported = Msg ''json: unsupported value''"

definition es_failure :: "string \<Rightarrow> string \<Rightarrow> string \<Rightarrow> string \<Rightarrow> go_err" where
  "es_failure what index i status =
     Msg (''elasticsearch '' @ what @ '' failed: index='' @ index @ '' id='' @ i @ '' status='' @ status)"

definition Upsert :: "'s outside \<Rightarrow> string \<Rightarrow> string \<Rightarrow> vars \<Rightarrow> ('s, unit) go" where
  "Upsert w index i doc = (if \<not> marshalled doc then throw unsupported
     else (\<lambda>s. case os_index w index i doc s of
         (NoReply e, t) \<Rightarrow> (Error e, t)
       | (Replied code st, t) \<Rightarrow> (if is_error code then Error (es_failure ''upsert'' index i st) else Ok (), t)))"

definition Delete :: "'s outside \<Rightarrow> string \<Rightarrow> string \<Rightarrow> ('s, unit) go" where
  "Delete w index i = (\<lambda>s. case os_delete w index i s of
       (NoReply e, t) \<Rightarrow> (Error e, t)
     | (Replied code st, t) \<Rightarrow>
         (if code = 404 then Ok () else if is_error code then Error (es_failure ''delete'' index i st) else Ok (), t))"

definition UpdateWithScript :: "'s outside \<Rightarrow> string \<Rightarrow> string \<Rightarrow> string \<Rightarrow> vars \<Rightarrow> ('s, unit) go" where
  "UpdateWithScript w index i script params = (if \<not> marshalled params then throw unsupported
     else (\<lambda>s. case os_update w index i script params s of
         (NoReply e, t) \<Rightarrow> (Error e, t)
       | (Replied code st, t) \<Rightarrow> (if is_error code then Error (es_failure ''update_with_script'' index i st) else Ok (), t)))"

section \<open>Projection of events\<close>

definition index_prefix :: "string \<Rightarrow> string" where
  "index_prefix raw = (let p = trim_space raw in if p = [] then ''artificialflow'' else p)"

definition indexNameForTopic :: "string \<Rightarrow> string \<Rightarrow> string" where
  "indexNameForTopic prefix topic = (let parts = split_at_char CHR ''.'' topic in
     prefix @ ''-'' @ (if length parts \<ge> 3 then last parts else topic))"

definition completion_script :: string where
  "completion_script = ''ctx._source.state = params.state; ctx._source.end_time = params.end_time;''"

definition context_script :: string where
  "context_script = ''if (ctx._source.context == null) { ctx._source.context = new HashMap(); } ctx._source.context[params.name] = params.value;''"

definition removal_script :: string where
  "removal_script = ''if (ctx._source.context != null) { ctx._source.context.remove(params.name); }''"

definition job_script :: string where
  "job_script = ''ctx._source.state = params.state; ctx._source.worker = params.worker; ctx._source.updated_at = params.updated_at;''"

definition failure_script :: string where
  "failure_script = ''ctx._source.state = params.state; ctx._source.retries = params.retries; ctx._source.error_message = params.error_message; ctx._source.updated_at = params.updated_at;''"

definition readClock :: "'s outside \<Rightarrow> ('s, int) go" where
  "readClock w = (\<lambda>s. case os_now w s of (n, t) \<Rightarrow> (Ok n, t))"

fun project :: "'s outside \<Rightarrow> decoders \<Rightarrow> string \<Rightarrow> event \<Rightarrow> ('s, unit) go" where
  "project w dc prefix (ProcessInstanceCreated k i dk v bp created) =
     Upsert w (indexNameForTopic prefix ''process_instance'') (show_int k)
       [(''key'', VInt64 k), (''id'', VStr i), (''process_definition_key'', VInt64 dk), (''version'', VInt32 v),
        (''bpmn_process_id'', VStr bp), (''state'', VStr ''ACTIVE''), (''created_at'', VInt64 created)]"
| "project w dc prefix (ProcessInstanceCompleted k dk ended) =
     UpdateWithScript w (indexNameForTopic prefix ''process_instance'') (show_int k) completion_script
       [(''state'', VStr ''COMPLETED''), (''end_time'', VInt64 ended)]"
| "project w dc prefix (VariableUpdated name v ik scope updated) =
     (let key = generateDeterministicKey (show_int ik @ ''_'' @ name) in
      thenE (Upsert w (indexNameForTopic prefix ''variable'') (show_int key)
        [(''key'', VInt64 key), (''name'', VStr name), (''value'', VStr (dc_text dc v)), (''process_instance_key'', VInt64 ik),
         (''scope_key'', VInt64 scope), (''updated_at'', VInt64 updated)])
      (UpdateWithScript w (indexNameForTopic prefix ''process_instance'') (show_int ik) context_script
        [(''name'', VStr name), (''value'', v)]))"
| "project w dc prefix (JobCreated k i ty ik ek dk el created) =
     Upsert w (indexNameForTopic prefix ''job'') (show_int k)
       [(''key'', VInt64 k), (''id'', VStr i), (''type'', VStr ty), (''process_instance_key'', VInt64 ik),
        (''element_instance_key'', VInt64 ek), (''process_definition_key'', VInt64 dk), (''element_id'', VStr el),
        (''state'', VStr ''CREATED''), (''created_at'', VInt64 created)]"
| "project w dc prefix (JobActivated k worker lock) =
     bindE (readClock w) (\<lambda>now. UpdateWithScript w (indexNameForTopic prefix ''job'') (show_int k) job_script
       [(''state'', VStr ''ACTIVATED''), (''worker'', VStr worker), (''updated_at'', VInt64 now)])"
| "project w dc prefix (JobCompleted k worker variables updated) =
     UpdateWithScript w (indexNameForTopic prefix ''job'') (show_int k) job_script
       [(''state'', VStr ''COMPLETED''), (''worker'', VStr worker), (''updated_at'', VInt64 updated)]"
| "project w dc prefix (JobFailed k worker retries msg updated) =
     UpdateWithScript w (indexNameForTopic prefix ''job'') (show_int k) failure_script
       [(''state'', VStr ''FAILED''), (''retries'', VInt32 retries), (''error_message'', VStr msg), (''updated_at'', VInt64 updated)]"
| "project w dc prefix (ElementInstanceActivated k i ik dk el ty scope created) =
     Upsert w (indexNameForTopic prefix ''element_instance'') (show_int k)
       [(''key'', VInt64 k), (''id'', VStr i), (''process_instance_key'', VInt64 ik), (''process_definition_key'', VInt64 dk),
        (''element_id'', VStr el), (''bpmn_element_type'', VStr ty), (''flow_scope_key'', VInt64 scope),
        (''state'', VStr ''ACTIVE''), (''created_at'', VInt64 created)]"
| "project w dc prefix (ElementInstanceCompleted k ik el ended) =
     UpdateWithScript w (indexNameForTopic prefix ''element_instance'') (show_int k) completion_script
       [(''state'', VStr ''COMPLETED''), (''end_time'', VInt64 ended)]"

definition projected_types :: "string list" where
  "projected_types = [''ProcessInstanceCreated'', ''ProcessInstanceCompleted'', ''VariableUpdated'', ''JobCreated'', ''JobActivated'',
     ''JobCompleted'', ''JobFailed'', ''ElementInstanceActivated'', ''ElementInstanceCompleted'']"

text \<open>A type the switch does not name is taken as processed.\<close>

definition ProcessEvent :: "'s outside \<Rightarrow> decoders \<Rightarrow> string \<Rightarrow> string \<Rightarrow> string \<Rightarrow> ('s, unit) go" where
  "ProcessEvent w dc prefix ty data = (if ty \<in> set projected_types
     then (case dc_event dc ty data of
         Inl e \<Rightarrow> throw (Wrapf (''failed to unmarshal '' @ ty) e)
       | Inr ev \<Rightarrow> project w dc prefix ev)
     else ret ())"

section \<open>Mirroring of tables\<close>

definition absent :: "string \<Rightarrow> bool" where
  "absent raw \<longleftrightarrow> raw = [] \<or> raw = ''null''"

definition extractIDAndDoc :: "decoders \<Rightarrow> string \<Rightarrow> go_err + string \<times> vars" where
  "extractIDAndDoc dc raw = (case dc_object dc raw of
       Inl e \<Rightarrow> Inl e
     | Inr doc \<Rightarrow> (case map_of doc ''key'' of
           Some v \<Rightarrow> Inr (fmt_v v, doc)
         | None \<Rightarrow> (case map_of doc ''scope_key'' of
             Some v \<Rightarrow> Inr (fmt_v v, doc)
           | None \<Rightarrow> Inl (Msg ''unable to determine document id (expected key or scope_key)''))))"

definition denormalizeVariable :: "'s outside \<Rightarrow> decoders \<Rightarrow> string \<Rightarrow> string \<times> string \<times> string \<Rightarrow> ('s, unit) go" where
  "denormalizeVariable w dc prefix msg = (case msg of (op, before, after) \<Rightarrow>
     let raw = (if op = ''d'' then before else after) in
     if absent raw then ret ()
     else (case extractIDAndDoc dc raw of
         Inl e \<Rightarrow> throw e
       | Inr (_, source) \<Rightarrow>
          (case (map_of source ''process_instance_key'', map_of source ''name'') of
             (None, _) \<Rightarrow> throw (Msg ''process_instance_key missing in variable'')
           | (Some _, None) \<Rightarrow> throw (Msg ''name missing in variable'')
           | (Some pk, Some n) \<Rightarrow>
               let target = prefix @ ''-process_instance''; name = fmt_v n in
               if op = ''d'' then
                 bindE (tryE (UpdateWithScript w target (fmt_v pk) removal_script [(''name'', VStr name)])) (\<lambda>r. case r of
                     Inl e \<Rightarrow> if contains_str (err_string e) ''404'' then ret () else throw e
                   | Inr _ \<Rightarrow> ret ())
               else (case map_of source ''value'' of
                   None \<Rightarrow> ret ()
                 | Some v \<Rightarrow>
                     let parsed = (case v of VStr text \<Rightarrow> (case dc_json dc text of Inl _ \<Rightarrow> v | Inr x \<Rightarrow> x) | _ \<Rightarrow> v)
                     in UpdateWithScript w target (fmt_v pk) context_script [(''name'', VStr name), (''value'', parsed)]))))"

definition mirror :: "'s outside \<Rightarrow> decoders \<Rightarrow> string \<Rightarrow> string \<times> string \<times> string \<Rightarrow> ('s, bool) go" where
  "mirror w dc index msg = (case msg of (op, before, after) \<Rightarrow>
     if op \<in> {''c'', ''u'', ''r''} then
       (if absent after then ret False
        else (case extractIDAndDoc dc after of
            Inl e \<Rightarrow> throw (Msg (''failed to extract id/doc: '' @ err_string e))
          | Inr (i, doc) \<Rightarrow> thenE (mapErr (\<lambda>e. Msg (''upsert failed: '' @ err_string e)) (Upsert w index i doc)) (ret True)))
     else if op = ''d'' then
       (if absent before then ret False
        else (case extractIDAndDoc dc before of
            Inl e \<Rightarrow> throw (Msg (''failed to extract id for delete: '' @ err_string e))
          | Inr (i, _) \<Rightarrow> thenE (mapErr (\<lambda>e. Msg (''delete failed: '' @ err_string e)) (Delete w index i)) (ret True)))
     else ret True)"

definition ProcessMessage :: "'s outside \<Rightarrow> decoders \<Rightarrow> string \<Rightarrow> string \<Rightarrow> string \<times> string \<times> string \<Rightarrow> ('s, unit) go" where
  "ProcessMessage w dc prefix topic msg = (let index = indexNameForTopic prefix topic in
     bindE (mirror w dc index msg) (\<lambda>go_on.
       if go_on \<and> has_suffix index ''variable''
       then mapErr (\<lambda>e. Msg (''failed to denormalize variable: '' @ err_string e)) (denormalizeVariable w dc prefix msg)
       else ret ()))"

section \<open>The consumer\<close>

record topic_stats =
  ts_last_offset :: int
  ts_last_processed_at :: int
  ts_last_error :: string

text \<open>The counters of the consumer beside the state outside.\<close>

record 's consumer =
  cs_outside :: 's
  cs_processed :: int
  cs_success :: int
  cs_failure :: int
  cs_retry :: int
  cs_dlq :: int
  cs_last_processed :: int
  cs_topics :: "(string \<times> topic_stats) list"

record consumer_config =
  cc_brokers :: "string list"
  cc_group :: string
  cc_topics :: "string list"
  cc_dlq_topic :: string
  cc_max_retries :: int
  cc_backoff :: int

definition NewKafkaConsumer :: "consumer_config \<Rightarrow> consumer_config" where
  "NewKafkaConsumer cfg = cfg\<lparr>cc_max_retries := (if cc_max_retries cfg < 0 then 0 else cc_max_retries cfg),
     cc_backoff := (if cc_backoff cfg \<le> 0 then 250000000 else cc_backoff cfg)\<rparr>"

text \<open>What \<open>Start\<close> refuses before it reads anything.\<close>

definition start_refused :: "consumer_config \<Rightarrow> go_err option" where
  "start_refused cfg = (if cc_brokers cfg = [] then Some (Msg ''kafka brokers are required'')
     else if cc_group cfg = [] then Some (Msg ''kafka group id is required'')
     else if cc_topics cfg = [] then Some (Msg ''kafka topics are required'') else None)"

definition carrier_Get :: "(string \<times> string) list \<Rightarrow> string \<Rightarrow> string" where
  "carrier_Get headers k = (case map_of headers k of Some v \<Rightarrow> v | None \<Rightarrow> [])"

definition lift_outside :: "('s, 'a) go \<Rightarrow> ('s consumer, 'a) go" where
  "lift_outside m = (\<lambda>c. case m (cs_outside c) of (r, t) \<Rightarrow> (r, c\<lparr>cs_outside := t\<rparr>))"

definition recordTopicOutcome :: "'s outside \<Rightarrow> string \<Rightarrow> int \<Rightarrow> go_err option \<Rightarrow> ('s consumer, unit) go" where
  "recordTopicOutcome w topic offset e = bindE (lift_outside (readClock w)) (\<lambda>now.
     modifyS (\<lambda>c. c\<lparr>cs_topics := put topic \<lparr>ts_last_offset = offset, ts_last_processed_at = now,
       ts_last_error = (case e of None \<Rightarrow> [] | Some x \<Rightarrow> err_string x)\<rparr> (cs_topics c)\<rparr>))"

text \<open>Which path a message takes: an event when it has a type header, else a change record.\<close>

definition process_payload :: "'s outside \<Rightarrow> decoders \<Rightarrow> string \<Rightarrow> kafka_message \<Rightarrow> ('s, unit) go" where
  "process_payload w dc prefix m = (let ty = carrier_Get (km_headers m) ''type'' in
     if ty \<noteq> [] then ProcessEvent w dc prefix ty (km_value m)
     else (case dc_change dc (km_value m) of
         Inl e \<Rightarrow> throw e
       | Inr msg \<Rightarrow> ProcessMessage w dc prefix (km_topic m) msg))"

definition processMessageOnce :: "'s outside \<Rightarrow> decoders \<Rightarrow> string \<Rightarrow> kafka_message \<Rightarrow> ('s consumer, unit) go" where
  "processMessageOnce w dc prefix m =
     bindE (tryE (lift_outside (process_payload w dc prefix m))) (\<lambda>r. case r of
         Inl e \<Rightarrow> thenE (recordTopicOutcome w (km_topic m) (km_offset m) (Some e)) (throw e)
       | Inr _ \<Rightarrow> thenE (modifyS (\<lambda>c. c\<lparr>cs_success := cs_success c + 1\<rparr>))
           (recordTopicOutcome w (km_topic m) (km_offset m) None))"

text \<open>One attempt, and as many more as are left, with a wait in between that the context may cut short.\<close>

primrec attempts :: "'s outside \<Rightarrow> decoders \<Rightarrow> string \<Rightarrow> kafka_message \<Rightarrow> nat \<Rightarrow> ('s consumer, unit) go" where
  "attempts w dc prefix m 0 = processMessageOnce w dc prefix m"
| "attempts w dc prefix m (Suc left) = bindE (tryE (processMessageOnce w dc prefix m)) (\<lambda>r. case r of
       Inr _ \<Rightarrow> ret ()
     | Inl e \<Rightarrow> thenE (modifyS (\<lambda>c. c\<lparr>cs_retry := cs_retry c + 1\<rparr>))
         (bindE (lift_outside (\<lambda>s. case os_cancelled w s of (b, t) \<Rightarrow> (Ok b, t))) (\<lambda>cancelled.
           if cancelled then throw (Msg ''context canceled'') else attempts w dc prefix m left)))"

definition processMessageWithRetry ::
  "'s outside \<Rightarrow> decoders \<Rightarrow> string \<Rightarrow> consumer_config \<Rightarrow> kafka_message \<Rightarrow> ('s consumer, unit) go" where
  "processMessageWithRetry w dc prefix cfg m = attempts w dc prefix m (nat (cc_max_retries cfg))"

definition send_out :: "('s \<Rightarrow> go_err option \<times> 's) \<Rightarrow> ('s consumer, unit) go" where
  "send_out f = lift_outside (\<lambda>s. case f s of (None, t) \<Rightarrow> (Ok (), t) | (Some e, t) \<Rightarrow> (Error e, t))"

definition dead_letter_of :: "kafka_message \<Rightarrow> go_err \<Rightarrow> int \<Rightarrow> dead_letter" where
  "dead_letter_of m e now = \<lparr>dl_failed_at = now, dl_topic = km_topic m, dl_partition = km_partition m, dl_offset = km_offset m,
     dl_error = err_string e, dl_key = km_key m, dl_value = km_value m, dl_headers = put_all (km_headers m) []\<rparr>"

definition publishDLQ :: "'s outside \<Rightarrow> consumer_config \<Rightarrow> kafka_message \<Rightarrow> go_err \<Rightarrow> ('s consumer, unit) go" where
  "publishDLQ w cfg m e = (if cc_dlq_topic cfg = [] then throw (Msg ''dlq writer is not configured'')
     else bindE (lift_outside (readClock w)) (\<lambda>now.
       thenE (mapErr (Wrapf ''write dlq message'') (send_out (os_dead w (dead_letter_of m e now))))
         (modifyS (\<lambda>c. c\<lparr>cs_dlq := cs_dlq c + 1\<rparr>))))"

definition commit :: "'s outside \<Rightarrow> kafka_message \<Rightarrow> ('s consumer, unit) go" where
  "commit w m = ignoreE (send_out (os_commit w m))"

text \<open>The body of the loop for a message that was fetched.\<close>

definition consume :: "'s outside \<Rightarrow> decoders \<Rightarrow> string \<Rightarrow> consumer_config \<Rightarrow> kafka_message \<Rightarrow> ('s consumer, unit) go" where
  "consume w dc prefix cfg m = (if km_value m = [] then commit w m
     else bindE (lift_outside (readClock w)) (\<lambda>now.
       thenE (modifyS (\<lambda>c. c\<lparr>cs_processed := cs_processed c + 1, cs_last_processed := now\<rparr>))
       (bindE (tryE (processMessageWithRetry w dc prefix cfg m)) (\<lambda>r. case r of
           Inr _ \<Rightarrow> commit w m
         | Inl e \<Rightarrow>
             thenE (modifyS (\<lambda>c. c\<lparr>cs_failure := cs_failure c + 1\<rparr>))
             (thenE (recordTopicOutcome w (km_topic m) (km_offset m) (Some e))
             (bindE (tryE (publishDLQ w cfg m e)) (\<lambda>d. case d of Inl _ \<Rightarrow> ret () | Inr _ \<Rightarrow> commit w m)))))))"

definition consumeLoop :: "'s outside \<Rightarrow> decoders \<Rightarrow> string \<Rightarrow> consumer_config \<Rightarrow> kafka_message list \<Rightarrow> ('s consumer, unit) go" where
  "consumeLoop w dc prefix cfg ms = forE ms (consume w dc prefix cfg)"

text \<open>The health of the worker, from the time since it last processed a message.\<close>

definition evaluateSyncHealth :: "int \<Rightarrow> int \<Rightarrow> int \<Rightarrow> bool \<Rightarrow> string \<times> int \<times> bool \<times> int" where
  "evaluateSyncHealth now seen sloSec failOnStale =
     (let lag = (if seen \<le> 0 then - 1 else max 0 ((now - seen) div 1000000000)) in
      if sloSec \<le> 0 then (''ok'', lag, False, 200)
      else if seen \<le> 0 then (''starting'', lag, False, 200)
      else if lag \<le> sloSec then (''ok'', lag, False, 200)
      else if failOnStale then (''unhealthy'', lag, True, 503) else (''degraded'', lag, True, 200))"

section \<open>Configuration\<close>

fun drop_seen :: "string list \<Rightarrow> string list \<Rightarrow> string list" where
  "drop_seen seen [] = []"
| "drop_seen seen (t # ts) = (if t \<in> set seen then drop_seen seen ts else t # drop_seen (t # seen) ts)"

definition parseTopicsEnv :: "string \<Rightarrow> string list" where
  "parseTopicsEnv raw = drop_seen [] (splitAndTrim raw)"

definition normalizeProjectionContract :: "string \<Rightarrow> string" where
  "normalizeProjectionContract raw = (let c = to_lower (trim_space raw) in
     if c \<in> {[], ''hybrid''} then ''hybrid''
     else if c \<in> {''event-first'', ''event_first'', ''eventfirst'', ''events''} then ''event-first''
     else c)"

definition containsTopic :: "string list \<Rightarrow> string \<Rightarrow> bool" where
  "containsTopic topics expected0 = (let e = trim_space expected0 in e \<noteq> [] \<and> list_ex (\<lambda>t. trim_space t = e) topics)"

definition debezium_topic :: "string \<Rightarrow> bool" where
  "debezium_topic topic \<longleftrightarrow> (let parts = split_at_char CHR ''.'' (trim_space topic) in
     length parts \<ge> 3 \<and> equal_fold (parts ! (length parts - 2)) ''public'')"

definition containsDebeziumTopics :: "string list \<Rightarrow> bool" where
  "containsDebeziumTopics topics \<longleftrightarrow> list_ex debezium_topic topics"

definition validateProjectionContract :: "string \<Rightarrow> string list \<Rightarrow> string \<Rightarrow> go_err option" where
  "validateProjectionContract raw topics eventTopic0 =
     (let contract = normalizeProjectionContract raw;
          et0 = trim_space eventTopic0;
          et = (if et0 = [] then ''workflow.events.v1'' else et0);
          hasEvent = containsTopic topics et;
          hasDebezium = containsDebeziumTopics topics
      in if topics = [] then Some (Msg ''kafka topics are required for projection contract validation'')
      else if contract = ''hybrid'' then
        (if \<not> hasEvent then Some (Msg (''hybrid contract requires event topic \"'' @ et @ ''\" in KAFKA_TOPICS''))
         else if \<not> hasDebezium then Some (Msg ''hybrid contract requires at least one Debezium table topic in KAFKA_TOPICS (expected *.public.<table>)'')
         else None)
      else if contract = ''event-first'' then
        (if \<not> hasEvent then Some (Msg (''event-first contract requires event topic \"'' @ et @ ''\" in KAFKA_TOPICS''))
         else if hasDebezium then Some (Msg ''event-first contract does not allow Debezium table topics in KAFKA_TOPICS'')
         else None)
      else if contract = ''debezium'' then
        (if \<not> hasDebezium then Some (Msg ''debezium contract requires at least one Debezium table topic in KAFKA_TOPICS'') else None)
      else Some (Msg (''unsupported SYNC_PROJECTION_CONTRACT=\"'' @ contract @ ''\" (expected hybrid|event-first|debezium)'')))"

definition validateDebeziumIdentifierTransition :: "string list \<Rightarrow> go_err option" where
  "validateDebeziumIdentifierTransition topics =
     (case List.find (\<lambda>prefix. prefix \<noteq> [] \<and> prefix \<noteq> ''artificialflow'')
         (map (\<lambda>t. join_with ''.'' (butlast (butlast (split_at_char CHR ''.'' (trim_space t))))) (filter debezium_topic topics)) of
        None \<Rightarrow> None
      | Some prefix \<Rightarrow> Some (Msg (''KAFKA_TOPICS uses unsupported Debezium prefix \"'' @ prefix @ ''\"; expected artificialflow'')))"

end
