(* ===== verification/Feed.thy ===== *)
theory Feed
  imports GoPrelude
begin

text \<open>
  At-least-once delivery of logs to a reader that keeps a view. The reader stands at a position in each log; it takes
  the next entry of one of them, and processes it or passes over it after writing a part of it; or it is set back in any
  of the logs, as the members of a consumer group are when a partition is assigned anew. The entries passed over since
  they were last processed are kept in a set. The locale \<open>projector\<close> is the interface of a reader whose entries
  overwrite places of the view: however often entries are repeated, a place that one log alone writes, and no entry
  passed over, has at the end of that log the value of one pass over it.
\<close>

section \<open>Overwriting\<close>

text \<open>What an entry writes: nothing at a place, or a value, or the absence of one.\<close>

type_synonym ('k, 'v) writes = "'k \<Rightarrow> 'v option option"

definition overwrite :: "('k, 'v) writes \<Rightarrow> ('k \<Rightarrow> 'v option) \<Rightarrow> ('k \<Rightarrow> 'v option)" where
  "overwrite w m = (\<lambda>k. case w k of None \<Rightarrow> m k | Some v \<Rightarrow> v)"

definition part_of :: "('k, 'v) writes \<Rightarrow> ('k, 'v) writes \<Rightarrow> bool" where
  "part_of u w \<longleftrightarrow> (\<forall>k v. u k = Some v \<longrightarrow> w k = Some v)"

definition no_writes :: "('k, 'v) writes" where
  "no_writes = (\<lambda>_. None)"

definition and_then :: "('k, 'v) writes \<Rightarrow> ('k, 'v) writes \<Rightarrow> ('k, 'v) writes" where
  "and_then u w = (\<lambda>k. case w k of None \<Rightarrow> u k | Some v \<Rightarrow> Some v)"

lemma overwrite_none [simp]: "overwrite no_writes m = m"
  by (simp add: overwrite_def no_writes_def)

lemma overwrite_twice: "overwrite w (overwrite u m) = overwrite (and_then u w) m"
  by (rule ext) (simp add: overwrite_def and_then_def split: option.split)

lemma part_of_refl [simp]: "part_of w w" and part_of_none [simp]: "part_of no_writes w"
  by (simp_all add: part_of_def no_writes_def)

lemma part_of_and_then: "part_of u w \<Longrightarrow> part_of v w \<Longrightarrow> part_of (and_then u v) w"
  by (auto simp: part_of_def and_then_def split: option.splits)

lemma overwrite_part: "part_of u w \<Longrightarrow> overwrite w (overwrite u m) = overwrite w m"
  by (rule ext) (auto simp: part_of_def overwrite_def split: option.split)

lemma overwrite_apply: "overwrite w m k = (case w k of None \<Rightarrow> m k | Some v \<Rightarrow> v)"
  by (simp add: overwrite_def)

text \<open>One pass over a log.\<close>

definition one_pass :: "('e \<Rightarrow> ('k, 'v) writes) \<Rightarrow> 'e list \<Rightarrow> ('k \<Rightarrow> 'v option) \<Rightarrow> ('k \<Rightarrow> 'v option)" where
  "one_pass writes es m = fold (\<lambda>e. overwrite (writes e)) es m"

lemma one_pass_none:
  assumes "\<forall>i < length es. writes (es ! i) k = None"
  shows "one_pass writes es m k = m k"
  using assms
proof (induction es arbitrary: m)
  case (Cons e es)
  have "writes e k = None" using Cons.prems by force
  moreover have "\<forall>i < length es. writes (es ! i) k = None" using Cons.prems by fastforce
  ultimately show ?case using Cons.IH by (simp add: one_pass_def overwrite_apply)
qed (simp add: one_pass_def)

lemma one_pass_append: "one_pass writes (xs @ ys) m = one_pass writes ys (one_pass writes xs m)"
  by (simp add: one_pass_def)

lemma one_pass_last:
  assumes j: "j < length es" and w: "writes (es ! j) k = Some v" and later: "\<forall>i < length es. j < i \<longrightarrow> writes (es ! i) k = None"
  shows "one_pass writes es m k = v"
proof -
  have "es = take j es @ es ! j # drop (Suc j) es" using j by (rule id_take_nth_drop)
  then have "one_pass writes es m = one_pass writes (drop (Suc j) es) (overwrite (writes (es ! j)) (one_pass writes (take j es) m))"
    by (metis one_pass_append one_pass_def fold_simps(2))
  moreover have "\<forall>i < length (drop (Suc j) es). writes (drop (Suc j) es ! i) k = None" using later by simp
  ultimately show ?thesis using w by (simp add: one_pass_none overwrite_apply)
qed

section \<open>Delivery\<close>

inductive feed :: "('e \<Rightarrow> 's \<Rightarrow> 's \<Rightarrow> bool) \<Rightarrow> ('e \<Rightarrow> 's \<Rightarrow> 's \<Rightarrow> bool) \<Rightarrow> ('s \<Rightarrow> 'v) \<Rightarrow> ('a \<Rightarrow> 'e list) \<Rightarrow> 's \<Rightarrow>
    ('a \<Rightarrow> nat) \<Rightarrow> ('a \<times> nat) set \<Rightarrow> 's \<Rightarrow> bool"
  for processed passed view logs s0 where
  feed_start: "feed processed passed view logs s0 (\<lambda>_. 0) {} s0"
| feed_next: "feed processed passed view logs s0 p missed s \<Longrightarrow> p a < length (logs a) \<Longrightarrow> processed (logs a ! p a) s t \<Longrightarrow>
    feed processed passed view logs s0 (p(a := Suc (p a))) (missed - {(a, p a)}) t"
| feed_pass: "feed processed passed view logs s0 p missed s \<Longrightarrow> p a < length (logs a) \<Longrightarrow> passed (logs a ! p a) s t \<Longrightarrow>
    feed processed passed view logs s0 (p(a := Suc (p a))) (insert (a, p a) missed) t"
| feed_back: "feed processed passed view logs s0 p missed s \<Longrightarrow> (\<And>a. q a \<le> p a) \<Longrightarrow> view t = view s \<Longrightarrow>
    feed processed passed view logs s0 q missed t"

lemma feed_mono:
  assumes "feed processed passed view logs s0 p missed s"
    and "\<And>a e s t. e \<in> set (logs a) \<Longrightarrow> processed e s t \<Longrightarrow> processed' e s t"
    and "\<And>a e s t. e \<in> set (logs a) \<Longrightarrow> passed e s t \<Longrightarrow> passed' e s t"
    and "\<And>s t. view t = view s \<Longrightarrow> view' t = view' s"
  shows "feed processed' passed' view' logs s0 p missed s"
  using assms(1)
proof induction
  case (feed_next p missed s a t)
  then show ?case by (intro feed.feed_next) (auto intro: assms(2) [OF nth_mem])
next
  case (feed_pass p missed s a t)
  then show ?case by (intro feed.feed_pass) (auto intro: assms(3) [OF nth_mem])
next
  case (feed_back p missed s q t)
  show ?case by (rule feed.feed_back [OF feed_back.IH feed_back.hyps(2) assms(4) [OF feed_back.hyps(3)]])
qed (rule feed.feed_start)

text \<open>A reader that processes every entry it is given, one after the other.\<close>

inductive passes :: "('e \<Rightarrow> 's \<Rightarrow> 's \<Rightarrow> bool) \<Rightarrow> 'e list \<Rightarrow> 's \<Rightarrow> 's \<Rightarrow> bool" for processed where
  passes_nil: "passes processed [] s s"
| passes_cons: "processed e s t \<Longrightarrow> passes processed es t u \<Longrightarrow> passes processed (e # es) s u"

locale projector =
  fixes processed passed :: "'e \<Rightarrow> 's \<Rightarrow> 's \<Rightarrow> bool"
    and view :: "'s \<Rightarrow> 'k \<Rightarrow> 'v option"
    and writes :: "'e \<Rightarrow> ('k, 'v) writes"
  assumes processed_view: "processed e s t \<Longrightarrow> view t = overwrite (writes e) (view s)"
    and passed_view: "passed e s t \<Longrightarrow> \<exists>u. part_of u (writes e) \<and> view t = overwrite u (view s)"
begin

text \<open>A place that only the log \<open>a\<close> writes holds what some entry of it wrote that no entry between it and the position
  overwrites, the entries passed over aside, or its first value if none of them before the position writes it.\<close>

lemma feed_place:
  assumes "feed processed passed view logs s0 p missed s" and alone: "\<forall>b. b \<noteq> a \<longrightarrow> (\<forall>e \<in> set (logs b). writes e k = None)"
  shows "p a \<le> length (logs a) \<and>
     (view s k = view s0 k \<and> (\<forall>i < p a. (a, i) \<notin> missed \<longrightarrow> writes (logs a ! i) k = None) \<or>
     (\<exists>j < length (logs a). writes (logs a ! j) k = Some (view s k) \<and>
        (\<forall>i < p a. j < i \<and> (a, i) \<notin> missed \<longrightarrow> writes (logs a ! i) k = None)))"
  using assms(1)
proof induction
  case feed_start
  then show ?case by simp
next
  case (feed_next p missed s b t)
  show ?case
  proof (cases "writes (logs b ! p b) k")
    case None
    with processed_view [OF feed_next.hyps(3)] have "view t k = view s k" by (simp add: overwrite_apply)
    with None feed_next show ?thesis by (cases "b = a") (auto simp: less_Suc_eq)
  next
    case (Some v)
    with alone feed_next.hyps(2) have b: "b = a" by (metis nth_mem option.distinct(1))
    from Some have "view t k = v" using processed_view [OF feed_next.hyps(3)] by (simp add: overwrite_apply)
    with Some feed_next b show ?thesis by auto
  qed
next
  case (feed_pass p missed s b t)
  from passed_view [OF feed_pass.hyps(3)] obtain u where u: "part_of u (writes (logs b ! p b))" "view t = overwrite u (view s)" by blast
  show ?case
  proof (cases "u k")
    case None
    with u(2) have "view t k = view s k" by (simp add: overwrite_apply)
    with feed_pass show ?thesis by (cases "b = a") (auto simp: less_Suc_eq)
  next
    case (Some v)
    with u have v: "view t k = v" "writes (logs b ! p b) k = Some v" by (simp_all add: overwrite_apply part_of_def)
    with alone feed_pass.hyps(2) have "b = a" by (metis nth_mem option.distinct(1))
    with v feed_pass show ?thesis by auto
  qed
next
  case (feed_back p missed s q t)
  from feed_back.hyps(2) [of a] have q: "q a \<le> p a" .
  with feed_back.IH feed_back.hyps(3) show ?case by (simp only: feed_back.hyps(3)) (meson le_trans less_le_trans)
qed

text \<open>What the last entry that writes a place wrote is there, if that entry was not passed over.\<close>

lemma feed_last:
  assumes "feed processed passed view logs s0 p missed s" and "p a = length (logs a)"
    and alone: "\<forall>b. b \<noteq> a \<longrightarrow> (\<forall>e \<in> set (logs b). writes e k = None)"
    and j: "j < length (logs a)" "writes (logs a ! j) k = Some v" "(a, j) \<notin> missed"
    and later: "\<And>i. i < length (logs a) \<Longrightarrow> j < i \<Longrightarrow> writes (logs a ! i) k = None"
  shows "view s k = v"
proof -
  from feed_place [where a = a and k = k, OF assms(1) alone] assms(2) j
  obtain i where i: "i < length (logs a)" "writes (logs a ! i) k = Some (view s k)"
    "\<forall>n < length (logs a). i < n \<and> (a, n) \<notin> missed \<longrightarrow> writes (logs a ! n) k = None" by auto
  with j later have "i = j" by (metis linorder_neqE_nat option.distinct(1))
  with i j show ?thesis by simp
qed

theorem feed_converges:
  assumes "feed processed passed view logs s0 p missed s" and "p a = length (logs a)"
    and "\<forall>b. b \<noteq> a \<longrightarrow> (\<forall>e \<in> set (logs b). writes e k = None)"
    and kept: "\<And>i. i < length (logs a) \<Longrightarrow> (a, i) \<in> missed \<Longrightarrow> writes (logs a ! i) k = None"
  shows "view s k = one_pass writes (logs a) (view s0) k"
proof -
  from feed_place [where a = a and k = k, OF assms(1,3)] show ?thesis
  proof (elim conjE disjE exE)
    assume "view s k = view s0 k" "\<forall>i < p a. (a, i) \<notin> missed \<longrightarrow> writes (logs a ! i) k = None"
    with kept assms(2) have "\<forall>i < length (logs a). writes (logs a ! i) k = None" by auto
    with \<open>view s k = view s0 k\<close> show ?thesis by (simp add: one_pass_none)
  next
    fix j assume j: "j < length (logs a)" "writes (logs a ! j) k = Some (view s k)"
      "\<forall>i < p a. j < i \<and> (a, i) \<notin> missed \<longrightarrow> writes (logs a ! i) k = None"
    with kept assms(2) have "\<forall>i < length (logs a). j < i \<longrightarrow> writes (logs a ! i) k = None" by auto
    with j show ?thesis by (simp add: one_pass_last)
  qed
qed

lemma passes_view: "passes processed es s t \<Longrightarrow> view t = one_pass writes es (view s)"
  by (induction rule: passes.induct) (simp_all add: one_pass_def processed_view)

end

end
