(* ===== verification/SyncProps.thy ===== *)
theory SyncProps
  imports Sync Feed
begin

text \<open>
  What the documents of the sync worker show. A document is observed place by place: whether it is there, its fields,
  and the entries of its field \<open>context\<close>. \<open>search_store\<close> states what the worker relies on of the search engine: an
  accepted request writes the document, a refused one writes nothing, one without a reply may have done either, and
  the scripts of the worker assign what their text says.
\<close>

section \<open>Documents\<close>

datatype cell = Present | Field string | Entry string

type_synonym documents = "string \<times> string \<times> cell \<Rightarrow> val option"
type_synonym doc_writes = "(string \<times> string \<times> cell, val) writes"

definition index_writes :: "string \<Rightarrow> string \<Rightarrow> vars \<Rightarrow> doc_writes" where
  "index_writes ix i doc = (\<lambda>(ix', i', c). if ix' = ix \<and> i' = i then Some (case c of
       Present \<Rightarrow> Some VNil
     | Field f \<Rightarrow> if f = ''context'' then None else map_of doc f
     | Entry n \<Rightarrow> (case map_of doc ''context'' of Some (VMap m) \<Rightarrow> map_of m n | _ \<Rightarrow> None)) else None)"

definition delete_writes :: "string \<Rightarrow> string \<Rightarrow> doc_writes" where
  "delete_writes ix i = (\<lambda>(ix', i', c). if ix' = ix \<and> i' = i then Some None else None)"

text \<open>The fields a script assigns from the parameters of the same names.\<close>

definition assigned :: "string \<Rightarrow> string list" where
  "assigned script = (if script = completion_script then [''state'', ''end_time'']
     else if script = job_script then [''state'', ''worker'', ''updated_at'']
     else if script = failure_script then [''state'', ''retries'', ''error_message'', ''updated_at''] else [])"

definition script_writes :: "string \<Rightarrow> string \<Rightarrow> string \<Rightarrow> vars \<Rightarrow> doc_writes" where
  "script_writes ix i script params = (\<lambda>(ix', i', c). if ix' = ix \<and> i' = i then (case c of
       Present \<Rightarrow> None
     | Field f \<Rightarrow> if f \<in> set (assigned script) then Some (map_of params f) else None
     | Entry n \<Rightarrow> if map_of params ''name'' = Some (VStr n) then
           (if script = context_script then Some (map_of params ''value'')
            else if script = removal_script then Some None else None) else None) else None)"

definition known_scripts :: "string list" where
  "known_scripts = [completion_script, context_script, removal_script, job_script, failure_script]"

definition answered :: "('s \<Rightarrow> documents) \<Rightarrow> doc_writes \<Rightarrow> 's \<Rightarrow> reply \<times> 's \<Rightarrow> bool" where
  "answered view wr s a = (case a of
       (Replied code st, t) \<Rightarrow> (if is_error code then view t = view s else view t = overwrite wr (view s))
     | (NoReply e, t) \<Rightarrow> view t = view s \<or> view t = overwrite wr (view s))"

text \<open>A deletion of a document that is not there is answered 404; deleting it again changes nothing.\<close>

definition search_store :: "'s outside \<Rightarrow> ('s \<Rightarrow> documents) \<Rightarrow> bool" where
  "search_store w view \<longleftrightarrow>
     (\<forall>ix i doc s. answered view (index_writes ix i doc) s (os_index w ix i doc s)) \<and>
     (\<forall>ix i s. case os_delete w ix i s of
         (Replied code st, t) \<Rightarrow> (if code = 404 \<or> \<not> is_error code then view t = overwrite (delete_writes ix i) (view s) else view t = view s)
       | (NoReply e, t) \<Rightarrow> view t = view s \<or> view t = overwrite (delete_writes ix i) (view s)) \<and>
     (\<forall>ix i script params s. script \<in> set known_scripts \<longrightarrow>
         answered view (script_writes ix i script params) s (os_update w ix i script params s)) \<and>
     (\<forall>s. view (snd (os_now w s)) = view s \<and> view (snd (os_cancelled w s)) = view s) \<and>
     (\<forall>m d s. view (snd (os_commit w m s)) = view s \<and> view (snd (os_dead w d s)) = view s)"

section \<open>What an event says of the documents\<close>

fun event_writes :: "decoders \<Rightarrow> string \<Rightarrow> event \<Rightarrow> doc_writes" where
  "event_writes dc prefix (ProcessInstanceCreated k i dk v bp created) =
     index_writes (indexNameForTopic prefix ''process_instance'') (show_int k)
       [(''key'', VInt64 k), (''id'', VStr i), (''process_definition_key'', VInt64 dk), (''version'', VInt32 v),
        (''bpmn_process_id'', VStr bp), (''state'', VStr ''ACTIVE''), (''created_at'', VInt64 created)]"
| "event_writes dc prefix (ProcessInstanceCompleted k dk ended) =
     script_writes (indexNameForTopic prefix ''process_instance'') (show_int k) completion_script
       [(''state'', VStr ''COMPLETED''), (''end_time'', VInt64 ended)]"
| "event_writes dc prefix (VariableUpdated name v ik scope updated) =
     (let key = generateDeterministicKey (show_int ik @ ''_'' @ name) in
      and_then (index_writes (indexNameForTopic prefix ''variable'') (show_int key)
        [(''key'', VInt64 key), (''name'', VStr name), (''value'', VStr (dc_text dc v)), (''process_instance_key'', VInt64 ik),
         (''scope_key'', VInt64 scope), (''updated_at'', VInt64 updated)])
      (script_writes (indexNameForTopic prefix ''process_instance'') (show_int ik) context_script
        [(''name'', VStr name), (''value'', v)]))"
| "event_writes dc prefix (JobCreated k i ty ik ek dk el created) =
     index_writes (indexNameForTopic prefix ''job'') (show_int k)
       [(''key'', VInt64 k), (''id'', VStr i), (''type'', VStr ty), (''process_instance_key'', VInt64 ik),
        (''element_instance_key'', VInt64 ek), (''process_definition_key'', VInt64 dk), (''element_id'', VStr el),
        (''state'', VStr ''CREATED''), (''created_at'', VInt64 created)]"
| "event_writes dc prefix (JobActivated k worker lock) =
     script_writes (indexNameForTopic prefix ''job'') (show_int k) job_script
       [(''state'', VStr ''ACTIVATED''), (''worker'', VStr worker)]"
| "event_writes dc prefix (JobCompleted k worker variables updated) =
     script_writes (indexNameForTopic prefix ''job'') (show_int k) job_script
       [(''state'', VStr ''COMPLETED''), (''worker'', VStr worker), (''updated_at'', VInt64 updated)]"
| "event_writes dc prefix (JobFailed k worker retries msg updated) =
     script_writes (indexNameForTopic prefix ''job'') (show_int k) failure_script
       [(''state'', VStr ''FAILED''), (''retries'', VInt32 retries), (''error_message'', VStr msg), (''updated_at'', VInt64 updated)]"
| "event_writes dc prefix (ElementInstanceActivated k i ik dk el ty scope created) =
     index_writes (indexNameForTopic prefix ''element_instance'') (show_int k)
       [(''key'', VInt64 k), (''id'', VStr i), (''process_instance_key'', VInt64 ik), (''process_definition_key'', VInt64 dk),
        (''element_id'', VStr el), (''bpmn_element_type'', VStr ty), (''flow_scope_key'', VInt64 scope),
        (''state'', VStr ''ACTIVE''), (''created_at'', VInt64 created)]"
| "event_writes dc prefix (ElementInstanceCompleted k ik el ended) =
     script_writes (indexNameForTopic prefix ''element_instance'') (show_int k) completion_script
       [(''state'', VStr ''COMPLETED''), (''end_time'', VInt64 ended)]"

text \<open>What a change record says: the row, or that it is gone, and for a variable its entry in the instance.\<close>

definition row_writes :: "decoders \<Rightarrow> string \<Rightarrow> string \<times> string \<times> string \<Rightarrow> doc_writes" where
  "row_writes dc ix msg = (case msg of (op, before, after) \<Rightarrow>
     if op \<in> {''c'', ''u'', ''r''} then (case extractIDAndDoc dc after of Inl _ \<Rightarrow> no_writes | Inr (i, doc) \<Rightarrow> index_writes ix i doc)
     else if op = ''d'' then (case extractIDAndDoc dc before of Inl _ \<Rightarrow> no_writes | Inr (i, _) \<Rightarrow> delete_writes ix i)
     else no_writes)"

definition variable_writes :: "decoders \<Rightarrow> string \<Rightarrow> string \<times> string \<times> string \<Rightarrow> doc_writes" where
  "variable_writes dc prefix msg = (case msg of (op, before, after) \<Rightarrow>
     (case extractIDAndDoc dc after of Inl _ \<Rightarrow> no_writes
      | Inr (_, source) \<Rightarrow> (case (map_of source ''process_instance_key'', map_of source ''name'', map_of source ''value'') of
          (Some pk, Some n, Some v) \<Rightarrow> script_writes (prefix @ ''-process_instance'') (fmt_v pk) context_script
            [(''name'', VStr (fmt_v n)), (''value'', case v of VStr text \<Rightarrow> (case dc_json dc text of Inl _ \<Rightarrow> v | Inr x \<Rightarrow> x) | _ \<Rightarrow> v)]
        | _ \<Rightarrow> no_writes)))"

definition change_writes :: "decoders \<Rightarrow> string \<Rightarrow> string \<Rightarrow> string \<times> string \<times> string \<Rightarrow> doc_writes" where
  "change_writes dc prefix topic msg = (let ix = indexNameForTopic prefix topic in
     if absent (if fst msg = ''d'' then fst (snd msg) else snd (snd msg)) then no_writes
     else if has_suffix ix ''variable'' then and_then (row_writes dc ix msg) (variable_writes dc prefix msg)
     else row_writes dc ix msg)"

definition message_writes :: "decoders \<Rightarrow> string \<Rightarrow> kafka_message \<Rightarrow> doc_writes" where
  "message_writes dc prefix m = (let ty = carrier_Get (km_headers m) ''type'' in
     if ty \<noteq> [] then
       (if ty \<in> set projected_types then (case dc_event dc ty (km_value m) of Inl _ \<Rightarrow> no_writes | Inr ev \<Rightarrow> event_writes dc prefix ev)
        else no_writes)
     else (case dc_change dc (km_value m) of Inl _ \<Rightarrow> no_writes | Inr msg \<Rightarrow> change_writes dc prefix (km_topic m) msg))"

text \<open>
  The time at which a job was last touched is, for an activation, the time of processing; it is left out of what is
  compared. So are the changes that delete a variable, whose errors the worker may swallow.
\<close>

definition volatile :: "string \<Rightarrow> string \<times> string \<times> cell \<Rightarrow> bool" where
  "volatile prefix = (\<lambda>(ix, i, c). ix = indexNameForTopic prefix ''job'' \<and> c = Field ''updated_at'')"

definition settled :: "string \<Rightarrow> documents \<Rightarrow> documents" where
  "settled prefix m = (\<lambda>k. if volatile prefix k then None else m k)"

definition settle :: "string \<Rightarrow> doc_writes \<Rightarrow> doc_writes" where
  "settle prefix wr = (\<lambda>k. if volatile prefix k then None else wr k)"

definition deletes_variable :: "decoders \<Rightarrow> string \<Rightarrow> kafka_message \<Rightarrow> bool" where
  "deletes_variable dc prefix m \<longleftrightarrow> carrier_Get (km_headers m) ''type'' = [] \<and>
     (case dc_change dc (km_value m) of Inl _ \<Rightarrow> False
      | Inr msg \<Rightarrow> fst msg = ''d'' \<and> has_suffix (indexNameForTopic prefix (km_topic m)) ''variable'')"

section \<open>Effects of the operations\<close>

named_theorems effect_intros
  \<open>structural rules: what an operation writes when it succeeds, and at most writes when it fails\<close>

definition effects :: "('s \<Rightarrow> 'k \<Rightarrow> 'v option) \<Rightarrow> ('s, 'a) go \<Rightarrow> ('k, 'v) writes \<Rightarrow> bool" where
  "effects view m wr \<longleftrightarrow> (\<forall>s. case m s of
       (Ok _, t) \<Rightarrow> view t = overwrite wr (view s)
     | (Error _, t) \<Rightarrow> \<exists>u. part_of u wr \<and> view t = overwrite u (view s)
     | _ \<Rightarrow> False)"

lemma effects_ret [effect_intros]: "effects view (ret x) no_writes"
  by (simp add: effects_def ret_apply)

lemma effects_throw [effect_intros]: "effects view (throw e) wr"
  by (auto simp: effects_def throw_apply intro!: exI [of _ no_writes])

definition apart :: "('k, 'v) writes \<Rightarrow> ('k, 'v) writes \<Rightarrow> bool" where
  "apart u w \<longleftrightarrow> (\<forall>k. u k = None \<or> w k = None)"

lemma apart_none [simp]: "apart no_writes w" "apart u no_writes"
  by (simp_all add: apart_def no_writes_def)

lemma and_then_none [simp]: "and_then no_writes w = w" "and_then u no_writes = u"
  by (auto simp: and_then_def no_writes_def split: option.split)

lemma part_of_left:
  assumes "apart u w" and "part_of v u"
  shows "part_of v (and_then u w)"
  unfolding part_of_def
proof (intro allI impI)
  fix k x
  assume "v k = Some x"
  with assms have "u k = Some x" "w k = None" by (auto simp: part_of_def apart_def dest: spec [of _ k])
  then show "and_then u w k = Some x" by (simp add: and_then_def)
qed

lemma part_of_both:
  assumes "part_of v w" and "apart u w"
  shows "part_of (and_then u v) (and_then u w)"
  unfolding part_of_def
proof (intro allI impI)
  fix k x
  assume k: "and_then u v k = Some x"
  show "and_then u w k = Some x"
  proof (cases "v k")
    case None
    with k have "u k = Some x" by (simp add: and_then_def)
    with assms(2) have "w k = None" by (auto simp: apart_def dest: spec [of _ k])
    with \<open>u k = Some x\<close> show ?thesis by (simp add: and_then_def)
  next
    case (Some y)
    with k assms(1) show ?thesis by (simp add: and_then_def part_of_def)
  qed
qed

lemma effectsD:
  assumes "effects view m wr" and "m s = (r, t)"
  shows "(\<exists>x. r = Ok x \<and> view t = overwrite wr (view s)) \<or> (\<exists>e u. r = Error e \<and> part_of u wr \<and> view t = overwrite u (view s))"
  using assms(1) [unfolded effects_def, rule_format, of s] assms(2) by (cases r) auto

lemma effectsI:
  assumes "\<And>s r t. m s = (r, t) \<Longrightarrow> (\<exists>x. r = Ok x \<and> view t = overwrite wr (view s)) \<or>
     (\<exists>e u. r = Error e \<and> part_of u wr \<and> view t = overwrite u (view s))"
  shows "effects view m wr"
  unfolding effects_def
proof
  fix s
  obtain r t where mt: "m s = (r, t)" by fastforce
  from assms [OF this] show "case m s of (Ok _, t) \<Rightarrow> view t = overwrite wr (view s)
     | (Error _, t) \<Rightarrow> \<exists>u. part_of u wr \<and> view t = overwrite u (view s) | _ \<Rightarrow> False"
    by (elim disjE exE conjE) (auto simp: mt)
qed

lemma effects_bind:
  assumes m: "effects view m u" and k: "\<And>x. effects view (k x) wr" and ap: "apart u wr"
  shows "effects view (bindE m k) (and_then u wr)"
proof (rule effectsI)
  fix s r t
  assume run: "bindE m k s = (r, t)"
  obtain r1 t1 where mt: "m s = (r1, t1)" by fastforce
  from effectsD [OF m mt] show "(\<exists>x. r = Ok x \<and> view t = overwrite (and_then u wr) (view s)) \<or>
     (\<exists>e v. r = Error e \<and> part_of v (and_then u wr) \<and> view t = overwrite v (view s))"
  proof (elim disjE exE conjE)
    fix x assume x: "r1 = Ok x" "view t1 = overwrite u (view s)"
    with run mt have "k x t1 = (r, t)" by (simp add: bindE_apply)
    from effectsD [OF k this] show ?thesis
    proof (elim disjE exE conjE)
      fix e v assume v: "r = Error e" "part_of v wr" "view t = overwrite v (view t1)"
      from part_of_both [OF v(2) ap] v x show ?thesis by (auto simp: overwrite_twice)
    qed (simp add: x overwrite_twice)
  next
    fix e v assume v: "r1 = Error e" "part_of v u" "view t1 = overwrite v (view s)"
    with run mt part_of_left [OF ap v(2)] show ?thesis by (auto simp: bindE_apply)
  qed
qed

lemma effects_then: "effects view m u \<Longrightarrow> effects view k wr \<Longrightarrow> apart u wr \<Longrightarrow> effects view (thenE m k) (and_then u wr)"
  unfolding thenE_def by (rule effects_bind)

lemma effects_mapErr [effect_intros]:
  assumes "effects view m wr"
  shows "effects view (mapErr h m) wr"
proof (rule effectsI)
  fix s r t
  assume run: "mapErr h m s = (r, t)"
  obtain r1 t1 where mt: "m s = (r1, t1)" by fastforce
  from effectsD [OF assms mt] run mt
  show "(\<exists>x. r = Ok x \<and> view t = overwrite wr (view s)) \<or> (\<exists>e u. r = Error e \<and> part_of u wr \<and> view t = overwrite u (view s))"
    by (elim disjE exE conjE) (auto simp: mapErr_apply)
qed

section \<open>What the worker does to the documents\<close>

definition shown :: "string \<Rightarrow> ('s \<Rightarrow> documents) \<Rightarrow> 's \<Rightarrow> documents" where
  "shown prefix view s = settled prefix (view s)"

lemma settled_overwrite: "settled prefix (overwrite wr m) = overwrite (settle prefix wr) (settled prefix m)"
  by (rule ext) (simp add: settled_def settle_def overwrite_def)

lemma settle_and_then: "settle prefix (and_then u wr) = and_then (settle prefix u) (settle prefix wr)"
  by (rule ext) (simp add: settle_def and_then_def)

lemma settle_none [simp]: "settle prefix no_writes = no_writes"
  by (rule ext) (simp add: settle_def no_writes_def)

lemma effects_request:
  assumes "\<And>s. answered view wr s (f s)"
  shows "effects (shown prefix view) (\<lambda>s. case f s of
       (NoReply e, t) \<Rightarrow> (Error e, t)
     | (Replied code st, t) \<Rightarrow> (if is_error code then Error (h st) else Ok (), t)) (settle prefix wr)"
proof (rule effectsI)
  fix s r t
  assume run: "(case f s of (NoReply e, t) \<Rightarrow> (Error e, t)
     | (Replied code st, t) \<Rightarrow> (if is_error code then Error (h st) else Ok (), t)) = (r, t)"
  obtain a t1 where f: "f s = (a, t1)" by fastforce
  have none: "\<exists>u. part_of u (settle prefix wr) \<and> shown prefix view t = overwrite u (shown prefix view s)" if "view t = view s"
    by (rule exI [of _ no_writes]) (simp add: shown_def that)
  have all: "shown prefix view t = overwrite (settle prefix wr) (shown prefix view s)" if "view t = overwrite wr (view s)"
    by (simp add: shown_def that settled_overwrite)
  show "(\<exists>x. r = Ok x \<and> shown prefix view t = overwrite (settle prefix wr) (shown prefix view s)) \<or>
     (\<exists>e u. r = Error e \<and> part_of u (settle prefix wr) \<and> shown prefix view t = overwrite u (shown prefix view s))"
  proof (cases a)
    case (NoReply e)
    with run f assms [of s] have "r = Error e" "view t = view s \<or> view t = overwrite wr (view s)" by (auto simp: answered_def)
    with none all show ?thesis by (metis part_of_refl)
  next
    case (Replied code st)
    with run f assms [of s] none all show ?thesis by (cases "is_error code") (auto simp: answered_def)
  qed
qed

lemma index_name [simp]:
  "indexNameForTopic prefix ''process_instance'' = prefix @ ''-process_instance''" "indexNameForTopic prefix ''variable'' = prefix @ ''-variable''"
  "indexNameForTopic prefix ''job'' = prefix @ ''-job''" "indexNameForTopic prefix ''element_instance'' = prefix @ ''-element_instance''"
  by (simp_all add: indexNameForTopic_def)

lemma script_known [simp]:
  "completion_script \<in> set known_scripts" "context_script \<in> set known_scripts" "job_script \<in> set known_scripts"
  "failure_script \<in> set known_scripts" "removal_script \<in> set known_scripts"
  by (simp_all add: known_scripts_def)

lemma effects_Upsert [effect_intros]:
  assumes "search_store w view"
  shows "effects (shown prefix view) (Upsert w ix i doc) (settle prefix (index_writes ix i doc))"
proof (cases "marshalled doc")
  case True
  from assms have "answered view (index_writes ix i doc) s (os_index w ix i doc s)" for s by (simp add: search_store_def)
  from effects_request [OF this] True show ?thesis by (simp add: Upsert_def)
qed (simp add: Upsert_def effects_throw)

lemma effects_Update [effect_intros]:
  assumes "search_store w view" and "script \<in> set known_scripts"
  shows "effects (shown prefix view) (UpdateWithScript w ix i script params) (settle prefix (script_writes ix i script params))"
proof (cases "marshalled params")
  case True
  from assms have "answered view (script_writes ix i script params) s (os_update w ix i script params s)" for s
    by (simp add: search_store_def)
  from effects_request [OF this] True show ?thesis by (simp add: UpdateWithScript_def)
qed (simp add: UpdateWithScript_def effects_throw)

lemma effects_Delete [effect_intros]:
  assumes "search_store w view"
  shows "effects (shown prefix view) (Delete w ix i) (settle prefix (delete_writes ix i))"
proof (rule effectsI)
  fix s r t
  assume run: "Delete w ix i s = (r, t)"
  obtain a t1 where f: "os_delete w ix i s = (a, t1)" by fastforce
  from assms have d: "case os_delete w ix i s of
      (Replied code st, t) \<Rightarrow> (if code = 404 \<or> \<not> is_error code then view t = overwrite (delete_writes ix i) (view s) else view t = view s)
    | (NoReply e, t) \<Rightarrow> view t = view s \<or> view t = overwrite (delete_writes ix i) (view s)" by (simp add: search_store_def)
  have none: "\<exists>u. part_of u (settle prefix (delete_writes ix i)) \<and> shown prefix view t = overwrite u (shown prefix view s)" if "view t = view s"
    by (rule exI [of _ no_writes]) (simp add: shown_def that)
  have all: "shown prefix view t = overwrite (settle prefix (delete_writes ix i)) (shown prefix view s)"
    if "view t = overwrite (delete_writes ix i) (view s)"
    by (simp add: shown_def that settled_overwrite)
  show "(\<exists>x. r = Ok x \<and> shown prefix view t = overwrite (settle prefix (delete_writes ix i)) (shown prefix view s)) \<or>
     (\<exists>e u. r = Error e \<and> part_of u (settle prefix (delete_writes ix i)) \<and> shown prefix view t = overwrite u (shown prefix view s))"
  proof (cases a)
    case (NoReply e)
    with run f d have "r = Error e" "view t = view s \<or> view t = overwrite (delete_writes ix i) (view s)" by (auto simp: Delete_def)
    with none all show ?thesis by (metis part_of_refl)
  next
    case (Replied code st)
    with run f d none all show ?thesis by (cases "code = 404"; cases "is_error code") (auto simp: Delete_def)
  qed
qed

lemma effects_clock:
  assumes "search_store w view" and "\<And>now. effects (shown prefix view) (k now) wr"
  shows "effects (shown prefix view) (bindE (readClock w) k) wr"
proof -
  have "effects (shown prefix view) (readClock w) no_writes"
  proof (rule effectsI)
    fix s r t assume "readClock w s = (r, t)"
    moreover from assms(1) have "view (snd (os_now w s)) = view s" by (simp add: search_store_def)
    ultimately show "(\<exists>x. r = Ok x \<and> shown prefix view t = overwrite no_writes (shown prefix view s)) \<or>
       (\<exists>e u. r = Error e \<and> part_of u no_writes \<and> shown prefix view t = overwrite u (shown prefix view s))"
      by (auto simp: readClock_def shown_def split: prod.splits)
  qed
  from effects_bind [OF this assms(2)] show ?thesis by simp
qed

lemma apart_documents:
  assumes "ix \<noteq> ix'"
  shows "apart (settle prefix (index_writes ix i doc)) (settle prefix (script_writes ix' i' script params))"
    "apart (settle prefix (delete_writes ix i)) (settle prefix (script_writes ix' i' script params))"
  using assms by (auto simp: apart_def settle_def index_writes_def delete_writes_def script_writes_def)

lemma activation_settles:
  "settle prefix (script_writes (prefix @ ''-job'') i job_script [(''state'', a), (''worker'', b), (''updated_at'', c')]) =
   settle prefix (script_writes (prefix @ ''-job'') i job_script [(''state'', a), (''worker'', b)])"
proof (rule ext)
  fix k :: "string \<times> string \<times> cell"
  obtain ix j c where k: "k = (ix, j, c)" by (cases k)
  show "settle prefix (script_writes (prefix @ ''-job'') i job_script [(''state'', a), (''worker'', b), (''updated_at'', c')]) k =
     settle prefix (script_writes (prefix @ ''-job'') i job_script [(''state'', a), (''worker'', b)]) k"
    by (cases c) (auto simp: k settle_def script_writes_def volatile_def)
qed

lemma effects_project:
  assumes "search_store w view"
  shows "effects (shown prefix view) (project w dc prefix ev) (settle prefix (event_writes dc prefix ev))"
proof (cases ev)
  case (JobActivated k worker lock)
  have "effects (shown prefix view) (UpdateWithScript w (prefix @ ''-job'') (show_int k) job_script
       [(''state'', VStr ''ACTIVATED''), (''worker'', VStr worker), (''updated_at'', VInt64 now)])
     (settle prefix (event_writes dc prefix ev))" for now
    using effects_Update [OF assms script_known(3), of prefix "prefix @ ''-job''" "show_int k"
      "[(''state'', VStr ''ACTIVATED''), (''worker'', VStr worker), (''updated_at'', VInt64 now)]"]
    by (simp add: JobActivated activation_settles)
  from effects_clock [OF assms this] show ?thesis by (simp add: JobActivated)
next
  case (VariableUpdated name v ik scope updated)
  show ?thesis unfolding VariableUpdated
    by (simp add: Let_def settle_and_then) (intro effects_then effects_Upsert effects_Update assms apart_documents; simp)
qed (simp_all add: effects_Upsert effects_Update assms)

lemma effects_ProcessEvent:
  assumes "search_store w view" and "carrier_Get (km_headers m) ''type'' = ty" and "ty \<noteq> []"
  shows "effects (shown prefix view) (ProcessEvent w dc prefix ty (km_value m)) (settle prefix (message_writes dc prefix m))"
  using assms
  by (auto simp: ProcessEvent_def message_writes_def Let_def effects_throw effects_ret effects_project split: sum.split)

lemma variable_indexes: "\<not> has_suffix (prefix @ ''-process_instance'') ''variable''"
  by (simp add: has_suffix_def)

lemma effects_row:
  assumes "search_store w view" and "\<not> absent (if fst msg = ''d'' then fst (snd msg) else snd (snd msg))"
  shows "effects (shown prefix view) (mirror w dc ix msg) (settle prefix (row_writes dc ix msg))"
proof -
  obtain op before after where msg: "msg = (op, before, after)" by (cases msg)
  have keep: "effects (shown prefix view) (thenE m (ret True)) wr" if "effects (shown prefix view) m wr" for m :: "('a, unit) go" and wr
    using effects_then [OF that effects_ret [of _ True]] by simp
  from assms(2) show ?thesis
    by (auto simp: mirror_def row_writes_def msg split: sum.split
        intro!: keep effects_ret effects_throw effects_mapErr effects_Upsert effects_Delete assms(1))
qed

lemma effects_variable:
  assumes "search_store w view" and "fst msg \<noteq> ''d''" and "\<not> absent (snd (snd msg))"
  shows "effects (shown prefix view) (denormalizeVariable w dc prefix msg) (settle prefix (variable_writes dc prefix msg))"
proof -
  obtain op before after where msg: "msg = (op, before, after)" by (cases msg)
  from assms(2,3) show ?thesis
    by (auto simp: denormalizeVariable_def variable_writes_def msg Let_def split: sum.split option.split
        intro!: effects_ret effects_throw effects_Update assms(1))
qed

lemma effects_ProcessMessage:
  assumes st: "search_store w view" and msg: "dc_change dc (km_value m) = Inr msg" and ty: "carrier_Get (km_headers m) ''type'' = []"
    and nd: "\<not> deletes_variable dc prefix m"
  shows "effects (shown prefix view) (ProcessMessage w dc prefix (km_topic m) msg) (settle prefix (message_writes dc prefix m))"
proof -
  let ?ix = "indexNameForTopic prefix (km_topic m)" and ?raw = "if fst msg = ''d'' then fst (snd msg) else snd (snd msg)"
  have wr: "message_writes dc prefix m = change_writes dc prefix (km_topic m) msg" by (simp add: message_writes_def ty msg)
  have skip: "effects (shown prefix view) (bindE (mirror w dc ?ix msg) (\<lambda>go_on. if go_on \<and> has_suffix ?ix ''variable'' then
       mapErr h (denormalizeVariable w dc prefix msg) else ret ())) no_writes" if "absent ?raw" for h
    using that by (cases msg) (auto simp: mirror_def denormalizeVariable_def effects_def bindE_apply ret_apply mapErr_apply go_simps
        intro!: exI [of _ no_writes])
  show ?thesis
  proof (cases "absent ?raw")
    case True
    then show ?thesis by (simp add: ProcessMessage_def Let_def wr change_writes_def skip)
  next
    case False
    note row = effects_row [OF st False, where ix = ?ix]
    show ?thesis
    proof (cases "has_suffix ?ix ''variable''")
      case no: False
      have "effects (shown prefix view) (bindE (mirror w dc ?ix msg) (\<lambda>_. ret ())) (settle prefix (row_writes dc ?ix msg))"
        using effects_bind [OF row effects_ret] by simp
      with False no show ?thesis by (simp add: ProcessMessage_def Let_def wr change_writes_def)
    next
      case var: True
      with nd msg ty have notd: "fst msg \<noteq> ''d''" by (auto simp: deletes_variable_def)
      with False have "effects (shown prefix view) (denormalizeVariable w dc prefix msg) (settle prefix (variable_writes dc prefix msg))"
        by (intro effects_variable st) simp_all
      moreover from var have "?ix \<noteq> prefix @ ''-process_instance''" using variable_indexes by metis
      then have "apart (settle prefix (row_writes dc ?ix msg)) (settle prefix (variable_writes dc prefix msg))"
        using notd by (cases msg) (auto simp: row_writes_def variable_writes_def intro!: apart_documents split: sum.split option.split)
      moreover have "effects (shown prefix view) (bindE (mirror w dc ?ix msg) (\<lambda>go_on. if go_on then mapErr h (denormalizeVariable w dc prefix msg) else ret ()))
         (and_then (settle prefix (row_writes dc ?ix msg)) (settle prefix (variable_writes dc prefix msg)))"
        if "effects (shown prefix view) (denormalizeVariable w dc prefix msg) (settle prefix (variable_writes dc prefix msg))"
          "apart (settle prefix (row_writes dc ?ix msg)) (settle prefix (variable_writes dc prefix msg))" for h
      proof -
        have go: "r \<noteq> Ok False" if "mirror w dc ?ix msg s = (r, t)" for s r t
          using that False by (cases msg) (auto simp: mirror_def go_simps split: sum.splits prod.splits outcome.splits if_splits)
        have "bindE (mirror w dc ?ix msg) (\<lambda>go_on. if go_on then mapErr h (denormalizeVariable w dc prefix msg) else ret ()) =
          bindE (mirror w dc ?ix msg) (\<lambda>_. mapErr h (denormalizeVariable w dc prefix msg))"
          using go by (auto simp: bindE_def fun_eq_iff split: prod.split outcome.split)
        then show ?thesis using effects_bind [OF row effects_mapErr [OF that(1)] that(2)] by simp
      qed
      ultimately show ?thesis using False var
        by (simp add: ProcessMessage_def Let_def wr change_writes_def settle_and_then)
    qed
  qed
qed

lemma effects_payload:
  assumes "search_store w view" and "\<not> deletes_variable dc prefix m"
  shows "effects (shown prefix view) (process_payload w dc prefix m) (settle prefix (message_writes dc prefix m))"
proof (cases "carrier_Get (km_headers m) ''type'' = []")
  case True
  with assms show ?thesis
    by (auto simp: process_payload_def Let_def effects_throw effects_ProcessMessage split: sum.split)
next
  case False
  with effects_ProcessEvent [OF assms(1) refl this] show ?thesis by (simp add: process_payload_def Let_def)
qed

text \<open>What a message says of the documents, as far as they are compared. A message without a body says nothing.\<close>

definition says :: "decoders \<Rightarrow> string \<Rightarrow> kafka_message \<Rightarrow> doc_writes" where
  "says dc prefix m = (if km_value m = [] then no_writes else settle prefix (message_writes dc prefix m))"

lemma payload_run:
  assumes "search_store w view" and "\<not> deletes_variable dc prefix m" and "process_payload w dc prefix m s = (r, t)"
  shows "(r = Ok () \<and> shown prefix view t = overwrite (settle prefix (message_writes dc prefix m)) (shown prefix view s)) \<or>
     (\<exists>e u. r = Error e \<and> part_of u (settle prefix (message_writes dc prefix m)) \<and> shown prefix view t = overwrite u (shown prefix view s))"
  using effectsD [OF effects_payload [OF assms(1,2)] assms(3)] by auto

section \<open>A search engine\<close>

text \<open>A search engine whose second request is carried out but gets no reply.\<close>

definition demo_reply :: "doc_writes \<Rightarrow> documents \<times> nat \<Rightarrow> reply \<times> documents \<times> nat" where
  "demo_reply wr s = (case s of (m, n) \<Rightarrow> (if n = 1 then NoReply (Msg ''timeout'') else Replied 200 ''[200 OK]'', (overwrite wr m, Suc n)))"

definition demo_search :: "(documents \<times> nat) outside" where
  "demo_search = \<lparr>os_index = (\<lambda>ix i doc. demo_reply (index_writes ix i doc)), os_delete = (\<lambda>ix i. demo_reply (delete_writes ix i)),
     os_update = (\<lambda>ix i script params. demo_reply (script_writes ix i script params)), os_now = (\<lambda>s. (1, s)),
     os_commit = (\<lambda>_ s. (None, s)), os_dead = (\<lambda>_ s. (None, s)), os_cancelled = (\<lambda>s. (False, s))\<rparr>"

definition demo_decoders :: decoders where
  "demo_decoders = \<lparr>dc_event = (\<lambda>ty data. if ty = ''ProcessInstanceCreated'' then Inr (ProcessInstanceCreated 7 ''i'' 3 1 ''review'' 10)
       else Inr (ProcessInstanceCompleted 7 3 20)),
     dc_json = (\<lambda>_. Inl NotFound), dc_object = (\<lambda>_. Inl NotFound), dc_change = (\<lambda>_. Inl NotFound), dc_text = (\<lambda>_. [])\<rparr>"

definition demo_message :: "string \<Rightarrow> kafka_message" where
  "demo_message ty = \<lparr>km_topic = ''events'', km_partition = 0, km_offset = 0, km_key = [], km_value = ''x'', km_headers = [(''type'', ty)]\<rparr>"

abbreviation demo_log :: "kafka_message list" where
  "demo_log \<equiv> [demo_message ''ProcessInstanceCreated'', demo_message ''ProcessInstanceCompleted'']"

lemma demo_search_store: "search_store demo_search fst"
  by (auto simp: search_store_def demo_search_def answered_def demo_reply_def is_error_def split: prod.split)

definition carries :: "decoders \<Rightarrow> kafka_message \<Rightarrow> event \<Rightarrow> bool" where
  "carries dc m ev \<longleftrightarrow> carrier_Get (km_headers m) ''type'' = event_type_name ev \<and>
     dc_event dc (event_type_name ev) (km_value m) = Inr ev"

lemma event_names: "event_type_name ev \<in> set projected_types" "event_type_name ev \<noteq> []"
  by (cases ev; simp add: projected_types_def)+

lemma carried_writes: "carries dc m ev \<Longrightarrow> message_writes dc prefix m = event_writes dc prefix ev"
  by (simp add: carries_def message_writes_def event_names)

end
