(* ===== verification/Total.thy ===== *)
theory Total
  imports GoPrelude
begin

text \<open>Calls that return: a value or an error, for every state. The structural rules of that, as a hint collection.\<close>

named_theorems total_intros
  \<open>structural rules: the call returns a value or an error, it neither panics nor runs on\<close>

definition total :: "('s, 'a) go \<Rightarrow> bool" where
  "total m \<longleftrightarrow> (\<forall>s. (\<exists>x t. m s = (Ok x, t)) \<or> (\<exists>e t. m s = (Error e, t)))"

lemma totalE:
  assumes "total m"
  obtains x t where "m s = (Ok x, t)" | e t where "m s = (Error e, t)"
  using assms unfolding total_def by blast

lemma total_case: "total m \<longleftrightarrow> (\<forall>s. case fst (m s) of Ok x \<Rightarrow> True | Error e \<Rightarrow> True | Panic p \<Rightarrow> False | Diverged \<Rightarrow> False)"
proof -
  have "((\<exists>x t. m s = (Ok x, t)) \<or> (\<exists>e t. m s = (Error e, t))) \<longleftrightarrow>
      (case fst (m s) of Ok x \<Rightarrow> True | Error e \<Rightarrow> True | Panic p \<Rightarrow> False | Diverged \<Rightarrow> False)" for s
    by (cases "m s") (simp split: outcome.split)
  then show ?thesis by (simp add: total_def)
qed

lemma total_base [total_intros]: "total (ret x)" "total (throw e)" "total (modifyS f)"
  by (simp_all add: total_def ret_apply throw_apply modifyS_def)

lemma total_bindE [total_intros]:
  assumes "total m" and "\<And>x. total (k x)"
  shows "total (bindE m k)"
  unfolding total_def
proof
  fix s
  from assms(1) show "(\<exists>x t. bindE m k s = (Ok x, t)) \<or> (\<exists>e t. bindE m k s = (Error e, t))"
  proof (cases rule: totalE [where s = s])
    case (1 x t)
    with assms(2) [of x] show ?thesis by (simp add: bindE_apply total_def)
  qed (simp add: bindE_apply)
qed

lemma total_thenE [total_intros]: "total m \<Longrightarrow> total k \<Longrightarrow> total (thenE m k)"
  unfolding thenE_def by (intro total_intros)

lemma total_tryE [total_intros]:
  assumes "total m"
  shows "total (tryE m)"
  unfolding total_def
proof
  fix s
  from assms show "(\<exists>x t. tryE m s = (Ok x, t)) \<or> (\<exists>e t. tryE m s = (Error e, t))"
    by (cases rule: totalE [where s = s]) (simp_all add: tryE_apply)
qed

lemma total_mapErr [total_intros]: "total m \<Longrightarrow> total (mapErr h m)"
  unfolding mapErr_def by (intro total_intros) (auto intro: total_intros split: sum.split)

lemma total_ignoreE [total_intros]: "total m \<Longrightarrow> total (ignoreE m)"
  unfolding ignoreE_def by (intro total_intros)

lemma total_cases [total_intros]:
  "total a \<Longrightarrow> total b \<Longrightarrow> total (if c then a else b)"
  "(\<And>x. total (f x)) \<Longrightarrow> (\<And>x. total (g x)) \<Longrightarrow> total (case r of Inl x \<Rightarrow> f x | Inr x \<Rightarrow> g x)"
  "total a \<Longrightarrow> (\<And>x. total (g x)) \<Longrightarrow> total (case v of None \<Rightarrow> a | Some x \<Rightarrow> g x)"
  "(\<And>x y. total (h x y)) \<Longrightarrow> total (case p of (x, y) \<Rightarrow> h x y)"
  by (auto split: sum.split option.split prod.split)

end
