(* ===== verification/ConsumerProps.thy ===== *)
theory ConsumerProps
  imports SyncProps Total
begin

text \<open>
  The consumer of the sync worker: it never stops on a message, its counters add up, it commits a message only after it
  processed it or put it on the dead letter topic in the same run, and its documents converge under redelivery.
  \<open>consume_run\<close> lists the ways one turn of the loop takes a message; the properties rest on it, and those of redelivery
  on the locale \<open>projector\<close> of \<open>Feed\<close>, interpreted on the turns of the loop.
\<close>

section \<open>Every call returns\<close>

lemma total_lift [total_intros]:
  assumes "total m"
  shows "total (lift_outside m)"
  unfolding total_def
proof
  fix c
  from assms show "(\<exists>x t. lift_outside m c = (Ok x, t)) \<or> (\<exists>e t. lift_outside m c = (Error e, t))"
    by (cases rule: totalE [where s = "cs_outside c"]) (simp_all add: lift_outside_def)
qed

lemma total_requests [total_intros]:
  "total (Upsert w ix i doc)" "total (Delete w ix i)" "total (UpdateWithScript w ix i script params)" "total (readClock w)"
  by (auto simp: total_def Upsert_def Delete_def UpdateWithScript_def readClock_def throw_apply split: prod.split reply.split)

lemma total_project [total_intros]: "total (project w dc prefix ev)"
  by (cases ev) (auto simp: Let_def intro!: total_intros)

lemma total_payload [total_intros]: "total (process_payload w dc prefix m)"
  unfolding process_payload_def ProcessEvent_def ProcessMessage_def mirror_def denormalizeVariable_def Let_def
  by (intro total_intros)

lemma total_once [total_intros]: "total (processMessageOnce w dc prefix m)"
  unfolding processMessageOnce_def recordTopicOutcome_def by (intro total_intros)

lemma total_send [total_intros]: "total (send_out f)"
  unfolding send_out_def by (intro total_intros) (auto simp: total_def split: prod.split option.split)

lemma total_attempts [total_intros]: "total (attempts w dc prefix m n)"
proof (induction n)
  case (Suc n)
  have "total (\<lambda>s. case os_cancelled w s of (b, t) \<Rightarrow> (Ok b, t))" by (auto simp: total_def split: prod.split)
  with Suc show ?case by simp (intro total_intros)
qed (simp add: total_once)

section \<open>Counting\<close>

text \<open>What the counters say between two states, for \<open>n\<close> messages, at most \<open>k\<close> repetitions of each.\<close>

definition counted :: "int \<Rightarrow> int \<Rightarrow> 's consumer \<Rightarrow> 's consumer \<Rightarrow> bool" where
  "counted n k c c' \<longleftrightarrow> cs_processed c' = cs_processed c + n \<and>
     cs_success c' - cs_success c + (cs_failure c' - cs_failure c) = n \<and> cs_success c \<le> cs_success c' \<and>
     0 \<le> cs_dlq c' - cs_dlq c \<and> cs_dlq c' - cs_dlq c \<le> cs_failure c' - cs_failure c \<and>
     0 \<le> cs_retry c' - cs_retry c \<and> cs_retry c' - cs_retry c \<le> k * n"

lemma counted_refl: "counted 0 k c c"
  by (simp add: counted_def)

lemma counted_trans: "counted n k c d \<Longrightarrow> counted m k d e \<Longrightarrow> counted (n + m) k c e"
  by (simp add: counted_def algebra_simps)

text \<open>The counters before a message is handed on: only successes and repetitions move.\<close>

definition tried :: "bool \<Rightarrow> nat \<Rightarrow> 's consumer \<Rightarrow> 's consumer \<Rightarrow> bool" where
  "tried ok n c c' \<longleftrightarrow> cs_processed c' = cs_processed c \<and> cs_failure c' = cs_failure c \<and> cs_dlq c' = cs_dlq c \<and>
     cs_success c' = cs_success c + (if ok then 1 else 0) \<and> cs_retry c \<le> cs_retry c' \<and> cs_retry c' \<le> cs_retry c + int n"

lemma lift_counts: "lift_outside m c = (r, c') \<Longrightarrow> \<exists>t. c' = c\<lparr>cs_outside := t\<rparr>"
  by (auto simp: lift_outside_def split: prod.splits)

lemma record_counts: "recordTopicOutcome w topic offset e c = (r, c') \<Longrightarrow> \<exists>t ts. r = Ok () \<and> c' = c\<lparr>cs_outside := t, cs_topics := ts\<rparr>"
  by (auto simp: recordTopicOutcome_def bindE_apply lift_outside_def readClock_def modifyS_def split: prod.splits)
    (rule exI, rule exI, rule refl)

lemma once_tried:
  assumes "processMessageOnce w dc prefix m c = (r, c')"
  shows "tried (r = Ok ()) 0 c c'"
proof -
  obtain q d where p: "lift_outside (process_payload w dc prefix m) c = (q, d)" by fastforce
  from lift_counts [OF p] obtain t where d: "d = c\<lparr>cs_outside := t\<rparr>" by blast
  have q: "(\<exists>x. q = Ok x) \<or> (\<exists>e. q = Error e)"
    using total_lift [OF total_payload, of w dc prefix m] p by (metis total_def prod.inject)
  then show ?thesis
  proof (elim disjE exE)
    fix x assume "q = Ok x"
    with assms p have "recordTopicOutcome w (km_topic m) (km_offset m) None (d\<lparr>cs_success := cs_success d + 1\<rparr>) = (r, c')"
      by (simp add: processMessageOnce_def bindE_apply tryE_apply thenE_apply modifyS_def)
    from record_counts [OF this] show ?thesis by (auto simp: tried_def d)
  next
    fix e assume "q = Error e"
    with assms p obtain u where "recordTopicOutcome w (km_topic m) (km_offset m) (Some e) d = (Ok (), u)" "r = Error e" "c' = u"
      using record_counts by (fastforce simp: processMessageOnce_def bindE_apply tryE_apply thenE_apply throw_apply split: prod.splits outcome.splits)
    with record_counts show ?thesis by (fastforce simp: tried_def d)
  qed
qed

lemma attempts_tried:
  assumes "attempts w dc prefix m n c = (r, c')"
  shows "tried (r = Ok ()) n c c'"
  using assms
proof (induction n arbitrary: c)
  case 0
  then show ?case by (simp add: once_tried)
next
  case (Suc n)
  obtain q d where o: "processMessageOnce w dc prefix m c = (q, d)" by fastforce
  note t1 = once_tried [OF o]
  from total_once [of w dc prefix m] show ?case
  proof (cases rule: totalE [where s = c])
    case (1 x t)
    with o t1 Suc.prems show ?thesis by (auto simp: bindE_apply tryE_apply ret_apply tried_def)
  next
    case (2 e t)
    obtain b u where b: "os_cancelled w (cs_outside d) = (b, u)" by fastforce
    let ?d = "d\<lparr>cs_retry := cs_retry d + 1, cs_outside := u\<rparr>"
    from 2 o t1 Suc.prems b have run: "(if b then throw (Msg ''context canceled'') else attempts w dc prefix m n) ?d = (r, c')"
      by (simp add: bindE_apply tryE_apply thenE_apply modifyS_def lift_outside_def)
    from 2 o t1 have d: "tried False 0 c d" by simp
    show ?thesis
    proof (cases b)
      case True
      with run d show ?thesis by (auto simp: throw_apply tried_def)
    next
      case False
      with run have "attempts w dc prefix m n ?d = (r, c')" by simp
      from Suc.IH [OF this] d show ?thesis by (auto simp: tried_def)
    qed
  qed
qed

lemma total_publish [total_intros]: "total (publishDLQ w cfg m e)"
  unfolding publishDLQ_def by (intro total_intros)

lemma total_commit [total_intros]: "total (commit w m)"
  unfolding commit_def by (intro total_intros)

lemma publish_counts:
  assumes "publishDLQ w cfg m e c = (r, c')"
  shows "cs_processed c' = cs_processed c \<and> cs_success c' = cs_success c \<and> cs_failure c' = cs_failure c \<and> cs_retry c' = cs_retry c \<and>
     (cs_dlq c' = cs_dlq c + 1 \<or> cs_dlq c' = cs_dlq c)"
  using assms
  by (auto simp: publishDLQ_def bindE_apply thenE_apply mapErr_apply send_out_def lift_outside_def readClock_def modifyS_def throw_apply
      split: if_splits prod.splits option.splits)

lemma commit_counts:
  assumes "commit w m c = (r, c')"
  shows "r = Ok () \<and> (\<exists>t. c' = c\<lparr>cs_outside := t\<rparr>)"
  using assms
  by (auto simp: commit_def ignoreE_apply send_out_def lift_outside_def split: prod.splits option.splits)

lemma consume_ok: "\<exists>c'. consume w dc prefix cfg m c = (Ok (), c')"
proof -
  have "total (consume w dc prefix cfg m)"
    unfolding consume_def processMessageWithRetry_def recordTopicOutcome_def by (intro total_intros)
  moreover have "consume w dc prefix cfg m c \<noteq> (Error e, t)" for e t
    by (auto simp: consume_def bindE_apply thenE_apply tryE_apply lift_outside_def readClock_def modifyS_def ret_apply
        dest!: commit_counts record_counts split: prod.splits outcome.splits if_splits)
  ultimately show ?thesis by (metis total_def unit_eq)
qed

lemma consume_counts:
  assumes run: "consume w dc prefix cfg m c = (r, c')" and k: "cc_max_retries cfg \<ge> 0"
  shows "counted (if km_value m = [] then 0 else 1) (cc_max_retries cfg) c c'"
proof (cases "km_value m = []")
  case True
  with run commit_counts show ?thesis by (fastforce simp: consume_def counted_def)
next
  case False
  obtain now t where n: "os_now w (cs_outside c) = (now, t)" by fastforce
  let ?c = "c\<lparr>cs_outside := t, cs_processed := cs_processed c + 1, cs_last_processed := now\<rparr>"
  obtain q d where a: "processMessageWithRetry w dc prefix cfg m ?c = (q, d)" by fastforce
  have tr: "tried (q = Ok ()) (nat (cc_max_retries cfg)) ?c d"
    using attempts_tried a by (simp add: processMessageWithRetry_def)
  from total_attempts [of w dc prefix m "nat (cc_max_retries cfg)"] show ?thesis
  proof (cases rule: totalE [where s = ?c])
    case (1 x u)
    with a have q: "q = Ok ()" by (simp add: processMessageWithRetry_def)
    with run False n a have "commit w m d = (r, c')"
      by (simp add: consume_def bindE_apply thenE_apply tryE_apply lift_outside_def readClock_def modifyS_def)
    from commit_counts [OF this] tr q k show ?thesis by (auto simp: False tried_def counted_def)
  next
    case (2 e u)
    with a have q: "q = Error e" by (simp add: processMessageWithRetry_def)
    let ?d = "d\<lparr>cs_failure := cs_failure d + 1\<rparr>"
    obtain r1 f where rec: "recordTopicOutcome w (km_topic m) (km_offset m) (Some e) ?d = (r1, f)" by fastforce
    obtain r2 g where pub: "publishDLQ w cfg m e f = (r2, g)" by fastforce
    from record_counts [OF rec] have f: "r1 = Ok ()" "\<exists>t ts. f = ?d\<lparr>cs_outside := t, cs_topics := ts\<rparr>" by auto
    from run False n a q rec f(1) pub have "r = Ok () \<and> c' = g \<or> (\<exists>r. commit w m g = (r, c'))"
      using total_publish [of w cfg m e, THEN totalE [where s = f]]
      by (cases r2) (auto simp: consume_def bindE_apply thenE_apply tryE_apply lift_outside_def readClock_def modifyS_def ret_apply)
    then have "c' = g \<or> (\<exists>t. c' = g\<lparr>cs_outside := t\<rparr>)" using commit_counts by blast
    with publish_counts [OF pub] f(2) tr q k show ?thesis by (auto simp: False tried_def counted_def)
  qed
qed

text \<open>The consumer never stops on a message, and its counters add up. It reads through any list of messages, whatever they
  hold and whatever fails; each message with a body is counted as processed and then once as a success or a failure; a
  message on the dead letter topic is a failure; and no message is tried more often than configured.\<close>

theorem consumer_counts_add_up:
  "\<exists>c'. consumeLoop w dc prefix (NewKafkaConsumer cfg) ms c = (Ok (), c') \<and>
     (let n = int (length (filter (\<lambda>m. km_value m \<noteq> []) ms)) in
      cs_processed c' = cs_processed c + n \<and>
      (cs_success c' - cs_success c) + (cs_failure c' - cs_failure c) = n \<and>
      0 \<le> cs_dlq c' - cs_dlq c \<and> cs_dlq c' - cs_dlq c \<le> cs_failure c' - cs_failure c \<and>
      0 \<le> cs_retry c' - cs_retry c \<and> cs_retry c' - cs_retry c \<le> max 0 (cc_max_retries cfg) * n)"
proof -
  let ?cfg = "NewKafkaConsumer cfg"
  have k: "cc_max_retries ?cfg = max 0 (cc_max_retries cfg)" by (simp add: NewKafkaConsumer_def)
  have "\<exists>c'. forE ms (consume w dc prefix ?cfg) c = (Ok (), c') \<and>
     counted (int (length (filter (\<lambda>m. km_value m \<noteq> []) ms))) (cc_max_retries ?cfg) c c'"
  proof (induction ms arbitrary: c)
    case Nil
    then show ?case by (simp add: ret_apply counted_refl)
  next
    case (Cons m ms)
    from consume_ok obtain d where d: "consume w dc prefix ?cfg m c = (Ok (), d)" by blast
    from consume_counts [OF d] k have one: "counted (if km_value m = [] then 0 else 1) (cc_max_retries ?cfg) c d" by simp
    from Cons.IH [of d] obtain e where e: "forE ms (consume w dc prefix ?cfg) d = (Ok (), e)"
      and rest: "counted (int (length (filter (\<lambda>m. km_value m \<noteq> []) ms))) (cc_max_retries ?cfg) d e" by blast
    from counted_trans [OF one rest] have "counted (int (length (filter (\<lambda>m. km_value m \<noteq> []) (m # ms)))) (cc_max_retries ?cfg) c e"
      by (simp split: if_splits)
    with d e show ?case by (simp add: thenE_apply)
  qed
  then show ?thesis unfolding consumeLoop_def counted_def Let_def k by blast
qed

section \<open>Taking one message\<close>

text \<open>The states in which a message has been tried since \<open>s\<close>, each time without success.\<close>

inductive attempted :: "'s outside \<Rightarrow> decoders \<Rightarrow> string \<Rightarrow> kafka_message \<Rightarrow> 's \<Rightarrow> 's \<Rightarrow> bool" for w dc prefix m s where
  attempted_not: "attempted w dc prefix m s s"
| attempted_fail: "attempted w dc prefix m s u \<Longrightarrow> process_payload w dc prefix m u = (Error e, v) \<Longrightarrow> attempted w dc prefix m s v"
| attempted_clock: "attempted w dc prefix m s u \<Longrightarrow> attempted w dc prefix m s (snd (os_now w u))"
| attempted_wait: "attempted w dc prefix m s u \<Longrightarrow> attempted w dc prefix m s (snd (os_cancelled w u))"

definition letter_for :: "kafka_message \<Rightarrow> dead_letter \<Rightarrow> bool" where
  "letter_for m d \<longleftrightarrow> dl_topic d = km_topic m \<and> dl_partition d = km_partition m \<and> dl_offset d = km_offset m \<and>
     dl_key d = km_key m \<and> dl_value d = km_value m"

lemma attempted_once:
  "attempted w dc prefix m s u \<Longrightarrow> process_payload w dc prefix m u = (Error e, v) \<Longrightarrow> attempted w dc prefix m s (snd (os_now w v))"
  by (rule attempted_clock) (rule attempted_fail)

lemma record_run: "recordTopicOutcome w topic offset e c = (r, c') \<Longrightarrow> r = Ok () \<and> cs_outside c' = snd (os_now w (cs_outside c))"
  by (auto simp: recordTopicOutcome_def bindE_apply lift_outside_def readClock_def modifyS_def split: prod.splits)

lemma once_run:
  assumes "processMessageOnce w dc prefix m c = (r, c')"
  shows "\<exists>v. process_payload w dc prefix m (cs_outside c) = (r, v) \<and> cs_outside c' = snd (os_now w v)"
proof -
  from total_payload [of w dc prefix m] show ?thesis
  proof (cases rule: totalE [where s = "cs_outside c"])
    case (1 x v)
    with assms have "recordTopicOutcome w (km_topic m) (km_offset m) None
        (c\<lparr>cs_outside := v, cs_success := cs_success (c\<lparr>cs_outside := v\<rparr>) + 1\<rparr>) = (r, c')"
      by (simp add: processMessageOnce_def lift_outside_def bindE_apply tryE_apply thenE_apply modifyS_def)
    from record_run [OF this] 1 show ?thesis by simp
  next
    case (2 e v)
    obtain q d where rec: "recordTopicOutcome w (km_topic m) (km_offset m) (Some e) (c\<lparr>cs_outside := v\<rparr>) = (q, d)" by fastforce
    from record_run [OF rec] rec 2 assms show ?thesis
      by (auto simp: processMessageOnce_def lift_outside_def bindE_apply tryE_apply thenE_apply throw_apply)
  qed
qed

lemma attempts_run:
  assumes "attempts w dc prefix m n c = (r, c')" and "attempted w dc prefix m s (cs_outside c)"
  shows "(r = Ok () \<and> (\<exists>u v. attempted w dc prefix m s u \<and> process_payload w dc prefix m u = (Ok (), v) \<and> cs_outside c' = snd (os_now w v))) \<or>
     ((\<exists>e. r = Error e) \<and> attempted w dc prefix m s (cs_outside c'))"
  using assms
proof (induction n arbitrary: c)
  case 0
  from once_run [of w dc prefix m c r c'] 0 total_once [of w dc prefix m, THEN totalE [where s = c]] show ?case
    by (cases r) (auto dest: attempted_once)
next
  case (Suc n)
  from total_once [of w dc prefix m] show ?case
  proof (cases rule: totalE [where s = c])
    case (1 x t)
    with Suc.prems once_run [OF 1] show ?thesis by (auto simp: bindE_apply tryE_apply ret_apply)
  next
    case (2 e t)
    from once_run [OF 2] Suc.prems(2) have t: "attempted w dc prefix m s (cs_outside t)"
      by (auto dest: attempted_once)
    obtain b u where b: "os_cancelled w (cs_outside t) = (b, u)" by fastforce
    with attempted_wait [OF t] have u: "attempted w dc prefix m s u" by simp
    from 2 b Suc.prems(1) have "(if b then throw (Msg ''context canceled'') else attempts w dc prefix m n)
        (t\<lparr>cs_retry := cs_retry t + 1, cs_outside := u\<rparr>) = (r, c')"
      by (simp add: bindE_apply tryE_apply thenE_apply modifyS_def lift_outside_def)
    with Suc.IH u show ?thesis by (auto simp: throw_apply split: if_splits)
  qed
qed

lemma letter_run:
  assumes "publishDLQ w cfg m e c = (r, c')" and "attempted w dc prefix m s (cs_outside c)"
  shows "attempted w dc prefix m s (cs_outside c') \<and> r \<noteq> Ok () \<or>
     (\<exists>u d. attempted w dc prefix m s u \<and> letter_for m d \<and> cs_outside c' = snd (os_dead w d u) \<and>
        (r = Ok () \<longrightarrow> fst (os_dead w d u) = None))"
proof (cases "cc_dlq_topic cfg = []")
  case True
  with assms show ?thesis by (auto simp: publishDLQ_def throw_apply)
next
  case False
  obtain now t where n: "os_now w (cs_outside c) = (now, t)" by fastforce
  with attempted_clock [OF assms(2)] have t: "attempted w dc prefix m s t" by simp
  obtain a u where d: "os_dead w (dead_letter_of m e now) t = (a, u)" by fastforce
  let ?d = "dead_letter_of m e now"
  have "letter_for m ?d" by (simp add: letter_for_def dead_letter_of_def)
  moreover from False assms(1) n d have r: "r = (case a of None \<Rightarrow> Ok () | Some x \<Rightarrow> Error (Wrapf ''write dlq message'' x))"
    and u: "cs_outside c' = u"
    by (auto simp: publishDLQ_def bindE_apply thenE_apply mapErr_apply send_out_def lift_outside_def readClock_def modifyS_def
        split: option.splits)
  moreover from u d have "cs_outside c' = snd (os_dead w ?d t)" by simp
  moreover from r d have "r = Ok () \<longrightarrow> fst (os_dead w ?d t) = None" by (simp split: option.splits)
  ultimately show ?thesis using t by blast
qed

lemma commit_run: "commit w m c = (r, c') \<Longrightarrow> cs_outside c' = snd (os_commit w m (cs_outside c)) \<and> cs_failure c' = cs_failure c"
  by (auto simp: commit_def ignoreE_apply send_out_def lift_outside_def split: prod.splits option.splits)

text \<open>The ways a message is taken: it has no body, it is processed, it is put on the dead letter topic, or it is left.\<close>

lemma consume_run:
  assumes run: "consume w dc prefix cfg m c = (Ok (), c')"
  obtains (bodiless) "km_value m = []" "cs_outside c' = snd (os_commit w m (cs_outside c))" "cs_failure c' = cs_failure c"
  | (processed) u v where "km_value m \<noteq> []" "attempted w dc prefix m (cs_outside c) u" "process_payload w dc prefix m u = (Ok (), v)"
      "cs_outside c' = snd (os_commit w m (snd (os_now w v)))" "cs_failure c' = cs_failure c"
  | (dead) u d where "km_value m \<noteq> []" "attempted w dc prefix m (cs_outside c) u" "letter_for m d" "fst (os_dead w d u) = None"
      "cs_outside c' = snd (os_commit w m (snd (os_dead w d u)))" "cs_failure c' = cs_failure c + 1"
  | (left) u where "km_value m \<noteq> []" "attempted w dc prefix m (cs_outside c) u"
      "cs_outside c' = u \<or> (\<exists>d. letter_for m d \<and> cs_outside c' = snd (os_dead w d u))" "cs_failure c' = cs_failure c + 1"
proof (cases "km_value m = []")
  case True
  with run have "commit w m c = (Ok (), c')" by (simp add: consume_def)
  from commit_run [OF this] True show ?thesis by (auto intro: bodiless)
next
  case False
  obtain now t where n: "os_now w (cs_outside c) = (now, t)" by fastforce
  let ?c = "c\<lparr>cs_outside := t, cs_processed := cs_processed c + 1, cs_last_processed := now\<rparr>"
  have c: "attempted w dc prefix m (cs_outside c) (cs_outside ?c)"
    using attempted_clock [OF attempted_not, of w dc prefix m "cs_outside c"] n by simp
  obtain q d where a: "attempts w dc prefix m (nat (cc_max_retries cfg)) ?c = (q, d)" by fastforce
  from attempts_tried [OF a] have failures: "cs_failure d = cs_failure c" by (simp add: tried_def)
  from attempts_run [OF a c] show ?thesis
  proof (elim disjE conjE exE)
    fix u v assume ok: "q = Ok ()" "attempted w dc prefix m (cs_outside c) u" "process_payload w dc prefix m u = (Ok (), v)"
      "cs_outside d = snd (os_now w v)"
    with run False n a have "commit w m d = (Ok (), c')"
      by (simp add: consume_def processMessageWithRetry_def bindE_apply thenE_apply tryE_apply lift_outside_def readClock_def modifyS_def)
    from commit_run [OF this] ok False failures show ?thesis by (auto intro: processed)
  next
    fix e assume e: "q = Error e" and d: "attempted w dc prefix m (cs_outside c) (cs_outside d)"
    let ?d = "d\<lparr>cs_failure := cs_failure d + 1\<rparr>"
    obtain r1 f where rec: "recordTopicOutcome w (km_topic m) (km_offset m) (Some e) ?d = (r1, f)" by fastforce
    obtain r2 g where pub: "publishDLQ w cfg m e f = (r2, g)" by fastforce
    from record_run [OF rec] attempted_clock [OF d] have f: "attempted w dc prefix m (cs_outside c) (cs_outside f)" by simp
    from record_counts [OF rec] publish_counts [OF pub] failures have g: "cs_failure g = cs_failure c + 1" by auto
    from record_run [OF rec] run False n a e rec pub have go: "r2 = Ok () \<and> commit w m g = (Ok (), c') \<or> r2 \<noteq> Ok () \<and> c' = g"
      using total_publish [of w cfg m e, THEN totalE [where s = f]]
      by (cases r2) (auto simp: consume_def processMessageWithRetry_def bindE_apply thenE_apply tryE_apply lift_outside_def readClock_def
          modifyS_def ret_apply)
    note p = letter_run [OF pub f]
    from go show ?thesis
    proof (elim disjE conjE)
      assume "r2 = Ok ()" "commit w m g = (Ok (), c')"
      with p commit_run g False show ?thesis by (metis dead)
    next
      assume "r2 \<noteq> Ok ()" "c' = g"
      with p g False show ?thesis by (metis left)
    qed
  qed
qed

section \<open>What is committed\<close>

text \<open>
  What the bus shows: the commits the consumer asked for, and the letters on the dead letter topic, each in their order.
  A commit and a write that return no error happened; one that returns an error may have happened. Nothing else touches
  them.
\<close>

definition silent :: "('s \<Rightarrow> 'a) \<Rightarrow> ('s \<Rightarrow> 'b) \<Rightarrow> 's \<Rightarrow> 's \<Rightarrow> bool" where
  "silent committed letters s t \<longleftrightarrow> committed t = committed s \<and> letters t = letters s"

definition bus_log :: "'s outside \<Rightarrow> ('s \<Rightarrow> kafka_message list) \<Rightarrow> ('s \<Rightarrow> dead_letter list) \<Rightarrow> bool" where
  "bus_log w committed letters \<longleftrightarrow>
     (\<forall>ix i doc s. silent committed letters s (snd (os_index w ix i doc s))) \<and>
     (\<forall>ix i s. silent committed letters s (snd (os_delete w ix i s))) \<and>
     (\<forall>ix i script params s. silent committed letters s (snd (os_update w ix i script params s))) \<and>
     (\<forall>s. silent committed letters s (snd (os_now w s)) \<and> silent committed letters s (snd (os_cancelled w s))) \<and>
     (\<forall>m s. letters (snd (os_commit w m s)) = letters s \<and>
        (committed (snd (os_commit w m s)) = committed s @ [m] \<or>
         fst (os_commit w m s) \<noteq> None \<and> committed (snd (os_commit w m s)) = committed s)) \<and>
     (\<forall>d s. committed (snd (os_dead w d s)) = committed s \<and>
        (letters (snd (os_dead w d s)) = letters s @ [d] \<or>
         fst (os_dead w d s) \<noteq> None \<and> letters (snd (os_dead w d s)) = letters s))"

interpretation silence: preorder_on_states "silent committed letters"
  by unfold_locales (auto simp: silent_def)

definition lifted :: "('s \<Rightarrow> 's \<Rightarrow> bool) \<Rightarrow> 's consumer \<Rightarrow> 's consumer \<Rightarrow> bool" where
  "lifted R c c' \<longleftrightarrow> R (cs_outside c) (cs_outside c')"

interpretation lifted_silence: preorder_on_states "lifted (silent committed letters)"
  by unfold_locales (auto simp: silent_def lifted_def)

lemma keeps_lift: "keeps R m \<Longrightarrow> keeps (lifted R) (lift_outside m)"
  by (auto simp: keeps_def lifted_def lift_outside_def split: prod.split) (metis snd_conv)

lemma keeps_count:
  assumes "\<And>c. cs_outside (f c) = cs_outside c"
  shows "keeps (lifted (silent committed letters)) (modifyS f)"
  using assms by (simp add: keeps_def lifted_def silent_def modifyS_def)

lemma keeps_request:
  fixes f :: "'s \<Rightarrow> reply \<times> 's"
  assumes "\<And>s. R s (snd (f s))"
  shows "keeps R (\<lambda>s. case f s of (NoReply e, t) \<Rightarrow> (Error e, t) | (Replied code st, t) \<Rightarrow> (g code st, t))"
  unfolding keeps_def
proof
  fix s
  obtain a t where f: "f s = (a, t)" by fastforce
  with assms [of s] show "R s (snd (case f s of (NoReply e, t) \<Rightarrow> (Error e, t) | (Replied code st, t) \<Rightarrow> (g code st, t)))"
    by (cases a) simp_all
qed

lemma keeps_reading:
  fixes f :: "'s \<Rightarrow> 'b \<times> 's"
  assumes "\<And>s. R s (snd (f s))"
  shows "keeps R (\<lambda>s. case f s of (n, t) \<Rightarrow> (Ok n, t))"
  using assms by (auto simp: keeps_def split: prod.split) (metis snd_conv)

lemma bus_log_silent:
  assumes "bus_log w committed letters"
  shows "silent committed letters s (snd (os_index w ix i doc s))" "silent committed letters s (snd (os_delete w ix i s))"
    "silent committed letters s (snd (os_update w ix i script params s))" "silent committed letters s (snd (os_now w s))"
    "silent committed letters s (snd (os_cancelled w s))"
  using assms by (simp_all add: bus_log_def)

lemma keeps_requests:
  assumes "bus_log w committed letters"
  shows "keeps (silent committed letters) (Upsert w ix i doc)" "keeps (silent committed letters) (Delete w ix i)"
    "keeps (silent committed letters) (UpdateWithScript w ix i script params)" "keeps (silent committed letters) (readClock w)"
    "keeps (silent committed letters) (\<lambda>s. case os_cancelled w s of (b, t) \<Rightarrow> (Ok b, t))"
proof -
  note q = bus_log_silent [OF assms]
  show "keeps (silent committed letters) (Upsert w ix i doc)"
    unfolding Upsert_def by (intro keeps_if silence.keeps_throw) (rule keeps_request, rule q)
  show "keeps (silent committed letters) (Delete w ix i)"
    unfolding Delete_def by (rule keeps_request) (rule q)
  show "keeps (silent committed letters) (UpdateWithScript w ix i script params)"
    unfolding UpdateWithScript_def by (intro keeps_if silence.keeps_throw) (rule keeps_request, rule q)
  show "keeps (silent committed letters) (readClock w)"
    unfolding readClock_def by (rule keeps_reading) (rule q)
  show "keeps (silent committed letters) (\<lambda>s. case os_cancelled w s of (b, t) \<Rightarrow> (Ok b, t))"
    by (rule keeps_reading) (rule q)
qed

lemma keeps_project:
  assumes "bus_log w committed letters"
  shows "keeps (silent committed letters) (project w dc prefix ev)"
  by (cases ev) (simp_all only: project.simps Let_def keeps_requests [OF assms] silence.keeps_thenE silence.keeps_bindE)

lemma keeps_payload:
  assumes "bus_log w committed letters"
  shows "keeps (silent committed letters) (process_payload w dc prefix m)"
  unfolding process_payload_def ProcessEvent_def ProcessMessage_def mirror_def denormalizeVariable_def Let_def
  by (intro silence.keeps_rules keeps_cases keeps_requests [OF assms] keeps_project [OF assms])

lemma keeps_record:
  assumes "bus_log w committed letters"
  shows "keeps (lifted (silent committed letters)) (recordTopicOutcome w topic offset e)"
  unfolding recordTopicOutcome_def
  by (intro lifted_silence.keeps_bindE keeps_lift keeps_requests [OF assms] keeps_count) simp

lemma keeps_once:
  assumes "bus_log w committed letters"
  shows "keeps (lifted (silent committed letters)) (processMessageOnce w dc prefix m)"
  unfolding processMessageOnce_def
  by (intro lifted_silence.keeps_rules keeps_cases keeps_lift keeps_payload [OF assms] keeps_record [OF assms] keeps_count) simp

lemma keeps_attempts:
  assumes "bus_log w committed letters"
  shows "keeps (lifted (silent committed letters)) (attempts w dc prefix m n)"
proof (induction n)
  case (Suc n)
  have "keeps (lifted (silent committed letters)) (modifyS (\<lambda>c. c\<lparr>cs_retry := cs_retry c + 1\<rparr>))" by (rule keeps_count) simp
  with Suc show ?case
    by (simp only: attempts.simps)
       (intro lifted_silence.keeps_rules keeps_cases keeps_lift keeps_requests [OF assms] keeps_once [OF assms]; assumption)
qed (simp add: keeps_once [OF assms])

lemma attempted_silent:
  assumes "bus_log w committed letters" and "attempted w dc prefix m s t"
  shows "silent committed letters s t"
  using assms(2)
proof induction
  case (attempted_fail u e v)
  from keepsD [OF keeps_payload [OF assms(1)] attempted_fail.hyps(2)] attempted_fail.IH show ?case by (simp add: silent_def)
next
  case (attempted_clock u)
  with bus_log_silent(4) [OF assms(1), of u] show ?case by (simp add: silent_def)
next
  case (attempted_wait u)
  with bus_log_silent(5) [OF assms(1), of u] show ?case by (simp add: silent_def)
qed (simp add: silent_def)

lemma bus_log_writes:
  assumes "bus_log w committed letters"
  shows "letters (snd (os_commit w m s)) = letters s"
    "committed (snd (os_commit w m s)) = committed s @ [m] \<or> committed (snd (os_commit w m s)) = committed s"
    "committed (snd (os_dead w d s)) = committed s"
    "letters (snd (os_dead w d s)) = letters s @ [d] \<or> fst (os_dead w d s) \<noteq> None \<and> letters (snd (os_dead w d s)) = letters s"
  using assms unfolding bus_log_def by blast+

lemma search_store_quiet:
  assumes "search_store w view"
  shows "view (snd (os_now w s)) = view s" "view (snd (os_cancelled w s)) = view s" "view (snd (os_commit w m s)) = view s"
    "view (snd (os_dead w d s)) = view s"
  using assms by (simp_all add: search_store_def)

text \<open>However often a message is tried without success, the documents hold a part of what it says.\<close>

lemma attempted_shown:
  assumes "search_store w view" and "\<not> deletes_variable dc prefix m" and "attempted w dc prefix m s t"
  shows "\<exists>u. part_of u (settle prefix (message_writes dc prefix m)) \<and> shown prefix view t = overwrite u (shown prefix view s)"
  using assms(3)
proof induction
  case attempted_not
  show ?case by (rule exI [of _ no_writes]) simp
next
  case (attempted_fail u e v)
  from payload_run [OF assms(1,2) attempted_fail.hyps(2)] obtain x where x: "part_of x (settle prefix (message_writes dc prefix m))"
    "shown prefix view v = overwrite x (shown prefix view u)" by auto
  from attempted_fail.IH obtain y where y: "part_of y (settle prefix (message_writes dc prefix m))"
    "shown prefix view u = overwrite y (shown prefix view s)" by blast
  show ?case by (rule exI [of _ "and_then y x"]) (simp add: x y overwrite_twice part_of_and_then)
qed (simp_all add: shown_def search_store_quiet [OF assms(1)])

text \<open>Between two states a message was processed: one of the tries went through, and the documents show what it says.\<close>

definition processed_between ::
  "'s outside \<Rightarrow> ('s \<Rightarrow> documents) \<Rightarrow> decoders \<Rightarrow> string \<Rightarrow> kafka_message \<Rightarrow> 's \<Rightarrow> 's \<Rightarrow> bool" where
  "processed_between w view dc prefix m s t \<longleftrightarrow>
     (\<exists>u v. attempted w dc prefix m s u \<and> process_payload w dc prefix m u = (Ok (), v) \<and> view t = view v) \<and>
     (\<not> deletes_variable dc prefix m \<longrightarrow>
        settled prefix (view t) = overwrite (settle prefix (message_writes dc prefix m)) (settled prefix (view s)))"

definition accounted :: "'s outside \<Rightarrow> ('s \<Rightarrow> documents) \<Rightarrow> decoders \<Rightarrow> string \<Rightarrow> ('s \<Rightarrow> kafka_message list) \<Rightarrow> ('s \<Rightarrow> dead_letter list) \<Rightarrow>
    kafka_message \<Rightarrow> 's \<Rightarrow> 's \<Rightarrow> bool" where
  "accounted w view dc prefix committed letters m s t \<longleftrightarrow>
     (\<exists>new. letters t = letters s @ new \<and> (\<forall>d \<in> set new. letter_for m d) \<and>
        (committed t = committed s \<or>
         committed t = committed s @ [m] \<and> (km_value m = [] \<or> processed_between w view dc prefix m s t \<or> new \<noteq> [])))"

lemma processed_shown:
  assumes "search_store w view" and "\<not> deletes_variable dc prefix m"
    and "attempted w dc prefix m s u" and "process_payload w dc prefix m u = (Ok (), v)"
  shows "shown prefix view v = overwrite (settle prefix (message_writes dc prefix m)) (shown prefix view s)"
  using attempted_shown [OF assms(1-3)] payload_run [OF assms(1,2,4)] by (auto simp: overwrite_part)

lemma consume_accounted:
  assumes bus: "bus_log w committed letters" and st: "search_store w view" and run: "consume w dc prefix cfg m c = (Ok (), c')"
  shows "accounted w view dc prefix committed letters m (cs_outside c) (cs_outside c')"
proof -
  note writes = bus_log_writes [OF bus] and quiet = search_store_quiet [OF st] and still = bus_log_silent [OF bus]
  from run show ?thesis
  proof (cases rule: consume_run)
    case bodiless
    with writes(1,2) [of m "cs_outside c"] show ?thesis by (auto simp: accounted_def)
  next
    case (processed u v)
    let ?t = "snd (os_now w v)"
    from attempted_silent [OF bus processed(2)] keepsD [OF keeps_payload [OF bus] processed(3)] still(4) [of v]
    have s: "silent committed letters (cs_outside c) ?t" by (simp add: silent_def)
    from processed_shown [OF st _ processed(2,3)] processed(2-4) quiet
    have "processed_between w view dc prefix m (cs_outside c) (cs_outside c')"
      unfolding processed_between_def shown_def by auto
    with s writes(1,2) [of m ?t] processed(4) show ?thesis by (auto simp: accounted_def silent_def)
  next
    case (dead u d)
    from attempted_silent [OF bus dead(2)] writes(3,4) [of d u] writes(1,2) [of m "snd (os_dead w d u)"] dead(3-5)
    show ?thesis by (auto simp: accounted_def silent_def)
  next
    case (left u)
    from left(3) show ?thesis
    proof (elim disjE exE conjE)
      assume "cs_outside c' = u"
      with attempted_silent [OF bus left(2)] show ?thesis by (simp add: accounted_def silent_def)
    next
      fix d assume "letter_for m d" "cs_outside c' = snd (os_dead w d u)"
      with attempted_silent [OF bus left(2)] writes(3,4) [of d u] show ?thesis by (auto simp: accounted_def silent_def)
    qed
  qed
qed

text \<open>A run of the loop is a run of its body over the messages, one after the other.\<close>

lemma loop_steps:
  assumes "consumeLoop w dc prefix cfg ms c = (r, c')"
  shows "\<exists>cs. length cs = Suc (length ms) \<and> cs ! 0 = c \<and> cs ! length ms = c' \<and>
     (\<forall>i < length ms. consume w dc prefix cfg (ms ! i) (cs ! i) = (Ok (), cs ! Suc i))"
  using assms
proof (induction ms arbitrary: c)
  case Nil
  then show ?case by (intro exI [of _ "[c]"]) (simp add: consumeLoop_def ret_apply)
next
  case (Cons m ms)
  from consume_ok obtain d where d: "consume w dc prefix cfg m c = (Ok (), d)" by blast
  with Cons.prems have "consumeLoop w dc prefix cfg ms d = (r, c')" by (simp add: consumeLoop_def thenE_apply)
  from Cons.IH [OF this] obtain cs where cs: "length cs = Suc (length ms)" "cs ! 0 = d" "cs ! length ms = c'"
    "\<forall>i < length ms. consume w dc prefix cfg (ms ! i) (cs ! i) = (Ok (), cs ! Suc i)" by blast
  with d show ?case by (intro exI [of _ "c # cs"]) (auto simp: less_Suc_eq_0_disj)
qed

text \<open>C26: a message is committed by this run only after it was handled in this run. The loop takes the messages one after the
  other; between the state before a message and the state after it, the only letters written are letters for it, and
  the only commit asked for is its own, and that only if the message has no body, or a try of it just went through and
  the documents show what it says, or a letter for it was just written to the dead letter topic. This holds whatever
  fails on the way: requests (an accepted one writes its document, a refused one nothing, one without a reply one of
  the two), commits, writes of letters. What is shown of a change that deletes a variable is left
  out. The commits are those the consumer asks for; that the bus takes a commit for all earlier messages of the
  partition too is not part of the claim, and a message left without a letter is covered by the next commit.\<close>

theorem committed_messages_were_handled:
  assumes "bus_log w committed letters" and "search_store w view" and "consumeLoop w dc prefix cfg ms c = (r, c')"
  shows "\<exists>ss. length ss = Suc (length ms) \<and> ss ! 0 = cs_outside c \<and> ss ! length ms = cs_outside c' \<and>
     (\<forall>i < length ms. accounted w view dc prefix committed letters (ms ! i) (ss ! i) (ss ! Suc i))"
proof -
  from loop_steps [OF assms(3)] obtain cs where cs: "length cs = Suc (length ms)" "cs ! 0 = c" "cs ! length ms = c'"
    "\<forall>i < length ms. consume w dc prefix cfg (ms ! i) (cs ! i) = (Ok (), cs ! Suc i)" by blast
  with consume_accounted [OF assms(1,2)] show ?thesis by (intro exI [of _ "map cs_outside cs"]) auto
qed

text \<open>A search engine that refuses everything, and a bus that takes everything.\<close>

definition demo_bus :: "(kafka_message list \<times> dead_letter list) outside" where
  "demo_bus = \<lparr>os_index = (\<lambda>_ _ _ s. (Replied 503 ''[503 Service Unavailable]'', s)), os_delete = (\<lambda>_ _ s. (Replied 503 [], s)),
     os_update = (\<lambda>_ _ _ _ s. (Replied 503 [], s)), os_now = (\<lambda>s. (1, s)), os_commit = (\<lambda>m (a, b). (None, (a @ [m], b))),
     os_dead = (\<lambda>d (a, b). (None, (a, b @ [d]))), os_cancelled = (\<lambda>s. (False, s))\<rparr>"

definition fresh_consumer :: "'s \<Rightarrow> 's consumer" where
  "fresh_consumer s = \<lparr>cs_outside = s, cs_processed = 0, cs_success = 0, cs_failure = 0, cs_retry = 0, cs_dlq = 0,
     cs_last_processed = 0, cs_topics = []\<rparr>"

definition demo_kafka :: consumer_config where
  "demo_kafka = \<lparr>cc_brokers = [''b''], cc_group = ''g'', cc_topics = [''events''], cc_dlq_topic = ''dead'', cc_max_retries = 0, cc_backoff = 1\<rparr>"

abbreviation demo_created_message :: kafka_message where
  "demo_created_message \<equiv> demo_message ''ProcessInstanceCreated''"

lemma demo_bus_log: "bus_log demo_bus fst snd"
  by (auto simp: bus_log_def silent_def demo_bus_def split: prod.split)

lemma demo_bus_store: "search_store demo_bus (\<lambda>_ _. None)"
  by (auto simp: search_store_def demo_bus_def answered_def is_error_def)

lemma demo_consumed:
  "\<exists>c' d. consumeLoop demo_bus demo_decoders ''af'' demo_kafka [demo_created_message] (fresh_consumer ([], [])) = (Ok (), c') \<and>
     cs_outside c' = ([demo_created_message], [d])"
  by (simp add: consumeLoop_def consume_def processMessageWithRetry_def processMessageOnce_def process_payload_def ProcessEvent_def
      projected_types_def demo_decoders_def demo_message_def carrier_Get_def Upsert_def marshalled_def demo_bus_def demo_kafka_def
      fresh_consumer_def is_error_def recordTopicOutcome_def publishDLQ_def send_out_def commit_def lift_outside_def readClock_def
      modifyS_def go_simps)

theorem committed_messages_were_handled_witness:
  "\<exists>c' d. consumeLoop demo_bus demo_decoders ''af'' demo_kafka [demo_created_message] (fresh_consumer ([], [])) = (Ok (), c') \<and>
     cs_outside c' = ([demo_created_message], [d]) \<and>
     accounted demo_bus (\<lambda>_ _. None) demo_decoders ''af'' fst snd demo_created_message ([], []) ([demo_created_message], [d])"
proof -
  obtain c' d where run: "consumeLoop demo_bus demo_decoders ''af'' demo_kafka [demo_created_message] (fresh_consumer ([], [])) = (Ok (), c')"
    and c': "cs_outside c' = ([demo_created_message], [d])" using demo_consumed by blast
  from committed_messages_were_handled [OF demo_bus_log demo_bus_store run]
  have "accounted demo_bus (\<lambda>_ _. None) demo_decoders ''af'' fst snd demo_created_message ([], []) (cs_outside c')"
    by (auto simp: fresh_consumer_def)
  with run c' show ?thesis by metis
qed

section \<open>Redelivery\<close>

text \<open>One turn of the loop that gets a message through, and one that gives it up: without or with a failure counted.\<close>

definition gets_through :: "'s outside \<Rightarrow> decoders \<Rightarrow> string \<Rightarrow> consumer_config \<Rightarrow> kafka_message \<Rightarrow> 's consumer \<Rightarrow> 's consumer \<Rightarrow> bool" where
  "gets_through w dc prefix cfg m c c' \<longleftrightarrow> consume w dc prefix cfg m c = (Ok (), c') \<and> cs_failure c' = cs_failure c"

definition gives_up_on :: "'s outside \<Rightarrow> decoders \<Rightarrow> string \<Rightarrow> consumer_config \<Rightarrow> kafka_message \<Rightarrow> 's consumer \<Rightarrow> 's consumer \<Rightarrow> bool" where
  "gives_up_on w dc prefix cfg m c c' \<longleftrightarrow> consume w dc prefix cfg m c = (Ok (), c') \<and> cs_failure c' \<noteq> cs_failure c"

definition reliable :: "'s outside \<Rightarrow> ('s \<Rightarrow> documents) \<Rightarrow> decoders \<Rightarrow> string \<Rightarrow> kafka_message \<Rightarrow> bool" where
  "reliable w view dc prefix m \<longleftrightarrow> search_store w view \<and> \<not> deletes_variable dc prefix m"

lemma through_shown:
  assumes "reliable w view dc prefix m" and "gets_through w dc prefix cfg m c c'"
  shows "shown prefix view (cs_outside c') = overwrite (says dc prefix m) (shown prefix view (cs_outside c))"
proof -
  from assms have st: "search_store w view" "\<not> deletes_variable dc prefix m" and run: "consume w dc prefix cfg m c = (Ok (), c')"
    and no: "cs_failure c' = cs_failure c" by (auto simp: reliable_def gets_through_def)
  note quiet = search_store_quiet [OF st(1)]
  from run show ?thesis
  proof (cases rule: consume_run)
    case bodiless
    then show ?thesis by (simp add: says_def shown_def quiet)
  next
    case (processed u v)
    with processed_shown [OF st processed(2,3)] show ?thesis by (simp add: says_def shown_def quiet)
  qed (simp_all add: no)
qed

lemma given_up_shown:
  assumes "reliable w view dc prefix m" and "gives_up_on w dc prefix cfg m c c'"
  shows "\<exists>x. part_of x (says dc prefix m) \<and> shown prefix view (cs_outside c') = overwrite x (shown prefix view (cs_outside c))"
proof -
  from assms have st: "search_store w view" "\<not> deletes_variable dc prefix m" and run: "consume w dc prefix cfg m c = (Ok (), c')"
    and failed: "cs_failure c' \<noteq> cs_failure c" by (auto simp: reliable_def gives_up_on_def)
  note quiet = search_store_quiet [OF st(1)]
  from run show ?thesis
  proof (cases rule: consume_run)
    case (dead u d)
    with attempted_shown [OF st dead(2)] show ?thesis by (simp add: says_def shown_def quiet)
  next
    case (left u)
    with attempted_shown [OF st left(2)] show ?thesis by (auto simp: says_def shown_def quiet)
  qed (simp_all add: failed)
qed

text \<open>The consumer is a reader whose messages overwrite places of the documents.\<close>

interpretation worker: projector
  "\<lambda>m c c'. reliable w view dc prefix m \<and> gets_through w dc prefix cfg m c c'"
  "\<lambda>m c c'. reliable w view dc prefix m \<and> gives_up_on w dc prefix cfg m c c'"
  "\<lambda>c. shown prefix view (cs_outside c)" "says dc prefix"
  by unfold_locales (auto simp: through_shown intro: given_up_shown)

text \<open>The consumer of several partitions, from a start: turns of its loop, each on the next message of a partition, and
  restarts that set it back in any of them and leave the documents. Every run of \<open>consumeLoop\<close> continues it.\<close>

abbreviation reads :: "'s outside \<Rightarrow> ('s \<Rightarrow> documents) \<Rightarrow> decoders \<Rightarrow> string \<Rightarrow> consumer_config \<Rightarrow> ('a \<Rightarrow> kafka_message list) \<Rightarrow>
    's consumer \<Rightarrow> ('a \<Rightarrow> nat) \<Rightarrow> ('a \<times> nat) set \<Rightarrow> 's consumer \<Rightarrow> bool" where
  "reads w view dc prefix cfg \<equiv> feed (gets_through w dc prefix cfg) (gives_up_on w dc prefix cfg) (\<lambda>c. view (cs_outside c))"

fun upcoming :: "('a \<Rightarrow> kafka_message list) \<Rightarrow> ('a \<Rightarrow> nat) \<Rightarrow> 'a list \<Rightarrow> (kafka_message list \<times> ('a \<Rightarrow> nat)) option" where
  "upcoming logs p [] = Some ([], p)"
| "upcoming logs p (a # as) = (if p a < length (logs a)
     then (case upcoming logs (p(a := Suc (p a))) as of None \<Rightarrow> None | Some (ms, q) \<Rightarrow> Some (logs a ! p a # ms, q)) else None)"

lemma loop_reads:
  assumes "reads w view dc prefix cfg logs c0 p missed c" and "upcoming logs p as = Some (ms, q)"
    and "consumeLoop w dc prefix cfg ms c = (r, c')"
  shows "\<exists>missed'. reads w view dc prefix cfg logs c0 q missed' c'"
  using assms
proof (induction as arbitrary: p missed c ms)
  case Nil
  then show ?case by (auto simp: consumeLoop_def ret_apply)
next
  case (Cons a as)
  from Cons.prems(2) obtain ns where p: "p a < length (logs a)" and ns: "upcoming logs (p(a := Suc (p a))) as = Some (ns, q)"
    and ms: "ms = logs a ! p a # ns" by (auto split: if_splits option.splits)
  from consume_ok obtain d where d: "consume w dc prefix cfg (logs a ! p a) c = (Ok (), d)" by blast
  with Cons.prems(3) ms have rest: "consumeLoop w dc prefix cfg ns d = (r, c')" by (simp add: consumeLoop_def thenE_apply)
  have "\<exists>missed'. reads w view dc prefix cfg logs c0 (p(a := Suc (p a))) missed' d"
  proof (cases "cs_failure d = cs_failure c")
    case True
    with d have "gets_through w dc prefix cfg (logs a ! p a) c d" by (simp add: gets_through_def)
    from feed_next [OF Cons.prems(1) p this] show ?thesis by blast
  next
    case False
    with d have "gives_up_on w dc prefix cfg (logs a ! p a) c d" by (simp add: gives_up_on_def)
    from feed_pass [OF Cons.prems(1) p this] show ?thesis by blast
  qed
  with Cons.IH ns rest show ?case by blast
qed

lemma reads_reliably:
  assumes "search_store w view" and "\<forall>a. \<forall>m \<in> set (logs a). \<not> deletes_variable dc prefix m"
    and "reads w view dc prefix cfg logs c0 p missed c"
  shows "feed (\<lambda>m c c'. reliable w view dc prefix m \<and> gets_through w dc prefix cfg m c c')
     (\<lambda>m c c'. reliable w view dc prefix m \<and> gives_up_on w dc prefix cfg m c c') (\<lambda>c. shown prefix view (cs_outside c)) logs c0 p missed c"
  by (rule feed_mono [OF assms(3)]) (use assms(1,2) in \<open>auto simp: reliable_def shown_def\<close>)

lemma consume_failures: "consume w dc prefix cfg m c = (Ok (), c') \<Longrightarrow> cs_failure c \<le> cs_failure c'"
  by (erule consume_run) simp_all

lemma loop_failures: "consumeLoop w dc prefix cfg ms c = (Ok (), c') \<Longrightarrow> cs_failure c \<le> cs_failure c'"
proof (induction ms arbitrary: c)
  case (Cons m ms)
  from consume_ok obtain d where d: "consume w dc prefix cfg m c = (Ok (), d)" by blast
  with Cons.prems have "consumeLoop w dc prefix cfg ms d = (Ok (), c')" by (simp add: consumeLoop_def thenE_apply)
  with Cons.IH consume_failures [OF d] show ?case by force
qed (simp add: consumeLoop_def ret_apply)

lemma loop_passes:
  assumes "consumeLoop w dc prefix cfg ms c = (Ok (), c')" and "cs_failure c' = cs_failure c"
    and "\<And>m. m \<in> set ms \<Longrightarrow> reliable w view dc prefix m"
  shows "passes (\<lambda>m c c'. reliable w view dc prefix m \<and> gets_through w dc prefix cfg m c c') ms c c'"
  using assms
proof (induction ms arbitrary: c)
  case Nil
  then show ?case by (simp add: consumeLoop_def ret_apply passes_nil)
next
  case (Cons m ms)
  from consume_ok obtain d where d: "consume w dc prefix cfg m c = (Ok (), d)" by blast
  with Cons.prems have rest: "consumeLoop w dc prefix cfg ms d = (Ok (), c')" by (simp add: consumeLoop_def thenE_apply)
  from consume_failures [OF d] loop_failures [OF rest] Cons.prems(2) have same: "cs_failure d = cs_failure c" by simp
  with Cons.IH [OF rest] Cons.prems(2,3) have "passes (\<lambda>m c c'. reliable w view dc prefix m \<and> gets_through w dc prefix cfg m c c') ms d c'"
    by simp
  with d same Cons.prems(3) show ?case by (intro passes_cons) (auto simp: gets_through_def)
qed

text \<open>C25: redelivery converges. The consumer reads several partitions with its loop. It may give up on messages, with
  requests to the search engine done or not done and a letter written or not, and go on behind them; and it may
  restart at any time with fresh counters and be set back in any of the partitions to any earlier message. Take a
  place of the documents that only messages of one partition write, at a time when the consumer stands at the end of
  that partition, and let every message of it that was given up when it was last taken say nothing of that place. Then
  the place holds what one pass over the partition writes there, the writes of its messages in their order; and so it
  does after one run of the loop over the partition without a failure. Left out are the time of the last touch of a
  job, which is a time of processing, and changes that delete a variable. Of the search engine it is relied on that an
  accepted request writes its document, a refused one nothing, and one without a reply one of the two.\<close>

theorem redelivery_converges:
  assumes "search_store w view" and "\<forall>a. \<forall>m \<in> set (logs a). \<not> deletes_variable dc prefix m"
    and "reads w view dc prefix cfg logs c0 p missed c" and "p a = length (logs a)"
    and "\<forall>b. b \<noteq> a \<longrightarrow> (\<forall>m \<in> set (logs b). says dc prefix m k = None)"
    and "\<forall>i < length (logs a). (a, i) \<in> missed \<longrightarrow> says dc prefix (logs a ! i) k = None"
  shows "settled prefix (view (cs_outside c)) k = one_pass (says dc prefix) (logs a) (settled prefix (view (cs_outside c0))) k \<and>
     (\<forall>c1. consumeLoop w dc prefix cfg (logs a) c0 = (Ok (), c1) \<and> cs_failure c1 = cs_failure c0 \<longrightarrow>
        settled prefix (view (cs_outside c1)) k = settled prefix (view (cs_outside c)) k)"
proof -
  have "shown prefix view (cs_outside c) k = one_pass (says dc prefix) (logs a) (shown prefix view (cs_outside c0)) k"
    by (rule worker.feed_converges [OF reads_reliably [OF assms(1-3)] assms(4,5)]) (use assms(6) in blast)
  moreover have "shown prefix view (cs_outside c1) = one_pass (says dc prefix) (logs a) (shown prefix view (cs_outside c0))"
    if "consumeLoop w dc prefix cfg (logs a) c0 = (Ok (), c1)" "cs_failure c1 = cs_failure c0" for c1
    by (rule worker.passes_view, rule loop_passes [OF that]) (use assms(1,2) in \<open>simp add: reliable_def\<close>)
  ultimately show ?thesis by (simp add: shown_def)
qed

text \<open>Creation, completion carried out without a reply and put on the dead letter topic, then a restart behind the creation
  and completion again.\<close>

definition demo_create :: "documents \<Rightarrow> documents" where
  "demo_create = overwrite (event_writes demo_decoders ''af'' (ProcessInstanceCreated 7 ''i'' 3 1 ''review'' 10))"

definition demo_complete :: "documents \<Rightarrow> documents" where
  "demo_complete = overwrite (event_writes demo_decoders ''af'' (ProcessInstanceCompleted 7 3 20))"

definition demo_logs :: "string \<times> int \<Rightarrow> kafka_message list" where
  "demo_logs a = (if a = (''events'', 0) then demo_log else [])"

lemmas demo_consume_simps = consume_def processMessageWithRetry_def processMessageOnce_def process_payload_def ProcessEvent_def
  projected_types_def demo_decoders_def demo_message_def carrier_Get_def Upsert_def UpdateWithScript_def marshalled_def
  demo_search_def demo_reply_def demo_kafka_def is_error_def recordTopicOutcome_def publishDLQ_def send_out_def commit_def
  lift_outside_def readClock_def modifyS_def go_simps

lemma demo_create_through:
  assumes "cs_outside c = (d, 0)"
  shows "\<exists>c'. gets_through demo_search demo_decoders ''af'' demo_kafka (demo_log ! 0) c c' \<and> cs_outside c' = (demo_create d, 1)"
  using assms by (simp add: gets_through_def demo_create_def demo_consume_simps)

lemma demo_complete_given_up:
  assumes "cs_outside c = (d, 1)"
  shows "\<exists>c'. gives_up_on demo_search demo_decoders ''af'' demo_kafka (demo_log ! 1) c c' \<and> cs_outside c' = (demo_complete d, 2)"
  using assms by (simp add: gives_up_on_def demo_complete_def demo_consume_simps)

lemma demo_complete_through:
  assumes "cs_outside c = (d, 2)"
  shows "\<exists>c'. gets_through demo_search demo_decoders ''af'' demo_kafka (demo_log ! 1) c c' \<and> cs_outside c' = (demo_complete d, 3)"
  using assms by (simp add: gets_through_def demo_complete_def demo_consume_simps)

lemma demo_reads:
  "\<exists>p c. reads demo_search fst demo_decoders ''af'' demo_kafka demo_logs (fresh_consumer (d, 0)) p {} c \<and>
     p (''events'', 0) = length (demo_logs (''events'', 0))"
proof -
  let ?f = "reads demo_search fst demo_decoders ''af'' demo_kafka demo_logs (fresh_consumer (d, 0))" and ?a = "(''events'', 0 :: int)"
  have logs: "demo_logs ?a = demo_log" by (simp add: demo_logs_def)
  obtain c1 where c1: "gets_through demo_search demo_decoders ''af'' demo_kafka (demo_log ! 0) (fresh_consumer (d, 0)) c1"
    "cs_outside c1 = (demo_create d, 1)" using demo_create_through [of "fresh_consumer (d, 0)" d] by (auto simp: fresh_consumer_def)
  obtain c2 where c2: "gives_up_on demo_search demo_decoders ''af'' demo_kafka (demo_log ! 1) c1 c2"
    "cs_outside c2 = (demo_complete (demo_create d), 2)" using demo_complete_given_up [OF c1(2)] by blast
  obtain c3 where c3: "gets_through demo_search demo_decoders ''af'' demo_kafka (demo_log ! 1) (fresh_consumer (cs_outside c2)) c3"
    using demo_complete_through [of "fresh_consumer (cs_outside c2)"] c2(2) by (auto simp: fresh_consumer_def)
  let ?p0 = "\<lambda>_ :: string \<times> int. 0 :: nat" and ?p1 = "(\<lambda>_. 0) (?a := 1 :: nat)" and ?p2 = "(\<lambda>_. 0) (?a := 2 :: nat)"
  have "?f ?p0 {} (fresh_consumer (d, 0))" by (rule feed_start)
  from feed_next [OF this, of ?a c1] c1(1) have "?f ?p1 {} c1" by (simp add: logs)
  from feed_pass [OF this, of ?a c2] c2(1) have "?f ?p2 {(?a, 1)} c2" by (simp add: logs numeral_2_eq_2)
  then have "?f ?p1 {(?a, 1)} (fresh_consumer (cs_outside c2))"
    by (rule feed_back) (simp_all add: fresh_consumer_def)
  from feed_next [OF this, of ?a c3] c3(1) have "?f ?p2 {} c3" by (simp add: logs numeral_2_eq_2)
  moreover have "?p2 ?a = length (demo_logs ?a)" by (simp add: logs)
  ultimately show ?thesis by blast
qed

theorem redelivery_converges_witness:
  "\<exists>p c. reads demo_search fst demo_decoders ''af'' demo_kafka demo_logs (fresh_consumer (\<lambda>_. None, 0)) p {} c \<and>
     settled ''af'' (fst (cs_outside c)) (''af-process_instance'', show_int 7, Field ''state'') = Some (VStr ''COMPLETED'')"
proof -
  let ?k = "(''af-process_instance'', show_int 7, Field ''state'')"
  obtain p c where r: "reads demo_search fst demo_decoders ''af'' demo_kafka demo_logs (fresh_consumer (\<lambda>_. None, 0)) p {} c"
    and p: "p (''events'', 0) = length (demo_logs (''events'', 0))" using demo_reads by blast
  have kept: "\<forall>a. \<forall>m \<in> set (demo_logs a). \<not> deletes_variable demo_decoders ''af'' m"
    by (simp add: demo_logs_def deletes_variable_def demo_decoders_def)
  have alone: "\<forall>b. b \<noteq> (''events'', 0) \<longrightarrow> (\<forall>m \<in> set (demo_logs b). says demo_decoders ''af'' m ?k = None)"
    by (simp add: demo_logs_def)
  have "one_pass (says demo_decoders ''af'') demo_log m ?k = Some (VStr ''COMPLETED'')" for m
    by (simp add: one_pass_def overwrite_apply says_def settle_def volatile_def message_writes_def demo_message_def carrier_Get_def
        projected_types_def demo_decoders_def script_writes_def assigned_def)
  with redelivery_converges [OF demo_search_store kept r p alone] r show ?thesis by (auto simp: demo_logs_def)
qed

section \<open>Instances\<close>

text \<open>The document of an instance follows the last event delivered of it: an instance whose last message is its completion
  is shown completed with its end time, one whose last message is its creation is shown active without an end time,
  also when that creation is a repetition.\<close>

theorem instances_follow_the_last_delivery:
  assumes store: "search_store w view" "\<forall>a. \<forall>m \<in> set (logs a). \<not> deletes_variable dc prefix m"
    and r: "reads w view dc prefix cfg logs c0 p missed c" and p: "p a = length (logs a)"
    and alone: "\<forall>f b. b \<noteq> a \<longrightarrow> (\<forall>m \<in> set (logs b). says dc prefix m (prefix @ ''-process_instance'', show_int k, Field f) = None)"
    and j: "j < length (logs a)" "(a, j) \<notin> missed" "km_value (logs a ! j) \<noteq> []"
    and e: "carries dc (logs a ! j) (ProcessInstanceCreated k i dk v bp created) \<or> carries dc (logs a ! j) (ProcessInstanceCompleted k dk ended)"
    and later: "\<forall>n < length (logs a). j < n \<longrightarrow> (\<forall>f. says dc prefix (logs a ! n) (prefix @ ''-process_instance'', show_int k, Field f) = None)"
  shows "carries dc (logs a ! j) (ProcessInstanceCompleted k dk ended) \<and>
       view (cs_outside c) (prefix @ ''-process_instance'', show_int k, Field ''state'') = Some (VStr ''COMPLETED'') \<and>
       view (cs_outside c) (prefix @ ''-process_instance'', show_int k, Field ''end_time'') = Some (VInt64 ended) \<or>
     carries dc (logs a ! j) (ProcessInstanceCreated k i dk v bp created) \<and>
       view (cs_outside c) (prefix @ ''-process_instance'', show_int k, Field ''state'') = Some (VStr ''ACTIVE'') \<and>
       view (cs_outside c) (prefix @ ''-process_instance'', show_int k, Field ''end_time'') = None"
proof -
  let ?at = "\<lambda>f. (prefix @ ''-process_instance'', show_int k, Field f)"
  have steady: "\<not> volatile prefix (?at f)" for f by (simp add: volatile_def)
  have last: "view (cs_outside c) (?at f) = x" if "message_writes dc prefix (logs a ! j) (?at f) = Some x" for f x
  proof -
    from that j(3) have "says dc prefix (logs a ! j) (?at f) = Some x" by (simp add: says_def settle_def steady)
    with worker.feed_last [where k = "?at f", OF reads_reliably [OF store r] p _ j(1) _ j(2)] alone later
    have "shown prefix view (cs_outside c) (?at f) = x" by blast
    then show ?thesis by (simp add: shown_def settled_def steady)
  qed
  from e show ?thesis
  proof
    assume c: "carries dc (logs a ! j) (ProcessInstanceCreated k i dk v bp created)"
    from carried_writes [OF this] have "view (cs_outside c) (?at ''state'') = Some (VStr ''ACTIVE'')" "view (cs_outside c) (?at ''end_time'') = None"
      by (auto intro!: last simp: index_writes_def)
    with c show ?thesis by blast
  next
    assume c: "carries dc (logs a ! j) (ProcessInstanceCompleted k dk ended)"
    from carried_writes [OF this] have "view (cs_outside c) (?at ''state'') = Some (VStr ''COMPLETED'')"
      "view (cs_outside c) (?at ''end_time'') = Some (VInt64 ended)"
      by (auto intro!: last simp: script_writes_def assigned_def)
    with c show ?thesis by blast
  qed
qed

end
