(* ===== verification/Query.thy ===== *)
theory Query
  imports Dto
begin

text \<open>
  The query service (\<open>backend/services/workflow-query\<close>): searches of the documents of process instances and definitions
  in the search engine, paging over them, and the HTTP handlers in front. The search engine is the function
  \<open>qe_search\<close>, which answers a request body for an index with an error or a text; the decoders of that text are \<open>qe_hits\<close>,
  which only reads how many hits there are, \<open>qe_instances\<close> and \<open>qe_definitions\<close>. Times are nanoseconds; the zero time is
  \<open>zero_time\<close>. The resource bytes of a definition are left out, as are logging and the entry point.
\<close>

section \<open>Documents\<close>

record instance_doc =
  id_key :: int
  id_definition_key :: int
  id_version :: int
  id_parent_instance_key :: int
  id_parent_element_key :: int
  id_state :: string
  id_created_at :: int
  id_end_time :: int
  id_context :: vars

record definition_doc =
  dd_key :: int
  dd_bpmn_process_id :: string
  dd_version :: int
  dd_resource_name :: string
  dd_deployment_key :: int
  dd_checksum :: string
  dd_tenant_id :: string
  dd_created_at :: int

record 'a search_response =
  sr_total :: int
  sr_relation :: string
  sr_hits :: "'a list"

record query_env =
  qe_search :: "string \<Rightarrow> val \<Rightarrow> go_err + string"
  qe_hits :: "string \<Rightarrow> go_err + nat"
  qe_instances :: "string \<Rightarrow> go_err + instance_doc search_response"
  qe_definitions :: "string \<Rightarrow> go_err + definition_doc search_response"

record es_repository =
  er_instance_index :: string
  er_process_index :: string
  er_legacy_instance_index :: string
  er_legacy_process_index :: string

definition NewESRepository :: "string \<Rightarrow> es_repository" where
  "NewESRepository raw = (let p = trim_space raw; prefix = (if p = [] then ''artificialflow'' else p) in
     \<lparr>er_instance_index = prefix @ ''-process_instance'', er_process_index = prefix @ ''-process'',
      er_legacy_instance_index = [], er_legacy_process_index = []\<rparr>)"

definition transitionMergeMaxDocuments :: int where "transitionMergeMaxDocuments = 10000"

definition ErrInstanceNotFound :: go_err where "ErrInstanceNotFound = Msg ''instance not found''"

section \<open>Searching\<close>

definition isIndexNotFoundError :: "go_err \<Rightarrow> bool" where
  "isIndexNotFoundError e \<longleftrightarrow> (let m = to_lower (err_string e) in
     contains_str m ''status=404'' \<or> contains_str m ''index_not_found_exception'' \<or> contains_str m ''no such index'')"

text \<open>The two results, canonical and legacy; an empty text stands for no result.\<close>

definition searchCompatible ::
  "query_env \<Rightarrow> string \<Rightarrow> string \<Rightarrow> val \<Rightarrow> (string \<Rightarrow> go_err + bool) \<Rightarrow> go_err + string \<times> string" where
  "searchCompatible q canonicalIndex legacyIndex body shouldSearchLegacy =
     (case (case qe_search q canonicalIndex body of
          Inl e \<Rightarrow> if isIndexNotFoundError e then Inr [] else Inl e
        | Inr r \<Rightarrow> Inr r) of
        Inl e \<Rightarrow> Inl e
      | Inr canonical \<Rightarrow>
         (if legacyIndex = [] then Inr (canonical, [])
          else (case (if canonical = [] then Inr True else shouldSearchLegacy canonical) of
              Inl e \<Rightarrow> Inl e
            | Inr False \<Rightarrow> Inr (canonical, [])
            | Inr True \<Rightarrow> (case qe_search q legacyIndex body of
                Inl e \<Rightarrow> if isIndexNotFoundError e then Inr (canonical, []) else Inl e
              | Inr legacy \<Rightarrow> Inr (canonical, legacy)))))"

definition searchResultHasHits :: "query_env \<Rightarrow> string \<Rightarrow> go_err + bool" where
  "searchResultHasHits q r = (case qe_hits q r of
     Inl e \<Rightarrow> Inl (Wrapf ''failed to unmarshal ES response'' e) | Inr n \<Rightarrow> Inr (n > 0))"

definition in_quotes :: "string \<Rightarrow> string" where
  "in_quotes s = ''\"'' @ s @ ''\"''"

text \<open>A result is refused unless it holds all the documents the engine counted, and their count is exact and small enough.\<close>

definition decodeCompleteSearch :: "(string \<Rightarrow> go_err + 'a search_response) \<Rightarrow> string \<Rightarrow> string \<Rightarrow> go_err + 'a list" where
  "decodeCompleteSearch decode r index = (if r = [] then Inr []
     else (case decode r of
         Inl e \<Rightarrow> Inl (Wrapf (''failed to unmarshal ES response from '' @ in_quotes index) e)
       | Inr resp \<Rightarrow>
           let relation = to_lower (trim_space (sr_relation resp)) in
           if relation \<noteq> [] \<and> relation \<noteq> ''eq'' then
             Inl (Msg (''transition compatibility search for '' @ in_quotes index @ '' requires an exact total, got relation '' @ in_quotes (sr_relation resp)))
           else if sr_total resp > transitionMergeMaxDocuments then
             Inl (Msg (''transition compatibility search for '' @ in_quotes index @ '' has '' @ show_int (sr_total resp) @
               '' documents; maximum is '' @ show_int transitionMergeMaxDocuments @ '' per index''))
           else if sr_total resp \<noteq> int (length (sr_hits resp)) then
             Inl (Msg (''transition compatibility search for '' @ in_quotes index @ '' returned '' @ show_int (int (length (sr_hits resp))) @
               '' of '' @ show_int (sr_total resp) @ '' documents''))
           else Inr (sr_hits resp)))"

text \<open>The first and last document of a page; the products and sums are those of \<open>int64\<close>.\<close>

definition transitionPageBounds :: "int \<Rightarrow> int \<Rightarrow> go_err + int \<times> int" where
  "transitionPageBounds page pageSize =
     (if page < 1 \<or> pageSize < 1 then Inl (Msg ''page and page size must be positive'')
      else let first = wrap64 (wrap64 (page - 1) * pageSize); stop = wrap64 (first + pageSize) in
        if first < 0 \<or> stop < first \<or> stop > transitionMergeMaxDocuments then
          Inl (Msg (''transition compatibility pagination supports only the first '' @ show_int transitionMergeMaxDocuments @ '' merged documents''))
        else Inr (first, stop))"

definition pageSlice :: "'a list \<Rightarrow> int \<Rightarrow> int \<Rightarrow> 'a list" where
  "pageSlice xs first stop = (if first \<ge> int (length xs) then []
     else drop (nat first) (take (nat (if stop > int (length xs) then int (length xs) else stop)) xs))"

text \<open>
  The documents of both results by key, the canonical one first, the newest first and the higher key first among those
  created at the same time. Ranging over the map gives them in some order, which the sorting makes irrelevant.
\<close>

definition merge_by_key :: "('a \<Rightarrow> int) \<Rightarrow> 'a list \<Rightarrow> 'a list \<Rightarrow> (int \<times> 'a) list" where
  "merge_by_key key canonical legacy =
     fold (\<lambda>x m. if map_of m (key x) = None then AList.update (key x) x m else m) legacy
       (fold (\<lambda>x m. AList.update (key x) x m) canonical [])"

definition newest_first :: "('a \<Rightarrow> int) \<Rightarrow> ('a \<Rightarrow> int) \<Rightarrow> 'a list \<Rightarrow> 'a list" where
  "newest_first key created xs = sort_key (\<lambda>x. (- created x, - key x)) xs"

definition term_clause :: "string \<Rightarrow> val \<Rightarrow> val" where
  "term_clause f v = VMap [(''term'', VMap [(f, v)])]"

definition list_body :: "val \<Rightarrow> val" where
  "list_body query = VMap [(''query'', query), (''from'', VInt 0), (''size'', VInt transitionMergeMaxDocuments),
     (''track_total_hits'', VBool True),
     (''sort'', VList [VMap [(''created_at'', VStr ''desc'')], VMap [(''key'', VStr ''desc'')]])]"

record instance_filter =
  if_workflow_id :: string
  if_state :: string
  if_page :: int
  if_page_size :: int

definition search_merged ::
  "query_env \<Rightarrow> (string \<Rightarrow> go_err + 'a search_response) \<Rightarrow> ('a \<Rightarrow> int) \<Rightarrow> ('a \<Rightarrow> int) \<Rightarrow> string \<Rightarrow> string \<Rightarrow> val \<Rightarrow>
     int \<times> int \<Rightarrow> go_err + 'a list \<times> int" where
  "search_merged q decode key created index legacyIndex body bounds =
     (case searchCompatible q index legacyIndex body (\<lambda>_. Inr True) of
        Inl e \<Rightarrow> Inl e
      | Inr (c, l) \<Rightarrow> (case decodeCompleteSearch decode c index of
          Inl e \<Rightarrow> Inl e
        | Inr canonical \<Rightarrow> (case decodeCompleteSearch decode l legacyIndex of
            Inl e \<Rightarrow> Inl e
          | Inr legacy \<Rightarrow>
              let all = newest_first key created (map snd (merge_by_key key canonical legacy))
              in Inr (pageSlice all (fst bounds) (snd bounds), int (length all)))))"

text \<open>The clauses of the filter: the definition's key, when one is given, and the state.\<close>

definition instance_clauses :: "instance_filter \<Rightarrow> go_err + val list" where
  "instance_clauses f = map_sum id (\<lambda>cs. cs @ (if if_state f = [] then [] else [term_clause ''state'' (VStr (if_state f))]))
     (if if_workflow_id f = [] then Inr [] else (case parse_int (if_workflow_id f) of
        Inl e \<Rightarrow> Inl (Wrapf (''invalid workflow id filter '' @ in_quotes (if_workflow_id f)) e)
      | Inr k \<Rightarrow> Inr [term_clause ''process_definition_key'' (VInt64 k)]))"

definition filtered :: "val list \<Rightarrow> val" where
  "filtered cs = list_body (VMap [(''bool'', VMap [(''filter'', VList cs)])])"

definition SearchInstances :: "query_env \<Rightarrow> es_repository \<Rightarrow> instance_filter \<Rightarrow> go_err + instance_doc list \<times> int" where
  "SearchInstances q r f =
     (case transitionPageBounds (if_page f) (if_page_size f) of
        Inl e \<Rightarrow> Inl e
      | Inr bounds \<Rightarrow>
         (case instance_clauses f of
            Inl e \<Rightarrow> Inl e
          | Inr clauses \<Rightarrow> search_merged q (qe_instances q) id_key id_created_at (er_instance_index r) (er_legacy_instance_index r)
              (filtered clauses) bounds))"

definition SearchWorkflows :: "query_env \<Rightarrow> es_repository \<Rightarrow> int \<Rightarrow> int \<Rightarrow> go_err + definition_doc list \<times> int" where
  "SearchWorkflows q r page pageSize =
     (case transitionPageBounds page pageSize of
        Inl e \<Rightarrow> Inl e
      | Inr bounds \<Rightarrow> search_merged q (qe_definitions q) dd_key dd_created_at (er_process_index r) (er_legacy_process_index r)
          (list_body (VMap [(''match_all'', VMap [])])) bounds)"

definition query_GetInstance :: "query_env \<Rightarrow> es_repository \<Rightarrow> string \<Rightarrow> go_err + instance_doc" where
  "query_GetInstance q r i = (case parse_int i of
       Inl e \<Rightarrow> Inl (Wrapf ''invalid instance id'' e)
     | Inr k \<Rightarrow>
        (case searchCompatible q (er_instance_index r) (er_legacy_instance_index r) (VMap [(''query'', term_clause ''key'' (VInt64 k))])
            (\<lambda>res. map_sum id Not (searchResultHasHits q res)) of
           Inl e \<Rightarrow> Inl e
         | Inr (canonical, legacy) \<Rightarrow>
            (case (if canonical = [] then Inr legacy else (case searchResultHasHits q canonical of
                 Inl e \<Rightarrow> Inl e | Inr has \<Rightarrow> Inr (if has then canonical else legacy))) of
               Inl e \<Rightarrow> Inl e
             | Inr res \<Rightarrow> if res = [] then Inl ErrInstanceNotFound
                 else (case qe_instances q res of
                     Inl e \<Rightarrow> Inl (Msg (''failed to unmarshal ES response: '' @ err_string e))
                   | Inr resp \<Rightarrow> (case sr_hits resp of [] \<Rightarrow> Inl ErrInstanceNotFound | src # _ \<Rightarrow> Inr src)))))"

section \<open>HTTP\<close>

record query_instance_response =
  qr_id :: string
  qr_workflow_id :: string
  qr_parent_instance_id :: string
  qr_parent_execution_id :: string
  qr_status :: string
  qr_context :: vars
  qr_created_at :: int
  qr_updated_at :: int

definition mapInstanceStatus :: "string \<Rightarrow> string" where
  "mapInstanceStatus st = (let s = to_upper (trim_space st) in
     if s \<in> {''ACTIVE'', ''ACTIVATED'', ''ACTIVATING'', ''COMPLETING''} then ''RUNNING''
     else if s = ''COMPLETED'' then ''COMPLETED''
     else if s \<in> {''CANCELED'', ''TERMINATED'', ''FAILED''} then ''FAILED'' else ''PENDING'')"

definition mapInstanceResponse :: "instance_doc \<Rightarrow> query_instance_response" where
  "mapInstanceResponse d = \<lparr>qr_id = show_int (id_key d), qr_workflow_id = show_int (id_definition_key d),
     qr_parent_instance_id = (if id_parent_instance_key d = 0 then [] else show_int (id_parent_instance_key d)),
     qr_parent_execution_id = (if id_parent_element_key d = 0 then [] else show_int (id_parent_element_key d)),
     qr_status = mapInstanceStatus (id_state d), qr_context = id_context d, qr_created_at = id_created_at d,
     qr_updated_at = (if id_end_time d = zero_time then id_created_at d else id_end_time d)\<rparr>"

definition mapWorkflowResponse :: "definition_doc \<Rightarrow> workflow_response" where
  "mapWorkflowResponse d = \<lparr>wr_id = show_int (dd_key d), wr_process_definition_id = dd_bpmn_process_id d,
     wr_name = (if trim_space (dd_bpmn_process_id d) = [] then dd_resource_name d else dd_bpmn_process_id d),
     wr_version = dd_version d, wr_resource_name = dd_resource_name d, wr_deployment_id = show_int (dd_deployment_key d),
     wr_tenant_id = dd_tenant_id d, wr_checksum = dd_checksum d, wr_steps = [], wr_created_at = dd_created_at d\<rparr>"

definition normalizeInstanceStateFilter :: "string \<Rightarrow> string" where
  "normalizeInstanceStateFilter st = (let n = to_upper (trim_space st) in
     if n = [] then [] else if n = ''RUNNING'' then ''ACTIVE'' else n)"

text \<open>\<open>page, _ := strconv.Atoi(raw); if page < 1 { page = default }\<close>; \<open>Atoi\<close> of a number out of range gives the nearest
  number in range beside its error.\<close>

definition page_param :: "string \<Rightarrow> int \<Rightarrow> int" where
  "page_param raw missing = (let n = parse_key raw in if n < 1 then missing else n)"

datatype query_body =
    QText string
  | QInstance query_instance_response
  | QInstances "query_instance_response list" int
  | QWorkflows "workflow_response list" int

type_synonym query_response = "int \<times> query_body"

definition canReadProjectedInstances :: "principal option \<Rightarrow> bool" where
  "canReadProjectedInstances who \<longleftrightarrow> (case who of None \<Rightarrow> False | Some p \<Rightarrow> HasAnyRole p [RoleArtificialFlowAdmin, RoleArtificialFlowClient])"

definition guarded :: "string list \<Rightarrow> principal option \<Rightarrow> query_response \<Rightarrow> query_response" where
  "guarded roles who k = (case who of
       None \<Rightarrow> (401, QText ''Unauthorized'')
     | Some p \<Rightarrow> if HasAnyRole p roles then k else (403, QText ''Forbidden''))"

definition query_getInstance :: "query_env \<Rightarrow> es_repository \<Rightarrow> string \<Rightarrow> principal option \<Rightarrow> query_response" where
  "query_getInstance q r i who =
     (if \<not> canReadProjectedInstances who then (403, QText ''Forbidden'')
      else case parse_int i of
          Inl _ \<Rightarrow> (400, QText ''invalid instance id'')
        | Inr _ \<Rightarrow> (case query_GetInstance q r i of
            Inl e \<Rightarrow> (404, QText (err_string e)) | Inr d \<Rightarrow> (200, QInstance (mapInstanceResponse d))))"

definition searchInstances ::
  "query_env \<Rightarrow> es_repository \<Rightarrow> string \<Rightarrow> string \<Rightarrow> string \<Rightarrow> string \<Rightarrow> principal option \<Rightarrow> query_response" where
  "searchInstances q r rawWorkflow rawState rawPage rawSize who =
     (if \<not> canReadProjectedInstances who then (403, QText ''Forbidden'')
      else let w = trim_space rawWorkflow in
        if w \<noteq> [] \<and> isl (parse_int w) then (400, QText ''invalid workflowId: must be numeric'')
        else (case SearchInstances q r \<lparr>if_workflow_id = w, if_state = normalizeInstanceStateFilter rawState,
              if_page = page_param rawPage 1, if_page_size = page_param rawSize 20\<rparr> of
            Inl e \<Rightarrow> (500, QText (err_string e))
          | Inr (ds, n) \<Rightarrow> (200, QInstances (map mapInstanceResponse ds) n)))"

definition searchWorkflows :: "query_env \<Rightarrow> es_repository \<Rightarrow> string \<Rightarrow> string \<Rightarrow> query_response" where
  "searchWorkflows q r rawPage rawSize =
     (case SearchWorkflows q r (page_param rawPage 1) (page_param rawSize 20) of
        Inl e \<Rightarrow> (500, QText (err_string e))
      | Inr (ds, n) \<Rightarrow> (200, QWorkflows (map mapWorkflowResponse ds) n))"

datatype query_call =
    QueryInstance string
  | QueryInstances string string string string
  | QueryWorkflows string string

fun query_serve :: "query_env \<Rightarrow> es_repository \<Rightarrow> query_call \<Rightarrow> principal option \<Rightarrow> query_response" where
  "query_serve q r (QueryInstance i) who =
     guarded [RoleArtificialFlowAdmin, RoleArtificialFlowClient] who (query_getInstance q r i who)"
| "query_serve q r (QueryInstances w st p ps) who =
     guarded [RoleArtificialFlowAdmin, RoleArtificialFlowClient] who (searchInstances q r w st p ps who)"
| "query_serve q r (QueryWorkflows p ps) who =
     guarded [RoleArtificialFlowAdmin, RoleArtificialFlowModeler, RoleArtificialFlowClient] who (searchWorkflows q r p ps)"

end
