(* ===== verification/QueryProps.thy ===== *)
theory QueryProps
  imports Query
begin

text \<open>The query service: the pages of a listing, their bounds, and who may read.\<close>

section \<open>Page bounds\<close>

lemma wrap64_small: "0 \<le> i \<Longrightarrow> i < 2 ^ 63 \<Longrightarrow> wrap64 i = i"
  by (simp add: wrap64_def)

lemma wrap64_nonneg:
  assumes "0 \<le> x"
  shows "0 \<le> wrap64 x \<longleftrightarrow> x mod 2 ^ 64 < 2 ^ 63" and "x mod 2 ^ 64 < 2 ^ 63 \<Longrightarrow> wrap64 x = x mod 2 ^ 64"
proof -
  let ?r = "x mod 2 ^ 64"
  have r: "0 \<le> ?r" "?r < 2 ^ 64" by simp_all
  have "wrap64 x = (?r + 2 ^ 63) mod 2 ^ 64 - 2 ^ 63" by (simp add: wrap64_def mod_add_left_eq)
  then have w: "wrap64 x = (if ?r < 2 ^ 63 then ?r else ?r - 2 ^ 64)"
  proof (cases "?r < 2 ^ 63")
    case True
    with r have "(?r + 2 ^ 63) mod 2 ^ 64 = ?r + 2 ^ 63" by (intro mod_pos_pos_trivial) simp_all
    with True \<open>wrap64 x = _\<close> show ?thesis by simp
  next
    case False
    with r have "(?r + 2 ^ 63 - 2 ^ 64) mod 2 ^ 64 = ?r + 2 ^ 63 - 2 ^ 64" by (intro mod_pos_pos_trivial) simp_all
    moreover have "(?r + 2 ^ 63) mod 2 ^ 64 = (?r + 2 ^ 63 - 2 ^ 64) mod 2 ^ 64"
      using mod_add_self2 [of "?r + 2 ^ 63 - 2 ^ 64" "2 ^ 64"] by (simp add: add.commute)
    ultimately show ?thesis using False \<open>wrap64 x = _\<close> by simp
  qed
  with r show "0 \<le> wrap64 x \<longleftrightarrow> ?r < 2 ^ 63" by (simp split: if_splits)
  show "?r < 2 ^ 63 \<Longrightarrow> wrap64 x = ?r" by (simp add: w)
qed

lemma page_bounds:
  assumes "1 \<le> page" "page < 2 ^ 63" "1 \<le> psize" "psize < 2 ^ 63"
  shows "transitionPageBounds page psize = Inr (a, b) \<longleftrightarrow>
     a = (page - 1) * psize mod 2 ^ 64 \<and> b = a + psize \<and> b \<le> 10000"
proof -
  let ?x = "(page - 1) * psize"
  from assms have x: "0 \<le> ?x" and p: "wrap64 (page - 1) = page - 1" by (simp_all add: wrap64_small)
  have r: "0 \<le> ?x mod 2 ^ 64" by simp
  show ?thesis
  proof (cases "?x mod 2 ^ 64 < 2 ^ 63")
    case False
    with wrap64_nonneg(1) [OF x] assms p show ?thesis by (auto simp: transitionPageBounds_def Let_def)
  next
    case True
    with wrap64_nonneg(2) [OF x] have f: "wrap64 ?x = ?x mod 2 ^ 64" by simp
    let ?s = "?x mod 2 ^ 64 + psize"
    have s: "0 \<le> ?s" "?s < 2 ^ 64" using r assms True by simp_all
    then have m: "?s mod 2 ^ 64 = ?s" by simp
    show ?thesis
    proof (cases "?s < 2 ^ 63")
      case True
      with s have "wrap64 ?s = ?s" by (simp add: wrap64_small)
      with assms f p r show ?thesis by (auto simp: transitionPageBounds_def Let_def transitionMergeMaxDocuments_def)
    next
      case False
      with wrap64_nonneg(1) [OF s(1)] m have "wrap64 ?s < 0" by simp
      with assms f p r False show ?thesis by (auto simp: transitionPageBounds_def Let_def)
    qed
  qed
qed

text \<open>C28: the bounds of a page, overflow included. For every page and size a client can send, the page is accepted exactly
  when the 64-bit product of the pages before it and the size, and the end of the page, stay within the first 10000
  documents; so as long as the product does not overflow the page is the one asked for, and page 2^54 + 1 of size 1024
  is answered with the first page.\<close>

theorem page_bounds_are_exact:
  assumes "1 \<le> page" "page < 2 ^ 63" "1 \<le> psize" "psize < 2 ^ 63"
  shows "(transitionPageBounds page psize = Inr (a, b) \<longleftrightarrow> a = (page - 1) * psize mod 2 ^ 64 \<and> b = a + psize \<and> b \<le> 10000) \<and>
     (transitionPageBounds page psize = Inr (a, b) \<and> (page - 1) * psize < 2 ^ 64 \<longrightarrow> a = (page - 1) * psize)"
  using page_bounds [OF assms, of a b] assms by simp

theorem page_bounds_are_exact_witness:
  "transitionPageBounds (2 ^ 54 + 1) 1024 = Inr (0, 1024) \<and> transitionPageBounds 3 20 = Inr (40, 60)"
  using page_bounds_are_exact [of "2 ^ 54 + 1" 1024 0 1024] page_bounds_are_exact [of 3 20 40 60] by simp

section \<open>The listing\<close>

definition merged_from :: "('a \<Rightarrow> int) \<Rightarrow> 'a set \<Rightarrow> (int \<times> 'a) list \<Rightarrow> bool" where
  "merged_from key docs m \<longleftrightarrow> distinct (map fst m) \<and> (\<forall>(k, x) \<in> set m. key x = k \<and> x \<in> docs) \<and> fst ` set m = key ` docs"

lemma update_entry: "(k, y) \<in> set (AList.update a b m) \<Longrightarrow> k = a \<and> y = b \<or> (k, y) \<in> set m"
  by (induction m) (auto split: if_splits)

lemma merged_from_update:
  assumes "merged_from key docs m"
  shows "merged_from key (insert x docs) (AList.update (key x) x m)"
proof -
  from assms have "(k, y) \<in> set (AList.update (key x) x m) \<Longrightarrow> key y = k \<and> y \<in> insert x docs" for k y
    by (auto simp: merged_from_def dest!: update_entry)
  moreover have "fst ` set (AList.update (key x) x m) = insert (key x) (key ` docs)"
    using assms by (simp add: merged_from_def dom_update)
  ultimately show ?thesis using assms by (auto simp: merged_from_def distinct_update)
qed

lemma merged_from_keep:
  assumes "merged_from key docs m" and "map_of m (key x) \<noteq> None"
  shows "merged_from key (insert x docs) m"
proof -
  from assms(2) have "key x \<in> fst ` set m" by (simp add: map_of_eq_None_iff)
  with assms(1) show ?thesis by (auto simp: merged_from_def)
qed

lemma merge_canonical: "merged_from key docs m \<Longrightarrow> merged_from key (docs \<union> set xs) (fold (\<lambda>x m. AList.update (key x) x m) xs m)"
proof (induction xs arbitrary: docs m)
  case (Cons x xs)
  from Cons.IH [OF merged_from_update [OF Cons.prems, of x]] show ?case by simp
qed simp

lemma merge_legacy:
  "merged_from key docs m \<Longrightarrow>
     merged_from key (docs \<union> set xs) (fold (\<lambda>x m. if map_of m (key x) = None then AList.update (key x) x m else m) xs m)"
proof (induction xs arbitrary: docs m)
  case (Cons x xs)
  have "merged_from key (insert x docs) (if map_of m (key x) = None then AList.update (key x) x m else m)"
    using merged_from_update [OF Cons.prems] merged_from_keep [OF Cons.prems] by simp
  from Cons.IH [OF this] show ?case by simp
qed simp

lemma merge_by_key_from: "merged_from key (set canonical \<union> set legacy) (merge_by_key key canonical legacy)"
  using merge_legacy [OF merge_canonical [of key "{}" "[]" canonical], of legacy] by (simp add: merge_by_key_def merged_from_def)

text \<open>A listing of documents: each key once, all keys, the newest first and the higher key first of the same time.\<close>

definition listing_of :: "('a \<Rightarrow> int) \<Rightarrow> ('a \<Rightarrow> int) \<Rightarrow> 'a list \<Rightarrow> 'a set \<Rightarrow> bool" where
  "listing_of key created all docs \<longleftrightarrow> distinct (map key all) \<and> set all \<subseteq> docs \<and> key ` set all = key ` docs \<and>
     sorted_wrt (\<lambda>x y. created y < created x \<or> created y = created x \<and> key y < key x) all"

lemma strictly_sorted:
  assumes "sorted (map f xs)" and "distinct (map f xs)"
  shows "sorted_wrt (\<lambda>x y. f x < f y) xs"
proof -
  from assms have "sorted_wrt (<) (map f xs)" by (simp add: strict_sorted_iff)
  then show ?thesis by (simp add: sorted_wrt_map)
qed

lemma newest_first_listing: "listing_of key created (newest_first key created (map snd (merge_by_key key canonical legacy))) (set canonical \<union> set legacy)"
proof -
  let ?m = "merge_by_key key canonical legacy" and ?f = "\<lambda>x. (- created x, - key x)"
  let ?all = "newest_first key created (map snd ?m)"
  note m = merge_by_key_from [of key canonical legacy, unfolded merged_from_def]
  from m have ks: "map (\<lambda>p. key (snd p)) ?m = map fst ?m" by (auto intro!: map_cong)
  have st: "set ?all = snd ` set ?m" by (simp add: newest_first_def)
  have dm: "distinct (map key (map snd ?m))" using m by (simp only: map_map comp_def ks)
  then have inj: "inj_on key (set (map snd ?m))" and ds: "distinct (map snd ?m)" 
    by (simp_all only: distinct_map [of key "map snd ?m"])
  then have d: "distinct ?all" by (simp add: newest_first_def)
  with inj have dk: "distinct (map key ?all)" by (simp add: distinct_map newest_first_def)
  from inj have "inj_on ?f (set ?all)" by (auto simp: newest_first_def inj_on_def)
  with d have "distinct (map ?f ?all)" by (simp add: distinct_map)
  moreover have "sorted (map ?f ?all)" by (simp add: newest_first_def)
  ultimately have "sorted_wrt (\<lambda>x y. ?f x < ?f y) ?all" by (intro strictly_sorted)
  then have "sorted_wrt (\<lambda>x y. created y < created x \<or> created y = created x \<and> key y < key x) ?all"
    by (rule sorted_wrt_mono_rel [rotated]) auto
  moreover have "set ?all \<subseteq> set canonical \<union> set legacy" using m st by auto
  moreover have "key ` set ?all = fst ` set ?m" 
  proof -
    have "key ` set ?all = set (map (\<lambda>p. key (snd p)) ?m)" by (simp only: st image_image set_map)
    then show ?thesis by (simp only: ks set_map)
  qed
  ultimately show ?thesis using dk m by (simp add: listing_of_def)
qed

section \<open>The pages of a listing\<close>

text \<open>The engine's answer to a query, when it is one the service takes: every document it counted, or no index.\<close>

definition complete_answer :: "query_env \<Rightarrow> (string \<Rightarrow> go_err + 'a search_response) \<Rightarrow> string \<Rightarrow> val \<Rightarrow> 'a list \<Rightarrow> bool" where
  "complete_answer q decode index body docs \<longleftrightarrow> (case qe_search q index body of
     Inl e \<Rightarrow> isIndexNotFoundError e \<and> docs = []
   | Inr t \<Rightarrow> (if t = [] then docs = [] else (case decode t of
       Inl _ \<Rightarrow> False | Inr resp \<Rightarrow> docs = sr_hits resp \<and> sr_total resp = int (length docs) \<and> length docs \<le> 10000)))"

lemma decodeCompleteSearch_complete:
  "decodeCompleteSearch decode t index = Inr docs \<Longrightarrow>
     if t = [] then docs = [] else (case decode t of
       Inl _ \<Rightarrow> False | Inr resp \<Rightarrow> docs = sr_hits resp \<and> sr_total resp = int (length docs) \<and> length docs \<le> 10000)"
  by (auto simp: decodeCompleteSearch_def Let_def transitionMergeMaxDocuments_def split: if_splits sum.splits)

lemma search_merged_listing:
  assumes "search_merged q decode key created index [] body bounds = Inr (page, hits)"
  obtains docs where "complete_answer q decode index body docs"
    and "page = pageSlice (newest_first key created (map snd (merge_by_key key docs []))) (fst bounds) (snd bounds)"
    and "hits = int (length (newest_first key created (map snd (merge_by_key key docs []))))"
proof (cases "qe_search q index body")
  case (Inl e)
  with assms show ?thesis
    by (intro that [of "[]"]) (auto simp: search_merged_def searchCompatible_def complete_answer_def decodeCompleteSearch_def Let_def
        split: if_splits)
next
  case (Inr t)
  with assms obtain docs where d: "decodeCompleteSearch decode t index = Inr docs"
    and "page = pageSlice (newest_first key created (map snd (merge_by_key key docs []))) (fst bounds) (snd bounds)"
    and "hits = int (length (newest_first key created (map snd (merge_by_key key docs []))))"
    by (auto simp: search_merged_def searchCompatible_def decodeCompleteSearch_def [of decode "[]"] Let_def split: sum.splits)
  with decodeCompleteSearch_complete [OF d] Inr show ?thesis by (intro that [of docs]) (simp_all add: complete_answer_def)
qed

lemma complete_answer_unique:
  "complete_answer q decode index body docs \<Longrightarrow> complete_answer q decode index body docs' \<Longrightarrow> docs = docs'"
  by (auto simp: complete_answer_def split: sum.splits if_splits)

lemma SearchInstances_page:
  assumes "SearchInstances q (NewESRepository prefix) f = Inr (page, hits)"
  obtains a b cs docs where "transitionPageBounds (if_page f) (if_page_size f) = Inr (a, b)" and "instance_clauses f = Inr cs"
    and "complete_answer q (qe_instances q) (er_instance_index (NewESRepository prefix)) (filtered cs) docs"
    and "page = pageSlice (newest_first id_key id_created_at (map snd (merge_by_key id_key docs []))) a b"
    and "hits = int (length (newest_first id_key id_created_at (map snd (merge_by_key id_key docs []))))"
proof -
  have "er_legacy_instance_index (NewESRepository prefix) = []" by (simp add: NewESRepository_def Let_def)
  with assms obtain a b cs where b: "transitionPageBounds (if_page f) (if_page_size f) = Inr (a, b)" and c: "instance_clauses f = Inr cs"
    and m: "search_merged q (qe_instances q) id_key id_created_at (er_instance_index (NewESRepository prefix)) [] (filtered cs) (a, b)
      = Inr (page, hits)"
    by (auto simp: SearchInstances_def split: sum.splits)
  from search_merged_listing [OF m] show ?thesis by (metis that b c fst_conv snd_conv)
qed

lemma pageSlice_nat: "pageSlice xs (int a) (int b) = drop a (take b xs)"
proof (cases "b \<le> length xs")
  case False
  then show ?thesis by (simp add: pageSlice_def)
qed (simp add: pageSlice_def)

lemma tiles: "concat (map (\<lambda>p. drop ((p - 1) * n) (take (p * n) xs)) [1..<Suc k]) = take (k * n) xs"
proof (induction k)
  case (Suc k)
  have "take (k * n) xs @ drop (k * n) (take (Suc k * n) xs) = take (Suc k * n) xs"
    using append_take_drop_id [of "k * n" "take (Suc k * n) xs"] by (simp add: min_def)
  with Suc show ?case by simp
qed simp

lemma pageSlice_tiles: "concat (map (\<lambda>p. pageSlice xs (int ((p - 1) * n)) (int (p * n))) [1..<Suc k]) = take (k * n) xs"
  by (simp only: pageSlice_nat tiles)

lemma page_bounds_run:
  assumes "\<And>p. p \<in> {1..k} \<Longrightarrow> \<exists>b. transitionPageBounds (int p) psize = Inr b" and "psize < 2 ^ 63" and "p \<in> {1..k}"
  shows "transitionPageBounds (int p) psize = Inr (int ((p - 1) * nat psize), int (p * nat psize)) \<and> p * nat psize \<le> 10000"
  using assms(3)
proof (induction p)
  case (Suc p)
  from assms(1) [OF Suc.prems] obtain a b where ab: "transitionPageBounds (int (Suc p)) psize = Inr (a, b)" by auto
  then have s: "1 \<le> psize" by (auto simp: transitionPageBounds_def split: if_splits)
  have le: "p * nat psize \<le> 10000" using Suc by (cases "p = 0") auto
  have ple: "int (p * nat psize) \<le> 10000" using of_nat_mono [OF le, where 'a = int] by simp
  from s have "p \<le> p * nat psize" by (cases "nat psize") auto
  with le have "p \<le> 10000" by (rule order_trans [rotated])
  with ab page_bounds [of "int (Suc p)" psize a b] s assms(2)
  have a: "a = int p * psize mod 2 ^ 64" and b: "b = a + psize" "b \<le> 10000" by simp_all
  have e: "int p * psize = int (p * nat psize)" using s by simp
  have m: "int (p * nat psize) mod 2 ^ 64 = int (p * nat psize)" using order_le_less_trans [OF ple] by (intro mod_pos_pos_trivial of_nat_0_le_iff) simp_all
  have n: "int (Suc p * nat psize) = int (p * nat psize) + psize" using s by simp
  from a have a': "a = int (p * nat psize)" by (simp only: e m)
  with b n have b': "b = int (Suc p * nat psize)" by (simp only:)
  with b have "Suc p * nat psize \<le> 10000" by linarith
  with a' b' ab show ?case by simp
qed simp

lemma clauses_of_page [simp]: "instance_clauses (f\<lparr>if_page := i\<rparr>) = instance_clauses f"
  by (simp add: instance_clauses_def cong: if_cong sum.case_cong)

definition instance_listing :: "instance_doc list \<Rightarrow> instance_doc list" where
  "instance_listing docs = newest_first id_key id_created_at (map snd (merge_by_key id_key docs []))"

lemma page_of_listing:
  assumes "SearchInstances q (NewESRepository prefix) (f\<lparr>if_page := int p\<rparr>) = Inr (page, n)"
  shows "\<exists>a b cs docs. transitionPageBounds (int p) (if_page_size f) = Inr (a, b) \<and> instance_clauses f = Inr cs \<and>
     complete_answer q (qe_instances q) (er_instance_index (NewESRepository prefix)) (filtered cs) docs \<and>
     page = pageSlice (instance_listing docs) a b \<and> n = int (length (instance_listing docs))"
  by (rule SearchInstances_page [OF assms, folded instance_listing_def]) (simp, blast)

text \<open>C27: the pages of a listing of instances. When the service answers pages 1 to k of a query, the pages put together are the
  first documents of one listing: the documents the engine found for exactly that filter, each key once, the newest first.
  No document is listed twice, none is skipped between two pages, and every page reports the length of that listing.\<close>

theorem pages_tile_the_listing:
  assumes "\<And>p. p \<in> {1..k} \<Longrightarrow> SearchInstances q (NewESRepository prefix) (f\<lparr>if_page := int p\<rparr>) = Inr (pages p, hits p)"
    and "1 \<le> k" and "if_page_size f < 2 ^ 63"
  shows "\<exists>cs docs listing. instance_clauses f = Inr cs \<and>
     complete_answer q (qe_instances q) (er_instance_index (NewESRepository prefix)) (filtered cs) docs \<and>
     listing_of id_key id_created_at listing (set docs) \<and>
     concat (map pages [1..<Suc k]) = take (k * nat (if_page_size f)) listing \<and> (\<forall>p\<in>{1..k}. hits p = int (length listing))"
proof -
  note page = page_of_listing [OF assms(1)]
  have one: "1 \<in> {1..k}" using assms(2) by simp
  from page [OF one] obtain cs docs where cs: "instance_clauses f = Inr cs"
    and docs: "complete_answer q (qe_instances q) (er_instance_index (NewESRepository prefix)) (filtered cs) docs"
    by (elim exE conjE) (rule that; assumption)
  let ?listing = "instance_listing docs" and ?n = "nat (if_page_size f)"
  have b: "\<exists>b. transitionPageBounds (int p) (if_page_size f) = Inr b" if "p \<in> {1..k}" for p
    using page [OF that] by (elim exE conjE) (rule exI, assumption)
  have pg: "pages p = pageSlice ?listing (int ((p - 1) * ?n)) (int (p * ?n))" "hits p = int (length ?listing)" if p: "p \<in> {1..k}" for p
  proof -
    from page [OF p] obtain a b cs' docs' where ab: "transitionPageBounds (int p) (if_page_size f) = Inr (a, b)"
      and cs': "instance_clauses f = Inr cs'"
      and docs': "complete_answer q (qe_instances q) (er_instance_index (NewESRepository prefix)) (filtered cs') docs'"
      and res: "pages p = pageSlice (instance_listing docs') a b" "hits p = int (length (instance_listing docs'))"
      by (elim exE conjE) (rule that; assumption)
    from cs cs' have "cs' = cs" by simp
    with docs docs' have "docs' = docs" by (simp add: complete_answer_unique)
    moreover from page_bounds_run [OF b assms(3) p] ab have "a = int ((p - 1) * ?n)" "b = int (p * ?n)" by simp_all
    ultimately show "pages p = pageSlice ?listing (int ((p - 1) * ?n)) (int (p * ?n))" "hits p = int (length ?listing)"
      using res by simp_all
  qed
  have "map pages [1..<Suc k] = map (\<lambda>p. pageSlice ?listing (int ((p - 1) * ?n)) (int (p * ?n))) [1..<Suc k]"
    by (rule map_cong [OF refl]) (rule pg, auto)
  then have "concat (map pages [1..<Suc k]) = take (k * ?n) ?listing" by (simp only: pageSlice_tiles)
  moreover have "listing_of id_key id_created_at ?listing (set docs)"
    using newest_first_listing [of id_key id_created_at docs "[]"] by (simp add: instance_listing_def)
  ultimately show ?thesis using cs docs pg(2) by blast
qed

definition sample_doc :: "int \<Rightarrow> int \<Rightarrow> instance_doc" where
  "sample_doc k created = \<lparr>id_key = k, id_definition_key = 7, id_version = 1, id_parent_instance_key = 0, id_parent_element_key = 0,
     id_state = ''ACTIVE'', id_created_at = created, id_end_time = zero_time, id_context = []\<rparr>"

definition sample_search :: query_env where
  "sample_search = \<lparr>qe_search = (\<lambda>_ _. Inr ''3''), qe_hits = (\<lambda>_. Inr 3),
     qe_instances = (\<lambda>_. Inr \<lparr>sr_total = 3, sr_relation = ''eq'', sr_hits = [sample_doc 1 10, sample_doc 2 30, sample_doc 3 10]\<rparr>),
     qe_definitions = (\<lambda>_. Inl (Msg ''none''))\<rparr>"

definition sample_filter :: instance_filter where
  "sample_filter = \<lparr>if_workflow_id = ''7'', if_state = ''ACTIVE'', if_page = 0, if_page_size = 2\<rparr>"

definition sample_pages :: "nat \<Rightarrow> instance_doc list" where
  "sample_pages p = (if p = 1 then [sample_doc 2 30, sample_doc 3 10] else [sample_doc 1 10])"

lemma sample_answers:
  "SearchInstances sample_search (NewESRepository ''flow'') (sample_filter\<lparr>if_page := 1\<rparr>) = Inr (sample_pages 1, 3)"
  "SearchInstances sample_search (NewESRepository ''flow'') (sample_filter\<lparr>if_page := 2\<rparr>) = Inr (sample_pages 2, 3)"
  by code_simp+

lemma sample_page:
  assumes "p \<in> {1..2}"
  shows "SearchInstances sample_search (NewESRepository ''flow'') (sample_filter\<lparr>if_page := int p\<rparr>) = Inr (sample_pages p, 3)"
proof -
  from assms have "p = 1 \<or> p = 2" by auto
  then show ?thesis using sample_answers by auto
qed

theorem pages_tile_the_listing_witness:
  "\<exists>docs. listing_of id_key id_created_at (sample_pages 1 @ sample_pages 2) (set docs)"
proof -
  have "if_page_size sample_filter = 2" by (simp add: sample_filter_def)
  with pages_tile_the_listing [of 2 sample_search "''flow''" sample_filter sample_pages "\<lambda>_. 3", OF sample_page] show ?thesis
    by (auto simp: numeral_2_eq_2)
qed

end
