(* ===== verification/TimeText.thy ===== *)
theory TimeText
  imports Timers
begin

text \<open>
  The text of a time, \<open>Format(time.RFC3339)\<close> of a time in UTC, and that parsing it gives the time back up to the second.
  The year of a day is found in the 400 years of 146097 days that start on 1 March.
\<close>

section \<open>Dates\<close>

definition march_days :: "int \<Rightarrow> int" where
  "march_days y = 365 * y + y div 4 - y div 100"

definition year_of_era :: "int \<Rightarrow> int" where
  "year_of_era doe = (let q = doe div 365 in if q \<ge> 400 \<or> march_days q > doe then q - 1 else q)"

text \<open>Year, month and day of a day counted from 1 January 1970.\<close>

definition civil_date :: "int \<Rightarrow> int \<times> nat \<times> nat" where
  "civil_date days = (let z = days + 719468; doe = z mod 146097; yoe = year_of_era doe; doy = doe - march_days yoe;
     mp = (5 * doy + 2) div 153; m = (if mp < 10 then mp + 3 else mp - 9)
     in (z div 146097 * 400 + yoe + (if m \<le> 2 then 1 else 0), nat m, nat (doy - (153 * mp + 2) div 5 + 1)))"

definition pad2 :: "nat \<Rightarrow> string" where
  "pad2 n = [digit_char (n div 10), digit_char (n mod 10)]"

definition pad4 :: "nat \<Rightarrow> string" where
  "pad4 n = (if n < 10000 then pad2 (n div 100) @ pad2 (n mod 100) else show_nat n)"

definition format_rfc3339 :: "int \<Rightarrow> string" where
  "format_rfc3339 t = (let s = t div 1000000000; sod = nat (s mod 86400) in
     (case civil_date (s div 86400) of (y, m, d) \<Rightarrow>
        (if y < 0 then ''-'' @ pad4 (nat (- y)) else pad4 (nat y)) @ ''-'' @ pad2 m @ ''-'' @ pad2 d @ ''T'' @
        pad2 (sod div 3600) @ '':'' @ pad2 (sod mod 3600 div 60) @ '':'' @ pad2 (sod mod 60) @ ''Z''))"

lemma div_step:
  assumes "0 < (k :: int)"
  shows "(y + 1) div k = y div k + (if k dvd y + 1 then 1 else 0)"
proof -
  let ?q = "y div k" and ?r = "y mod k"
  have y: "y = k * ?q + ?r" and r: "0 \<le> ?r" "?r < k" using assms by simp_all
  show ?thesis
  proof (cases "?r + 1 = k")
    case True
    with y have "y + 1 = k * ?q + k" by linarith
    then have "y + 1 = k * (?q + 1)" by (simp add: distrib_left)
    then show ?thesis using assms by (metis dvd_triv_left nonzero_mult_div_cancel_left less_irrefl)
  next
    case False
    with y r have "y + 1 = k * ?q + (?r + 1)" "0 \<le> ?r + 1" "?r + 1 < k" by simp_all
    then have "(y + 1) div k = ?q" and "(y + 1) mod k = ?r + 1" by (rule int_div_pos_eq, rule int_mod_pos_eq)
    with r show ?thesis by (simp add: dvd_eq_mod_eq_0)
  qed
qed

lemma march_days_step: "march_days (y + 1) = march_days y + 365 + (if 4 dvd y + 1 then 1 else 0) - (if 100 dvd y + 1 then 1 else 0)"
  by (simp add: march_days_def div_step)

lemma march_days_bounds: "0 \<le> y \<Longrightarrow> 365 * y \<le> march_days y \<and> march_days y \<le> 366 * y"
  by (auto simp: march_days_def zdiv_mono2)

text \<open>The day within its year, which starts on 1 March: at most 366 days, and 366 only when the next February has 29.\<close>

lemma year_of_era:
  assumes "0 \<le> doe" and "doe < 146097"
  defines "y \<equiv> year_of_era doe"
  shows "0 \<le> y" and "y < 400" and "0 \<le> doe - march_days y" and "doe - march_days y \<le> 365"
    and "doe - march_days y = 365 \<Longrightarrow> 4 dvd y + 1 \<and> (\<not> 100 dvd y + 1 \<or> 400 dvd y + 1)"
proof -
  let ?q = "doe div 365"
  have q: "0 \<le> ?q" "365 * ?q \<le> doe" "doe < 365 * ?q + 365" "?q \<le> 400" using assms(1,2) by linarith+
  have le: "365 * ?q \<le> march_days ?q" using march_days_bounds [OF q(1)] by simp
  have "0 \<le> y \<and> y < 400 \<and> 0 \<le> doe - march_days y \<and> doe - march_days y \<le> 365 \<and>
      (doe - march_days y = 365 \<longrightarrow> 4 dvd y + 1 \<and> (\<not> 100 dvd y + 1 \<or> 400 dvd y + 1))"
  proof (cases "?q = 400")
    case True
    then have "y = 399" by (simp add: y_def year_of_era_def)
    moreover have "march_days 399 = 145731" by (simp add: march_days_def)
    ultimately show ?thesis using q True assms(2) by simp
  next
    case False
    show ?thesis
    proof (cases "march_days ?q > doe")
      case True
      with False have y: "y = ?q - 1" by (simp add: y_def year_of_era_def Let_def)
      have p: "?q \<noteq> 0" using True assms(1) by (auto simp: march_days_def)
      have s: "march_days ?q = march_days y + 365 + (if 4 dvd ?q then 1 else 0) - (if 100 dvd ?q then 1 else 0)"
        using march_days_step [of y] by (simp add: y)
      have "(?q - 1) div 4 \<le> 100" "0 \<le> (?q - 1) div 100" using q p by simp_all
      then have "march_days y \<le> doe" using q by (simp add: y march_days_def)
      moreover have "doe - march_days y \<le> 365" "doe - march_days y = 365 \<Longrightarrow> 4 dvd ?q \<and> \<not> 100 dvd ?q"
        using s True by (simp_all split: if_splits)
      moreover have "0 \<le> y" "y < 400" "y + 1 = ?q" using q False p by (simp_all add: y)
      ultimately show ?thesis by simp
    next
      case False
      with \<open>?q \<noteq> 400\<close> q have "y = ?q" by (simp add: y_def year_of_era_def Let_def)
      with False q le \<open>?q \<noteq> 400\<close> show ?thesis by auto
    qed
  qed
  then show "0 \<le> y" and "y < 400" and "0 \<le> doe - march_days y" and "doe - march_days y \<le> 365"
    and "doe - march_days y = 365 \<Longrightarrow> 4 dvd y + 1 \<and> (\<not> 100 dvd y + 1 \<or> 400 dvd y + 1)" by simp_all
qed

text \<open>The month and day of a day of such a year.\<close>

lemma month_of_day:
  assumes "0 \<le> doy" and "doy \<le> 365"
  defines "mp \<equiv> (5 * doy + 2) div (153 :: int)"
  shows "0 \<le> mp" and "mp \<le> 11" and "0 \<le> doy - (153 * mp + 2) div 5"
    and "doy - (153 * mp + 2) div 5 + 1 \<le> (if mp = 11 then (if doy = 365 then 29 else 28) else if mp \<in> {1, 3, 6, 8} then 30 else 31)"
proof -
  show "0 \<le> mp" "mp \<le> 11" using assms by (simp_all add: mp_def)
  then have "mp = 0 \<or> mp = 1 \<or> mp = 2 \<or> mp = 3 \<or> mp = 4 \<or> mp = 5 \<or> mp = 6 \<or> mp = 7 \<or> mp = 8 \<or> mp = 9 \<or> mp = 10 \<or> mp = 11"
    by presburger
  moreover have "153 * mp \<le> 5 * doy + 2" "5 * doy + 2 < 153 * mp + 153" by (simp_all add: mp_def)
  ultimately show "0 \<le> doy - (153 * mp + 2) div 5"
    "doy - (153 * mp + 2) div 5 + 1 \<le> (if mp = 11 then (if doy = 365 then 29 else 28) else if mp \<in> {1, 3, 6, 8} then 30 else 31)"
    using assms(2) by (auto split: if_splits)
qed

text \<open>The date of a day is a date, and counting its days gives the day.\<close>

lemma leap_year_int: "0 \<le> y \<Longrightarrow> leap_year (nat y) \<longleftrightarrow> 4 dvd y \<and> (\<not> 100 dvd y \<or> 400 dvd y)"
  using int_dvd_int_iff [of 4 "nat y"] int_dvd_int_iff [of 100 "nat y"] int_dvd_int_iff [of 400 "nat y"]
  by (simp add: leap_year_def)

lemma leap_year_of_era:
  assumes "4 dvd yoe + 1 \<and> (\<not> 100 dvd yoe + 1 \<or> 400 dvd yoe + (1 :: int))" and "0 \<le> era * 400 + yoe + 1"
  shows "leap_year (nat (era * 400 + yoe + 1))"
proof -
  have "k dvd era * 400 + (yoe + 1) \<longleftrightarrow> k dvd yoe + 1" if "k dvd 400" for k
    using that by (simp add: dvd_add_right_iff)
  from this [of 4] this [of 100] this [of 400] assms show ?thesis by (simp add: leap_year_int add.assoc)
qed

lemma civil_date_parts:
  assumes "0 \<le> yoe" "yoe < 400" "0 \<le> doy" "doy \<le> 365" "0 \<le> mp" "mp \<le> 11"
    and "0 \<le> doy - (153 * mp + 2) div 5"
    and "doy - (153 * mp + 2) div 5 + 1 \<le> (if mp = 11 then (if doy = 365 then 29 else 28) else if mp \<in> {1, 3, 6, 8} then 30 else 31)"
    and "doy = 365 \<Longrightarrow> 4 dvd yoe + 1 \<and> (\<not> 100 dvd yoe + 1 \<or> 400 dvd yoe + 1)"
    and y: "y = era * 400 + yoe + (if mp < 10 then 0 else 1)" and m: "m = nat (if mp < 10 then mp + 3 else mp - 9)"
    and d: "d = nat (doy - (153 * mp + 2) div 5 + 1)" and "0 \<le> y"
  shows "civil_days (nat y) m d = era * 146097 + (march_days yoe + doy) - 719468" and "1 \<le> m \<and> m \<le> 12 \<and> 1 \<le> d"
    and "d \<le> days_in m (nat y)"
proof -
  have di: "int d = doy - (153 * mp + 2) div 5 + 1" using d assms(7) by simp
  have era: "(era * 400 + yoe) div 400 = era" using assms(1,2) by simp
  show "1 \<le> m \<and> m \<le> 12 \<and> 1 \<le> d" using m di assms(5-7) by (auto split: if_splits)
  show "civil_days (nat y) m d = era * 146097 + (march_days yoe + doy) - 719468"
  proof (cases "mp < 10")
    case True
    then have "m = nat (mp + 3)" "y = era * 400 + yoe" "\<not> nat (mp + 3) \<le> 2" using m y assms(5) by simp_all
    with di era assms(5,13) show ?thesis by (simp add: civil_days_def Let_def march_days_def)
  next
    case False
    then have "m = nat (mp - 9)" "y = era * 400 + yoe + 1" "nat (mp - 9) \<le> 2" using m y assms(6) by simp_all
    with di era assms(6,13) False show ?thesis by (simp add: civil_days_def Let_def march_days_def)
  qed
  show "d \<le> days_in m (nat y)"
  proof (cases "mp = 11")
    case True
    then have e: "m = 2" "y = era * 400 + yoe + 1" using m y by simp_all
    show ?thesis
    proof (cases "doy = 365")
      case True
      with e leap_year_of_era [OF assms(9)] assms(8,13) di \<open>mp = 11\<close> show ?thesis by (simp add: days_in_def)
    next
      case False
      with e assms(8) di \<open>mp = 11\<close> show ?thesis by (simp add: days_in_def)
    qed
  next
    case False
    then have "mp = 0 \<or> mp = 1 \<or> mp = 2 \<or> mp = 3 \<or> mp = 4 \<or> mp = 5 \<or> mp = 6 \<or> mp = 7 \<or> mp = 8 \<or> mp = 9 \<or> mp = 10"
      using assms(5,6) by presburger
    then show ?thesis using assms(8) di m False by (elim disjE) (simp_all add: days_in_def)
  qed
qed

theorem civil_date_correct:
  assumes "civil_date days = (y, m, d)" and "0 \<le> y"
  shows "civil_days (nat y) m d = days \<and> 1 \<le> m \<and> m \<le> 12 \<and> 1 \<le> d \<and> d \<le> days_in m (nat y)"
proof -
  define doe where "doe = (days + 719468) mod 146097"
  define era where "era = (days + 719468) div 146097"
  define yoe where "yoe = year_of_era doe"
  define doy where "doy = doe - march_days yoe"
  define mp where "mp = (5 * doy + 2) div 153"
  have doe: "0 \<le> doe" "doe < 146097" and z: "era * 146097 + doe = days + 719468" by (simp_all add: doe_def era_def)
  note e = year_of_era [OF doe, folded yoe_def, folded doy_def]
  note mo = month_of_day [OF e(3,4), folded mp_def]
  have "civil_date days = (era * 400 + yoe + (if (if mp < 10 then mp + 3 else mp - 9) \<le> 2 then 1 else 0),
      nat (if mp < 10 then mp + 3 else mp - 9), nat (doy - (153 * mp + 2) div 5 + 1))"
    by (simp only: civil_date_def Let_def doe_def [symmetric] era_def [symmetric] yoe_def [symmetric] doy_def [symmetric] mp_def [symmetric])
  with assms(1) mo(1,2) have "y = era * 400 + yoe + (if mp < 10 then 0 else 1)" "m = nat (if mp < 10 then mp + 3 else mp - 9)"
    "d = nat (doy - (153 * mp + 2) div 5 + 1)" by (simp_all split: if_splits)
  note parts = civil_date_parts [OF e(1,2,3,4) mo(1,2,3,4) e(5) this assms(2)]
  have "march_days yoe + doy = doe" by (simp add: doy_def)
  with parts z show ?thesis by simp
qed

section \<open>Reading it back\<close>

lemma fixed_num_pad2: "n < 100 \<Longrightarrow> fixed_num 2 (pad2 n @ r) = Some (n, r)"
  by (simp add: fixed_num_def pad2_def digits_val_def digit_char_props)

lemma fixed_num_pad4: "n < 10000 \<Longrightarrow> fixed_num 4 (pad4 n @ r) = Some (n, r)"
  by (simp add: fixed_num_def pad4_def pad2_def digits_val_def digit_char_props)

lemma lit_Cons [simp]: "lit c (c # r) = Some r"
  by (simp add: lit_def)

lemma frac_second_Z [simp]: "frac_second ''Z'' = (0, ''Z'')"
  by (simp add: frac_second_def)

lemma date_time_format:
  assumes "y < 10000" "1 \<le> m" "m \<le> 12" "1 \<le> d" "d \<le> days_in m y" "h < 24" "mi < 60" "sec < 60"
  shows "date_time (pad4 y @ ''-'' @ pad2 m @ ''-'' @ pad2 d @ ''T'' @ pad2 h @ '':'' @ pad2 mi @ '':'' @ pad2 sec @ ''Z'') =
     Some ((civil_days y m d * 86400 + int (h * 3600 + mi * 60 + sec)) * 1000000000, ''Z'')"
proof -
  have "d < 100" using assms(5) by (auto simp: days_in_def split: if_splits)
  moreover have "hour_num (pad2 h @ r) = Some (h, r)" for r using assms(6) by (simp add: hour_num_def fixed_num_pad2)
  ultimately show ?thesis using assms by (simp add: date_time_def fixed_num_pad4 fixed_num_pad2)
qed

text \<open>Parsing the text of a time of the years 0 to 9999 gives the start of its second.\<close>

lemma clock_parts: "n div 3600 * 3600 + n mod 3600 div 60 * 60 + n mod 60 = (n :: nat)"
proof -
  have "n mod 3600 div 60 * 60 + n mod 3600 mod 60 = n mod 3600" by (rule div_mult_mod_eq)
  moreover have "n mod 3600 mod 60 = n mod 60" by (rule mod_mod_cancel) simp
  ultimately show ?thesis using div_mult_mod_eq [of n 3600] by linarith
qed

theorem parse_format:
  assumes "civil_date (t div 1000000000 div 86400) = (y, m, d)" and "0 \<le> y" and "y < 10000"
  shows "parse_rfc3339 (format_rfc3339 t) = Some (t - t mod 1000000000)"
proof -
  let ?s = "t div 1000000000"
  let ?sod = "nat (?s mod 86400)"
  note c = civil_date_correct [OF assms(1,2)]
  have sod: "?sod < 86400" by (simp add: nat_less_iff)
  have f: "format_rfc3339 t = pad4 (nat y) @ ''-'' @ pad2 m @ ''-'' @ pad2 d @ ''T'' @ pad2 (?sod div 3600) @ '':'' @
      pad2 (?sod mod 3600 div 60) @ '':'' @ pad2 (?sod mod 60) @ ''Z''"
    using assms(1,2) by (simp add: format_rfc3339_def Let_def)
  note hms = clock_parts [of ?sod]
  have b: "nat y < 10000" "?sod div 3600 < 24" "?sod mod 3600 div 60 < 60" "?sod mod 60 < 60"
    using assms(2,3) sod by simp_all
  have "date_time (format_rfc3339 t) = Some ((civil_days (nat y) m d * 86400 + int ?sod) * 1000000000, ''Z'')"
    unfolding f by (rule date_time_format [OF b(1) _ _ _ _ b(2-4), of m d, unfolded hms]) (use c in simp_all)
  moreover have "int ?sod = ?s mod 86400" by simp
  moreover have "civil_days (nat y) m d * 86400 + ?s mod 86400 = ?s" using c by simp
  moreover have "?s * 1000000000 = t - t mod 1000000000" by (rule minus_mod_eq_div_mult [symmetric])
  ultimately have "date_time (format_rfc3339 t) = Some (t - t mod 1000000000, ''Z'')" by (simp only:)
  then show ?thesis by (simp add: parse_rfc3339_def zone_offset_def)
qed

text \<open>The times from 1970 to the end of the year 9999 are such times.\<close>

lemma civil_year_range:
  assumes "0 \<le> days" and "days < 2932897"
  shows "\<exists>y m d. civil_date days = (y, m, d) \<and> 0 \<le> y \<and> y < 10000"
proof -
  define doe where "doe = (days + 719468) mod 146097"
  define era where "era = (days + 719468) div 146097"
  define yoe where "yoe = year_of_era doe"
  define mp where "mp = (5 * (doe - march_days yoe) + 2) div 153"
  have doe: "0 \<le> doe" "doe < 146097" and z: "era * 146097 + doe = days + 719468" by (simp_all add: doe_def era_def)
  note e = year_of_era [OF doe, folded yoe_def]
  have era: "0 \<le> era" "era \<le> 24" using z doe assms by linarith+
  have last: "mp < 10" if "era = 24" "yoe = 399"
  proof -
    have "march_days 399 = 145731" by (simp add: march_days_def)
    then have "doe - march_days yoe < 306" using that z assms(2) by simp
    then show ?thesis by (simp add: mp_def)
  qed
  let ?m = "if mp < 10 then mp + 3 else mp - 9"
  obtain m d where c: "civil_date days = (era * 400 + yoe + (if ?m \<le> 2 then 1 else 0), m, d)"
    by (auto simp: civil_date_def Let_def doe_def era_def yoe_def mp_def)
  have mp0: "0 \<le> mp" using e(3) by (simp add: mp_def)
  have "0 \<le> era * 400 + yoe + (if ?m \<le> 2 then 1 else 0)" using era e(1) by simp
  moreover have "era * 400 + yoe + (if ?m \<le> 2 then 1 else 0) < 10000"
  proof (cases "era = 24 \<and> yoe = 399")
    case True
    with last mp0 show ?thesis by simp
  next
    case False
    with era e(2) show ?thesis by auto
  qed
  ultimately show ?thesis using c by blast
qed

lemma parse_format_time:
  assumes "0 \<le> t" and "t < 253402300800 * 1000000000"
  shows "parse_rfc3339 (format_rfc3339 t) = Some (t - t mod 1000000000)"
proof -
  have "0 \<le> t div 1000000000 div 86400" "t div 1000000000 div 86400 < 2932897" using assms by simp_all
  from civil_year_range [OF this] show ?thesis by (elim exE conjE) (rule parse_format)
qed

end
