(* ===== verification/Iam.thy ===== *)
theory Iam
  imports Auth TimeText
begin

text \<open>
  The management client of the identity provider (\<open>backend/libs/iam\<close>): users, clients with their keys and tokens, and
  roles, each operation a sequence of requests to ZITADEL.

  What is outside has a state \<open>'s\<close> and is the record \<open>provider\<close>: reading a file, sending a request, which is answered
  with a status and a body or not at all, and the clock. The pure functions of libraries are the record \<open>codecs\<close>: the
  JSON decoders of the answers and the encoder of a description, the check of a request URL, and the decoding of a public
  key (PEM, base64, X.509). Every request is a POST. Lists are sorted stably; \<open>sort.Slice\<close> may order elements with equal
  keys otherwise.
\<close>

section \<open>Data\<close>

record zitadel_human =
  zh_given_name :: string
  zh_family_name :: string
  zh_display_name :: string
  zh_email :: string
  zh_verified :: bool

record zitadel_user =
  zu_user_id :: string
  zu_username :: string
  zu_login_name :: string
  zu_state :: string
  zu_created :: string
  zu_changed :: string
  zu_human :: "zitadel_human option"
  zu_machine :: "(string \<times> string) option"  \<comment> \<open>name and description\<close>

record managed_role =
  mr_key :: string
  mr_display_name :: string
  mr_group :: string

record zitadel_authorization =
  za_id :: string
  za_state :: string
  za_project :: string
  za_user :: string
  za_roles :: "managed_role list"

record zitadel_pat =
  zp_created :: string
  zp_changed :: string
  zp_id :: string
  zp_user :: string
  zp_org :: string
  zp_expires :: string

record zitadel_key =
  zk_id :: string
  zk_user :: string
  zk_created :: string
  zk_changed :: string
  zk_expires :: string

record managed_user =
  mu_id :: string
  mu_username :: string
  mu_login_name :: string
  mu_display_name :: string
  mu_given_name :: string
  mu_family_name :: string
  mu_email :: string
  mu_verified :: bool
  mu_state :: string
  mu_type :: string
  mu_created :: string
  mu_changed :: string
  mu_roles :: "string list"

record token_summary =
  ts_id :: string
  ts_created :: string
  ts_changed :: string
  ts_expires :: string
  ts_status :: string

record credential_summary =
  cs_id :: string
  cs_type :: string
  cs_created :: string
  cs_changed :: string
  cs_expires :: string
  cs_status :: string

record managed_client =
  ml_id :: string
  ml_username :: string
  ml_name :: string
  ml_description :: string
  ml_environment :: string
  ml_owner_email :: string
  ml_purpose :: string
  ml_role :: string
  ml_state :: string
  ml_created :: string
  ml_changed :: string
  ml_tokens :: "token_summary list"
  ml_credentials :: "credential_summary list"

definition no_client :: managed_client where
  "no_client = \<lparr>ml_id = [], ml_username = [], ml_name = [], ml_description = [], ml_environment = [], ml_owner_email = [],
     ml_purpose = [], ml_role = [], ml_state = [], ml_created = [], ml_changed = [], ml_tokens = [], ml_credentials = []\<rparr>"

record client_token =
  tk_client_id :: string
  tk_username :: string
  tk_name :: string
  tk_description :: string
  tk_environment :: string
  tk_owner_email :: string
  tk_purpose :: string
  tk_role :: string
  tk_token_id :: string
  tk_token :: string
  tk_created :: string
  tk_expires :: string

text \<open>What a client is created from, with a key or with a token; the public key is empty for a token.\<close>

record client_create =
  cc_username :: string
  cc_name :: string
  cc_description :: string
  cc_environment :: string
  cc_owner_email :: string
  cc_purpose :: string
  cc_public_key :: string
  cc_expires_at :: string

record user_create =
  uc_username :: string
  uc_given_name :: string
  uc_family_name :: string
  uc_email :: string
  uc_password :: string
  uc_change_required :: bool
  uc_roles :: "string list"

record user_update =
  uu_username :: string
  uu_given_name :: string
  uu_family_name :: string
  uu_display_name :: string
  uu_email :: string
  uu_roles :: "string list option"

section \<open>Configuration\<close>

definition defaultClientCredentialLifetime :: int where "defaultClientCredentialLifetime = 90 * 24 * 3600 * 1000000000"
definition maxClientCredentialLifetime :: int where "maxClientCredentialLifetime = 365 * 24 * 3600 * 1000000000"

record management_config =
  mc_base_url :: string
  mc_public_host :: string
  mc_owner_pat_file :: string
  mc_bootstrap_file :: string
  mc_default_lifetime :: int
  mc_max_lifetime :: int
  mc_pat_creation :: bool
  mc_pat_rotation :: bool

record frontend_config =
  fc_enabled :: bool
  fc_authority :: string
  fc_client_id :: string

text \<open>\<open>filepath.Clean\<close> of a rooted path; \<open>IsAbs\<close>.\<close>

fun clean_parts :: "string list \<Rightarrow> string list \<Rightarrow> string list" where
  "clean_parts up [] = rev up"
| "clean_parts up (p # ps) = (if p = [] \<or> p = ''.'' then clean_parts up ps
     else if p = ''..'' then clean_parts (tl up) ps else clean_parts (p # up) ps)"

definition clean_path :: "string \<Rightarrow> string" where
  "clean_path p = ''/'' @ join_with ''/'' (clean_parts [] (split_at_char CHR ''/'' p))"

definition cleanTrustedConfigFilePath :: "string \<Rightarrow> go_err + string" where
  "cleanTrustedConfigFilePath raw = (let path = trim_space raw in
     if path = [] then Inl (Msg ''trusted config file path is empty'')
     else if \<not> has_prefix path ''/'' then Inl (Msg ''trusted config file path must be absolute'')
     else Inr (clean_path path))"

definition iam_firstNonEmpty :: "string list \<Rightarrow> string" where
  "iam_firstNonEmpty vs = (case filter (\<lambda>v. v \<noteq> []) (map trim_space vs) of [] \<Rightarrow> [] | v # _ \<Rightarrow> v)"

text \<open>Environment variables and files are functions here; an unset variable is empty.\<close>

definition readFrontendClientIDFile :: "(string \<Rightarrow> go_err + string) \<Rightarrow> string \<Rightarrow> string" where
  "readFrontendClientIDFile readFile path = (if trim_space path = [] then []
     else (case cleanTrustedConfigFilePath (trim_space path) of
         Inl _ \<Rightarrow> []
       | Inr p \<Rightarrow> (case readFile p of Inl _ \<Rightarrow> [] | Inr content \<Rightarrow> trim_space content)))"

definition ResolveFrontendAuthConfigFromEnv :: "(string \<Rightarrow> string) \<Rightarrow> (string \<Rightarrow> go_err + string) \<Rightarrow> frontend_config" where
  "ResolveFrontendAuthConfigFromEnv getenv readFile =
     (let authority = iam_firstNonEmpty [getenv ''FRONTEND_AUTH_OIDC_AUTHORITY'', getenv ''VITE_OIDC_AUTHORITY''];
          client0 = iam_firstNonEmpty [getenv ''FRONTEND_AUTH_OIDC_CLIENT_ID'', getenv ''VITE_OIDC_CLIENT_ID''];
          client = (if client0 = [] then readFrontendClientIDFile readFile (getenv ''FRONTEND_AUTH_OIDC_CLIENT_ID_FILE'') else client0)
      in \<lparr>fc_enabled = (authority \<noteq> [] \<and> client \<noteq> []), fc_authority = authority, fc_client_id = client\<rparr>)"

definition envValue :: "(string \<Rightarrow> string) \<Rightarrow> string \<Rightarrow> string" where
  "envValue getenv name = trim_space (getenv name)"

definition boundedDurationEnv :: "(string \<Rightarrow> string) \<Rightarrow> string \<Rightarrow> int \<Rightarrow> int \<Rightarrow> int \<Rightarrow> int" where
  "boundedDurationEnv getenv name fallback minimum maximum = (let v = envValue getenv name in
     if v = [] then fallback
     else (case ParseDuration v of Inl _ \<Rightarrow> fallback
       | Inr d \<Rightarrow> if d < minimum \<or> d > maximum then fallback else d))"

definition envBool :: "(string \<Rightarrow> string) \<Rightarrow> string \<Rightarrow> bool" where
  "envBool getenv name = (let v = envValue getenv name in equal_fold v ''true'' \<or> v = ''1'')"

definition hostFromURL :: "(string \<Rightarrow> go_err + url) \<Rightarrow> string \<Rightarrow> string" where
  "hostFromURL parse raw = (case parse (trim_space raw) of Inl _ \<Rightarrow> [] | Inr u \<Rightarrow> u_host u)"

definition trim_right_slashes :: "string \<Rightarrow> string" where
  "trim_right_slashes s = rev (dropWhile (\<lambda>c. c = CHR ''/'') (rev s))"

definition ResolveZITADELManagementConfigFromEnv ::
  "(string \<Rightarrow> string) \<Rightarrow> (string \<Rightarrow> go_err + url) \<Rightarrow> auth_config \<Rightarrow> frontend_config \<Rightarrow> management_config" where
  "ResolveZITADELManagementConfigFromEnv getenv parse ac fc =
     (let base = iam_firstNonEmpty [getenv ''ZITADEL_MANAGEMENT_URL'', cf_internal_issuer ac, fc_authority fc, cf_external_issuer ac];
          host0 = envValue getenv ''ZITADEL_PUBLIC_HOST'';
          host = (if host0 = [] then hostFromURL parse (iam_firstNonEmpty [cf_external_issuer ac, fc_authority fc, base]) else host0);
          pat0 = envValue getenv ''ZITADEL_OWNER_PAT_FILE'';
          boot0 = envValue getenv ''ARTIFICIALFLOW_ZITADEL_BOOTSTRAP_STATE_FILE'';
          life = boundedDurationEnv getenv ''ARTIFICIALFLOW_IAM_CLIENT_KEY_DEFAULT_LIFETIME'' defaultClientCredentialLifetime
            3600000000000 maxClientCredentialLifetime;
          longest = boundedDurationEnv getenv ''ARTIFICIALFLOW_IAM_CLIENT_KEY_MAX_LIFETIME'' maxClientCredentialLifetime life
            maxClientCredentialLifetime
      in \<lparr>mc_base_url = trim_right_slashes base, mc_public_host = host,
          mc_owner_pat_file = (if pat0 = [] then ''/zitadel/bootstrap/owner.pat'' else pat0),
          mc_bootstrap_file = (if boot0 = [] then ''/artificialflow/bootstrap/artificialflow-zitadel.json'' else boot0),
          mc_default_lifetime = life, mc_max_lifetime = longest,
          mc_pat_creation = envBool getenv ''ARTIFICIALFLOW_IAM_ENABLE_LEGACY_PAT_CREATION'',
          mc_pat_rotation = envBool getenv ''ARTIFICIALFLOW_IAM_ENABLE_LEGACY_PAT_ROTATION''\<rparr>)"

record deployment_config =
  dp_mode :: string
  dp_provider_name :: string
  dp_source :: string
  dp_auth :: auth_config
  dp_frontend :: frontend_config
  dp_management :: management_config

definition DeploymentModeDisabled :: string where "DeploymentModeDisabled = ''disabled''"
definition DeploymentModeExternal :: string where "DeploymentModeExternal = ''external''"
definition DeploymentModeZITADEL :: string where "DeploymentModeZITADEL = ''zitadel''"

definition normalizeDeploymentMode :: "string \<Rightarrow> string" where
  "normalizeDeploymentMode raw = (let m = to_lower (trim_space raw) in
     if m \<in> {''external'', ''enterprise''} then DeploymentModeExternal
     else if m \<in> {''zitadel'', ''bundled'', ''internal'', ''solution''} then DeploymentModeZITADEL
     else if m \<in> {''disabled'', ''off'', ''none''} then DeploymentModeDisabled else [])"

definition ResolveDeploymentConfigFromEnv ::
  "(string \<Rightarrow> string) \<Rightarrow> (string \<Rightarrow> int \<Rightarrow> string) \<Rightarrow> (string \<Rightarrow> go_err + string) \<Rightarrow> (string \<Rightarrow> go_err + url) \<Rightarrow> deployment_config" where
  "ResolveDeploymentConfigFromEnv getenv cred readFile parse =
     (let ac = ResolveConfigFromEnv getenv cred; fc = ResolveFrontendAuthConfigFromEnv getenv readFile;
          mode0 = normalizeDeploymentMode (getenv ''IAM_DEPLOYMENT_MODE'');
          mode = (if mode0 \<noteq> [] then mode0 else if Enabled ac \<or> fc_enabled fc then DeploymentModeExternal else DeploymentModeDisabled);
          name0 = trim_space (getenv ''IAM_PROVIDER_NAME'')
      in \<lparr>dp_mode = mode,
          dp_provider_name = (if name0 \<noteq> [] then name0 else if mode = DeploymentModeZITADEL then ''ZITADEL''
            else if mode = DeploymentModeExternal then ''External OIDC Provider'' else ''Disabled''),
          dp_source = ''docker-compose'', dp_auth = ac, dp_frontend = fc,
          dp_management = ResolveZITADELManagementConfigFromEnv getenv parse ac fc\<rparr>)"

section \<open>Requests\<close>

record http_request =
  hr_url :: string
  hr_host :: string
  hr_token :: string
  hr_body :: val

datatype http_answer = NoAnswer go_err | Answer int string

record 's provider =
  pv_read :: "string \<Rightarrow> 's \<Rightarrow> (go_err + string) \<times> 's"
  pv_send :: "http_request \<Rightarrow> 's \<Rightarrow> http_answer \<times> 's"
  pv_now :: "'s \<Rightarrow> int \<times> 's"

record codecs =
  cd_bad_url :: "string \<Rightarrow> go_err option"
  cd_error :: "string \<Rightarrow> string \<times> string"
  cd_bootstrap :: "string \<Rightarrow> go_err + string \<times> string"
  cd_users :: "string \<Rightarrow> go_err + zitadel_user list"
  cd_user :: "string \<Rightarrow> go_err + zitadel_user"
  cd_authorizations :: "string \<Rightarrow> go_err + zitadel_authorization list"
  cd_pats :: "string \<Rightarrow> go_err + zitadel_pat list"
  cd_keys :: "string \<Rightarrow> go_err + zitadel_key list \<times> zitadel_key list"
  cd_roles :: "string \<Rightarrow> go_err + managed_role list"
  cd_created :: "string \<Rightarrow> go_err + string"
  cd_new_pat :: "string \<Rightarrow> go_err + string \<times> string \<times> string"  \<comment> \<open>creation date, id, token\<close>
  cd_new_key :: "string \<Rightarrow> go_err + string \<times> string \<times> string"  \<comment> \<open>id, key id, creation date\<close>
  cd_describe :: "(string \<times> string) list \<Rightarrow> string"
  cd_description :: "string \<Rightarrow> go_err + string \<times> string \<times> string \<times> string"
  cd_pem :: "string \<Rightarrow> (string \<times> string) option"  \<comment> \<open>type and bytes of the block\<close>
  cd_base64 :: "string \<Rightarrow> string option"
  cd_spki :: "string \<Rightarrow> nat option option"  \<comment> \<open>the bits of an RSA key, or another kind of key\<close>
  cd_public_pem :: "string \<Rightarrow> string"
  cd_base64_text :: "string \<Rightarrow> string"

definition ErrZITADELManagementNotConfigured :: go_err where
  "ErrZITADELManagementNotConfigured = Msg ''zitadel management is not configured''"
definition ErrZITADELManagedClientNotFound :: go_err where
  "ErrZITADELManagedClientNotFound = Msg ''zitadel managed client not found''"
definition ErrInvalidClientPublicKey :: go_err where
  "ErrInvalidClientPublicKey = Msg ''client public key must be an RSA SPKI public key of at least 2048 bits''"
definition ErrInvalidClientCredentialExpiry :: go_err where
  "ErrInvalidClientCredentialExpiry = Msg ''client credential expiry must be in the future and no more than 365 days away''"
definition ErrLegacyPATCreationDisabled :: go_err where
  "ErrLegacyPATCreationDisabled = Msg ''legacy PAT creation is disabled''"
definition ErrLegacyPATRotationDisabled :: go_err where
  "ErrLegacyPATRotationDisabled = Msg ''legacy PAT rotation is disabled''"

text \<open>An operation on the outside state, and the reading of the clock.\<close>

definition readTrustedConfigFile :: "'s provider \<Rightarrow> string \<Rightarrow> ('s, string) go" where
  "readTrustedConfigFile w raw = (case cleanTrustedConfigFilePath raw of
       Inl e \<Rightarrow> throw e
     | Inr path \<Rightarrow> (\<lambda>s. case pv_read w path s of (Inl e, t) \<Rightarrow> (Error e, t) | (Inr content, t) \<Rightarrow> (Ok content, t)))"

definition providerNow :: "'s provider \<Rightarrow> ('s, int) go" where
  "providerNow w = (\<lambda>s. case pv_now w s of (n, t) \<Rightarrow> (Ok n, t))"

definition readOwnerToken :: "'s provider \<Rightarrow> management_config \<Rightarrow> ('s, string) go" where
  "readOwnerToken w cfg = (let path = trim_space (mc_owner_pat_file cfg) in
     if path = [] then throw ErrZITADELManagementNotConfigured
     else bindE (mapErr (Wrapf ''read ZITADEL owner PAT'') (readTrustedConfigFile w path)) (\<lambda>content.
       if trim_space content = [] then throw ErrZITADELManagementNotConfigured else ret (trim_space content)))"

text \<open>The organisation and the project.\<close>

definition readBootstrapState :: "'s provider \<Rightarrow> codecs \<Rightarrow> management_config \<Rightarrow> ('s, string \<times> string) go" where
  "readBootstrapState w cd cfg = (let path = trim_space (mc_bootstrap_file cfg) in
     if path = [] then throw ErrZITADELManagementNotConfigured
     else bindE (mapErr (Wrapf ''read ZITADEL bootstrap state'') (readTrustedConfigFile w path)) (\<lambda>content.
       case cd_bootstrap cd content of
         Inl e \<Rightarrow> throw (Wrapf ''decode ZITADEL bootstrap state'' e)
       | Inr (org, project) \<Rightarrow> if trim_space org = [] \<or> trim_space project = []
           then throw ErrZITADELManagementNotConfigured else ret (org, project)))"

text \<open>
  \<open>decode\<close> reads the body of the answer into the target, which keeps its zero value \<open>zero\<close> when the body is empty;
  without a target it is \<open>no_target\<close>.
\<close>

definition no_target :: "string \<Rightarrow> go_err + unit" where "no_target = (\<lambda>_. Inr ())"

definition requestJSON ::
  "'s provider \<Rightarrow> codecs \<Rightarrow> management_config \<Rightarrow> string \<Rightarrow> string \<Rightarrow> val \<Rightarrow> (string \<Rightarrow> go_err + 'a) \<Rightarrow> 'a \<Rightarrow> ('s, 'a) go" where
  "requestJSON w cd cfg path token payload decode zero = (let base = trim_space (mc_base_url cfg) in
     if base = [] then throw ErrZITADELManagementNotConfigured
     else (case cd_bad_url cd (base @ path) of
         Some e \<Rightarrow> throw e
       | None \<Rightarrow> (\<lambda>s. case pv_send w \<lparr>hr_url = base @ path, hr_host = mc_public_host cfg, hr_token = token, hr_body = payload\<rparr> s of
             (NoAnswer e, t) \<Rightarrow> (Error e, t)
           | (Answer code body, t) \<Rightarrow>
               (if code < 200 \<or> code \<ge> 300 then Error (case cd_error cd body of (c, m) \<Rightarrow> ZitadelError code c m)
                else if body = [] then Ok zero
                else (case decode body of Inl e \<Rightarrow> Error (Wrapf ''decode ZITADEL response'' e) | Inr x \<Rightarrow> Ok x), t))))"

definition connect ::
  "'s provider \<Rightarrow> codecs \<Rightarrow> management_config \<Rightarrow> string \<Rightarrow> (string \<times> val) list \<Rightarrow> (string \<Rightarrow> go_err + 'a) \<Rightarrow> 'a \<Rightarrow> ('s, 'a) go" where
  "connect w cd cfg path payload decode zero =
     bindE (readOwnerToken w cfg) (\<lambda>token. requestJSON w cd cfg path token (VMap payload) decode zero)"

section \<open>Keys and expiry\<close>

definition parseClientPublicKey :: "codecs \<Rightarrow> string \<Rightarrow> go_err + string" where
  "parseClientPublicKey cd v = (let raw = trim_space v in
     (case (case cd_pem cd raw of
          Some (ty, bytes) \<Rightarrow> if ty = ''PUBLIC KEY'' then Some bytes else None
        | None \<Rightarrow> cd_base64 cd raw) of
        None \<Rightarrow> Inl ErrInvalidClientPublicKey
      | Some bytes \<Rightarrow> (case cd_spki cd bytes of
            Some (Some bits) \<Rightarrow> if bits < 2048 then Inl ErrInvalidClientPublicKey else Inr (cd_public_pem cd bytes)
          | _ \<Rightarrow> Inl ErrInvalidClientPublicKey)))"

definition clientCredentialExpirationWithLimits :: "string \<Rightarrow> int \<Rightarrow> int \<Rightarrow> int \<Rightarrow> go_err + string" where
  "clientCredentialExpirationWithLimits v now default0 max0 =
     (let life = (if default0 = 0 then defaultClientCredentialLifetime else default0);
          longest = (if max0 = 0 then maxClientCredentialLifetime else max0)
      in if life \<le> 0 \<or> longest \<le> 0 \<or> life > longest then Inl ErrInvalidClientCredentialExpiry
         else (case (if trim_space v = [] then Some (now + life) else parse_rfc3339 (trim_space v)) of
             None \<Rightarrow> Inl ErrInvalidClientCredentialExpiry
           | Some expires \<Rightarrow> if expires \<le> now \<or> expires > now + longest then Inl ErrInvalidClientCredentialExpiry
               else Inr (format_rfc3339 expires)))"

definition clientTokenExpiration :: "'s provider \<Rightarrow> string \<Rightarrow> ('s, string) go" where
  "clientTokenExpiration w v = (if trim_space v \<noteq> [] then ret (trim_space v)
     else bindE (providerNow w) (\<lambda>now. ret (format_rfc3339 (now + 365 * 24 * 3600 * 1000000000))))"

definition credentialStatus :: "'s provider \<Rightarrow> string \<Rightarrow> ('s, string) go" where
  "credentialStatus w expires = (case parse_rfc3339 expires of
       None \<Rightarrow> ret ''active''
     | Some t \<Rightarrow> bindE (providerNow w) (\<lambda>now. ret (if now > t then ''expired'' else ''active'')))"

section \<open>Views of the provider's data\<close>

definition roleKeysContain :: "string list \<Rightarrow> string \<Rightarrow> bool" where
  "roleKeysContain vs role = list_ex (\<lambda>v. equal_fold (CanonicalRole v) (CanonicalRole role)) vs"

definition normalizeRoleKeys :: "string list \<Rightarrow> string list" where
  "normalizeRoleKeys vs = sort (CanonicalizeRoles vs)"

definition displayName :: "string \<Rightarrow> string \<Rightarrow> string" where
  "displayName given family = trim_space (trim_space given @ '' '' @ trim_space family)"

definition authorizationIsActive :: "string \<Rightarrow> bool" where
  "authorizationIsActive st \<longleftrightarrow> st = [] \<or> equal_fold st ''STATE_ACTIVE''"

definition hiddenIdentities :: "string list" where
  "hiddenIdentities = [''workflow-login-client'', ''login-client'', ''artificialflow-bootstrap'']"

definition is_hidden :: "string \<Rightarrow> bool" where
  "is_hidden name = list_ex (\<lambda>h. equal_fold (trim_space name) h) hiddenIdentities"

definition managedUserFromZitadel :: "zitadel_user \<Rightarrow> managed_user" where
  "managedUserFromZitadel u =
     (let login = (if zu_login_name u = [] then zu_username u else zu_login_name u);
          display = (case zu_machine u of Some (name, _) \<Rightarrow> name
            | None \<Rightarrow> (case zu_human u of Some h \<Rightarrow> zh_display_name h | None \<Rightarrow> []))
      in \<lparr>mu_id = zu_user_id u, mu_username = zu_username u, mu_login_name = login,
          mu_display_name = (if display = [] then login else display),
          mu_given_name = (case zu_human u of Some h \<Rightarrow> zh_given_name h | None \<Rightarrow> []),
          mu_family_name = (case zu_human u of Some h \<Rightarrow> zh_family_name h | None \<Rightarrow> []),
          mu_email = (case zu_human u of Some h \<Rightarrow> zh_email h | None \<Rightarrow> []),
          mu_verified = (case zu_human u of Some h \<Rightarrow> zh_verified h | None \<Rightarrow> False),
          mu_state = zu_state u,
          mu_type = (if zu_machine u \<noteq> None then ''machine'' else if zu_human u \<noteq> None then ''human'' else []),
          mu_created = zu_created u, mu_changed = zu_changed u, mu_roles = []\<rparr>)"

definition client_prefix :: string where "client_prefix = ''artificialflow-client:''"

definition encodeClientDescription :: "codecs \<Rightarrow> managed_client \<Rightarrow> string" where
  "encodeClientDescription cd c = client_prefix @ cd_describe cd
     [(''description'', trim_space (ml_description c)), (''environment'', trim_space (ml_environment c)),
      (''owner_email'', trim_space (ml_owner_email c)), (''purpose'', trim_space (ml_purpose c))]"

definition decodeClientDescription :: "codecs \<Rightarrow> string \<Rightarrow> string \<times> string \<times> string \<times> string" where
  "decodeClientDescription cd v = (let trimmed = trim_space v in
     if trimmed = [] then ([], [], [], [])
     else let raw = (if has_prefix (to_lower trimmed) client_prefix then drop (length client_prefix) trimmed else trimmed) in
       if \<not> has_prefix raw ''{'' then (trimmed, [], [], [])
       else (case cd_description cd raw of Inl _ \<Rightarrow> (trimmed, [], [], []) | Inr decoded \<Rightarrow> decoded))"

definition managedClientFromZitadel :: "codecs \<Rightarrow> zitadel_user \<Rightarrow> managed_client" where
  "managedClientFromZitadel cd u =
     (let name0 = (case zu_machine u of Some (name, _) \<Rightarrow> name | None \<Rightarrow> []);
          name1 = (if name0 = [] then zu_login_name u else name0)
      in (case (case zu_machine u of Some (_, d) \<Rightarrow> decodeClientDescription cd d | None \<Rightarrow> ([], [], [], [])) of
            (description, environment, owner, purpose) \<Rightarrow>
              no_client\<lparr>ml_id := zu_user_id u, ml_username := zu_username u, ml_state := zu_state u, ml_created := zu_created u,
                ml_changed := zu_changed u, ml_name := (if name1 = [] then zu_username u else name1),
                ml_description := description, ml_environment := environment, ml_owner_email := owner, ml_purpose := purpose\<rparr>))"

definition managedUserIsVisible :: "managed_user \<Rightarrow> bool" where
  "managedUserIsVisible u \<longleftrightarrow> mu_type u \<noteq> ''machine'' \<and>
     \<not> list_ex is_hidden [mu_username u, mu_login_name u, mu_display_name u, mu_email u]"

definition managedClientIsVisible :: "managed_client \<Rightarrow> bool" where
  "managedClientIsVisible c \<longleftrightarrow> trim_space (ml_id c) \<noteq> [] \<and> \<not> list_ex is_hidden [ml_username c, ml_name c]"

definition managedClientTokenSummaryFromZitadel :: "'s provider \<Rightarrow> zitadel_pat \<Rightarrow> ('s, token_summary) go" where
  "managedClientTokenSummaryFromZitadel w t = bindE (credentialStatus w (zp_expires t)) (\<lambda>st.
     ret \<lparr>ts_id = zp_id t, ts_created = zp_created t, ts_changed = zp_changed t, ts_expires = zp_expires t, ts_status = st\<rparr>)"

definition managedClientKeySummaryFromZitadel :: "'s provider \<Rightarrow> zitadel_key \<Rightarrow> ('s, credential_summary) go" where
  "managedClientKeySummaryFromZitadel w k = bindE (credentialStatus w (zk_expires k)) (\<lambda>st.
     ret \<lparr>cs_id = zk_id k, cs_type = ''private_key_jwt'', cs_created = zk_created k, cs_changed = zk_changed k,
       cs_expires = zk_expires k, cs_status = st\<rparr>)"

definition managedClientPATSummary :: "token_summary \<Rightarrow> credential_summary" where
  "managedClientPATSummary t = \<lparr>cs_id = ts_id t, cs_type = ''pat'', cs_created = ts_created t, cs_changed = ts_changed t,
     cs_expires = ts_expires t, cs_status = ts_status t\<rparr>"

end
