(* ===== verification/IamOps.thy ===== *)
theory IamOps
  imports Iam
begin

text \<open>The operations of the management client (\<open>zitadel_management_client.go\<close>).\<close>

definition user_rpc :: "string \<Rightarrow> string" where "user_rpc m = ''/zitadel.user.v2.UserService/'' @ m"
definition project_rpc :: "string \<Rightarrow> string" where "project_rpc m = ''/zitadel.project.v2.ProjectService/'' @ m"
definition authorization_rpc :: "string \<Rightarrow> string" where "authorization_rpc m = ''/zitadel.authorization.v2.AuthorizationService/'' @ m"

primrec eachE :: "('x \<Rightarrow> ('s, 'y) go) \<Rightarrow> 'x list \<Rightarrow> ('s, 'y list) go" where
  "eachE f [] = ret []"
| "eachE f (x # xs) = bindE (f x) (\<lambda>y. bindE (eachE f xs) (\<lambda>ys. ret (y # ys)))"

text \<open>\<open>sort.Slice\<close> on a key, ascending by lower-cased name or descending by a date.\<close>

definition by_name :: "('a \<Rightarrow> string) \<Rightarrow> 'a list \<Rightarrow> 'a list" where
  "by_name f xs = sort_key (\<lambda>x. to_lower (f x)) xs"

definition newest :: "('a \<Rightarrow> string) \<Rightarrow> 'a list \<Rightarrow> 'a list" where
  "newest f xs = rev (sort_key f (rev xs))"

section \<open>Reading\<close>

definition listAuthorizations :: "'s provider \<Rightarrow> codecs \<Rightarrow> management_config \<Rightarrow> ('s, zitadel_authorization list) go" where
  "listAuthorizations w cd cfg = connect w cd cfg (authorization_rpc ''ListAuthorizations'')
     [(''pagination'', VMap [(''limit'', VStr ''500'')])] (cd_authorizations cd) []"

definition findUserAuthorization ::
  "'s provider \<Rightarrow> codecs \<Rightarrow> management_config \<Rightarrow> string \<Rightarrow> string \<Rightarrow> ('s, zitadel_authorization option) go" where
  "findUserAuthorization w cd cfg project user = bindE (listAuthorizations w cd cfg) (\<lambda>as.
     ret (List.find (\<lambda>a. za_project a = project \<and> za_user a = user) as))"

definition listPersonalAccessTokens :: "'s provider \<Rightarrow> codecs \<Rightarrow> management_config \<Rightarrow> string \<Rightarrow> ('s, zitadel_pat list) go" where
  "listPersonalAccessTokens w cd cfg org = bindE (connect w cd cfg (user_rpc ''ListPersonalAccessTokens'')
       [(''pagination'', VMap [(''limit'', VStr ''1000'')]),
        (''sortingColumn'', VStr ''PERSONAL_ACCESS_TOKEN_FIELD_NAME_CREATED_DATE'')] (cd_pats cd) []) (\<lambda>ts.
     ret (if trim_space org = [] then ts else filter (\<lambda>t. zp_org t = [] \<or> zp_org t = org) ts))"

definition listKeysForUser :: "'s provider \<Rightarrow> codecs \<Rightarrow> management_config \<Rightarrow> string \<Rightarrow> ('s, zitadel_key list) go" where
  "listKeysForUser w cd cfg user = bindE (connect w cd cfg (user_rpc ''ListKeys'')
       [(''userId'', VStr (trim_space user)), (''pagination'', VMap [(''limit'', VStr ''100'')])] (cd_keys cd) ([], [])) (\<lambda>(ks, rs).
     ret (map (\<lambda>k. if zk_user k = [] then k\<lparr>zk_user := trim_space user\<rparr> else k) (if ks = [] then rs else ks)))"

text \<open>The zero value of a user.\<close>

definition no_user :: zitadel_user where
  "no_user = \<lparr>zu_user_id = [], zu_username = [], zu_login_name = [], zu_state = [], zu_created = [], zu_changed = [],
     zu_human = None, zu_machine = None\<rparr>"

definition fetch_user :: "'s provider \<Rightarrow> codecs \<Rightarrow> management_config \<Rightarrow> string \<Rightarrow> ('s, zitadel_user) go" where
  "fetch_user w cd cfg user = connect w cd cfg (user_rpc ''GetUserByID'') [(''userId'', VStr user)] (cd_user cd) no_user"

definition fetch_users :: "'s provider \<Rightarrow> codecs \<Rightarrow> management_config \<Rightarrow> string \<Rightarrow> ('s, zitadel_user list) go" where
  "fetch_users w cd cfg limit = connect w cd cfg (user_rpc ''ListUsers'')
     [(''query'', VMap [(''limit'', VStr limit)])] (cd_users cd) []"

text \<open>The role keys of a user in the active authorizations of the project.\<close>

definition roles_by_user :: "string \<Rightarrow> zitadel_authorization list \<Rightarrow> string \<Rightarrow> string list" where
  "roles_by_user project as user = concat (map (\<lambda>a. if za_project a \<noteq> project \<or> \<not> authorizationIsActive (za_state a)
     then [] else if za_user a = user then map mr_key (za_roles a) else []) as)"

definition ListUsers :: "'s provider \<Rightarrow> codecs \<Rightarrow> management_config \<Rightarrow> ('s, managed_user list) go" where
  "ListUsers w cd cfg = bindE (readBootstrapState w cd cfg) (\<lambda>(org, project).
     bindE (fetch_users w cd cfg ''200'') (\<lambda>us. bindE (listAuthorizations w cd cfg) (\<lambda>as.
       ret (by_name mu_login_name (map (\<lambda>u. u\<lparr>mu_roles := normalizeRoleKeys (roles_by_user project as (mu_id u))\<rparr>)
         (filter managedUserIsVisible (map managedUserFromZitadel us)))))))"

definition GetUser :: "'s provider \<Rightarrow> codecs \<Rightarrow> management_config \<Rightarrow> string \<Rightarrow> ('s, managed_user) go" where
  "GetUser w cd cfg user = bindE (readBootstrapState w cd cfg) (\<lambda>(org, project).
     bindE (fetch_user w cd cfg user) (\<lambda>u. bindE (findUserAuthorization w cd cfg project user) (\<lambda>a.
       ret (case a of
           Some a \<Rightarrow> if authorizationIsActive (za_state a)
             then (managedUserFromZitadel u)\<lparr>mu_roles := normalizeRoleKeys (map mr_key (za_roles a))\<rparr> else managedUserFromZitadel u
         | None \<Rightarrow> managedUserFromZitadel u))))"

definition getClient :: "'s provider \<Rightarrow> codecs \<Rightarrow> management_config \<Rightarrow> string \<Rightarrow> ('s, managed_client) go" where
  "getClient w cd cfg client = bindE (readBootstrapState w cd cfg) (\<lambda>(org, project).
     bindE (fetch_user w cd cfg (trim_space client)) (\<lambda>u. let c = managedClientFromZitadel cd u in
       if \<not> managedClientIsVisible c then throw ErrZITADELManagedClientNotFound
       else bindE (findUserAuthorization w cd cfg project (ml_id c)) (\<lambda>a. case a of
           None \<Rightarrow> throw ErrZITADELManagedClientNotFound
         | Some a \<Rightarrow> if \<not> authorizationIsActive (za_state a) then throw ErrZITADELManagedClientNotFound
             else if \<not> roleKeysContain (normalizeRoleKeys (map mr_key (za_roles a))) RoleArtificialFlowClient
               then throw ErrZITADELManagedClientNotFound
             else ret (c\<lparr>ml_role := RoleArtificialFlowClient\<rparr>))))"

text \<open>The keys of the machine users, by user.\<close>

definition machine_keys ::
  "'s provider \<Rightarrow> codecs \<Rightarrow> management_config \<Rightarrow> zitadel_user list \<Rightarrow> ('s, (string \<times> zitadel_key list) list) go" where
  "machine_keys w cd cfg us = foldE (\<lambda>m u. if zu_machine u = None \<or> trim_space (zu_user_id u) = [] then ret m
     else bindE (listKeysForUser w cd cfg (zu_user_id u)) (\<lambda>ks. ret (put (zu_user_id u) ks m))) [] us"

definition client_entry ::
  "'s provider \<Rightarrow> (string \<Rightarrow> token_summary list) \<Rightarrow> (string \<times> zitadel_key list) list \<Rightarrow> managed_client \<Rightarrow> ('s, managed_client) go" where
  "client_entry w tokens keys c =
     bindE (eachE (managedClientKeySummaryFromZitadel w) (case map_of keys (ml_id c) of Some ks \<Rightarrow> ks | None \<Rightarrow> [])) (\<lambda>ks.
       let ts = newest ts_created (tokens (ml_id c)) in
       ret (c\<lparr>ml_role := RoleArtificialFlowClient, ml_tokens := ts,
         ml_credentials := newest cs_created (ks @ map managedClientPATSummary ts)\<rparr>))"

definition ListClients :: "'s provider \<Rightarrow> codecs \<Rightarrow> management_config \<Rightarrow> ('s, managed_client list) go" where
  "ListClients w cd cfg = bindE (readBootstrapState w cd cfg) (\<lambda>(org, project).
     bindE (fetch_users w cd cfg ''500'') (\<lambda>us.
     bindE (listAuthorizations w cd cfg) (\<lambda>as.
     bindE (listPersonalAccessTokens w cd cfg org) (\<lambda>pats.
     bindE (eachE (\<lambda>p. bindE (managedClientTokenSummaryFromZitadel w p) (\<lambda>t. ret (zp_user p, t))) pats) (\<lambda>ts.
     bindE (machine_keys w cd cfg us) (\<lambda>keys.
     bindE (eachE (client_entry w (\<lambda>i. map snd (filter (\<lambda>(u, _). u = i) ts)) keys)
         (filter (\<lambda>c. managedClientIsVisible c \<and>
             roleKeysContain (normalizeRoleKeys (roles_by_user project as (ml_id c))) RoleArtificialFlowClient)
           (map (managedClientFromZitadel cd) us))) (\<lambda>cs.
       ret (by_name ml_name cs))))))))"

text \<open>Roles by lower-cased canonical key; a definition under the canonical key itself wins over an alias.\<close>

definition add_role :: "(string \<times> managed_role \<times> bool) list \<Rightarrow> managed_role \<Rightarrow> (string \<times> managed_role \<times> bool) list" where
  "add_role m r = (let key = CanonicalRole (mr_key r); k = to_lower key; exact = equal_fold (trim_space (mr_key r)) key in
     if (case map_of m k of Some (_, b) \<Rightarrow> b | None \<Rightarrow> False) \<and> \<not> exact then m
     else put k (r\<lparr>mr_key := key\<rparr>, exact) m)"

definition ListRoles :: "'s provider \<Rightarrow> codecs \<Rightarrow> management_config \<Rightarrow> ('s, managed_role list) go" where
  "ListRoles w cd cfg = bindE (readBootstrapState w cd cfg) (\<lambda>(org, project).
     bindE (connect w cd cfg (project_rpc ''ListProjectRoles'')
         [(''projectId'', VStr project), (''pagination'', VMap [(''limit'', VStr ''200'')])] (cd_roles cd) []) (\<lambda>rs.
       ret (by_name mr_key (map (\<lambda>(k, r, b). r) (foldl add_role [] rs)))))"

section \<open>Writing\<close>

definition DeleteUser :: "'s provider \<Rightarrow> codecs \<Rightarrow> management_config \<Rightarrow> string \<Rightarrow> ('s, unit) go" where
  "DeleteUser w cd cfg user = connect w cd cfg (user_rpc ''DeleteUser'') [(''userId'', VStr user)] no_target ()"

definition TerminateUser :: "'s provider \<Rightarrow> codecs \<Rightarrow> management_config \<Rightarrow> string \<Rightarrow> ('s, unit) go" where
  "TerminateUser w cd cfg user = connect w cd cfg (user_rpc ''DeactivateUser'') [(''userId'', VStr user)] no_target ()"

definition ReactivateUser :: "'s provider \<Rightarrow> codecs \<Rightarrow> management_config \<Rightarrow> string \<Rightarrow> ('s, unit) go" where
  "ReactivateUser w cd cfg user = connect w cd cfg (user_rpc ''ReactivateUser'') [(''userId'', VStr user)] no_target ()"

definition setUserRoles ::
  "'s provider \<Rightarrow> codecs \<Rightarrow> management_config \<Rightarrow> string \<times> string \<Rightarrow> string \<Rightarrow> string list \<Rightarrow> ('s, unit) go" where
  "setUserRoles w cd cfg st user roleKeys = (case st of (org, project) \<Rightarrow>
     let roles = normalizeRoleKeys roleKeys; keys = VList (map VStr roles) in
     bindE (findUserAuthorization w cd cfg project user) (\<lambda>found. case found of
         Some a \<Rightarrow>
           (if roles = [] then connect w cd cfg (authorization_rpc ''DeleteAuthorization'') [(''id'', VStr (za_id a))] no_target ()
            else thenE (connect w cd cfg (authorization_rpc ''UpdateAuthorization'')
                [(''id'', VStr (za_id a)), (''roleKeys'', keys)] no_target ())
              (if authorizationIsActive (za_state a) then ret ()
               else connect w cd cfg (authorization_rpc ''ActivateAuthorization'') [(''id'', VStr (za_id a))] no_target ()))
       | None \<Rightarrow> if roles = [] then ret ()
           else connect w cd cfg (authorization_rpc ''CreateAuthorization'')
             [(''userId'', VStr user), (''projectId'', VStr project), (''organizationId'', VStr org), (''roleKeys'', keys)] no_target ()))"

definition CreateUser :: "'s provider \<Rightarrow> codecs \<Rightarrow> management_config \<Rightarrow> user_create \<Rightarrow> ('s, managed_user) go" where
  "CreateUser w cd cfg i = bindE (readBootstrapState w cd cfg) (\<lambda>(org, project).
     let username = (if trim_space (uc_username i) = [] then trim_space (uc_email i) else trim_space (uc_username i));
         human = VMap
           [(''profile'', VMap [(''givenName'', VStr (trim_space (uc_given_name i))),
              (''familyName'', VStr (trim_space (uc_family_name i))),
              (''displayName'', VStr (displayName (uc_given_name i) (uc_family_name i))), (''preferredLanguage'', VStr ''en'')]),
            (''email'', VMap [(''email'', VStr (trim_space (uc_email i))), (''isVerified'', VBool True)]),
            (''password'', VMap [(''password'', VStr (uc_password i)), (''changeRequired'', VBool (uc_change_required i))])]
     in bindE (connect w cd cfg (user_rpc ''CreateUser'')
          [(''organizationId'', VStr org), (''username'', VStr username), (''human'', human)] (cd_created cd) []) (\<lambda>new.
        thenE (if uc_roles i = [] then ret () else setUserRoles w cd cfg (org, project) new (uc_roles i))
          (GetUser w cd cfg new)))"

definition UpdateUser :: "'s provider \<Rightarrow> codecs \<Rightarrow> management_config \<Rightarrow> string \<Rightarrow> user_update \<Rightarrow> ('s, managed_user) go" where
  "UpdateUser w cd cfg user i = bindE (readBootstrapState w cd cfg) (\<lambda>st.
     let given = (\<lambda>k v. if trim_space v = [] then [] else [(k, VStr (trim_space v))]);
         profile = given ''givenName'' (uu_given_name i) @ given ''familyName'' (uu_family_name i) @
           given ''displayName'' (uu_display_name i);
         human = (if profile = [] then [] else [(''profile'', VMap profile)]) @
           (if trim_space (uu_email i) = [] then []
            else [(''email'', VMap [(''email'', VStr (trim_space (uu_email i))), (''isVerified'', VBool True)])]);
         payload = [(''userId'', VStr user)] @ given ''username'' (uu_username i) @ (if human = [] then [] else [(''human'', VMap human)])
     in thenE (if length payload > 1 then connect w cd cfg (user_rpc ''UpdateUser'') payload no_target () else ret ())
        (thenE (case uu_roles i of Some roles \<Rightarrow> setUserRoles w cd cfg st user roles | None \<Rightarrow> ret ())
           (GetUser w cd cfg user)))"

definition addClientKey :: "'s provider \<Rightarrow> codecs \<Rightarrow> management_config \<Rightarrow> string \<Rightarrow> string \<Rightarrow> string \<Rightarrow> ('s, credential_summary) go" where
  "addClientKey w cd cfg user publicKey expires =
     bindE (connect w cd cfg (user_rpc ''AddKey'')
       [(''userId'', VStr user), (''publicKey'', VStr (cd_base64_text cd publicKey)), (''expirationDate'', VStr expires)]
       (cd_new_key cd) ([], [], [])) (\<lambda>(i, key, created).
     ret \<lparr>cs_id = (if key = [] then i else key), cs_type = ''private_key_jwt'', cs_created = created, cs_changed = [],
       cs_expires = expires, cs_status = ''active''\<rparr>)"

definition addPersonalAccessToken ::
  "'s provider \<Rightarrow> codecs \<Rightarrow> management_config \<Rightarrow> string \<Rightarrow> string \<Rightarrow> ('s, string \<times> string \<times> string) go" where
  "addPersonalAccessToken w cd cfg user expires = connect w cd cfg (user_rpc ''AddPersonalAccessToken'')
     [(''userId'', VStr user), (''expirationDate'', VStr expires)] (cd_new_pat cd) ([], [], [])"

text \<open>What is created of a client before its credential: the machine user and its role, or nothing.\<close>

definition client_metadata :: "client_create \<Rightarrow> managed_client" where
  "client_metadata i = no_client\<lparr>ml_username := trim_space (cc_username i), ml_name := trim_space (cc_name i),
     ml_description := trim_space (cc_description i), ml_environment := trim_space (cc_environment i),
     ml_owner_email := trim_space (cc_owner_email i), ml_purpose := trim_space (cc_purpose i)\<rparr>"

definition createMachine :: "'s provider \<Rightarrow> codecs \<Rightarrow> management_config \<Rightarrow> string \<Rightarrow> client_create \<Rightarrow> ('s, string) go" where
  "createMachine w cd cfg org i = connect w cd cfg (user_rpc ''CreateUser'')
     ([(''organizationId'', VStr org),
       (''machine'', VMap [(''name'', VStr (trim_space (cc_name i))), (''description'', VStr (encodeClientDescription cd (client_metadata i))),
          (''accessTokenType'', VStr ''ACCESS_TOKEN_TYPE_JWT'')])] @
      (if trim_space (cc_username i) = [] then [] else [(''username'', VStr (trim_space (cc_username i)))])) (cd_created cd) []"

text \<open>\<open>if err != nil { _ = c.DeleteUser(...); return err }\<close>.\<close>

definition orDelete :: "'s provider \<Rightarrow> codecs \<Rightarrow> management_config \<Rightarrow> string \<Rightarrow> ('s, 'a) go \<Rightarrow> ('s, 'a) go" where
  "orDelete w cd cfg user m = bindE (tryE m) (\<lambda>r. case r of
       Inl e \<Rightarrow> thenE (ignoreE (DeleteUser w cd cfg user)) (throw e)
     | Inr x \<Rightarrow> ret x)"

definition CreateClientKey :: "'s provider \<Rightarrow> codecs \<Rightarrow> management_config \<Rightarrow> client_create \<Rightarrow> ('s, managed_client) go" where
  "CreateClientKey w cd cfg i = bindE (liftR (parseClientPublicKey cd (cc_public_key i))) (\<lambda>publicKey.
     bindE (providerNow w) (\<lambda>now.
     bindE (liftR (clientCredentialExpirationWithLimits (cc_expires_at i) now (mc_default_lifetime cfg) (mc_max_lifetime cfg))) (\<lambda>expires.
     bindE (readBootstrapState w cd cfg) (\<lambda>st.
     bindE (createMachine w cd cfg (fst st) i) (\<lambda>new.
     thenE (orDelete w cd cfg new (setUserRoles w cd cfg st new [RoleArtificialFlowClient]))
     (bindE (orDelete w cd cfg new (addClientKey w cd cfg new publicKey expires)) (\<lambda>key.
       ret ((client_metadata i)\<lparr>ml_id := new, ml_role := RoleArtificialFlowClient, ml_credentials := [key]\<rparr>))))))))"

definition client_token_of :: "managed_client \<Rightarrow> string \<times> string \<times> string \<Rightarrow> string \<Rightarrow> client_token" where
  "client_token_of c created expires = (case created of (date, i, tok) \<Rightarrow>
     \<lparr>tk_client_id = ml_id c, tk_username = ml_username c, tk_name = ml_name c, tk_description = ml_description c,
      tk_environment = ml_environment c, tk_owner_email = ml_owner_email c, tk_purpose = ml_purpose c,
      tk_role = RoleArtificialFlowClient, tk_token_id = i, tk_token = tok, tk_created = date, tk_expires = expires\<rparr>)"

definition CreateClientToken :: "'s provider \<Rightarrow> codecs \<Rightarrow> management_config \<Rightarrow> client_create \<Rightarrow> ('s, client_token) go" where
  "CreateClientToken w cd cfg i = (if \<not> mc_pat_creation cfg then throw ErrLegacyPATCreationDisabled
     else bindE (readBootstrapState w cd cfg) (\<lambda>st.
     bindE (createMachine w cd cfg (fst st) i) (\<lambda>new.
     thenE (orDelete w cd cfg new (setUserRoles w cd cfg st new [RoleArtificialFlowClient]))
     (bindE (clientTokenExpiration w (cc_expires_at i)) (\<lambda>expires.
      bindE (orDelete w cd cfg new (addPersonalAccessToken w cd cfg new expires)) (\<lambda>created.
       ret (client_token_of ((client_metadata i)\<lparr>ml_id := new\<rparr>) created expires)))))))"

definition RotateClientToken :: "'s provider \<Rightarrow> codecs \<Rightarrow> management_config \<Rightarrow> string \<Rightarrow> string \<Rightarrow> ('s, client_token) go" where
  "RotateClientToken w cd cfg client expires0 = (if \<not> mc_pat_rotation cfg then throw ErrLegacyPATRotationDisabled
     else bindE (getClient w cd cfg client) (\<lambda>c.
     bindE (clientTokenExpiration w expires0) (\<lambda>expires.
     bindE (addPersonalAccessToken w cd cfg (ml_id c) expires) (\<lambda>created.
       ret (client_token_of c created expires)))))"

definition AddClientKey :: "'s provider \<Rightarrow> codecs \<Rightarrow> management_config \<Rightarrow> string \<Rightarrow> string \<Rightarrow> string \<Rightarrow> ('s, credential_summary) go" where
  "AddClientKey w cd cfg client publicKey0 expires0 = thenE (getClient w cd cfg client)
     (bindE (liftR (parseClientPublicKey cd publicKey0)) (\<lambda>publicKey.
      bindE (providerNow w) (\<lambda>now.
      bindE (liftR (clientCredentialExpirationWithLimits expires0 now (mc_default_lifetime cfg) (mc_max_lifetime cfg))) (\<lambda>expires.
        addClientKey w cd cfg (trim_space client) publicKey expires))))"

definition RemoveClientKey :: "'s provider \<Rightarrow> codecs \<Rightarrow> management_config \<Rightarrow> string \<Rightarrow> string \<Rightarrow> ('s, unit) go" where
  "RemoveClientKey w cd cfg client key = thenE (getClient w cd cfg client)
     (bindE (listKeysForUser w cd cfg (trim_space client)) (\<lambda>ks.
        if \<not> list_ex (\<lambda>k. zk_id k = trim_space key) ks then throw ErrZITADELManagedClientNotFound
        else connect w cd cfg (user_rpc ''RemoveKey'')
          [(''userId'', VStr (trim_space client)), (''keyId'', VStr (trim_space key))] no_target ()))"

definition RevokeClientToken :: "'s provider \<Rightarrow> codecs \<Rightarrow> management_config \<Rightarrow> string \<Rightarrow> string \<Rightarrow> ('s, unit) go" where
  "RevokeClientToken w cd cfg client tokenID = thenE (getClient w cd cfg client)
     (bindE (listPersonalAccessTokens w cd cfg []) (\<lambda>ts.
        if \<not> list_ex (\<lambda>t. zp_user t = trim_space client \<and> zp_id t = trim_space tokenID) ts then throw ErrZITADELManagedClientNotFound
        else connect w cd cfg (user_rpc ''RemovePersonalAccessToken'')
          [(''userId'', VStr (trim_space client)), (''tokenId'', VStr (trim_space tokenID))] no_target ()))"

definition DeleteClient :: "'s provider \<Rightarrow> codecs \<Rightarrow> management_config \<Rightarrow> string \<Rightarrow> ('s, unit) go" where
  "DeleteClient w cd cfg client = thenE (getClient w cd cfg client) (DeleteUser w cd cfg client)"

definition CreateRole :: "'s provider \<Rightarrow> codecs \<Rightarrow> management_config \<Rightarrow> managed_role \<Rightarrow> ('s, managed_role) go" where
  "CreateRole w cd cfg i = bindE (readBootstrapState w cd cfg) (\<lambda>(org, project).
     let role = \<lparr>mr_key = trim_space (mr_key i), mr_display_name = trim_space (mr_display_name i),
           mr_group = (if trim_space (mr_group i) = [] then ''ArtificialFlow'' else trim_space (mr_group i))\<rparr>
     in thenE (connect w cd cfg (project_rpc ''AddProjectRole'')
          [(''projectId'', VStr project), (''roleKey'', VStr (mr_key role)), (''displayName'', VStr (mr_display_name role)),
           (''group'', VStr (mr_group role))] no_target ())
        (ret role))"

definition UpdateRole :: "'s provider \<Rightarrow> codecs \<Rightarrow> management_config \<Rightarrow> string \<Rightarrow> string \<Rightarrow> string \<Rightarrow> ('s, managed_role) go" where
  "UpdateRole w cd cfg key display grp = bindE (readBootstrapState w cd cfg) (\<lambda>(org, project).
     thenE (connect w cd cfg (project_rpc ''UpdateProjectRole'')
         ([(''projectId'', VStr project), (''roleKey'', VStr (trim_space key))] @
          (if trim_space display = [] then [] else [(''displayName'', VStr (trim_space display))]) @
          [(''group'', VStr (trim_space grp))]) no_target ())
       (ret \<lparr>mr_key = trim_space key, mr_display_name = trim_space display, mr_group = trim_space grp\<rparr>))"

definition DeleteRole :: "'s provider \<Rightarrow> codecs \<Rightarrow> management_config \<Rightarrow> string \<Rightarrow> ('s, unit) go" where
  "DeleteRole w cd cfg key = bindE (readBootstrapState w cd cfg) (\<lambda>(org, project).
     connect w cd cfg (project_rpc ''RemoveProjectRole'') [(''projectId'', VStr project), (''roleKey'', VStr (trim_space key))] no_target ())"

end
