(* ===== verification/IamDto.thy ===== *)
theory IamDto
  imports Iam
begin

text \<open>
  The bodies of the identity routes (\<open>dto/identity_management.go\<close>, \<open>dto/identity.go\<close>) and what they show of the data of the
  management client (\<open>identity_management_handler.go\<close>). The body that lists users, clients or roles is the list.
\<close>

section \<open>Answers\<close>

record user_view =
  uv_id :: string
  uv_username :: string
  uv_preferred_login_name :: string
  uv_display_name :: string
  uv_given_name :: string
  uv_family_name :: string
  uv_email :: string
  uv_email_verified :: bool
  uv_state :: string
  uv_type :: string
  uv_created_at :: string
  uv_changed_at :: string
  uv_roles :: "string list"

record role_view =
  rv_key :: string
  rv_display_name :: string
  rv_group :: string

record token_view =
  tv_client_id :: string
  tv_username :: string
  tv_name :: string
  tv_description :: string
  tv_environment :: string
  tv_owner_email :: string
  tv_purpose :: string
  tv_role :: string
  tv_token_id :: string
  tv_token :: string
  tv_token_created_at :: string
  tv_token_expires_at :: string

record token_summary_view =
  sv_token_id :: string
  sv_token_created_at :: string
  sv_token_changed_at :: string
  sv_token_expires_at :: string
  sv_status :: string

record credential_view =
  cv_id :: string
  cv_type :: string
  cv_created_at :: string
  cv_changed_at :: string
  cv_expires_at :: string
  cv_status :: string

record client_view =
  lv_client_id :: string
  lv_username :: string
  lv_name :: string
  lv_description :: string
  lv_environment :: string
  lv_owner_email :: string
  lv_purpose :: string
  lv_role :: string
  lv_state :: string
  lv_created_at :: string
  lv_changed_at :: string
  lv_tokens :: "token_summary_view list"
  lv_credentials :: "credential_view list"

record identity_config =
  ig_mode :: string
  ig_source :: string
  ig_provider_name :: string
  ig_auth_enabled :: bool
  ig_frontend_enabled :: bool
  ig_frontend_authority :: string
  ig_frontend_client_id :: string
  ig_token_mode :: string
  ig_internal_issuer :: string
  ig_external_issuer :: string
  ig_client_id :: string
  ig_introspection_url :: string
  ig_introspection_client_id :: string
  ig_introspection_auth_method :: string
  ig_enforce_audience :: bool
  ig_allow_insecure_issuer :: bool
  ig_subject_path :: string
  ig_roles_path :: string
  ig_scopes_path :: string
  ig_tenant_path :: string
  ig_email_path :: string
  ig_name_path :: string
  ig_standard_roles :: "string list"

definition toIdentityManagementUserResponse :: "managed_user \<Rightarrow> user_view" where
  "toIdentityManagementUserResponse u =
     \<lparr>uv_id = mu_id u, uv_username = mu_username u, uv_preferred_login_name = mu_login_name u, uv_display_name = mu_display_name u,
      uv_given_name = mu_given_name u, uv_family_name = mu_family_name u, uv_email = mu_email u, uv_email_verified = mu_verified u,
      uv_state = mu_state u, uv_type = mu_type u, uv_created_at = mu_created u, uv_changed_at = mu_changed u, uv_roles = mu_roles u\<rparr>"

definition toIdentityManagementRoleResponse :: "managed_role \<Rightarrow> role_view" where
  "toIdentityManagementRoleResponse r = \<lparr>rv_key = mr_key r, rv_display_name = mr_display_name r, rv_group = mr_group r\<rparr>"

definition toIdentityManagementClientCredentialResponse :: "credential_summary \<Rightarrow> credential_view" where
  "toIdentityManagementClientCredentialResponse c =
     \<lparr>cv_id = cs_id c, cv_type = cs_type c, cv_created_at = cs_created c, cv_changed_at = cs_changed c, cv_expires_at = cs_expires c,
      cv_status = cs_status c\<rparr>"

definition toIdentityManagementClientResponse :: "managed_client \<Rightarrow> client_view" where
  "toIdentityManagementClientResponse c =
     \<lparr>lv_client_id = ml_id c, lv_username = ml_username c, lv_name = ml_name c, lv_description = ml_description c,
      lv_environment = ml_environment c, lv_owner_email = ml_owner_email c, lv_purpose = ml_purpose c, lv_role = ml_role c,
      lv_state = ml_state c, lv_created_at = ml_created c, lv_changed_at = ml_changed c,
      lv_tokens = map (\<lambda>t. \<lparr>sv_token_id = ts_id t, sv_token_created_at = ts_created t, sv_token_changed_at = ts_changed t,
        sv_token_expires_at = ts_expires t, sv_status = ts_status t\<rparr>) (ml_tokens c),
      lv_credentials = map toIdentityManagementClientCredentialResponse (ml_credentials c)\<rparr>"

definition toIdentityManagementClientTokenResponse :: "client_token \<Rightarrow> token_view" where
  "toIdentityManagementClientTokenResponse t =
     \<lparr>tv_client_id = tk_client_id t, tv_username = tk_username t, tv_name = tk_name t, tv_description = tk_description t,
      tv_environment = tk_environment t, tv_owner_email = tk_owner_email t, tv_purpose = tk_purpose t, tv_role = tk_role t,
      tv_token_id = tk_token_id t, tv_token = tk_token t, tv_token_created_at = tk_created t, tv_token_expires_at = tk_expires t\<rparr>"

section \<open>Requests\<close>

record user_request =
  ur_username :: string
  ur_given_name :: string
  ur_family_name :: string
  ur_email :: string
  ur_password :: string
  ur_change_required :: bool
  ur_roles :: "string list"

record client_request =
  lr_username :: string
  lr_name :: string
  lr_description :: string
  lr_environment :: string
  lr_owner_email :: string
  lr_purpose :: string
  lr_token_expires_at :: string
  lr_public_key :: string
  lr_key_expires_at :: string

record key_request =
  kr_public_key :: string
  kr_key_expires_at :: string

record user_update_request =
  up_username :: string
  up_given_name :: string
  up_family_name :: string
  up_display_name :: string
  up_email :: string
  up_roles :: "string list option"

record role_request =
  rq_key :: string
  rq_display_name :: string
  rq_group :: string

record role_update_request =
  rp_display_name :: string
  rp_group :: string

text \<open>What the handlers make of them; a client is created with a key or with a token, which expire as the request says.\<close>

definition user_create_of :: "user_request \<Rightarrow> user_create" where
  "user_create_of r = \<lparr>uc_username = ur_username r, uc_given_name = ur_given_name r, uc_family_name = ur_family_name r,
     uc_email = ur_email r, uc_password = ur_password r, uc_change_required = ur_change_required r, uc_roles = ur_roles r\<rparr>"

definition client_key_of :: "client_request \<Rightarrow> client_create" where
  "client_key_of r = \<lparr>cc_username = lr_username r, cc_name = lr_name r, cc_description = lr_description r,
     cc_environment = lr_environment r, cc_owner_email = lr_owner_email r, cc_purpose = lr_purpose r,
     cc_public_key = lr_public_key r, cc_expires_at = lr_key_expires_at r\<rparr>"

definition client_pat_of :: "client_request \<Rightarrow> client_create" where
  "client_pat_of r = \<lparr>cc_username = lr_username r, cc_name = lr_name r, cc_description = lr_description r,
     cc_environment = lr_environment r, cc_owner_email = lr_owner_email r, cc_purpose = lr_purpose r,
     cc_public_key = [], cc_expires_at = lr_token_expires_at r\<rparr>"

definition user_update_of :: "user_update_request \<Rightarrow> user_update" where
  "user_update_of r = \<lparr>uu_username = up_username r, uu_given_name = up_given_name r, uu_family_name = up_family_name r,
     uu_display_name = up_display_name r, uu_email = up_email r, uu_roles = up_roles r\<rparr>"

definition role_create_of :: "role_request \<Rightarrow> managed_role" where
  "role_create_of r = \<lparr>mr_key = rq_key r, mr_display_name = rq_display_name r, mr_group = rq_group r\<rparr>"

end
