(* ===== verification/IamApi.thy ===== *)
theory IamApi
  imports IamOps IamDto Dto
begin

text \<open>
  The identity routes of the command service (\<open>identity_management_handler.go\<close>, \<open>identity_handler.go\<close>): a constructor of
  \<open>identity_call\<close> per route, a definition per handler, \<open>identity_serve\<close> for their registration. The constructors of
  \<open>identity_body\<close> are what a handler writes; the body of a request is what decoding it gives.
\<close>

datatype identity_body =
    INone
  | IText string
  | IUser user_view
  | IUsers "user_view list"
  | IClient client_view
  | IClients "client_view list"
  | IToken token_view
  | ICredential credential_view
  | IRole role_view
  | IRoles "role_view list"
  | IConfig identity_config

text \<open>Status, the file name under which a secret is offered (with the headers against caching), and the body.\<close>

record identity_response =
  ir_status :: int
  ir_attachment :: "string option"
  ir_body :: identity_body

definition respond :: "int \<Rightarrow> identity_body \<Rightarrow> ('s, identity_response) go" where
  "respond status b = ret \<lparr>ir_status = status, ir_attachment = None, ir_body = b\<rparr>"

definition respond_secret :: "string \<Rightarrow> identity_body \<Rightarrow> ('s, identity_response) go" where
  "respond_secret name b = ret \<lparr>ir_status = 201, ir_attachment = Some name, ir_body = b\<rparr>"

text \<open>\<open>errors.Is\<close> and \<open>errors.As\<close> for a \<open>ZITADELError\<close>.\<close>

fun wraps :: "go_err \<Rightarrow> go_err \<Rightarrow> bool" where
  "wraps e (Wrapf m e') \<longleftrightarrow> e = Wrapf m e' \<or> wraps e e'"
| "wraps e e' \<longleftrightarrow> e = e'"

fun zitadel_status :: "go_err \<Rightarrow> int option" where
  "zitadel_status (Wrapf _ e) = zitadel_status e"
| "zitadel_status (ZitadelError n _ _) = Some n"
| "zitadel_status _ = None"

definition writeIdentityManagementError :: "go_err \<Rightarrow> ('s, identity_response) go" where
  "writeIdentityManagementError e =
     (if wraps ErrZITADELManagementNotConfigured e then respond 503 (IText ''ZITADEL management is not configured'')
      else if wraps ErrZITADELManagedClientNotFound e then respond 404 (IText ''ArtificialFlow client was not found'')
      else if wraps ErrInvalidClientPublicKey e \<or> wraps ErrInvalidClientCredentialExpiry e then respond 400 (IText (err_string e))
      else if wraps ErrLegacyPATCreationDisabled e \<or> wraps ErrLegacyPATRotationDisabled e
      then respond 403 (IText ''legacy PAT issuance is disabled'')
      else (case zitadel_status e of
          Some n \<Rightarrow> respond (if n \<in> {400, 404, 409} then n else 502) (IText ''identity provider request failed'')
        | None \<Rightarrow> respond 500 (IText ''identity management request failed'')))"

definition answer :: "('s, 'a) go \<Rightarrow> ('a \<Rightarrow> ('s, identity_response) go) \<Rightarrow> ('s, identity_response) go" where
  "answer m k = bindE (tryE m) (\<lambda>r. case r of Inl e \<Rightarrow> writeIdentityManagementError e | Inr x \<Rightarrow> k x)"

text \<open>A body that does not decode is refused with the error of the decoder.\<close>

definition with_body :: "'a body \<Rightarrow> ('a \<Rightarrow> ('s, identity_response) go) \<Rightarrow> ('s, identity_response) go" where
  "with_body b k = (case read_strict b of Inl e \<Rightarrow> respond 400 (IText (err_string e)) | Inr x \<Rightarrow> k x)"

definition requireBundledIAMAdmin ::
  "deployment_config \<Rightarrow> principal option \<Rightarrow> ('s, identity_response) go \<Rightarrow> ('s, identity_response) go" where
  "requireBundledIAMAdmin dp who h = (if dp_mode dp \<noteq> DeploymentModeZITADEL then respond 404 (IText ''404 page not found'')
     else (case who of
         None \<Rightarrow> respond 401 (IText ''Unauthorized'')
       | Some p \<Rightarrow> if \<not> HasRole p RoleArtificialFlowAdmin then respond 403 (IText ''Forbidden'') else h))"

definition isProtectedPlatformRole :: "string \<Rightarrow> bool" where
  "isProtectedPlatformRole role = IsStandardRole role"

definition isReservedPlatformRole :: "string \<Rightarrow> bool" where
  "isReservedPlatformRole role \<longleftrightarrow> (let r = trim_space role in isProtectedPlatformRole r \<or> equal_fold r ''artificialflow viewer'')"

section \<open>Handlers\<close>

definition listIdentityManagementUsers :: "'s provider \<Rightarrow> codecs \<Rightarrow> management_config \<Rightarrow> ('s, identity_response) go" where
  "listIdentityManagementUsers w cd cfg = answer (ListUsers w cd cfg) (\<lambda>us. respond 200 (IUsers (map toIdentityManagementUserResponse us)))"

definition listIdentityManagementClients :: "'s provider \<Rightarrow> codecs \<Rightarrow> management_config \<Rightarrow> ('s, identity_response) go" where
  "listIdentityManagementClients w cd cfg = answer (ListClients w cd cfg) (\<lambda>cs. respond 200 (IClients (map toIdentityManagementClientResponse cs)))"

definition createIdentityManagementUser ::
  "'s provider \<Rightarrow> codecs \<Rightarrow> management_config \<Rightarrow> user_request body \<Rightarrow> ('s, identity_response) go" where
  "createIdentityManagementUser w cd cfg b = with_body b (\<lambda>r.
     if trim_space (ur_email r) = [] \<or> trim_space (ur_given_name r) = [] \<or> trim_space (ur_family_name r) = [] \<or> trim_space (ur_password r) = []
     then respond 400 (IText ''email, given_name, family_name, and password are required'')
     else answer (CreateUser w cd cfg (user_create_of r)) (\<lambda>u. respond 201 (IUser (toIdentityManagementUserResponse u))))"

definition createIdentityManagementClientToken ::
  "'s provider \<Rightarrow> codecs \<Rightarrow> management_config \<Rightarrow> client_request body \<Rightarrow> ('s, identity_response) go" where
  "createIdentityManagementClientToken w cd cfg b = with_body b (\<lambda>r.
     if trim_space (lr_name r) = [] then respond 400 (IText ''name is required'')
     else if trim_space (lr_public_key r) \<noteq> [] then
       answer (CreateClientKey w cd cfg (client_key_of r))
         (\<lambda>c. respond_secret ''artificialflow-client-credential.json'' (IClient (toIdentityManagementClientResponse c)))
     else answer (CreateClientToken w cd cfg (client_pat_of r))
       (\<lambda>t. respond_secret ''artificialflow-client-token.json'' (IToken (toIdentityManagementClientTokenResponse t))))"

definition addIdentityManagementClientKey ::
  "'s provider \<Rightarrow> codecs \<Rightarrow> management_config \<Rightarrow> string \<Rightarrow> key_request body \<Rightarrow> ('s, identity_response) go" where
  "addIdentityManagementClientKey w cd cfg client b = (case read_strict b of
       Inl _ \<Rightarrow> respond 400 (IText ''invalid JSON request'')
     | Inr r \<Rightarrow>
         if trim_space (kr_public_key r) = [] then respond 400 (IText ''public_key is required'')
         else answer (AddClientKey w cd cfg client (kr_public_key r) (kr_key_expires_at r))
           (\<lambda>k. respond_secret ''artificialflow-client-credential.json'' (ICredential (toIdentityManagementClientCredentialResponse k))))"

definition revokeIdentityManagementClientKey ::
  "'s provider \<Rightarrow> codecs \<Rightarrow> management_config \<Rightarrow> string \<Rightarrow> string \<Rightarrow> ('s, identity_response) go" where
  "revokeIdentityManagementClientKey w cd cfg client key = answer (RemoveClientKey w cd cfg client key) (\<lambda>_. respond 204 INone)"

definition rotateIdentityManagementClientToken ::
  "'s provider \<Rightarrow> codecs \<Rightarrow> management_config \<Rightarrow> string \<Rightarrow> string body \<Rightarrow> ('s, identity_response) go" where
  "rotateIdentityManagementClientToken w cd cfg client b = with_body b (\<lambda>expires.
     answer (RotateClientToken w cd cfg client expires) (\<lambda>t. respond_secret ''artificialflow-client-token.json'' (IToken (toIdentityManagementClientTokenResponse t))))"

definition revokeIdentityManagementClientToken ::
  "'s provider \<Rightarrow> codecs \<Rightarrow> management_config \<Rightarrow> string \<Rightarrow> string \<Rightarrow> ('s, identity_response) go" where
  "revokeIdentityManagementClientToken w cd cfg client tokenID =
     answer (RevokeClientToken w cd cfg client tokenID) (\<lambda>_. respond 204 INone)"

definition deleteIdentityManagementClient :: "'s provider \<Rightarrow> codecs \<Rightarrow> management_config \<Rightarrow> string \<Rightarrow> ('s, identity_response) go" where
  "deleteIdentityManagementClient w cd cfg client = answer (DeleteClient w cd cfg client) (\<lambda>_. respond 204 INone)"

definition updateIdentityManagementUser ::
  "'s provider \<Rightarrow> codecs \<Rightarrow> management_config \<Rightarrow> string \<Rightarrow> user_update_request body \<Rightarrow> ('s, identity_response) go" where
  "updateIdentityManagementUser w cd cfg user b = with_body b (\<lambda>r.
     answer (UpdateUser w cd cfg user (user_update_of r)) (\<lambda>u. respond 200 (IUser (toIdentityManagementUserResponse u))))"

definition terminateIdentityManagementUser :: "'s provider \<Rightarrow> codecs \<Rightarrow> management_config \<Rightarrow> string \<Rightarrow> ('s, identity_response) go" where
  "terminateIdentityManagementUser w cd cfg user = answer (TerminateUser w cd cfg user) (\<lambda>_. respond 204 INone)"

definition reactivateIdentityManagementUser :: "'s provider \<Rightarrow> codecs \<Rightarrow> management_config \<Rightarrow> string \<Rightarrow> ('s, identity_response) go" where
  "reactivateIdentityManagementUser w cd cfg user = answer (ReactivateUser w cd cfg user) (\<lambda>_. respond 204 INone)"

definition deleteIdentityManagementUser :: "'s provider \<Rightarrow> codecs \<Rightarrow> management_config \<Rightarrow> string \<Rightarrow> ('s, identity_response) go" where
  "deleteIdentityManagementUser w cd cfg user = answer (DeleteUser w cd cfg user) (\<lambda>_. respond 204 INone)"

definition listIdentityManagementRoles :: "'s provider \<Rightarrow> codecs \<Rightarrow> management_config \<Rightarrow> ('s, identity_response) go" where
  "listIdentityManagementRoles w cd cfg = answer (ListRoles w cd cfg) (\<lambda>rs. respond 200 (IRoles (map toIdentityManagementRoleResponse rs)))"

definition createIdentityManagementRole ::
  "'s provider \<Rightarrow> codecs \<Rightarrow> management_config \<Rightarrow> role_request body \<Rightarrow> ('s, identity_response) go" where
  "createIdentityManagementRole w cd cfg b = with_body b (\<lambda>r.
     if trim_space (rq_key r) = [] \<or> trim_space (rq_display_name r) = [] then respond 400 (IText ''key and display_name are required'')
     else if isReservedPlatformRole (rq_key r) then
       respond 400 (IText ''artificialflow admin, artificialflow modeler, artificialflow client, and artificialflow viewer are reserved platform roles'')
     else answer (CreateRole w cd cfg (role_create_of r)) (\<lambda>x. respond 201 (IRole (toIdentityManagementRoleResponse x))))"

definition updateIdentityManagementRole ::
  "'s provider \<Rightarrow> codecs \<Rightarrow> management_config \<Rightarrow> string \<Rightarrow> role_update_request body \<Rightarrow> ('s, identity_response) go" where
  "updateIdentityManagementRole w cd cfg key b = with_body b (\<lambda>r.
     if isProtectedPlatformRole key then
       respond 400 (IText ''artificialflow platform roles are built in and cannot be updated from identity management'')
     else answer (UpdateRole w cd cfg key (rp_display_name r) (rp_group r)) (\<lambda>x. respond 200 (IRole (toIdentityManagementRoleResponse x))))"

definition deleteIdentityManagementRole :: "'s provider \<Rightarrow> codecs \<Rightarrow> management_config \<Rightarrow> string \<Rightarrow> ('s, identity_response) go" where
  "deleteIdentityManagementRole w cd cfg key =
     (if isProtectedPlatformRole key then
        respond 400 (IText ''artificialflow platform roles are built in and cannot be deleted from identity management'')
      else answer (DeleteRole w cd cfg key) (\<lambda>_. respond 204 INone))"

text \<open>The public view of the configuration.\<close>

definition getIdentityConfig :: "deployment_config \<Rightarrow> ('s, identity_response) go" where
  "getIdentityConfig dp = (let c = dp_auth dp; f = dp_frontend dp in respond 200 (IConfig
     \<lparr>ig_mode = dp_mode dp, ig_source = dp_source dp, ig_provider_name = dp_provider_name dp, ig_auth_enabled = Enabled c,
      ig_frontend_enabled = fc_enabled f, ig_frontend_authority = fc_authority f, ig_frontend_client_id = fc_client_id f,
      ig_token_mode = cf_token_mode c, ig_internal_issuer = cf_internal_issuer c, ig_external_issuer = cf_external_issuer c,
      ig_client_id = cf_client_id c, ig_introspection_url = cf_introspection_url c,
      ig_introspection_client_id = cf_introspection_client_id c, ig_introspection_auth_method = cf_introspection_auth_method c,
      ig_enforce_audience = cf_enforce_audience c, ig_allow_insecure_issuer = cf_allow_insecure_issuer c,
      ig_subject_path = cf_subject_path c, ig_roles_path = cf_roles_path c, ig_scopes_path = cf_scopes_path c,
      ig_tenant_path = cf_tenant_path c, ig_email_path = cf_email_path c, ig_name_path = cf_name_path c,
      ig_standard_roles = StandardRoles\<rparr>))"

section \<open>Routes\<close>

datatype identity_call =
    IdentityConfig
  | ListManagedClients
  | CreateManagedClient "client_request body"
  | DeleteManagedClient string
  | RotateManagedToken string "string body"
  | RevokeManagedToken string string
  | AddManagedKey string "key_request body"
  | RevokeManagedKey string string
  | ListManagedUsers
  | CreateManagedUser "user_request body"
  | UpdateManagedUser string "user_update_request body"
  | DeleteManagedUser string
  | TerminateManagedUser string
  | ReactivateManagedUser string
  | ListManagedRoles
  | CreateManagedRole "role_request body"
  | UpdateManagedRole string "role_update_request body"
  | DeleteManagedRole string

fun management_handler :: "'s provider \<Rightarrow> codecs \<Rightarrow> management_config \<Rightarrow> identity_call \<Rightarrow> ('s, identity_response) go" where
  "management_handler w cd cfg IdentityConfig = respond 404 (IText ''404 page not found'')"
| "management_handler w cd cfg ListManagedClients = listIdentityManagementClients w cd cfg"
| "management_handler w cd cfg (CreateManagedClient b) = createIdentityManagementClientToken w cd cfg b"
| "management_handler w cd cfg (DeleteManagedClient i) = deleteIdentityManagementClient w cd cfg i"
| "management_handler w cd cfg (RotateManagedToken i b) = rotateIdentityManagementClientToken w cd cfg i b"
| "management_handler w cd cfg (RevokeManagedToken i t) = revokeIdentityManagementClientToken w cd cfg i t"
| "management_handler w cd cfg (AddManagedKey i b) = addIdentityManagementClientKey w cd cfg i b"
| "management_handler w cd cfg (RevokeManagedKey i k) = revokeIdentityManagementClientKey w cd cfg i k"
| "management_handler w cd cfg ListManagedUsers = listIdentityManagementUsers w cd cfg"
| "management_handler w cd cfg (CreateManagedUser b) = createIdentityManagementUser w cd cfg b"
| "management_handler w cd cfg (UpdateManagedUser i b) = updateIdentityManagementUser w cd cfg i b"
| "management_handler w cd cfg (DeleteManagedUser i) = deleteIdentityManagementUser w cd cfg i"
| "management_handler w cd cfg (TerminateManagedUser i) = terminateIdentityManagementUser w cd cfg i"
| "management_handler w cd cfg (ReactivateManagedUser i) = reactivateIdentityManagementUser w cd cfg i"
| "management_handler w cd cfg ListManagedRoles = listIdentityManagementRoles w cd cfg"
| "management_handler w cd cfg (CreateManagedRole b) = createIdentityManagementRole w cd cfg b"
| "management_handler w cd cfg (UpdateManagedRole k b) = updateIdentityManagementRole w cd cfg k b"
| "management_handler w cd cfg (DeleteManagedRole k) = deleteIdentityManagementRole w cd cfg k"

text \<open>The configuration is public; the other routes exist in the bundled deployment only and are guarded one by one.\<close>

definition identity_serve ::
  "'s provider \<Rightarrow> codecs \<Rightarrow> deployment_config \<Rightarrow> identity_call \<Rightarrow> principal option \<Rightarrow> ('s, identity_response) go" where
  "identity_serve w cd dp q who = (if q = IdentityConfig then getIdentityConfig dp
     else requireBundledIAMAdmin dp who (management_handler w cd (dp_management dp) q))"

end
