(* ===== verification/IamFrame.thy ===== *)
theory IamFrame
  imports IamApi
begin

text \<open>
  What the requests to the identity provider have in common: they go to the configured provider, and those that change
  roles never name a role of the platform. \<open>provider_frame\<close> is the interface: a relation of states that such requests, the
  reading of files and the clock preserve; every operation and route preserves it.
\<close>

definition role_rpcs :: "string list" where
  "role_rpcs = map project_rpc [''AddProjectRole'', ''UpdateProjectRole'', ''RemoveProjectRole'']"

definition permitted :: "string \<Rightarrow> (string \<times> val) list \<Rightarrow> bool" where
  "permitted path payload \<longleftrightarrow> (path \<in> set role_rpcs \<longrightarrow> (\<forall>k. map_of payload ''roleKey'' = Some (VStr k) \<longrightarrow> \<not> IsStandardRole k))"

definition call_of :: "management_config \<Rightarrow> string \<Rightarrow> string \<Rightarrow> (string \<times> val) list \<Rightarrow> http_request" where
  "call_of cfg token path payload =
     \<lparr>hr_url = trim_space (mc_base_url cfg) @ path, hr_host = mc_public_host cfg, hr_token = token, hr_body = VMap payload\<rparr>"

lemmas rpc_defs = user_rpc_def project_rpc_def authorization_rpc_def

lemma IsStandardRole_trim [simp]: "IsStandardRole (trim_space k) = IsStandardRole k"
  by (simp add: IsStandardRole_def CanonicalRole_def)

lemma permitted_other: "path \<notin> set role_rpcs \<Longrightarrow> permitted path payload"
  by (simp add: permitted_def)

lemma permitted_user: "permitted (user_rpc m) payload"
  by (rule permitted_other) (simp add: role_rpcs_def rpc_defs)

lemma permitted_authorization: "permitted (authorization_rpc m) payload"
  by (rule permitted_other) (simp add: role_rpcs_def rpc_defs)

lemma permitted_roles: "permitted (project_rpc ''ListProjectRoles'') payload"
  by (rule permitted_other) (simp add: role_rpcs_def rpc_defs)

lemmas permitted_rules = permitted_user permitted_authorization permitted_roles

locale provider_frame = preorder_on_states R for R :: "'s \<Rightarrow> 's \<Rightarrow> bool" +
  fixes w :: "'s provider" and cfg :: management_config
  assumes R_read: "R s (snd (pv_read w p s))"
    and R_now: "R s (snd (pv_now w s))"
    and R_send: "permitted path payload \<Longrightarrow> R s (snd (pv_send w (call_of cfg token path payload) s))"
begin

lemma keeps_file: "keeps R (readTrustedConfigFile w raw)"
proof (rule keepsI)
  fix s
  show "R s (snd (readTrustedConfigFile w raw s))"
  proof (cases "cleanTrustedConfigFilePath raw")
    case (Inr path)
    with R_read [of s path] show ?thesis
      by (cases "pv_read w path s") (auto simp: readTrustedConfigFile_def split: sum.split)
  qed (simp add: readTrustedConfigFile_def throw_apply R_refl)
qed

lemma keeps_clock: "keeps R (providerNow w)"
  using R_now by (auto simp: keeps_def providerNow_def split: prod.split) (metis snd_conv)

lemma keeps_one_call: "permitted path payload \<Longrightarrow> keeps R (requestJSON w cd cfg path token (VMap payload) decode zero)"
proof (rule keepsI)
  fix s
  assume p: "permitted path payload"
  show "R s (snd (requestJSON w cd cfg path token (VMap payload) decode zero s))"
    using R_send [OF p, of s token]
    by (auto simp: requestJSON_def Let_def call_of_def throw_apply R_refl split: option.split prod.split http_answer.split)
qed

lemmas keeps_all = keeps_rules keeps_cases keeps_file keeps_clock

lemma keeps_token: "keeps R (readOwnerToken w cfg)"
  unfolding readOwnerToken_def by (intro keeps_all)

lemma keeps_bootstrap: "keeps R (readBootstrapState w cd cfg)"
  unfolding readBootstrapState_def by (intro keeps_all)

lemma keeps_connect: "permitted path payload \<Longrightarrow> keeps R (connect w cd cfg path payload decode zero)"
  unfolding connect_def by (intro keeps_all keeps_token keeps_one_call)

lemma keeps_eachE: "(\<And>x. keeps R (f x)) \<Longrightarrow> keeps R (eachE f xs)"
  by (induction xs) (auto intro!: keeps_ret keeps_bindE)

lemmas keeps_io = keeps_all keeps_token keeps_bootstrap keeps_connect keeps_eachE permitted_rules

lemma keeps_lookups:
  "keeps R (listAuthorizations w cd cfg)" "keeps R (findUserAuthorization w cd cfg project user)"
  "keeps R (listPersonalAccessTokens w cd cfg org)" "keeps R (listKeysForUser w cd cfg user)"
  "keeps R (fetch_user w cd cfg user)" "keeps R (fetch_users w cd cfg limit)" "keeps R (credentialStatus w expires)"
  "keeps R (clientTokenExpiration w expires)"
  unfolding listAuthorizations_def findUserAuthorization_def listPersonalAccessTokens_def listKeysForUser_def fetch_user_def
    fetch_users_def credentialStatus_def clientTokenExpiration_def
  by (intro keeps_io)+

lemma keeps_views:
  "keeps R (getClient w cd cfg client)" "keeps R (GetUser w cd cfg user)" "keeps R (ListUsers w cd cfg)" "keeps R (ListRoles w cd cfg)"
  "keeps R (ListClients w cd cfg)"
  unfolding getClient_def GetUser_def ListUsers_def ListRoles_def ListClients_def machine_keys_def client_entry_def
    managedClientKeySummaryFromZitadel_def managedClientTokenSummaryFromZitadel_def
  by (intro keeps_io keeps_lookups)+

lemma keeps_writing:
  "keeps R (DeleteUser w cd cfg user)" "keeps R (TerminateUser w cd cfg user)" "keeps R (ReactivateUser w cd cfg user)"
  "keeps R (setUserRoles w cd cfg st user roles)" "keeps R (addClientKey w cd cfg user publicKey expires)"
  "keeps R (addPersonalAccessToken w cd cfg user expires)" "keeps R (createMachine w cd cfg org i)"
  unfolding DeleteUser_def TerminateUser_def ReactivateUser_def setUserRoles_def addClientKey_def addPersonalAccessToken_def
    createMachine_def
  by (intro keeps_io keeps_lookups)+

lemma keeps_orDelete: "keeps R m \<Longrightarrow> keeps R (orDelete w cd cfg user m)"
  unfolding orDelete_def by (intro keeps_io keeps_writing)

lemma keeps_operations:
  "keeps R (CreateUser w cd cfg i)" "keeps R (UpdateUser w cd cfg user u)" "keeps R (CreateClientKey w cd cfg c)"
  "keeps R (CreateClientToken w cd cfg c)" "keeps R (RotateClientToken w cd cfg client expires)"
  "keeps R (AddClientKey w cd cfg client publicKey expires)" "keeps R (RemoveClientKey w cd cfg client key)"
  "keeps R (RevokeClientToken w cd cfg client tokenID)" "keeps R (DeleteClient w cd cfg client)"
  unfolding CreateUser_def UpdateUser_def CreateClientKey_def CreateClientToken_def RotateClientToken_def AddClientKey_def
    RemoveClientKey_def RevokeClientToken_def DeleteClient_def
  by (intro keeps_io keeps_lookups keeps_views keeps_writing keeps_orDelete)+

lemma keeps_CreateRole: "\<not> IsStandardRole (mr_key i) \<Longrightarrow> keeps R (CreateRole w cd cfg i)"
  unfolding CreateRole_def Let_def
  by (intro keeps_rules keeps_prod keeps_bootstrap keeps_connect) (simp add: permitted_def)

lemma keeps_UpdateRole: "\<not> IsStandardRole key \<Longrightarrow> keeps R (UpdateRole w cd cfg key display grp)"
  unfolding UpdateRole_def
  by (intro keeps_rules keeps_prod keeps_bootstrap keeps_connect) (simp add: permitted_def)

lemma keeps_DeleteRole: "\<not> IsStandardRole key \<Longrightarrow> keeps R (DeleteRole w cd cfg key)"
  unfolding DeleteRole_def
  by (intro keeps_rules keeps_prod keeps_bootstrap keeps_connect) (simp add: permitted_def)

lemma keeps_respond: "keeps R (respond n b)" "keeps R (respond_secret name b)" "keeps R (writeIdentityManagementError e)"
  unfolding respond_def respond_secret_def writeIdentityManagementError_def by (intro keeps_all)+

lemma keeps_answer: "keeps R m \<Longrightarrow> (\<And>x. keeps R (k x)) \<Longrightarrow> keeps R (answer m k)"
  unfolding answer_def by (intro keeps_all keeps_respond)

lemma keeps_with_body: "(\<And>x. keeps R (k x)) \<Longrightarrow> keeps R (with_body b k)"
  unfolding with_body_def by (intro keeps_all keeps_respond)

text \<open>Every route; those for roles ask for the name first.\<close>

lemma keeps_handler: "keeps R (management_handler w cd cfg q)"
proof (cases q)
  case (CreateManagedRole b)
  have "keeps R (if isReservedPlatformRole (rq_key i) then respond 400 m else answer (CreateRole w cd cfg (role_create_of i)) k)"
    if "\<And>r. keeps R (k r)" for i m k
    using keeps_answer [OF keeps_CreateRole that, of "role_create_of i"] keeps_respond
    by (auto simp: isReservedPlatformRole_def isProtectedPlatformRole_def Let_def role_create_of_def)
  note guarded = this [OF keeps_respond(1)]
  show ?thesis
    unfolding CreateManagedRole management_handler.simps createIdentityManagementRole_def
    by (rule keeps_with_body, rule keeps_if, rule keeps_respond(1), rule guarded)
next
  case (UpdateManagedRole key b)
  then show ?thesis
    by (auto simp: updateIdentityManagementRole_def isProtectedPlatformRole_def
        intro!: keeps_with_body keeps_prod keeps_answer keeps_UpdateRole keeps_respond)
next
  case (DeleteManagedRole key)
  then show ?thesis
    by (auto simp: deleteIdentityManagementRole_def isProtectedPlatformRole_def intro!: keeps_answer keeps_DeleteRole keeps_respond)
qed (simp_all only: management_handler.simps listIdentityManagementUsers_def listIdentityManagementClients_def
    createIdentityManagementUser_def createIdentityManagementClientToken_def addIdentityManagementClientKey_def
    revokeIdentityManagementClientKey_def rotateIdentityManagementClientToken_def revokeIdentityManagementClientToken_def
    deleteIdentityManagementClient_def updateIdentityManagementUser_def terminateIdentityManagementUser_def
    reactivateIdentityManagementUser_def deleteIdentityManagementUser_def listIdentityManagementRoles_def,
    (intro keeps_answer keeps_with_body keeps_respond keeps_if keeps_prod keeps_sum keeps_views keeps_operations keeps_writing)+)

end

section \<open>Requests on the wire\<close>

text \<open>The requests sent and their answers, in order; files and the clock leave them alone.\<close>

type_synonym wire_log = "(http_request \<times> http_answer) list"

definition wire :: "'s provider \<Rightarrow> ('s \<Rightarrow> wire_log) \<Rightarrow> bool" where
  "wire w trace \<longleftrightarrow> (\<forall>r s. trace (snd (pv_send w r s)) = trace s @ [(r, fst (pv_send w r s))]) \<and>
     (\<forall>p s. trace (snd (pv_read w p s)) = trace s) \<and> (\<forall>s. trace (snd (pv_now w s)) = trace s)"

text \<open>\<open>adds\<close>: what was added to the log satisfies \<open>P\<close>; \<open>sends\<close>: they are permitted requests to the configured provider.\<close>

definition adds :: "('s \<Rightarrow> wire_log) \<Rightarrow> (http_request \<times> http_answer \<Rightarrow> bool) \<Rightarrow> 's \<Rightarrow> 's \<Rightarrow> bool" where
  "adds trace P s t \<longleftrightarrow> (\<exists>new. trace t = trace s @ new \<and> (\<forall>x \<in> set new. P x))"

definition sends :: "('s \<Rightarrow> wire_log) \<Rightarrow> management_config \<Rightarrow> 's \<Rightarrow> 's \<Rightarrow> bool" where
  "sends trace cfg = adds trace (\<lambda>x. \<exists>token path payload. fst x = call_of cfg token path payload \<and> permitted path payload)"

lemma adds_refl: "adds trace P s s"
  by (simp add: adds_def)

lemma adds_trans: "adds trace P s t \<Longrightarrow> adds trace P t u \<Longrightarrow> adds trace P s u"
  by (fastforce simp: adds_def)

lemma wire_read: "wire w trace \<Longrightarrow> trace (snd (pv_read w p s)) = trace s"
  and wire_now: "wire w trace \<Longrightarrow> trace (snd (pv_now w s)) = trace s"
  and wire_send: "wire w trace \<Longrightarrow> trace (snd (pv_send w r s)) = trace s @ [(r, fst (pv_send w r s))]"
  by (simp_all add: wire_def)

interpretation requests: provider_frame "\<lambda>s t. wire w trace \<longrightarrow> sends trace cfg s t" w cfg
proof
  fix s t u path payload token
  show "wire w trace \<longrightarrow> sends trace cfg s s" by (simp add: sends_def adds_refl)
  show "wire w trace \<longrightarrow> sends trace cfg s t \<Longrightarrow> wire w trace \<longrightarrow> sends trace cfg t u \<Longrightarrow> wire w trace \<longrightarrow> sends trace cfg s u"
    by (auto simp: sends_def intro: adds_trans)
  show "wire w trace \<longrightarrow> sends trace cfg s (snd (pv_read w path s))" "wire w trace \<longrightarrow> sends trace cfg s (snd (pv_now w s))"
    by (simp_all add: sends_def adds_def wire_read wire_now)
  show "wire w trace \<longrightarrow> sends trace cfg s (snd (pv_send w (call_of cfg token path payload) s))" if "permitted path payload"
    using that by (auto simp: sends_def adds_def wire_send)
qed

text \<open>The same relation for any \<open>P\<close>, under which only the structural rules and those of a single request hold.\<close>

interpretation adding: preorder_on_states "\<lambda>s t. wire w trace \<longrightarrow> adds trace P s t"
  by unfold_locales (auto intro: adds_refl adds_trans)

end
