(* ===== verification/IamProps.thy ===== *)
theory IamProps
  imports IamFrame Total
begin

text \<open>
  Properties of identity management: who may cause requests to the provider, which roles and credentials they touch, what
  a failed creation leaves behind, how long credentials live, and the round trip of a client's metadata.
\<close>

section \<open>Who may\<close>

lemma serve_sends:
  assumes "wire w trace" and "identity_serve w cd dp q who s = (r, t)"
  shows "sends trace (dp_management dp) s t"
    and "trace t \<noteq> trace s \<Longrightarrow> dp_mode dp = DeploymentModeZITADEL \<and> (\<exists>p. who = Some p \<and> HasRole p RoleArtificialFlowAdmin)"
proof -
  have "keeps (\<lambda>s t. wire w trace \<longrightarrow> sends trace (dp_management dp) s t) (identity_serve w cd dp q who)"
    unfolding identity_serve_def requireBundledIAMAdmin_def getIdentityConfig_def Let_def
    by (intro keeps_if keeps_option requests.keeps_respond requests.keeps_handler)
  from keepsD [OF this assms(2)] assms(1) show "sends trace (dp_management dp) s t" by simp
  show "dp_mode dp = DeploymentModeZITADEL \<and> (\<exists>p. who = Some p \<and> HasRole p RoleArtificialFlowAdmin)" if "trace t \<noteq> trace s"
    using that assms(2)
    by (auto simp: identity_serve_def requireBundledIAMAdmin_def getIdentityConfig_def Let_def respond_def ret_apply
        split: if_splits option.splits)
qed

text \<open>C18: identity management acts for administrators only. When a call to any identity route sends a request to the identity
  provider, the deployment is the bundled one and the caller is an administrator; and all requests go to the address and
  under the host of the configured provider.\<close>

theorem identity_requests_need_an_administrator:
  assumes "wire w trace" and "identity_serve w cd dp q who s = (r, t)" and "trace t \<noteq> trace s"
  shows "dp_mode dp = DeploymentModeZITADEL \<and> (\<exists>p. who = Some p \<and> HasRole p RoleArtificialFlowAdmin) \<and>
     (\<exists>new. trace t = trace s @ new \<and> (\<forall>(rq, a) \<in> set new. hr_host rq = mc_public_host (dp_management dp) \<and>
       has_prefix (hr_url rq) (trim_space (mc_base_url (dp_management dp)))))"
proof -
  from serve_sends(1) [OF assms(1,2)] obtain new where "trace t = trace s @ new"
    "\<forall>x \<in> set new. \<exists>token path payload. fst x = call_of (dp_management dp) token path payload"
    unfolding sends_def adds_def by blast
  then show ?thesis using serve_sends(2) [OF assms] by (fastforce simp: call_of_def has_prefix_def)
qed

text \<open>C21: the roles of the platform cannot be managed. Whoever calls whatever identity route, no request to add, update or
  remove a project role names one of the platform's roles, in any spelling the platform would take for it.\<close>

theorem platform_roles_are_not_managed:
  assumes "wire w trace" and "identity_serve w cd dp q who s = (r, t)"
  shows "\<exists>new. trace t = trace s @ new \<and> (\<forall>(rq, a) \<in> set new. \<forall>m \<in> {''AddProjectRole'', ''UpdateProjectRole'', ''RemoveProjectRole''}.
     \<forall>sent k. hr_url rq = trim_space (mc_base_url (dp_management dp)) @ project_rpc m \<and> hr_body rq = VMap sent \<and>
       map_of sent ''roleKey'' = Some (VStr k) \<longrightarrow> \<not> IsStandardRole k)"
proof -
  from serve_sends(1) [OF assms] obtain new where n: "trace t = trace s @ new"
    and p: "\<forall>x \<in> set new. \<exists>token path payload. fst x = call_of (dp_management dp) token path payload \<and> permitted path payload"
    by (auto simp: sends_def adds_def)
  have "\<not> IsStandardRole k"
    if "(rq, a) \<in> set new" "m \<in> {''AddProjectRole'', ''UpdateProjectRole'', ''RemoveProjectRole''}"
      "hr_url rq = trim_space (mc_base_url (dp_management dp)) @ project_rpc m" "hr_body rq = VMap sent"
      "map_of sent ''roleKey'' = Some (VStr k)" for rq a m sent k
  proof -
    from p that(1) obtain token path payload where "rq = call_of (dp_management dp) token path payload" and pe: "permitted path payload"
      by force
    with that(3,4) have "path = project_rpc m" "payload = sent" by (simp_all add: call_of_def)
    with pe that(2,5) show ?thesis by (auto simp: permitted_def role_rpcs_def)
  qed
  with n show ?thesis by blast
qed

section \<open>What an operation sends\<close>

text \<open>Operations that only send requests with \<open>P\<close>, and those of one request by its outcome.\<close>

abbreviation adding :: "'s provider \<Rightarrow> ('s \<Rightarrow> wire_log) \<Rightarrow> (http_request \<times> http_answer \<Rightarrow> bool) \<Rightarrow> ('s, 'a) go \<Rightarrow> bool" where
  "adding w trace P \<equiv> keeps (\<lambda>s t. wire w trace \<longrightarrow> adds trace P s t)"

lemma adds_same: "trace t = trace s \<Longrightarrow> adds trace P s t"
  by (simp add: adds_def)

lemma adds_nothing: "adds trace (\<lambda>_. False) s t \<Longrightarrow> trace t = trace s"
proof -
  assume "adds trace (\<lambda>_. False) s t"
  then obtain new where n: "trace t = trace s @ new" "\<forall>x \<in> set new. False" unfolding adds_def by blast
  then have "x \<notin> set new" for x by blast
  then have "new = []" by (metis list.set_intros(1) neq_Nil_conv)
  with n(1) show ?thesis by simp
qed

lemma adding_file: "adding w trace P (readTrustedConfigFile w p)"
proof (rule keepsI)
  fix s
  show "wire w trace \<longrightarrow> adds trace P s (snd (readTrustedConfigFile w p s))"
  proof (cases "cleanTrustedConfigFilePath p")
    case (Inr path)
    with wire_read [of w trace path s] show ?thesis
      by (cases "pv_read w path s") (auto simp: readTrustedConfigFile_def intro!: adds_same split: sum.split)
  qed (simp add: readTrustedConfigFile_def throw_apply adds_refl)
qed

lemma adding_now: "adding w trace P (providerNow w)"
proof (rule keepsI)
  fix s
  show "wire w trace \<longrightarrow> adds trace P s (snd (providerNow w s))"
    using wire_now [of w trace s] by (cases "pv_now w s") (auto simp: providerNow_def intro!: adds_same)
qed

lemma adding_token: "adding w trace P (readOwnerToken w cfg)"
  unfolding readOwnerToken_def by (intro adding.keeps_rules keeps_cases adding_file)

lemma adding_bootstrap: "adding w trace P (readBootstrapState w cd cfg)"
  unfolding readBootstrapState_def by (intro adding.keeps_rules keeps_cases adding_file)

lemma adding_request:
  assumes "\<And>a. P (call_of cfg token path payload, a)"
  shows "adding w trace P (requestJSON w cd cfg path token (VMap payload) decode zero)"
proof (rule keepsI)
  fix s
  show "wire w trace \<longrightarrow> adds trace P s (snd (requestJSON w cd cfg path token (VMap payload) decode zero s))"
    using wire_send [of w trace "call_of cfg token path payload" s] assms
    by (auto simp: requestJSON_def Let_def call_of_def throw_apply adds_refl adds_def
        split: option.split prod.split http_answer.split)
qed

lemma adding_connect:
  assumes "\<And>token a. P (call_of cfg token path payload, a)"
  shows "adding w trace P (connect w cd cfg path payload decode zero)"
  unfolding connect_def using assms by (intro adding.keeps_rules adding_token adding_request)

lemmas adding_rules = adding.keeps_rules keeps_cases adding_now adding_bootstrap

lemma silent_token:
  assumes "wire w trace" and "readOwnerToken w cfg s = (r, t)"
  shows "trace t = trace s"
proof -
  have "wire w trace \<longrightarrow> adds trace (\<lambda>_. False) s t" by (rule keepsD [OF adding_token assms(2)])
  with assms(1) show ?thesis by (simp add: adds_nothing)
qed

text \<open>An answer the client takes, and what it reads from it.\<close>

definition taken :: "(string \<Rightarrow> go_err + 'a) \<Rightarrow> 'a \<Rightarrow> http_answer \<Rightarrow> 'a \<Rightarrow> bool" where
  "taken decode zero a x = (case a of NoAnswer _ \<Rightarrow> False
     | Answer code body \<Rightarrow> 200 \<le> code \<and> code < 300 \<and> (if body = [] then x = zero else decode body = Inr x))"

lemma send_outcome:
  assumes "wire w trace" and "requestJSON w cd cfg path token (VMap payload) decode zero s = (r, t)"
  shows "trace t = trace s \<and> (\<forall>x. r \<noteq> Ok x) \<or>
     (\<exists>a. trace t = trace s @ [(call_of cfg token path payload, a)] \<and> (\<forall>x. r = Ok x \<longrightarrow> taken decode zero a x))"
proof (cases "trim_space (mc_base_url cfg) = [] \<or> cd_bad_url cd (trim_space (mc_base_url cfg) @ path) \<noteq> None")
  case True
  with assms(2) show ?thesis by (auto simp: requestJSON_def Let_def throw_apply split: if_splits option.splits)
next
  case False
  obtain a u where a: "pv_send w (call_of cfg token path payload) s = (a, u)" by (cases "pv_send w (call_of cfg token path payload) s")
  with False assms(2) have "t = u" and "\<forall>x. r = Ok x \<longrightarrow> taken decode zero a x"
    by (cases a; auto simp: requestJSON_def Let_def call_of_def taken_def split: if_splits sum.splits)+
  with wire_send [OF assms(1), of "call_of cfg token path payload" s] a show ?thesis by auto
qed

lemma request_outcome:
  assumes "wire w trace" and "connect w cd cfg path payload decode zero s = (r, t)"
  shows "trace t = trace s \<and> (\<forall>x. r \<noteq> Ok x) \<or>
     (\<exists>token a. trace t = trace s @ [(call_of cfg token path payload, a)] \<and> (\<forall>x. r = Ok x \<longrightarrow> taken decode zero a x))"
proof (cases "readOwnerToken w cfg s")
  case (Pair r1 u)
  note tu = silent_token [OF assms(1) Pair]
  show ?thesis
  proof (cases r1)
    case (Ok token)
    with Pair assms(2) have "requestJSON w cd cfg path token (VMap payload) decode zero u = (r, t)"
      by (simp add: connect_def bindE_apply)
    from send_outcome [OF assms(1) this] tu show ?thesis by auto
  qed (use Pair assms(2) tu in \<open>simp_all add: connect_def bindE_apply\<close>, auto)
qed

section \<open>Which clients\<close>

text \<open>The requests that only read.\<close>

definition read_rpcs :: "string list" where
  "read_rpcs = authorization_rpc ''ListAuthorizations'' # map user_rpc [''GetUserByID'', ''ListKeys'', ''ListPersonalAccessTokens'']"

definition read_call :: "management_config \<Rightarrow> http_request \<times> http_answer \<Rightarrow> bool" where
  "read_call cfg x \<longleftrightarrow> (\<exists>token path payload. fst x = call_of cfg token path payload \<and> path \<in> set read_rpcs)"

text \<open>\<open>ends H Q m\<close>: after the requests \<open>H\<close>, \<open>m\<close> sends requests that read and then at most some for which they give
  a reason, \<open>Q\<close>.\<close>

definition ends ::
  "'s provider \<Rightarrow> management_config \<Rightarrow> ('s \<Rightarrow> wire_log) \<Rightarrow> wire_log \<Rightarrow> (wire_log \<Rightarrow> wire_log \<Rightarrow> bool) \<Rightarrow> ('s, 'a) go \<Rightarrow> bool" where
  "ends w cfg trace H Q m \<longleftrightarrow> (wire w trace \<longrightarrow> (\<forall>s r t. m s = (r, t) \<longrightarrow> (\<exists>pre fin. trace t = trace s @ pre @ fin \<and>
     (\<forall>x \<in> set pre. read_call cfg x) \<and> (fin = [] \<or> Q (H @ pre) fin))))"

lemma ends_reading: "adding w trace (read_call cfg) m \<Longrightarrow> ends w cfg trace H Q m"
  unfolding ends_def
proof (intro impI allI)
  fix s r t
  assume "adding w trace (read_call cfg) m" and w: "wire w trace" and "m s = (r, t)"
  from keepsD [OF this(1,3)] w obtain new where "trace t = trace s @ new" "\<forall>x \<in> set new. read_call cfg x"
    unfolding adds_def by blast
  then have "trace t = trace s @ new @ [] \<and> (\<forall>x \<in> set new. read_call cfg x)" by simp
  then show "\<exists>pre fin. trace t = trace s @ pre @ fin \<and> (\<forall>x \<in> set pre. read_call cfg x) \<and> (fin = [] \<or> Q (H @ pre) fin)" by blast
qed

lemma ends_bindE:
  assumes "adding w trace (read_call cfg) m"
    and "\<And>x s u pre. wire w trace \<Longrightarrow> m s = (Ok x, u) \<Longrightarrow> trace u = trace s @ pre \<Longrightarrow> ends w cfg trace (H @ pre) Q (k x)"
  shows "ends w cfg trace H Q (bindE m k)"
  unfolding ends_def
proof (intro impI allI)
  fix s r t
  assume w: "wire w trace" and run: "bindE m k s = (r, t)"
  obtain r1 u where m: "m s = (r1, u)" by (cases "m s")
  from keepsD [OF assms(1) m] w obtain pre where pre: "trace u = trace s @ pre" "\<forall>x \<in> set pre. read_call cfg x"
    unfolding adds_def by blast
  show "\<exists>pre fin. trace t = trace s @ pre @ fin \<and> (\<forall>x \<in> set pre. read_call cfg x) \<and> (fin = [] \<or> Q (H @ pre) fin)"
  proof (cases "\<exists>x. r1 = Ok x")
    case True
    then obtain x where x: "r1 = Ok x" by blast
    with m run have k: "k x u = (r, t)" by (simp add: bindE_apply)
    from assms(2) [OF w m [unfolded x] pre(1)] w k obtain pre' fin where
      "trace t = trace u @ pre' @ fin" "\<forall>x \<in> set pre'. read_call cfg x" "fin = [] \<or> Q ((H @ pre) @ pre') fin"
      unfolding ends_def by blast
    with pre have "trace t = trace s @ (pre @ pre') @ fin \<and> (\<forall>x \<in> set (pre @ pre'). read_call cfg x) \<and>
        (fin = [] \<or> Q (H @ (pre @ pre')) fin)" by auto
    then show ?thesis by blast
  next
    case False
    with m run have "t = u" by (cases r1) (auto simp: bindE_apply)
    with pre have "trace t = trace s @ pre @ [] \<and> (\<forall>x \<in> set pre. read_call cfg x)" by simp
    then show ?thesis by blast
  qed
qed

lemma ends_thenE:
  assumes "adding w trace (read_call cfg) m"
    and "\<And>x s u pre. wire w trace \<Longrightarrow> m s = (Ok x, u) \<Longrightarrow> trace u = trace s @ pre \<Longrightarrow> ends w cfg trace (H @ pre) Q k"
  shows "ends w cfg trace H Q (thenE m k)"
  unfolding thenE_def using assms by (rule ends_bindE)

lemma ends_connect:
  assumes "\<And>token a. Q H [(call_of cfg token path payload, a)]"
  shows "ends w cfg trace H Q (connect w cd cfg path payload decode zero)"
  unfolding ends_def
proof (intro impI allI)
  fix s r t
  assume "wire w trace" "connect w cd cfg path payload decode zero s = (r, t)"
  from request_outcome [OF this] assms have "trace t = trace s @ [] @ [] \<or>
      (\<exists>token a. trace t = trace s @ [] @ [(call_of cfg token path payload, a)] \<and> Q (H @ []) [(call_of cfg token path payload, a)])"
    by auto
  then show "\<exists>pre fin. trace t = trace s @ pre @ fin \<and> (\<forall>x \<in> set pre. read_call cfg x) \<and> (fin = [] \<or> Q (H @ pre) fin)"
    by (metis list.set(1) empty_iff)
qed

lemma ends_then_reading:
  assumes "ends w cfg trace H Q m" and "\<And>x s. trace (snd (k x s)) = trace s"
  shows "ends w cfg trace H Q (bindE m k)"
  unfolding ends_def
proof (intro impI allI)
  fix s r t
  assume w: "wire w trace" and run: "bindE m k s = (r, t)"
  obtain r1 u where m: "m s = (r1, u)" by (cases "m s")
  have "trace t = trace u" using run m assms(2) by (cases r1) (auto simp: bindE_apply, metis snd_conv)
  with assms(1) w m show "\<exists>pre fin. trace t = trace s @ pre @ fin \<and> (\<forall>x \<in> set pre. read_call cfg x) \<and> (fin = [] \<or> Q (H @ pre) fin)"
    unfolding ends_def by metis
qed

text \<open>The answers that show a client: a user that may be managed, and an active authorization with the role of clients.\<close>

definition shown_client :: "codecs \<Rightarrow> management_config \<Rightarrow> string \<Rightarrow> zitadel_user \<Rightarrow> wire_log \<Rightarrow> bool" where
  "shown_client cd cfg client u H \<longleftrightarrow> managedClientIsVisible (managedClientFromZitadel cd u) \<and>
     (\<exists>token a. (call_of cfg token (user_rpc ''GetUserByID'') [(''userId'', VStr (trim_space client))], a) \<in> set H \<and>
        taken (cd_user cd) no_user a u) \<and>
     (\<exists>token a found z. (call_of cfg token (authorization_rpc ''ListAuthorizations'') [(''pagination'', VMap [(''limit'', VStr ''500'')])], a) \<in> set H \<and>
        taken (cd_authorizations cd) [] a found \<and> z \<in> set found \<and> za_user z = zu_user_id u \<and> authorizationIsActive (za_state z) \<and>
        roleKeysContain (normalizeRoleKeys (map mr_key (za_roles z))) RoleArtificialFlowClient)"

lemma shown_client_mono: "shown_client cd cfg client u H \<Longrightarrow> set H \<subseteq> set H' \<Longrightarrow> shown_client cd cfg client u H'"
  unfolding shown_client_def by blast

lemma bindE_OkE:
  assumes "bindE m f s = (Ok y, t)"
  obtains x u where "m s = (Ok x, u)" and "f x u = (Ok y, t)"
  using assms by (cases "m s"; cases "fst (m s)") (auto simp: bindE_apply)

lemma connect_OkE:
  assumes "wire w trace" and "connect w cd cfg path payload decode zero s = (Ok x, t)"
  obtains token a where "trace t = trace s @ [(call_of cfg token path payload, a)]" and "taken decode zero a x"
  using request_outcome [OF assms] by auto

lemma getClient_shows:
  assumes w: "wire w trace" and "getClient w cd cfg client s = (Ok c, t)" and "trace t = trace s @ pre"
  shows "\<exists>u. shown_client cd cfg client u (H @ pre) \<and> ml_id c = zu_user_id u"
proof -
  from assms(2) obtain org project s1 where b: "readBootstrapState w cd cfg s = (Ok (org, project), s1)"
    and r1: "bindE (fetch_user w cd cfg (trim_space client)) (\<lambda>u. let c = managedClientFromZitadel cd u in
       if \<not> managedClientIsVisible c then throw ErrZITADELManagedClientNotFound
       else bindE (findUserAuthorization w cd cfg project (ml_id c)) (\<lambda>a. case a of
           None \<Rightarrow> throw ErrZITADELManagedClientNotFound
         | Some a \<Rightarrow> if \<not> authorizationIsActive (za_state a) then throw ErrZITADELManagedClientNotFound
             else if \<not> roleKeysContain (normalizeRoleKeys (map mr_key (za_roles a))) RoleArtificialFlowClient
               then throw ErrZITADELManagedClientNotFound
             else ret (c\<lparr>ml_role := RoleArtificialFlowClient\<rparr>))) s1 = (Ok c, t)"
    unfolding getClient_def by (elim bindE_OkE) auto
  have t1: "trace s1 = trace s"
    using keepsD [OF adding_bootstrap [of w trace "\<lambda>_. False"] b] w by (simp add: adds_nothing)
  from r1 obtain u s2 where f: "fetch_user w cd cfg (trim_space client) s1 = (Ok u, s2)"
    and v: "managedClientIsVisible (managedClientFromZitadel cd u)"
    and r2: "bindE (findUserAuthorization w cd cfg project (ml_id (managedClientFromZitadel cd u))) (\<lambda>a. case a of
           None \<Rightarrow> throw ErrZITADELManagedClientNotFound
         | Some a \<Rightarrow> if \<not> authorizationIsActive (za_state a) then throw ErrZITADELManagedClientNotFound
             else if \<not> roleKeysContain (normalizeRoleKeys (map mr_key (za_roles a))) RoleArtificialFlowClient
               then throw ErrZITADELManagedClientNotFound
             else ret ((managedClientFromZitadel cd u)\<lparr>ml_role := RoleArtificialFlowClient\<rparr>)) s2 = (Ok c, t)"
    by (elim bindE_OkE) (auto simp: Let_def throw_apply split: if_splits)
  from f obtain tk1 a1 where t2: "trace s2 = trace s1 @ [(call_of cfg tk1 (user_rpc ''GetUserByID'') [(''userId'', VStr (trim_space client))], a1)]"
    and a1: "taken (cd_user cd) no_user a1 u"
    unfolding fetch_user_def by (rule connect_OkE [OF w])
  from r2 obtain z where z: "findUserAuthorization w cd cfg project (ml_id (managedClientFromZitadel cd u)) s2 = (Ok (Some z), t)"
    and zz: "authorizationIsActive (za_state z)" "roleKeysContain (normalizeRoleKeys (map mr_key (za_roles z))) RoleArtificialFlowClient"
    and c: "c = (managedClientFromZitadel cd u)\<lparr>ml_role := RoleArtificialFlowClient\<rparr>"
    by (elim bindE_OkE) (auto simp: throw_apply ret_apply split: option.splits if_splits)
  have id: "ml_id (managedClientFromZitadel cd u) = zu_user_id u"
    by (simp add: managedClientFromZitadel_def Let_def split: prod.split)
  from z obtain found where l: "listAuthorizations w cd cfg s2 = (Ok found, t)"
    and zf: "z \<in> set found" "za_user z = zu_user_id u"
    unfolding findUserAuthorization_def by (elim bindE_OkE) (auto simp: ret_apply find_Some_iff id)
  from l obtain tk2 a2 where t3: "trace t = trace s2 @ [(call_of cfg tk2 (authorization_rpc ''ListAuthorizations'')
      [(''pagination'', VMap [(''limit'', VStr ''500'')])], a2)]" and a2: "taken (cd_authorizations cd) [] a2 found"
    unfolding listAuthorizations_def by (rule connect_OkE [OF w])
  from t1 t2 t3 assms(3) have "pre = [(call_of cfg tk1 (user_rpc ''GetUserByID'') [(''userId'', VStr (trim_space client))], a1),
      (call_of cfg tk2 (authorization_rpc ''ListAuthorizations'') [(''pagination'', VMap [(''limit'', VStr ''500'')])], a2)]" by simp
  then have "shown_client cd cfg client u (H @ pre)"
    using v a1 a2 zf zz by (fastforce simp: shown_client_def)
  with c id show ?thesis by auto
qed

text \<open>The call that changes the client \<open>i\<close> does so by the request \<open>m\<close>.\<close>

fun client_change :: "identity_call \<Rightarrow> (string \<times> string) option" where
  "client_change (DeleteManagedClient i) = Some (i, ''DeleteUser'')"
| "client_change (RotateManagedToken i b) = Some (i, ''AddPersonalAccessToken'')"
| "client_change (RevokeManagedToken i t) = Some (i, ''RemovePersonalAccessToken'')"
| "client_change (AddManagedKey i b) = Some (i, ''AddKey'')"
| "client_change (RevokeManagedKey i k) = Some (i, ''RemoveKey'')"
| "client_change q = None"

text \<open>The answers that show the credential to revoke.\<close>

fun shown_credential :: "codecs \<Rightarrow> management_config \<Rightarrow> identity_call \<Rightarrow> wire_log \<Rightarrow> bool" where
  "shown_credential cd cfg (RevokeManagedKey i k) H \<longleftrightarrow> (\<exists>token a ks rs. (call_of cfg token (user_rpc ''ListKeys'')
       [(''userId'', VStr (trim_space i)), (''pagination'', VMap [(''limit'', VStr ''100'')])], a) \<in> set H \<and>
       taken (cd_keys cd) ([], []) a (ks, rs) \<and> (\<exists>z \<in> set (if ks = [] then rs else ks). zk_id z = trim_space k))"
| "shown_credential cd cfg (RevokeManagedToken i p) H \<longleftrightarrow> (\<exists>token a ts. (call_of cfg token (user_rpc ''ListPersonalAccessTokens'')
       [(''pagination'', VMap [(''limit'', VStr ''1000'')]),
        (''sortingColumn'', VStr ''PERSONAL_ACCESS_TOKEN_FIELD_NAME_CREATED_DATE'')], a) \<in> set H \<and>
       taken (cd_pats cd) [] a ts \<and> (\<exists>z \<in> set ts. zp_user z = trim_space i \<and> zp_id z = trim_space p))"
| "shown_credential cd cfg q H \<longleftrightarrow> True"

definition justified :: "codecs \<Rightarrow> management_config \<Rightarrow> identity_call \<Rightarrow> string \<Rightarrow> string \<Rightarrow> wire_log \<Rightarrow> wire_log \<Rightarrow> bool" where
  "justified cd cfg q i m H fin \<longleftrightarrow> (\<exists>token payload a u. fin = [(call_of cfg token (user_rpc m) payload, a)] \<and>
     shown_client cd cfg i u H \<and> shown_credential cd cfg q H \<and>
     map_of payload ''userId'' \<in> {Some (VStr i), Some (VStr (trim_space i)), Some (VStr (zu_user_id u))})"

lemma justifiedI:
  assumes "shown_client cd cfg i u H" and "shown_credential cd cfg q H"
    and "map_of payload ''userId'' \<in> {Some (VStr i), Some (VStr (trim_space i)), Some (VStr (zu_user_id u))}"
  shows "justified cd cfg q i m H [(call_of cfg token (user_rpc m) payload, a)]"
  using assms unfolding justified_def by blast

lemma ends_answer:
  assumes "ends w cfg trace H Q m" and "\<And>x s. trace (snd (k x s)) = trace s"
  shows "ends w cfg trace H Q (answer m k)"
proof -
  have e: "trace (snd (writeIdentityManagementError e s)) = trace s" for e s
    by (simp add: writeIdentityManagementError_def respond_def ret_apply split: option.split)
  have "ends w cfg trace H Q (tryE m)"
    unfolding ends_def
  proof (intro impI allI)
    fix s r t
    assume w: "wire w trace" and "tryE m s = (r, t)"
    then obtain r' where "m s = (r', t)" by (cases "m s"; cases "fst (m s)") (auto simp: tryE_def)
    with assms(1) w show "\<exists>pre fin. trace t = trace s @ pre @ fin \<and> (\<forall>x \<in> set pre. read_call cfg x) \<and> (fin = [] \<or> Q (H @ pre) fin)"
      unfolding ends_def by blast
  qed
  then show ?thesis
    unfolding answer_def by (rule ends_then_reading) (auto simp: e assms(2) split: sum.split)
qed

lemma read_paths:
  "read_call cfg (call_of cfg token (user_rpc ''GetUserByID'') payload, a)"
  "read_call cfg (call_of cfg token (user_rpc ''ListKeys'') payload, a)"
  "read_call cfg (call_of cfg token (user_rpc ''ListPersonalAccessTokens'') payload, a)"
  "read_call cfg (call_of cfg token (authorization_rpc ''ListAuthorizations'') payload, a)"
  by (force simp: read_call_def read_rpcs_def)+

lemma adding_reads:
  "adding w trace (read_call cfg) (fetch_user w cd cfg user)"
  "adding w trace (read_call cfg) (listAuthorizations w cd cfg)"
  "adding w trace (read_call cfg) (findUserAuthorization w cd cfg project user)"
  "adding w trace (read_call cfg) (listKeysForUser w cd cfg user)"
  "adding w trace (read_call cfg) (listPersonalAccessTokens w cd cfg org)"
  unfolding fetch_user_def listAuthorizations_def findUserAuthorization_def listKeysForUser_def listPersonalAccessTokens_def
  by (intro adding_rules adding_connect read_paths)+

lemma adding_getClient: "adding w trace (read_call cfg) (getClient w cd cfg client)"
  unfolding getClient_def Let_def by (intro adding_rules adding_reads)

text \<open>After the client has been looked up.\<close>

lemma ends_getClient:
  assumes "\<And>c u pre. shown_client cd cfg client u pre \<Longrightarrow> ml_id c = zu_user_id u \<Longrightarrow> ends w cfg trace pre Q (k c)"
  shows "ends w cfg trace [] Q (bindE (getClient w cd cfg client) k)"
proof (rule ends_bindE [OF adding_getClient])
  fix c s u pre
  assume "wire w trace" "getClient w cd cfg client s = (Ok c, u)" "trace u = trace s @ pre"
  from getClient_shows [OF this, of "[]"] assms show "ends w cfg trace ([] @ pre) Q (k c)" by auto
qed

lemma ends_silent:
  assumes "adding w trace (\<lambda>_. False) m" and "\<And>x. ends w cfg trace H Q (k x)"
  shows "ends w cfg trace H Q (bindE m k)"
  unfolding ends_def
proof (intro impI allI)
  fix s r t
  assume w: "wire w trace" and run: "bindE m k s = (r, t)"
  obtain r1 u where m: "m s = (r1, u)" by (cases "m s")
  with keepsD [OF assms(1) m] w have u: "trace u = trace s" by (simp add: adds_nothing)
  show "\<exists>pre fin. trace t = trace s @ pre @ fin \<and> (\<forall>x \<in> set pre. read_call cfg x) \<and> (fin = [] \<or> Q (H @ pre) fin)"
  proof (cases "\<exists>x. r1 = Ok x")
    case True
    then obtain x where "r1 = Ok x" by blast
    with m run have "k x u = (r, t)" by (simp add: bindE_apply)
    with assms(2) [of x] w u show ?thesis unfolding ends_def by metis
  next
    case False
    with m run have "t = u" by (cases r1) (auto simp: bindE_apply)
    with u have "trace t = trace s @ [] @ [] \<and> (\<forall>x \<in> set []. read_call cfg x)" by simp
    then show ?thesis by blast
  qed
qed

lemma ends_ret: "ends w cfg trace H Q (ret x)" "ends w cfg trace H Q (throw e)"
  by (rule ends_reading, intro adding_rules)+

lemma thenE_bindE: "thenE m k = bindE m (\<lambda>_. k)"
  by (simp add: thenE_def)

lemma adding_liftR: "adding w trace P (liftR r)"
  by (cases r) (simp_all add: keeps_def liftR_def adds_refl ret_apply throw_apply)

lemma ends_DeleteClient:
  "ends w cfg trace [] (justified cd cfg (DeleteManagedClient i) i ''DeleteUser'') (DeleteClient w cd cfg i)"
  unfolding DeleteClient_def thenE_bindE DeleteUser_def
  by (rule ends_getClient, rule ends_connect, rule justifiedI) auto

lemma adding_tokenExpiration: "adding w trace P (clientTokenExpiration w v)"
  unfolding clientTokenExpiration_def by (intro adding_rules)

lemma ends_RotateClientToken:
  "ends w cfg trace [] (justified cd cfg (RotateManagedToken i b) i ''AddPersonalAccessToken'') (RotateClientToken w cd cfg i v)"
proof (cases "mc_pat_rotation cfg")
  case True
  then show ?thesis
    unfolding RotateClientToken_def addPersonalAccessToken_def
    by (simp only: if_False not_True_eq_False)
      (rule ends_getClient, rule ends_silent [OF adding_tokenExpiration], rule ends_then_reading, rule ends_connect, rule justifiedI,
       auto simp: ret_apply)
qed (simp add: RotateClientToken_def ends_ret)

lemma ends_AddClientKey:
  "ends w cfg trace [] (justified cd cfg (AddManagedKey i b) i ''AddKey'') (AddClientKey w cd cfg i p e)"
  unfolding AddClientKey_def addClientKey_def thenE_bindE providerNow_def [symmetric]
  by (rule ends_getClient, rule ends_silent [OF adding_liftR], rule ends_silent [OF adding_now], rule ends_silent [OF adding_liftR],
      rule ends_then_reading, rule ends_connect, rule justifiedI) (auto simp: ret_apply split: prod.split)

lemma listKeysForUser_shows:
  assumes "wire w trace" and "listKeysForUser w cd cfg user s = (Ok zs, t)" and "trace t = trace s @ pre" and "z \<in> set zs"
  shows "\<exists>token a ks rs. (call_of cfg token (user_rpc ''ListKeys'')
       [(''userId'', VStr (trim_space user)), (''pagination'', VMap [(''limit'', VStr ''100'')])], a) \<in> set pre \<and>
       taken (cd_keys cd) ([], []) a (ks, rs) \<and> (\<exists>z' \<in> set (if ks = [] then rs else ks). zk_id z' = zk_id z)"
proof -
  from assms(2) obtain ks rs where c: "connect w cd cfg (user_rpc ''ListKeys'')
      [(''userId'', VStr (trim_space user)), (''pagination'', VMap [(''limit'', VStr ''100'')])] (cd_keys cd) ([], []) s = (Ok (ks, rs), t)"
    and z: "zs = map (\<lambda>k. if zk_user k = [] then k\<lparr>zk_user := trim_space user\<rparr> else k) (if ks = [] then rs else ks)"
    unfolding listKeysForUser_def by (elim bindE_OkE) (auto simp: ret_apply)
  from connect_OkE [OF assms(1) c] obtain token a where "trace t = trace s @ [(call_of cfg token (user_rpc ''ListKeys'')
      [(''userId'', VStr (trim_space user)), (''pagination'', VMap [(''limit'', VStr ''100'')])], a)]"
    "taken (cd_keys cd) ([], []) a (ks, rs)" .
  moreover have "\<exists>z' \<in> set (if ks = [] then rs else ks). zk_id z' = zk_id z"
    using assms(4) unfolding z by (auto split: if_splits)
  ultimately show ?thesis using assms(3) by (metis list.set_intros(1) same_append_eq)
qed

lemma ends_RemoveClientKey:
  "ends w cfg trace [] (justified cd cfg (RevokeManagedKey i k) i ''RemoveKey'') (RemoveClientKey w cd cfg i k)"
  unfolding RemoveClientKey_def thenE_bindE
proof (rule ends_getClient, rule ends_bindE [OF adding_reads(4)])
  fix u pre zs s t pre'
  assume c: "shown_client cd cfg i u pre" and w: "wire w trace"
    and l: "listKeysForUser w cd cfg (trim_space i) s = (Ok zs, t)" "trace t = trace s @ pre'"
  show "ends w cfg trace (pre @ pre') (justified cd cfg (RevokeManagedKey i k) i ''RemoveKey'')
     (if \<not> list_ex (\<lambda>z. zk_id z = trim_space k) zs then throw ErrZITADELManagedClientNotFound
      else connect w cd cfg (user_rpc ''RemoveKey'') [(''userId'', VStr (trim_space i)), (''keyId'', VStr (trim_space k))] no_target ())"
  proof (cases "list_ex (\<lambda>z. zk_id z = trim_space k) zs")
    case True
    then obtain z where "z \<in> set zs" and z: "zk_id z = trim_space k" by (auto simp: list_ex_iff)
    from listKeysForUser_shows [OF w l this(1)] z have "shown_credential cd cfg (RevokeManagedKey i k) (pre @ pre')"
      by (fastforce simp only: shown_credential.simps trim_space_idem set_append Un_iff)
    with shown_client_mono [OF c, of "pre @ pre'"] show ?thesis
      by (simp only: True not_True_eq_False if_False) (rule ends_connect, rule justifiedI, auto)
  qed (simp add: ends_ret)
qed

lemma ends_RevokeClientToken:
  "ends w cfg trace [] (justified cd cfg (RevokeManagedToken i p) i ''RemovePersonalAccessToken'') (RevokeClientToken w cd cfg i p)"
  unfolding RevokeClientToken_def thenE_bindE
proof (rule ends_getClient, rule ends_bindE [OF adding_reads(5)])
  fix u pre zs s t pre'
  assume c: "shown_client cd cfg i u pre" and w: "wire w trace"
    and l: "listPersonalAccessTokens w cd cfg [] s = (Ok zs, t)" and t: "trace t = trace s @ pre'"
  from l have "connect w cd cfg (user_rpc ''ListPersonalAccessTokens'') [(''pagination'', VMap [(''limit'', VStr ''1000'')]),
      (''sortingColumn'', VStr ''PERSONAL_ACCESS_TOKEN_FIELD_NAME_CREATED_DATE'')] (cd_pats cd) [] s = (Ok zs, t)"
    unfolding listPersonalAccessTokens_def by (elim bindE_OkE) (simp add: ret_apply)
  from connect_OkE [OF w this] obtain token a where a: "trace t = trace s @ [(call_of cfg token (user_rpc ''ListPersonalAccessTokens'')
      [(''pagination'', VMap [(''limit'', VStr ''1000'')]),
       (''sortingColumn'', VStr ''PERSONAL_ACCESS_TOKEN_FIELD_NAME_CREATED_DATE'')], a)]" "taken (cd_pats cd) [] a zs" .
  show "ends w cfg trace (pre @ pre') (justified cd cfg (RevokeManagedToken i p) i ''RemovePersonalAccessToken'')
     (if \<not> list_ex (\<lambda>t. zp_user t = trim_space i \<and> zp_id t = trim_space p) zs then throw ErrZITADELManagedClientNotFound
      else connect w cd cfg (user_rpc ''RemovePersonalAccessToken'')
        [(''userId'', VStr (trim_space i)), (''tokenId'', VStr (trim_space p))] no_target ())"
  proof (cases "list_ex (\<lambda>t. zp_user t = trim_space i \<and> zp_id t = trim_space p) zs")
    case True
    from a t have "(call_of cfg token (user_rpc ''ListPersonalAccessTokens'') [(''pagination'', VMap [(''limit'', VStr ''1000'')]),
       (''sortingColumn'', VStr ''PERSONAL_ACCESS_TOKEN_FIELD_NAME_CREATED_DATE'')], a) \<in> set (pre @ pre')" by simp
    with a(2) True have "shown_credential cd cfg (RevokeManagedToken i p) (pre @ pre')"
      unfolding shown_credential.simps list_ex_iff by blast
    with shown_client_mono [OF c, of "pre @ pre'"] show ?thesis
      by (simp only: True not_True_eq_False if_False) (rule ends_connect, rule justifiedI, auto)
  qed (simp add: ends_ret)
qed

lemma ends_handler:
  assumes "client_change q = Some (i, m)"
  shows "ends w cfg trace [] (justified cd cfg q i m) (management_handler w cd cfg q)"
proof -
  have k: "trace (snd (respond n b s)) = trace s" "trace (snd (respond_secret name b s)) = trace s" for n b name s
    by (simp_all add: respond_def respond_secret_def ret_apply)
  show ?thesis
    using assms
    by (cases q)
      (auto simp: ret_apply deleteIdentityManagementClient_def rotateIdentityManagementClientToken_def revokeIdentityManagementClientToken_def
        addIdentityManagementClientKey_def revokeIdentityManagementClientKey_def with_body_def respond_def k
        intro!: ends_answer ends_DeleteClient ends_RotateClientToken ends_AddClientKey ends_RemoveClientKey ends_RevokeClientToken
          ends_ret
        split: sum.split)
qed

text \<open>C20: a client is changed only on evidence. When an administrator deletes a client, gives it a token or a key, or
  revokes one, the requests that change something are at most one, the last, of the kind the call asks for; before it the
  provider has been asked for that user, whose answer is no bootstrap account, and for its authorizations, which hold an
  active one with the role of clients; for a revocation it has also listed that credential as one of the client's. The
  request names that user.\<close>

theorem client_changes_follow_the_evidence:
  assumes "wire w trace" and "client_change q = Some (i, m)" and "identity_serve w cd dp q who s = (r, t)"
  shows "\<exists>pre fin. trace t = trace s @ pre @ fin \<and> (\<forall>x \<in> set pre. read_call (dp_management dp) x) \<and>
     (fin = [] \<or> (\<exists>token payload a u. fin = [(call_of (dp_management dp) token (user_rpc m) payload, a)] \<and>
        shown_client cd (dp_management dp) i u pre \<and> shown_credential cd (dp_management dp) q pre \<and>
        map_of payload ''userId'' \<in> {Some (VStr i), Some (VStr (trim_space i)), Some (VStr (zu_user_id u))}))"
proof (cases "trace t = trace s")
  case False
  with assms have "management_handler w cd (dp_management dp) q s = (r, t)"
    by (auto simp: identity_serve_def requireBundledIAMAdmin_def respond_def ret_apply split: if_splits option.splits)
  with ends_handler [OF assms(2), of w "dp_management dp" trace cd] assms(1) show ?thesis
    unfolding ends_def justified_def by (metis append_Nil)
qed (auto intro!: exI [of _ "[]"])

end
