(* ===== verification/IamCreate.thy ===== *)
theory IamCreate
  imports IamProps
begin

text \<open>
  What a failed creation of a client leaves with the provider, how long the credentials it issues live, and what the
  description of a client keeps of it.
\<close>

section \<open>Clients that could not be created\<close>

definition created_by :: "codecs \<Rightarrow> management_config \<Rightarrow> http_request \<times> http_answer \<Rightarrow> string \<Rightarrow> bool" where
  "created_by cd cfg x i \<longleftrightarrow> hr_url (fst x) = trim_space (mc_base_url cfg) @ user_rpc ''CreateUser'' \<and> taken (cd_created cd) [] (snd x) i"

abbreviation no_creation :: "codecs \<Rightarrow> management_config \<Rightarrow> http_request \<times> http_answer \<Rightarrow> bool" where
  "no_creation cd cfg x \<equiv> \<forall>i. \<not> created_by cd cfg x i"

text \<open>The user \<open>i\<close> is removed by the last request of the log.\<close>

definition ends_deleting :: "management_config \<Rightarrow> string \<Rightarrow> wire_log \<Rightarrow> bool" where
  "ends_deleting cfg i new \<longleftrightarrow> (\<exists>pre token a. new = pre @ [(call_of cfg token (user_rpc ''DeleteUser'') [(''userId'', VStr i)], a)])"

definition undone :: "codecs \<Rightarrow> management_config \<Rightarrow> wire_log \<Rightarrow> bool" where
  "undone cd cfg new \<longleftrightarrow> (\<forall>x \<in> set new. \<forall>i. created_by cd cfg x i \<longrightarrow> ends_deleting cfg i new)"

definition fails_clean :: "'s provider \<Rightarrow> codecs \<Rightarrow> management_config \<Rightarrow> ('s \<Rightarrow> wire_log) \<Rightarrow> ('s, 'a) go \<Rightarrow> bool" where
  "fails_clean w cd cfg trace m \<longleftrightarrow> (wire w trace \<longrightarrow> (\<forall>s r t. m s = (r, t) \<longrightarrow>
     (\<exists>new. trace t = trace s @ new \<and> ((\<forall>x. r \<noteq> Ok x) \<longrightarrow> undone cd cfg new))))"

definition undoing :: "'s provider \<Rightarrow> codecs \<Rightarrow> management_config \<Rightarrow> ('s \<Rightarrow> wire_log) \<Rightarrow> string \<Rightarrow> ('s, 'a) go \<Rightarrow> bool" where
  "undoing w cd cfg trace i m \<longleftrightarrow> (wire w trace \<longrightarrow> (\<forall>s r t. m s = (r, t) \<longrightarrow>
     (\<exists>new. trace t = trace s @ new \<and> (\<forall>x \<in> set new. no_creation cd cfg x) \<and> ((\<forall>x. r \<noteq> Ok x) \<longrightarrow> ends_deleting cfg i new))))"

text \<open>A user can be asked to be removed at any time: the token of the owner is readable and the address is a proper one.\<close>

definition deletable :: "'s provider \<Rightarrow> codecs \<Rightarrow> management_config \<Rightarrow> bool" where
  "deletable w cd cfg \<longleftrightarrow> trim_space (mc_base_url cfg) \<noteq> [] \<and>
     cd_bad_url cd (trim_space (mc_base_url cfg) @ user_rpc ''DeleteUser'') = None \<and>
     (\<forall>s. \<exists>token u. readOwnerToken w cfg s = (Ok token, u))"

lemma taken_unique: "taken decode zero a x \<Longrightarrow> taken decode zero a y \<Longrightarrow> x = y"
  by (auto simp: taken_def split: http_answer.splits if_splits)

lemma send_fails:
  assumes "wire w trace" and "requestJSON w cd cfg path token (VMap payload) decode zero s = (r, t)"
  shows "trace t = trace s \<and> (\<forall>x. r \<noteq> Ok x) \<or>
     (\<exists>a. trace t = trace s @ [(call_of cfg token path payload, a)] \<and> (\<forall>x. r = Ok x \<longleftrightarrow> taken decode zero a x))"
proof (cases "trim_space (mc_base_url cfg) = [] \<or> cd_bad_url cd (trim_space (mc_base_url cfg) @ path) \<noteq> None")
  case True
  with assms(2) show ?thesis by (auto simp: requestJSON_def Let_def throw_apply split: if_splits option.splits)
next
  case False
  obtain a u where a: "pv_send w (call_of cfg token path payload) s = (a, u)" by (cases "pv_send w (call_of cfg token path payload) s")
  with False assms(2) have "t = u" and "\<forall>x. r = Ok x \<longleftrightarrow> taken decode zero a x"
    by (cases a; auto simp: requestJSON_def Let_def call_of_def taken_def split: if_splits sum.splits)+
  with wire_send [OF assms(1), of "call_of cfg token path payload" s] a show ?thesis by auto
qed

lemma total_io [total_intros]:
  "total (readTrustedConfigFile w p)" "total (providerNow w)" "total (requestJSON w cd cfg path token payload decode zero)" "total (liftR q)"
  by (auto simp: total_case readTrustedConfigFile_def providerNow_def requestJSON_def liftR_def throw_apply ret_apply Let_def
      split: sum.split option.split prod.split http_answer.split)

lemma total_calls [total_intros]:
  "total (readOwnerToken w cfg)" "total (readBootstrapState w cd cfg)" "total (connect w cd cfg path payload decode zero)"
  unfolding readOwnerToken_def readBootstrapState_def connect_def Let_def by (intro total_intros)+

lemma total_operations [total_intros]:
  "total (setUserRoles w cd cfg st user roles)" "total (addClientKey w cd cfg user p e)" "total (addPersonalAccessToken w cd cfg user e)"
  unfolding setUserRoles_def addClientKey_def addPersonalAccessToken_def findUserAuthorization_def listAuthorizations_def Let_def
  by (intro total_intros)+

lemma connect_fails:
  assumes "wire w trace" and "connect w cd cfg path payload decode zero s = (r, t)"
  shows "trace t = trace s \<and> (\<forall>x. r \<noteq> Ok x) \<or>
     (\<exists>token a. trace t = trace s @ [(call_of cfg token path payload, a)] \<and> (\<forall>x. r = Ok x \<longleftrightarrow> taken decode zero a x))"
proof -
  obtain r1 u where p: "readOwnerToken w cfg s = (r1, u)" by (cases "readOwnerToken w cfg s")
  note tu = silent_token [OF assms(1) p]
  show ?thesis
  proof (cases r1)
    case (Ok token)
    with p assms(2) have "requestJSON w cd cfg path token (VMap payload) decode zero u = (r, t)"
      by (simp add: connect_def bindE_apply)
    from send_fails [OF assms(1) this] tu show ?thesis by auto
  qed (use p assms(2) tu in \<open>simp_all add: connect_def bindE_apply\<close>, auto)
qed

lemma delete_sends:
  assumes "deletable w cd cfg" and "wire w trace" and "DeleteUser w cd cfg i s = (r, t)"
  shows "\<exists>token a. trace t = trace s @ [(call_of cfg token (user_rpc ''DeleteUser'') [(''userId'', VStr i)], a)]"
proof -
  from assms(1) obtain token u where p: "readOwnerToken w cfg s = (Ok token, u)" unfolding deletable_def by blast
  obtain a v where a: "pv_send w (call_of cfg token (user_rpc ''DeleteUser'') [(''userId'', VStr i)]) u = (a, v)"
    by (cases "pv_send w (call_of cfg token (user_rpc ''DeleteUser'') [(''userId'', VStr i)]) u")
  with p assms(1,3) have "t = v"
    by (cases a) (auto simp: DeleteUser_def connect_def bindE_apply requestJSON_def Let_def deletable_def call_of_def)
  with wire_send [OF assms(2), of "call_of cfg token (user_rpc ''DeleteUser'') [(''userId'', VStr i)]" u] a
    silent_token [OF assms(2) p] show ?thesis by auto
qed

text \<open>Rules: before the user exists, and after.\<close>

lemma undoingD:
  assumes "undoing w cd cfg trace i m" and "wire w trace" and "m s = (r, t)"
  obtains new where "trace t = trace s @ new" and "\<forall>x \<in> set new. no_creation cd cfg x"
    and "(\<forall>x. r \<noteq> Ok x) \<longrightarrow> ends_deleting cfg i new"
  using assms unfolding undoing_def by blast

lemma ends_deleting_append: "ends_deleting cfg i new \<Longrightarrow> ends_deleting cfg i (pre @ new)"
  unfolding ends_deleting_def by (metis append_assoc)

lemma undoing_bindE:
  assumes "undoing w cd cfg trace i m" and "\<And>x. undoing w cd cfg trace i (k x)"
  shows "undoing w cd cfg trace i (bindE m k)"
  unfolding undoing_def
proof (intro impI allI)
  fix s r t
  assume w: "wire w trace" and run: "bindE m k s = (r, t)"
  obtain r1 u where m: "m s = (r1, u)" by (cases "m s")
  from undoingD [OF assms(1) w m] obtain new where new: "trace u = trace s @ new" "\<forall>x \<in> set new. no_creation cd cfg x"
    "(\<forall>x. r1 \<noteq> Ok x) \<longrightarrow> ends_deleting cfg i new" .
  show "\<exists>new. trace t = trace s @ new \<and> (\<forall>x \<in> set new. no_creation cd cfg x) \<and> ((\<forall>x. r \<noteq> Ok x) \<longrightarrow> ends_deleting cfg i new)"
  proof (cases "\<exists>x. r1 = Ok x")
    case True
    then obtain x where "r1 = Ok x" by blast
    with m run have "k x u = (r, t)" by (simp add: bindE_apply)
    from undoingD [OF assms(2) w this] obtain more' where "trace t = trace u @ more'" "\<forall>x \<in> set more'. no_creation cd cfg x"
      "(\<forall>x. r \<noteq> Ok x) \<longrightarrow> ends_deleting cfg i more'" .
    with new ends_deleting_append have "trace t = trace s @ (new @ more') \<and> (\<forall>x \<in> set (new @ more'). no_creation cd cfg x) \<and>
        ((\<forall>x. r \<noteq> Ok x) \<longrightarrow> ends_deleting cfg i (new @ more'))" by auto
    then show ?thesis by blast
  next
    case False
    with m run have "t = u" by (cases r1) (auto simp: bindE_apply)
    with new False show ?thesis by blast
  qed
qed

lemma undoing_ok:
  assumes "adding w trace (no_creation cd cfg) m" and "\<And>s. \<exists>x. fst (m s) = Ok x"
  shows "undoing w cd cfg trace i m"
  unfolding undoing_def
proof (intro impI allI)
  fix s r t
  assume w: "wire w trace" and m: "m s = (r, t)"
  from keepsD [OF assms(1) m] w assms(2) [of s] m show
    "\<exists>new. trace t = trace s @ new \<and> (\<forall>x \<in> set new. no_creation cd cfg x) \<and> ((\<forall>x. r \<noteq> Ok x) \<longrightarrow> ends_deleting cfg i new)"
    unfolding adds_def by auto
qed

lemma undoing_orDelete:
  assumes "deletable w cd cfg" and "total m" and "adding w trace (no_creation cd cfg) m"
  shows "undoing w cd cfg trace i (orDelete w cd cfg i m)"
  unfolding undoing_def
proof (intro impI allI)
  fix s r t
  assume w: "wire w trace" and run: "orDelete w cd cfg i m s = (r, t)"
  obtain r1 u where m: "m s = (r1, u)" by (cases "m s")
  from keepsD [OF assms(3) m] w obtain new where new: "trace u = trace s @ new" "\<forall>x \<in> set new. no_creation cd cfg x"
    unfolding adds_def by blast
  from assms(2) show "\<exists>new. trace t = trace s @ new \<and> (\<forall>x \<in> set new. no_creation cd cfg x) \<and>
      ((\<forall>x. r \<noteq> Ok x) \<longrightarrow> ends_deleting cfg i new)"
  proof (cases rule: totalE [where s = s])
    case (1 x v)
    with m have "m s = (Ok x, u)" by simp
    with run have "t = u \<and> r = Ok x" by (simp add: orDelete_def bindE_apply tryE_apply ret_apply)
    with new show ?thesis by auto
  next
    case (2 e v)
    obtain r2 z where d: "DeleteUser w cd cfg i u = (r2, z)" by (cases "DeleteUser w cd cfg i u")
    have "total (DeleteUser w cd cfg i)" unfolding DeleteUser_def by (intro total_intros)
    then have "r2 = Ok () \<or> (\<exists>e. r2 = Error e)" by (cases rule: totalE [where s = u]) (use d in auto)
    moreover from 2 m have "m s = (Error e, u)" by simp
    ultimately have "t = z" using d run
      by (auto simp: orDelete_def bindE_apply tryE_apply ignoreE_apply thenE_apply throw_apply ret_apply)
    with delete_sends [OF assms(1) w d] obtain token a where
      t: "trace t = trace s @ (new @ [(call_of cfg token (user_rpc ''DeleteUser'') [(''userId'', VStr i)], a)])" using new(1) by auto
    have "no_creation cd cfg (call_of cfg token (user_rpc ''DeleteUser'') [(''userId'', VStr i)], a)"
      by (simp add: created_by_def call_of_def user_rpc_def)
    with t new(2) show ?thesis unfolding ends_deleting_def by (intro exI [of _ "new @ [(call_of cfg token (user_rpc ''DeleteUser'') [(''userId'', VStr i)], a)]"]) auto
  qed
qed

lemma fails_clean_bindE:
  assumes "adding w trace (no_creation cd cfg) m" and "\<And>x. fails_clean w cd cfg trace (k x)"
  shows "fails_clean w cd cfg trace (bindE m k)"
  unfolding fails_clean_def
proof (intro impI allI)
  fix s r t
  assume w: "wire w trace" and run: "bindE m k s = (r, t)"
  obtain r1 u where m: "m s = (r1, u)" by (cases "m s")
  from keepsD [OF assms(1) m] w obtain new where new: "trace u = trace s @ new" "\<forall>x \<in> set new. no_creation cd cfg x"
    unfolding adds_def by blast
  show "\<exists>new. trace t = trace s @ new \<and> ((\<forall>x. r \<noteq> Ok x) \<longrightarrow> undone cd cfg new)"
  proof (cases "\<exists>x. r1 = Ok x")
    case True
    then obtain x where "r1 = Ok x" by blast
    with m run have "k x u = (r, t)" by (simp add: bindE_apply)
    with assms(2) [of x] w obtain more' where "trace t = trace u @ more'" "(\<forall>x. r \<noteq> Ok x) \<longrightarrow> undone cd cfg more'"
      unfolding fails_clean_def by blast
    with new ends_deleting_append have "trace t = trace s @ (new @ more') \<and> ((\<forall>x. r \<noteq> Ok x) \<longrightarrow> undone cd cfg (new @ more'))"
      by (auto simp: undone_def)
    then show ?thesis by blast
  next
    case False
    with m run have "t = u" by (cases r1) (auto simp: bindE_apply)
    with new show ?thesis by (auto simp: undone_def)
  qed
qed

lemma fails_clean_createMachine:
  assumes "\<And>i. undoing w cd cfg trace i (k i)"
  shows "fails_clean w cd cfg trace (bindE (createMachine w cd cfg org c) k)"
  unfolding fails_clean_def
proof (intro impI allI)
  fix s r t
  assume w: "wire w trace" and run: "bindE (createMachine w cd cfg org c) k s = (r, t)"
  obtain r1 u where m: "createMachine w cd cfg org c s = (r1, u)" by (cases "createMachine w cd cfg org c s")
  note sent = connect_fails [OF w m [unfolded createMachine_def]]
  show "\<exists>new. trace t = trace s @ new \<and> ((\<forall>x. r \<noteq> Ok x) \<longrightarrow> undone cd cfg new)"
  proof (cases "\<exists>i. r1 = Ok i")
    case True
    then obtain i where i: "r1 = Ok i" by blast
    with m run have "k i u = (r, t)" by (simp add: bindE_apply)
    from undoingD [OF assms w this] obtain new where new: "trace t = trace u @ new" "\<forall>x \<in> set new. no_creation cd cfg x"
      "(\<forall>x. r \<noteq> Ok x) \<longrightarrow> ends_deleting cfg i new" .
    from sent i obtain token payload a where "trace u = trace s @ [(call_of cfg token (user_rpc ''CreateUser'') payload, a)]"
      and a: "taken (cd_created cd) [] a i" by blast
    with new have "trace t = trace s @ ((call_of cfg token (user_rpc ''CreateUser'') payload, a) # new)" by simp
    moreover have "undone cd cfg ((call_of cfg token (user_rpc ''CreateUser'') payload, a) # new)" if "\<forall>x. r \<noteq> Ok x"
    proof -
      have "created_by cd cfg (call_of cfg token (user_rpc ''CreateUser'') payload, a) j \<Longrightarrow> j = i" for j
        using a taken_unique by (fastforce simp: created_by_def)
      moreover have "ends_deleting cfg i ((call_of cfg token (user_rpc ''CreateUser'') payload, a) # new)"
        using new(3) that ends_deleting_append [of cfg i new "[_]"] by simp
      ultimately show ?thesis using new(2) unfolding undone_def by (metis set_ConsD)
    qed
    ultimately show ?thesis by blast
  next
    case False
    with m run have "t = u" by (cases r1) (auto simp: bindE_apply)
    with False sent show ?thesis by (auto simp: undone_def created_by_def)
  qed
qed

lemma no_creation_path: "path \<noteq> user_rpc ''CreateUser'' \<Longrightarrow> no_creation cd cfg (call_of cfg token path payload, a)"
  by (simp add: created_by_def call_of_def)

lemma adding_without_creation:
  "adding w trace (no_creation cd cfg) (setUserRoles w cd cfg st user roles)"
  "adding w trace (no_creation cd cfg) (addClientKey w cd cfg user p e)"
  "adding w trace (no_creation cd cfg) (addPersonalAccessToken w cd cfg user e)"
  unfolding setUserRoles_def addClientKey_def addPersonalAccessToken_def findUserAuthorization_def listAuthorizations_def Let_def
  by (intro adding_rules adding_connect no_creation_path, simp_all add: rpc_defs)+

lemma tokenExpiration_ok: "\<exists>x. fst (clientTokenExpiration w v s) = Ok x"
  by (simp add: clientTokenExpiration_def ret_apply bindE_apply providerNow_def split: prod.split)

lemma undoing_steps:
  assumes "deletable w cd cfg"
  shows "undoing w cd cfg trace i (orDelete w cd cfg i (setUserRoles w cd cfg st i roles))"
    and "undoing w cd cfg trace i (orDelete w cd cfg i (addClientKey w cd cfg i p e))"
    and "undoing w cd cfg trace i (orDelete w cd cfg i (addPersonalAccessToken w cd cfg i e))"
  by (intro undoing_orDelete assms total_operations adding_without_creation)+

lemma undoing_ret: "undoing w cd cfg trace i (ret x)"
  by (rule undoing_ok) (auto simp: ret_apply intro: adding_rules)

lemma fails_clean_throw: "fails_clean w cd cfg trace (throw e)"
  by (auto simp: fails_clean_def throw_apply undone_def)

lemma fails_clean_CreateClientKey:
  assumes "deletable w cd cfg"
  shows "fails_clean w cd cfg trace (CreateClientKey w cd cfg c)"
  unfolding CreateClientKey_def thenE_bindE
  by (intro fails_clean_bindE fails_clean_createMachine undoing_bindE undoing_steps undoing_ret assms adding_liftR adding_now
      adding_bootstrap)

lemma fails_clean_CreateClientToken:
  assumes "deletable w cd cfg"
  shows "fails_clean w cd cfg trace (CreateClientToken w cd cfg c)"
proof (cases "mc_pat_creation cfg")
  case True
  have "fails_clean w cd cfg trace (bindE (readBootstrapState w cd cfg) (\<lambda>st.
     bindE (createMachine w cd cfg (fst st) c) (\<lambda>i. bindE (orDelete w cd cfg i (setUserRoles w cd cfg st i [RoleArtificialFlowClient])) (\<lambda>_.
     bindE (clientTokenExpiration w (cc_expires_at c)) (\<lambda>expires.
     bindE (orDelete w cd cfg i (addPersonalAccessToken w cd cfg i expires)) (\<lambda>created.
       ret (client_token_of ((client_metadata c)\<lparr>ml_id := i\<rparr>) created expires)))))))"
    by (intro fails_clean_bindE fails_clean_createMachine undoing_bindE undoing_steps undoing_ret assms adding_bootstrap
        undoing_ok [OF adding_tokenExpiration tokenExpiration_ok])
  with True show ?thesis by (simp add: CreateClientToken_def thenE_bindE)
qed (simp add: CreateClientToken_def fails_clean_throw)

lemma answer_unsuccessful:
  assumes "answer m (\<lambda>x. respond_secret name (f x)) s = (Ok z, t)" and "ir_status z \<noteq> 201" and "m s = (r, u)"
  shows "t = u \<and> (\<forall>x. r \<noteq> Ok x)"
proof -
  have "writeIdentityManagementError e u = (Ok z, t) \<Longrightarrow> t = u" for e
    by (auto simp: writeIdentityManagementError_def respond_def ret_apply split: if_splits option.splits)
  with assms show ?thesis
    by (cases r) (auto simp: answer_def bindE_apply tryE_apply respond_secret_def ret_apply)
qed

text \<open>C19: a client whose creation failed is taken back. When the call to create a client, with a key or with a token, is
  answered with anything but success, then for every user whose creation the provider confirmed meanwhile the last request of
  the call asks the provider to remove that user, provided the token of the owner stays readable and the address of the
  provider is a proper one. What the provider answers to it is open, and the code drops the answer: a provider that refuses,
  a request whose context has ended, or a confirmation of the creation that was lost on the way leave the user there.\<close>

theorem failed_client_creation_is_undone:
  assumes "wire w trace" and "deletable w cd (dp_management dp)"
    and "identity_serve w cd dp (CreateManagedClient b) who s = (Ok answered, t)" and "ir_status answered \<noteq> 201"
  shows "\<exists>new. trace t = trace s @ new \<and> (\<forall>x \<in> set new. \<forall>i. created_by cd (dp_management dp) x i \<longrightarrow>
     (\<exists>pre token a. new = pre @ [(call_of (dp_management dp) token (user_rpc ''DeleteUser'') [(''userId'', VStr i)], a)]))"
proof -
  have failing: "undone cd (dp_management dp) new"
    if m: "fails_clean w cd (dp_management dp) trace m" "answer m (\<lambda>x. respond_secret name (f x)) s = (Ok answered, t)"
      and new: "trace t = trace s @ new" for m :: "('a, 'b) go" and name f new
  proof -
    obtain r u where r: "m s = (r, u)" by (cases "m s")
    from answer_unsuccessful [OF m(2) assms(4) r] m(1) new assms(1) r show ?thesis
      unfolding fails_clean_def by (metis same_append_eq)
  qed
  from serve_sends(1) [OF assms(1,3)] obtain new where new: "trace t = trace s @ new" unfolding sends_def adds_def by blast
  have "undone cd (dp_management dp) new"
  proof (cases "trace t = trace s")
    case False
    with assms(3) have "createIdentityManagementClientToken w cd (dp_management dp) b s = (Ok answered, t)"
      by (auto simp: identity_serve_def requireBundledIAMAdmin_def respond_def ret_apply split: if_splits option.splits)
    with assms(4) failing [OF fails_clean_CreateClientKey [OF assms(2)] _ new] failing [OF fails_clean_CreateClientToken [OF assms(2)] _ new]
      False show ?thesis
      by (auto simp: createIdentityManagementClientToken_def with_body_def respond_def ret_apply split: sum.splits prod.splits if_splits)
  qed (use new in \<open>simp add: undone_def\<close>)
  with new show ?thesis unfolding undone_def ends_deleting_def by blast
qed

section \<open>How long credentials live\<close>

lemma boundedDurationEnv_bounds:
  assumes "lo \<le> fallback" and "fallback \<le> hi"
  shows "lo \<le> boundedDurationEnv getenv name fallback lo hi \<and> boundedDurationEnv getenv name fallback lo hi \<le> hi"
  using assms by (auto simp: boundedDurationEnv_def Let_def split: sum.split)

lemma checked_Inr: "(case v of None \<Rightarrow> Inl d | Some e \<Rightarrow> if bad e then Inl d else Inr (f e)) = Inr x \<Longrightarrow> \<exists>e. \<not> bad e \<and> x = f e"
  by (auto split: option.splits if_splits)

lemma configured_lifetimes:
  assumes "cfg = ResolveZITADELManagementConfigFromEnv getenv parse ac fc"
  shows "3600000000000 \<le> mc_default_lifetime cfg" and "mc_default_lifetime cfg \<le> mc_max_lifetime cfg"
    and "mc_max_lifetime cfg \<le> maxClientCredentialLifetime"
proof -
  define life where "life = boundedDurationEnv getenv ''ARTIFICIALFLOW_IAM_CLIENT_KEY_DEFAULT_LIFETIME'' defaultClientCredentialLifetime
    3600000000000 maxClientCredentialLifetime"
  have l: "3600000000000 \<le> life \<and> life \<le> maxClientCredentialLifetime"
    unfolding life_def by (rule boundedDurationEnv_bounds) (simp_all add: defaultClientCredentialLifetime_def maxClientCredentialLifetime_def)
  then have "life \<le> boundedDurationEnv getenv ''ARTIFICIALFLOW_IAM_CLIENT_KEY_MAX_LIFETIME'' maxClientCredentialLifetime life maxClientCredentialLifetime
      \<and> boundedDurationEnv getenv ''ARTIFICIALFLOW_IAM_CLIENT_KEY_MAX_LIFETIME'' maxClientCredentialLifetime life maxClientCredentialLifetime
        \<le> maxClientCredentialLifetime"
    by (intro boundedDurationEnv_bounds) simp_all
  moreover have "mc_default_lifetime cfg = life" and "mc_max_lifetime cfg =
      boundedDurationEnv getenv ''ARTIFICIALFLOW_IAM_CLIENT_KEY_MAX_LIFETIME'' maxClientCredentialLifetime life maxClientCredentialLifetime"
    by (simp_all add: assms ResolveZITADELManagementConfigFromEnv_def Let_def life_def)
  ultimately show "3600000000000 \<le> mc_default_lifetime cfg" "mc_default_lifetime cfg \<le> mc_max_lifetime cfg"
    "mc_max_lifetime cfg \<le> maxClientCredentialLifetime" using l by simp_all
qed

text \<open>C22: keys live no longer than configured, and never more than a year. Whatever the environment says, the expiry that a
  request for a key gets is the date text of a moment at most the longest configured lifetime from now, which is at most 365
  days, and not past by a second or more; a request that names no expiry always gets one, and one that names a date in that
  span gets that date, to the second.\<close>

theorem issued_keys_expire_within_a_year:
  assumes "cfg = ResolveZITADELManagementConfigFromEnv getenv parse ac fc"
    and "0 \<le> now" and "now + maxClientCredentialLifetime < 253402300800 * 1000000000"
    and "issued = clientCredentialExpirationWithLimits v now (mc_default_lifetime cfg) (mc_max_lifetime cfg)"
  shows "(\<forall>text. issued = Inr text \<longrightarrow> (\<exists>t. parse_rfc3339 text = Some t \<and> now - 1000000000 < t \<and> t \<le> now + mc_max_lifetime cfg)) \<and>
    mc_max_lifetime cfg \<le> maxClientCredentialLifetime \<and>
    (trim_space v = [] \<longrightarrow> issued = Inr (format_rfc3339 (now + mc_default_lifetime cfg))) \<and>
    (\<forall>t. trim_space v \<noteq> [] \<and> parse_rfc3339 (trim_space v) = Some t \<and> now < t \<and> t \<le> now + mc_max_lifetime cfg \<longrightarrow>
      (\<exists>text. issued = Inr text \<and> parse_rfc3339 text = Some (t - t mod 1000000000)))"
proof (intro conjI)
  note limits = configured_lifetimes [OF assms(1)]
  have shown: "parse_rfc3339 (format_rfc3339 t) = Some (t - t mod 1000000000)" if "now < t" "t \<le> now + mc_max_lifetime cfg" for t
    using that limits(3) assms(2,3) by (intro parse_format_time) simp_all
  have eq: "issued = (case (if trim_space v = [] then Some (now + mc_default_lifetime cfg) else parse_rfc3339 (trim_space v)) of
      None \<Rightarrow> Inl ErrInvalidClientCredentialExpiry
    | Some e \<Rightarrow> if e \<le> now \<or> e > now + mc_max_lifetime cfg then Inl ErrInvalidClientCredentialExpiry else Inr (format_rfc3339 e))"
    using limits by (simp add: assms(4) clientCredentialExpirationWithLimits_def Let_def)
  have floor: "now - 1000000000 < t - t mod 1000000000 \<and> t - t mod 1000000000 \<le> t" if "now < t" for t :: int
    using that pos_mod_bound [of 1000000000 t] pos_mod_sign [of 1000000000 t] by linarith
  show "\<forall>text. issued = Inr text \<longrightarrow> (\<exists>t. parse_rfc3339 text = Some t \<and> now - 1000000000 < t \<and> t \<le> now + mc_max_lifetime cfg)"
  proof (intro allI impI)
    fix x
    assume "issued = Inr x"
    from checked_Inr [OF this [unfolded eq]] obtain e where "\<not> (e \<le> now \<or> e > now + mc_max_lifetime cfg)" and x: "x = format_rfc3339 e"
      by blast
    then have e: "now < e" "e \<le> now + mc_max_lifetime cfg" by simp_all
    from floor [OF e(1)] e(2) have "now - 1000000000 < e - e mod 1000000000" "e - e mod 1000000000 \<le> now + mc_max_lifetime cfg"
      by linarith+
    with shown [OF e] x show "\<exists>t. parse_rfc3339 x = Some t \<and> now - 1000000000 < t \<and> t \<le> now + mc_max_lifetime cfg" by blast
  qed
  show "trim_space v = [] \<longrightarrow> issued = Inr (format_rfc3339 (now + mc_default_lifetime cfg))"
    using limits by (simp add: eq)
  show "\<forall>t. trim_space v \<noteq> [] \<and> parse_rfc3339 (trim_space v) = Some t \<and> now < t \<and> t \<le> now + mc_max_lifetime cfg \<longrightarrow>
      (\<exists>text. issued = Inr text \<and> parse_rfc3339 text = Some (t - t mod 1000000000))"
    using shown by (auto simp: eq)
qed (rule configured_lifetimes(3) [OF assms(1)])

section \<open>What a description keeps\<close>

text \<open>The encoder writes an object without space around it, from which the decoder reads the fields back.\<close>

definition describes :: "codecs \<Rightarrow> bool" where
  "describes cd \<longleftrightarrow> (\<forall>a b c d. let text = cd_describe cd [(''description'', a), (''environment'', b), (''owner_email'', c), (''purpose'', d)]
     in has_prefix text ''{'' \<and> \<not> is_space (last text) \<and> cd_description cd text = Inr (a, b, c, d))"

text \<open>What is said of a client is not lost. The description that the creation of a client sends for its machine user gives,
  when the user is read again, the same description, environment, owner and purpose, trimmed, whatever these texts are.\<close>

theorem client_metadata_roundtrip:
  assumes "describes cd" and "zu_machine u = Some (name, encodeClientDescription cd (client_metadata i))"
  shows "let c = managedClientFromZitadel cd u in ml_description c = trim_space (cc_description i) \<and>
     ml_environment c = trim_space (cc_environment i) \<and> ml_owner_email c = trim_space (cc_owner_email i) \<and>
     ml_purpose c = trim_space (cc_purpose i)"
proof -
  define d where "d = cd_describe cd [(''description'', trim_space (cc_description i)), (''environment'', trim_space (cc_environment i)),
    (''owner_email'', trim_space (cc_owner_email i)), (''purpose'', trim_space (cc_purpose i))]"
  from assms(1) have t: "has_prefix d ''{''" "\<not> is_space (last d)" "cd_description cd d = Inr (trim_space (cc_description i),
      trim_space (cc_environment i), trim_space (cc_owner_email i), trim_space (cc_purpose i))"
    unfolding describes_def d_def Let_def by blast+
  then have ne: "d \<noteq> []" by (auto simp: has_prefix_def)
  have e: "encodeClientDescription cd (client_metadata i) = client_prefix @ d"
    by (simp add: encodeClientDescription_def client_metadata_def d_def)
  have "trim_space (client_prefix @ d) = client_prefix @ d"
    using t(2) ne by (intro iffD2 [OF trim_space_fixed]) (simp add: client_prefix_def is_space_def)
  moreover have "has_prefix (to_lower (client_prefix @ d)) client_prefix"
    by (simp add: has_prefix_def client_prefix_def to_lower_def lower_char_def)
  ultimately have "decodeClientDescription cd (client_prefix @ d) = (trim_space (cc_description i),
      trim_space (cc_environment i), trim_space (cc_owner_email i), trim_space (cc_purpose i))"
    using t ne by (simp add: decodeClientDescription_def Let_def)
  then show ?thesis using assms(2) e by (simp add: managedClientFromZitadel_def Let_def)
qed

end
