(* ===== verification/IamDemo.thy ===== *)
theory IamDemo
  imports IamCreate
begin

text \<open>A provider that answers from a list and the properties of identity management at concrete calls.\<close>

section \<open>The provider\<close>

type_synonym demo_world = "http_answer list \<times> wire_log"

definition demo_wire :: "demo_world provider" where
  "demo_wire = \<lparr>pv_read = (\<lambda>p s. (Inr ''secret'', s)),
     pv_send = (\<lambda>r (queue, sent). case queue of
         [] \<Rightarrow> (NoAnswer (Msg ''connection refused''), [], sent @ [(r, NoAnswer (Msg ''connection refused''))])
       | a # rest \<Rightarrow> (a, rest, sent @ [(r, a)])),
     pv_now = (\<lambda>s. (1700000000000000000, s))\<rparr>"

lemma demo_wire_ok: "wire demo_wire snd"
  by (auto simp: wire_def demo_wire_def split: list.split)

text \<open>A codec of four texts: escaped, with quotes and backslashes escaped.\<close>

fun escaped :: "string \<Rightarrow> string" where
  "escaped [] = [CHR 0x22]"
| "escaped (c # s) = (if c = CHR 0x22 \<or> c = CHR 0x5C then [CHR 0x5C, c] else [c]) @ escaped s"

fun unescaped :: "string \<Rightarrow> (string \<times> string) option" where
  "unescaped [] = None"
| "unescaped (c # s) = (if c = CHR 0x22 then Some ([], s)
     else if c = CHR 0x5C then (case s of [] \<Rightarrow> None | d # rest \<Rightarrow> map_option (\<lambda>(a, b). (d # a, b)) (unescaped rest))
     else map_option (\<lambda>(a, b). (c # a, b)) (unescaped s))"

lemma unescaped_escaped: "unescaped (escaped v @ rest) = Some (v, rest)"
  by (induction v) auto

definition demo_describe :: "(string \<times> string) list \<Rightarrow> string" where
  "demo_describe kvs = ''{'' @ concat (map (\<lambda>(k, v). escaped v) kvs) @ ''}''"

definition demo_description :: "string \<Rightarrow> go_err + string \<times> string \<times> string \<times> string" where
  "demo_description s = (case unescaped (tl s) of None \<Rightarrow> Inl (Msg ''unexpected end'') | Some (a, s1) \<Rightarrow>
     (case unescaped s1 of None \<Rightarrow> Inl (Msg ''unexpected end'') | Some (b, s2) \<Rightarrow>
     (case unescaped s2 of None \<Rightarrow> Inl (Msg ''unexpected end'') | Some (c, s3) \<Rightarrow>
     (case unescaped s3 of None \<Rightarrow> Inl (Msg ''unexpected end'') | Some (d, _) \<Rightarrow> Inr (a, b, c, d)))))"

definition demo_robot :: zitadel_user where
  "demo_robot = no_user\<lparr>zu_user_id := ''u7'', zu_username := ''robot'', zu_machine := Some (''robot'', [])\<rparr>"

definition demo_codecs :: codecs where
  "demo_codecs = \<lparr>cd_bad_url = (\<lambda>_. None), cd_error = (\<lambda>_. ([], [])), cd_bootstrap = (\<lambda>_. Inr (''org'', ''project'')),
     cd_users = (\<lambda>_. Inr [demo_robot]), cd_user = (\<lambda>_. Inr demo_robot),
     cd_authorizations = (\<lambda>_. Inr [\<lparr>za_id = ''a1'', za_state = ''STATE_ACTIVE'', za_project = ''project'', za_user = ''u7'',
        za_roles = [\<lparr>mr_key = RoleArtificialFlowClient, mr_display_name = [], mr_group = []\<rparr>]\<rparr>]),
     cd_pats = (\<lambda>_. Inr []),
     cd_keys = (\<lambda>_. Inr ([\<lparr>zk_id = ''k1'', zk_user = ''u7'', zk_created = [], zk_changed = [], zk_expires = []\<rparr>], [])),
     cd_roles = (\<lambda>_. Inr []), cd_created = (\<lambda>b. Inr b), cd_new_pat = (\<lambda>b. Inr ([], b, b)), cd_new_key = (\<lambda>b. Inr (b, b, [])),
     cd_describe = demo_describe, cd_description = demo_description, cd_pem = (\<lambda>_. None), cd_base64 = Some,
     cd_spki = (\<lambda>_. Some (Some 2048)), cd_public_pem = id, cd_base64_text = id\<rparr>"

lemma demo_codecs_describe: "describes demo_codecs"
  by (simp add: describes_def Let_def demo_codecs_def demo_describe_def demo_description_def has_prefix_def is_space_def unescaped_escaped)

definition demo_deployment :: deployment_config where
  "demo_deployment = ResolveDeploymentConfigFromEnv
     (\<lambda>k. if k = ''IAM_DEPLOYMENT_MODE'' then ''zitadel'' else if k = ''ZITADEL_MANAGEMENT_URL'' then ''http://zitadel:8080/''
       else if k = ''ARTIFICIALFLOW_IAM_ENABLE_LEGACY_PAT_CREATION'' then ''true'' else [])
     (\<lambda>_ _. []) (\<lambda>_. Inl (Msg ''no such file'')) (\<lambda>_. Inl (Msg ''no host''))"

lemma demo_mode: "dp_mode demo_deployment = DeploymentModeZITADEL"
  by code_simp

lemma demo_management [code_unfold]: "dp_management demo_deployment = \<lparr>mc_base_url = ''http://zitadel:8080'', mc_public_host = [],
    mc_owner_pat_file = ''/zitadel/bootstrap/owner.pat'', mc_bootstrap_file = ''/artificialflow/bootstrap/artificialflow-zitadel.json'',
    mc_default_lifetime = 7776000000000000, mc_max_lifetime = 31536000000000000, mc_pat_creation = True, mc_pat_rotation = False\<rparr>"
  by code_simp

lemma demo_token: "readOwnerToken demo_wire (dp_management demo_deployment) s = (Ok ''secret'', s)"
proof -
  have "cleanTrustedConfigFilePath (trim_space (mc_owner_pat_file (dp_management demo_deployment))) = Inr ''/zitadel/bootstrap/owner.pat''"
    and "trim_space (mc_owner_pat_file (dp_management demo_deployment)) \<noteq> []" and "trim_space ''secret'' = ''secret''"
    by code_simp+
  then show ?thesis
    by (simp add: readOwnerToken_def Let_def readTrustedConfigFile_def demo_wire_def mapErr_def bindE_apply tryE_apply ret_apply)
qed

lemma demo_deletable: "deletable demo_wire demo_codecs (dp_management demo_deployment)"
proof -
  have "trim_space (mc_base_url (dp_management demo_deployment)) \<noteq> []" by code_simp
  then show ?thesis by (simp add: deletable_def demo_token) (simp add: demo_codecs_def)
qed

definition demo_admin :: principal where
  "demo_admin = \<lparr>pl_subject = ''ada'', pl_issuer = [], pl_audience = [], pl_email = [], pl_name = [], pl_tenant = [],
     pl_roles = [''ArtificialFlow Admin''], pl_scopes = [], pl_token_mode = [], pl_claims = []\<rparr>"

section \<open>Calls\<close>

definition demo_identity :: "identity_call \<Rightarrow> http_answer list \<Rightarrow> identity_response outcome \<times> demo_world" where
  "demo_identity q queue = identity_serve demo_wire demo_codecs demo_deployment q (Some demo_admin) (queue, [])"

lemma demo_identity_run: "identity_serve demo_wire demo_codecs demo_deployment q (Some demo_admin) (queue, []) =
    (fst (demo_identity q queue), snd (demo_identity q queue))"
  by (simp add: demo_identity_def)

definition demo_client :: client_request where
  "demo_client = \<lparr>lr_username = ''robot'', lr_name = '' Robot '', lr_description = ''says \"hi\"'', lr_environment = ''test'',
     lr_owner_email = ''ada@example.org'', lr_purpose = [], lr_token_expires_at = ''2030-01-01T00:00:00Z'', lr_public_key = [], lr_key_expires_at = []\<rparr>"

text \<open>A role is created; a client is created, but not given its role, and removed; a key is removed.\<close>

definition demo_role_call :: identity_call where
  "demo_role_call = CreateManagedRole (Decoded \<lparr>rq_key = ''auditor'', rq_display_name = ''Auditor'', rq_group = []\<rparr>)"

definition demo_create_answers :: "http_answer list" where
  "demo_create_answers = [Answer 201 ''u7'', Answer 500 ''x'', Answer 200 []]"

lemma demo_role_sends: "snd (snd (demo_identity demo_role_call [Answer 200 []])) =
    [(\<lparr>hr_url = ''http://zitadel:8080'' @ project_rpc ''AddProjectRole'', hr_host = [], hr_token = ''secret'',
       hr_body = VMap [(''projectId'', VStr ''project''), (''roleKey'', VStr ''auditor''), (''displayName'', VStr ''Auditor''),
         (''group'', VStr ''ArtificialFlow'')]\<rparr>, Answer 200 [])]"
  by code_simp

lemma demo_base: "trim_space (mc_base_url (dp_management demo_deployment)) = ''http://zitadel:8080''"
  by code_simp

definition demo_machine :: client_create where
  "demo_machine = \<lparr>cc_username = ''robot'', cc_name = '' Robot '', cc_description = ''says \"hi\"'', cc_environment = ''test'',
     cc_owner_email = ''ada@example.org'', cc_purpose = [], cc_public_key = [], cc_expires_at = ''2030-01-01T00:00:00Z''\<rparr>"

lemma demo_create_call:
  "demo_identity (CreateManagedClient (Decoded demo_client)) queue =
     answer (CreateClientToken demo_wire demo_codecs (dp_management demo_deployment) demo_machine)
       (\<lambda>t. respond_secret ''artificialflow-client-token.json'' (IToken (toIdentityManagementClientTokenResponse t))) (queue, [])"
proof -
  have "HasRole demo_admin RoleArtificialFlowAdmin" and "trim_space (lr_name demo_client) \<noteq> []" and
    "trim_space (lr_public_key demo_client) = []" by code_simp+
  moreover have "client_pat_of demo_client = demo_machine" by (simp add: client_pat_of_def demo_client_def demo_machine_def)
  ultimately show ?thesis
    by (simp add: demo_identity_def identity_serve_def requireBundledIAMAdmin_def demo_mode createIdentityManagementClientToken_def
        with_body_def read_strict_def)
qed

lemma demo_create_run:
  "(\<lambda>(r, queue, sent). (r, map (\<lambda>(q, a). (hr_url q, a)) sent)) (demo_identity (CreateManagedClient (Decoded demo_client)) demo_create_answers) =
     (Ok \<lparr>ir_status = 502, ir_attachment = None, ir_body = IText ''identity provider request failed''\<rparr>,
      [(''http://zitadel:8080'' @ user_rpc ''CreateUser'', Answer 201 ''u7''),
       (''http://zitadel:8080'' @ authorization_rpc ''ListAuthorizations'', Answer 500 ''x''),
       (''http://zitadel:8080'' @ user_rpc ''DeleteUser'', Answer 200 [])])"
  unfolding demo_create_call by code_simp

lemma demo_create_fails:
  "fst (demo_identity (CreateManagedClient (Decoded demo_client)) demo_create_answers) =
     Ok \<lparr>ir_status = 502, ir_attachment = None, ir_body = IText ''identity provider request failed''\<rparr>"
  "map (\<lambda>(q, a). (hr_url q, a)) (snd (snd (demo_identity (CreateManagedClient (Decoded demo_client)) demo_create_answers))) =
      [(''http://zitadel:8080'' @ user_rpc ''CreateUser'', Answer 201 ''u7''),
       (''http://zitadel:8080'' @ authorization_rpc ''ListAuthorizations'', Answer 500 ''x''),
       (''http://zitadel:8080'' @ user_rpc ''DeleteUser'', Answer 200 [])]"
  using demo_create_run by (simp_all only: split_beta prod.inject fst_conv snd_conv)

lemma demo_key_removed:
  "fst (demo_identity (RevokeManagedKey ''u7'' ''k1'') [Answer 200 ''x'', Answer 200 ''x'', Answer 200 ''x'', Answer 200 []]) =
     Ok \<lparr>ir_status = 204, ir_attachment = None, ir_body = INone\<rparr>"
  by code_simp

section \<open>Witnesses\<close>

theorem identity_requests_need_an_administrator_witness:
  "HasRole demo_admin RoleArtificialFlowAdmin \<and> list_all (\<lambda>(rq, a). hr_host rq = mc_public_host (dp_management demo_deployment) \<and>
     has_prefix (hr_url rq) (trim_space (mc_base_url (dp_management demo_deployment))))
     (snd (snd (demo_identity demo_role_call [Answer 200 []])))"
  using identity_requests_need_an_administrator [OF demo_wire_ok demo_identity_run, of demo_role_call "[Answer 200 []]"]
  by (simp add: demo_role_sends list_all_iff)

theorem platform_roles_are_not_managed_witness: "\<not> IsStandardRole ''auditor''"
  using platform_roles_are_not_managed [OF demo_wire_ok demo_identity_run, of demo_role_call "[Answer 200 []]"]
  by (simp add: demo_role_sends demo_base)

theorem client_changes_follow_the_evidence_witness:
  "\<exists>pre fin. snd (snd (demo_identity (RevokeManagedKey ''u7'' ''k1'')
       [Answer 200 ''x'', Answer 200 ''x'', Answer 200 ''x'', Answer 200 []])) = pre @ fin \<and>
     list_all (read_call (dp_management demo_deployment)) pre \<and>
     (fin = [] \<or> (\<exists>token payload a u. fin = [(call_of (dp_management demo_deployment) token (user_rpc ''RemoveKey'') payload, a)] \<and>
        shown_client demo_codecs (dp_management demo_deployment) ''u7'' u pre \<and>
        shown_credential demo_codecs (dp_management demo_deployment) (RevokeManagedKey ''u7'' ''k1'') pre \<and>
        map_of payload ''userId'' \<in> {Some (VStr ''u7''), Some (VStr (trim_space ''u7'')), Some (VStr (zu_user_id u))}))"
  using client_changes_follow_the_evidence [OF demo_wire_ok _ demo_identity_run, of "RevokeManagedKey ''u7'' ''k1''" "''u7''" "''RemoveKey''"
      "[Answer 200 ''x'', Answer 200 ''x'', Answer 200 ''x'', Answer 200 []]"]
  by (simp only: client_change.simps snd_conv append_Nil simp_thms list_all_iff)

theorem failed_client_creation_is_undone_witness:
  "\<exists>pre token a. snd (snd (demo_identity (CreateManagedClient (Decoded demo_client)) demo_create_answers)) =
     pre @ [(call_of (dp_management demo_deployment) token (user_rpc ''DeleteUser'') [(''userId'', VStr ''u7'')], a)]"
proof -
  let ?q = "CreateManagedClient (Decoded demo_client)" and ?new = "snd (snd (demo_identity (CreateManagedClient (Decoded demo_client)) demo_create_answers))"
  have run: "identity_serve demo_wire demo_codecs demo_deployment ?q (Some demo_admin) (demo_create_answers, []) =
      (Ok \<lparr>ir_status = 502, ir_attachment = None, ir_body = IText ''identity provider request failed''\<rparr>, snd (demo_identity ?q demo_create_answers))"
    using demo_identity_run [of ?q demo_create_answers] demo_create_fails(1) by simp
  from demo_create_fails(2) obtain rq where "(rq, Answer 201 ''u7'') \<in> set ?new" "hr_url rq = ''http://zitadel:8080'' @ user_rpc ''CreateUser''"
    by (cases ?new) auto
  moreover have "created_by demo_codecs (dp_management demo_deployment) (rq, Answer 201 ''u7'') ''u7''"
    using calculation(2) by (simp add: created_by_def demo_base taken_def demo_codecs_def)
  ultimately show ?thesis using failed_client_creation_is_undone [OF demo_wire_ok demo_deletable run] by fastforce
qed

theorem issued_keys_expire_within_a_year_witness:
  "\<exists>text t. clientCredentialExpirationWithLimits [] 1700000000000000000 (mc_default_lifetime (dp_management demo_deployment))
       (mc_max_lifetime (dp_management demo_deployment)) = Inr text \<and> parse_rfc3339 text = Some t \<and>
     t \<le> 1700000000000000000 + 365 * 24 * 3600 * 1000000000"
proof -
  have "dp_management demo_deployment = ResolveZITADELManagementConfigFromEnv
     (\<lambda>k. if k = ''IAM_DEPLOYMENT_MODE'' then ''zitadel'' else if k = ''ZITADEL_MANAGEMENT_URL'' then ''http://zitadel:8080/''
       else if k = ''ARTIFICIALFLOW_IAM_ENABLE_LEGACY_PAT_CREATION'' then ''true'' else [])
     (\<lambda>_. Inl (Msg ''no host'')) (dp_auth demo_deployment) (dp_frontend demo_deployment)"
    by (simp add: demo_deployment_def ResolveDeploymentConfigFromEnv_def Let_def)
  from issued_keys_expire_within_a_year [OF this _ _ refl, of 1700000000000000000 "[]"] show ?thesis
    by (fastforce simp: maxClientCredentialLifetime_def)
qed

theorem client_metadata_roundtrip_witness:
  "ml_description (managedClientFromZitadel demo_codecs
     (demo_robot\<lparr>zu_machine := Some (''Robot'', encodeClientDescription demo_codecs (client_metadata (client_pat_of demo_client)))\<rparr>)) = ''says \"hi\"''"
proof -
  have "trim_space (cc_description (client_pat_of demo_client)) = ''says \"hi\"''" by code_simp
  then show ?thesis
    using client_metadata_roundtrip [OF demo_codecs_describe, of "demo_robot\<lparr>zu_machine := Some (''Robot'',
      encodeClientDescription demo_codecs (client_metadata (client_pat_of demo_client)))\<rparr>" "''Robot''" "client_pat_of demo_client"]
    by (simp add: Let_def)
qed

end
