(* ===== verification/Server.thy ===== *)
theory Server
  imports Engine Auth
begin

text \<open>
  The processes of the command side: the service (\<open>services/workflow-command/cmd/server/main.go\<close>) and the separate runtime
  (\<open>cmd/runtime/main.go\<close>): what they read from the environment, when they refuse to start, the service handlers they
  register, and what each of their loops does per tick. Several of them run on one database; what they share is \<open>s_db\<close>.

  Environment variables are a function, empty when unset. The contexts with time-outs that the ticks use show as failing
  calls of the database, which the engine's environment allows at any point. Logging is left out.
\<close>

section \<open>Reading the environment\<close>

definition main_envBool :: "(string \<Rightarrow> string) \<Rightarrow> string \<Rightarrow> bool \<Rightarrow> bool" where
  "main_envBool getenv key d = (let v = trim_space (to_lower (getenv key)) in
     if v \<in> {''1'', ''true'', ''yes'', ''on''} then True
     else if v \<in> {''0'', ''false'', ''no'', ''off''} then False else d)"

definition parseDurationEnv :: "(string \<Rightarrow> string) \<Rightarrow> string \<Rightarrow> int \<Rightarrow> int" where
  "parseDurationEnv getenv key d = (let raw = trim_space (getenv key) in
     if raw = [] then d else (case ParseDuration raw of Inl _ \<Rightarrow> d | Inr x \<Rightarrow> x))"

definition envInt :: "(string \<Rightarrow> string) \<Rightarrow> string \<Rightarrow> int \<Rightarrow> int" where
  "envInt getenv key d = (let raw = trim_space (getenv key) in
     if raw = [] then d else (case parse_int raw of Inl _ \<Rightarrow> d | Inr n \<Rightarrow> n))"

definition envOrDefault :: "(string \<Rightarrow> string) \<Rightarrow> string \<Rightarrow> string \<Rightarrow> string" where
  "envOrDefault getenv key d = (if getenv key = [] then d else getenv key)"

definition parseAllowedOrigins :: "string \<Rightarrow> string list" where
  "parseAllowedOrigins raw = (if trim_space raw = [] then []
     else filter (\<lambda>v. v \<noteq> []) (map trim_space (split_at_char CHR '','' raw)))"

definition hostnameOrUnknown :: "string option \<Rightarrow> string" where
  "hostnameOrUnknown host = (case host of None \<Rightarrow> ''unknown'' | Some h \<Rightarrow> if trim_space h = [] then ''unknown'' else h)"

section \<open>Configuration\<close>

datatype bus = NatsBus string | KafkaBus "string list" string | NoOpBus

definition event_bus :: "(string \<Rightarrow> string) \<Rightarrow> bus" where
  "event_bus getenv =
     (let brokers = envOrDefault getenv ''KAFKA_BROKERS'' ''localhost:9092'';
          topic = envOrDefault getenv ''KAFKA_TOPIC_EVENTS'' ''workflow.events.v1''
      in if to_lower (envOrDefault getenv ''EVENT_BUS_TYPE'' ''kafka'') = ''nats''
         then NatsBus (envOrDefault getenv ''NATS_URL'' ''nats://localhost:4222'')
         else if brokers \<noteq> [] then KafkaBus (splitAndTrim brokers) topic else NoOpBus)"

text \<open>The loops: how often, how long at most, and with what.\<close>

record relay_loop =
  rl_interval :: int
  rl_timeout :: int
  rl_batch :: int

record cleanup_loop =
  cl_interval :: int
  cl_timeout :: int
  cl_retention :: int
  cl_batch :: int

record lease_loop =
  ll_interval :: int
  ll_timeout :: int
  ll_holder :: string
  ll_ttl :: int

definition batch_size :: "(string \<Rightarrow> string) \<Rightarrow> string \<Rightarrow> int \<Rightarrow> int" where
  "batch_size getenv key d = (if envInt getenv key d \<le> 0 then d else envInt getenv key d)"

definition relay_config :: "(string \<Rightarrow> string) \<Rightarrow> relay_loop option" where
  "relay_config getenv = (if main_envBool getenv ''OUTBOX_RELAY_ENABLED'' True
     then Some \<lparr>rl_interval = parseDurationEnv getenv ''OUTBOX_RELAY_INTERVAL'' 1000000000,
       rl_timeout = parseDurationEnv getenv ''OUTBOX_RELAY_TIMEOUT'' 5000000000,
       rl_batch = batch_size getenv ''OUTBOX_RELAY_BATCH_SIZE'' 200\<rparr>
     else None)"

definition cleanup_config :: "(string \<Rightarrow> string) \<Rightarrow> cleanup_loop option" where
  "cleanup_config getenv = (let retention = parseDurationEnv getenv ''IDEMPOTENCY_RETENTION'' (168 * 3600 * 1000000000) in
     if main_envBool getenv ''IDEMPOTENCY_CLEANUP_ENABLED'' True \<and> retention > 0
     then Some \<lparr>cl_interval = parseDurationEnv getenv ''IDEMPOTENCY_CLEANUP_INTERVAL'' (3600 * 1000000000),
       cl_timeout = parseDurationEnv getenv ''IDEMPOTENCY_CLEANUP_TIMEOUT'' 10000000000,
       cl_retention = retention, cl_batch = batch_size getenv ''IDEMPOTENCY_CLEANUP_BATCH_SIZE'' 500\<rparr>
     else None)"

definition lease_holder :: "(string \<Rightarrow> string) \<Rightarrow> string option \<Rightarrow> int \<Rightarrow> string" where
  "lease_holder getenv host pid = envOrDefault getenv ''RUNTIME_LEASE_HOLDER'' (hostnameOrUnknown host @ ''-'' @ show_int pid)"

definition scheduler_config :: "(string \<Rightarrow> string) \<Rightarrow> string option \<Rightarrow> int \<Rightarrow> lease_loop option" where
  "scheduler_config getenv host pid = (if main_envBool getenv ''RUNTIME_ENABLED'' True
     then Some \<lparr>ll_interval = 1000000000, ll_timeout = 5000000000, ll_holder = lease_holder getenv host pid,
       ll_ttl = parseDurationEnv getenv ''RUNTIME_LEASE_TTL'' 15000000000\<rparr>
     else None)"

text \<open>The runtime keeps its lease for two of its ticks at least; the product is computed in 64 bits.\<close>

definition runtime_lease_config :: "(string \<Rightarrow> string) \<Rightarrow> string option \<Rightarrow> int \<Rightarrow> lease_loop" where
  "runtime_lease_config getenv host pid =
     (let tick = parseDurationEnv getenv ''RUNTIME_TICK_INTERVAL'' 1000000000;
          ttl = parseDurationEnv getenv ''RUNTIME_LEASE_TTL'' 15000000000
      in \<lparr>ll_interval = tick, ll_timeout = parseDurationEnv getenv ''RUNTIME_TASK_TIMEOUT'' 5000000000,
          ll_holder = lease_holder getenv host pid, ll_ttl = (if ttl < wrap64 (2 * tick) then wrap64 (2 * tick) else ttl)\<rparr>)"

definition cors_origins :: "(string \<Rightarrow> string) \<Rightarrow> string list" where
  "cors_origins getenv = (let origins = parseAllowedOrigins (getenv ''ALLOWED_ORIGINS'') in
     if origins = [] then [''http://localhost:9100'', ''http://localhost:5173''] else origins)"

definition cors_credentials :: "(string \<Rightarrow> string) \<Rightarrow> bool" where
  "cors_credentials getenv \<longleftrightarrow> main_envBool getenv ''CORS_ALLOW_CREDENTIALS'' False \<and> cors_origins getenv \<noteq> [''*'']"

record server_config =
  sc_dsn :: string
  sc_addr :: string
  sc_grpc_addr :: string
  sc_bus :: bus
  sc_max_attempts :: int
  sc_relay :: "relay_loop option"
  sc_cleanup :: "cleanup_loop option"
  sc_scheduler :: "lease_loop option"
  sc_origins :: "string list"
  sc_credentials :: bool

definition default_dsn :: string where
  "default_dsn = ''host=localhost user=artificialflow password=password dbname=workflow_db port=5433 sslmode=disable TimeZone=UTC''"

definition server_config_of :: "(string \<Rightarrow> string) \<Rightarrow> string option \<Rightarrow> int \<Rightarrow> server_config" where
  "server_config_of getenv host pid =
     \<lparr>sc_dsn = envOrDefault getenv ''PG_DSN'' default_dsn, sc_addr = envOrDefault getenv ''SERVER_ADDR'' ''0.0.0.0:8080'',
      sc_grpc_addr = envOrDefault getenv ''GRPC_ADDR'' '':50051'', sc_bus = event_bus getenv,
      sc_max_attempts = envInt getenv ''OUTBOX_RELAY_MAX_ATTEMPTS'' 10, sc_relay = relay_config getenv,
      sc_cleanup = cleanup_config getenv, sc_scheduler = scheduler_config getenv host pid,
      sc_origins = cors_origins getenv, sc_credentials = cors_credentials getenv\<rparr>"

text \<open>The service exits when it could not verify a token: introspection without an address, or without the credentials for
  which it was given files.\<close>

definition refuses_to_start :: "auth_config \<Rightarrow> bool" where
  "refuses_to_start c \<longleftrightarrow> cf_token_mode c = ''introspection'' \<and>
     (trim_space (cf_introspection_url c) = [] \<or>
      (cf_introspection_client_id_file c \<noteq> [] \<or> cf_introspection_secret_file c \<noteq> []) \<and>
      (trim_space (cf_introspection_client_id c) = [] \<or> trim_space (cf_introspection_secret c) = []))"

text \<open>\<open>time.NewTicker\<close> panics unless the interval is positive; a panic in a goroutine ends the process.\<close>

definition starts_loops :: "server_config \<Rightarrow> bool" where
  "starts_loops c \<longleftrightarrow> (case sc_relay c of None \<Rightarrow> True | Some l \<Rightarrow> rl_interval l > 0) \<and>
     (case sc_cleanup c of None \<Rightarrow> True | Some l \<Rightarrow> cl_interval l > 0)"

section \<open>The engine of the service\<close>

definition server_handlers :: "string \<Rightarrow> (workflow_instance \<Rightarrow> step \<Rightarrow> go_err option \<times> workflow_instance) option" where
  "server_handlers name =
     (if name = ''logService'' then Some (\<lambda>i st. (None, i))
      else if name = ''paymentService'' then Some (\<lambda>i st. (None, i\<lparr>wi_context := put ''payment_status'' (VStr ''success'') (wi_context i)\<rparr>))
      else None)"

definition server_env :: "server_config \<Rightarrow> env \<Rightarrow> env" where
  "server_env c env = (SetOutboxMaxAttempts (sc_max_attempts c) env)\<lparr>env_handlers := server_handlers\<rparr>"

text \<open>The separate runtime registers no handlers.\<close>

definition runtime_env :: "(string \<Rightarrow> string) \<Rightarrow> env \<Rightarrow> env" where
  "runtime_env getenv env = (SetOutboxMaxAttempts (envInt getenv ''OUTBOX_RELAY_MAX_ATTEMPTS'' 10) env)\<lparr>env_handlers := (\<lambda>_. None)\<rparr>"

section \<open>Ticks\<close>

text \<open>An error of a tick is logged; a panic goes through.\<close>

definition relay_tick :: "env \<Rightarrow> relay_loop \<Rightarrow> unit eng" where
  "relay_tick env l = ignoreE (RunOutboxRelayCycle env (rl_batch l))"

definition cleanup_tick :: "env \<Rightarrow> cleanup_loop \<Rightarrow> unit eng" where
  "cleanup_tick env l = ignoreE (RunIdempotencyCleanup env (cl_retention l) (cl_batch l))"

definition with_lease :: "env \<Rightarrow> lease_loop \<Rightarrow> unit eng \<Rightarrow> unit eng" where
  "with_lease env l work = bindE (tryE (TryAcquireRuntimeSchedulerLease env (ll_holder l) (ll_ttl l))) (\<lambda>r. case r of
       Inl _ \<Rightarrow> ret ()
     | Inr acquired \<Rightarrow> if acquired then work else ret ())"

definition scheduler_tick :: "env \<Rightarrow> calls \<Rightarrow> lease_loop \<Rightarrow> unit eng" where
  "scheduler_tick env rec l = with_lease env l
     (thenE (ignoreE (CheckTimers env rec)) (ignoreE (CheckSLAs env rec)))"

definition runtime_tick :: "env \<Rightarrow> calls \<Rightarrow> int \<Rightarrow> lease_loop \<Rightarrow> unit eng" where
  "runtime_tick env rec batch l = with_lease env l
     (thenE (ignoreE (RunOutboxRelayCycle env batch))
     (thenE (ignoreE (CheckTimers env rec)) (ignoreE (CheckSLAs env rec))))"

section \<open>Small routes\<close>

definition health :: val where
  "health = VMap [(''status'', VStr ''ok'')]"

text \<open>\<open>/identity/me\<close>: whether the caller is known, and as whom.\<close>

definition identity_me :: "principal option \<Rightarrow> bool \<times> principal option" where
  "identity_me who = (case who of None \<Rightarrow> (False, None) | Some p \<Rightarrow> (True, Some p))"

end
