(* ===== verification/ServerProps.thy ===== *)
theory ServerProps
  imports Server StoreProps
begin

text \<open>
  Properties of the processes on one database: the scheduler lease decides whose ticks work, passes on only after it ran
  out, and nothing but a scheduler's tick touches it; the cleanup of idempotency keys keeps the young ones.
\<close>

section \<open>Who touches the lease\<close>

interpretation leases: eng_frame "\<lambda>s t. db_leases (s_db t) = db_leases (s_db s)"
  by unfold_locales (auto elim: runtime_writeE)

lemma leases_exec: "(\<And>d x d'. f d = Inr (x, d') \<Longrightarrow> db_leases d' = db_leases d) \<Longrightarrow>
    keeps (\<lambda>s t. db_leases (s_db t) = db_leases (s_db s)) (repo_exec env f)"
  by (rule leases.keeps_repo_exec) auto

lemma leases_drop_instances: "db_leases (fold (\<lambda>i. drop_instance (pi_key i)) is d) = db_leases d"
  by (induction "is" arbitrary: d) (simp_all add: drop_instance_def)

abbreviation same_leases :: "est \<Rightarrow> est \<Rightarrow> bool" where
  "same_leases s t \<equiv> db_leases (s_db t) = db_leases (s_db s)"

lemma leases_writes [keeps_intros]:
  "keeps same_leases (CreateProcess env p)" "keeps same_leases (DeleteProcess env k)"
  "keeps same_leases (DeleteProcessInstance env k)" "keeps same_leases (CreateIdempotencyRecord env x)"
  unfolding CreateProcess_def DeleteProcess_def DeleteProcessInstance_def CreateIdempotencyRecord_def
  by (rule leases_exec, auto simp: on_table_def insert_row_def Let_def drop_instance_def leases_drop_instances split: if_splits)+

lemma leases_cleanup [keeps_intros]: "keeps same_leases (RunIdempotencyCleanup env retention limit)"
  unfolding RunIdempotencyCleanup_def DeleteIdempotencyRecordsBefore_def Let_def
  by (intro keeps_intros leases_exec) auto

lemma leases_UpsertDecision [keeps_intros]: "keeps same_leases (UpsertDecision env dec)"
  unfolding UpsertDecision_def
  by (intro keeps_intros; rule leases_exec) (auto simp: on_table_def insert_row_def update_by_key_def split: if_splits)

lemma leases_administer:
  assumes "\<And>h d. q \<noteq> LeaseReq h d"
  shows "keeps same_leases (administer env q)"
proof (cases q)
  case (LeaseReq h d)
  with assms show ?thesis by blast
qed (simp_all only: administer.simps drop_result_def DeployWorkflow_def deployWorkflow_tx_def DeployWorkflowFromBPMN_def
    deployWorkflowFromBPMN_tx_def next_version_def DeployDecision_def DeleteWorkflow_def DeleteInstance_def RecordIdempotencyKey_def Let_def,
    (intro keeps_intros)+)

section \<open>What an attempt at the lease does\<close>

definition held :: "db \<Rightarrow> scheduler_lease option" where
  "held d = List.find (\<lambda>l. sl_id l = ''runtime-scheduler'') (db_leases d)"

definition lease_time :: "int \<Rightarrow> int" where
  "lease_time ttl = (if ttl \<le> 0 then 15000000000 else ttl)"

text \<open>Whether the attempt of \<open>h\<close> at the time \<open>now\<close> gets the lease.\<close>

definition free_for :: "string \<Rightarrow> int \<Rightarrow> db \<Rightarrow> bool" where
  "free_for h now d \<longleftrightarrow> (case held d of None \<Rightarrow> True | Some l \<Rightarrow> sl_expires_at l \<le> now \<or> sl_holder l = h)"

definition lease_row :: "string \<Rightarrow> int \<Rightarrow> int \<Rightarrow> scheduler_lease" where
  "lease_row h ttl now = \<lparr>sl_id = ''runtime-scheduler'', sl_holder = h, sl_expires_at = now + lease_time ttl, sl_updated_at = now\<rparr>"

lemma sl_id_row [simp]: "sl_id (lease_row h ttl now) = ''runtime-scheduler''"
  by (simp add: lease_row_def)

lemma find_update: "List.find P ls = Some l \<Longrightarrow> P x \<Longrightarrow> List.find P (update_rows P (\<lambda>_. x) ls) = Some x"
  by (induction ls) (auto simp: update_rows_def split: if_splits)

lemma find_append_none: "List.find P ls = None \<Longrightarrow> P x \<Longrightarrow> List.find P (ls @ [x]) = Some x"
  by (induction ls) (auto split: if_splits)

lemma acquire_run:
  "TryAcquireRuntimeSchedulerLease env h ttl s = (let now = env_clock env (s_clock s); u = s\<lparr>s_clock := Suc (s_clock s)\<rparr> in
     if trim_space h = [] then (Error (Msg ''runtime scheduler lease holder is required''), s)
     else repo_exec env (\<lambda>d. case held d of
         None \<Rightarrow> Inr (True, d\<lparr>db_leases := db_leases d @ [lease_row h ttl now]\<rparr>)
       | Some l \<Rightarrow> if sl_expires_at l \<le> now \<or> sl_holder l = h
           then Inr (True, d\<lparr>db_leases := update_rows (\<lambda>l. sl_id l = ''runtime-scheduler'') (\<lambda>_. lease_row h ttl now) (db_leases d)\<rparr>)
           else Inr (False, d)) u)"
  unfolding TryAcquireRuntimeSchedulerLease_def held_def lease_row_def lease_time_def Let_def timeNow_def bindE_def throw_def
  by simp

lemma acquire_outcome:
  assumes "TryAcquireRuntimeSchedulerLease env h ttl s = (r, t)" and "now = env_clock env (s_clock s)"
  shows "r = Ok True \<and> free_for h now (s_db s) \<and> held (s_db t) = Some (lease_row h ttl now) \<or>
     (r = Ok False \<and> \<not> free_for h now (s_db s) \<or> (\<exists>e. r = Error e \<and> (trim_space h = [] \<or> env_db_fault env (s_calls s)))) \<and> s_db t = s_db s"
proof -
  show ?thesis
  proof (cases "trim_space h = [] \<or> env_db_fault env (s_calls s)")
    case True
    with assms show ?thesis unfolding acquire_run Let_def
      by (cases "trim_space h = []") (auto simp: repo_exec_def Let_def)
  next
    case False
    with assms show ?thesis
      unfolding acquire_run Let_def
      by (cases "held (s_db s)")
        (auto simp: repo_exec_def Let_def free_for_def held_def find_append_none find_update split: if_splits)
  qed
qed

lemma acquire_error: "TryAcquireRuntimeSchedulerLease env h ttl s = (r, t) \<Longrightarrow> r \<noteq> Ok True \<Longrightarrow> s_db t = s_db s"
  using acquire_outcome by blast

text \<open>Nor does the database see anything else of a tick that did not get it.\<close>

definition acquires :: "env \<Rightarrow> lease_loop \<Rightarrow> est \<Rightarrow> bool" where
  "acquires env l s \<longleftrightarrow> fst (TryAcquireRuntimeSchedulerLease env (ll_holder l) (ll_ttl l) s) = Ok True"

lemma idle_tick:
  assumes "\<not> acquires env l s" and "with_lease env l work s = (r, t)"
  shows "r = Ok () \<and> s_db t = s_db s"
proof -
  obtain q u where a: "TryAcquireRuntimeSchedulerLease env (ll_holder l) (ll_ttl l) s = (q, u)" by fastforce
  from acquire_outcome [OF a refl] assms(1) a have "q = Ok False \<or> (\<exists>e. q = Error e)" and "s_db u = s_db s"
    by (auto simp: acquires_def)
  with a assms(2) show ?thesis by (auto simp: with_lease_def bindE_apply tryE_apply ret_apply)
qed

lemma working_tick:
  assumes "acquires env l s" and "with_lease env l work s = (r, t)" and "keeps same_leases work"
  shows "free_for (ll_holder l) (env_clock env (s_clock s)) (s_db s) \<and>
     held (s_db t) = Some (lease_row (ll_holder l) (ll_ttl l) (env_clock env (s_clock s)))"
proof -
  obtain q u where a: "TryAcquireRuntimeSchedulerLease env (ll_holder l) (ll_ttl l) s = (q, u)" by fastforce
  with assms(1) have q: "q = Ok True" by (simp add: acquires_def)
  from acquire_outcome [OF a refl] q have u: "free_for (ll_holder l) (env_clock env (s_clock s)) (s_db s)"
    "held (s_db u) = Some (lease_row (ll_holder l) (ll_ttl l) (env_clock env (s_clock s)))" by auto
  from a q assms(2) have "work u = (r, t)" by (simp add: with_lease_def bindE_apply tryE_apply)
  from keepsD [OF assms(3) this] u show ?thesis by (simp add: held_def)
qed

lemma leases_ticks:
  "keeps same_leases (thenE (ignoreE (CheckTimers env (run env n))) (ignoreE (CheckSLAs env (run env n))))"
  "keeps same_leases (thenE (ignoreE (RunOutboxRelayCycle env batch))
     (thenE (ignoreE (CheckTimers env (run env n))) (ignoreE (CheckSLAs env (run env n)))))"
  by (intro keeps_intros leases.keeps_run)+

section \<open>Schedulers on one database\<close>

text \<open>
  What processes that share the database do to it, and which of them got the lease, when and for how long: the requests to
  the engine and the administration of any process, and the ticks of any number of schedulers and runtimes. Between two
  steps everything but the tables may change, since the next step may be that of another process.
\<close>

inductive shared :: "(string \<times> int \<times> int) list \<Rightarrow> est \<Rightarrow> est \<Rightarrow> bool" where
  shared_start: "shared [] s s"
| shared_elsewhere: "shared H s t \<Longrightarrow> s_db u = s_db t \<Longrightarrow> shared H s u"
| shared_request: "shared H s t \<Longrightarrow> serve env n q t = (r, u) \<Longrightarrow> shared H s u"
| shared_admin: "shared H s t \<Longrightarrow> administer env q t = (r, u) \<Longrightarrow> (\<And>h d. q \<noteq> LeaseReq h d) \<Longrightarrow> shared H s u"
| shared_scheduler: "shared H s t \<Longrightarrow> scheduler_tick env (run env n) l t = (r, u) \<Longrightarrow> acquires env l t \<Longrightarrow>
    shared (H @ [(ll_holder l, env_clock env (s_clock t), lease_time (ll_ttl l))]) s u"
| shared_runtime: "shared H s t \<Longrightarrow> runtime_tick env (run env n) batch l t = (r, u) \<Longrightarrow> acquires env l t \<Longrightarrow>
    shared (H @ [(ll_holder l, env_clock env (s_clock t), lease_time (ll_ttl l))]) s u"
| shared_idle: "shared H s t \<Longrightarrow> with_lease env l work t = (r, u) \<Longrightarrow> \<not> acquires env l t \<Longrightarrow> shared H s u"

text \<open>Each in the history either follows itself or the end of the one before.\<close>

definition handed_over :: "(string \<times> int \<times> int) list \<Rightarrow> bool" where
  "handed_over H \<longleftrightarrow> (\<forall>i. Suc i < length H \<longrightarrow> (case (H ! i, H ! Suc i) of ((h, n, d), (h', n', d')) \<Rightarrow> h' = h \<or> n + d \<le> n'))"

definition last_lease :: "(string \<times> int \<times> int) list \<Rightarrow> db \<Rightarrow> bool" where
  "last_lease H d \<longleftrightarrow> (H \<noteq> [] \<longrightarrow> (case last H of (h, n, len) \<Rightarrow>
     \<exists>l. held d = Some l \<and> sl_holder l = h \<and> sl_expires_at l = n + len))"

lemma handed_over_snoc:
  assumes "handed_over H" and "last_lease H d" and "free_for h now d"
  shows "handed_over (H @ [(h, now, len)])"
  unfolding handed_over_def
proof (intro allI impI)
  fix i
  assume i: "Suc i < length (H @ [(h, now, len)])"
  show "case ((H @ [(h, now, len)]) ! i, (H @ [(h, now, len)]) ! Suc i) of ((h, n, d), (h', n', d')) \<Rightarrow> h' = h \<or> n + d \<le> n'"
  proof (cases "Suc i < length H")
    case True
    with assms(1) show ?thesis by (simp add: handed_over_def nth_append)
  next
    case False
    with i have H: "H \<noteq> []" "i < length H" "Suc i = length H" by auto
    then have "H ! i = last H" by (metis diff_Suc_1 last_conv_nth)
    with H assms(2,3) show ?thesis
      by (cases "last H") (auto simp: nth_append last_lease_def free_for_def)
  qed
qed

lemma shared_history: "shared H s t \<Longrightarrow> handed_over H \<and> last_lease H (s_db t)"
proof (induction rule: shared.induct)
  case (shared_request H s t env n q r u)
  from leases.serve_frame [OF shared_request.hyps(2)] shared_request.IH show ?case by (simp add: last_lease_def held_def)
next
  case (shared_admin H s t env q r u)
  from keepsD [OF leases_administer [OF shared_admin.hyps(3)] shared_admin.hyps(2)] shared_admin.IH
  show ?case by (simp add: last_lease_def held_def)
next
  case (shared_scheduler H s t env n l r u)
  from working_tick [OF shared_scheduler.hyps(3) shared_scheduler.hyps(2) [unfolded scheduler_tick_def] leases_ticks(1)]
    shared_scheduler.IH show ?case by (auto simp: last_lease_def [of "_ @ _"] lease_row_def intro: handed_over_snoc)
next
  case (shared_runtime H s t env n batch l r u)
  from working_tick [OF shared_runtime.hyps(3) shared_runtime.hyps(2) [unfolded runtime_tick_def] leases_ticks(2)]
    shared_runtime.IH show ?case by (auto simp: last_lease_def [of "_ @ _"] lease_row_def intro: handed_over_snoc)
next
  case (shared_idle H s t env l work r u)
  with idle_tick [OF shared_idle.hyps(3,2)] show ?case by simp
qed (simp_all add: handed_over_def last_lease_def)

text \<open>C36: one scheduler works at a time. Whatever any number of services and runtimes on one database do, requests, deployments
  and ticks in any order and with any clocks: when the lease passes from one to another, the new one read its clock after
  the time for which the old one had last taken the lease; and a tick that does not get the lease, or fails to, changes
  no table.\<close>

theorem handover_waits_for_the_lease:
  assumes "shared H s t"
  shows "(\<forall>i h n d h' n' d'. Suc i < length H \<and> H ! i = (h, n, d) \<and> H ! Suc i = (h', n', d') \<and> h' \<noteq> h \<longrightarrow> n + d \<le> n') \<and>
    (\<forall>env k l r u. scheduler_tick env (run env k) l t = (r, u) \<and> s_db u \<noteq> s_db t \<longrightarrow> acquires env l t) \<and>
    (\<forall>env k b l r u. runtime_tick env (run env k) b l t = (r, u) \<and> s_db u \<noteq> s_db t \<longrightarrow> acquires env l t)"
proof (intro conjI allI impI)
  fix i h n d h' n' d'
  assume "Suc i < length H \<and> H ! i = (h, n, d) \<and> H ! Suc i = (h', n', d') \<and> h' \<noteq> h"
  with shared_history [OF assms] show "n + d \<le> n'" unfolding handed_over_def by fastforce
qed (use idle_tick in \<open>unfold scheduler_tick_def runtime_tick_def, blast+\<close>)

definition other_loop :: "string \<Rightarrow> lease_loop" where
  "other_loop h = \<lparr>ll_interval = 1000000000, ll_timeout = 5000000000, ll_holder = h, ll_ttl = 0\<rparr>"

definition later_env :: env where
  "later_env = demo_env\<lparr>env_clock := (\<lambda>_. 1704067215000000000)\<rparr>"

definition first_turn :: est where
  "first_turn = snd (scheduler_tick early_env (run early_env 0) (other_loop ''a'') (demo_state empty_db))"

lemma early_acquires: "acquires early_env (other_loop ''a'') (demo_state empty_db)"
  using two_schedulers(1) by (simp add: acquires_def other_loop_def)

lemma first_turn_held: "held (s_db first_turn) = Some (lease_row ''a'' 0 1704067200000000000)"
proof -
  have "with_lease early_env (other_loop ''a'') (thenE (ignoreE (CheckTimers early_env (run early_env 0)))
      (ignoreE (CheckSLAs early_env (run early_env 0)))) (demo_state empty_db) =
      (fst (scheduler_tick early_env (run early_env 0) (other_loop ''a'') (demo_state empty_db)), first_turn)"
    by (simp add: scheduler_tick_def first_turn_def)
  from working_tick [OF early_acquires this leases_ticks(1)] show ?thesis
    by (simp add: other_loop_def early_env_def)
qed

lemma later_acquires: "acquires later_env (other_loop ''b'') first_turn"
proof -
  obtain r t where a: "TryAcquireRuntimeSchedulerLease later_env ''b'' 0 first_turn = (r, t)" by fastforce
  have "free_for ''b'' 1704067215000000000 (s_db first_turn)"
    by (simp add: free_for_def first_turn_held lease_row_def lease_time_def)
  moreover have "\<not> env_db_fault later_env n" for n by (simp add: later_env_def demo_env_def)
  moreover have "trim_space ''b'' \<noteq> []" by code_simp
  moreover have "env_clock later_env (s_clock first_turn) = 1704067215000000000" by (simp add: later_env_def)
  ultimately have "r = Ok True" using acquire_outcome [OF a refl] by auto
  with a show ?thesis by (simp add: acquires_def other_loop_def)
qed

lemma shared_turns:
  "shared [(''a'', 1704067200000000000, 15000000000), (''b'', 1704067215000000000, 15000000000)] (demo_state empty_db)
     (snd (scheduler_tick later_env (run later_env 0) (other_loop ''b'') first_turn))"
proof -
  have 1: "shared [(''a'', 1704067200000000000, 15000000000)] (demo_state empty_db) first_turn"
    using shared_scheduler [OF shared_start surjective_pairing early_acquires, of 0]
    by (simp add: first_turn_def early_env_def other_loop_def lease_time_def)
  show ?thesis
    using shared_scheduler [OF 1 surjective_pairing later_acquires, of 0]
    by (simp add: later_env_def other_loop_def lease_time_def)
qed

theorem handover_waits_for_the_lease_witness: "(1704067200000000000 :: int) + 15000000000 \<le> 1704067215000000000"
  using conjunct1 [OF handover_waits_for_the_lease [OF shared_turns], rule_format, of 0] by simp

end
