(* ===== verification/WorkerLib.thy ===== *)
theory WorkerLib
  imports EngineTypes
begin

text \<open>
  The library of job workers (\<open>backend/libs/worker\<close>): the client of the job routes and the worker that activates jobs, hands
  each to a handler, keeps its lock alive meanwhile, and settles it by what the handler said.

  The outside of a worker has a state \<open>'s\<close> and is the record \<open>workplace\<close>: sending a request, running the handler, which also
  says how often the renewal timer fired before it returned, reporting an error, waiting, and whether the context is done.
  Renewals run while the handler does; the model runs them after it, in their order, up to the first that fails. One in
  flight when the handler returns is cancelled and not part of the run. The decoders of answers are the record
  \<open>job_codecs\<close>; \<open>None\<close> is \<open>io.EOF\<close>. A map of variables that is nil counts as empty.
\<close>

section \<open>The client\<close>

definition WorkerProtocol :: string where "WorkerProtocol = ''v1''"

record client_request =
  wq_method :: string
  wq_url :: string
  wq_version :: string
  wq_token :: string
  wq_body :: "val option"

datatype worker_reply = NoReply go_err | Reply int string

record job_codecs =
  jc_bad_url :: "string \<Rightarrow> go_err option"
  jc_jobs :: "string \<Rightarrow> (go_err + job list) option"
  jc_capabilities :: "string \<Rightarrow> (go_err + string \<times> string list) option"

record 's workplace =
  wp_send :: "client_request \<Rightarrow> 's \<Rightarrow> worker_reply \<times> 's"
  wp_handle :: "job \<Rightarrow> 's \<Rightarrow> ((go_err + vars) \<times> nat) \<times> 's"
  wp_report :: "go_err \<Rightarrow> 's \<Rightarrow> 's"
  wp_pause :: "'s \<Rightarrow> 's"
  wp_over :: "'s \<Rightarrow> bool"

record worker_client =
  wc_base :: string
  wc_token :: string

definition NewClient :: "string \<Rightarrow> string \<Rightarrow> go_err + worker_client" where
  "NewClient base token = (let b = trim_space base in
     if b = [] then Inl (Msg ''base URL is required'')
     else Inr \<lparr>wc_base = rev (dropWhile (\<lambda>c. c = CHR ''/'') (rev b)), wc_token = token\<rparr>)"

definition client_request_of :: "worker_client \<Rightarrow> string \<Rightarrow> string \<Rightarrow> val option \<Rightarrow> client_request" where
  "client_request_of c m path b =
     \<lparr>wq_method = m, wq_url = wc_base c @ path, wq_version = WorkerProtocol, wq_token = wc_token c, wq_body = b\<rparr>"

text \<open>What an answer says: an error, or the value decoded from its body, \<open>zero\<close> when the body is empty.\<close>

definition reply_value :: "string \<Rightarrow> string \<Rightarrow> (string \<Rightarrow> (go_err + 'a) option) \<Rightarrow> 'a \<Rightarrow> worker_reply \<Rightarrow> go_err + 'a" where
  "reply_value m path decode zero a = (case a of
       NoReply e \<Rightarrow> Inl e
     | Reply code b \<Rightarrow>
         if code \<ge> 400 then (let detail = trim_space (take 4096 b); said = m @ '' '' @ path @ '' returned status '' @ show_int code in
           Inl (Msg (if detail = [] then said else said @ '': '' @ detail)))
         else (case decode b of None \<Rightarrow> Inr zero | Some x \<Rightarrow> x))"

text \<open>The encoder refuses some values (\<open>json.Marshal\<close>).\<close>

definition not_encoded :: "val option \<Rightarrow> bool" where
  "not_encoded b \<longleftrightarrow> (case b of None \<Rightarrow> False | Some v \<Rightarrow> json_roundtrip v = None)"

definition doJSONRequest ::
  "'s workplace \<Rightarrow> job_codecs \<Rightarrow> worker_client \<Rightarrow> string \<Rightarrow> string \<Rightarrow> val option \<Rightarrow> (string \<Rightarrow> (go_err + 'a) option) \<Rightarrow> 'a \<Rightarrow> ('s, 'a) go" where
  "doJSONRequest w cd c m path b decode zero = (if not_encoded b then throw (Msg ''json: unsupported value'') else
     case jc_bad_url cd (wc_base c @ path) of
       Some e \<Rightarrow> throw e
     | None \<Rightarrow> (\<lambda>s. case wp_send w (client_request_of c m path b) s of (a, t) \<Rightarrow>
         (case reply_value m path decode zero a of Inl e \<Rightarrow> (Error e, t) | Inr x \<Rightarrow> (Ok x, t))))"

definition ignore_body :: "string \<Rightarrow> (go_err + unit) option" where
  "ignore_body b = None"

definition GetCapabilities :: "'s workplace \<Rightarrow> job_codecs \<Rightarrow> worker_client \<Rightarrow> ('s, string \<times> string list) go" where
  "GetCapabilities w cd c = doJSONRequest w cd c ''GET'' ''/jobs/capabilities'' None (jc_capabilities cd) ([], [])"

section \<open>The worker\<close>

record worker =
  wk_client :: worker_client
  wk_type :: string
  wk_name :: string
  wk_max :: int
  wk_timeout :: int
  wk_lock :: int
  wk_renew :: int
  wk_backoff :: int

record worker_config =
  kc_type :: string
  kc_name :: string
  kc_max :: int
  kc_timeout :: int
  kc_lock :: int
  kc_renew :: int
  kc_backoff :: int
  kc_handled :: bool  \<comment> \<open>there is a handler\<close>

definition NewWorker :: "worker_client option \<Rightarrow> worker_config \<Rightarrow> go_err + worker" where
  "NewWorker client cfg = (case client of
       None \<Rightarrow> Inl (Msg ''client is required'')
     | Some c \<Rightarrow>
         if kc_name cfg = [] then Inl (Msg ''worker name is required'')
         else if \<not> kc_handled cfg then Inl (Msg ''handler is required'')
         else if kc_renew cfg < 0 then Inl (Msg ''lock renew interval must be non-negative'')
         else Inr \<lparr>wk_client = c, wk_type = kc_type cfg, wk_name = kc_name cfg, wk_max = (if kc_max cfg \<le> 0 then 1 else kc_max cfg),
           wk_timeout = (if kc_timeout cfg \<le> 0 then 5000000000 else kc_timeout cfg),
           wk_lock = (if kc_lock cfg \<le> 0 then 30000000000 else kc_lock cfg), wk_renew = kc_renew cfg,
           wk_backoff = (if kc_backoff cfg < 0 then 0 else kc_backoff cfg)\<rparr>)"

definition activate_body :: "worker \<Rightarrow> val" where
  "activate_body k = VMap [(''type'', VStr (wk_type k)), (''worker'', VStr (wk_name k)), (''maxJobs'', VInt (wk_max k)),
     (''timeoutMs'', VInt (wk_timeout k div 1000000)), (''lockDurationMs'', VInt (wk_lock k div 1000000))]"

definition job_path :: "job \<Rightarrow> string \<Rightarrow> string" where
  "job_path j what = ''/jobs/'' @ show_int (jb_key j) @ what"

definition worker_ActivateJobs :: "'s workplace \<Rightarrow> job_codecs \<Rightarrow> worker \<Rightarrow> ('s, job list) go" where
  "worker_ActivateJobs w cd k = doJSONRequest w cd (wk_client k) ''POST'' ''/jobs/activate'' (Some (activate_body k)) (jc_jobs cd) []"

definition worker_CompleteJob :: "'s workplace \<Rightarrow> job_codecs \<Rightarrow> worker \<Rightarrow> job \<Rightarrow> vars \<Rightarrow> ('s, unit) go" where
  "worker_CompleteJob w cd k j vs = doJSONRequest w cd (wk_client k) ''POST'' (job_path j ''/complete'')
     (Some (VMap [(''worker'', VStr (wk_name k)), (''variables'', VMap vs)])) ignore_body ()"

definition worker_FailJob :: "'s workplace \<Rightarrow> job_codecs \<Rightarrow> worker \<Rightarrow> job \<Rightarrow> string \<Rightarrow> ('s, unit) go" where
  "worker_FailJob w cd k j msg = doJSONRequest w cd (wk_client k) ''POST'' (job_path j ''/fail'')
     (Some (VMap [(''worker'', VStr (wk_name k)), (''errorMessage'', VStr msg)])) ignore_body ()"

definition worker_ExtendJobLock :: "'s workplace \<Rightarrow> job_codecs \<Rightarrow> worker \<Rightarrow> job \<Rightarrow> ('s, unit) go" where
  "worker_ExtendJobLock w cd k j = doJSONRequest w cd (wk_client k) ''POST'' (job_path j ''/extend-lock'')
     (Some (VMap [(''worker'', VStr (wk_name k)), (''lockDurationMs'', VInt (wk_lock k div 1000000))])) ignore_body ()"

text \<open>\<open>context.Canceled\<close> and \<open>context.DeadlineExceeded\<close>, and \<open>errors.Is\<close>.\<close>

definition Canceled :: go_err where "Canceled = Msg ''context canceled''"
definition DeadlineExceeded :: go_err where "DeadlineExceeded = Msg ''context deadline exceeded''"

fun is_err :: "go_err \<Rightarrow> go_err \<Rightarrow> bool" where
  "is_err e (Wrapf m e') \<longleftrightarrow> e = Wrapf m e' \<or> is_err e e'"
| "is_err e e' \<longleftrightarrow> e = e'"

primrec renewals :: "'s workplace \<Rightarrow> job_codecs \<Rightarrow> worker \<Rightarrow> job \<Rightarrow> nat \<Rightarrow> ('s, unit) go" where
  "renewals w cd k j 0 = ret ()"
| "renewals w cd k j (Suc n) = thenE (mapErr (Wrapf (''failed to extend lock for job '' @ show_int (jb_key j))) (worker_ExtendJobLock w cd k j))
     (renewals w cd k j n)"

definition run_handler :: "'s workplace \<Rightarrow> job \<Rightarrow> ('s, (go_err + vars) \<times> nat) go" where
  "run_handler w j = (\<lambda>s. case wp_handle w j s of (x, t) \<Rightarrow> (Ok x, t))"

definition settle_job :: "'s workplace \<Rightarrow> job_codecs \<Rightarrow> worker \<Rightarrow> job \<Rightarrow> go_err + vars \<Rightarrow> ('s, unit) go" where
  "settle_job w cd k j said = (case said of
       Inl e \<Rightarrow> if is_err Canceled e \<or> is_err DeadlineExceeded e then throw e else worker_FailJob w cd k j (err_string e)
     | Inr vs \<Rightarrow> worker_CompleteJob w cd k j vs)"

definition processJob :: "'s workplace \<Rightarrow> job_codecs \<Rightarrow> worker \<Rightarrow> job \<Rightarrow> ('s, unit) go" where
  "processJob w cd k j = bindE (run_handler w j) (\<lambda>(said, ticks).
     thenE (if wk_renew k > 0 then renewals w cd k j ticks else ret ()) (settle_job w cd k j said))"

definition RunOnce :: "'s workplace \<Rightarrow> job_codecs \<Rightarrow> worker \<Rightarrow> ('s, unit) go" where
  "RunOnce w cd k = bindE (worker_ActivateJobs w cd k) (\<lambda>js. forE js (processJob w cd k))"

text \<open>\<open>Run\<close> goes on until the context is done; the argument bounds the turns of its loop.\<close>

primrec Run :: "'s workplace \<Rightarrow> job_codecs \<Rightarrow> worker \<Rightarrow> nat \<Rightarrow> ('s, unit) go" where
  "Run w cd k 0 = diverge"
| "Run w cd k (Suc n) = bindE (gets (wp_over w)) (\<lambda>over. if over then ret ()
     else bindE (tryE (RunOnce w cd k)) (\<lambda>r. case r of
         Inr _ \<Rightarrow> Run w cd k n
       | Inl e \<Rightarrow> bindE (gets (wp_over w)) (\<lambda>over. if over then ret ()
           else thenE (modifyS (wp_report w e))
             (thenE (if wk_backoff k > 0 then modifyS (wp_pause w) else ret ()) (Run w cd k n)))))"

end
