(* ===== verification/WorkerLibProps.thy ===== *)
theory WorkerLibProps
  imports WorkerLib Total Demo
begin

text \<open>
  The protocol of a worker: what it asks the service for, what it does with each job it gets, and what stops it.
\<close>

section \<open>What is observed\<close>



section \<open>The protocol\<close>









section \<open>The worker follows it\<close>















end
