(* ===== verification/Connectors.thy ===== *)
theory Connectors
  imports WorkerLib Auth TimeText Executors
begin

text \<open>
  The shipped connectors (\<open>src/connectors\<close>): job workers that read the variables of the instance of a job and send an HTTP
  request, a webhook, a mail, a Kafka message, or an object to a store. What they share, \<open>internal/common\<close>, comes first.

  What is outside has a state \<open>'s\<close> and is the record \<open>web\<close>: sending one HTTP request, SMTP, the Kafka writer and the clock.
  The client of \<open>net/http\<close> follows redirects by itself; its loop is \<open>follow\<close>. Parsing a URL, resolving a reference
  against one, JSON and the hashes are the record \<open>web_codecs\<close>; a parsed URL is its text, host and name of the host.
  Answers are what could be read of them.
\<close>

section \<open>Requests\<close>

record web_url =
  wu_text :: string
  wu_host :: string
  wu_hostname :: string
  wu_path :: string

record web_request =
  wr_method :: string
  wr_url :: web_url
  wr_headers :: "(string \<times> string) list"
  wr_body :: "val option"
  wr_timeout :: int  \<comment> \<open>nanoseconds; none unless positive\<close>

text \<open>An error (a connection that fails, a timeout that runs out), or status, the header \<open>Location\<close> and the body, or
  nothing, ever: without a timeout (\<open>net/http\<close> takes a \<open>Timeout\<close> of 0 or less as none) a request may hang.\<close>

datatype web_reply = NoAnswer go_err | Answer int string string | Silent

record 's web =
  wb_send :: "web_request \<Rightarrow> 's \<Rightarrow> web_reply \<times> 's"
  wb_mail :: "string \<Rightarrow> (string \<times> string) option \<Rightarrow> string \<Rightarrow> string list \<Rightarrow> string \<Rightarrow> 's \<Rightarrow> go_err option \<times> 's"
  wb_publish :: "string list \<Rightarrow> string \<Rightarrow> string option \<Rightarrow> val + string \<Rightarrow> 's \<Rightarrow> (go_err + int) \<times> 's"  \<comment> \<open>the bytes written\<close>
  wb_now :: "'s \<Rightarrow> int \<times> 's"

record web_codecs =
  cx_parse :: "string \<Rightarrow> go_err + web_url"
  cx_resolve :: "web_url \<Rightarrow> string \<Rightarrow> go_err + web_url"
  cx_method_ok :: "string \<Rightarrow> bool"
  cx_forward :: "web_url \<Rightarrow> (string \<times> string) list \<Rightarrow> (string \<times> string) list"  \<comment> \<open>headers a redirect keeps\<close>
  cx_json :: "string \<Rightarrow> go_err + val"
  cx_object :: "string \<Rightarrow> go_err + vars"
  cx_context :: "string \<Rightarrow> go_err + vars"
  cx_sha256_hex :: "string \<Rightarrow> string"
  cx_hmac :: "string \<Rightarrow> string \<Rightarrow> string"
  cx_hex :: "string \<Rightarrow> string"

section \<open>What the connectors share\<close>

definition MaxHeaderCount :: int where "MaxHeaderCount = 50"
definition MaxHeaderTotalSize :: int where "MaxHeaderTotalSize = 8192"
definition MaxHeaderKeyLen :: int where "MaxHeaderKeyLen = 256"
definition MaxHeaderValueLen :: int where "MaxHeaderValueLen = 4096"

definition EnvOr :: "(string \<Rightarrow> string) \<Rightarrow> string \<Rightarrow> string \<Rightarrow> string" where
  "EnvOr getenv key d = (if getenv key \<noteq> [] then getenv key else d)"

definition StringVar :: "vars \<Rightarrow> string \<Rightarrow> string" where
  "StringVar vs key = trim_space (str_or_empty vs key)"

definition ParseAllowlist :: "string \<Rightarrow> string list" where
  "ParseAllowlist raw = filter (\<lambda>p. p \<noteq> []) (map (\<lambda>p. to_lower (trim_space p)) (split_at_char CHR '','' raw))"

definition AllowAnyHost :: "(string \<Rightarrow> string) \<Rightarrow> string \<Rightarrow> bool" where
  "AllowAnyHost getenv key = (let v = trim_space (getenv key) in equal_fold v ''true'' \<or> v = ''1'')"

definition ValidateAllowlistRequired :: "(string \<Rightarrow> string) \<Rightarrow> string list \<Rightarrow> string \<Rightarrow> string \<Rightarrow> go_err option" where
  "ValidateAllowlistRequired getenv allowed anyKey listKey =
     (if allowed \<noteq> [] then None else if AllowAnyHost getenv anyKey then None
      else Some (Msg (listKey @ '' is empty and '' @ anyKey @
        '' is not true; set an allowlist or explicitly allow any host for local development'')))"

definition HostAllowed :: "string \<Rightarrow> string list \<Rightarrow> bool" where
  "HostAllowed hostname allowed \<longleftrightarrow> allowed = [] \<or> to_lower hostname \<in> set allowed"

text \<open>\<open>via\<close> counts the requests made so far.\<close>

definition CheckRedirectAllowlist :: "string list \<Rightarrow> web_url \<Rightarrow> nat \<Rightarrow> go_err option" where
  "CheckRedirectAllowlist allowed u via = (if via \<ge> 10 then Some (Msg ''stopped after 10 redirects'')
     else if \<not> HostAllowed (wu_hostname u) allowed
     then Some (Msg (''redirect host \"'' @ wu_hostname u @ ''\" not in connector allowlist'')) else None)"

definition AssertURLHostAllowed :: "web_codecs \<Rightarrow> string \<Rightarrow> string list \<Rightarrow> string \<Rightarrow> go_err + web_url" where
  "AssertURLHostAllowed cx url allowed listKey = (case cx_parse cx url of
       Inl e \<Rightarrow> Inl e
     | Inr u \<Rightarrow> if wu_hostname u = [] then Inl (Msg ''url host is required'')
         else if \<not> HostAllowed (wu_hostname u) allowed then Inl (Msg (''host \"'' @ wu_hostname u @ ''\" not in '' @ listKey))
         else Inr u)"

definition AsBool :: "val \<Rightarrow> bool \<Rightarrow> bool" where
  "AsBool v d = (case v of
       VBool b \<Rightarrow> b
     | VStr t \<Rightarrow> (let s = trim_space (to_lower t) in
         if s \<in> {''true'', ''1'', ''yes'', ''on''} then True
         else if s \<in> {''false'', ''0'', ''no'', ''off''} then False else d)
     | VFloat q \<Rightarrow> q \<noteq> 0
     | VInt i \<Rightarrow> i \<noteq> 0
     | _ \<Rightarrow> d)"

definition FailOnNon2xxDefault :: "(string \<Rightarrow> string) \<Rightarrow> vars \<Rightarrow> string \<Rightarrow> bool" where
  "FailOnNon2xxDefault getenv vs key = (case map_of vs ''failOnNon2xx'' of
       Some v \<Rightarrow> AsBool v True
     | None \<Rightarrow> (let e = trim_space (getenv key) in if e = [] then True else AsBool (VStr e) True))"

definition lookup_var :: "vars \<Rightarrow> string \<Rightarrow> val" where
  "lookup_var vs key = (case map_of vs key of Some v \<Rightarrow> v | None \<Rightarrow> VNil)"

definition printed :: "vars \<Rightarrow> (string \<times> string) list" where
  "printed m = map (\<lambda>(k, v). (k, fmt_v v)) m"

definition CoerceStringMap :: "web_codecs \<Rightarrow> val \<Rightarrow> go_err + (string \<times> string) list" where
  "CoerceStringMap cx raw = (case raw of
       VNil \<Rightarrow> Inr []
     | VMap m \<Rightarrow> Inr (printed m)
     | VStr t \<Rightarrow> (let s = trim_space t in if s = [] then Inr []
         else (case cx_object cx s of Inl e \<Rightarrow> Inl (Wrapf ''headers must be a JSON object'' e) | Inr m \<Rightarrow> Inr (printed m)))
     | _ \<Rightarrow> Inl (Msg ''headers must be an object''))"

definition CoerceJSONValue :: "web_codecs \<Rightarrow> val \<Rightarrow> val" where
  "CoerceJSONValue cx raw = (case raw of
       VStr t \<Rightarrow> (let s = trim_space t in if s = [] then VNil
         else (case cx_json cx s of Inl _ \<Rightarrow> VStr s | Inr v \<Rightarrow> v))
     | v \<Rightarrow> v)"

text \<open>\<open>textproto.CanonicalMIMEHeaderKey\<close>: a name of token characters is capitalised at its start and after every hyphen.\<close>

definition token_char :: "char \<Rightarrow> bool" where
  "token_char c \<longleftrightarrow> (let n = (of_char c :: nat) in is_digit c \<or> 65 \<le> n \<and> n \<le> 90 \<or> 97 \<le> n \<and> n \<le> 122) \<or> c \<in> set ''!#$%&*+-.^_`|~'' \<or> c = CHR 0x27"

fun capitalise :: "bool \<Rightarrow> string \<Rightarrow> string" where
  "capitalise up [] = []"
| "capitalise up (c # cs) = (if up then upper_char c else lower_char c) # capitalise (c = CHR ''-'') cs"

definition header_name :: "string \<Rightarrow> string" where
  "header_name k = (if list_all token_char k then capitalise True k else k)"

fun set_headers :: "int \<Rightarrow> (string \<times> string) list \<Rightarrow> (string \<times> string) list \<Rightarrow> go_err + (string \<times> string) list" where
  "set_headers n hs [] = Inr hs"
| "set_headers n hs ((k, v) # r) = (let n' = n + (int (length k) + int (length v)) in
     if int (length k) > MaxHeaderKeyLen then Inl (Msg (''header name too long (max '' @ show_int MaxHeaderKeyLen @ '')''))
     else if int (length v) > MaxHeaderValueLen
     then Inl (Msg (''header \"'' @ k @ ''\" value too long (max '' @ show_int MaxHeaderValueLen @ '')''))
     else if n' > MaxHeaderTotalSize then Inl (Msg (''headers exceed max total size ('' @ show_int MaxHeaderTotalSize @ '' bytes)''))
     else set_headers n' (put (header_name k) v hs) r)"

definition ApplyHeaders :: "web_codecs \<Rightarrow> (string \<times> string) list \<Rightarrow> val \<Rightarrow> go_err + (string \<times> string) list" where
  "ApplyHeaders cx hs raw = (case CoerceStringMap cx raw of
       Inl e \<Rightarrow> Inl e
     | Inr m \<Rightarrow> if int (length m) > MaxHeaderCount
         then Inl (Msg (''too many headers: '' @ show_int (int (length m)) @ '' (max '' @ show_int MaxHeaderCount @ '')''))
         else set_headers 0 hs m)"

section \<open>The HTTP client\<close>

text \<open>How a redirect goes on: method and whether the body goes along.\<close>

definition redirect_to :: "web_codecs \<Rightarrow> web_request \<Rightarrow> web_request \<Rightarrow> int \<Rightarrow> web_url \<Rightarrow> web_request" where
  "redirect_to cx first q status u = q\<lparr>wr_url := u, wr_headers := cx_forward cx u (wr_headers first),
     wr_method := (if status \<in> {307, 308} \<or> wr_method q = ''HEAD'' then wr_method q else ''GET''),
     wr_body := (if status \<in> {307, 308} then wr_body first else None)\<rparr>"

text \<open>\<open>Client.Do\<close>: \<open>check\<close> is \<open>CheckRedirect\<close>, \<open>via\<close> the number of requests made; the first argument bounds them.\<close>

primrec follow :: "'s web \<Rightarrow> web_codecs \<Rightarrow> (web_url \<Rightarrow> nat \<Rightarrow> go_err option) \<Rightarrow> web_request \<Rightarrow> nat \<Rightarrow> nat \<Rightarrow> web_request \<Rightarrow> ('s, int \<times> string) go" where
  "follow w cx check first 0 via q = diverge"
| "follow w cx check first (Suc n) via q = bindE (\<lambda>s. case wb_send w q s of (a, t) \<Rightarrow> (Ok a, t)) (\<lambda>a. case a of
       NoAnswer e \<Rightarrow> throw e
     | Silent \<Rightarrow> diverge
     | Answer status location body \<Rightarrow>
         if status \<in> {301, 302, 303, 307, 308} \<and> location \<noteq> [] then (case cx_resolve cx (wr_url q) location of
             Inl e \<Rightarrow> throw e
           | Inr u \<Rightarrow> (case check u (Suc via) of
               Some e \<Rightarrow> throw e
             | None \<Rightarrow> follow w cx check first n (Suc via) (redirect_to cx first q status u)))
         else ret (status, body))"

definition client_Do :: "'s web \<Rightarrow> web_codecs \<Rightarrow> (web_url \<Rightarrow> nat \<Rightarrow> go_err option) \<Rightarrow> web_request \<Rightarrow> ('s, int \<times> string) go" where
  "client_Do w cx check q = follow w cx check q 10 0 q"

definition defaultCheckRedirect :: "web_url \<Rightarrow> nat \<Rightarrow> go_err option" where
  "defaultCheckRedirect u via = (if via \<ge> 10 then Some (Msg ''stopped after 10 redirects'') else None)"

definition read_limited :: "string \<Rightarrow> string" where
  "read_limited b = take (2 ^ 20) b"

definition LoadInstanceVars :: "'s web \<Rightarrow> web_codecs \<Rightarrow> string \<Rightarrow> string \<Rightarrow> int \<Rightarrow> ('s, vars) go" where
  "LoadInstanceVars w cx base token k =
     bindE (liftR (cx_parse cx (rev (dropWhile (\<lambda>c. c = CHR ''/'') (rev base)) @ ''/instances/'' @ show_int k))) (\<lambda>u.
     bindE (client_Do w cx defaultCheckRedirect \<lparr>wr_method = ''GET'', wr_url = u,
        wr_headers = (if token = [] then [] else [(''Authorization'', ''Bearer '' @ token)]), wr_body = None, wr_timeout = 0\<rparr>) (\<lambda>(status, b).
     if status \<ge> 300 then throw (Msg (''load instance '' @ show_int k @ '': '' @ trim_space (take 4096 b)))
     else liftR (cx_context cx b)))"

section \<open>HTTP\<close>

text \<open>\<open>fmt.Sscanf(s, "%d", &n)\<close>: a decimal number at the start; what follows is not read.\<close>

definition scan_int :: "string \<Rightarrow> int option" where
  "scan_int s = (case split_sign s of (neg, b) \<Rightarrow> let ds = takeWhile is_digit b in
     (case ParseInt ((if neg then ''-'' else []) @ ds) of (i, None) \<Rightarrow> Some i | _ \<Rightarrow> None))"

definition timeout_ms :: "val \<Rightarrow> int" where
  "timeout_ms v = (case v of
       VFloat q \<Rightarrow> if q > 0 then int_of_f64 q else 10000
     | VInt i \<Rightarrow> if i > 0 then i else 10000
     | VStr t \<Rightarrow> (case scan_int (trim_space t) of Some n \<Rightarrow> if n > 0 then n else 10000 | None \<Rightarrow> 10000)
     | _ \<Rightarrow> 10000)"

text \<open>The body to send: \<open>None\<close> when the encoder refuses it.\<close>

definition encoded :: "val \<Rightarrow> val option" where
  "encoded v = (if json_roundtrip v = None then None else Some v)"

definition unencodable :: go_err where
  "unencodable = Msg ''json: unsupported value''"

definition is_2xx :: "int \<Rightarrow> bool" where
  "is_2xx status \<longleftrightarrow> 200 \<le> status \<and> status < 300"

text \<open>Variables that come with an error are dropped by the worker.\<close>

definition executeHTTP :: "'s web \<Rightarrow> web_codecs \<Rightarrow> (string \<Rightarrow> string) \<Rightarrow> vars \<Rightarrow> string list \<Rightarrow> ('s, vars) go" where
  "executeHTTP w cx getenv vs allowed = (let url = StringVar vs ''url'' in
     if url = [] then throw (Msg ''instance variable url is required'')
     else bindE (liftR (AssertURLHostAllowed cx url allowed ''HTTP_CONNECTOR_ALLOWED_HOSTS'')) (\<lambda>u.
       let m0 = StringVar vs ''method''; m = to_upper (if m0 = [] then ''POST'' else m0);
           ms = timeout_ms (lookup_var vs ''timeoutMs'');
           b = CoerceJSONValue cx (lookup_var vs ''body'') in
       if b \<noteq> VNil \<and> encoded b = None then throw unencodable
       else if \<not> cx_method_ok cx m then throw (Msg (''net/http: invalid method \"'' @ m @ ''\"''))
       else bindE (liftR (ApplyHeaders cx [(''Content-Type'', ''application/json'')] (lookup_var vs ''headers''))) (\<lambda>hs.
         bindE (client_Do w cx (CheckRedirectAllowlist allowed) \<lparr>wr_method = m, wr_url = u, wr_headers = hs,
             wr_body = (if b = VNil then None else Some b), wr_timeout = wrap64 (ms * 1000000)\<rparr>) (\<lambda>(status, raw).
           if \<not> is_2xx status \<and> FailOnNon2xxDefault getenv vs ''HTTP_CONNECTOR_FAIL_ON_NON_2XX''
           then throw (Msg (''HTTP status '' @ show_int status @ '' (failOnNon2xx)''))
           else ret [(''httpStatus'', VInt status), (''httpBody'', VStr (read_limited raw)), (''httpOk'', VBool (is_2xx status))]))))"

section \<open>Webhook\<close>

definition executeWebhook :: "'s web \<Rightarrow> web_codecs \<Rightarrow> (string \<Rightarrow> string) \<Rightarrow> vars \<Rightarrow> string list \<Rightarrow> ('s, vars) go" where
  "executeWebhook w cx getenv vs allowed = (let url0 = StringVar vs ''webhookUrl''; url = (if url0 = [] then StringVar vs ''url'' else url0) in
     if url = [] then throw (Msg ''webhookUrl (or url) is required'')
     else bindE (liftR (AssertURLHostAllowed cx url allowed ''WEBHOOK_CONNECTOR_ALLOWED_HOSTS'')) (\<lambda>u.
       let p0 = lookup_var vs ''payload''; p = CoerceJSONValue cx (if p0 = VNil then lookup_var vs ''body'' else p0);
           token = StringVar vs ''webhookToken'' in
       if p \<noteq> VNil \<and> encoded p = None then throw unencodable
       else bindE (client_Do w cx (CheckRedirectAllowlist allowed) \<lparr>wr_method = ''POST'', wr_url = u,
           wr_headers = (''Content-Type'', ''application/json'') # (if token = [] then [] else [(''Authorization'', ''Bearer '' @ token)]),
           wr_body = Some (if p = VNil then VMap [] else p), wr_timeout = 15000000000\<rparr>) (\<lambda>(status, raw).
         if \<not> is_2xx status \<and> FailOnNon2xxDefault getenv vs ''WEBHOOK_CONNECTOR_FAIL_ON_NON_2XX''
         then throw (Msg (''webhook status '' @ show_int status @ '' (failOnNon2xx)''))
         else ret [(''webhookStatus'', VInt status), (''webhookBody'', VStr (read_limited raw)), (''webhookOk'', VBool (is_2xx status))])))"

section \<open>Mail\<close>

definition first_var :: "vars \<Rightarrow> string \<Rightarrow> string \<Rightarrow> string" where
  "first_var vs a b = (if StringVar vs a = [] then StringVar vs b else StringVar vs a)"

definition crlf :: string where "crlf = [CHR 0x0D, CHR 0x0A]"

definition mail_text :: "string \<Rightarrow> string \<Rightarrow> string \<Rightarrow> string \<Rightarrow> string" where
  "mail_text from_addr to subject body = ''From: '' @ from_addr @ crlf @ ''To: '' @ to @ crlf @ ''Subject: '' @ subject @ crlf @
     ''MIME-Version: 1.0'' @ crlf @ ''Content-Type: text/plain; charset=UTF-8'' @ crlf @ crlf @ body @ crlf"

definition splitAddresses :: "string \<Rightarrow> string list" where
  "splitAddresses raw = filter (\<lambda>p. p \<noteq> []) (map trim_space (split_at_char CHR '','' raw))"

definition JoinHostPort :: "string \<Rightarrow> string \<Rightarrow> string" where
  "JoinHostPort host port = (if CHR '':'' \<in> set host then ''['' @ host @ '']:'' @ port else host @ '':'' @ port)"

definition sendEmail :: "'s web \<Rightarrow> (string \<Rightarrow> string) \<Rightarrow> vars \<Rightarrow> ('s, vars) go" where
  "sendEmail w getenv vs = (let host = EnvOr getenv ''SMTP_HOST'' []; port = EnvOr getenv ''SMTP_PORT'' ''587'';
       user = getenv ''SMTP_USERNAME''; pass = getenv ''SMTP_PASSWORD''; from_addr = EnvOr getenv ''SMTP_FROM'' user;
       to = first_var vs ''emailTo'' ''to''; subject = first_var vs ''emailSubject'' ''subject''; body = first_var vs ''emailBody'' ''body'' in
     if host = [] \<or> from_addr = [] then throw (Msg ''SMTP_HOST and SMTP_FROM (or SMTP_USERNAME) are required'')
     else if to = [] \<or> subject = [] then throw (Msg ''emailTo and emailSubject are required'')
     else (\<lambda>s. case wb_mail w (JoinHostPort host port) (if user = [] then None else Some (user, pass)) from_addr (splitAddresses to)
           (mail_text from_addr to subject body) s of
         (Some e, t) \<Rightarrow> (Error e, t)
       | (None, t) \<Rightarrow> (Ok [(''emailTo'', VStr to), (''emailSubject'', VStr subject), (''emailSent'', VBool True)], t)))"

section \<open>Kafka\<close>

definition trimBrokers :: "string list \<Rightarrow> string list" where
  "trimBrokers bs = filter (\<lambda>b. b \<noteq> []) (map trim_space bs)"

text \<open>The value is the encoding of a variable or the text itself.\<close>

definition kafka_value :: "vars \<Rightarrow> go_err + (val + string)" where
  "kafka_value vs = (case str_prop vs ''kafkaValue'' of
       Some (c # r) \<Rightarrow> Inr (Inr (c # r))
     | _ \<Rightarrow> (case map_of vs ''payload'' of
         Some p \<Rightarrow> if encoded p = None then Inl unencodable else Inr (Inl p)
       | None \<Rightarrow> Inr (Inr ''{}'')))"

definition publishKafka :: "'s web \<Rightarrow> string list \<Rightarrow> vars \<Rightarrow> ('s, vars) go" where
  "publishKafka w brokers vs = (let topic = first_var vs ''kafkaTopic'' ''topic''; key = StringVar vs ''kafkaKey'' in
     if topic = [] then throw (Msg ''kafkaTopic is required'')
     else bindE (liftR (kafka_value vs)) (\<lambda>v s. case wb_publish w (trimBrokers brokers) topic (if key = [] then None else Some key) v s of
         (Inl e, t) \<Rightarrow> (Error e, t)
       | (Inr n, t) \<Rightarrow> (Ok [(''kafkaTopic'', VStr topic), (''kafkaBytes'', VInt n), (''kafkaPublished'', VBool True)], t)))"

section \<open>Object store\<close>

definition amz_day :: "int \<Rightarrow> string" where
  "amz_day t = (case civil_date (t div 1000000000 div 86400) of (y, m, d) \<Rightarrow> pad4 (nat y) @ pad2 m @ pad2 d)"

definition amz_time :: "int \<Rightarrow> string" where
  "amz_time t = (let sod = nat (t div 1000000000 mod 86400) in
     amz_day t @ ''T'' @ pad2 (sod div 3600) @ pad2 (sod mod 3600 div 60) @ pad2 (sod mod 60) @ ''Z'')"

definition newline :: string where "newline = [CHR 0x0A]"

definition awsSignKey :: "web_codecs \<Rightarrow> string \<Rightarrow> string \<Rightarrow> string \<Rightarrow> string \<Rightarrow> string" where
  "awsSignKey cx secret day region service = cx_hmac cx (cx_hmac cx (cx_hmac cx (cx_hmac cx (''AWS4'' @ secret) day) region) service) ''aws4_request''"

text \<open>The value of \<open>Authorization\<close> for a body with hash \<open>h\<close> at time \<open>t\<close>.\<close>

definition s3_signature :: "web_codecs \<Rightarrow> string \<Rightarrow> string \<Rightarrow> string \<Rightarrow> web_url \<Rightarrow> string \<Rightarrow> int \<Rightarrow> string" where
  "s3_signature cx accessKey secretKey region u h t = (let day = amz_day t; stamp = amz_time t;
       names = ''host;x-amz-content-sha256;x-amz-date'';
       hdrs = ''host:'' @ wu_host u @ newline @ ''x-amz-content-sha256:'' @ h @ newline @ ''x-amz-date:'' @ stamp @ newline;
       canonical = join_with newline [''PUT'', wu_path u, [], hdrs, names, h];
       scope = day @ ''/'' @ region @ ''/s3/aws4_request'';
       toSign = join_with newline [''AWS4-HMAC-SHA256'', stamp, scope, cx_sha256_hex cx canonical] in
     ''AWS4-HMAC-SHA256 Credential='' @ accessKey @ ''/'' @ scope @ '', SignedHeaders='' @ names @ '', Signature='' @
       cx_hex cx (cx_hmac cx (awsSignKey cx secretKey day region ''s3'') toSign))"

definition putObject :: "'s web \<Rightarrow> web_codecs \<Rightarrow> (string \<Rightarrow> string) \<Rightarrow> vars \<Rightarrow> ('s, vars) go" where
  "putObject w cx getenv vs = (let endpoint = EnvOr getenv ''S3_ENDPOINT'' []; region = EnvOr getenv ''S3_REGION'' ''us-east-1'';
       accessKey = getenv ''S3_ACCESS_KEY''; secretKey = getenv ''S3_SECRET_KEY'';
       b0 = StringVar vs ''s3Bucket''; bucket = (if b0 = [] then EnvOr getenv ''S3_BUCKET'' [] else b0);
       key = StringVar vs ''s3Key''; body = first_var vs ''s3Body'' ''body'';
       c0 = StringVar vs ''contentType''; contentType = (if c0 = [] then ''application/octet-stream'' else c0) in
     if endpoint = [] \<or> accessKey = [] \<or> secretKey = [] \<or> bucket = [] \<or> key = []
     then throw (Msg ''S3_ENDPOINT, S3_ACCESS_KEY, S3_SECRET_KEY, s3Bucket, and s3Key are required'')
     else bindE (liftR (cx_parse cx (rev (dropWhile (\<lambda>c. c = CHR ''/'') (rev endpoint)) @ ''/'' @ bucket @ ''/'' @
         (if has_prefix key ''/'' then drop 1 key else key)))) (\<lambda>u.
       bindE (\<lambda>s. case wb_now w s of (t, s') \<Rightarrow> (Ok t, s')) (\<lambda>t. let h = cx_sha256_hex cx body in
       bindE (client_Do w cx defaultCheckRedirect \<lparr>wr_method = ''PUT'', wr_url = u,
           wr_headers = [(''Content-Type'', contentType), (''Host'', wu_host u), (''X-Amz-Content-Sha256'', h), (''X-Amz-Date'', amz_time t),
             (''Authorization'', s3_signature cx accessKey secretKey region u h t)],
           wr_body = Some (VStr body), wr_timeout = 30000000000\<rparr>) (\<lambda>(status, raw).
         if status \<ge> 300 then throw (Msg (''s3 put failed: '' @ show_int status @ '' '' @ trim_space (read_limited raw)))
         else ret [(''s3Bucket'', VStr bucket), (''s3Key'', VStr key), (''s3Status'', VInt status), (''s3Uploaded'', VBool True)]))))"

section \<open>The workers\<close>

text \<open>What a connector starts with: where the service is, its token, and its worker.\<close>

definition base_url :: "(string \<Rightarrow> string) \<Rightarrow> string" where
  "base_url getenv = EnvOr getenv ''ARTIFICIALFLOW_BASE_URL'' ''http://localhost:9100/api''"

definition start_worker :: "(string \<Rightarrow> string) \<Rightarrow> string \<Rightarrow> string \<Rightarrow> int \<Rightarrow> int \<Rightarrow> go_err + worker" where
  "start_worker getenv job_type name jobs lock = (case NewClient (base_url getenv) (getenv ''ARTIFICIALFLOW_TOKEN'') of
       Inl e \<Rightarrow> Inl e
     | Inr c \<Rightarrow> NewWorker (Some c) \<lparr>kc_type = job_type, kc_name = EnvOr getenv ''WORKER_NAME'' name, kc_max = jobs,
         kc_timeout = 5000000000, kc_lock = lock, kc_renew = 0, kc_backoff = 0, kc_handled = True\<rparr>)"

definition start_http :: "(string \<Rightarrow> string) \<Rightarrow> go_err + worker \<times> string list" where
  "start_http getenv = (let allowed = ParseAllowlist (getenv ''HTTP_CONNECTOR_ALLOWED_HOSTS'') in
     case ValidateAllowlistRequired getenv allowed ''HTTP_CONNECTOR_ALLOW_ANY_HOST'' ''HTTP_CONNECTOR_ALLOWED_HOSTS'' of
       Some e \<Rightarrow> Inl e
     | None \<Rightarrow> map_sum id (\<lambda>k. (k, allowed)) (start_worker getenv ''io.artificialflow.connector.http'' ''http-connector'' 5 60000000000))"

definition start_webhook :: "(string \<Rightarrow> string) \<Rightarrow> go_err + worker \<times> string list" where
  "start_webhook getenv = (let allowed = ParseAllowlist (getenv ''WEBHOOK_CONNECTOR_ALLOWED_HOSTS'') in
     case ValidateAllowlistRequired getenv allowed ''WEBHOOK_CONNECTOR_ALLOW_ANY_HOST'' ''WEBHOOK_CONNECTOR_ALLOWED_HOSTS'' of
       Some e \<Rightarrow> Inl e
     | None \<Rightarrow> map_sum id (\<lambda>k. (k, allowed)) (start_worker getenv ''io.artificialflow.connector.webhook'' ''webhook-connector'' 5 60000000000))"

definition start_email :: "(string \<Rightarrow> string) \<Rightarrow> go_err + worker" where
  "start_email getenv = start_worker getenv ''io.artificialflow.connector.email'' ''email-connector'' 3 60000000000"

definition start_kafka :: "(string \<Rightarrow> string) \<Rightarrow> go_err + worker" where
  "start_kafka getenv = start_worker getenv ''io.artificialflow.connector.kafka'' ''kafka-connector'' 5 60000000000"

definition start_s3 :: "(string \<Rightarrow> string) \<Rightarrow> go_err + worker" where
  "start_s3 getenv = start_worker getenv ''io.artificialflow.connector.s3'' ''s3-connector'' 3 120000000000"

text \<open>The handlers: the variables of the instance, then the work.\<close>

definition with_vars :: "'s web \<Rightarrow> web_codecs \<Rightarrow> (string \<Rightarrow> string) \<Rightarrow> job \<Rightarrow> (vars \<Rightarrow> ('s, vars) go) \<Rightarrow> ('s, vars) go" where
  "with_vars w cx getenv j work = bindE (LoadInstanceVars w cx (base_url getenv) (getenv ''ARTIFICIALFLOW_TOKEN'') (jb_instance_key j)) work"

definition handle_http :: "'s web \<Rightarrow> web_codecs \<Rightarrow> (string \<Rightarrow> string) \<Rightarrow> string list \<Rightarrow> job \<Rightarrow> ('s, vars) go" where
  "handle_http w cx getenv allowed j = with_vars w cx getenv j (\<lambda>vs. executeHTTP w cx getenv vs allowed)"

definition handle_webhook :: "'s web \<Rightarrow> web_codecs \<Rightarrow> (string \<Rightarrow> string) \<Rightarrow> string list \<Rightarrow> job \<Rightarrow> ('s, vars) go" where
  "handle_webhook w cx getenv allowed j = with_vars w cx getenv j (\<lambda>vs. executeWebhook w cx getenv vs allowed)"

definition handle_email :: "'s web \<Rightarrow> web_codecs \<Rightarrow> (string \<Rightarrow> string) \<Rightarrow> job \<Rightarrow> ('s, vars) go" where
  "handle_email w cx getenv j = with_vars w cx getenv j (sendEmail w getenv)"

definition handle_kafka :: "'s web \<Rightarrow> web_codecs \<Rightarrow> (string \<Rightarrow> string) \<Rightarrow> job \<Rightarrow> ('s, vars) go" where
  "handle_kafka w cx getenv j = with_vars w cx getenv j
     (publishKafka w (split_at_char CHR '','' (EnvOr getenv ''KAFKA_BROKERS'' ''localhost:9092'')))"

definition handle_s3 :: "'s web \<Rightarrow> web_codecs \<Rightarrow> (string \<Rightarrow> string) \<Rightarrow> job \<Rightarrow> ('s, vars) go" where
  "handle_s3 w cx getenv j = with_vars w cx getenv j (putObject w cx getenv)"

section \<open>Descriptors\<close>

record connector_field =
  cf_key :: string
  cf_label :: string
  cf_required :: bool
  cf_kind :: string
  cf_default :: string
  cf_description :: string

record connector_descriptor =
  ds_job_type :: string
  ds_name :: string
  ds_description :: string
  ds_fields :: "connector_field list"

definition field_of :: "string \<Rightarrow> string \<Rightarrow> bool \<Rightarrow> string \<Rightarrow> string \<Rightarrow> string \<Rightarrow> connector_field" where
  "field_of k l r kd d ds = \<lparr>cf_key = k, cf_label = l, cf_required = r, cf_kind = kd, cf_default = d, cf_description = ds\<rparr>"

definition Descriptors :: "connector_descriptor list" where
  "Descriptors = [
     \<lparr>ds_job_type = ''io.artificialflow.connector.http'', ds_name = ''HTTP'', ds_description = ''Outbound HTTP request'', ds_fields = [
       field_of ''url'' ''URL'' True ''string'' [] ''Absolute HTTPS/HTTP URL'',
       field_of ''method'' ''Method'' False ''string'' ''POST'' ''HTTP method'',
       field_of ''headers'' ''Headers'' False ''json'' [] ''JSON object of headers'',
       field_of ''body'' ''Body'' False ''json'' [] ''JSON-serializable request body'',
       field_of ''timeoutMs'' ''Timeout (ms)'' False ''number'' ''10000'' ''Request timeout in milliseconds'',
       field_of ''failOnNon2xx'' ''Fail on non-2xx'' False ''boolean'' ''true'' ''Fail the job when the response status is not 2xx'']\<rparr>,
     \<lparr>ds_job_type = ''io.artificialflow.connector.webhook'', ds_name = ''Webhook'', ds_description = ''POST to a webhook URL (e.g. Slack)'', ds_fields = [
       field_of ''webhookUrl'' ''Webhook URL'' True ''string'' [] ''Absolute webhook URL'',
       field_of ''payload'' ''Payload'' False ''json'' [] ''JSON payload body'',
       field_of ''webhookToken'' ''Webhook Token'' False ''string'' [] ''Optional Bearer token'']\<rparr>,
     \<lparr>ds_job_type = ''io.artificialflow.connector.kafka'', ds_name = ''Kafka'', ds_description = ''Publish a Kafka message'', ds_fields = [
       field_of ''kafkaTopic'' ''Topic'' True ''string'' [] ''Kafka topic'',
       field_of ''kafkaKey'' ''Key'' False ''string'' [] ''Optional message key'',
       field_of ''kafkaValue'' ''Value'' False ''json'' [] ''Message value (JSON or string)'']\<rparr>,
     \<lparr>ds_job_type = ''io.artificialflow.connector.email'', ds_name = ''Email'', ds_description = ''Send email via SMTP'', ds_fields = [
       field_of ''emailTo'' ''To'' True ''string'' [] ''Recipient address'',
       field_of ''emailSubject'' ''Subject'' True ''string'' [] ''Email subject'',
       field_of ''emailBody'' ''Body'' False ''string'' [] ''Email body'']\<rparr>,
     \<lparr>ds_job_type = ''io.artificialflow.connector.s3'', ds_name = ''S3'', ds_description = ''Put object to S3-compatible storage'', ds_fields = [
       field_of ''s3Bucket'' ''Bucket'' True ''string'' [] ''S3 bucket name'',
       field_of ''s3Key'' ''Key'' True ''string'' [] ''Object key'',
       field_of ''s3Body'' ''Body'' False ''string'' [] ''Object body'',
       field_of ''contentType'' ''Content-Type'' False ''string'' [] ''MIME type'']\<rparr>]"

definition DescriptorByJobType :: "string \<Rightarrow> connector_descriptor option" where
  "DescriptorByJobType job_type = List.find (\<lambda>d. ds_job_type d = job_type) Descriptors"

fun keys_once :: "string list \<Rightarrow> string list \<Rightarrow> string list" where
  "keys_once seen [] = []"
| "keys_once seen (k # ks) = (if k \<in> set seen then keys_once seen ks else k # keys_once (k # seen) ks)"

definition AllConnectorInputKeys :: "string list" where
  "AllConnectorInputKeys = keys_once [] (concat (map (\<lambda>d. map cf_key (ds_fields d)) Descriptors))"

definition IsConnectorInputKey :: "string \<Rightarrow> bool" where
  "IsConnectorInputKey key \<longleftrightarrow> list_ex (\<lambda>k. k = key) AllConnectorInputKeys"

definition ConnectorInputsFromProperties :: "vars \<Rightarrow> vars" where
  "ConnectorInputsFromProperties props = fold (\<lambda>key out. case map_of props key of
       None \<Rightarrow> out
     | Some VNil \<Rightarrow> out
     | Some (VStr s) \<Rightarrow> if trim_space s = [] then out else put key (VStr s) out
     | Some v \<Rightarrow> put key v out) AllConnectorInputKeys []"

end
