(* ===== verification/Journal.thy ===== *)
theory Journal
  imports GoPrelude
begin

text \<open>
  Calls that leave a log. A function of the state reads the events so far; \<open>emits\<close> says which events a call appends, given
  its outcome, with a rule for every operation of the monad.
\<close>

named_theorems emits_intros \<open>structural rules: which events a call appends\<close>

definition emits :: "('s \<Rightarrow> 'e list) \<Rightarrow> ('s, 'a) go \<Rightarrow> ('a outcome \<Rightarrow> 'e list \<Rightarrow> bool) \<Rightarrow> bool" where
  "emits trace m Q \<longleftrightarrow> (\<forall>s r t. m s = (r, t) \<longrightarrow> (\<exists>new. trace t = trace s @ new \<and> Q r new))"

lemma emitsI:
  assumes "\<And>s. \<exists>new. trace (snd (m s)) = trace s @ new \<and> Q (fst (m s)) new"
  shows "emits trace m Q"
  unfolding emits_def using assms by (metis fst_conv snd_conv)

lemma emitsE:
  assumes "emits trace m Q" and "m s = (r, t)"
  obtains new where "trace t = trace s @ new" and "Q r new"
  using assms unfolding emits_def by blast

lemma emits_weaken:
  assumes "emits trace m Q" and "\<And>r new. Q r new \<Longrightarrow> Q' r new"
  shows "emits trace m Q'"
  using assms unfolding emits_def by blast

text \<open>A call that appends nothing.\<close>

lemma emits_quiet [emits_intros]:
  "(\<And>x. Q (Ok x) []) \<Longrightarrow> emits trace (gets f) Q"
  "Q (Ok y) [] \<Longrightarrow> emits trace (ret y) Q"
  "Q (Error e) [] \<Longrightarrow> emits trace (throw e) Q"
  "Q Diverged [] \<Longrightarrow> emits trace diverge Q"
  by (simp_all add: emits_def gets_apply ret_apply throw_apply diverge_apply)

lemma emits_bindE [emits_intros]:
  assumes "emits trace m P"
    and "\<And>x l. P (Ok x) l \<Longrightarrow> emits trace (k x) (\<lambda>r l'. Q r (l @ l'))"
    and "\<And>e l. P (Error e) l \<Longrightarrow> Q (Error e) l"
    and "\<And>p l. P (Panic p) l \<Longrightarrow> Q (Panic p) l" and "\<And>l. P Diverged l \<Longrightarrow> Q Diverged l"
  shows "emits trace (bindE m k) Q"
proof (rule emitsI)
  fix s
  obtain r t where m: "m s = (r, t)" by fastforce
  from assms(1) m obtain l where l: "trace t = trace s @ l" "P r l" by (rule emitsE)
  show "\<exists>new. trace (snd (bindE m k s)) = trace s @ new \<and> Q (fst (bindE m k s)) new"
  proof (cases r)
    case (Ok x)
    obtain r' t' where k: "k x t = (r', t')" by fastforce
    from assms(2) [OF l(2) [unfolded Ok]] k obtain l' where "trace t' = trace t @ l'" "Q r' (l @ l')" by (rule emitsE)
    with m k Ok l(1) show ?thesis by (simp add: bindE_apply)
  qed (use m l assms(3-5) in \<open>auto simp: bindE_apply\<close>)
qed

lemma emits_thenE [emits_intros]:
  assumes "emits trace m P" and "\<And>x l. P (Ok x) l \<Longrightarrow> emits trace k (\<lambda>r l'. Q r (l @ l'))"
    and "\<And>e l. P (Error e) l \<Longrightarrow> Q (Error e) l"
    and "\<And>p l. P (Panic p) l \<Longrightarrow> Q (Panic p) l" and "\<And>l. P Diverged l \<Longrightarrow> Q Diverged l"
  shows "emits trace (thenE m k) Q"
  unfolding thenE_def using assms by (rule emits_bindE)

lemma emits_tryE [emits_intros]:
  assumes "emits trace m (\<lambda>r l. case r of Ok x \<Rightarrow> Q (Ok (Inr x)) l | Error e \<Rightarrow> Q (Ok (Inl e)) l
     | Panic p \<Rightarrow> Q (Panic p) l | Diverged \<Rightarrow> Q Diverged l)"
  shows "emits trace (tryE m) Q"
proof (rule emitsI)
  fix s
  obtain r t where m: "m s = (r, t)" by fastforce
  from assms m obtain l where "trace t = trace s @ l"
    "case r of Ok x \<Rightarrow> Q (Ok (Inr x)) l | Error e \<Rightarrow> Q (Ok (Inl e)) l | Panic p \<Rightarrow> Q (Panic p) l | Diverged \<Rightarrow> Q Diverged l"
    by (rule emitsE)
  with m show "\<exists>new. trace (snd (tryE m s)) = trace s @ new \<and> Q (fst (tryE m s)) new"
    by (cases r) (auto simp: tryE_apply)
qed

lemma emits_mapErr [emits_intros]:
  assumes "emits trace m (\<lambda>r l. case r of Ok x \<Rightarrow> Q (Ok x) l | Error e \<Rightarrow> Q (Error (h e)) l
     | Panic p \<Rightarrow> Q (Panic p) l | Diverged \<Rightarrow> Q Diverged l)"
  shows "emits trace (mapErr h m) Q"
proof (rule emitsI)
  fix s
  obtain r t where m: "m s = (r, t)" by fastforce
  from assms m obtain l where "trace t = trace s @ l"
    "case r of Ok x \<Rightarrow> Q (Ok x) l | Error e \<Rightarrow> Q (Error (h e)) l | Panic p \<Rightarrow> Q (Panic p) l | Diverged \<Rightarrow> Q Diverged l"
    by (rule emitsE)
  with m show "\<exists>new. trace (snd (mapErr h m s)) = trace s @ new \<and> Q (fst (mapErr h m s)) new"
    by (cases r) (auto simp: mapErr_apply)
qed

text \<open>Two parts of such a statement: \<open>P\<close> of the events whatever the outcome, and \<open>Q\<close> of value and events when it returns.\<close>

definition gives :: "('s \<Rightarrow> 'e list) \<Rightarrow> ('s, 'a) go \<Rightarrow> ('e list \<Rightarrow> bool) \<Rightarrow> ('a \<Rightarrow> 'e list \<Rightarrow> bool) \<Rightarrow> bool" where
  "gives trace m P Q \<longleftrightarrow> emits trace m (\<lambda>r l. P l \<and> (\<forall>x. r = Ok x \<longrightarrow> Q x l))"

lemma givesE:
  assumes "gives trace m P Q" and "m s = (r, t)"
  obtains new where "trace t = trace s @ new" and "P new" and "\<And>x. r = Ok x \<Longrightarrow> Q x new"
proof -
  from emitsE [OF assms(1) [unfolded gives_def] assms(2)] obtain new
    where "trace t = trace s @ new" "P new \<and> (\<forall>x. r = Ok x \<longrightarrow> Q x new)" .
  then show thesis by (intro that) auto
qed

lemma gives_weaken:
  assumes "gives trace m P Q" and "\<And>l. P l \<Longrightarrow> P' l" and "\<And>x l. P l \<Longrightarrow> Q x l \<Longrightarrow> Q' x l"
  shows "gives trace m P' Q'"
  using assms(1) unfolding gives_def by (rule emits_weaken) (use assms(2,3) in blast)

lemma gives_quiet:
  "P [] \<Longrightarrow> (\<And>x. Q x []) \<Longrightarrow> gives trace (gets f) P Q"
  "P [] \<Longrightarrow> Q y [] \<Longrightarrow> gives trace (ret y) P Q"
  "P [] \<Longrightarrow> gives trace (throw e) P Q"
  "P [] \<Longrightarrow> gives trace diverge P Q"
  "P [] \<Longrightarrow> (\<And>x. v = Inr x \<Longrightarrow> Q x []) \<Longrightarrow> gives trace (liftR v) P Q"
  by (cases v; simp add: gives_def emits_quiet liftR_def)+

lemma gives_bindE:
  assumes "gives trace m P1 Q1" and "\<And>l. P1 l \<Longrightarrow> P l"
    and "\<And>x l. P1 l \<Longrightarrow> Q1 x l \<Longrightarrow> gives trace (k x) (\<lambda>l'. P (l @ l')) (\<lambda>y l'. Q y (l @ l'))"
  shows "gives trace (bindE m k) P Q"
  unfolding gives_def
  by (rule emits_bindE [OF assms(1) [unfolded gives_def]])
    (use assms(2) in \<open>auto intro: assms(3) [unfolded gives_def]\<close>)

lemmas gives_thenE = gives_bindE [where k = "\<lambda>_. k" for k, folded thenE_def]

lemma gives_mapErr: "gives trace m P Q \<Longrightarrow> gives trace (mapErr h m) P Q"
  unfolding gives_def by (rule emits_mapErr) (erule emits_weaken, auto split: outcome.split)

lemma gives_tryE:
  assumes "gives trace m P Q"
  shows "gives trace (tryE m) P (\<lambda>r l. \<forall>x. r = Inr x \<longrightarrow> Q x l)"
  using assms unfolding gives_def by (intro emits_tryE) (erule emits_weaken, auto split: outcome.split)

end
