(* ===== verification/Bootstrap.thy ===== *)
theory Bootstrap
  imports Auth
begin

text \<open>
  The start of the sync worker that creates its change-data connector (\<open>cmd/connector_bootstrap.go\<close>): it waits for Kafka
  Connect, refuses while a blocked connector may be active, creates the connector unless it exists, and waits until it runs.

  What is outside has a state \<open>'s\<close> and is the record \<open>kafka_connect\<close>: GET and POST, which are answered with status and body or an
  error, the clock, waiting, whether the context is done, and the file of the connector. The decoders are \<open>connect_codecs\<close>;
  the default connector is the file \<open>connector-register.default.json\<close> beside the source.
\<close>

section \<open>Data\<close>

record bootstrap_options =
  bo_enabled :: bool
  bo_url :: string
  bo_name :: string
  bo_file :: string
  bo_json :: string
  bo_prefix :: string
  bo_slot :: string
  bo_user :: string
  bo_timeout :: int
  bo_poll :: int
  bo_blocked :: "string list"
  bo_parallel :: bool

text \<open>The state of a connector and of its tasks.\<close>

record connector_status =
  ks_connector :: string
  ks_tasks :: "string list"

record 's kafka_connect =
  kw_get :: "string \<Rightarrow> 's \<Rightarrow> (go_err + int \<times> string) \<times> 's"
  kw_post :: "string \<Rightarrow> string \<times> vars \<Rightarrow> 's \<Rightarrow> (go_err + int \<times> string) \<times> 's"
  kw_now :: "'s \<Rightarrow> int \<times> 's"
  kw_wait :: "int \<Rightarrow> 's \<Rightarrow> 's"
  kw_done :: "'s \<Rightarrow> go_err option"
  kw_file :: "string \<Rightarrow> 's \<Rightarrow> (go_err + string) \<times> 's"

record connect_codecs =
  kd_request :: "string \<Rightarrow> go_err + vars"  \<comment> \<open>the configuration of a request\<close>
  kd_config :: "string \<Rightarrow> go_err + vars"
  kd_status :: "string \<Rightarrow> go_err + connector_status"
  kd_default :: string

section \<open>Requests\<close>

text \<open>\<open>url.PathEscape\<close>\<close>

definition hex_char :: "nat \<Rightarrow> char" where
  "hex_char n = (if n < 10 then digit_char n else char_of (n + 55))"

definition path_char :: "char \<Rightarrow> bool" where
  "path_char c \<longleftrightarrow> (let n = (of_char c :: nat) in is_digit c \<or> 65 \<le> n \<and> n \<le> 90 \<or> 97 \<le> n \<and> n \<le> 122) \<or> c \<in> set ''-_.~$&+=:@''"

definition PathEscape :: "string \<Rightarrow> string" where
  "PathEscape s = concat (map (\<lambda>c. if path_char c then [c]
     else let n = of_char c in [CHR ''%'', hex_char (n div 16), hex_char (n mod 16)]) s)"

definition connectorByNameURL :: "string \<Rightarrow> string \<Rightarrow> string" where
  "connectorByNameURL base name = base @ ''/connectors/'' @ PathEscape (trim_space name)"

definition connectorStatusURL :: "string \<Rightarrow> string \<Rightarrow> string" where
  "connectorStatusURL base name = base @ ''/connectors/'' @ PathEscape (trim_space name) @ ''/status''"

definition httpGet :: "'s kafka_connect \<Rightarrow> string \<Rightarrow> ('s, int \<times> string) go" where
  "httpGet w url = (\<lambda>s. case kw_get w url s of (Inl e, t) \<Rightarrow> (Error e, t) | (Inr (status, b), t) \<Rightarrow> (Ok (status, trim_space b), t))"

definition createConnector :: "'s kafka_connect \<Rightarrow> string \<Rightarrow> string \<times> vars \<Rightarrow> ('s, int \<times> string) go" where
  "createConnector w base payload = (\<lambda>s. case kw_post w (base @ ''/connectors'') payload s of
       (Inl e, t) \<Rightarrow> (Error e, t) | (Inr (status, b), t) \<Rightarrow> (Ok (status, trim_space b), t))"

definition isConnectReady :: "'s kafka_connect \<Rightarrow> string \<Rightarrow> ('s, bool) go" where
  "isConnectReady w base = bindE (httpGet w (base @ ''/connectors'')) (\<lambda>(status, b).
     if status = 200 then ret True else throw (Msg (''connectors endpoint returned status='' @ show_int status)))"

definition unexpected :: "int \<Rightarrow> string \<Rightarrow> go_err" where
  "unexpected status b = Msg (''unexpected status='' @ show_int status @ '' body='' @ b)"

definition connectorExists :: "'s kafka_connect \<Rightarrow> string \<Rightarrow> string \<Rightarrow> ('s, bool) go" where
  "connectorExists w base name = bindE (httpGet w (connectorByNameURL base name)) (\<lambda>(status, b).
     if status = 200 then ret True else if status = 404 then ret False else throw (unexpected status b))"

definition getConnectorStatus :: "'s kafka_connect \<Rightarrow> connect_codecs \<Rightarrow> string \<Rightarrow> string \<Rightarrow> ('s, connector_status option) go" where
  "getConnectorStatus w cd base name = bindE (httpGet w (connectorStatusURL base name)) (\<lambda>(status, b).
     if status = 404 then ret None
     else if status \<noteq> 200 then throw (unexpected status b)
     else (case kd_status cd b of Inl e \<Rightarrow> throw (Wrapf ''decode connector status'' e) | Inr st \<Rightarrow> ret (Some st)))"

definition connectorStateMayBeActive :: "string \<Rightarrow> bool" where
  "connectorStateMayBeActive state \<longleftrightarrow> to_upper (trim_space state) \<notin> {''FAILED'', ''PAUSED'', ''STOPPED''}"

definition may_be_active :: "connector_status \<Rightarrow> bool" where
  "may_be_active st \<longleftrightarrow> connectorStateMayBeActive (ks_connector st) \<or> list_ex connectorStateMayBeActive (ks_tasks st)"

definition is_running :: "connector_status \<Rightarrow> bool" where
  "is_running st \<longleftrightarrow> ks_tasks st \<noteq> [] \<and> list_all (\<lambda>t. equal_fold (trim_space t) ''RUNNING'') (ks_tasks st) \<and>
     to_upper (trim_space (ks_connector st)) \<in> {''RUNNING'', ''UNASSIGNED''}"

definition isConnectorRunning :: "'s kafka_connect \<Rightarrow> connect_codecs \<Rightarrow> string \<Rightarrow> string \<Rightarrow> ('s, bool) go" where
  "isConnectorRunning w cd base name = bindE (getConnectorStatus w cd base name) (\<lambda>r. case r of
       None \<Rightarrow> ret False | Some st \<Rightarrow> ret (is_running st))"

definition hasConnectorConflict :: "'s kafka_connect \<Rightarrow> connect_codecs \<Rightarrow> string \<Rightarrow> string \<Rightarrow> ('s, bool) go" where
  "hasConnectorConflict w cd base name = bindE (getConnectorStatus w cd base name) (\<lambda>r. case r of
       None \<Rightarrow> ret False | Some st \<Rightarrow> ret (may_be_active st))"

section \<open>The request to create it\<close>

definition applyConnectorConfigOverrides :: "vars \<Rightarrow> bootstrap_options \<Rightarrow> vars" where
  "applyConnectorConfigOverrides config opts = fold (\<lambda>(k, v) c. if trim_space v = [] then c else put k (VStr (trim_space v)) c)
     [(''topic.prefix'', bo_prefix opts), (''slot.name'', bo_slot opts), (''database.user'', bo_user opts)] config"

definition connector_source :: "'s kafka_connect \<Rightarrow> connect_codecs \<Rightarrow> bootstrap_options \<Rightarrow> ('s, string) go" where
  "connector_source w cd opts = (if trim_space (bo_json opts) \<noteq> [] then ret (trim_space (bo_json opts))
     else if trim_space (bo_file opts) \<noteq> [] then (\<lambda>s. case kw_file w (trim_space (bo_file opts)) s of
         (Inl e, t) \<Rightarrow> (Error (Wrapf ''read CONNECTOR_FILE'' e), t) | (Inr b, t) \<Rightarrow> (Ok b, t))
     else ret (kd_default cd))"

definition connector_config :: "connect_codecs \<Rightarrow> string \<Rightarrow> go_err + vars" where
  "connector_config cd raw = (case kd_request cd raw of
       Inr (kv # c) \<Rightarrow> Inr (kv # c)
     | _ \<Rightarrow> (case kd_config cd raw of
         Inl e \<Rightarrow> Inl (Wrapf ''invalid connector JSON payload'' e)
       | Inr c \<Rightarrow> if c = [] then Inl (Msg ''connector config payload is empty'') else Inr c))"

definition buildConnectorCreateRequest :: "'s kafka_connect \<Rightarrow> connect_codecs \<Rightarrow> bootstrap_options \<Rightarrow> ('s, string \<times> vars) go" where
  "buildConnectorCreateRequest w cd opts = bindE (connector_source w cd opts) (\<lambda>raw.
     bindE (liftR (connector_config cd raw)) (\<lambda>c.
       if trim_space (bo_name opts) = [] then throw (Msg ''connector name cannot be empty'')
       else ret (trim_space (bo_name opts), applyConnectorConfigOverrides c opts)))"

section \<open>The start\<close>

definition check_done :: "'s kafka_connect \<Rightarrow> ('s, unit) go" where
  "check_done w = bindE (gets (kw_done w)) (\<lambda>d. case d of Some e \<Rightarrow> throw e | None \<Rightarrow> ret ())"

definition read_now :: "'s kafka_connect \<Rightarrow> ('s, int) go" where
  "read_now w = (\<lambda>s. case kw_now w s of (t, s') \<Rightarrow> (Ok t, s'))"

definition timed_out :: "go_err option \<Rightarrow> go_err" where
  "timed_out lastErr = (case lastErr of Some e \<Rightarrow> e | None \<Rightarrow> Msg ''timeout exceeded'')"

text \<open>The first argument bounds the turns of the loop.\<close>

primrec waitUntil :: "nat \<Rightarrow> 's kafka_connect \<Rightarrow> int \<Rightarrow> int \<Rightarrow> ('s, bool) go \<Rightarrow> go_err option \<Rightarrow> ('s, unit) go" where
  "waitUntil 0 w deadline poll check lastErr = diverge"
| "waitUntil (Suc n) w deadline poll check lastErr = thenE (check_done w) (bindE (tryE check) (\<lambda>r.
     if r = Inr True then ret ()
     else let lastErr' = (case r of Inl e \<Rightarrow> Some e | Inr _ \<Rightarrow> lastErr) in
       bindE (read_now w) (\<lambda>now.
         if now > deadline then throw (timed_out lastErr')
         else thenE (modifyS (kw_wait w poll)) (waitUntil n w deadline poll check lastErr'))))"

text \<open>The check of the connectors that must not run beside this one.\<close>

definition refuse_conflict :: "'s kafka_connect \<Rightarrow> connect_codecs \<Rightarrow> string \<Rightarrow> string \<Rightarrow> string \<Rightarrow> ('s, unit) go" where
  "refuse_conflict w cd base name b0 = (let b = trim_space b0 in
     if b = [] \<or> b = name then ret ()
     else bindE (mapErr (Wrapf (''failed to verify conflicting connector \"'' @ b @ ''\"'')) (hasConnectorConflict w cd base b)) (\<lambda>conflicts.
       if conflicts then throw (Msg (''refusing to start connector \"'' @ name @ ''\" while conflicting connector \"'' @ b @
         ''\" or one of its tasks may be active''))
       else ret ()))"

definition create_if_absent :: "'s kafka_connect \<Rightarrow> string \<Rightarrow> string \<Rightarrow> string \<times> vars \<Rightarrow> ('s, unit) go" where
  "create_if_absent w base name payload =
     bindE (mapErr (Wrapf (''failed to check connector \"'' @ name @ ''\" existence'')) (connectorExists w base name)) (\<lambda>present.
       if present then ret ()
       else bindE (mapErr (Wrapf (''failed to create connector \"'' @ name @ ''\"'')) (createConnector w base payload)) (\<lambda>(status, b).
         if status \<in> {201, 200, 409} then ret ()
         else throw (Msg (''connector create failed for \"'' @ name @ ''\" with status='' @ show_int status @ '' body='' @ b))))"

definition without_slash :: "string \<Rightarrow> string" where
  "without_slash url = (if has_suffix url ''/'' then butlast url else url)"

definition with_defaults :: "bootstrap_options \<Rightarrow> bootstrap_options" where
  "with_defaults opts = opts\<lparr>bo_url := trim_space (bo_url opts), bo_name := trim_space (bo_name opts),
     bo_timeout := (if bo_timeout opts \<le> 0 then 180000000000 else bo_timeout opts),
     bo_poll := (if bo_poll opts \<le> 0 then 3000000000 else bo_poll opts)\<rparr>"

text \<open>Wait, refuse, create, wait.\<close>

definition bring_up :: "nat \<Rightarrow> 's kafka_connect \<Rightarrow> connect_codecs \<Rightarrow> bootstrap_options \<Rightarrow> string \<times> vars \<Rightarrow> int \<Rightarrow> ('s, unit) go" where
  "bring_up n w cd opts payload deadline = (let base = without_slash (bo_url opts); name = bo_name opts in
     thenE (mapErr (Wrapf ''timed out waiting for Kafka Connect readiness'') (waitUntil n w deadline (bo_poll opts) (isConnectReady w base) None))
     (thenE (if bo_parallel opts then ret () else forE (bo_blocked opts) (refuse_conflict w cd base name))
     (thenE (create_if_absent w base name payload)
       (mapErr (Wrapf (''connector \"'' @ name @ ''\" did not become RUNNING''))
         (waitUntil n w deadline (bo_poll opts) (isConnectorRunning w cd base name) None)))))"

definition ensureConnectorBootstrap :: "nat \<Rightarrow> 's kafka_connect \<Rightarrow> connect_codecs \<Rightarrow> bootstrap_options \<Rightarrow> ('s, unit) go" where
  "ensureConnectorBootstrap n w cd opts0 = (if \<not> bo_enabled opts0 then ret () else
     let opts = with_defaults opts0 in
     if bo_url opts = [] then throw (Msg ''CONNECT_URL is required when connector bootstrap is enabled'')
     else if bo_name opts = [] then throw (Msg ''CONNECTOR_NAME is required when connector bootstrap is enabled'')
     else bindE (mapErr (Wrapf ''failed to build connector request'') (buildConnectorCreateRequest w cd opts)) (\<lambda>payload.
       bindE (read_now w) (\<lambda>now. bring_up n w cd opts payload (now + bo_timeout opts))))"

definition conflictingConnectorNames :: "string \<Rightarrow> string list" where
  "conflictingConnectorNames name = []"

end
