(* ===== verification/BootstrapProps.thy ===== *)
theory BootstrapProps
  imports Bootstrap Journal Total
begin

text \<open>
  What the start of the connector promises: when it creates one, what it has seen before it calls itself done, and that it
  returns in time.
\<close>

section \<open>What is observed\<close>

datatype connect_event = Asked string "go_err + int \<times> string" | Posted string "string \<times> vars" "go_err + int \<times> string"

fun is_asked :: "connect_event \<Rightarrow> bool" where
  "is_asked (Asked _ _) = True"
| "is_asked (Posted _ _ _) = False"

definition connect_logged :: "'s kafka_connect \<Rightarrow> ('s \<Rightarrow> connect_event list) \<Rightarrow> bool" where
  "connect_logged w trace \<longleftrightarrow> (\<forall>u s. trace (snd (kw_get w u s)) = trace s @ [Asked u (fst (kw_get w u s))]) \<and>
     (\<forall>u p s. trace (snd (kw_post w u p s)) = trace s @ [Posted u p (fst (kw_post w u p s))]) \<and>
     (\<forall>s. trace (snd (kw_now w s)) = trace s) \<and> (\<forall>d s. trace (kw_wait w d s) = trace s) \<and>
     (\<forall>f s. trace (snd (kw_file w f s)) = trace s)"

text \<open>What an answer to a request for a status reports: nothing, no such connector, or its state.\<close>

definition reported :: "connect_codecs \<Rightarrow> go_err + int \<times> string \<Rightarrow> connector_status option option" where
  "reported cd a = (case a of Inl _ \<Rightarrow> None | Inr (status, b) \<Rightarrow> if status = 404 then Some None else if status \<noteq> 200 then None
     else (case kd_status cd (trim_space b) of Inl _ \<Rightarrow> None | Inr st \<Rightarrow> Some (Some st)))"

lemma reported_Inr: "reported cd (Inr (status, b)) = (if status = 404 then Some None else if status \<noteq> 200 then None
     else (case kd_status cd (trim_space b) of Inl _ \<Rightarrow> None | Inr st \<Rightarrow> Some (Some st)))"
  by (simp add: reported_def)

text \<open>A connector that does nothing: it and all its tasks are failed, paused or stopped. One that runs: it has tasks, they
  all run, and it runs itself or is about to be assigned to a worker.\<close>

definition stands_still :: "connector_status \<Rightarrow> bool" where
  "stands_still st \<longleftrightarrow> (\<forall>x \<in> insert (ks_connector st) (set (ks_tasks st)). to_upper (trim_space x) \<in> {''FAILED'', ''PAUSED'', ''STOPPED''})"

definition all_tasks_run :: "connector_status \<Rightarrow> bool" where
  "all_tasks_run st \<longleftrightarrow> ks_tasks st \<noteq> [] \<and> (\<forall>x \<in> set (ks_tasks st). to_lower (trim_space x) = ''running'') \<and>
     (to_upper (trim_space (ks_connector st)) = ''RUNNING'' \<or> to_upper (trim_space (ks_connector st)) = ''UNASSIGNED'')"

lemma still_inactive: "\<not> may_be_active st \<longleftrightarrow> stands_still st"
  by (auto simp: may_be_active_def stands_still_def connectorStateMayBeActive_def list_ex_iff)

lemma running_all: "is_running st \<longleftrightarrow> all_tasks_run st"
proof -
  have "to_lower ''RUNNING'' = ''running''" by code_simp
  then show ?thesis by (auto simp: is_running_def all_tasks_run_def equal_fold_def list_all_iff)
qed

text \<open>A connector was seen absent, or standing still.\<close>

definition cleared :: "connect_codecs \<Rightarrow> string \<Rightarrow> connect_event list \<Rightarrow> string \<Rightarrow> bool" where
  "cleared cd base l b \<longleftrightarrow> (\<exists>a x. Asked (connectorStatusURL base b) a \<in> set l \<and> reported cd a = Some x \<and> (\<forall>st. x = Some st \<longrightarrow> stands_still st))"

section \<open>The requests\<close>

lemma get_gives:
  assumes lg: "connect_logged w trace"
  shows "gives trace (httpGet w url) (list_all is_asked) (\<lambda>(status, b) l. \<exists>b0. l = [Asked url (Inr (status, b0))] \<and> b = trim_space b0)"
  unfolding gives_def
proof (rule emitsI)
  fix s
  obtain a t where a: "kw_get w url s = (a, t)" by fastforce
  with lg have "trace t = trace s @ [Asked url a]" unfolding connect_logged_def by (metis fst_conv snd_conv)
  with a show "\<exists>new. trace (snd (httpGet w url s)) = trace s @ new \<and> list_all is_asked new \<and>
      (\<forall>x. fst (httpGet w url s) = Ok x \<longrightarrow> (case x of (status, b) \<Rightarrow> \<lambda>l. \<exists>b0. l = [Asked url (Inr (status, b0))] \<and> b = trim_space b0) new)"
    by (cases a) (auto simp: httpGet_def)
qed

lemma post_gives:
  assumes lg: "connect_logged w trace"
  shows "gives trace (createConnector w base payload) (\<lambda>l. \<exists>a. l = [Posted (base @ ''/connectors'') payload a]) (\<lambda>_ _. True)"
  unfolding gives_def
proof (rule emitsI)
  fix s
  obtain a t where a: "kw_post w (base @ ''/connectors'') payload s = (a, t)" by fastforce
  with lg have "trace t = trace s @ [Posted (base @ ''/connectors'') payload a]" unfolding connect_logged_def by (metis fst_conv snd_conv)
  with a show "\<exists>new. trace (snd (createConnector w base payload s)) = trace s @ new \<and>
      (\<exists>a. new = [Posted (base @ ''/connectors'') payload a]) \<and> (\<forall>x. fst (createConnector w base payload s) = Ok x \<longrightarrow> True)"
    by (cases a) (auto simp: createConnector_def)
qed

lemma outside_gives:
  assumes lg: "connect_logged w trace"
  shows "gives trace (read_now w) (\<lambda>l. l = []) (\<lambda>_ l. l = [])"
    and "gives trace (modifyS (kw_wait w d)) (\<lambda>l. l = []) (\<lambda>_ l. l = [])"
    and "gives trace (check_done w) (\<lambda>l. l = []) (\<lambda>_ l. l = [])"
    and "gives trace (connector_source w cd opts) (\<lambda>l. l = []) (\<lambda>_ l. l = [])"
proof -
  have read: "trace t = trace s" if "kw_file w f s = (a, t)" for f s a t
    using lg that unfolding connect_logged_def by (metis snd_conv)
  have clock: "trace t = trace s" if "kw_now w s = (a, t)" for s a t
    using lg that unfolding connect_logged_def by (metis snd_conv)
  show "gives trace (read_now w) (\<lambda>l. l = []) (\<lambda>_ l. l = [])" "gives trace (modifyS (kw_wait w d)) (\<lambda>l. l = []) (\<lambda>_ l. l = [])"
    "gives trace (check_done w) (\<lambda>l. l = []) (\<lambda>_ l. l = [])" "gives trace (connector_source w cd opts) (\<lambda>l. l = []) (\<lambda>_ l. l = [])"
    using lg by (auto simp: gives_def emits_def connect_logged_def read_now_def modifyS_apply check_done_def bindE_apply gets_apply throw_apply ret_apply
        connector_source_def dest: read clock split: prod.splits option.splits if_splits sum.splits)
qed

text \<open>What a request for a status reports is what its answer reports.\<close>

lemma status_gives:
  assumes "connect_logged w trace"
  shows "gives trace (getConnectorStatus w cd base name) (list_all is_asked)
     (\<lambda>x l. \<exists>a. l = [Asked (connectorStatusURL base name) a] \<and> reported cd a = Some x)"
  unfolding getConnectorStatus_def
  by (rule gives_bindE [OF get_gives [OF assms]])
    (auto simp: reported_Inr intro!: gives_quiet split: sum.split)

lemma running_gives:
  assumes "connect_logged w trace"
  shows "gives trace (isConnectorRunning w cd base name) (list_all is_asked)
     (\<lambda>x l. x \<longrightarrow> (\<exists>a st. l = [Asked (connectorStatusURL base name) a] \<and> reported cd a = Some (Some st) \<and> all_tasks_run st))"
  unfolding isConnectorRunning_def running_all
  by (rule gives_bindE [OF status_gives [OF assms]])
    (auto intro!: gives_quiet split: option.split)

lemma conflict_gives:
  assumes "connect_logged w trace"
  shows "gives trace (hasConnectorConflict w cd base name) (list_all is_asked) (\<lambda>x l. \<not> x \<longrightarrow> cleared cd base l name)"
  unfolding hasConnectorConflict_def
  by (rule gives_bindE [OF status_gives [OF assms]])
    (auto simp: cleared_def still_inactive [symmetric] intro!: gives_quiet split: option.split)

lemma ready_gives:
  assumes "connect_logged w trace"
  shows "gives trace (isConnectReady w base) (list_all is_asked) (\<lambda>_ _. True)"
  unfolding isConnectReady_def
  by (rule gives_bindE [OF get_gives [OF assms]]) (auto intro!: gives_quiet)

section \<open>The phases\<close>

lemma wait_gives:
  assumes "connect_logged w trace" and "gives trace check (list_all is_asked) (\<lambda>x l. x \<longrightarrow> Q l)"
  shows "gives trace (waitUntil n w deadline poll check lastErr) (list_all is_asked) (\<lambda>_ l. \<exists>a b. l = a @ b \<and> Q b)"
proof (induction n arbitrary: lastErr)
  case 0
  show ?case by (simp add: gives_quiet)
next
  case (Suc n)
  note outs = outside_gives [OF assms(1)]
  have again: "gives trace (waitUntil n w deadline poll check e) (list_all is_asked) (\<lambda>_ l'. \<exists>a b. l @ l' = a @ b \<and> Q b)" for e l
    using Suc.IH by (rule gives_weaken) (auto, metis append_assoc)
  have turn: "gives trace (bindE (read_now w) (\<lambda>now. if now > deadline then throw (timed_out e)
         else thenE (modifyS (kw_wait w poll)) (waitUntil n w deadline poll check e)))
       (\<lambda>l'. list_all is_asked (l @ l')) (\<lambda>_ l'. \<exists>a b. l @ l' = a @ b \<and> Q b)"
    if "list_all is_asked l" for e l
  proof (rule gives_bindE [OF outs(1)])
    fix now and l1 :: "connect_event list"
    assume "l1 = []"
    with that show "gives trace (if now > deadline then throw (timed_out e) else thenE (modifyS (kw_wait w poll)) (waitUntil n w deadline poll check e))
        (\<lambda>l'. list_all is_asked (l @ l1 @ l')) (\<lambda>y l'. \<exists>a b. l @ l1 @ l' = a @ b \<and> Q b)"
      by (auto intro!: gives_quiet gives_thenE [OF outs(2)] again)
  qed (use that in simp)
  let ?body = "bindE (tryE check) (\<lambda>r. if r = Inr True then ret ()
     else let lastErr' = (case r of Inl e \<Rightarrow> Some e | Inr _ \<Rightarrow> lastErr) in bindE (read_now w) (\<lambda>now.
       if now > deadline then throw (timed_out lastErr')
       else thenE (modifyS (kw_wait w poll)) (waitUntil n w deadline poll check lastErr')))"
  have body: "gives trace ?body (list_all is_asked) (\<lambda>_ l. \<exists>a b. l = a @ b \<and> Q b)"
  proof (rule gives_bindE [OF gives_tryE [OF assms(2)]])
    fix r :: "go_err + bool" and l
    assume l: "list_all is_asked l" "\<forall>x. r = Inr x \<longrightarrow> x \<longrightarrow> Q l"
    show "gives trace (if r = Inr True then ret ()
       else let lastErr' = (case r of Inl e \<Rightarrow> Some e | Inr _ \<Rightarrow> lastErr) in bindE (read_now w) (\<lambda>now.
         if now > deadline then throw (timed_out lastErr')
         else thenE (modifyS (kw_wait w poll)) (waitUntil n w deadline poll check lastErr')))
       (\<lambda>l'. list_all is_asked (l @ l')) (\<lambda>_ l'. \<exists>a b. l @ l' = a @ b \<and> Q b)"
    proof (cases "r = Inr True")
      case True
      with l(2) [rule_format, of True] have "Q l" by simp
      then have "\<exists>a b. l = a @ b \<and> Q b" by (intro exI [of _ "[]"] exI [of _ l]) simp
      with True l(1) show ?thesis by (simp add: gives_quiet)
    qed (use turn [OF l(1)] in \<open>simp add: Let_def\<close>)
  qed simp
  show ?case
    unfolding waitUntil.simps
    by (rule gives_thenE [OF outs(3)]) (use body in simp_all)
qed

text \<open>A blocked connector does not stand in the way.\<close>

definition out_of_the_way :: "connect_codecs \<Rightarrow> string \<Rightarrow> string \<Rightarrow> connect_event list \<Rightarrow> string \<Rightarrow> bool" where
  "out_of_the_way cd base name l b \<longleftrightarrow> trim_space b = [] \<or> trim_space b = name \<or> cleared cd base l (trim_space b)"

lemma cleared_append: "cleared cd base l b \<Longrightarrow> cleared cd base (l @ l') b" "cleared cd base l' b \<Longrightarrow> cleared cd base (l @ l') b"
  by (auto simp: cleared_def)

lemma refuse_gives:
  assumes "connect_logged w trace"
  shows "gives trace (forE bs (refuse_conflict w cd base name)) (list_all is_asked) (\<lambda>_ l. list_all (out_of_the_way cd base name l) bs)"
proof (induction bs)
  case (Cons b bs)
  have one: "gives trace (refuse_conflict w cd base name b) (list_all is_asked) (\<lambda>_ l. out_of_the_way cd base name l b)"
    unfolding refuse_conflict_def Let_def
    by (auto simp: out_of_the_way_def intro!: gives_quiet gives_bindE [OF gives_mapErr [OF conflict_gives [OF assms]]])
  show ?case
    unfolding forE.simps
  proof (rule gives_thenE [OF one])
    fix x l
    assume "list_all is_asked l" and "out_of_the_way cd base name l b"
    with Cons.IH show "gives trace (forE bs (refuse_conflict w cd base name)) (\<lambda>l'. list_all is_asked (l @ l'))
        (\<lambda>_ l'. list_all (out_of_the_way cd base name (l @ l')) (b # bs))"
      by (elim gives_weaken) (auto simp: out_of_the_way_def list_all_iff intro: cleared_append)
  qed
qed (simp add: gives_quiet)

lemma create_gives:
  assumes "connect_logged w trace"
  shows "gives trace (create_if_absent w base name payload)
     (\<lambda>l. list_all is_asked l \<or> (\<exists>b a. l = [Asked (connectorByNameURL base name) (Inr (404, b)), Posted (base @ ''/connectors'') payload a])) (\<lambda>_ _. True)"
proof -
  have exists: "gives trace (connectorExists w base name) (list_all is_asked)
      (\<lambda>x l. \<not> x \<longrightarrow> (\<exists>b. l = [Asked (connectorByNameURL base name) (Inr (404, b))]))"
    unfolding connectorExists_def
    by (rule gives_bindE [OF get_gives [OF assms]]) (auto intro!: gives_quiet)
  show ?thesis
    unfolding create_if_absent_def
    by (rule gives_bindE [OF gives_mapErr [OF exists]])
      (auto intro!: gives_quiet gives_bindE [OF gives_mapErr [OF post_gives [OF assms]]])
qed

section \<open>The start\<close>

text \<open>At most one connector is created: after it was seen absent, and after every blocked one was seen out of the way.\<close>

definition creates_safely :: "connect_codecs \<Rightarrow> string \<Rightarrow> bootstrap_options \<Rightarrow> connect_event list \<Rightarrow> bool" where
  "creates_safely cd base opts l \<longleftrightarrow> (let name = bo_name opts in list_all is_asked l \<or>
     (\<exists>l1 b c a l2. l = l1 @ [Asked (connectorByNameURL base name) (Inr (404, b)), Posted (base @ ''/connectors'') (name, c) a] @ l2 \<and>
        list_all is_asked l1 \<and> list_all is_asked l2 \<and> (bo_parallel opts \<or> list_all (out_of_the_way cd base name l1) (bo_blocked opts))))"

definition ends_running :: "connect_codecs \<Rightarrow> string \<Rightarrow> string \<Rightarrow> connect_event list \<Rightarrow> bool" where
  "ends_running cd base name l \<longleftrightarrow> (\<exists>l1 a st. l = l1 @ [Asked (connectorStatusURL base name) a] \<and> reported cd a = Some (Some st) \<and> all_tasks_run st)"

lemma creates_safelyI:
  assumes "l = l1 @ [Asked (connectorByNameURL base (bo_name opts)) (Inr (404, b)),
      Posted (base @ ''/connectors'') (bo_name opts, c) a] @ l2"
    and "list_all is_asked l1" and "list_all is_asked l2"
    and "bo_parallel opts \<or> list_all (out_of_the_way cd base (bo_name opts) l1) (bo_blocked opts)"
  shows "creates_safely cd base opts l"
  unfolding creates_safely_def Let_def using assms by blast

lemma creates_quietly: "list_all is_asked l \<Longrightarrow> creates_safely cd base opts l"
  by (simp add: creates_safely_def)

lemma ends_running_append: "ends_running cd base name l' \<Longrightarrow> ends_running cd base name (l @ l')"
  unfolding ends_running_def by (metis append_assoc)

lemma creates_safely_append:
  assumes "list_all is_asked l" and "creates_safely cd base opts l'"
  shows "creates_safely cd base opts (l @ l')"
proof (cases "list_all is_asked l'")
  case True
  with assms(1) show ?thesis by (simp add: creates_safely_def)
next
  case False
  let ?name = "bo_name opts"
  from False assms(2) obtain l1 b c a l2
    where l': "l' = l1 @ [Asked (connectorByNameURL base ?name) (Inr (404, b)), Posted (base @ ''/connectors'') (?name, c) a] @ l2"
      and rest: "list_all is_asked l1" "list_all is_asked l2" "bo_parallel opts \<or> list_all (out_of_the_way cd base ?name l1) (bo_blocked opts)"
    by (auto simp: creates_safely_def Let_def)
  from rest(3) have "bo_parallel opts \<or> list_all (out_of_the_way cd base ?name (l @ l1)) (bo_blocked opts)"
    by (auto simp: list_all_iff out_of_the_way_def intro: cleared_append)
  with l' rest(1,2) assms(1) show ?thesis by (intro creates_safelyI [where ?l1.0 = "l @ l1" and b = b and c = c and a = a and ?l2.0 = l2]) simp_all
qed

lemma build_gives:
  assumes "connect_logged w trace"
  shows "gives trace (buildConnectorCreateRequest w cd opts) (\<lambda>l. l = []) (\<lambda>x l. l = [] \<and> fst x = trim_space (bo_name opts))"
  unfolding buildConnectorCreateRequest_def
  by (rule gives_bindE [OF outside_gives(4) [OF assms]])
    (auto intro!: gives_quiet gives_bindE [where ?P1.0 = "\<lambda>l. l = []" and ?Q1.0 = "\<lambda>_ l. l = []"])

lemma running_ends:
  assumes "connect_logged w trace"
  shows "gives trace (mapErr h (waitUntil n w deadline poll (isConnectorRunning w cd base name) None)) (list_all is_asked)
     (\<lambda>_ l. ends_running cd base name l)"
  by (rule gives_mapErr, rule gives_weaken [OF wait_gives [OF assms running_gives [OF assms]]]) (auto simp: ends_running_def)

lemma create_then_run:
  assumes "connect_logged w trace"
  shows "gives trace (thenE (create_if_absent w base name payload)
       (mapErr h (waitUntil n w deadline poll (isConnectorRunning w cd base name) None)))
     (\<lambda>l. list_all is_asked l \<or> (\<exists>b a l2. l = [Asked (connectorByNameURL base name) (Inr (404, b)), Posted (base @ ''/connectors'') payload a] @ l2 \<and> list_all is_asked l2))
     (\<lambda>_ l. ends_running cd base name l)"
proof (rule gives_thenE [OF create_gives [OF assms]])
  fix x :: unit and l
  assume l: "list_all is_asked l \<or> (\<exists>b a. l = [Asked (connectorByNameURL base name) (Inr (404, b)), Posted (base @ ''/connectors'') payload a])"
  show "gives trace (mapErr h (waitUntil n w deadline poll (isConnectorRunning w cd base name) None))
      (\<lambda>l'. list_all is_asked (l @ l') \<or> (\<exists>b a l2. l @ l' = [Asked (connectorByNameURL base name) (Inr (404, b)), Posted (base @ ''/connectors'') payload a] @ l2 \<and> list_all is_asked l2))
      (\<lambda>_ l'. ends_running cd base name (l @ l'))"
    by (rule gives_weaken [OF running_ends [OF assms]]) (use l in \<open>auto intro: ends_running_append\<close>)
qed auto

lemma check_then_create:
  assumes "connect_logged w trace" and "fst payload = bo_name opts" and "name = bo_name opts"
  shows "gives trace (thenE (if bo_parallel opts then ret () else forE (bo_blocked opts) (refuse_conflict w cd base name))
       (thenE (create_if_absent w base name payload) (mapErr h (waitUntil n w deadline poll (isConnectorRunning w cd base name) None))))
     (creates_safely cd base opts) (\<lambda>_ l. ends_running cd base name l)"
proof -
  have check: "gives trace (if bo_parallel opts then ret () else forE (bo_blocked opts) (refuse_conflict w cd base name)) (list_all is_asked)
      (\<lambda>_ l. bo_parallel opts \<or> list_all (out_of_the_way cd base name l) (bo_blocked opts))"
  proof (cases "bo_parallel opts")
    case False
    then show ?thesis using refuse_gives [OF assms(1), of "bo_blocked opts" cd base name] by simp
  qed (simp add: gives_quiet)
  show ?thesis
  proof (rule gives_thenE [OF check])
    fix x :: unit and l
    assume l: "list_all is_asked l" "bo_parallel opts \<or> list_all (out_of_the_way cd base name l) (bo_blocked opts)"
    obtain c where "payload = (bo_name opts, c)" using assms(2) by (cases payload) simp
    with l show "gives trace (thenE (create_if_absent w base name payload) (mapErr h (waitUntil n w deadline poll (isConnectorRunning w cd base name) None)))
        (\<lambda>l'. creates_safely cd base opts (l @ l')) (\<lambda>_ l'. ends_running cd base name (l @ l'))"
      by (intro gives_weaken [OF create_then_run [OF assms(1)]])
        (auto simp: assms(3) intro: ends_running_append creates_safelyI creates_quietly)
  qed (simp add: creates_safely_def)
qed

lemma bring_up_gives:
  assumes "connect_logged w trace" and "fst payload = bo_name opts" and "base = without_slash (bo_url opts)"
  shows "gives trace (bring_up n w cd opts payload deadline) (creates_safely cd base opts) (\<lambda>_ l. ends_running cd base (bo_name opts) l)"
  unfolding bring_up_def Let_def assms(3) [symmetric]
proof (rule gives_thenE [OF gives_mapErr [OF wait_gives [OF assms(1) gives_weaken [OF ready_gives [OF assms(1)]], of "\<lambda>_. True"]]])
  fix x :: unit and l
  assume "list_all is_asked l"
  then show "gives trace (thenE (if bo_parallel opts then ret () else forE (bo_blocked opts) (refuse_conflict w cd base (bo_name opts)))
     (thenE (create_if_absent w base (bo_name opts) payload)
       (mapErr (Wrapf (''connector \"'' @ bo_name opts @ ''\" did not become RUNNING''))
         (waitUntil n w deadline (bo_poll opts) (isConnectorRunning w cd base (bo_name opts)) None))))
     (\<lambda>l'. creates_safely cd base opts (l @ l')) (\<lambda>_ l'. ends_running cd base (bo_name opts) (l @ l'))"
    by (intro gives_weaken [OF check_then_create [OF assms(1,2) refl]]) (auto intro: creates_safely_append ends_running_append)
qed (simp_all add: creates_quietly)

lemma bootstrap_gives:
  assumes "connect_logged w trace" and "bo_enabled opts0" and "opts = with_defaults opts0" and "base = without_slash (bo_url opts)"
  shows "gives trace (ensureConnectorBootstrap n w cd opts0) (creates_safely cd base opts) (\<lambda>_ l. ends_running cd base (bo_name opts) l)"
proof -
  have name: "trim_space (bo_name opts) = bo_name opts" by (simp add: assms(3) with_defaults_def)
  have "gives trace (bindE (mapErr h (buildConnectorCreateRequest w cd opts)) (\<lambda>payload.
       bindE (read_now w) (\<lambda>now. bring_up n w cd opts payload (now + bo_timeout opts))))
     (creates_safely cd base opts) (\<lambda>_ l. ends_running cd base (bo_name opts) l)" for h
    by (intro gives_bindE [OF gives_mapErr [OF build_gives [OF assms(1)]]] gives_bindE [OF outside_gives(1) [OF assms(1)]])
      (auto simp: creates_quietly name assms(4) intro: bring_up_gives [OF assms(1)])
  with assms(2) show ?thesis
    unfolding ensureConnectorBootstrap_def Let_def assms(3) [symmetric] by (simp add: gives_quiet creates_quietly)
qed

text \<open>C34: a connector is created only when that is safe. Whatever the answers, the start sends at most one request to create
  one; it does so under the configured name, after it was answered that no such connector exists and, unless parallel
  connectors are allowed, that every other blocked connector is absent or failed, paused or stopped with all its tasks. When
  the start reports success, the last answer it has seen says that the connector has tasks, that all of them run, and that it
  runs itself or is unassigned (as while its worker changes).\<close>

theorem connectors_are_created_safely:
  assumes "connect_logged w trace" and "bo_enabled opts0" and "ensureConnectorBootstrap n w cd opts0 s = (r, t)"
    and "opts = with_defaults opts0" and "base = without_slash (bo_url opts)"
  shows "\<exists>new. trace t = trace s @ new \<and> creates_safely cd base opts new \<and> (r = Ok () \<longrightarrow> ends_running cd base (bo_name opts) new)"
  using bootstrap_gives [OF assms(1,2,4,5), of n cd] assms(3) by (rule givesE) blast

text \<open>A Kafka Connect with a paused old connector; the state is the log and the clock.\<close>

definition demo_connect :: "(connect_event list \<times> int) kafka_connect" where
  "demo_connect = \<lparr>kw_get = (\<lambda>u s. let a = (if u = ''http://c/connectors'' then Inr (200, [])
         else if u = ''http://c/connectors/old/status'' then Inr (200, ''paused'')
         else if u = ''http://c/connectors/new'' then Inr (404, [])
         else if u = ''http://c/connectors/new/status'' then Inr (200, ''running'') else Inl (Msg ''down'')) in (a, (fst s @ [Asked u a], snd s))),
     kw_post = (\<lambda>u p s. (Inr (201, []), (fst s @ [Posted u p (Inr (201, []))], snd s))),
     kw_now = (\<lambda>s. (snd s, s)), kw_wait = (\<lambda>d s. (fst s, snd s + d)), kw_done = (\<lambda>s. None), kw_file = (\<lambda>f s. (Inl (Msg ''no file''), s))\<rparr>"

definition demo_connect_codecs :: connect_codecs where
  "demo_connect_codecs = \<lparr>kd_request = (\<lambda>b. Inr [(''plugin.name'', VStr ''pgoutput'')]), kd_config = (\<lambda>b. Inr []),
     kd_status = (\<lambda>b. Inr (if b = ''running'' then \<lparr>ks_connector = ''RUNNING'', ks_tasks = [''RUNNING'']\<rparr>
       else \<lparr>ks_connector = ''PAUSED'', ks_tasks = []\<rparr>)), kd_default = ''{}''\<rparr>"

definition demo_options :: "string \<Rightarrow> bootstrap_options" where
  "demo_options url = \<lparr>bo_enabled = True, bo_url = url, bo_name = '' new'', bo_file = [], bo_json = [], bo_prefix = [], bo_slot = ''slot'',
     bo_user = [], bo_timeout = 10, bo_poll = 3, bo_blocked = [''old'', ''new''], bo_parallel = False\<rparr>"

lemma demo_connect_logged: "connect_logged demo_connect fst"
  by (simp add: connect_logged_def demo_connect_def Let_def)

theorem connectors_are_created_safely_witness:
  "fst (ensureConnectorBootstrap 5 demo_connect demo_connect_codecs (demo_options ''http://c/'') ([], 0)) = Ok () \<and>
   creates_safely demo_connect_codecs ''http://c'' (with_defaults (demo_options ''http://c/''))
     (fst (snd (ensureConnectorBootstrap 5 demo_connect demo_connect_codecs (demo_options ''http://c/'') ([], 0)))) \<and>
   length (filter (\<lambda>e. \<not> is_asked e) (fst (snd (ensureConnectorBootstrap 5 demo_connect demo_connect_codecs (demo_options ''http://c/'') ([], 0))))) = 1 \<and>
   ends_running demo_connect_codecs ''http://c'' ''new''
     (fst (snd (ensureConnectorBootstrap 5 demo_connect demo_connect_codecs (demo_options ''http://c/'') ([], 0))))"
proof -
  let ?run = "ensureConnectorBootstrap 5 demo_connect demo_connect_codecs (demo_options ''http://c/'') ([], 0)"
  have ok: "fst ?run = Ok ()" by code_simp
  have e: "bo_enabled (demo_options ''http://c/'')" by (simp add: demo_options_def)
  have u: "''http://c'' = without_slash (bo_url (with_defaults (demo_options ''http://c/'')))"
    and nm: "bo_name (with_defaults (demo_options ''http://c/'')) = ''new''" by code_simp+
  have "length (filter (\<lambda>e. \<not> is_asked e) (fst (snd ?run))) = 1" by code_simp
  with connectors_are_created_safely [OF demo_connect_logged e prod.collapse [symmetric] refl u, of 5 demo_connect_codecs "([], 0)"] ok nm
  show ?thesis by simp
qed

section \<open>It returns\<close>

text \<open>A clock that does not run backwards, waits that last, and the number of waits so far.\<close>

definition timely :: "'s kafka_connect \<Rightarrow> ('s \<Rightarrow> int) \<Rightarrow> ('s \<Rightarrow> nat) \<Rightarrow> bool" where
  "timely w time waits \<longleftrightarrow> (\<forall>s. fst (kw_now w s) = time s \<and> time s \<le> time (snd (kw_now w s)) \<and> waits (snd (kw_now w s)) = waits s) \<and>
     (\<forall>u s. time s \<le> time (snd (kw_get w u s)) \<and> waits (snd (kw_get w u s)) = waits s) \<and>
     (\<forall>u p s. time s \<le> time (snd (kw_post w u p s)) \<and> waits (snd (kw_post w u p s)) = waits s) \<and>
     (\<forall>d s. time s + d \<le> time (kw_wait w d s) \<and> waits (kw_wait w d s) = Suc (waits s)) \<and>
     (\<forall>f s. time s \<le> time (snd (kw_file w f s)) \<and> waits (snd (kw_file w f s)) = waits s)"

definition returned :: "'a outcome \<Rightarrow> bool" where
  "returned r \<longleftrightarrow> (case r of Ok x \<Rightarrow> True | Error e \<Rightarrow> True | _ \<Rightarrow> False)"

lemma returned_simps [simp]: "returned (Ok x)" "returned (Error e)" "\<not> returned (Panic p)" "\<not> returned Diverged"
  by (simp_all add: returned_def)

text \<open>A call returns from states of \<open>J\<close> in states of \<open>J\<close>.\<close>

definition returns_in :: "('s \<Rightarrow> bool) \<Rightarrow> ('s, 'a) go \<Rightarrow> bool" where
  "returns_in J m \<longleftrightarrow> (\<forall>s. J s \<longrightarrow> J (snd (m s)) \<and> returned (fst (m s)))"

lemma timed_simple [simp]:
  "returns_in J (ret x)" "returns_in J (throw e)" "returns_in J (gets f)" "returns_in J (liftR v)"
  by (cases v; simp add: returns_in_def ret_apply throw_apply gets_apply liftR_def)+

lemma timed_bindE:
  assumes "returns_in J m" and "\<And>x. returns_in J (k x)"
  shows "returns_in J (bindE m k)"
  unfolding returns_in_def
proof (intro allI impI)
  fix s
  assume b: "J s"
  obtain r t where m: "m s = (r, t)" by fastforce
  with assms(1) b have t: "J t" "returned r" unfolding returns_in_def by (metis fst_conv snd_conv)+
  then show "J (snd (bindE m k s)) \<and> returned (fst (bindE m k s))"
    using assms(2) m by (cases r) (auto simp: bindE_apply returns_in_def)
qed

lemma timed_thenE: "returns_in J m \<Longrightarrow> returns_in J k \<Longrightarrow> returns_in J (thenE m k)"
  unfolding thenE_def by (rule timed_bindE)

lemma timed_tryE:
  assumes "returns_in J m"
  shows "returns_in J (tryE m)"
  unfolding returns_in_def
proof (intro allI impI)
  fix s
  assume b: "J s"
  obtain r t where m: "m s = (r, t)" by fastforce
  with assms b have "J t" "returned r" unfolding returns_in_def by (metis fst_conv snd_conv)+
  with m show "J (snd (tryE m s)) \<and> returned (fst (tryE m s))" by (cases r) (simp_all add: tryE_apply)
qed

lemma timed_mapErr: "returns_in J m \<Longrightarrow> returns_in J (mapErr h m)"
  unfolding mapErr_def by (intro timed_bindE timed_tryE) (auto split: sum.split)

lemma timed_forE: "(\<And>x. returns_in J (f x)) \<Longrightarrow> returns_in J (forE xs f)"
  by (induction xs) (simp_all add: timed_thenE)

lemmas timed_rules = timed_bindE timed_thenE timed_tryE timed_mapErr timed_forE

text \<open>A call that returns, not before it was made, and does not wait.\<close>

definition calm :: "('s \<Rightarrow> int) \<Rightarrow> ('s \<Rightarrow> nat) \<Rightarrow> ('s, 'a) go \<Rightarrow> bool" where
  "calm time waits m \<longleftrightarrow> (\<forall>a b. returns_in (\<lambda>s. a \<le> time s \<and> waits s = b) m)"

lemma calmD:
  assumes "calm time waits m" and "m s = (r, t)"
  shows "time s \<le> time t \<and> waits t = waits s \<and> returned r"
  using assms unfolding calm_def returns_in_def by (metis fst_conv order_refl snd_conv)

lemma requests_return:
  assumes "timely w time waits" and "J = (\<lambda>s. a \<le> time s \<and> waits s = b)"
  shows "returns_in J (httpGet w u)" and "returns_in J (createConnector w base p)"
    and "returns_in J (check_done w)" and "returns_in J (connector_source w cd opts)"
proof -
  have get: "time s \<le> time t \<and> waits t = waits s" if "kw_get w u s = (x, t)" for u s x t
    using assms(1) that unfolding timely_def by (metis snd_conv)
  have post: "time s \<le> time t \<and> waits t = waits s" if "kw_post w u p s = (x, t)" for u p s x t
    using assms(1) that unfolding timely_def by (metis snd_conv)
  have read: "time s \<le> time t \<and> waits t = waits s" if "kw_file w f s = (x, t)" for f s x t
    using assms(1) that unfolding timely_def by (metis snd_conv)
  show "returns_in J (httpGet w u)" "returns_in J (createConnector w base p)"
    by (auto simp: assms(2) returns_in_def httpGet_def createConnector_def dest: get post split: prod.split sum.split)
  show "returns_in J (check_done w)"
    unfolding check_done_def by (intro timed_bindE) (auto split: option.split)
  show "returns_in J (connector_source w cd opts)"
    by (auto simp: assms(2) returns_in_def connector_source_def ret_apply dest: read split: prod.split sum.split)
qed

lemma checks_return:
  assumes "timely w time waits"
  shows "calm time waits (isConnectReady w base)" and "calm time waits (isConnectorRunning w cd base name)"
    and "calm time waits (refuse_conflict w cd base name c)" and "calm time waits (create_if_absent w base name payload)"
    and "calm time waits (buildConnectorCreateRequest w cd opts)"
  unfolding calm_def isConnectReady_def isConnectorRunning_def getConnectorStatus_def refuse_conflict_def hasConnectorConflict_def Let_def
    create_if_absent_def connectorExists_def buildConnectorCreateRequest_def
  by (auto intro!: timed_rules requests_return [OF assms refl] split: prod.split option.split sum.split)

text \<open>The budget of a start whose clock read \<open>now0\<close> after \<open>n0\<close> waits: every wait since took its time, and there were not
  more than fit into the timeout, and one.\<close>

definition in_budget :: "('s \<Rightarrow> int) \<Rightarrow> ('s \<Rightarrow> nat) \<Rightarrow> int \<Rightarrow> nat \<Rightarrow> int \<Rightarrow> int \<Rightarrow> 's \<Rightarrow> bool" where
  "in_budget time waits now0 n0 poll timeout s \<longleftrightarrow> n0 \<le> waits s \<and> now0 + poll * (int (waits s) - int n0) \<le> time s \<and>
     int (waits s) - int n0 \<le> timeout div poll + 1"

lemma calm_in_budget: "calm time waits m \<Longrightarrow> returns_in (in_budget time waits now0 n0 poll timeout) m"
  unfolding returns_in_def
proof (intro allI impI)
  fix s
  assume c: "calm time waits m" and s: "in_budget time waits now0 n0 poll timeout s"
  obtain r t where m: "m s = (r, t)" by fastforce
  from calmD [OF c m] s m show "in_budget time waits now0 n0 poll timeout (snd (m s)) \<and> returned (fst (m s))"
    by (auto simp: in_budget_def)
qed

lemma one_more_wait:
  assumes "timely w time waits" and "0 < poll" and "in_budget time waits now0 n0 poll timeout s"
    and "kw_now w s = (now, t)" and "now \<le> now0 + timeout"
  shows "in_budget time waits now0 n0 poll timeout (kw_wait w poll t) \<and> waits (kw_wait w poll t) = Suc (waits s)"
proof -
  from assms(1,4) have t: "now = time s" "time s \<le> time t" "waits t = waits s" unfolding timely_def by (metis fst_conv snd_conv)+
  let ?u = "kw_wait w poll t" and ?k = "int (waits s) - int n0"
  from assms(1) have u: "time t + poll \<le> time ?u" "waits ?u = Suc (waits s)" using t(3) unfolding timely_def by metis+
  from assms(3,5) t(1) have "poll * ?k \<le> timeout" by (simp add: in_budget_def)
  with assms(2) have "poll * ?k div poll \<le> timeout div poll" by (intro zdiv_mono1)
  with assms(2) have "?k \<le> timeout div poll" by simp
  with assms(3) t u show ?thesis by (simp add: in_budget_def algebra_simps)
qed

lemma wait_returns:
  assumes "timely w time waits" and "calm time waits check" and "0 < poll"
  shows "in_budget time waits now0 n0 poll timeout s \<Longrightarrow> timeout div poll + 2 \<le> int n + (int (waits s) - int n0) \<Longrightarrow>
    in_budget time waits now0 n0 poll timeout (snd (waitUntil n w (now0 + timeout) poll check lastErr s)) \<and>
    returned (fst (waitUntil n w (now0 + timeout) poll check lastErr s))"
proof (induction n arbitrary: s lastErr)
  case 0
  then show ?case by (simp add: in_budget_def)
next
  case (Suc n)
  let ?J = "in_budget time waits now0 n0 poll timeout"
  show ?case
  proof (cases "kw_done w s")
    case (Some e)
    with Suc.prems(1) show ?thesis by (simp add: check_done_def thenE_apply bindE_apply gets_apply throw_apply)
  next
    case None
    obtain r u where c: "check s = (r, u)" by fastforce
    from calmD [OF assms(2) c] Suc.prems(1) have u: "?J u" "waits u = waits s" "returned r" by (auto simp: in_budget_def)
    obtain now t where now: "kw_now w u = (now, t)" by fastforce
    with assms(1) have t: "time u \<le> time t" "waits t = waits u" unfolding timely_def by (metis snd_conv)+
    show ?thesis
    proof (cases "r = Ok True")
      case True
      with None c u show ?thesis by (simp add: check_done_def thenE_apply bindE_apply gets_apply ret_apply tryE_apply)
    next
      case False
      let ?e = "case r of Error e \<Rightarrow> Some e | _ \<Rightarrow> lastErr"
      have step: "waitUntil (Suc n) w (now0 + timeout) poll check lastErr s =
          (if now > now0 + timeout then (Error (timed_out ?e), t) else waitUntil n w (now0 + timeout) poll check ?e (kw_wait w poll t))"
        using None c now u(3) False
        by (cases r) (auto simp: check_done_def thenE_apply bindE_apply gets_apply ret_apply throw_apply tryE_apply
            read_now_def modifyS_apply Let_def)
      show ?thesis
      proof (cases "now > now0 + timeout")
        case True
        with step u t show ?thesis by (simp add: in_budget_def del: waitUntil.simps)
      next
        case within: False
        then have "now \<le> now0 + timeout" by simp
        from one_more_wait [OF assms(1,3) u(1) now this]
        have v: "?J (kw_wait w poll t)" "waits (kw_wait w poll t) = Suc (waits s)" using u(2) by simp_all
        with Suc.prems(2) have "timeout div poll + 2 \<le> int n + (int (waits (kw_wait w poll t)) - int n0)" by simp
        from Suc.IH [OF v(1) this] step within show ?thesis by (simp del: waitUntil.simps)
      qed
    qed
  qed
qed

text \<open>C35: the start of the connector returns in time. When the clock does not run backwards and a wait lasts as long as it
  says, it returns with success or an error, and its two loops (for Kafka Connect to be ready and for the connector to run) share
  one deadline: together they wait at most as many times as polls fit into the timeout, and once more. (The bound on the turns of a
  loop has to exceed that number by one.)\<close>

theorem connector_start_returns:
  assumes "timely w time waits" and "opts = with_defaults opts0" and "bo_timeout opts div bo_poll opts + 2 \<le> int n"
    and "ensureConnectorBootstrap n w cd opts0 s = (r, t)"
  shows "(r = Ok () \<or> (\<exists>e. r = Error e)) \<and> int (waits t) \<le> int (waits s) + bo_timeout opts div bo_poll opts + 1"
proof -
  let ?timeout = "bo_timeout opts" and ?poll = "bo_poll opts" and ?base = "without_slash (bo_url opts)"
  have pos: "0 < ?poll" "0 < ?timeout" by (simp_all add: assms(2) with_defaults_def)
  then have k: "0 \<le> ?timeout div ?poll" by (simp add: pos_imp_zdiv_nonneg_iff)
  let ?J = "\<lambda>now0. in_budget time waits now0 (waits s) ?poll ?timeout"
  have loop: "returns_in (?J now0) (waitUntil n w (now0 + ?timeout) ?poll check None)" if "calm time waits check" for check now0
    unfolding returns_in_def using wait_returns [OF assms(1) that pos(1)] assms(3) by (force simp: in_budget_def)
  have up: "returns_in (?J now0) (bring_up n w cd opts payload (now0 + ?timeout))" for now0 payload
    unfolding bring_up_def Let_def
    by (cases payload)
      (auto intro!: timed_rules loop checks_return(1,2) [OF assms(1)] checks_return(3,4) [OF assms(1), THEN calm_in_budget])
  have fin: "waits t = waits s \<and> returned r \<Longrightarrow> ?thesis"
    using k by (cases r) auto
  show ?thesis
  proof (cases "bo_enabled opts0 \<and> bo_url opts \<noteq> [] \<and> bo_name opts \<noteq> []")
    case False
    with assms(4) show ?thesis
      by (intro fin) (auto simp: ensureConnectorBootstrap_def Let_def assms(2) ret_apply throw_apply split: if_splits)
  next
    case True
    let ?build = "mapErr (Wrapf ''failed to build connector request'') (buildConnectorCreateRequest w cd opts)"
    obtain b u where b: "?build s = (b, u)" by fastforce
    have "calm time waits ?build"
      using checks_return(5) [OF assms(1), of cd opts] unfolding calm_def by (blast intro: timed_mapErr)
    from calmD [OF this b] have u: "time s \<le> time u" "waits u = waits s" "returned b" by simp_all
    show ?thesis
    proof (cases b)
      case (Ok payload)
      obtain now v where now: "kw_now w u = (now, v)" by fastforce
      with assms(1) have v: "now = time u" "time u \<le> time v" "waits v = waits u" unfolding timely_def by (metis fst_conv snd_conv)+
      have run: "bring_up n w cd opts payload (now + ?timeout) v = (r, t)"
        using assms(4) True b Ok now by (simp add: ensureConnectorBootstrap_def Let_def assms(2) bindE_apply read_now_def)
      have "?J now v" using v u k by (simp add: in_budget_def)
      with up [of now payload] run have "?J now t" "returned r" unfolding returns_in_def by (metis fst_conv snd_conv)+
      then show ?thesis by (cases r) (auto simp: in_budget_def)
    qed (use assms(4) True b u k in \<open>auto simp: ensureConnectorBootstrap_def Let_def assms(2) bindE_apply\<close>)
  qed
qed

text \<open>A Kafka Connect that is ready only at the fifth poll and never runs the connector: the state is the clock and the number of
  waits. The sixth poll, of the second loop, is the last.\<close>

definition late_connect :: "(int \<times> nat) kafka_connect" where
  "late_connect = \<lparr>kw_get = (\<lambda>u s. (if u = ''http://d/connectors'' then if snd s < 4 then Inl (Msg ''down'') else Inr (200, [])
         else if u = ''http://d/connectors/new'' then Inr (200, []) else Inr (404, []), s)),
     kw_post = (\<lambda>u p s. (Inr (201, []), s)), kw_now = (\<lambda>s. (fst s, s)), kw_wait = (\<lambda>d s. (fst s + d, Suc (snd s))),
     kw_done = (\<lambda>s. None), kw_file = (\<lambda>f s. (Inl (Msg ''no file''), s))\<rparr>"

theorem connector_start_returns_witness:
  "ensureConnectorBootstrap 5 late_connect demo_connect_codecs (demo_options ''http://d'') (0, 0) =
     (Error (Wrapf ''connector \"new\" did not become RUNNING'' (Msg ''timeout exceeded'')), 12, 4) \<and>
   int (snd (12 :: int, 4 :: nat)) \<le> int 0 + 10 div 3 + 1"
proof -
  have t: "timely late_connect fst snd" by (simp add: timely_def late_connect_def)
  have o: "bo_timeout (with_defaults (demo_options ''http://d'')) = 10" "bo_poll (with_defaults (demo_options ''http://d'')) = 3"
    by (simp_all add: with_defaults_def demo_options_def)
  have run: "ensureConnectorBootstrap 5 late_connect demo_connect_codecs (demo_options ''http://d'') (0, 0) =
     (Error (Wrapf ''connector \"new\" did not become RUNNING'' (Msg ''timeout exceeded'')), 12, 4)" by code_simp
  from connector_start_returns [OF t refl _ run] show ?thesis by (simp add: run o)
qed

end
