(* ===== verification/Spec2Isabelle.thy ===== *)
theory Spec2Isabelle
  imports Fuel KeyProps FlowProps JobProps StoreProps EngineProps BpmnProps WorkerProps ConsumerProps QueryProps IamDemo ServerProps WorkerLibProps ConnectorProps BootstrapProps
begin

text \<open>
  FlowGo is a BPMN workflow engine. Clients deploy process definitions and start instances; the command service
  (\<open>backend/services/workflow-command\<close>) moves tokens through the steps of a definition, hands jobs to workers,
  waits for messages, signals and timers, and records what happened as domain events. Each request loads the rows
  of an instance from the database, works on an instance in memory, writes single rows back, and runs, for most
  requests, in one database transaction at whose end the events it published are moved to an outbox table, from
  which they are relayed to the message bus. This development models that service, from the tables up to the
  requests, and proves what its parts promise.

  The shape of the model. A Go function over the engine is a function of type \<open>est \<Rightarrow> 'a outcome \<times> est\<close> (theory
  \<open>GoPrelude\<close>): the outcome is a value, a Go error, a panic or \<open>Diverged\<close> (the fuel ran out); the state \<open>est\<close>
  (\<open>Repository\<close>) holds the tables, the counters of the environment, the key generator, the event buffer of the
  running transaction, the events on the bus, the metrics, the instance in memory and the definition cache. What is
  not under src/ is the record \<open>env\<close>: the readings of the clock, UUIDs (google/uuid), the failures of the database
  and of the bus, the registered service handlers, the JavaScript interpreter (goja), the XML and JSON
  decoders, SHA-256. All of them are arbitrary, so every theorem holds for every behaviour of them unless it says
  otherwise. Files below are under \<open>backend/services/workflow-command/internal/application\<close> unless a path is given.

  The theories, in the order of the code:
    \<^item> \<open>GoPrelude\<close>, \<open>GoValues\<close>: outcomes and the monad, the structural rules \<open>keeps\<close> and \<open>approx\<close>, strings, decimals,
      dynamic values (\<open>interface{}\<close>) with their JSON round trip and comparison.
    \<^item> \<open>Ident\<close>: \<open>libs/id/id.go\<close> (snowflake keys, UUIDs) and the FNV-1a keys of \<open>engine.go\<close>.
    \<^item> \<open>EngineTypes\<close>: \<open>libs/model/types.go\<close>, \<open>engine_types.go\<close> and the events of \<open>events.proto\<close>.
    \<^item> \<open>Repository\<close>: \<open>infrastructure/persistence/gorm_repository.go\<close>, a definition per query; a table is a list of rows.
    \<^item> \<open>Outbox\<close>: transactions, publisher, outbox relay, idempotency keys and metrics of \<open>engine.go\<close>.
    \<^item> \<open>Gateway\<close>, \<open>Timers\<close>, \<open>Dmn\<close>, \<open>Deployment\<close>, \<open>Instance\<close>: \<open>gateway_logic.go\<close> and \<open>expression_eval.go\<close>;
      \<open>timer_schedule.go\<close>; \<open>libs/dmn/table.go\<close> and \<open>decisions.go\<close>; \<open>deployment.go\<close>; loading, variables, mappings
      and listeners.
    \<^item> \<open>Navigation\<close>, \<open>Start\<close>: \<open>navigation.go\<close>, \<open>subprocess.go\<close>, \<open>call_activity.go\<close>, starting instances.
    \<^item> \<open>EventDelivery\<close>, \<open>Fanout\<close>: \<open>events.go\<close>, \<open>tier2_events.go\<close>, \<open>bpmn_escalation.go\<close>.
    \<^item> \<open>Executors\<close>, \<open>Steps\<close>: \<open>step_executors.go\<close>, \<open>compensation.go\<close>, \<open>autoAdvance\<close>; \<open>Jobs\<close>: \<open>jobs.go\<close>.
    \<^item> \<open>Engine\<close>: the requests (\<open>serve\<close>, \<open>administer\<close>) and the states that sequences of them reach.
    \<^item> \<open>BpmnModel\<close>, \<open>BpmnParser\<close>: \<open>internal/domain/bpmn/parser.go\<close>, from the decoded XML structs to the steps of a
      definition. \<open>with_parser\<close> puts this parser into an environment of the engine, which leaves \<open>encoding/xml\<close>,
      \<open>html.UnescapeString\<close>, the JSON decoder and the order Go ranges over maps as parameters.
    \<^item> \<open>Auth\<close>: \<open>libs/auth\<close>: configuration, roles, claims, the two token verifiers, middleware and interceptor.
    \<^item> \<open>Dto\<close>, \<open>Api\<close>: \<open>interfaces/http/dto\<close>, \<open>handler.go\<close> and \<open>interfaces/grpc/server.go\<close>: a constructor of \<open>api_call\<close> per
      route, a definition per handler, \<open>dispatch\<close> for \<open>RegisterRoutes\<close>, \<open>handleHttp\<close> with the middleware in front.
    \<^item> \<open>Sync\<close>: \<open>services/sync-worker\<close> and \<open>libs/elasticsearch/repository.go\<close>: the documents made of events and of change
      records, the consumer (\<open>kafka_consumer.go\<close>) with retries, dead letters and counters, and its configuration.
    \<^item> \<open>Query\<close>: \<open>services/workflow-query\<close>: searches, merging, paging and the three routes.
    \<^item> \<open>Server\<close>: \<open>cmd/server/main.go\<close> and \<open>cmd/runtime/main.go\<close>: configuration and the ticks of the loops, for several
      processes on one database (\<open>ServerProps\<close>).
    \<^item> \<open>TimeText\<close>, \<open>Iam\<close>, \<open>IamOps\<close>: \<open>libs/iam\<close>: the RFC 3339 text of a time, which \<open>Timers\<close> reads back; configuration, data
      and requests of the client of the identity provider; its operations on users, clients and roles. \<open>IamDto\<close>, \<open>IamApi\<close>:
      \<open>dto/identity_management.go\<close>, \<open>identity_management_handler.go\<close> and \<open>identity_handler.go\<close>, the routes over them. The
      provider is the record \<open>provider\<close> of functions on a state of its own, of which a \<open>wire_log\<close> of requests is observed.

    \<^item> \<open>WorkerLib\<close>: \<open>libs/worker\<close>, the other side of the job routes: the client, and the worker that activates jobs, hands them
      to a handler, renews their locks and settles them. What is around it is the record \<open>workplace\<close>.
    \<^item> \<open>Connectors\<close>: \<open>src/connectors\<close>, five such workers: what they share (allowlists, headers, redirects, descriptors), and
      their handlers for HTTP, webhooks, mail, Kafka and object stores. What is around them is the record \<open>web\<close>.
    \<^item> \<open>Bootstrap\<close>: \<open>services/sync-worker/cmd/connector_bootstrap.go\<close>, the creation of the change-data connector at start.

  Recursion. \<open>proceedToken\<close> and \<open>autoAdvance\<close> call each other through everything between; the definitions take the two
  as the argument \<open>rec :: calls\<close> and \<open>run env n\<close> ties the knot \<open>n\<close> calls deep. A process with a cycle that never waits
  does not return, in Go as in the model (\<open>Diverged\<close> at every \<open>n\<close>). \<open>Fuel\<close> proves that a run that returned does the same
  with more fuel, so \<open>n\<close> is a bound and nothing else. Every other loop of the code is a structural recursion or has its
  termination proved where it is defined; the wait of the key generator is bounded by the range of 64-bit time. The loops of
  \<open>WorkerLib\<close> and \<open>Bootstrap\<close> that wait for the outside take the number of their turns; that of the HTTP client follows ten requests.

  The lemmas:
    \<^item> \<open>Frame\<close>: a locale of the relations that the writes of one row preserve; every definition of the engine keeps such
      a relation. \<open>Invariants\<close> instantiates it with the step relation \<open>runtime_write\<close> on tables, with the audit order
      and with the well-formedness of the store; \<open>Delivery\<close> with atomicity and with the recording of events; \<open>Commit\<close>
      with "only the outbox changes".
    \<^item> \<open>KeyProps\<close>, \<open>FlowProps\<close>, \<open>StoreProps\<close>, \<open>JobProps\<close>, \<open>EngineProps\<close> and this theory hold the properties: of keys;
      of gateways, step lookup and durations; of outbox, lease, idempotency, decisions and timers; of jobs and user
      tasks; of instances, variables and deployments; and of the whole engine under any sequence of requests.
      \<open>BpmnProps\<close> and \<open>AuthProps\<close> hold those of the parser and of authentication.
    \<^item> \<open>ApiFrame\<close> extends the frame of the engine to the calls of the interface; \<open>ApiProps\<close> has who may call what and what
      the interface keeps of the store, \<open>InboxProps\<close> statuses and user tasks, \<open>WorkerProps\<close> idempotency keys and listings.
    \<^item> \<open>Feed\<close>: a reader of several logs that may pass over entries and be set back, as an inductive relation, and the locale
      \<open>projector\<close> of the readers whose effect on a view is a function of the entry; \<open>SyncProps\<close> says what each message
      says of the documents and that processing it writes that; \<open>ConsumerProps\<close> lists the ways a turn of the consumer's
      loop ends, interprets the locale with these turns, and has commits, counters and redelivery; \<open>QueryProps\<close> the pages
      of a listing.
    \<^item> \<open>IamFrame\<close> has the locale \<open>provider_frame\<close> of what the requests to the identity provider preserve, and the log of them;
      \<open>IamProps\<close> who may cause which requests, \<open>IamCreate\<close> what a failed creation undoes, how long keys live and what
      descriptions keep; \<open>Total\<close> collects the rules of calls that return.
    \<^item> \<open>WorkerLibProps\<close> has the protocol of a worker as predicates on the log of its requests, and that every run follows it.
    \<^item> \<open>Journal\<close> has the rules of calls that append to a log; \<open>ConnectorProps\<close> (where requests may go, the bounds of headers)
      and \<open>BootstrapProps\<close> (when a connector is created, and that the start returns in time) rest on them.
    \<^item> \<open>Demo\<close> (and \<open>IamDemo\<close> for the identity provider) is the concrete engine, store and request on which the witnesses evaluate the model.

  Bounds. Keys are integers; they are shown to stay within 63 bits where the code needs it. Times are nanoseconds as
  integers, durations are checked against 64 bits where Go's parser does. Numbers of variables are exact rationals
  rounded as float64 where the code converts. Retries are integers, cut to 32 bits where the code publishes them.

  Not modelled: the message bus clients (publishing and fetching are parameters; so are the creation of topics and
  the watchdog of the consumer, which only call them), logging and tracing. Goroutines of
  one process run one request after the other in the model; what concurrent requests do to each other is modelled at
  the points the code relies on: claims of outbox rows, the scheduler lease and job locks, whose properties are
  stated for two callers with different clocks. A rollback restores the tables exactly (serialisable transactions).
\<close>

section \<open>The life of the store\<close>

text \<open>C1: the engine refines the step relation of its tables: whatever a sequence of requests of clients,
  workers and the scheduler does to the store, errors, panics and rollbacks included, is a sequence of
  the single-row writes of \<open>runtime_write\<close>.\<close>

theorem requests_refine_writes:
  assumes "served env s t"
  shows "runtime_write\<^sup>*\<^sup>* (s_db s) (s_db t)"
  using assms by (rule runtime.served_frame)

theorem requests_refine_writes_witness:
  "runtime_write\<^sup>*\<^sup>* demo_db (s_db demo_after) \<and> s_db demo_after \<noteq> demo_db"
  using requests_refine_writes [OF demo_served]
  by (simp add: demo_before_def demo_after_def demo_state_def demo_db_def demo_element_def empty_db_def)

text \<open>C2: in every state reached from an empty store by requests and administration, primary keys are
  unique in every table, idempotency keys are unique, instances are active or completed, elements are
  activated, completed or terminated, every outbox row has a status the relay knows (and is locked exactly
  when it is being processed), and there is at most one scheduler lease.\<close>

theorem reachable_store_well_formed:
  assumes "reaches env s t" and "s_db s = empty_db"
  shows "db_wf (s_db t)"
  using reaches_wf [OF assms(1)] assms(2) db_wf_empty by simp

theorem reachable_store_well_formed_witness:
  "db_wf (s_db life_deployed) \<and> map pr_key (db_processes (s_db life_deployed)) = [4096]"
  using reachable_store_well_formed
    [OF reaches_admin [OF reaches_nothing life_deploy], simplified] by (simp add: demo_state_def life_deployed_def)

text \<open>C3: the history of tokens and instances is an audit trail. No request removes or moves an element
  instance or a process instance; the columns that say what it is never change; a finished element stays
  finished and a completed instance stays completed.\<close>

theorem history_is_kept:
  assumes "served env s t"
  shows "(\<forall>i < length (db_elements (s_db s)).
      i < length (db_elements (s_db t)) \<and>
      (let a = db_elements (s_db s) ! i; b = db_elements (s_db t) ! i in
       ei_key b = ei_key a \<and> ei_instance_key b = ei_instance_key a \<and> ei_element_id b = ei_element_id a \<and>
       ei_flow_scope_key b = ei_flow_scope_key a \<and> ei_created_at b = ei_created_at a \<and>
       (ei_state b \<noteq> ei_state a \<longrightarrow> ei_state b \<in> {''COMPLETED'', ''TERMINATED''}))) \<and>
    (\<forall>j < length (db_instances (s_db s)).
      j < length (db_instances (s_db t)) \<and>
      (let p = db_instances (s_db s) ! j; q = db_instances (s_db t) ! j in
       pi_key q = pi_key p \<and> pi_definition_key q = pi_definition_key p \<and> pi_created_at q = pi_created_at p \<and>
       (pi_state p = ''COMPLETED'' \<longrightarrow> pi_state q = ''COMPLETED'')))"
proof (intro conjI allI impI)
  note au = served_audit [OF assms]
  fix i
  assume i: "i < length (db_elements (s_db s))"
  with au have "i < length (db_elements (s_db t))" and st: "element_step (db_elements (s_db s) ! i) (db_elements (s_db t) ! i)"
    by (simp_all add: audit_def grows_def)
  then show "i < length (db_elements (s_db t))" by blast
  show "let a = db_elements (s_db s) ! i; b = db_elements (s_db t) ! i in
       ei_key b = ei_key a \<and> ei_instance_key b = ei_instance_key a \<and> ei_element_id b = ei_element_id a \<and>
       ei_flow_scope_key b = ei_flow_scope_key a \<and> ei_created_at b = ei_created_at a \<and>
       (ei_state b \<noteq> ei_state a \<longrightarrow> ei_state b \<in> {''COMPLETED'', ''TERMINATED''})"
    using element_step_columns [OF st] by (simp add: Let_def)
next
  note au = served_audit [OF assms]
  fix j
  assume j: "j < length (db_instances (s_db s))"
  with au have "j < length (db_instances (s_db t))" and st: "instance_step (db_instances (s_db s) ! j) (db_instances (s_db t) ! j)"
    by (simp_all add: audit_def grows_def)
  then show "j < length (db_instances (s_db t))" by blast
  show "let p = db_instances (s_db s) ! j; q = db_instances (s_db t) ! j in
       pi_key q = pi_key p \<and> pi_definition_key q = pi_definition_key p \<and> pi_created_at q = pi_created_at p \<and>
       (pi_state p = ''COMPLETED'' \<longrightarrow> pi_state q = ''COMPLETED'')"
    using instance_step_columns [OF st] by (simp add: Let_def)
qed

theorem history_is_kept_witness:
  "ei_key (db_elements (s_db demo_after) ! 0) = ei_key (db_elements demo_db ! 0) \<and>
   ei_state (db_elements demo_db ! 0) = ''ACTIVATED'' \<and> ei_state (db_elements (s_db demo_after) ! 0) = ''COMPLETED'' \<and>
   pi_key (db_instances (s_db demo_after) ! 0) = 7"
proof -
  have b: "s_db demo_before = demo_db" by (simp add: demo_before_def demo_state_def)
  note h = history_is_kept [OF demo_served, unfolded b Let_def]
  have "0 < length (db_elements demo_db)" "0 < length (db_instances demo_db)" by (simp_all add: demo_db_def)
  with h have "ei_key (db_elements (s_db demo_after) ! 0) = ei_key (db_elements demo_db ! 0)"
    "pi_key (db_instances (s_db demo_after) ! 0) = pi_key (db_instances demo_db ! 0)" by blast+
  then show ?thesis
    by (simp add: demo_after_def demo_db_def demo_element_def demo_instance_def)
qed

text \<open>C4: a request that runs as one transaction (starting an instance, completing a task, a token, a job or
  a user task, failing, extending, retrying or claiming a job, publishing an escalation, updating variables)
  either succeeds or changes no table and publishes no event.\<close>

theorem requests_are_atomic:
  assumes "one_transaction q" and "serve env n q s = (r, t)" and "r \<noteq> Ok ()" and "r \<noteq> Diverged"
  shows "s_db t = s_db s \<and> s_bus t = s_bus s \<and> s_buf t = s_buf s"
  using one_transaction_atomic [OF assms(1,2)] assms(3,4) by blast

theorem requests_are_atomic_witness:
  "\<exists>t. serve failing_env 3 demo_request demo_before = (Error DbErr, t) \<and>
     s_db t = demo_db \<and> s_bus t = [] \<and> s_buf t = None"
proof -
  obtain t where t: "serve failing_env 3 demo_request demo_before = (Error DbErr, t)"
    using failing_run by (metis prod.collapse)
  have "one_transaction demo_request" by (simp add: demo_request_def)
  from requests_are_atomic [OF this t] t show ?thesis
    by (simp add: demo_before_def demo_state_def)
qed

text \<open>C5: when a transaction commits, every event the function published while it ran is a row of the
  outbox, and the function ran on the tables as they were when the transaction began, with an empty
  buffer.\<close>

theorem commit_records_events:
  assumes "withTx env fn s = (Ok x, t)"
  shows "\<exists>u v. fn u = (Ok x, v) \<and> s_db u = s_db s \<and> s_buf u = Some [] \<and>
     (\<forall>ev \<in> set (buffered_events v). recorded (s_db t) ev)"
  using assms by (rule withTx_commit)

theorem commit_records_events_witness:
  "recorded (s_db (snd (withTx demo_env (Publish demo_env (JobActivated 5 ''w'' 9) ''JobActivated'') demo_before)))
     (JobActivated 5 ''w'' 9, ''JobActivated'')"
proof -
  let ?fn = "Publish demo_env (JobActivated 5 ''w'' 9) ''JobActivated''"
  obtain t where t: "withTx demo_env ?fn demo_before = (Ok (), t)"
    using publish_run by (metis prod.collapse)
  from commit_records_events [OF t] obtain u v where "?fn u = (Ok (), v)" "s_buf u = Some []"
    "\<forall>ev \<in> set (buffered_events v). recorded (s_db t) ev" by blast
  then have "recorded (s_db t) (JobActivated 5 ''w'' 9, ''JobActivated'')"
    by (auto simp: Publish_def buffered_events_def)
  then show ?thesis by (simp add: t)
qed

text \<open>C6: nothing is published that is not recorded: starting with an empty bus outside a transaction,
  every event that any sequence of requests and administration puts on the bus has a row in the outbox with
  the same type and payload.\<close>

theorem published_events_are_recorded:
  assumes "reaches env s t" and "s_buf s = None" and "s_bus s = []" and "x \<in> set (s_bus t)"
  shows "recorded (s_db t) x"
  using reaches_delivers [OF assms(1)] assms(2-4) by (auto simp: delivers_def)

theorem published_events_are_recorded_witness:
  "recorded (s_db demo_after) (ProcessInstanceCompleted 7 3 1704067200003000000, ''ProcessInstanceCompleted'')"
proof (rule published_events_are_recorded)
  show "reaches demo_env demo_before demo_after"
    by (rule reaches_request [OF reaches_nothing demo_run]) simp
qed (simp_all add: demo_before_def demo_state_def demo_after_def demo_events_def)

text \<open>The outbox is a log. A row that is there stays, with its id, event type, payload and creation
  time, and its count of attempts never falls.\<close>

theorem outbox_rows_stay:
  assumes "served env s t" and "m \<in> set (db_outbox (s_db s))"
  shows "\<exists>m' \<in> set (db_outbox (s_db t)). ob_id m' = ob_id m \<and> ob_event_type m' = ob_event_type m \<and>
     ob_payload m' = ob_payload m \<and> ob_created_at m' = ob_created_at m \<and> ob_attempts m \<le> ob_attempts m'"
proof -
  have "grows outbox_step (db_outbox (s_db s)) (db_outbox (s_db t))"
    using served_audit [OF assms(1)] by (simp add: audit_def)
  from grows_row [OF this assms(2)] show ?thesis by (auto simp: outbox_step_def)
qed

theorem outbox_rows_stay_witness:
  "\<exists>t. serve demo_env 0 (RelayReq 10) demo_pending = (Ok (), t) \<and>
     (\<exists>m \<in> set (db_outbox (s_db t)). ob_id m = ''u9'' \<and> ob_payload m = JobActivated 5 ''w'' 9)"
proof -
  obtain t where t: "serve demo_env 0 (RelayReq 10) demo_pending = (Ok (), t)"
    using relay_run by (metis prod.collapse)
  have s: "served demo_env demo_pending t" by (rule served_request [OF served_nothing t]) simp
  have "outbox_row ''u9'' 5 (JobActivated 5 ''w'' 9, ''JobActivated'') \<in> set (db_outbox (s_db demo_pending))"
    by (simp add: demo_pending_def demo_state_def)
  from outbox_rows_stay [OF s this] t show ?thesis by (auto simp: outbox_row_def)
qed

text \<open>While instances run, the deployed definitions, the decisions, the idempotency keys and the scheduler
  lease are read only, and incidents are only ever added.\<close>

theorem runtime_reads_deployments:
  assumes "served env s t"
  shows "db_processes (s_db t) = db_processes (s_db s) \<and> db_decisions (s_db t) = db_decisions (s_db s) \<and>
     db_idempotency (s_db t) = db_idempotency (s_db s) \<and> db_leases (s_db t) = db_leases (s_db s) \<and>
     (\<exists>new. db_incidents (s_db t) = db_incidents (s_db s) @ new)"
  using served_audit [OF assms] grows_eq_prefix by (auto simp: audit_def)

theorem runtime_reads_deployments_witness: "db_processes (s_db demo_after) = [demo_process]"
  using runtime_reads_deployments [OF demo_served] by (simp add: demo_before_def demo_state_def demo_db_def)

text \<open>Fuel only bounds the depth of calls: a request that returned, with whatever outcome and state, does
  exactly the same with more fuel.\<close>

theorem fuel_is_only_a_bound:
  assumes "serve env n q s = (r, t)" and "r \<noteq> Diverged" and "n \<le> m"
  shows "serve env m q s = (r, t)"
  using approxD [OF serve_mono [OF assms(3)] assms(1,2)] .

theorem fuel_is_only_a_bound_witness: "serve demo_env 1000 demo_request demo_before = (Ok (), demo_after)"
  by (rule fuel_is_only_a_bound [OF demo_run]) simp_all

end
